(* ===== verification/Prelude.thy ===== *)
theory Prelude
  imports Main "HOL-Library.Word" "HOL-Library.AList"
begin

text \<open>
  Shared vocabulary of the development.

  \<^item> \<open>ret\<close>: how a C function ends.  \<open>Ret v\<close> is a normal return, \<open>AssertFail\<close> a failed
    \<open>assert\<close>, \<open>UB\<close> an access the C standard leaves undefined (a read or write outside an
    array, a NULL dereference).
  \<^item> \<open>outcome\<close> and \<open>drive\<close>: the shape of every handler of this repository, a
    \<open>switch\<close> over a state field inside a \<open>start:\<close> label with \<open>goto start\<close>.
    One pass through the \<open>switch\<close> is a function into \<open>outcome\<close>: \<open>Again s\<close> is
    \<open>goto start\<close>, \<open>Exit r s\<close> is \<open>return r\<close>.  \<open>drive\<close> iterates it, and is \<open>None\<close>
    when the handler would never return.
  \<^item> the locale \<open>handler_loop\<close>: the contract of such a handler (an invariant, a
    measure, what holds at every exit), with its consequences proved once.
  \<^item> small lemmas on lists and association lists used by several components.
\<close>

section \<open>Collections of simplification rules\<close>

named_theorems kernel_simps \<open>effect of the modelled system calls on the world\<close>
named_theorems cstring_simps \<open>C string functions\<close>
named_theorems step_defs \<open>the single passes through a handler's switch\<close>

section \<open>How C functions end\<close>

datatype 'a ret = Ret 'a | AssertFail | UB

section \<open>Handlers: a switch inside a goto loop\<close>

datatype ('r, 's) outcome = Again 's | Exit 'r 's

partial_function (option) drive :: "('s \<Rightarrow> ('r, 's) outcome) \<Rightarrow> 's \<Rightarrow> ('r \<times> 's) option" where
  "drive step s = (case step s of Again s' \<Rightarrow> drive step s' | Exit r s' \<Rightarrow> Some (r, s'))"

declare drive.simps [code]

lemma drive_again: "step s = Again s' \<Longrightarrow> drive step s = drive step s'"
  by (simp add: drive.simps [of step s])

lemma drive_exit: "step s = Exit r s' \<Longrightarrow> drive step s = Some (r, s')"
  by (simp add: drive.simps [of step s])

text \<open>
  The contract of a handler: under the invariant \<open>inv\<close> every pass that goes around
  again keeps the invariant and decreases the measure \<open>mu\<close>, and every pass that
  returns establishes \<open>post\<close>.
\<close>

locale handler_loop =
  fixes step :: "'s \<Rightarrow> ('r, 's) outcome"
    and inv :: "'s \<Rightarrow> bool"
    and mu :: "'s \<Rightarrow> nat"
    and post :: "'r \<Rightarrow> 's \<Rightarrow> bool"
  assumes again_inv: "inv s \<Longrightarrow> step s = Again s' \<Longrightarrow> inv s'"
    and again_less: "inv s \<Longrightarrow> step s = Again s' \<Longrightarrow> mu s' < mu s"
    and exit_post: "inv s \<Longrightarrow> step s = Exit r s' \<Longrightarrow> post r s'"
begin

lemma returns_with_post:
  assumes "inv s"
  shows "\<exists>r s'. drive step s = Some (r, s') \<and> post r s'"
  using assms
proof (induction "mu s" arbitrary: s rule: less_induct)
  case less
  show ?case
  proof (cases "step s")
    case (Again t)
    with less.prems have "inv t" "mu t < mu s"
      by (auto intro: again_inv again_less)
    with less.hyps Again show ?thesis
      by (simp add: drive_again)
  next
    case (Exit r t)
    with less.prems show ?thesis
      by (auto simp: drive_exit intro: exit_post)
  qed
qed

lemma returns: "inv s \<Longrightarrow> drive step s \<noteq> None"
  using returns_with_post by fastforce

lemma result_post: "inv s \<Longrightarrow> drive step s = Some (r, s') \<Longrightarrow> post r s'"
  using returns_with_post by fastforce

end

text \<open>
  A relation between the state a handler starts in and the state it ends in, built pass
  by pass: \<open>rel\<close> relates the states around one more \<open>goto start\<close>, \<open>fin\<close> a state and
  the exit reached from it.
\<close>

locale handler_relation = handler_loop +
  fixes rel :: "'a \<Rightarrow> 'a \<Rightarrow> bool"
    and fin :: "'a \<Rightarrow> 'b \<Rightarrow> 'a \<Rightarrow> bool"
  assumes again_rel: "inv s \<Longrightarrow> step s = Again s' \<Longrightarrow> rel s s'"
    and exit_fin: "inv s \<Longrightarrow> step s = Exit r s' \<Longrightarrow> fin s r s'"
    and rel_fin: "rel s s' \<Longrightarrow> fin s' r s'' \<Longrightarrow> fin s r s''"
begin

lemma result_fin:
  assumes "inv s" and "drive step s = Some (r, s')"
  shows "fin s r s'"
  using assms
proof (induction "mu s" arbitrary: s rule: less_induct)
  case less
  show ?case
  proof (cases "step s")
    case (Again t)
    with less.prems have "inv t" "mu t < mu s" "rel s t" "drive step t = Some (r, s')"
      by (auto simp: drive_again intro: again_inv again_less again_rel)
    with less.hyps show ?thesis by (blast intro: rel_fin)
  next
    case (Exit r' t)
    with less.prems show ?thesis
      by (auto simp: drive_exit intro: exit_fin)
  qed
qed

end

section \<open>Lists and association lists\<close>

lemma take_drop_take: "take n xs @ take m (drop n xs) = take (n + m) xs"
  by (simp add: take_add)

lemma take_length_take: "take (length (take n xs)) xs = take n xs"
  by (simp add: min_def)

lemma map_of_alist_delete [simp]:
  "map_of (AList.delete k al) k' = (if k' = k then None else map_of al k')"
  by (simp add: AList.delete_conv')

lemma map_of_alist_update [simp]:
  "map_of (AList.update k v al) k' = (if k' = k then Some v else map_of al k')"
  by (simp add: AList.update_conv')

lemma map_of_alist_map_entry [simp]:
  "map_of (AList.map_entry k f al) k' =
     (if k' = k then map_option f (map_of al k) else map_of al k')"
  by (simp add: AList.map_of_map_entry split: option.splits)

lemma list_all_list_update: "list_all P xs \<Longrightarrow> P y \<Longrightarrow> list_all P (xs[p := y])"
  by (auto simp: list_all_iff dest: set_mp [OF set_update_subset_insert])

lemma list_all_update_alist: "list_all P al \<Longrightarrow> P (k, v) \<Longrightarrow> list_all P (AList.update k v al)"
  by (induction al) auto

end
