(* ===== verification/CString.thy ===== *)
theory CString
  imports Prelude
begin

text \<open>
  The C string functions the code calls, on byte lists.  A byte is a HOL \<open>char\<close>; a
  C string inside a buffer is what precedes the first NUL (\<open>cstr\<close>).
\<close>

abbreviation NUL :: char where "NUL \<equiv> CHR 0x00"
abbreviation CR :: char where "CR \<equiv> CHR 0x0D"
abbreviation LF :: char where "LF \<equiv> CHR 0x0A"
abbreviation crlf :: string where "crlf \<equiv> [CR, LF]"

definition cstr :: "string \<Rightarrow> string" where
  "cstr s = takeWhile (\<lambda>c. c \<noteq> NUL) s"

lemma cstr_simps [simp]:
  "cstr [] = []"
  "cstr (c # s) = (if c = NUL then [] else c # cstr s)"
  by (simp_all add: cstr_def)

lemma cstr_id: "NUL \<notin> set s \<Longrightarrow> cstr s = s"
  by (induction s) auto

lemma cstr_append: "NUL \<notin> set s \<Longrightarrow> cstr (s @ t) = s @ cstr t"
  by (induction s) auto

lemma length_cstr_le: "length (cstr s) \<le> length s"
  by (simp add: cstr_def length_takeWhile_le)

lemma set_cstr: "NUL \<notin> set (cstr s)"
  by (induction s) auto

lemma take_cstr: "\<exists>n. cstr s = take n s"
  by (metis cstr_def takeWhile_eq_take)

section \<open>strcasestr\<close>

definition ascii_lower :: "char \<Rightarrow> char" where
  "ascii_lower c =
     (if 65 \<le> (of_char c :: nat) \<and> (of_char c :: nat) \<le> 90
      then char_of ((of_char c :: nat) + 32) else c)"

fun ci_prefix :: "string \<Rightarrow> string \<Rightarrow> bool" where
  "ci_prefix [] hay = True"
| "ci_prefix (n # needle) [] = False"
| "ci_prefix (n # needle) (h # hay) =
     (ascii_lower n = ascii_lower h \<and> ci_prefix needle hay)"

text \<open>The offset of the first match, the value \<open>strcasestr(hay, needle) - hay\<close>.\<close>

fun find_ci :: "string \<Rightarrow> string \<Rightarrow> nat option" where
  "find_ci [] needle = (if needle = [] then Some 0 else None)"
| "find_ci (h # hay) needle =
     (if ci_prefix needle (h # hay) then Some 0 else map_option Suc (find_ci hay needle))"

definition strcasestr :: "string \<Rightarrow> string \<Rightarrow> nat option" where
  "strcasestr hay needle = find_ci (cstr hay) needle"

lemma ci_prefix_iff: "ci_prefix n h \<longleftrightarrow> length n \<le> length h \<and> map ascii_lower n = map ascii_lower (take (length n) h)"
  by (induction n h rule: ci_prefix.induct) auto

lemma ci_prefix_self [simp]: "ci_prefix n (n @ r)"
  by (simp add: ci_prefix_iff)

lemma find_ci_Some:
  "find_ci h n = Some i \<Longrightarrow> i + length n \<le> length h \<and> ci_prefix n (drop i h)"
proof (induction h arbitrary: i)
  case Nil
  then show ?case by (simp split: if_splits)
next
  case (Cons c h)
  then show ?case
    by (auto simp: ci_prefix_iff split: if_splits)
qed

lemma find_ci_None_iff: "find_ci h n = None \<longleftrightarrow> (\<forall>i\<le>length h. \<not> ci_prefix n (drop i h))"
proof (induction h)
  case Nil
  then show ?case by (cases n) auto
next
  case (Cons c h)
  have "(\<forall>i\<le>length (c # h). \<not> ci_prefix n (drop i (c # h))) \<longleftrightarrow>
        \<not> ci_prefix n (c # h) \<and> (\<forall>i\<le>length h. \<not> ci_prefix n (drop i h))"
    by (auto simp: less_Suc_eq_le dest: spec [of _ 0])
       (metis Suc_le_mono drop_Suc_Cons drop0 old.nat.exhaust)
  with Cons.IH show ?case by auto
qed

lemma find_ci_first:
  assumes "ci_prefix n (drop i h)" and "i \<le> length h"
    and "\<And>j. j < i \<Longrightarrow> \<not> ci_prefix n (drop j h)"
  shows "find_ci h n = Some i"
  using assms
proof (induction h arbitrary: i)
  case Nil
  then show ?case by (cases n) auto
next
  case (Cons c h)
  show ?case
  proof (cases i)
    case 0
    with Cons.prems show ?thesis by simp
  next
    case (Suc k)
    from Cons.prems(3) [of 0] Suc have "\<not> ci_prefix n (c # h)" by simp
    moreover have "find_ci h n = Some k"
    proof (rule Cons.IH)
      show "ci_prefix n (drop k h)" "k \<le> length h" using Cons.prems Suc by auto
      show "\<not> ci_prefix n (drop j h)" if "j < k" for j
        using Cons.prems(3) [of "Suc j"] Suc that by simp
    qed
    ultimately show ?thesis using Suc by simp
  qed
qed

lemma find_ci_earlier:
  "find_ci h n = Some i \<Longrightarrow> j < i \<Longrightarrow> \<not> ci_prefix n (drop j h)"
proof (induction h arbitrary: i j)
  case Nil
  then show ?case by (simp split: if_splits)
next
  case (Cons c h)
  then show ?case by (cases j) (auto split: if_splits)
qed

text \<open>Cutting the text before the end of the first match leaves no match.\<close>

lemma find_ci_take:
  assumes "find_ci h n = Some i" and "m < i + length n"
  shows "find_ci (take m h) n = None"
  unfolding find_ci_None_iff
proof (intro allI impI notI)
  fix j assume j: "j \<le> length (take m h)" and pre: "ci_prefix n (drop j (take m h))"
  have len: "j + length n \<le> m" using pre j by (auto simp: ci_prefix_iff)
  then have "ci_prefix n (drop j h)"
    using pre by (auto simp: ci_prefix_iff drop_take min_def split: if_splits)
  moreover have "j < i" using len assms(2) by simp
  ultimately show False using find_ci_earlier [OF assms(1)] by blast
qed

text \<open>Text without the first character of the needle is skipped.\<close>

lemma find_ci_skip:
  assumes "\<forall>c\<in>set xs. ascii_lower c \<noteq> ascii_lower k"
  shows "find_ci (xs @ ys) (k # n) = map_option ((+) (length xs)) (find_ci ys (k # n))"
  using assms
proof (induction xs)
  case Nil
  then show ?case by (simp add: option.map_ident_strong)
next
  case (Cons x xs)
  then show ?case by (cases "find_ci ys (k # n)") auto
qed

lemma ascii_lower_inject:
  assumes "(of_char k :: nat) < 65"
  shows "ascii_lower c = ascii_lower k \<longleftrightarrow> c = k"
proof
  assume eq: "ascii_lower c = ascii_lower k"
  have k: "ascii_lower k = k" using assms by (simp add: ascii_lower_def)
  show "c = k"
  proof (cases "65 \<le> (of_char c :: nat) \<and> (of_char c :: nat) \<le> 90")
    case True
    then have "(of_char (ascii_lower c) :: nat) = of_char c + 32"
      by (simp add: ascii_lower_def)
    with True eq k assms show ?thesis by simp
  next
    case False
    then have "ascii_lower c = c" by (auto simp: ascii_lower_def)
    with eq k show ?thesis by simp
  qed
qed simp

lemma find_ci_take_None:
  assumes "find_ci h n = None"
  shows "find_ci (take m h) n = None"
  unfolding find_ci_None_iff
proof (intro allI impI notI)
  fix j assume j: "j \<le> length (take m h)" and pre: "ci_prefix n (drop j (take m h))"
  then have "j + length n \<le> m" by (auto simp: ci_prefix_iff)
  then have "ci_prefix n (drop j h)"
    using pre j by (auto simp: ci_prefix_iff drop_take min_def split: if_splits)
  with assms j show False by (auto simp: find_ci_None_iff)
qed

lemma find_ci_here: "ci_prefix n h \<Longrightarrow> h \<noteq> [] \<Longrightarrow> find_ci h n = Some 0"
  by (cases h) auto

section \<open>strstr, g_strsplit, fgets\<close>

fun cs_prefix :: "string \<Rightarrow> string \<Rightarrow> bool" where
  "cs_prefix [] hay = True"
| "cs_prefix (n # needle) [] = False"
| "cs_prefix (n # needle) (h # hay) = (n = h \<and> cs_prefix needle hay)"

fun find_cs :: "string \<Rightarrow> string \<Rightarrow> nat option" where
  "find_cs [] needle = (if needle = [] then Some 0 else None)"
| "find_cs (h # hay) needle =
     (if cs_prefix needle (h # hay) then Some 0 else map_option Suc (find_cs hay needle))"

definition strstr :: "string \<Rightarrow> string \<Rightarrow> nat option" where
  "strstr hay needle = find_cs (cstr hay) needle"

lemma cs_prefix_iff: "cs_prefix n h \<longleftrightarrow> (\<exists>r. h = n @ r)"
  by (induction n h rule: cs_prefix.induct) auto

lemma cs_prefix_self [simp]: "cs_prefix n (n @ r)"
  by (auto simp: cs_prefix_iff)

lemma find_cs_Some:
  "find_cs h n = Some i \<Longrightarrow> i + length n \<le> length h \<and> (\<exists>r. drop i h = n @ r)"
proof (induction h arbitrary: i)
  case Nil
  then show ?case by (simp split: if_splits)
next
  case (Cons c h)
  show ?case
  proof (cases "cs_prefix n (c # h)")
    case True
    then obtain r where "c # h = n @ r" by (auto simp: cs_prefix_iff)
    then have "length n \<le> length (c # h)" by (metis length_append le_add1)
    with True Cons.prems show ?thesis by (auto simp: cs_prefix_iff)
  next
    case False
    with Cons.prems obtain k where k: "find_cs h n = Some k" "i = Suc k" by auto
    with Cons.IH [OF k(1)] show ?thesis by auto
  qed
qed

text \<open>
  \<open>g_strsplit\<close> at a delimiter, into at most \<open>m\<close> tokens (\<open>m = 0\<close>: any number); the last
  token keeps the rest.  The empty string has no tokens.
\<close>

function split_tokens :: "string \<Rightarrow> nat \<Rightarrow> string \<Rightarrow> string list" where
  "split_tokens d m s =
     (if d = [] \<or> m = 1 then [s]
      else case find_cs s d of
        None \<Rightarrow> [s]
      | Some i \<Rightarrow> take i s # split_tokens d (m - 1) (drop (i + length d) s))"
  by auto
termination
proof (relation "measure (\<lambda>(d, m, s). length s)")
  fix d :: string and m :: nat and s i
  assume "\<not> (d = [] \<or> m = 1)" "find_cs s d = Some i"
  then have "d \<noteq> []" "i + length d \<le> length s" by (auto dest: find_cs_Some)
  then show "((d, m - 1, drop (i + length d) s), d, m, s) \<in> measure (\<lambda>(d, m, s). length s)"
    by (cases d) auto
qed simp

declare split_tokens.simps [simp del]

definition g_strsplit :: "string \<Rightarrow> string \<Rightarrow> nat \<Rightarrow> string list" where
  "g_strsplit s d m = (if cstr s = [] then [] else split_tokens d m (cstr s))"

text \<open>\<open>fgets\<close> with room for \<open>n\<close> characters: up to and including the newline.\<close>

fun fgets_one :: "nat \<Rightarrow> string \<Rightarrow> string \<times> string" where
  "fgets_one 0 s = ([], s)"
| "fgets_one (Suc n) [] = ([], [])"
| "fgets_one (Suc n) (c # s) =
     (if c = LF then ([c], s) else (case fgets_one n s of (a, b) \<Rightarrow> (c # a, b)))"

lemma fgets_one_append: "fgets_one n s = (a, b) \<Longrightarrow> s = a @ b"
  by (induction n s arbitrary: a b rule: fgets_one.induct) (auto split: if_splits prod.splits)

lemma fgets_one_nonempty: "fgets_one (Suc n) (c # s) = (a, b) \<Longrightarrow> a \<noteq> []"
  by (auto split: if_splits prod.splits)

lemma fgets_one_length:
  assumes "(a, b) = fgets_one (Suc n) s" "s \<noteq> []"
  shows "length b < length s"
proof -
  from assms(2) obtain c t where s: "s = c # t" by (cases s) auto
  have ab: "fgets_one (Suc n) (c # t) = (a, b)" using assms(1) s by simp
  have "a \<noteq> []" by (rule fgets_one_nonempty [OF ab])
  moreover have "s = a @ b" using fgets_one_append [OF ab] s by simp
  ultimately show ?thesis by simp
qed

function fgets_lines :: "nat \<Rightarrow> string \<Rightarrow> string list" where
  "fgets_lines n s =
     (if s = [] then [] else case fgets_one (Suc n) s of (a, b) \<Rightarrow> a # fgets_lines n b)"
  by auto
termination
  by (relation "measure (\<lambda>(n, s). length s)") (auto dest: fgets_one_length simp del: fgets_one.simps)

declare fgets_lines.simps [simp del]

lemma concat_fgets_lines: "concat (fgets_lines n s) = s"
proof (induction n s rule: fgets_lines.induct)
  case (1 n s)
  show ?case
  proof (cases "s = []")
    case False
    obtain a b where ab: "fgets_one (Suc n) s = (a, b)" by fastforce
    with 1 False show ?thesis
      using fgets_one_append [OF ab] by (subst fgets_lines.simps) simp
  qed (simp add: fgets_lines.simps)
qed

section \<open>Tokens\<close>

lemma find_cs_skip: "k \<notin> set xs \<Longrightarrow> find_cs (xs @ ys) (k # n) = map_option ((+) (length xs)) (find_cs ys (k # n))"
proof (induction xs)
  case Nil
  then show ?case by (simp add: option.map_ident_strong)
next
  case (Cons x xs)
  then show ?case by (cases "find_cs ys (k # n)") auto
qed

lemma find_cs_absent: "c \<notin> set xs \<Longrightarrow> c \<in> set n \<Longrightarrow> find_cs xs n = None"
proof (induction xs)
  case (Cons x xs)
  then have "\<not> cs_prefix n (x # xs)" by (metis Un_iff cs_prefix_iff set_append)
  with Cons show ?case by simp
qed auto

lemma split_first:
  assumes "k \<notin> set a" "m \<noteq> 1"
  shows "split_tokens (k # n) m (a @ (k # n) @ s) = a # split_tokens (k # n) (m - 1) s"
proof -
  have "find_cs ((k # n) @ s) (k # n) = Some 0" by (simp add: cs_prefix_iff)
  then have "find_cs (a @ (k # n) @ s) (k # n) = Some (length a)"
    using find_cs_skip [OF assms(1), of "(k # n) @ s" n] by (simp del: append_Cons)
  with assms(2) show ?thesis by (subst split_tokens.simps) simp
qed

lemma split_last: "find_cs s d = None \<Longrightarrow> split_tokens d m s = [s]"
  by (subst split_tokens.simps) simp

lemma find_cs_append: "find_cs s n = Some i \<Longrightarrow> find_cs (s @ t) n = Some i"
proof (induction s arbitrary: i)
  case (Cons c s)
  show ?case
  proof (cases "cs_prefix n (c # s)")
    case True
    then obtain r where "c # s = n @ r" by (auto simp: cs_prefix_iff)
    then have "c # s @ t = n @ r @ t" by (metis append_Cons append_assoc)
    then have "cs_prefix n (c # s @ t)" unfolding cs_prefix_iff by blast
    with Cons.prems True show ?thesis by simp
  next
    case False
    then obtain k where k: "find_cs s n = Some k" "i = Suc k" using Cons.prems by auto
    have "length n \<le> length s" using find_cs_Some [OF k(1)] by simp
    then have "\<not> cs_prefix n (c # s @ t)"
    proof (intro notI)
      assume "cs_prefix n (c # s @ t)"
      then obtain r where "c # s @ t = n @ r" by (auto simp: cs_prefix_iff)
      then have "take (length n) ((c # s) @ t) = n" by simp
      moreover have "take (length n) ((c # s) @ t) = take (length n) (c # s)"
        using \<open>length n \<le> length s\<close> by (simp only: take_append) simp
      ultimately have "take (length n) (c # s) = n" by simp
      then have "\<exists>r'. c # s = n @ r'" by (metis append_take_drop_id)
      with False show False by (simp add: cs_prefix_iff)
    qed
    with Cons.IH [OF k(1)] k show ?thesis by simp
  qed
qed (cases t; auto split: if_splits)

lemma split_nonempty: "split_tokens d m s \<noteq> []"
  by (subst split_tokens.simps) (simp split: option.split)

lemma split_last_part:
  "set (last (split_tokens d m s)) \<subseteq> set s" "length (last (split_tokens d m s)) \<le> length s"
proof (induction d m s rule: split_tokens.induct)
  case (1 d m s)
  {
    case 1
    with "1.IH" show ?case by (subst split_tokens.simps) (auto simp: split_nonempty split: option.splits dest: in_set_dropD)
  next
    case 2
    with "1.IH" show ?case by (subst split_tokens.simps) (fastforce simp: split_nonempty split: option.splits)
  }
qed

lemma split_continue:
  "d \<noteq> [] \<Longrightarrow> split_tokens d 0 (s @ t) = butlast (split_tokens d 0 s) @ split_tokens d 0 (last (split_tokens d 0 s) @ t)"
proof (induction "length s" arbitrary: s rule: less_induct)
  case less
  show ?case
  proof (cases "find_cs s d")
    case None
    with less.prems show ?thesis by (simp add: split_tokens.simps [of d 0 s])
  next
    case (Some i)
    have i: "i + length d \<le> length s" using find_cs_Some [OF Some] by simp
    let ?r = "drop (i + length d) s"
    have "length ?r < length s" using less.prems i by (cases d) auto
    from less.hyps [OF this less.prems]
    have "split_tokens d 0 (?r @ t) = butlast (split_tokens d 0 ?r) @ split_tokens d 0 (last (split_tokens d 0 ?r) @ t)" .
    moreover have "split_tokens d 0 s = take i s # split_tokens d 0 ?r"
      using Some less.prems by (simp add: split_tokens.simps [of d 0 s])
    moreover have "split_tokens d 0 (s @ t) = take i s # split_tokens d 0 (?r @ t)"
      using find_cs_append [OF Some, of t] less.prems i by (simp add: split_tokens.simps [of d 0 "s @ t"])
    ultimately show ?thesis by (simp add: split_nonempty)
  qed
qed

end
