(* ===== verification/CNumber.thy ===== *)
theory CNumber
  imports CString
begin

text \<open>
  Decimal output (\<open>%zu\<close>, \<open>%d\<close>) and the conversions \<open>strtol\<close> and \<open>atoi\<close>, with
  the round trip the HTTP header of the file transfer relies on.  \<open>atoi\<close> is glibc's:
  \<open>strtol\<close> saturated to 64 bits, then truncated to a 32-bit \<open>int\<close>.
\<close>

section \<open>Printing\<close>

definition dec_digit :: "nat \<Rightarrow> char" where
  "dec_digit d = char_of (48 + d)"

fun show_nat :: "nat \<Rightarrow> string" where
  "show_nat n = (if n < 10 then [dec_digit n] else show_nat (n div 10) @ [dec_digit (n mod 10)])"

declare show_nat.simps [simp del]

definition show_int :: "int \<Rightarrow> string" where
  "show_int i = (if i < 0 then CHR ''-'' # show_nat (nat (- i)) else show_nat (nat i))"

section \<open>Parsing\<close>

definition isspace :: "char \<Rightarrow> bool" where
  "isspace c \<longleftrightarrow> c = CHR '' '' \<or> (9 \<le> (of_char c :: nat) \<and> (of_char c :: nat) \<le> 13)"

definition isdigit :: "char \<Rightarrow> bool" where
  "isdigit c \<longleftrightarrow> 48 \<le> (of_char c :: nat) \<and> (of_char c :: nat) \<le> 57"

text \<open>Value of a digit in bases up to 36, as \<open>strtol\<close> reads it.\<close>

definition digit_val :: "char \<Rightarrow> nat option" where
  "digit_val c = (let k = of_char c :: nat in
     if 48 \<le> k \<and> k \<le> 57 then Some (k - 48)
     else if 65 \<le> k \<and> k \<le> 90 then Some (k - 55)
     else if 97 \<le> k \<and> k \<le> 122 then Some (k - 87)
     else None)"

fun read_digits :: "nat \<Rightarrow> nat \<Rightarrow> string \<Rightarrow> nat" where
  "read_digits base acc [] = acc"
| "read_digits base acc (c # s) =
     (case digit_val c of
        None \<Rightarrow> acc
      | Some d \<Rightarrow> if d < base then read_digits base (acc * base + d) s else acc)"

fun strtol_digits :: "nat \<Rightarrow> string \<Rightarrow> nat" where
  "strtol_digits base s =
     (if base = 16 \<and> ci_prefix ''0x'' s \<and>
         (case drop 2 s of c # _ \<Rightarrow> (case digit_val c of Some d \<Rightarrow> d < 16 | None \<Rightarrow> False) | [] \<Rightarrow> False)
      then read_digits base 0 (drop 2 s) else read_digits base 0 s)"

text \<open>The 64-bit result: saturated on overflow.\<close>

definition strtol :: "nat \<Rightarrow> string \<Rightarrow> int" where
  "strtol base s =
     (let t = dropWhile isspace (cstr s);
          v = (case t of
                 [] \<Rightarrow> 0
               | c # u \<Rightarrow> if c = CHR ''-'' then - int (strtol_digits base u)
                          else if c = CHR ''+'' then int (strtol_digits base u)
                          else int (strtol_digits base t))
      in max (- (2 ^ 63)) (min (2 ^ 63 - 1) v))"

definition atoi :: "string \<Rightarrow> int" where
  "atoi s = signed_take_bit 31 (strtol 10 s)"

text \<open>\<open>g_ascii_strtoull\<close>: saturated, and negated modulo \<open>2 ^ 64\<close> after a minus sign.\<close>

definition strtoull :: "nat \<Rightarrow> string \<Rightarrow> 64 word" where
  "strtoull base s =
     (let t = dropWhile isspace (cstr s);
          value_of = (\<lambda>u. let v = strtol_digits base u in if 2 ^ 64 \<le> v then None else Some (of_nat v :: 64 word))
      in case t of
           [] \<Rightarrow> 0
         | c # u \<Rightarrow>
             if c = CHR ''-'' then (case value_of u of None \<Rightarrow> - 1 | Some v \<Rightarrow> - v)
             else (case value_of (if c = CHR ''+'' then u else t) of None \<Rightarrow> - 1 | Some v \<Rightarrow> v))"

section \<open>Round trip\<close>

lemma of_char_dec_digit [simp]: "d < 10 \<Longrightarrow> (of_char (dec_digit d) :: nat) = 48 + d"
  by (simp add: dec_digit_def)

lemma digit_val_dec_digit [simp]: "d < 10 \<Longrightarrow> digit_val (dec_digit d) = Some d"
  by (simp add: digit_val_def)

lemma show_nat_nonempty: "show_nat n \<noteq> []"
  by (subst show_nat.simps) simp

lemma length_show_nat_less: "n < 10 ^ Suc k \<Longrightarrow> length (show_nat n) \<le> Suc k"
proof (induction k arbitrary: n)
  case 0
  then show ?case by (simp add: show_nat.simps)
next
  case (Suc k)
  then have "n div 10 < 10 ^ Suc k" by (simp add: less_mult_imp_div_less mult.commute)
  with Suc.IH [of "n div 10"] show ?case by (simp add: show_nat.simps [of n])
qed

lemma set_show_nat: "set (show_nat n) \<subseteq> dec_digit ` {..<10}"
proof (induction n rule: show_nat.induct)
  case (1 n)
  then show ?case by (subst show_nat.simps) auto
qed

lemma read_digits_show_nat:
  "read_digits 10 acc (show_nat n @ r) = read_digits 10 (acc * 10 ^ length (show_nat n) + n) r"
proof (induction n arbitrary: acc r rule: show_nat.induct)
  case (1 n)
  show ?case
  proof (cases "n < 10")
    case True
    then show ?thesis by (simp add: show_nat.simps)
  next
    case False
    then have split: "show_nat n = show_nat (n div 10) @ [dec_digit (n mod 10)]"
      by (subst show_nat.simps) simp
    have "n mod 10 + n div 10 * 10 = n" by simp
    with 1 [OF False] show ?thesis
      unfolding split by (simp add: algebra_simps)
  qed
qed

definition no_leading_digit :: "string \<Rightarrow> bool" where
  "no_leading_digit r \<longleftrightarrow> (case r of [] \<Rightarrow> True | c # _ \<Rightarrow> \<not> isdigit c)"

lemma read_digits_stop:
  "no_leading_digit r \<Longrightarrow> read_digits 10 acc r = acc"
  by (cases r)
     (auto simp: no_leading_digit_def isdigit_def digit_val_def Let_def)

lemma dec_digit_neq:
  assumes "d < 10" and "(of_char c :: nat) < 48 \<or> 57 < (of_char c :: nat)"
  shows "dec_digit d \<noteq> c"
proof
  assume "dec_digit d = c"
  then have "(of_char c :: nat) = 48 + d" using assms(1) by auto
  with assms show False by auto
qed

lemma show_nat_avoids:
  assumes "(of_char c :: nat) < 48 \<or> 57 < (of_char c :: nat)"
  shows "c \<notin> set (show_nat n)"
  using assms set_show_nat [of n] dec_digit_neq by blast

lemma show_nat_Cons: "\<exists>d u. show_nat n = dec_digit d # u \<and> d < 10"
  using show_nat_nonempty [of n] set_show_nat [of n]
  by (cases "show_nat n") auto

lemma strtol_show_nat:
  assumes "no_leading_digit r"
  shows "strtol 10 (show_nat n @ r) = min (2 ^ 63 - 1) (int n)"
proof -
  obtain d u where u: "show_nat n = dec_digit d # u" and d: "d < 10"
    using show_nat_Cons by blast
  have nz: "NUL \<notin> set (show_nat n)" by (rule show_nat_avoids) simp
  have nsp: "\<not> isspace (dec_digit d)"
    using d dec_digit_neq [of d "CHR '' ''"] by (auto simp: isspace_def)
  have neq: "dec_digit d \<noteq> CHR ''-''" "dec_digit d \<noteq> CHR ''+''"
    using d dec_digit_neq [of d "CHR ''-''"] dec_digit_neq [of d "CHR ''+''"] by auto
  have c: "cstr (show_nat n @ r) = show_nat n @ cstr r"
    using nz by (rule cstr_append)
  have nld: "no_leading_digit (cstr r)"
    using assms by (cases r) (auto simp: no_leading_digit_def)
  have "read_digits 10 0 (show_nat n @ cstr r) = n"
    using nld by (simp add: read_digits_show_nat read_digits_stop)
  with c u nsp neq show ?thesis
    by (simp add: strtol_def)
qed

lemma atoi_show_nat:
  assumes "no_leading_digit r" and "n < 2 ^ 31"
  shows "atoi (show_nat n @ r) = int n"
proof -
  have "strtol 10 (show_nat n @ r) = int n"
    using assms by (simp add: strtol_show_nat)
  moreover have "signed_take_bit 31 (int n) = int n"
    using assms(2) by (intro signed_take_bit_int_eq_self) auto
  ultimately show ?thesis by (simp add: atoi_def)
qed

section \<open>Network order and \<open>inet_aton\<close>\<close>

text \<open>\<open>htons\<close> and \<open>htonl\<close> on a little-endian machine swap the bytes.\<close>

definition htons :: "16 word \<Rightarrow> 16 word" where
  "htons x = of_nat (unat x mod 256 * 256 + unat x div 256)"

definition htonl :: "32 word \<Rightarrow> 32 word" where
  "htonl x = (let n = unat x in of_nat (n mod 256 * 2 ^ 24 + n div 2 ^ 8 mod 256 * 2 ^ 16
                                        + n div 2 ^ 16 mod 256 * 2 ^ 8 + n div 2 ^ 24))"

text \<open>One part of the dotted notation: decimal, octal or hexadecimal, all digits.\<close>

definition all_digits :: "nat \<Rightarrow> string \<Rightarrow> bool" where
  "all_digits base s \<longleftrightarrow>
     s \<noteq> [] \<and> list_all (\<lambda>c. case digit_val c of None \<Rightarrow> False | Some d \<Rightarrow> d < base) s"

definition addr_part :: "string \<Rightarrow> nat option" where
  "addr_part s =
     (if ci_prefix ''0x'' s then (if all_digits 16 (drop 2 s) then Some (read_digits 16 0 (drop 2 s)) else None)
      else if 1 < length s \<and> hd s = CHR ''0''
      then (if all_digits 8 s then Some (read_digits 8 0 s) else None)
      else if all_digits 10 s then Some (read_digits 10 0 s) else None)"

fun addr_parts :: "string list \<Rightarrow> nat list option" where
  "addr_parts [] = Some []"
| "addr_parts (p # ps) =
     (case addr_part p of None \<Rightarrow> None | Some n \<Rightarrow> map_option ((#) n) (addr_parts ps))"

text \<open>All parts but the last are bytes; the last fills what is left of the 32 bits.\<close>

definition addr_value :: "nat list \<Rightarrow> nat option" where
  "addr_value ns =
     (let k = length ns; hi = butlast ns; lo = last ns in
      if k = 0 \<or> 4 < k \<or> (\<exists>n\<in>set hi. 255 < n) \<or> 256 ^ (5 - k) \<le> lo then None
      else Some (foldr (\<lambda>(i, n) acc. n * 256 ^ (3 - i) + acc) (zip [0..<k] hi) lo))"

definition inet_aton :: "string \<Rightarrow> 32 word option" where
  "inet_aton s =
     map_option (\<lambda>n. htonl (of_nat n))
       (Option.bind (addr_parts (split_tokens ''.'' 0 (takeWhile (\<lambda>c. \<not> isspace c) (cstr s)))) addr_value)"

section \<open>Hexadecimal output (\<open>%8.8X\<close>)\<close>

definition hex_digit :: "nat \<Rightarrow> char" where
  "hex_digit d = (if d < 10 then char_of (48 + d) else char_of (55 + d))"

fun hex_digits :: "nat \<Rightarrow> nat \<Rightarrow> string" where
  "hex_digits 0 v = []"
| "hex_digits (Suc n) v = hex_digits n (v div 16) @ [hex_digit (v mod 16)]"

definition show_cookie :: "32 word \<Rightarrow> string" where
  "show_cookie c = hex_digits 8 (unat c)"

lemma length_hex_digits [simp]: "length (hex_digits n v) = n"
  by (induction n arbitrary: v) auto

lemma length_show_cookie [simp]: "length (show_cookie c) = 8"
  by (simp add: show_cookie_def)

lemma digit_val_hex_digit: "d < 16 \<Longrightarrow> digit_val (hex_digit d) = Some d"
  by (auto simp: hex_digit_def digit_val_def Let_def)

lemma hex_digit_char: "d < 16 \<Longrightarrow> (of_char (hex_digit d) :: nat) = (if d < 10 then 48 + d else 55 + d)"
  by (simp add: hex_digit_def)

lemma set_hex_digits: "set (hex_digits n v) \<subseteq> hex_digit ` {..<16}"
proof (induction n arbitrary: v)
  case (Suc n)
  have "hex_digit (v mod 16) \<in> hex_digit ` {..<16}" by (rule imageI) simp
  with Suc show ?case by simp
qed simp

lemma read_digits_hex:
  "read_digits 16 acc (hex_digits n v @ r) = read_digits 16 (acc * 16 ^ n + v mod 16 ^ n) r"
proof (induction n arbitrary: acc v r)
  case (Suc n)
  have eq: "(acc * 16 ^ n + v div 16 mod 16 ^ n) * 16 + v mod 16 = acc * 16 ^ Suc n + v mod 16 ^ Suc n"
    by (simp add: mod_mult2_eq)
  have "read_digits 16 acc (hex_digits (Suc n) v @ r) =
      read_digits 16 ((acc * 16 ^ n + v div 16 mod 16 ^ n) * 16 + v mod 16) r"
    by (simp add: Suc.IH digit_val_hex_digit)
  then show ?case by (simp only: eq)
qed simp

lemma hex_digit_facts:
  assumes "d < 16"
  shows "\<not> isspace (hex_digit d)" "hex_digit d \<noteq> CHR ''-''" "hex_digit d \<noteq> CHR ''+''" "hex_digit d \<noteq> NUL"
    "ascii_lower (hex_digit d) \<noteq> CHR ''x''"
proof -
  have c: "(of_char (hex_digit d) :: nat) = (if d < 10 then 48 + d else 55 + d)"
    using assms by (rule hex_digit_char)
  have ne: "hex_digit d \<noteq> k" if "(of_char k :: nat) < 48" for k
    using c that by (auto split: if_splits)
  show "hex_digit d \<noteq> CHR ''-''" "hex_digit d \<noteq> CHR ''+''" "hex_digit d \<noteq> NUL" by (rule ne; simp)+
  show "\<not> isspace (hex_digit d)" using c ne [of "CHR '' ''"] by (auto simp: isspace_def split: if_splits)
  show "ascii_lower (hex_digit d) \<noteq> CHR ''x''"
  proof
    assume "ascii_lower (hex_digit d) = CHR ''x''"
    then have "(of_char (ascii_lower (hex_digit d)) :: nat) = 120" by simp
    then show False using c assms by (auto simp: ascii_lower_def split: if_splits)
  qed
qed

lemma in_range_64: "0 \<le> i \<Longrightarrow> i < 2 ^ 32 \<Longrightarrow> max (- (2 ^ 63)) (min (2 ^ 63 - 1) i) = (i :: int)"
  by simp

lemma strtol_plain:
  assumes "cstr s = k # t" "\<not> isspace k" "k \<noteq> CHR ''-''" "k \<noteq> CHR ''+''"
  shows "strtol base s = max (- (2 ^ 63)) (min (2 ^ 63 - 1) (int (strtol_digits base (k # t))))"
  using assms by (simp add: strtol_def del: strtol_digits.simps)

end
