(* ===== verification/Kernel.thy ===== *)
theory Kernel
  imports CNumber
begin

text \<open>
  The operating system as the plug-ins see it.

  A call whose outcome the program cannot predict takes its answer from a queue of the
  world: what \<open>recv\<close> finds in the socket, how much \<open>send\<close> takes, which descriptor
  \<open>accept\<close> or \<open>socket\<close> hands out, what the clock shows, what \<open>rand\<close> draws.  Every
  finite run against a kernel is a run against some contents of these queues, and a
  statement for all worlds is one for all behaviours of the kernel.  An empty queue is the
  quiet kernel: nothing to receive, no room to send, nothing to accept
  (\<open>EWOULDBLOCK\<close>), a call that has only success or failure succeeds.

  What the program does to its environment is appended to the log \<open>w_log\<close>.
\<close>

type_synonym fd = int
type_synonym u64 = "64 word"
type_synonym u32 = "32 word"
type_synonym u16 = "16 word"

datatype errno = EWOULDBLOCK | ENOTCONN | EALREADY | EINPROGRESS | EOTHER

datatype recv_answer = RData string | RErr errno

datatype send_answer = SOk nat | SErr errno

datatype epoll_ev = EPOLLIN | EPOLLOUT

datatype epoll_op = CtlAdd | CtlMod | CtlDel

datatype effect =
    Sent fd string
  | Epoll epoll_op fd "epoll_ev list"
  | Closed fd
  | Connecting fd u32 u16
  | Listening fd u32 u16
  | FileClosed
  | FileWrote string
  | Callback nat

record timespec =
  tv_sec :: int
  tv_nsec :: int

text \<open>A file on disk; reading fails at offset \<open>fi_fail\<close> where there is one.\<close>

record file_image =
  fi_content :: string
  fi_fail :: "nat option"

record world =
  w_recv :: "recv_answer list"
  w_send :: "send_answer list"
  w_accept :: "(errno + fd \<times> u32) list"
  w_socket :: "(errno + fd) list"
  w_connect :: "errno option list"
  w_ctl :: "bool list"
  w_close :: "bool list"
  w_fopen :: "bool list"
  w_fwrite :: "nat list"
  w_clock :: "timespec list"
  w_rand :: "nat list"
  w_files :: "(string \<times> file_image) list"
  w_log :: "effect list"

definition quiet_world :: world where
  "quiet_world = \<lparr>w_recv = [], w_send = [], w_accept = [], w_socket = [], w_connect = [],
     w_ctl = [], w_close = [], w_fopen = [], w_fwrite = [], w_clock = [], w_rand = [],
     w_files = [], w_log = []\<rparr>"

definition emit :: "effect \<Rightarrow> world \<Rightarrow> world" where
  "emit e w = w\<lparr>w_log := w_log w @ [e]\<rparr>"

section \<open>Sockets\<close>

text \<open>
  \<open>recv\<close> with room for \<open>n\<close> bytes: at most \<open>n\<close> bytes of what has arrived, the rest
  stays in the socket.  The empty result is the end of the stream, or \<open>n = 0\<close>.  The end is given
  once for each empty message in the queue; a kernel that repeats it for ever is another function.
\<close>

definition sys_recv :: "nat \<Rightarrow> world \<Rightarrow> (errno + string) \<times> world" where
  "sys_recv n w =
     (case w_recv w of
        [] \<Rightarrow> (Inl EWOULDBLOCK, w)
      | RErr e # q \<Rightarrow> (Inl e, w\<lparr>w_recv := q\<rparr>)
      | RData bs # q \<Rightarrow>
          if n = 0 then (Inr [], w)
          else if length bs \<le> n then (Inr bs, w\<lparr>w_recv := q\<rparr>)
          else (Inr (take n bs), w\<lparr>w_recv := RData (drop n bs) # q\<rparr>))"

text \<open>
  \<open>send\<close> of \<open>bs\<close>: the number of bytes taken, at most \<open>length bs\<close>; sending no bytes
  returns 0.
\<close>

definition sys_send :: "fd \<Rightarrow> string \<Rightarrow> world \<Rightarrow> (errno + nat) \<times> world" where
  "sys_send sd bs w =
     (case w_send w of
        [] \<Rightarrow> (if bs = [] then Inr 0 else Inl EWOULDBLOCK, w)
      | SErr e # q \<Rightarrow> (Inl e, w\<lparr>w_send := q\<rparr>)
      | SOk k # q \<Rightarrow>
          (let m = min k (length bs); w' = w\<lparr>w_send := q\<rparr>
           in (Inr m, if m = 0 then w' else emit (Sent sd (take m bs)) w')))"

definition sys_accept :: "world \<Rightarrow> (errno + fd \<times> u32) \<times> world" where
  "sys_accept w =
     (case w_accept w of [] \<Rightarrow> (Inl EWOULDBLOCK, w) | a # q \<Rightarrow> (a, w\<lparr>w_accept := q\<rparr>))"

definition sys_socket :: "world \<Rightarrow> (errno + fd) \<times> world" where
  "sys_socket w =
     (case w_socket w of [] \<Rightarrow> (Inl EOTHER, w) | a # q \<Rightarrow> (a, w\<lparr>w_socket := q\<rparr>))"

text \<open>A non-blocking \<open>connect\<close> with an empty queue is in progress.\<close>

definition sys_connect :: "fd \<Rightarrow> u32 \<Rightarrow> u16 \<Rightarrow> world \<Rightarrow> errno option \<times> world" where
  "sys_connect sd addr port w =
     (let (a, w') = (case w_connect w of
                       [] \<Rightarrow> (Some EINPROGRESS, w) | a # q \<Rightarrow> (a, w\<lparr>w_connect := q\<rparr>))
      in (a, emit (Connecting sd addr port) w'))"

definition epoll_ctl :: "epoll_op \<Rightarrow> fd \<Rightarrow> epoll_ev list \<Rightarrow> world \<Rightarrow> bool \<times> world" where
  "epoll_ctl op sd evs w =
     (let (ok, w') = (case w_ctl w of [] \<Rightarrow> (True, w) | b # q \<Rightarrow> (b, w\<lparr>w_ctl := q\<rparr>))
      in (ok, emit (Epoll op sd evs) w'))"

definition sys_close :: "fd \<Rightarrow> world \<Rightarrow> bool \<times> world" where
  "sys_close sd w =
     (let (ok, w') = (case w_close w of [] \<Rightarrow> (True, w) | b # q \<Rightarrow> (b, w\<lparr>w_close := q\<rparr>))
      in (ok, emit (Closed sd) w'))"

text \<open>
  \<open>bind\<close> and \<open>listen\<close> take their success or failure from the same queue as
  \<open>epoll_ctl\<close>, in call order.
\<close>

definition sys_bind :: "fd \<Rightarrow> world \<Rightarrow> bool \<times> world" where
  "sys_bind sd w = (case w_ctl w of [] \<Rightarrow> (True, w) | b # q \<Rightarrow> (b, w\<lparr>w_ctl := q\<rparr>))"

definition sys_listen :: "fd \<Rightarrow> u32 \<Rightarrow> u16 \<Rightarrow> world \<Rightarrow> bool \<times> world" where
  "sys_listen sd addr port w =
     (let (ok, w') = (case w_ctl w of [] \<Rightarrow> (True, w) | b # q \<Rightarrow> (b, w\<lparr>w_ctl := q\<rparr>))
      in (ok, if ok then emit (Listening sd addr port) w' else w'))"

section \<open>Clock and random numbers\<close>

definition clock_gettime :: "world \<Rightarrow> timespec \<times> world" where
  "clock_gettime w =
     (case w_clock w of
        [] \<Rightarrow> (\<lparr>tv_sec = 0, tv_nsec = 0\<rparr>, w)
      | [t] \<Rightarrow> (t, w)
      | t # q \<Rightarrow> (t, w\<lparr>w_clock := q\<rparr>))"

definition sys_rand :: "world \<Rightarrow> nat \<times> world" where
  "sys_rand w = (case w_rand w of [] \<Rightarrow> (0, w) | r # q \<Rightarrow> (r, w\<lparr>w_rand := q\<rparr>))"

text \<open>A difference of times: the \<open>while\<close> loop brings \<open>tv_nsec\<close> back into range.\<close>

definition NSEC :: int where "NSEC = 1000000000"

function ts_borrow :: "timespec \<Rightarrow> timespec" where
  "ts_borrow t =
     (if tv_nsec t < 0 then ts_borrow \<lparr>tv_sec = tv_sec t - 1, tv_nsec = tv_nsec t + NSEC\<rparr> else t)"
  by auto
termination by (relation "measure (\<lambda>t. nat (- tv_nsec t))") (auto simp: NSEC_def)

declare ts_borrow.simps [simp del]

definition ts_minus :: "timespec \<Rightarrow> timespec \<Rightarrow> timespec" where
  "ts_minus a b = ts_borrow \<lparr>tv_sec = tv_sec a - tv_sec b, tv_nsec = tv_nsec a - tv_nsec b\<rparr>"

text \<open>\<open>TIME_TO_NS\<close>, with a 64-bit \<open>long\<close> that does not overflow before the year 2262.\<close>

definition TIME_TO_NS :: "timespec \<Rightarrow> int" where
  "TIME_TO_NS t = tv_sec t * 1000000000 + tv_nsec t"

section \<open>Streams (\<open>FILE*\<close>)\<close>

record stream =
  st_image :: file_image
  st_pos :: nat
  st_eof :: bool
  st_err :: bool

definition fopen_r :: "string \<Rightarrow> world \<Rightarrow> stream option" where
  "fopen_r path w =
     map_option (\<lambda>im. \<lparr>st_image = im, st_pos = 0, st_eof = False, st_err = False\<rparr>)
       (map_of (w_files w) path)"

definition fsize :: "stream \<Rightarrow> nat" where
  "fsize f = length (fi_content (st_image f))"

text \<open>The bytes still to be read.\<close>

definition st_rest :: "stream \<Rightarrow> string" where
  "st_rest f = drop (st_pos f) (fi_content (st_image f))"

text \<open>How much of the file can be read.\<close>

definition fread_limit :: "stream \<Rightarrow> nat" where
  "fread_limit f =
     (case fi_fail (st_image f) of None \<Rightarrow> fsize f | Some k \<Rightarrow> min k (fsize f))"

lemma fread_limit_le: "fread_limit f \<le> fsize f"
  by (simp add: fread_limit_def split: option.splits)

text \<open>
  \<open>fread\<close> of \<open>n\<close> bytes.  A read that gets all it asked for does not touch the
  end-of-file indicator, even when it took the last byte of the file.
\<close>

definition fread :: "nat \<Rightarrow> stream \<Rightarrow> string \<times> stream" where
  "fread n f =
     (let got = take n (drop (st_pos f) (take (fread_limit f) (fi_content (st_image f))));
          short = length got < n
      in (got, f\<lparr>st_pos := st_pos f + length got,
               st_eof := st_eof f \<or> (short \<and> fi_fail (st_image f) = None),
               st_err := st_err f \<or> (short \<and> fi_fail (st_image f) \<noteq> None)\<rparr>))"

definition fclose_w :: "world \<Rightarrow> world" where
  "fclose_w w = emit FileClosed w"

text \<open>\<open>fclose\<close> with its result, from the same queue as \<open>close\<close>.\<close>

definition sys_fclose :: "world \<Rightarrow> bool \<times> world" where
  "sys_fclose w =
     (let (ok, w') = (case w_close w of [] \<Rightarrow> (True, w) | b # q \<Rightarrow> (b, w\<lparr>w_close := q\<rparr>))
      in (ok, emit FileClosed w'))"

definition fopen_w :: "world \<Rightarrow> bool \<times> world" where
  "fopen_w w = (case w_fopen w of [] \<Rightarrow> (True, w) | b # q \<Rightarrow> (b, w\<lparr>w_fopen := q\<rparr>))"

definition fwrite_w :: "string \<Rightarrow> world \<Rightarrow> nat \<times> world" where
  "fwrite_w bs w =
     (case w_fwrite w of
        [] \<Rightarrow> (length bs, emit (FileWrote bs) w)
      | k # q \<Rightarrow> (min k (length bs), emit (FileWrote (take k bs)) (w\<lparr>w_fwrite := q\<rparr>)))"

section \<open>The work a kernel can still cause\<close>

fun recv_size :: "recv_answer \<Rightarrow> nat" where
  "recv_size (RData bs) = Suc (length bs)"
| "recv_size (RErr e) = 1"

definition io_work :: "world \<Rightarrow> nat" where
  "io_work w = sum_list (map recv_size (w_recv w)) + length (w_send w) + length (w_accept w)"

lemma emit_simps [simp]:
  "w_recv (emit e w) = w_recv w" "w_send (emit e w) = w_send w"
  "w_accept (emit e w) = w_accept w" "w_files (emit e w) = w_files w"
  "w_log (emit e w) = w_log w @ [e]" "w_clock (emit e w) = w_clock w"
  "w_socket (emit e w) = w_socket w" "w_connect (emit e w) = w_connect w"
  "w_ctl (emit e w) = w_ctl w" "w_close (emit e w) = w_close w"
  "w_fopen (emit e w) = w_fopen w" "w_fwrite (emit e w) = w_fwrite w"
  "w_rand (emit e w) = w_rand w" "io_work (emit e w) = io_work w"
  by (simp_all add: emit_def io_work_def)

lemma io_work_update [simp]:
  "io_work (w\<lparr>w_log := l\<rparr>) = io_work w" "io_work (w\<lparr>w_ctl := b\<rparr>) = io_work w"
  "io_work (w\<lparr>w_close := b\<rparr>) = io_work w" "io_work (w\<lparr>w_clock := c\<rparr>) = io_work w"
  "io_work (w\<lparr>w_rand := r\<rparr>) = io_work w" "io_work (w\<lparr>w_fwrite := k\<rparr>) = io_work w"
  "io_work (w\<lparr>w_fopen := b\<rparr>) = io_work w" "io_work (w\<lparr>w_socket := s\<rparr>) = io_work w"
  "io_work (w\<lparr>w_connect := x\<rparr>) = io_work w"
  by (simp_all add: io_work_def)

text \<open>Calls that leave the input queues alone.\<close>

lemma epoll_ctl_frame [simp]:
  "w_recv (snd (epoll_ctl op sd evs w)) = w_recv w"
  "w_send (snd (epoll_ctl op sd evs w)) = w_send w"
  "w_accept (snd (epoll_ctl op sd evs w)) = w_accept w"
  "w_files (snd (epoll_ctl op sd evs w)) = w_files w"
  "w_log (snd (epoll_ctl op sd evs w)) = w_log w @ [Epoll op sd evs]"
  "io_work (snd (epoll_ctl op sd evs w)) = io_work w"
  by (simp_all add: epoll_ctl_def io_work_def split: list.splits prod.splits)

lemma sys_close_frame [simp]:
  "w_recv (snd (sys_close sd w)) = w_recv w"
  "w_send (snd (sys_close sd w)) = w_send w"
  "w_accept (snd (sys_close sd w)) = w_accept w"
  "w_files (snd (sys_close sd w)) = w_files w"
  "w_log (snd (sys_close sd w)) = w_log w @ [Closed sd]"
  "io_work (snd (sys_close sd w)) = io_work w"
  by (simp_all add: sys_close_def io_work_def split: list.splits prod.splits)

lemma clock_frame [simp]:
  "w_recv (snd (clock_gettime w)) = w_recv w"
  "w_send (snd (clock_gettime w)) = w_send w"
  "w_files (snd (clock_gettime w)) = w_files w"
  "w_log (snd (clock_gettime w)) = w_log w"
  "io_work (snd (clock_gettime w)) = io_work w"
  by (simp_all add: clock_gettime_def io_work_def split: list.splits)

lemma sys_fclose_frame [simp]:
  "w_recv (snd (sys_fclose w)) = w_recv w"
  "w_send (snd (sys_fclose w)) = w_send w"
  "w_files (snd (sys_fclose w)) = w_files w"
  "w_log (snd (sys_fclose w)) = w_log w @ [FileClosed]"
  "io_work (snd (sys_fclose w)) = io_work w"
  by (simp_all add: sys_fclose_def io_work_def split: list.splits prod.splits)

lemma fwrite_frame [simp]:
  "w_recv (snd (fwrite_w bs w)) = w_recv w"
  "w_send (snd (fwrite_w bs w)) = w_send w"
  "io_work (snd (fwrite_w bs w)) = io_work w"
  by (simp_all add: fwrite_w_def io_work_def split: list.splits prod.splits)

lemma sys_socket_frame [simp]:
  "w_recv (snd (sys_socket w)) = w_recv w" "w_send (snd (sys_socket w)) = w_send w"
  "w_log (snd (sys_socket w)) = w_log w" "io_work (snd (sys_socket w)) = io_work w"
  by (simp_all add: sys_socket_def io_work_def split: list.splits prod.splits)

lemma sys_connect_frame [simp]:
  "w_recv (snd (sys_connect sd a p w)) = w_recv w" "w_send (snd (sys_connect sd a p w)) = w_send w"
  "w_log (snd (sys_connect sd a p w)) = w_log w @ [Connecting sd a p]"
  "io_work (snd (sys_connect sd a p w)) = io_work w"
  by (simp_all add: sys_connect_def io_work_def split: list.splits prod.splits)

section \<open>What \<open>recv\<close> and \<open>send\<close> promise\<close>

lemma sys_recv_Inr:
  assumes "sys_recv n w = (Inr bs, w')"
  shows "length bs \<le> n" and "bs \<noteq> [] \<Longrightarrow> io_work w' < io_work w"
    and "w_send w' = w_send w" and "w_log w' = w_log w" and "w_files w' = w_files w"
    and "w_accept w' = w_accept w"
  using assms
  by (auto simp: sys_recv_def io_work_def split: list.splits recv_answer.splits if_splits)

lemma sys_recv_Inl:
  assumes "sys_recv n w = (Inl e, w')"
  shows "io_work w' \<le> io_work w" and "w_send w' = w_send w" and "w_log w' = w_log w"
    and "w_files w' = w_files w" and "w_accept w' = w_accept w"
  using assms
  by (auto simp: sys_recv_def io_work_def split: list.splits recv_answer.splits if_splits)

lemma sys_send_all:
  "w_send w = SOk k # q \<Longrightarrow> bs \<noteq> [] \<Longrightarrow> length bs \<le> k
    \<Longrightarrow> sys_send sd bs w = (Inr (length bs), emit (Sent sd bs) (w\<lparr>w_send := q\<rparr>))"
  by (simp add: sys_send_def min_def)

lemma sys_send_Inr:
  assumes "sys_send sd bs w = (Inr k, w')"
  shows "k \<le> length bs" and "0 < k \<Longrightarrow> io_work w' < io_work w"
    and "w_recv w' = w_recv w" and "w_files w' = w_files w"
    and "w_log w' = (if k = 0 then w_log w else w_log w @ [Sent sd (take k bs)])"
    and "w_accept w' = w_accept w"
  using assms
  by (auto simp: sys_send_def io_work_def Let_def split: list.splits send_answer.splits if_splits)

lemma sys_send_Inl:
  assumes "sys_send sd bs w = (Inl e, w')"
  shows "io_work w' \<le> io_work w" and "w_recv w' = w_recv w" and "w_log w' = w_log w"
    and "w_files w' = w_files w" and "w_accept w' = w_accept w"
  using assms
  by (auto simp: sys_send_def io_work_def Let_def split: list.splits send_answer.splits if_splits)

lemma fread_props:
  assumes "fread n f = (got, f')"
  shows "length got \<le> n" and "st_image f' = st_image f"
    and "st_pos f' = st_pos f + length got"
    and "st_rest f = got @ st_rest f'"
    and "st_pos f \<le> fsize f \<Longrightarrow> st_pos f' \<le> fsize f'"
proof -
  let ?c = "fi_content (st_image f)"
  have lim: "fread_limit f \<le> length ?c"
    using fread_limit_le [of f] by (simp add: fsize_def)
  have got: "got = take n (drop (st_pos f) (take (fread_limit f) ?c))"
    and f': "st_image f' = st_image f" "st_pos f' = st_pos f + length got"
    using assms by (auto simp: fread_def Let_def)
  show "length got \<le> n" using got by simp
  show "st_image f' = st_image f" "st_pos f' = st_pos f + length got" by fact+
  have "got = take (min n (fread_limit f - st_pos f)) (drop (st_pos f) ?c)"
    unfolding got by (simp add: drop_take)
  then have "got = take (length got) (drop (st_pos f) ?c)"
    by (metis take_length_take)
  then have "drop (st_pos f) ?c = got @ drop (length got) (drop (st_pos f) ?c)"
    by (metis append_take_drop_id)
  then show "st_rest f = got @ st_rest f'"
    by (simp add: st_rest_def f' add.commute [of "length got"])
  show "st_pos f' \<le> fsize f'" if "st_pos f \<le> fsize f"
    using that f' lim unfolding got by (auto simp: fsize_def)
qed

text \<open>A read that got fewer bytes than asked for and no error reached the end.\<close>

lemma fread_short:
  assumes "fread n f = (got, f')" and "st_eof f' \<noteq> st_eof f"
  shows "st_rest f' = []"
  using assms
  by (auto simp: fread_def fread_limit_def Let_def st_rest_def fsize_def min_def
      split: option.splits if_splits)

section \<open>What was sent\<close>

fun sent_on :: "fd \<Rightarrow> effect list \<Rightarrow> string" where
  "sent_on sd [] = []"
| "sent_on sd (Sent sd' bs # l) = (if sd' = sd then bs @ sent_on sd l else sent_on sd l)"
| "sent_on sd (e # l) = sent_on sd l"

lemma sent_on_append [simp]: "sent_on sd (l @ m) = sent_on sd l @ sent_on sd m"
  by (induction sd l rule: sent_on.induct) auto

text \<open>Everything sent, on whatever socket.\<close>

fun all_sent :: "effect list \<Rightarrow> string" where
  "all_sent [] = []"
| "all_sent (Sent sd bs # l) = bs @ all_sent l"
| "all_sent (e # l) = all_sent l"

lemma all_sent_append [simp]: "all_sent (l @ m) = all_sent l @ all_sent m"
  by (induction l rule: all_sent.induct) auto

text \<open>The descriptors closed, in order.\<close>

fun closed_fds :: "effect list \<Rightarrow> fd list" where
  "closed_fds [] = []"
| "closed_fds (Closed sd # l) = sd # closed_fds l"
| "closed_fds (e # l) = closed_fds l"

lemma closed_fds_append [simp]: "closed_fds (l @ m) = closed_fds l @ closed_fds m"
  by (induction l rule: closed_fds.induct) auto

text \<open>What the program wrote to its output file, and the bytes on their way to it.\<close>

fun file_written :: "effect list \<Rightarrow> string" where
  "file_written [] = []"
| "file_written (FileWrote bs # l) = bs @ file_written l"
| "file_written (e # l) = file_written l"

lemma file_written_append [simp]: "file_written (l @ m) = file_written l @ file_written m"
  by (induction l rule: file_written.induct) auto

fun recv_data :: "recv_answer \<Rightarrow> string" where
  "recv_data (RData bs) = bs"
| "recv_data (RErr e) = []"

definition arriving :: "world \<Rightarrow> string" where
  "arriving w = concat (map recv_data (w_recv w))"

lemma arriving_update [simp]:
  "arriving (emit e w) = arriving w"
  "arriving (snd (epoll_ctl op sd evs w)) = arriving w"
  "arriving (snd (sys_close sd w)) = arriving w"
  "arriving (snd (sys_fclose w)) = arriving w"
  "arriving (snd (clock_gettime w)) = arriving w"
  "arriving (snd (fwrite_w bs w)) = arriving w"
  "arriving (snd (sys_socket w)) = arriving w"
  "arriving (snd (sys_connect sd a p w)) = arriving w"
  by (simp_all add: arriving_def)

lemma sys_recv_arriving:
  "sys_recv n w = (Inr bs, w') \<Longrightarrow> arriving w = bs @ arriving w'"
  "sys_recv n w = (Inl e, w') \<Longrightarrow> arriving w' = arriving w"
  by (auto simp: sys_recv_def arriving_def split: list.splits recv_answer.splits if_splits)

section \<open>Bytes of a word in memory (little endian)\<close>

fun le_bytes :: "nat \<Rightarrow> nat \<Rightarrow> string" where
  "le_bytes 0 v = []"
| "le_bytes (Suc n) v = char_of (v mod 256) # le_bytes n (v div 256)"

fun le_value :: "string \<Rightarrow> nat" where
  "le_value [] = 0"
| "le_value (c # s) = of_char c + 256 * le_value s"

lemma length_le_bytes [simp]: "length (le_bytes n v) = n"
  by (induction n arbitrary: v) auto

lemma le_value_bytes: "le_value (le_bytes n v) = v mod 256 ^ n"
proof (induction n arbitrary: v)
  case (Suc n)
  show ?case by (simp add: Suc mod_mult2_eq)
qed simp

end
