(* ===== verification/Fileserver.thy ===== *)
theory Fileserver
  imports Kernel
begin

text \<open>
  The HTTP file server (\<open>filetransfer/fileserver.c\<close>, \<open>fileserver.h\<close>,
  \<open>filetransfer-defs.h\<close>).

  A connection \<open>fs_conn\<close> holds the request and reply of \<open>fileserver_connection_t\<close> with
  their fields side by side (\<open>rq_\<close> and \<open>rp_\<close>).  A buffer is the list of the bytes below
  its write offset, so \<open>buf_write_offset\<close> is its length; the bytes above it are never
  read before they are written.  The counters are 64-bit words.  \<open>fs_ctx\<close> is what
  \<open>fileserver_activate\<close> works on: the server, the connection, the optional progress
  record and the world.
\<close>

section \<open>Data\<close>

definition FT_STR_SIZE :: nat where "FT_STR_SIZE = 256"
definition FT_BUF_SIZE :: nat where "FT_BUF_SIZE = 51200"

definition FT_HTTP_200 :: string where "FT_HTTP_200 = ''HTTP/1.1 200 OK'' @ crlf"
definition FT_HTTP_404 :: string where "FT_HTTP_404 = ''HTTP/1.1 404 NOT FOUND'' @ crlf"
definition FT_2CRLF :: string where "FT_2CRLF = crlf @ crlf"
definition FT_CONTENT :: string where "FT_CONTENT = ''Content-Length: ''"

definition http_200_header :: "nat \<Rightarrow> string" where
  "http_200_header n = FT_HTTP_200 @ FT_CONTENT @ show_nat n @ FT_2CRLF"

definition http_get_request :: "string \<Rightarrow> string \<Rightarrow> string" where
  "http_get_request path host =
     ''GET '' @ path @ '' HTTP/1.1'' @ crlf @ ''Host: '' @ host @ FT_2CRLF"

datatype fs_code =
    FS_SUCCESS | FS_CLOSED | FS_ERR_INVALID | FS_ERR_FATAL | FS_ERR_BADSD | FS_ERR_WOULDBLOCK
  | FS_ERR_BUFSPACE | FS_ERR_SOCKET | FS_ERR_BIND | FS_ERR_LISTEN | FS_ERR_ACCEPT | FS_ERR_RECV
  | FS_ERR_SEND | FS_ERR_CLOSE | FS_ERR_EPOLL

datatype fs_state =
    FS_IDLE | FS_REQUEST | FS_REPLY_404_START | FS_REPLY_FILE_START | FS_REPLY_FILE_CONTINUE
  | FS_REPLY_SEND

record fs_progress =
  pg_sockd :: fd
  pg_bytes_read :: u64
  pg_bytes_written :: u64
  pg_reply_length :: nat
  pg_request_done :: bool
  pg_reply_done :: bool
  pg_changed :: bool

record fs_conn =
  fc_sockd :: fd
  rq_filepath :: string
  rq_buf :: string
  rq_buf_read_offset :: nat
  rq_bytes_received :: u64
  rq_done :: bool
  rp_f :: "stream option"
  rp_f_length :: nat
  rp_f_read_offset :: nat
  rp_buf :: string
  rp_buf_read_offset :: nat
  rp_bytes_sent :: u64
  rp_done :: bool
  fc_state :: fs_state

record fileserver =
  fs_listen_addr :: u32
  fs_listen_port :: u16
  fs_listen_sockd :: fd
  fs_epolld :: fd
  fs_docroot :: string
  fs_connections :: "(fd \<times> fs_conn) list"
  fs_bytes_received :: u64
  fs_bytes_sent :: u64
  fs_replies_sent :: u64

record fs_ctx =
  cx_fs :: fileserver
  cx_c :: fs_conn
  cx_p :: "fs_progress option"
  cx_w :: world

section \<open>Codes as text\<close>

definition fileserver_code_strings :: "string list" where
  "fileserver_code_strings =
     [''FS_SUCCESS'', ''FS_CLOSED'', ''FS_ERR_INVALID'', ''FS_ERR_FATAL'', ''FS_ERR_BADSD'',
      ''FS_ERR_WOULDBLOCK'', ''FS_ERR_BUFSPACE'', ''FS_ERR_SOCKET'', ''FS_ERR_BIND'',
      ''FS_ERR_LISTEN'', ''FS_ERR_ACCEPT'', ''FS_ERR_RECV'', ''FS_ERR_SEND'',
      ''FS_ERR_CLOSE'', ''FS_ERR_EPOLL'']"

text \<open>
  The bound in the code is \<open>sizeof\<close> of the table, its size in bytes, 8 per pointer.
  An index it lets through that is past the table reads outside it.
\<close>

definition fileserver_codetoa :: "int \<Rightarrow> string option ret" where
  "fileserver_codetoa index =
     (if 0 \<le> index \<and> index < 8 * int (length fileserver_code_strings)
      then if nat index < length fileserver_code_strings
           then Ret (Some (fileserver_code_strings ! nat index)) else UB
      else Ret None)"

section \<open>Starting, accepting, closing\<close>

text \<open>The value destructor of the connection table.\<close>

definition fileserver_connection_destroy_cb :: "fs_conn \<Rightarrow> world \<Rightarrow> world" where
  "fileserver_connection_destroy_cb c w =
     (let w1 = (if rp_f c \<noteq> None then fclose_w w else w)
      in snd (sys_close (fc_sockd c) w1))"

text \<open>On an early error the server structure is left as it was.\<close>

definition fileserver_start ::
    "fileserver \<Rightarrow> fd \<Rightarrow> u32 \<Rightarrow> u16 \<Rightarrow> string \<Rightarrow> world \<Rightarrow> fs_code \<times> fileserver \<times> world" where
  "fileserver_start fs epolld listen_addr listen_port docroot w =
     (if FT_STR_SIZE \<le> length (cstr docroot) then (FS_ERR_INVALID, fs, w)
      else case sys_socket w of
        (Inl e, w1) \<Rightarrow> (FS_ERR_SOCKET, fs, w1)
      | (Inr sockd, w1) \<Rightarrow>
          (let (ok, w2) = sys_bind sockd w1 in
           if \<not> ok then (FS_ERR_BIND, fs, w2)
           else let (ok, w3) = sys_listen sockd listen_addr listen_port w2 in
             if \<not> ok then (FS_ERR_LISTEN, fs, w3)
             else let fs' = \<lparr>fs_listen_addr = listen_addr, fs_listen_port = listen_port,
                             fs_listen_sockd = sockd, fs_epolld = epolld,
                             fs_docroot = cstr docroot, fs_connections = [],
                             fs_bytes_received = 0, fs_bytes_sent = 0, fs_replies_sent = 0\<rparr>;
                      (ok, w4) = epoll_ctl CtlAdd sockd [EPOLLIN] w3
                  in if \<not> ok then (FS_ERR_EPOLL, fs', w4) else (FS_SUCCESS, fs', w4)))"

definition fileserver_shutdown :: "fileserver \<Rightarrow> world \<Rightarrow> fs_code \<times> fileserver \<times> world" where
  "fileserver_shutdown fs w =
     (let w1 = fold (\<lambda>(sd, c). fileserver_connection_destroy_cb c) (fs_connections fs) w;
          w2 = snd (epoll_ctl CtlDel (fs_listen_sockd fs) [] w1);
          (ok, w3) = sys_close (fs_listen_sockd fs) w2
      in (if ok then FS_SUCCESS else FS_ERR_CLOSE, fs\<lparr>fs_connections := []\<rparr>, w3))"

text \<open>A connection from \<open>g_new0\<close>: all fields zero.\<close>

definition fs_new_conn :: "fd \<Rightarrow> fs_conn" where
  "fs_new_conn sockd =
     \<lparr>fc_sockd = sockd, rq_filepath = [], rq_buf = [], rq_buf_read_offset = 0,
      rq_bytes_received = 0, rq_done = False, rp_f = None, rp_f_length = 0,
      rp_f_read_offset = 0, rp_buf = [], rp_buf_read_offset = 0, rp_bytes_sent = 0,
      rp_done = False, fc_state = FS_IDLE\<rparr>"

text \<open>
  \<open>g_hash_table_replace\<close> runs the destructor on the value it replaces, after the new one
  is in place.
\<close>

definition fileserver_accept_one :: "fileserver \<Rightarrow> world \<Rightarrow> fs_code \<times> fileserver \<times> world" where
  "fileserver_accept_one fs w =
     (case sys_accept w of
        (Inl e, w1) \<Rightarrow> (if e = EWOULDBLOCK then FS_ERR_WOULDBLOCK else FS_ERR_ACCEPT, fs, w1)
      | (Inr (sockd, addr), w1) \<Rightarrow>
          (let c = fs_new_conn sockd;
               (ok, w2) = epoll_ctl CtlAdd sockd [EPOLLIN] w1
           in if \<not> ok then (FS_ERR_EPOLL, fs, w2)
              else let w3 = (case map_of (fs_connections fs) sockd of
                               None \<Rightarrow> w2
                             | Some old \<Rightarrow> fileserver_connection_destroy_cb old w2)
                   in (FS_SUCCESS,
                       fs\<lparr>fs_connections := AList.update sockd c (fs_connections fs)\<rparr>, w3)))"

text \<open>The \<open>while(result == FS_SUCCESS)\<close> loop around it.\<close>

definition fs_accept_step ::
    "fileserver \<times> world \<Rightarrow> (fs_code, fileserver \<times> world) outcome" where
  "fs_accept_step = (\<lambda>(fs, w).
     (case fileserver_accept_one fs w of (r, fs', w') \<Rightarrow>
        if r = FS_SUCCESS then Again (fs', w') else Exit r (fs', w')))"

definition fileserve_connection_close :: "fs_ctx \<Rightarrow> fs_ctx" where
  "fileserve_connection_close x =
     (let c = cx_c x;
          w1 = snd (epoll_ctl CtlDel (fc_sockd c) [] (cx_w x))
      in x\<lparr>cx_fs := (cx_fs x)\<lparr>fs_connections :=
              AList.delete (fc_sockd c) (fs_connections (cx_fs x))\<rparr>,
           cx_w := fileserver_connection_destroy_cb c w1\<rparr>)"

section \<open>The request\<close>

datatype fs_parsed = NeedMore | Malformed | Path string

text \<open>
  What the code does with the received bytes once \<open>recv\<close> returned: is the blank line
  there, and if so what is the path between the first \<open>"GET "\<close> and the next space.
\<close>

definition fs_parse_request :: "string \<Rightarrow> fs_parsed" where
  "fs_parse_request buf =
     (case strcasestr buf FT_2CRLF of
        None \<Rightarrow> NeedMore
      | Some _ \<Rightarrow>
          (case strcasestr buf ''GET '' of
             None \<Rightarrow> Malformed
           | Some i \<Rightarrow>
               (let relpath = drop (i + 4) buf in
                case strcasestr relpath '' '' of
                  None \<Rightarrow> Malformed
                | Some relpath_len \<Rightarrow>
                    if relpath_len = 0 \<or> FT_STR_SIZE - 1 < relpath_len then Malformed
                    else Path (take relpath_len relpath))))"

definition fs_goto :: "fs_state \<Rightarrow> fs_ctx \<Rightarrow> fs_ctx" where
  "fs_goto st x = x\<lparr>cx_c := (cx_c x)\<lparr>fc_state := st\<rparr>\<rparr>"

definition fs_set_epoll :: "epoll_ev list \<Rightarrow> fs_ctx \<Rightarrow> fs_ctx" where
  "fs_set_epoll evs x = x\<lparr>cx_w := snd (epoll_ctl CtlMod (fc_sockd (cx_c x)) evs (cx_w x))\<rparr>"

definition fs_note :: "(fs_progress \<Rightarrow> fs_progress) \<Rightarrow> fs_ctx \<Rightarrow> fs_ctx" where
  "fs_note f x = x\<lparr>cx_p := map_option (\<lambda>p. (f p)\<lparr>pg_changed := True\<rparr>) (cx_p x)\<rparr>"

text \<open>\<open>case FS_IDLE\<close>, which falls through to \<open>case FS_REQUEST\<close>.\<close>

definition fs_idle_reset :: "fs_ctx \<Rightarrow> fs_ctx" where
  "fs_idle_reset x =
     fs_set_epoll [EPOLLIN]
       (x\<lparr>cx_c := (cx_c x)\<lparr>rq_buf := [], rq_buf_read_offset := 0, rp_f := None, rp_f_length := 0,
                           rp_f_read_offset := 0, rp_buf := [], rp_buf_read_offset := 0\<rparr>\<rparr>)"

text \<open>The bookkeeping of a successful \<open>recv\<close>.\<close>

definition fs_received :: "string \<Rightarrow> fs_ctx \<Rightarrow> fs_ctx" where
  "fs_received bs x =
     (let c = (cx_c x)\<lparr>rq_buf := rq_buf (cx_c x) @ bs,
                      rq_bytes_received := rq_bytes_received (cx_c x) + of_nat (length bs)\<rparr>;
          fs = (cx_fs x)\<lparr>fs_bytes_received := fs_bytes_received (cx_fs x) + of_nat (length bs)\<rparr>
      in fs_note (\<lambda>p. p\<lparr>pg_bytes_read := rq_bytes_received c\<rparr>) (x\<lparr>cx_c := c, cx_fs := fs\<rparr>))"

text \<open>The NUL goes behind the received bytes; then the request is examined.\<close>

definition fs_handle_request :: "fs_ctx \<Rightarrow> (fs_code ret, fs_ctx) outcome" where
  "fs_handle_request x1 =
     (if FT_STR_SIZE \<le> length (rq_buf (cx_c x1)) then Exit UB x1
      else case fs_parse_request (rq_buf (cx_c x1)) of
        NeedMore \<Rightarrow> Exit (Ret FS_SUCCESS) (fs_goto FS_REQUEST x1)
      | Malformed \<Rightarrow> Again (fs_goto FS_REPLY_404_START x1)
      | Path p \<Rightarrow>
          Again (fs_goto FS_REPLY_FILE_START
            (fs_note (\<lambda>g. g\<lparr>pg_request_done := True\<rparr>)
              (x1\<lparr>cx_c := (cx_c x1)\<lparr>rq_filepath := p, rq_done := True\<rparr>\<rparr>))))"

definition fs_step_request :: "fs_ctx \<Rightarrow> (fs_code ret, fs_ctx) outcome" where
  "fs_step_request x =
     (let space = int FT_STR_SIZE - int (length (rq_buf (cx_c x))) - 1 in
      if space \<le> 0 then Again (fs_goto FS_REPLY_404_START x)
      else case sys_recv (nat space) (cx_w x) of
        (Inl e, w) \<Rightarrow>
          (if e = EWOULDBLOCK then Exit (Ret FS_ERR_WOULDBLOCK) (x\<lparr>cx_w := w\<rparr>)
           else Exit (Ret FS_ERR_RECV) (fileserve_connection_close (x\<lparr>cx_w := w\<rparr>)))
      | (Inr bs, w) \<Rightarrow>
          (if bs = [] then Exit (Ret FS_CLOSED) (fileserve_connection_close (x\<lparr>cx_w := w\<rparr>))
           else fs_handle_request (fs_received bs (x\<lparr>cx_w := w\<rparr>))))"

section \<open>The reply\<close>

definition fs_step_404_start :: "fs_ctx \<Rightarrow> (fs_code ret, fs_ctx) outcome" where
  "fs_step_404_start x =
     (if FT_BUF_SIZE < length FT_HTTP_404
      then Exit (Ret FS_ERR_BUFSPACE) (fileserve_connection_close x)
      else Again (fs_goto FS_REPLY_SEND
             (x\<lparr>cx_c := (cx_c x)\<lparr>rp_buf := FT_HTTP_404, rp_f := None\<rparr>\<rparr>)))"

text \<open>\<open>case FS_REPLY_SEND\<close>.\<close>

definition fs_sent :: "nat \<Rightarrow> fs_ctx \<Rightarrow> fs_ctx" where
  "fs_sent k x =
     (let c = (cx_c x)\<lparr>rp_buf_read_offset := rp_buf_read_offset (cx_c x) + k,
                      rp_bytes_sent := rp_bytes_sent (cx_c x) + of_nat k\<rparr>;
          fs = (cx_fs x)\<lparr>fs_bytes_sent := fs_bytes_sent (cx_fs x) + of_nat k\<rparr>
      in fs_note (\<lambda>p. p\<lparr>pg_bytes_written := rp_bytes_sent c\<rparr>) (x\<lparr>cx_c := c, cx_fs := fs\<rparr>))"

definition fs_reply_finished :: "fs_ctx \<Rightarrow> fs_ctx" where
  "fs_reply_finished x =
     fs_goto FS_IDLE
       (fs_note (\<lambda>p. p\<lparr>pg_reply_done := True\<rparr>)
         (x\<lparr>cx_c := (cx_c x)\<lparr>rp_done := True\<rparr>,
            cx_fs := (cx_fs x)\<lparr>fs_replies_sent := fs_replies_sent (cx_fs x) + 1\<rparr>\<rparr>))"

text \<open>
  Writing the NUL behind the request, reading below the write offset and reading from a
  stream are the memory accesses of the handler: outside their object they are \<open>UB\<close>.
\<close>

definition fs_step_send :: "fs_ctx \<Rightarrow> (fs_code ret, fs_ctx) outcome" where
  "fs_step_send x =
     (if length (rp_buf (cx_c x)) < rp_buf_read_offset (cx_c x) then Exit UB x
      else case sys_send (fc_sockd (cx_c x)) (drop (rp_buf_read_offset (cx_c x)) (rp_buf (cx_c x)))
             (cx_w x) of
        (Inl e, w) \<Rightarrow>
          (if e = EWOULDBLOCK then Exit (Ret FS_ERR_WOULDBLOCK) (x\<lparr>cx_w := w\<rparr>)
           else Exit (Ret FS_ERR_SEND) (fileserve_connection_close (x\<lparr>cx_w := w\<rparr>)))
      | (Inr k, w) \<Rightarrow>
          (if k = 0 then Exit (Ret FS_CLOSED) (fileserve_connection_close (x\<lparr>cx_w := w\<rparr>))
           else let x1 = fs_sent k (x\<lparr>cx_w := w\<rparr>) in
             if rp_buf_read_offset (cx_c x1) = length (rp_buf (cx_c x1))
             then let x2 = x1\<lparr>cx_c := (cx_c x1)\<lparr>rp_buf_read_offset := 0, rp_buf := []\<rparr>\<rparr>
                  in if rp_f (cx_c x2) = None then Exit (Ret FS_SUCCESS) (fs_reply_finished x2)
                     else Again x2
             else Again x1))"

text \<open>\<open>case FS_REPLY_FILE_CONTINUE\<close>, which falls through to \<open>case FS_REPLY_SEND\<close>.\<close>

definition fs_step_file_continue :: "fs_ctx \<Rightarrow> (fs_code ret, fs_ctx) outcome" where
  "fs_step_file_continue x =
     (let c = cx_c x;
          done_reading = (rp_f_read_offset c = rp_f_length c);
          space = FT_BUF_SIZE - length (rp_buf c)
      in case rp_f c of
           Some f \<Rightarrow>
             if 0 < space \<and> \<not> done_reading
             then let (bytes, f') = fread space f;
                      x1 = x\<lparr>cx_c := c\<lparr>rp_buf := rp_buf c @ bytes, rp_f := Some f',
                                       rp_f_read_offset := st_pos f'\<rparr>\<rparr>
                  in if st_err f' then Exit (Ret FS_ERR_FATAL) (fileserve_connection_close x1)
                     else if st_eof f'
                     then fs_step_send (fs_goto FS_REPLY_SEND
                            (x1\<lparr>cx_c := (cx_c x1)\<lparr>rp_f := None\<rparr>, cx_w := fclose_w (cx_w x1)\<rparr>))
                     else fs_step_send x1
             else fs_step_send x
         | None \<Rightarrow> if 0 < space \<and> \<not> done_reading then Exit UB x else fs_step_send x)"

text \<open>
  \<open>case FS_REPLY_FILE_START\<close>, which falls through to \<open>case FS_REPLY_FILE_CONTINUE\<close>
  when the file is not empty.
\<close>

definition fs_abspath :: "fs_ctx \<Rightarrow> string" where
  "fs_abspath x = cstr (fs_docroot (cx_fs x)) @ cstr (rq_filepath (cx_c x))"

definition fs_step_file_start :: "fs_ctx \<Rightarrow> (fs_code ret, fs_ctx) outcome" where
  "fs_step_file_start x =
     (let x1 = fs_set_epoll [EPOLLOUT] x in
      case fopen_r (fs_abspath x1) (cx_w x1) of
        None \<Rightarrow> Again (fs_goto FS_REPLY_404_START (x1\<lparr>cx_c := (cx_c x1)\<lparr>rp_f := None\<rparr>\<rparr>))
      | Some f \<Rightarrow>
          (let header = http_200_header (fsize f);
               x2 = x1\<lparr>cx_c := (cx_c x1)\<lparr>rp_f := Some f, rp_f_length := fsize f\<rparr>\<rparr>
           in if FT_BUF_SIZE \<le> length header
              then Exit (Ret FS_ERR_BUFSPACE) (fileserve_connection_close x2)
              else let x3 = x2\<lparr>cx_c := (cx_c x2)\<lparr>rp_buf := header\<rparr>\<rparr>
                   in if fsize f = 0
                      then Again (fs_goto FS_REPLY_SEND
                             (x3\<lparr>cx_c := (cx_c x3)\<lparr>rp_f := None\<rparr>, cx_w := fclose_w (cx_w x3)\<rparr>))
                      else fs_step_file_continue (fs_goto FS_REPLY_FILE_CONTINUE x3)))"

section \<open>The state machine\<close>

definition fs_step :: "fs_ctx \<Rightarrow> (fs_code ret, fs_ctx) outcome" where
  "fs_step x =
     (case fc_state (cx_c x) of
        FS_IDLE \<Rightarrow> fs_step_request (fs_idle_reset x)
      | FS_REQUEST \<Rightarrow> fs_step_request x
      | FS_REPLY_404_START \<Rightarrow> fs_step_404_start x
      | FS_REPLY_FILE_START \<Rightarrow> fs_step_file_start x
      | FS_REPLY_FILE_CONTINUE \<Rightarrow> fs_step_file_continue x
      | FS_REPLY_SEND \<Rightarrow> fs_step_send x)"

definition fs_fill_progress :: "fs_conn \<Rightarrow> fs_progress \<Rightarrow> fs_progress" where
  "fs_fill_progress c p =
     p\<lparr>pg_sockd := fc_sockd c, pg_bytes_read := rq_bytes_received c,
       pg_bytes_written := rp_bytes_sent c, pg_reply_done := rp_done c,
       pg_request_done := rq_done c, pg_reply_length := rp_f_length c, pg_changed := False\<rparr>"

text \<open>
  The connection the handler worked on is the one in the table; a connection it closed is
  not there any more.
\<close>

definition fs_write_back :: "fs_ctx \<Rightarrow> fileserver" where
  "fs_write_back x =
     (cx_fs x)\<lparr>fs_connections :=
        AList.map_entry (fc_sockd (cx_c x)) (\<lambda>_. cx_c x) (fs_connections (cx_fs x))\<rparr>"

definition fileserver_activate ::
    "fileserver \<Rightarrow> fd \<Rightarrow> fs_progress option \<Rightarrow> world
      \<Rightarrow> (fs_code ret \<times> fileserver \<times> fs_progress option \<times> world) option" where
  "fileserver_activate fs sockd progress w =
     (if sockd < 0 then Some (Ret FS_ERR_INVALID, fs, progress, w)
      else if sockd = fs_listen_sockd fs
      then map_option (\<lambda>(r, fs', w'). (Ret r, fs', progress, w')) (drive fs_accept_step (fs, w))
      else case map_of (fs_connections fs) sockd of
        None \<Rightarrow> Some (Ret FS_ERR_BADSD, fs, progress, w)
      | Some c \<Rightarrow>
          map_option (\<lambda>(r, x). (r, fs_write_back x, cx_p x, cx_w x))
            (drive fs_step \<lparr>cx_fs = fs, cx_c = c,
               cx_p = map_option (fs_fill_progress c) progress, cx_w = w\<rparr>))"

lemmas [step_defs] =
  fs_step_request_def fs_step_404_start_def fs_step_send_def fs_step_file_continue_def
  fs_step_file_start_def

section \<open>Sizes\<close>

lemma ft_sizes [simp]: "FT_STR_SIZE = 256" "FT_BUF_SIZE = 51200"
  by (simp_all add: FT_STR_SIZE_def FT_BUF_SIZE_def)

lemma length_FT_HTTP_404 [simp]: "length FT_HTTP_404 = 24"
  by (simp add: FT_HTTP_404_def)

lemma FT_HTTP_404_nonempty [simp]: "FT_HTTP_404 \<noteq> []"
  by (simp add: FT_HTTP_404_def)

end
