(* ===== verification/Fileserver_Correct.thy ===== *)
theory Fileserver_Correct
  imports Fileserver
begin

text \<open>
  Correctness of the file server: the invariant of a connection, termination of
  \<open>fileserver_activate\<close> for every behaviour of the kernel, memory safety, and the law
  that ties what was sent on the socket to what the reply should be.
\<close>

section \<open>Invariant and measure\<close>

text \<open>
  \<open>f_length\<close> and \<open>f_read_offset\<close> describe the open stream, which is open exactly while
  the file is being continued, and has not reported its end or an error.
\<close>

definition fs_stream_ok :: "fs_conn \<Rightarrow> bool" where
  "fs_stream_ok c =
     (case rp_f c of
        None \<Rightarrow> False
      | Some f \<Rightarrow> \<not> st_eof f \<and> \<not> st_err f \<and> st_pos f \<le> fsize f
                  \<and> rp_f_read_offset c = st_pos f \<and> rp_f_length c = fsize f)"

definition fs_inv :: "fs_conn \<Rightarrow> bool" where
  "fs_inv c \<longleftrightarrow>
     length (rq_buf c) < FT_STR_SIZE \<and> length (rp_buf c) \<le> FT_BUF_SIZE
     \<and> rp_buf_read_offset c \<le> length (rp_buf c)
     \<and> (case fc_state c of
          FS_IDLE \<Rightarrow> True
        | FS_REPLY_FILE_CONTINUE \<Rightarrow> fs_stream_ok c
        | FS_REPLY_SEND \<Rightarrow> rp_f c = None
        | _ \<Rightarrow> rp_f c = None \<and> rp_buf c = [] \<and> rp_buf_read_offset c = 0 \<and> rp_f_read_offset c = 0)"

fun fs_rank :: "fs_state \<Rightarrow> nat" where
  "fs_rank FS_IDLE = 3"
| "fs_rank FS_REQUEST = 3"
| "fs_rank FS_REPLY_FILE_START = 2"
| "fs_rank FS_REPLY_404_START = 1"
| "fs_rank FS_REPLY_FILE_CONTINUE = 0"
| "fs_rank FS_REPLY_SEND = 0"

definition fs_mu :: "fs_ctx \<Rightarrow> nat" where
  "fs_mu x = 4 * io_work (cx_w x) + fs_rank (fc_state (cx_c x))"

section \<open>What the reply should be\<close>

definition fs_replying :: "fs_conn \<Rightarrow> bool" where
  "fs_replying c \<longleftrightarrow> fc_state c \<notin> {FS_IDLE, FS_REQUEST}"

text \<open>The bytes of the reply that are still to be sent.\<close>

definition fs_to_send :: "fs_ctx \<Rightarrow> string" where
  "fs_to_send x =
     (case fc_state (cx_c x) of
        FS_REPLY_404_START \<Rightarrow> FT_HTTP_404
      | FS_REPLY_FILE_START \<Rightarrow>
          (case fopen_r (fs_abspath x) (cx_w x) of
             None \<Rightarrow> FT_HTTP_404
           | Some f \<Rightarrow> http_200_header (fsize f) @ st_rest f)
      | _ \<Rightarrow> drop (rp_buf_read_offset (cx_c x)) (rp_buf (cx_c x))
              @ (case rp_f (cx_c x) of None \<Rightarrow> [] | Some f \<Rightarrow> st_rest f))"

text \<open>The bytes the connection has put on its socket.\<close>

definition fs_out :: "fs_ctx \<Rightarrow> string" where
  "fs_out x = sent_on (fc_sockd (cx_c x)) (w_log (cx_w x))"

text \<open>
  What no pass changes: the socket, the server's configuration and what was sent on every
  other socket (\<open>fs_same\<close>), and, until
  the connection is closed, the connection table (\<open>fs_frame\<close>).
\<close>

definition fs_same :: "fs_ctx \<Rightarrow> fs_ctx \<Rightarrow> bool" where
  "fs_same x x' \<longleftrightarrow>
     fc_sockd (cx_c x') = fc_sockd (cx_c x)
     \<and> fs_listen_sockd (cx_fs x') = fs_listen_sockd (cx_fs x)
     \<and> fs_docroot (cx_fs x') = fs_docroot (cx_fs x)
     \<and> fs_epolld (cx_fs x') = fs_epolld (cx_fs x)
     \<and> (\<forall>sd. sd \<noteq> fc_sockd (cx_c x) \<longrightarrow>
            sent_on sd (w_log (cx_w x')) = sent_on sd (w_log (cx_w x)))"

definition fs_frame :: "fs_ctx \<Rightarrow> fs_ctx \<Rightarrow> bool" where
  "fs_frame x x' \<longleftrightarrow> fs_same x x' \<and> fs_connections (cx_fs x') = fs_connections (cx_fs x)"

text \<open>
  The counters: server and connection count the same bytes, and they count what was sent.
\<close>

definition fs_accounts :: "fs_ctx \<Rightarrow> u64 \<times> u64 \<times> u64" where
  "fs_accounts x =
     (fs_bytes_sent (cx_fs x) - of_nat (length (fs_out x)),
      rp_bytes_sent (cx_c x) - of_nat (length (fs_out x)),
      fs_bytes_received (cx_fs x) - rq_bytes_received (cx_c x))"

definition fs_rel :: "fs_ctx \<Rightarrow> fs_ctx \<Rightarrow> bool" where
  "fs_rel x x' \<longleftrightarrow> fs_frame x x' \<and> fs_accounts x' = fs_accounts x
     \<and> fs_replies_sent (cx_fs x') = fs_replies_sent (cx_fs x)
     \<and> (fs_replying (cx_c x) \<longrightarrow>
          fs_replying (cx_c x') \<and> fs_out x' @ fs_to_send x' = fs_out x @ fs_to_send x)"

text \<open>What an exit means for the reply under way.\<close>

definition fs_reply_exit :: "fs_ctx \<Rightarrow> fs_code ret \<Rightarrow> fs_ctx \<Rightarrow> bool" where
  "fs_reply_exit x r x' \<longleftrightarrow>
     (if r = Ret FS_SUCCESS
      then fs_out x' = fs_out x @ fs_to_send x \<and> fc_state (cx_c x') = FS_IDLE
           \<and> fs_replies_sent (cx_fs x') = fs_replies_sent (cx_fs x) + 1
      else fs_replies_sent (cx_fs x') = fs_replies_sent (cx_fs x)
           \<and> (if r = Ret FS_ERR_WOULDBLOCK
              then fs_out x' @ fs_to_send x' = fs_out x @ fs_to_send x \<and> fs_replying (cx_c x')
              else \<exists>rest. fs_out x @ fs_to_send x = fs_out x' @ rest))"

definition fs_fin :: "fs_ctx \<Rightarrow> fs_code ret \<Rightarrow> fs_ctx \<Rightarrow> bool" where
  "fs_fin x r x' \<longleftrightarrow> fs_same x x' \<and> fs_accounts x' = fs_accounts x
     \<and> fs_connections (cx_fs x') =
         (if r = Ret FS_SUCCESS \<or> r = Ret FS_ERR_WOULDBLOCK then fs_connections (cx_fs x)
          else AList.delete (fc_sockd (cx_c x)) (fs_connections (cx_fs x)))
     \<and> (fs_replying (cx_c x) \<longrightarrow> fs_reply_exit x r x')"

definition fs_post :: "fs_code ret \<Rightarrow> fs_ctx \<Rightarrow> bool" where
  "fs_post r x \<longleftrightarrow> r \<noteq> UB \<and> r \<noteq> AssertFail
     \<and> (r = Ret FS_SUCCESS \<or> r = Ret FS_ERR_WOULDBLOCK \<longrightarrow> fs_inv (cx_c x))"

text \<open>One pass through the switch, all of it.\<close>

definition fs_pass :: "fs_ctx \<Rightarrow> (fs_code ret, fs_ctx) outcome \<Rightarrow> bool" where
  "fs_pass x out \<longleftrightarrow>
     (case out of
        Again x' \<Rightarrow> fs_inv (cx_c x') \<and> fs_mu x' < fs_mu x \<and> fs_rel x x'
      | Exit r x' \<Rightarrow> fs_post r x' \<and> fs_fin x r x')"

section \<open>The passes, one by one\<close>

lemma close_simps [simp]:
  "cx_c (fileserve_connection_close x) = cx_c x"
  "cx_p (fileserve_connection_close x) = cx_p x"
  "fs_connections (cx_fs (fileserve_connection_close x)) =
     AList.delete (fc_sockd (cx_c x)) (fs_connections (cx_fs x))"
  "fs_bytes_sent (cx_fs (fileserve_connection_close x)) = fs_bytes_sent (cx_fs x)"
  "fs_bytes_received (cx_fs (fileserve_connection_close x)) = fs_bytes_received (cx_fs x)"
  "fs_replies_sent (cx_fs (fileserve_connection_close x)) = fs_replies_sent (cx_fs x)"
  "fs_listen_sockd (cx_fs (fileserve_connection_close x)) = fs_listen_sockd (cx_fs x)"
  "fs_docroot (cx_fs (fileserve_connection_close x)) = fs_docroot (cx_fs x)"
  "fs_epolld (cx_fs (fileserve_connection_close x)) = fs_epolld (cx_fs x)"
  "fs_out (fileserve_connection_close x) = fs_out x"
  "sent_on sd (w_log (cx_w (fileserve_connection_close x))) = sent_on sd (w_log (cx_w x))"
  by (simp_all add: fileserve_connection_close_def fileserver_connection_destroy_cb_def Let_def
      fs_out_def fclose_w_def)

lemma close_w_simps [simp]:
  "fs_accounts (fileserve_connection_close x) = fs_accounts x"
  "fs_same y (fileserve_connection_close x) \<longleftrightarrow> fs_same y x"
  by (auto simp: fs_accounts_def fs_same_def)

text \<open>The bytes on the socket do not depend on anything but the log.\<close>

lemma fs_out_cong:
  "fc_sockd (cx_c x) = fc_sockd (cx_c y) \<Longrightarrow> w_log (cx_w x) = w_log (cx_w y) \<Longrightarrow> fs_out x = fs_out y"
  by (simp add: fs_out_def)

lemma fs_to_send_open:
  "fc_state (cx_c x) \<in> {FS_REPLY_SEND, FS_REPLY_FILE_CONTINUE} \<Longrightarrow>
   fs_to_send x = drop (rp_buf_read_offset (cx_c x)) (rp_buf (cx_c x))
              @ (case rp_f (cx_c x) of None \<Rightarrow> [] | Some f \<Rightarrow> st_rest f)"
  by (auto simp: fs_to_send_def)

text \<open>A pass that ends the connection.\<close>

lemma pass_close:
  assumes "fs_frame x y" "fs_accounts y = fs_accounts x" "fs_out y = fs_out x"
    and "fs_replies_sent (cx_fs y) = fs_replies_sent (cx_fs x)"
    and "r \<noteq> FS_SUCCESS" "r \<noteq> FS_ERR_WOULDBLOCK"
  shows "fs_pass x (Exit (Ret r) (fileserve_connection_close y))"
  using assms
  by (auto simp: fs_pass_def fs_post_def fs_fin_def fs_reply_exit_def fs_frame_def fs_same_def fs_accounts_def)

lemma fs_frame_refl [simp]: "fs_frame x x"
  by (simp add: fs_frame_def fs_same_def)

lemma fs_frame_trans: "fs_frame x y \<Longrightarrow> fs_frame y z \<Longrightarrow> fs_frame x z"
  by (auto simp: fs_frame_def fs_same_def)

lemma pass_send_would_block:
  assumes "fs_inv (cx_c x)" "fc_state (cx_c x) \<in> {FS_REPLY_SEND, FS_REPLY_FILE_CONTINUE}"
    and "w_log w = w_log (cx_w x)"
  shows "fs_pass x (Exit (Ret FS_ERR_WOULDBLOCK) (x\<lparr>cx_w := w\<rparr>))"
proof -
  have "fs_out (x\<lparr>cx_w := w\<rparr>) = fs_out x"
    using assms(3) by (intro fs_out_cong) auto
  with assms show ?thesis
    by (auto simp: fs_pass_def fs_post_def fs_fin_def fs_reply_exit_def fs_frame_def fs_same_def
        fs_accounts_def fs_replying_def fs_to_send_open)
qed

lemma fs_sent_simps [simp]:
  "cx_w (fs_sent k x) = cx_w x"
  "fc_state (cx_c (fs_sent k x)) = fc_state (cx_c x)"
  "fc_sockd (cx_c (fs_sent k x)) = fc_sockd (cx_c x)"
  "rq_buf (cx_c (fs_sent k x)) = rq_buf (cx_c x)"
  "rp_f (cx_c (fs_sent k x)) = rp_f (cx_c x)"
  "rp_f_length (cx_c (fs_sent k x)) = rp_f_length (cx_c x)"
  "rp_f_read_offset (cx_c (fs_sent k x)) = rp_f_read_offset (cx_c x)"
  "rp_buf (cx_c (fs_sent k x)) = rp_buf (cx_c x)"
  "rp_buf_read_offset (cx_c (fs_sent k x)) = rp_buf_read_offset (cx_c x) + k"
  "rp_bytes_sent (cx_c (fs_sent k x)) = rp_bytes_sent (cx_c x) + of_nat k"
  "rq_bytes_received (cx_c (fs_sent k x)) = rq_bytes_received (cx_c x)"
  "fs_bytes_sent (cx_fs (fs_sent k x)) = fs_bytes_sent (cx_fs x) + of_nat k"
  "fs_bytes_received (cx_fs (fs_sent k x)) = fs_bytes_received (cx_fs x)"
  "fs_replies_sent (cx_fs (fs_sent k x)) = fs_replies_sent (cx_fs x)"
  "fs_connections (cx_fs (fs_sent k x)) = fs_connections (cx_fs x)"
  "fs_listen_sockd (cx_fs (fs_sent k x)) = fs_listen_sockd (cx_fs x)"
  "fs_docroot (cx_fs (fs_sent k x)) = fs_docroot (cx_fs x)"
  "fs_epolld (cx_fs (fs_sent k x)) = fs_epolld (cx_fs x)"
  by (simp_all add: fs_sent_def fs_note_def Let_def)

text \<open>A \<open>send\<close> that took \<open>k > 0\<close> bytes of what was pending.\<close>

abbreviation fs_pending :: "fs_conn \<Rightarrow> string" where
  "fs_pending c \<equiv> drop (rp_buf_read_offset c) (rp_buf c)"

lemma fs_sent_facts:
  assumes "sys_send (fc_sockd (cx_c x)) (fs_pending (cx_c x)) (cx_w x) = (Inr k, w)" and "k \<noteq> 0"
  shows "fs_out (fs_sent k (x\<lparr>cx_w := w\<rparr>)) = fs_out x @ take k (fs_pending (cx_c x))"
    and "fs_accounts (fs_sent k (x\<lparr>cx_w := w\<rparr>)) = fs_accounts x"
    and "k \<le> length (rp_buf (cx_c x)) - rp_buf_read_offset (cx_c x)"
    and "io_work w < io_work (cx_w x)"
    and "sd \<noteq> fc_sockd (cx_c x) \<Longrightarrow> sent_on sd (w_log w) = sent_on sd (w_log (cx_w x))"
proof -
  note io = sys_send_Inr [OF assms(1)]
  show out: "fs_out (fs_sent k (x\<lparr>cx_w := w\<rparr>)) = fs_out x @ take k (fs_pending (cx_c x))"
    using io(5) assms(2) by (simp add: fs_out_def)
  show k: "k \<le> length (rp_buf (cx_c x)) - rp_buf_read_offset (cx_c x)" using io(1) by simp
  then have "length (take k (fs_pending (cx_c x))) = k" by simp
  then show "fs_accounts (fs_sent k (x\<lparr>cx_w := w\<rparr>)) = fs_accounts x"
    by (simp add: fs_accounts_def out)
  show "io_work w < io_work (cx_w x)" using io(2) assms(2) by simp
  show "sent_on sd (w_log w) = sent_on sd (w_log (cx_w x))" if "sd \<noteq> fc_sockd (cx_c x)"
    using io(5) that by simp
qed

lemma pass_send_partial:
  assumes inv: "fs_inv (cx_c x)"
    and st: "fc_state (cx_c x) \<in> {FS_REPLY_SEND, FS_REPLY_FILE_CONTINUE}"
    and sr: "sys_send (fc_sockd (cx_c x)) (fs_pending (cx_c x)) (cx_w x) = (Inr k, w)" "k \<noteq> 0"
  shows "fs_pass x (Again (fs_sent k (x\<lparr>cx_w := w\<rparr>)))"
proof -
  define x1 where "x1 = fs_sent k (x\<lparr>cx_w := w\<rparr>)"
  note facts = fs_sent_facts [OF sr, folded x1_def]
  let ?file = "case rp_f (cx_c x) of None \<Rightarrow> [] | Some f \<Rightarrow> st_rest f"
  let ?rest = "drop (rp_buf_read_offset (cx_c x) + k) (rp_buf (cx_c x))"
  have "fs_pending (cx_c x) = take k (fs_pending (cx_c x)) @ ?rest"
    by (metis append_take_drop_id drop_drop add.commute)
  then have "fs_to_send x = take k (fs_pending (cx_c x)) @ ?rest @ ?file"
    using st by (simp add: fs_to_send_open)
  moreover have "fs_to_send x1 = ?rest @ ?file"
    using st by (auto simp: fs_to_send_open x1_def)
  moreover have "fs_inv (cx_c x1)" "fs_mu x1 < fs_mu x"
    using inv st facts(3,4)
    by (auto simp: x1_def fs_inv_def fs_stream_ok_def fs_mu_def split: option.splits)
  ultimately have "fs_pass x (Again x1)"
    using facts st by (auto simp: fs_pass_def fs_rel_def fs_replying_def fs_frame_def fs_same_def)
      (simp_all add: x1_def)
  then show ?thesis by (simp add: x1_def)
qed

text \<open>Everything pending was taken: the buffer starts over, and the reply is done when there
  is no file left to read.\<close>

abbreviation fs_drained :: "fs_ctx \<Rightarrow> fs_ctx" where
  "fs_drained x \<equiv> x\<lparr>cx_c := (cx_c x)\<lparr>rp_buf_read_offset := 0, rp_buf := []\<rparr>\<rparr>"

lemma pass_send_drained:
  assumes inv: "fs_inv (cx_c x)"
    and st: "fc_state (cx_c x) \<in> {FS_REPLY_SEND, FS_REPLY_FILE_CONTINUE}"
    and sr: "sys_send (fc_sockd (cx_c x)) (fs_pending (cx_c x)) (cx_w x) = (Inr k, w)" "k \<noteq> 0"
    and all: "rp_buf_read_offset (cx_c x) + k = length (rp_buf (cx_c x))"
  defines "x2 \<equiv> fs_drained (fs_sent k (x\<lparr>cx_w := w\<rparr>))"
  shows "fs_pass x (if rp_f (cx_c x2) = None then Exit (Ret FS_SUCCESS) (fs_reply_finished x2)
                    else Again x2)"
proof -
  note facts = fs_sent_facts [OF sr]
  have "take k (fs_pending (cx_c x)) = fs_pending (cx_c x)" using all by simp
  with facts have out: "fs_out x2 = fs_out x @ fs_pending (cx_c x)" "fs_accounts x2 = fs_accounts x"
    by (simp_all add: x2_def fs_out_def fs_accounts_def)
  have fin: "fs_out (fs_reply_finished x2) = fs_out x2"
    "fs_accounts (fs_reply_finished x2) = fs_accounts x2"
    by (simp_all add: fs_reply_finished_def fs_goto_def fs_note_def fs_out_def fs_accounts_def)
  show ?thesis
  proof (cases "rp_f (cx_c x)")
    case None
    with st have "fs_to_send x = fs_pending (cx_c x)" by (simp add: fs_to_send_open)
    with inv None out fin show ?thesis
      by (simp add: fs_pass_def fs_post_def fs_fin_def fs_reply_exit_def fs_inv_def x2_def)
         (simp add: fs_reply_finished_def fs_goto_def fs_note_def fs_frame_def fs_same_def facts(5))
  next
    case (Some f)
    with inv st facts(4) have "fs_inv (cx_c x2)" "fs_mu x2 < fs_mu x"
      by (auto simp: x2_def fs_inv_def fs_stream_ok_def fs_mu_def)
    moreover have "fs_to_send x2 = st_rest f" "fs_to_send x = fs_pending (cx_c x) @ st_rest f"
      using st Some by (auto simp: fs_to_send_open x2_def)
    ultimately show ?thesis
      using out st Some
      by (auto simp: fs_pass_def fs_rel_def fs_replying_def fs_frame_def fs_same_def x2_def facts(5))
  qed
qed

lemma pass_send:
  assumes inv: "fs_inv (cx_c x)"
    and st: "fc_state (cx_c x) \<in> {FS_REPLY_SEND, FS_REPLY_FILE_CONTINUE}"
  shows "fs_pass x (fs_step_send x)"
proof -
  have off: "\<not> length (rp_buf (cx_c x)) < rp_buf_read_offset (cx_c x)"
    using inv by (simp add: fs_inv_def)
  obtain r w where sr: "sys_send (fc_sockd (cx_c x)) (fs_pending (cx_c x)) (cx_w x) = (r, w)"
    by fastforce
  show ?thesis
  proof (cases r)
    case (Inl e)
    note log = sys_send_Inl(3) [OF sr [unfolded Inl]]
    have "fs_pass x (Exit (Ret FS_ERR_SEND) (fileserve_connection_close (x\<lparr>cx_w := w\<rparr>)))"
      using log by (intro pass_close) (auto simp: fs_frame_def fs_same_def fs_accounts_def fs_out_def)
    with pass_send_would_block [OF inv st log] sr Inl off show ?thesis
      by (simp add: fs_step_send_def)
  next
    case (Inr k)
    note log = sys_send_Inr(5) [OF sr [unfolded Inr]]
    show ?thesis
    proof (cases "k = 0")
      case True
      with log have "fs_pass x (Exit (Ret FS_CLOSED) (fileserve_connection_close (x\<lparr>cx_w := w\<rparr>)))"
        by (intro pass_close) (auto simp: fs_frame_def fs_same_def fs_accounts_def fs_out_def)
      with True sr Inr off show ?thesis by (simp add: fs_step_send_def)
    next
      case False
      with sr Inr off pass_send_partial [OF inv st sr [unfolded Inr] False]
        pass_send_drained [OF inv st sr [unfolded Inr] False]
      show ?thesis by (auto simp: fs_step_send_def Let_def)
    qed
  qed
qed

text \<open>Reading more of the file first does not change what the connection has to send.\<close>

lemma pass_trans_send:
  assumes "fs_pass y out" and "fs_frame x y" "fs_accounts y = fs_accounts x" "fs_out y = fs_out x"
    and "fs_replies_sent (cx_fs y) = fs_replies_sent (cx_fs x)" "fs_mu y \<le> fs_mu x"
    and "fs_replying (cx_c y)" "fs_to_send y = fs_to_send x"
  shows "fs_pass x out"
  using assms
  by (cases out)
     (auto simp: fs_pass_def fs_rel_def fs_fin_def fs_reply_exit_def fs_frame_def fs_same_def)

lemma fread_post:
  assumes "fread n f = (bytes, f')" "\<not> st_eof f" "\<not> st_err f" "st_pos f \<le> fsize f"
  shows "st_rest f = bytes @ st_rest f'" "length bytes \<le> n" "st_pos f' \<le> fsize f'"
    "fsize f' = fsize f" "st_eof f' \<Longrightarrow> st_rest f' = []"
  using fread_props [OF assms(1)] fread_short [OF assms(1)] assms(2-)
  by (auto simp: fsize_def)

lemma pass_continue:
  assumes inv: "fs_inv (cx_c x)" and st: "fc_state (cx_c x) = FS_REPLY_FILE_CONTINUE"
  shows "fs_pass x (fs_step_file_continue x)"
proof -
  let ?c = "cx_c x"
  let ?space = "FT_BUF_SIZE - length (rp_buf ?c)"
  from inv st obtain f where f: "rp_f ?c = Some f" "\<not> st_eof f" "\<not> st_err f" "st_pos f \<le> fsize f"
    "rp_f_read_offset ?c = st_pos f" "rp_f_length ?c = fsize f"
    by (auto simp: fs_inv_def fs_stream_ok_def split: option.splits)
  obtain bytes f' where fr: "fread ?space f = (bytes, f')" by fastforce
  note post = fread_post [OF fr f(2-4)]
  define x1 where "x1 = x\<lparr>cx_c := ?c\<lparr>rp_buf := rp_buf ?c @ bytes, rp_f := Some f',
                                       rp_f_read_offset := st_pos f'\<rparr>\<rparr>"
  define x2 where "x2 = fs_goto FS_REPLY_SEND
                     (x1\<lparr>cx_c := (cx_c x1)\<lparr>rp_f := None\<rparr>, cx_w := fclose_w (cx_w x1)\<rparr>)"
  have same: "fs_out x1 = fs_out x" "fs_out x2 = fs_out x" "fs_frame x x1" "fs_frame x x2"
    "fs_accounts x1 = fs_accounts x" "fs_accounts x2 = fs_accounts x"
    by (simp_all add: x1_def x2_def fs_goto_def fs_out_def fs_frame_def fs_same_def fs_accounts_def fclose_w_def)
  have "fs_pass x (Exit (Ret FS_ERR_FATAL) (fileserve_connection_close x1))"
    using same by (intro pass_close) (auto simp: x1_def)
  moreover have "fs_pass x (fs_step_send x1)" if ok: "\<not> st_eof f'" "\<not> st_err f'"
  proof (rule pass_trans_send)
    show "fs_pass x1 (fs_step_send x1)"
      using inv st f post ok by (intro pass_send) (auto simp: x1_def fs_inv_def fs_stream_ok_def)
    show "fs_to_send x1 = fs_to_send x"
      using inv st f post by (simp add: fs_to_send_open x1_def fs_inv_def)
  qed (use same st in \<open>auto simp: x1_def fs_mu_def fs_replying_def\<close>)
  moreover have "fs_pass x (fs_step_send x2)" if ok: "st_eof f'"
  proof (rule pass_trans_send)
    show "fs_pass x2 (fs_step_send x2)"
      using inv st f post by (intro pass_send) (auto simp: x1_def x2_def fs_goto_def fs_inv_def)
    show "fs_to_send x2 = fs_to_send x"
      using inv st f post ok by (simp add: fs_to_send_open x1_def x2_def fs_goto_def fs_inv_def)
  qed (use same st in \<open>auto simp: x1_def x2_def fs_goto_def fs_mu_def fs_replying_def fclose_w_def\<close>)
  moreover have "fs_pass x (fs_step_send x)"
    using inv st by (intro pass_send) auto
  ultimately show ?thesis
    using f(1) fr by (auto simp: fs_step_file_continue_def x1_def x2_def Let_def)
qed

lemma pass_404_start:
  assumes inv: "fs_inv (cx_c x)" and st: "fc_state (cx_c x) = FS_REPLY_404_START"
  shows "fs_pass x (fs_step_404_start x)"
proof -
  define y where "y = fs_goto FS_REPLY_SEND (x\<lparr>cx_c := (cx_c x)\<lparr>rp_buf := FT_HTTP_404, rp_f := None\<rparr>\<rparr>)"
  have "fs_to_send y = fs_to_send x"
    using inv st by (simp add: y_def fs_goto_def fs_to_send_def fs_inv_def)
  moreover have "fs_inv (cx_c y)" "fs_mu y < fs_mu x" "fs_frame x y" "fs_out y = fs_out x"
    "fs_accounts y = fs_accounts x" "fs_replying (cx_c y)" "fs_replies_sent (cx_fs y) = fs_replies_sent (cx_fs x)"
    using inv st
    by (simp_all add: y_def fs_goto_def fs_inv_def fs_mu_def fs_frame_def fs_same_def fs_out_def fs_accounts_def
        fs_replying_def)
  ultimately have "fs_pass x (Again y)" by (simp add: fs_pass_def fs_rel_def)
  then show ?thesis by (simp add: fs_step_404_start_def y_def)
qed

lemma pass_trans_again:
  assumes "fs_inv (cx_c y)" "fs_mu y < fs_mu x" "fs_frame x y" "fs_accounts y = fs_accounts x"
    and "fs_replies_sent (cx_fs y) = fs_replies_sent (cx_fs x)"
    and "fs_replying (cx_c x) \<Longrightarrow>
           fs_replying (cx_c y) \<and> fs_out y = fs_out x \<and> fs_to_send y = fs_to_send x"
  shows "fs_pass x (Again y)"
  using assms by (auto simp: fs_pass_def fs_rel_def)

lemma fopen_r_stream:
  assumes "fopen_r path w = Some f"
  shows "\<not> st_eof f" "\<not> st_err f" "st_pos f = 0" "st_rest f = fi_content (st_image f)"
    "fsize f = length (fi_content (st_image f))"
  using assms by (auto simp: fopen_r_def st_rest_def fsize_def)

lemma fs_set_epoll_simps [simp]:
  "cx_c (fs_set_epoll evs x) = cx_c x" "cx_fs (fs_set_epoll evs x) = cx_fs x"
  "cx_p (fs_set_epoll evs x) = cx_p x"
  "w_log (cx_w (fs_set_epoll evs x)) = w_log (cx_w x) @ [Epoll CtlMod (fc_sockd (cx_c x)) evs]"
  "w_files (cx_w (fs_set_epoll evs x)) = w_files (cx_w x)"
  "w_recv (cx_w (fs_set_epoll evs x)) = w_recv (cx_w x)"
  "w_send (cx_w (fs_set_epoll evs x)) = w_send (cx_w x)"
  "io_work (cx_w (fs_set_epoll evs x)) = io_work (cx_w x)"
  "fs_abspath (fs_set_epoll evs x) = fs_abspath x"
  "fopen_r path (cx_w (fs_set_epoll evs x)) = fopen_r path (cx_w x)"
  by (simp_all add: fs_set_epoll_def fs_abspath_def fopen_r_def)

lemma length_http_200_header: "length (http_200_header n) = 37 + length (show_nat n)"
  by (simp add: http_200_header_def FT_HTTP_200_def FT_CONTENT_def FT_2CRLF_def)

lemma pass_file_start:
  assumes inv: "fs_inv (cx_c x)" and st: "fc_state (cx_c x) = FS_REPLY_FILE_START"
  shows "fs_pass x (fs_step_file_start x)"
proof -
  define x1 where "x1 = fs_set_epoll [EPOLLOUT] x"
  have x1: "cx_c x1 = cx_c x" "cx_fs x1 = cx_fs x" "fs_out x1 = fs_out x"
    "fs_abspath x1 = fs_abspath x" "io_work (cx_w x1) = io_work (cx_w x)"
    "fopen_r (fs_abspath x1) (cx_w x1) = fopen_r (fs_abspath x) (cx_w x)"
    "sent_on sd (w_log (cx_w x1)) = sent_on sd (w_log (cx_w x))" for sd
    by (simp_all add: x1_def fs_out_def)
  show ?thesis
  proof (cases "fopen_r (fs_abspath x) (cx_w x)")
    case None
    have "fs_pass x (Again (fs_goto FS_REPLY_404_START (x1\<lparr>cx_c := (cx_c x1)\<lparr>rp_f := None\<rparr>\<rparr>)))"
      using inv st x1 None
      by (intro pass_trans_again)
         (auto simp: fs_goto_def fs_inv_def fs_mu_def fs_frame_def fs_same_def fs_out_def fs_accounts_def
           fs_replying_def fs_to_send_def)
    with None x1 show ?thesis by (simp add: fs_step_file_start_def flip: x1_def)
  next
    case (Some f)
    note f = fopen_r_stream [OF Some]
    define x3 where "x3 = x1\<lparr>cx_c := (cx_c x1)\<lparr>rp_f := Some f, rp_f_length := fsize f,
                                             rp_buf := http_200_header (fsize f)\<rparr>\<rparr>"
    define x4 where "x4 = fs_goto FS_REPLY_SEND
                     (x3\<lparr>cx_c := (cx_c x3)\<lparr>rp_f := None\<rparr>, cx_w := fclose_w (cx_w x3)\<rparr>)"
    have same: "fs_out (fs_goto s x3) = fs_out x" "fs_frame x (fs_goto s x3)"
      "fs_accounts (fs_goto s x3) = fs_accounts x" "fs_out x4 = fs_out x" "fs_frame x x4"
      "fs_accounts x4 = fs_accounts x" for s
      using x1 by (simp_all add: x3_def x4_def fs_goto_def fs_out_def fs_frame_def fs_same_def
          fs_accounts_def fclose_w_def)
    have ts: "fs_to_send x = http_200_header (fsize f) @ st_rest f"
      using st Some by (simp add: fs_to_send_def)
    have "fs_pass x (Exit (Ret FS_ERR_BUFSPACE) (fileserve_connection_close
            (x1\<lparr>cx_c := (cx_c x1)\<lparr>rp_f := Some f, rp_f_length := fsize f\<rparr>\<rparr>)))"
      using x1 by (intro pass_close) (auto simp: fs_frame_def fs_same_def fs_accounts_def fs_out_def)
    moreover have "fs_pass x (Again x4)" if "fsize f = 0" "length (http_200_header (fsize f)) < FT_BUF_SIZE"
      using inv st x1 f ts same that
      by (intro pass_trans_again)
         (auto simp: x4_def x3_def fs_goto_def fs_inv_def fs_mu_def fs_replying_def fs_to_send_def
           fclose_w_def)
    moreover have "fs_pass x (fs_step_file_continue (fs_goto FS_REPLY_FILE_CONTINUE x3))"
      if "length (http_200_header (fsize f)) < FT_BUF_SIZE"
    proof (rule pass_trans_send)
      show "fs_pass (fs_goto FS_REPLY_FILE_CONTINUE x3)
              (fs_step_file_continue (fs_goto FS_REPLY_FILE_CONTINUE x3))"
        using inv st f x1 that
        by (intro pass_continue) (auto simp: fs_goto_def x3_def fs_inv_def fs_stream_ok_def)
      show "fs_to_send (fs_goto FS_REPLY_FILE_CONTINUE x3) = fs_to_send x"
        using inv st ts x1 by (simp add: fs_goto_def x3_def fs_to_send_def fs_inv_def)
    qed (use same x1 st in \<open>auto simp: x3_def fs_goto_def fs_mu_def fs_replying_def\<close>)
    ultimately show ?thesis
      using Some x1 by (auto simp: fs_step_file_start_def x3_def x4_def Let_def simp flip: x1_def)
  qed
qed

lemma fs_received_simps [simp]:
  "cx_w (fs_received bs x) = cx_w x"
  "fc_state (cx_c (fs_received bs x)) = fc_state (cx_c x)"
  "fc_sockd (cx_c (fs_received bs x)) = fc_sockd (cx_c x)"
  "rq_buf (cx_c (fs_received bs x)) = rq_buf (cx_c x) @ bs"
  "rq_filepath (cx_c (fs_received bs x)) = rq_filepath (cx_c x)"
  "rq_bytes_received (cx_c (fs_received bs x)) = rq_bytes_received (cx_c x) + of_nat (length bs)"
  "rp_f (cx_c (fs_received bs x)) = rp_f (cx_c x)"
  "rp_f_length (cx_c (fs_received bs x)) = rp_f_length (cx_c x)"
  "rp_f_read_offset (cx_c (fs_received bs x)) = rp_f_read_offset (cx_c x)"
  "rp_buf (cx_c (fs_received bs x)) = rp_buf (cx_c x)"
  "rp_buf_read_offset (cx_c (fs_received bs x)) = rp_buf_read_offset (cx_c x)"
  "rp_bytes_sent (cx_c (fs_received bs x)) = rp_bytes_sent (cx_c x)"
  "fs_bytes_sent (cx_fs (fs_received bs x)) = fs_bytes_sent (cx_fs x)"
  "fs_bytes_received (cx_fs (fs_received bs x)) = fs_bytes_received (cx_fs x) + of_nat (length bs)"
  "fs_replies_sent (cx_fs (fs_received bs x)) = fs_replies_sent (cx_fs x)"
  "fs_connections (cx_fs (fs_received bs x)) = fs_connections (cx_fs x)"
  "fs_listen_sockd (cx_fs (fs_received bs x)) = fs_listen_sockd (cx_fs x)"
  "fs_docroot (cx_fs (fs_received bs x)) = fs_docroot (cx_fs x)"
  "fs_epolld (cx_fs (fs_received bs x)) = fs_epolld (cx_fs x)"
  by (simp_all add: fs_received_def fs_note_def Let_def)

lemma fs_note_simps [simp]:
  "cx_c (fs_note g x) = cx_c x" "cx_fs (fs_note g x) = cx_fs x" "cx_w (fs_note g x) = cx_w x"
  by (simp_all add: fs_note_def)

lemma pass_handle_request:
  assumes inv: "fs_inv (cx_c x)" and st: "fc_state (cx_c x) \<in> {FS_IDLE, FS_REQUEST}"
    and clear: "rp_f (cx_c x) = None" "rp_buf (cx_c x) = []" "rp_buf_read_offset (cx_c x) = 0"
      "rp_f_read_offset (cx_c x) = 0"
    and sr: "sys_recv (255 - length (rq_buf (cx_c x))) (cx_w x) = (Inr bs, w)" "bs \<noteq> []"
  shows "fs_pass x (fs_handle_request (fs_received bs (x\<lparr>cx_w := w\<rparr>)))"
proof -
  note io = sys_recv_Inr [OF sr(1)]
  define x1 where "x1 = fs_received bs (x\<lparr>cx_w := w\<rparr>)"
  have nrep: "\<not> fs_replying (cx_c x)" using st by (auto simp: fs_replying_def)
  have "length (rq_buf (cx_c x)) < 256" using inv by (simp add: fs_inv_def)
  with io(1) have fits: "length (rq_buf (cx_c x1)) < FT_STR_SIZE" by (simp add: x1_def)
  have acc: "fs_accounts (fs_goto s x1) = fs_accounts x" "fs_frame x (fs_goto s x1)" for s
    using io(4) by (simp_all add: x1_def fs_goto_def fs_accounts_def fs_frame_def fs_same_def fs_out_def)
  have "fs_pass x (Exit (Ret FS_SUCCESS) (fs_goto FS_REQUEST x1))"
    using inv clear nrep fits acc
    by (simp add: fs_pass_def fs_post_def fs_fin_def fs_inv_def)
       (simp add: x1_def fs_goto_def fs_frame_def)
  moreover have "fs_pass x (Again (fs_goto FS_REPLY_404_START x1))"
    using inv st clear nrep fits acc io(2) [OF sr(2)]
    by (intro pass_trans_again) (auto simp: x1_def fs_goto_def fs_inv_def fs_mu_def)
  moreover have "fs_pass x (Again (fs_goto FS_REPLY_FILE_START (fs_note g
        (x1\<lparr>cx_c := (cx_c x1)\<lparr>rq_filepath := p, rq_done := True\<rparr>\<rparr>))))" for p g
    using inv st clear nrep fits acc io(2) [OF sr(2)]
    by (intro pass_trans_again)
       (auto simp: x1_def fs_goto_def fs_inv_def fs_mu_def fs_frame_def fs_same_def fs_accounts_def fs_out_def)
  ultimately show ?thesis
    using fits by (auto simp: fs_handle_request_def split: fs_parsed.splits simp flip: x1_def)
qed

lemma pass_request:
  assumes inv: "fs_inv (cx_c x)" and st: "fc_state (cx_c x) \<in> {FS_IDLE, FS_REQUEST}"
    and clear: "rp_f (cx_c x) = None" "rp_buf (cx_c x) = []" "rp_buf_read_offset (cx_c x) = 0"
      "rp_f_read_offset (cx_c x) = 0"
  shows "fs_pass x (fs_step_request x)"
proof (cases "length (rq_buf (cx_c x)) = 255")
  case True
  have "fs_pass x (Again (fs_goto FS_REPLY_404_START x))"
    using inv st clear
    by (intro pass_trans_again)
       (auto simp: fs_goto_def fs_inv_def fs_mu_def fs_frame_def fs_same_def fs_accounts_def fs_out_def
         fs_replying_def)
  with True show ?thesis by (simp add: fs_step_request_def)
next
  case False
  with inv have lt: "length (rq_buf (cx_c x)) < 255" by (simp add: fs_inv_def)
  have nrep: "\<not> fs_replying (cx_c x)" using st by (auto simp: fs_replying_def)
  obtain r w where sr: "sys_recv (255 - length (rq_buf (cx_c x))) (cx_w x) = (r, w)" by fastforce
  have space: "nat (255 - int (length (rq_buf (cx_c x)))) = 255 - length (rq_buf (cx_c x))" by simp
  have close: "fs_pass x (Exit (Ret e) (fileserve_connection_close (x\<lparr>cx_w := w\<rparr>)))"
    if "w_log w = w_log (cx_w x)" "e \<noteq> FS_SUCCESS" "e \<noteq> FS_ERR_WOULDBLOCK" for e
    using that by (intro pass_close) (auto simp: fs_frame_def fs_same_def fs_accounts_def fs_out_def)
  show ?thesis
  proof (cases r)
    case (Inl e)
    note io = sys_recv_Inl [OF sr [unfolded Inl]]
    have "fs_pass x (Exit (Ret FS_ERR_WOULDBLOCK) (x\<lparr>cx_w := w\<rparr>))"
      using inv io nrep
      by (simp add: fs_pass_def fs_post_def fs_fin_def fs_frame_def fs_same_def fs_accounts_def fs_out_def)
    with close [OF io(3)] lt sr Inl show ?thesis by (simp add: fs_step_request_def space)
  next
    case (Inr bs)
    note io = sys_recv_Inr [OF sr [unfolded Inr]]
    show ?thesis
      using pass_handle_request [OF inv st clear sr [unfolded Inr]] close [OF io(4)] lt sr Inr
      by (simp add: fs_step_request_def space)
  qed
qed

lemma fs_idle_reset_simps [simp]:
  "cx_fs (fs_idle_reset x) = cx_fs x" "cx_p (fs_idle_reset x) = cx_p x"
  "cx_c (fs_idle_reset x) =
     (cx_c x)\<lparr>rq_buf := [], rq_buf_read_offset := 0, rp_f := None, rp_f_length := 0,
              rp_f_read_offset := 0, rp_buf := [], rp_buf_read_offset := 0\<rparr>"
  "io_work (cx_w (fs_idle_reset x)) = io_work (cx_w x)"
  "w_recv (cx_w (fs_idle_reset x)) = w_recv (cx_w x)"
  "w_send (cx_w (fs_idle_reset x)) = w_send (cx_w x)"
  "w_files (cx_w (fs_idle_reset x)) = w_files (cx_w x)"
  "fs_out (fs_idle_reset x) = fs_out x"
  "sent_on sd (w_log (cx_w (fs_idle_reset x))) = sent_on sd (w_log (cx_w x))"
  by (simp_all add: fs_idle_reset_def fs_set_epoll_def fs_out_def)

lemma pass_idle:
  assumes "fs_inv (cx_c x)" and st: "fc_state (cx_c x) = FS_IDLE"
  shows "fs_pass x (fs_step_request (fs_idle_reset x))"
proof -
  have "fs_pass (fs_idle_reset x) (fs_step_request (fs_idle_reset x))"
    using assms by (intro pass_request) (auto simp: fs_inv_def)
  moreover have "\<not> fs_replying (cx_c x)" using st by (simp add: fs_replying_def)
  ultimately show ?thesis
    by (cases "fs_step_request (fs_idle_reset x)")
       (auto simp: fs_pass_def fs_rel_def fs_fin_def fs_mu_def fs_frame_def fs_same_def fs_accounts_def)
qed

lemma fs_step_pass: "fs_inv (cx_c x) \<Longrightarrow> fs_pass x (fs_step x)"
  by (cases "fc_state (cx_c x)")
     (simp_all add: fs_step_def pass_idle pass_404_start pass_file_start pass_continue pass_send
       pass_request fs_inv_def)

section \<open>The whole handler\<close>

interpretation fs_loop: handler_relation fs_step "\<lambda>x. fs_inv (cx_c x)" fs_mu fs_post fs_rel fs_fin
proof unfold_locales
  show "fs_inv (cx_c t)" "fs_mu t < fs_mu s" "fs_rel s t"
    if "fs_inv (cx_c s)" "fs_step s = Again t" for s t
    using fs_step_pass [OF that(1)] that(2) by (simp_all add: fs_pass_def)
  show "fs_post r t" "fs_fin s r t" if "fs_inv (cx_c s)" "fs_step s = Exit r t" for s r t
    using fs_step_pass [OF that(1)] that(2) by (simp_all add: fs_pass_def)
  show "fs_fin s r u" if "fs_rel s t" "fs_fin t r u" for s t r u
    using that
    by (auto simp: fs_rel_def fs_fin_def fs_reply_exit_def fs_frame_def fs_same_def)
qed

end
