(* ===== verification/Fileserver_Service.thy ===== *)
theory Fileserver_Service
  imports Fileserver_Correct
begin

text \<open>
  The file server as its caller sees it: \<open>fileserver_activate\<close> on a server with a table
  of connections.  The invariant \<open>fs_ok\<close> holds after \<open>fileserver_start\<close> and after every
  activation; an activation always returns; what it sends is what the reply prescribes; it
  touches only its own connection.
\<close>

section \<open>The invariant of the server\<close>

definition fs_ok :: "fileserver \<Rightarrow> bool" where
  "fs_ok fs \<longleftrightarrow> list_all (\<lambda>(k, c). fc_sockd c = k \<and> fs_inv c) (fs_connections fs)"

lemma fs_ok_lookup:
  "fs_ok fs \<Longrightarrow> map_of (fs_connections fs) k = Some c \<Longrightarrow> fc_sockd c = k \<and> fs_inv c"
  by (auto simp: fs_ok_def list_all_iff dest: map_of_SomeD)

lemma list_all_delete: "list_all P al \<Longrightarrow> list_all P (AList.delete k al)"
  by (auto simp: AList.delete_eq list_all_iff)

lemma list_all_map_entry:
  "list_all P al \<Longrightarrow> (\<And>v. P (k, f v)) \<Longrightarrow> list_all P (AList.map_entry k f al)"
  by (induction al) auto

section \<open>Accepting\<close>

lemma fs_new_conn_inv [simp]: "fs_inv (fs_new_conn sd)" "fc_sockd (fs_new_conn sd) = sd"
  by (simp_all add: fs_inv_def fs_new_conn_def)

lemma accept_one_cases:
  assumes "fileserver_accept_one fs w = (r, fs', w')"
  shows "r = FS_SUCCESS \<and> length (w_accept w') < length (w_accept w)
           \<and> (\<exists>sd. fs' = fs\<lparr>fs_connections := AList.update sd (fs_new_conn sd) (fs_connections fs)\<rparr>)
       \<or> r \<in> {FS_ERR_WOULDBLOCK, FS_ERR_ACCEPT, FS_ERR_EPOLL} \<and> fs' = fs"
  using assms
  by (auto simp: fileserver_accept_one_def sys_accept_def fileserver_connection_destroy_cb_def
      epoll_ctl_def sys_close_def fclose_w_def Let_def split: list.splits sum.splits prod.splits if_splits option.splits)

interpretation accept_loop: handler_relation fs_accept_step "\<lambda>(fs, w). fs_ok fs"
  "\<lambda>(fs, w). length (w_accept w)"
  "\<lambda>r (fs, w). fs_ok fs \<and> r \<in> {FS_ERR_WOULDBLOCK, FS_ERR_ACCEPT, FS_ERR_EPOLL}"
  "\<lambda>(fs, w) (fs', w'). fs_listen_sockd fs' = fs_listen_sockd fs \<and> fs_docroot fs' = fs_docroot fs"
  "\<lambda>(fs, w) r (fs', w'). fs_listen_sockd fs' = fs_listen_sockd fs \<and> fs_docroot fs' = fs_docroot fs"
proof (unfold_locales, goal_cases)
  case (1 s s')
  then show ?case
    using accept_one_cases [of "fst s" "snd s"]
    by (fastforce simp: fs_accept_step_def fs_ok_def intro!: list_all_update_alist split: prod.splits if_splits)
next
  case (2 s s')
  then show ?case
    using accept_one_cases [of "fst s" "snd s"]
    by (fastforce simp: fs_accept_step_def split: prod.splits if_splits)
next
  case (3 s r s')
  then show ?case
    using accept_one_cases [of "fst s" "snd s"]
    by (fastforce simp: fs_accept_step_def split: prod.splits if_splits)
next
  case (4 s s')
  then show ?case
    using accept_one_cases [of "fst s" "snd s"]
    by (fastforce simp: fs_accept_step_def split: prod.splits if_splits)
next
  case (5 s r s')
  then show ?case
    using accept_one_cases [of "fst s" "snd s"]
    by (fastforce simp: fs_accept_step_def split: prod.splits if_splits)
next
  case (6 s s' r s'')
  then show ?case by auto
qed

section \<open>One activation of a connection\<close>

definition fs_enter :: "fileserver \<Rightarrow> fs_conn \<Rightarrow> fs_progress option \<Rightarrow> world \<Rightarrow> fs_ctx" where
  "fs_enter fs c progress w =
     \<lparr>cx_fs = fs, cx_c = c, cx_p = map_option (fs_fill_progress c) progress, cx_w = w\<rparr>"

lemma fs_enter_simps [simp]:
  "cx_fs (fs_enter fs c p w) = fs" "cx_c (fs_enter fs c p w) = c" "cx_w (fs_enter fs c p w) = w"
  by (simp_all add: fs_enter_def)

text \<open>The run of the switch behind an activation on a known connection.\<close>

lemma fileserver_activate_conn:
  assumes "0 \<le> sd" "sd \<noteq> fs_listen_sockd fs" "map_of (fs_connections fs) sd = Some c"
  shows "fileserver_activate fs sd p w =
           map_option (\<lambda>(r, x). (r, fs_write_back x, cx_p x, cx_w x)) (drive fs_step (fs_enter fs c p w))"
  using assms by (simp add: fileserver_activate_def fs_enter_def)

lemma fs_ok_write_back:
  assumes ok: "fs_ok fs" and fin: "fs_fin (fs_enter fs c p w) r x" and post: "fs_post r x"
    and sd: "fc_sockd c = sd"
  shows "fs_ok (fs_write_back x)"
proof -
  from fin sd have same: "fc_sockd (cx_c x) = sd" by (simp add: fs_fin_def fs_same_def)
  show ?thesis
  proof (cases "r = Ret FS_SUCCESS \<or> r = Ret FS_ERR_WOULDBLOCK")
    case True
    with post have "fs_inv (cx_c x)" by (simp add: fs_post_def)
    with True ok fin same show ?thesis
      by (auto simp: fs_ok_def fs_write_back_def fs_fin_def intro!: list_all_map_entry)
  next
    case False
    have "AList.map_entry sd f (AList.delete sd al) = AList.delete sd al" for f and al :: "(fd \<times> fs_conn) list"
      by (induction al) auto
    with False ok fin same sd show ?thesis
      by (auto simp: fs_ok_def fs_write_back_def fs_fin_def intro!: list_all_delete)
  qed
qed

lemma fileserver_activate_cases:
  assumes ok: "fs_ok fs"
  obtains r fs' p' w' where "fileserver_activate fs sd p w = Some (Ret r, fs', p', w')" "fs_ok fs'"
    "fs_listen_sockd fs' = fs_listen_sockd fs" "fs_docroot fs' = fs_docroot fs"
proof -
  consider "sd < 0" | "0 \<le> sd" "sd = fs_listen_sockd fs"
    | "0 \<le> sd" "sd \<noteq> fs_listen_sockd fs" "map_of (fs_connections fs) sd = None"
    | c where "0 \<le> sd" "sd \<noteq> fs_listen_sockd fs" "map_of (fs_connections fs) sd = Some c"
    by (cases "map_of (fs_connections fs) sd") fastforce+
  then show thesis
  proof cases
    case 2
    from accept_loop.returns_with_post [of "(fs, w)"] ok obtain r fs' w' where
      "drive fs_accept_step (fs, w) = Some (r, fs', w')" "fs_ok fs'" by auto
    moreover from accept_loop.result_fin [OF _ this(1)] ok have
      "fs_listen_sockd fs' = fs_listen_sockd fs" "fs_docroot fs' = fs_docroot fs" by auto
    ultimately show thesis using 2 by (intro that [of r fs' p w']) (auto simp: fileserver_activate_def)
  next
    case 4
    from fs_ok_lookup [OF ok 4(3)] have c: "fc_sockd c = sd" "fs_inv c" by auto
    from fs_loop.returns_with_post [of "fs_enter fs c p w"] c obtain r x where
      dr: "drive fs_step (fs_enter fs c p w) = Some (r, x)" and post: "fs_post r x" by auto
    from fs_loop.result_fin [OF _ dr] c have fin: "fs_fin (fs_enter fs c p w) r x" by simp
    from post obtain e where "r = Ret e" by (cases r) (auto simp: fs_post_def)
    with dr fin fs_ok_write_back [OF ok fin post c(1)] 4 show thesis
      by (intro that [of e "fs_write_back x" "cx_p x" "cx_w x"])
         (auto simp: fileserver_activate_conn fs_write_back_def fs_fin_def fs_same_def)
  qed (use ok in \<open>auto intro: that simp: fileserver_activate_def\<close>)
qed

section \<open>The reply law\<close>

text \<open>What a connection still has to send, in the table of the server.\<close>

definition fs_owed :: "fileserver \<Rightarrow> fd \<Rightarrow> world \<Rightarrow> string" where
  "fs_owed fs sd w =
     (case map_of (fs_connections fs) sd of
        None \<Rightarrow> [] | Some c \<Rightarrow> fs_to_send (fs_enter fs c None w))"

lemma fs_to_send_docroot:
  "fs_docroot (cx_fs x) = fs_docroot (cx_fs y) \<Longrightarrow> cx_c x = cx_c y \<Longrightarrow> cx_w x = cx_w y
    \<Longrightarrow> fs_to_send x = fs_to_send y"
  by (simp add: fs_to_send_def fs_abspath_def split: fs_state.splits)

text \<open>
  What an activation makes of a reply of which \<open>owed\<close> is still to be sent: all of it, a
  part of it with the rest still owed, or a part of it on a connection that is gone.
\<close>

definition fs_delivers ::
    "string \<Rightarrow> fileserver \<Rightarrow> fd \<Rightarrow> world \<Rightarrow> fs_code \<Rightarrow> fileserver \<Rightarrow> world \<Rightarrow> bool" where
  "fs_delivers owed fs sd w r fs' w' \<longleftrightarrow>
     (if r = FS_SUCCESS
      then sent_on sd (w_log w') = sent_on sd (w_log w) @ owed
           \<and> map_option fc_state (map_of (fs_connections fs') sd) = Some FS_IDLE
           \<and> fs_replies_sent fs' = fs_replies_sent fs + 1
      else if r = FS_ERR_WOULDBLOCK
      then sent_on sd (w_log w') @ fs_owed fs' sd w' = sent_on sd (w_log w) @ owed
           \<and> map_option fs_replying (map_of (fs_connections fs') sd) = Some True
           \<and> fs_replies_sent fs' = fs_replies_sent fs
      else (\<exists>rest. sent_on sd (w_log w') @ rest = sent_on sd (w_log w) @ owed)
           \<and> map_of (fs_connections fs') sd = None
           \<and> fs_replies_sent fs' = fs_replies_sent fs)"

lemma fs_write_back_lookup:
  assumes "fs_fin x r x'" and "map_of (fs_connections (cx_fs x)) k = Some c0" and "fc_sockd (cx_c x) = k"
  shows "map_of (fs_connections (fs_write_back x')) k' =
           (if k' = k then if r = Ret FS_SUCCESS \<or> r = Ret FS_ERR_WOULDBLOCK then Some (cx_c x') else None
            else map_of (fs_connections (cx_fs x)) k')"
  using assms by (auto simp: fs_write_back_def fs_fin_def fs_same_def)

lemma fs_reply_exit_delivers:
  assumes fin: "fs_fin x (Ret r) x'" and rep: "fs_replying (cx_c x)"
    and c0: "map_of (fs_connections (cx_fs x)) sd = Some c0" and sd: "fc_sockd (cx_c x) = sd"
  shows "fs_delivers (fs_to_send x) (cx_fs x) sd (cx_w x) r (fs_write_back x') (cx_w x')"
proof -
  note look = fs_write_back_lookup [OF fin c0 sd]
  have sd': "fc_sockd (cx_c x') = sd" using fin sd by (simp add: fs_fin_def fs_same_def)
  have ts: "fs_to_send (fs_enter (fs_write_back x') (cx_c x') None (cx_w x')) = fs_to_send x'"
    by (rule fs_to_send_docroot) (simp_all add: fs_write_back_def)
  have "fs_reply_exit x (Ret r) x'" using fin rep by (simp add: fs_fin_def)
  moreover have "fs_replies_sent (fs_write_back x') = fs_replies_sent (cx_fs x')"
    by (simp add: fs_write_back_def)
  ultimately show ?thesis
    using sd sd' ts by (auto simp: fs_delivers_def look fs_owed_def fs_reply_exit_def fs_out_def)
qed

section \<open>The request law\<close>

text \<open>The contract of the server: the reply to a request, \<open>None\<close> while it is incomplete.\<close>

definition fs_reply_for :: "string \<Rightarrow> (string \<times> file_image) list \<Rightarrow> string \<Rightarrow> string" where
  "fs_reply_for docroot files path =
     (case map_of files (cstr docroot @ cstr path) of
        None \<Rightarrow> FT_HTTP_404
      | Some im \<Rightarrow> http_200_header (length (fi_content im)) @ fi_content im)"

definition http_serve :: "string \<Rightarrow> (string \<times> file_image) list \<Rightarrow> string \<Rightarrow> string option" where
  "http_serve docroot files request =
     (case fs_parse_request request of
        NeedMore \<Rightarrow> None
      | Malformed \<Rightarrow> Some FT_HTTP_404
      | Path p \<Rightarrow> Some (fs_reply_for docroot files p))"

text \<open>The part of a request a connection has received.\<close>

definition fs_request_so_far :: "fs_conn \<Rightarrow> string" where
  "fs_request_so_far c = (if fc_state c = FS_IDLE then [] else rq_buf c)"

lemma fs_to_send_file_start:
  "fc_state (cx_c x) = FS_REPLY_FILE_START \<Longrightarrow>
   fs_to_send x = fs_reply_for (fs_docroot (cx_fs x)) (w_files (cx_w x)) (rq_filepath (cx_c x))"
  by (simp add: fs_to_send_def fs_reply_for_def fs_abspath_def fopen_r_def fsize_def st_rest_def
      split: option.splits)

text \<open>
  The state in which the received bytes are examined: \<open>req\<close> is all of the request so far.
\<close>

definition fs_examining :: "fs_ctx \<Rightarrow> string \<Rightarrow> recv_answer list \<Rightarrow> fs_ctx \<Rightarrow> bool" where
  "fs_examining x req q x1 \<longleftrightarrow>
     fs_step x = fs_handle_request x1 \<and> rq_buf (cx_c x1) = req \<and> w_recv (cx_w x1) = q
     \<and> fs_docroot (cx_fs x1) = fs_docroot (cx_fs x)
     \<and> fs_connections (cx_fs x1) = fs_connections (cx_fs x)
     \<and> fs_replies_sent (cx_fs x1) = fs_replies_sent (cx_fs x)
     \<and> fc_sockd (cx_c x1) = fc_sockd (cx_c x)
     \<and> w_files (cx_w x1) = w_files (cx_w x) \<and> w_send (cx_w x1) = w_send (cx_w x)
     \<and> fs_out x1 = fs_out x
     \<and> rp_f (cx_c x1) = None \<and> rp_buf (cx_c x1) = [] \<and> rp_buf_read_offset (cx_c x1) = 0
     \<and> rp_f_read_offset (cx_c x1) = 0"

lemma fs_step_examines:
  assumes inv: "fs_inv (cx_c x)" and nr: "\<not> fs_replying (cx_c x)"
    and q: "w_recv (cx_w x) = RData bs # q" "bs \<noteq> []"
    and fits: "length (fs_request_so_far (cx_c x)) + length bs < FT_STR_SIZE"
  shows "\<exists>x1. fs_examining x (fs_request_so_far (cx_c x) @ bs) q x1"
proof -
  define y where "y = (if fc_state (cx_c x) = FS_IDLE then fs_idle_reset x else x)"
  define x1 where "x1 = fs_received bs (y\<lparr>cx_w := (cx_w y)\<lparr>w_recv := q\<rparr>\<rparr>)"
  have step: "fs_step x = fs_step_request y"
    using nr by (auto simp: y_def fs_step_def fs_replying_def split: fs_state.splits)
  have buf: "rq_buf (cx_c y) = fs_request_so_far (cx_c x)"
    by (simp add: y_def fs_request_so_far_def)
  have qy: "w_recv (cx_w y) = RData bs # q" using q by (simp add: y_def)
  have "int FT_STR_SIZE - int (length (rq_buf (cx_c y))) - 1 > 0" "length bs \<le> 255 - length (rq_buf (cx_c y))"
    "nat (255 - int (length (rq_buf (cx_c y)))) = 255 - length (rq_buf (cx_c y))"
    using fits q(2) by (cases bs; auto simp: buf)+
  then have "fs_step_request y = fs_handle_request x1"
    using q qy by (auto simp: fs_step_request_def sys_recv_def x1_def)
  with inv nr step buf show ?thesis
    by (intro exI [of _ x1])
       (auto simp: fs_examining_def x1_def y_def fs_out_def fs_inv_def fs_replying_def split: fs_state.splits)
qed

lemma fs_delivers_cong:
  "fs_replies_sent fs = fs_replies_sent gs \<Longrightarrow> sent_on sd (w_log w) = sent_on sd (w_log v)
    \<Longrightarrow> fs_delivers owed fs sd w r fs' w' = fs_delivers owed gs sd v r fs' w'"
  by (simp add: fs_delivers_def)

text \<open>From the examination on: an incomplete request waits, any other is answered.\<close>

lemma examined_incomplete:
  assumes "fs_examining x req q x1" "http_serve (fs_docroot (cx_fs x)) (w_files (cx_w x)) req = None"
    and "length req < FT_STR_SIZE"
  shows "drive fs_step x = Some (Ret FS_SUCCESS, fs_goto FS_REQUEST x1)"
  using assms
  by (intro drive_exit) (auto simp: fs_examining_def fs_handle_request_def http_serve_def split: fs_parsed.splits)

lemma examined_answered:
  assumes ex: "fs_examining x req q x1"
    and serve: "http_serve (fs_docroot (cx_fs x)) (w_files (cx_w x)) req = Some reply"
    and len: "length req < FT_STR_SIZE"
  shows "\<exists>y. drive fs_step x = drive fs_step y \<and> fs_inv (cx_c y) \<and> fs_replying (cx_c y) \<and> fs_to_send y = reply
     \<and> fs_connections (cx_fs y) = fs_connections (cx_fs x) \<and> fs_replies_sent (cx_fs y) = fs_replies_sent (cx_fs x)
     \<and> fc_sockd (cx_c y) = fc_sockd (cx_c x) \<and> fs_out y = fs_out x"
proof (cases "fs_parse_request req")
  case NeedMore
  with serve show ?thesis by (simp add: http_serve_def)
next
  case Malformed
  define y where "y = fs_goto FS_REPLY_404_START x1"
  from Malformed ex len have "fs_step x = Again y"
    by (simp add: fs_examining_def fs_handle_request_def y_def)
  with Malformed ex len serve show ?thesis
    by (intro exI [of _ y])
       (auto simp: drive_again y_def fs_examining_def fs_goto_def fs_inv_def fs_replying_def
         fs_to_send_def http_serve_def fs_out_def)
next
  case (Path p)
  define y where "y = fs_goto FS_REPLY_FILE_START (fs_note (\<lambda>g. g\<lparr>pg_request_done := True\<rparr>)
                        (x1\<lparr>cx_c := (cx_c x1)\<lparr>rq_filepath := p, rq_done := True\<rparr>\<rparr>))"
  from Path ex len have "fs_step x = Again y"
    by (simp add: fs_examining_def fs_handle_request_def y_def)
  moreover have "fs_to_send y = reply"
    using Path ex serve
    by (subst fs_to_send_file_start) (auto simp: y_def fs_goto_def fs_examining_def http_serve_def)
  ultimately show ?thesis
    using ex len
    by (intro exI [of _ y])
       (auto simp: drive_again y_def fs_examining_def fs_goto_def fs_inv_def fs_replying_def fs_out_def)
qed

text \<open>One activation that finds one chunk of a request.\<close>

definition fs_waits :: "string \<Rightarrow> fileserver \<Rightarrow> fd \<Rightarrow> world \<Rightarrow> fs_code \<Rightarrow> fileserver \<Rightarrow> world \<Rightarrow> bool" where
  "fs_waits req fs sd w r fs' w' \<longleftrightarrow>
     r = FS_SUCCESS \<and> sent_on sd (w_log w') = sent_on sd (w_log w)
     \<and> map_option (\<lambda>c. (fs_replying c, fs_request_so_far c)) (map_of (fs_connections fs') sd) = Some (False, req)
     \<and> fs_replies_sent fs' = fs_replies_sent fs \<and> w_files w' = w_files w"

lemma activate_chunk:
  assumes ok: "fs_ok fs" and sd: "0 \<le> sd" "sd \<noteq> fs_listen_sockd fs"
    and c: "map_of (fs_connections fs) sd = Some c" "\<not> fs_replying c"
    and q: "w_recv w = RData bs # q" "bs \<noteq> []"
    and fits: "length (fs_request_so_far c @ bs) < FT_STR_SIZE"
    and act: "fileserver_activate fs sd p w = Some (Ret r, fs', p', w')"
  shows "case http_serve (fs_docroot fs) (w_files w) (fs_request_so_far c @ bs) of
           None \<Rightarrow> fs_waits (fs_request_so_far c @ bs) fs sd w r fs' w' \<and> w_recv w' = q
         | Some reply \<Rightarrow> fs_delivers reply fs sd w r fs' w'"
proof -
  let ?x = "fs_enter fs c p w"
  let ?req = "fs_request_so_far c @ bs"
  from fs_ok_lookup [OF ok c(1)] have ci: "fc_sockd c = sd" "fs_inv c" by auto
  from fs_step_examines [of ?x bs q] ci c q fits obtain x1 where ex: "fs_examining ?x ?req q x1"
    by auto
  from act sd c(1) obtain x' where dr: "drive fs_step ?x = Some (Ret r, x')"
    and out: "fs' = fs_write_back x'" "w' = cx_w x'"
    by (auto simp: fileserver_activate_conn)
  show ?thesis
  proof (cases "http_serve (fs_docroot fs) (w_files w) ?req")
    case None
    from examined_incomplete [OF ex] None fits dr have "r = FS_SUCCESS" "x' = fs_goto FS_REQUEST x1" by auto
    with ex None out c ci show ?thesis
      by (auto simp: fs_waits_def fs_examining_def fs_write_back_def fs_goto_def fs_out_def fs_replying_def
          fs_request_so_far_def)
  next
    case (Some reply)
    from examined_answered [OF ex, of reply] Some fits obtain y where y: "drive fs_step ?x = drive fs_step y"
      "fs_inv (cx_c y)" "fs_replying (cx_c y)" "fs_to_send y = reply" "fs_connections (cx_fs y) = fs_connections fs"
      "fs_replies_sent (cx_fs y) = fs_replies_sent fs" "fc_sockd (cx_c y) = sd" "fs_out y = fs_out ?x"
      using ci(1) by auto
    have "fs_fin y (Ret r) x'" using fs_loop.result_fin [of y] y dr by simp
    from fs_reply_exit_delivers [OF this y(3)] y c out
    have "fs_delivers reply (cx_fs y) sd (cx_w y) r fs' w'" by simp
    then have "fs_delivers reply fs sd w r fs' w'"
      using y ci by (subst (asm) fs_delivers_cong [of _ fs _ _ w]) (auto simp: fs_out_def)
    with Some show ?thesis by simp
  qed
qed

section \<open>Sequences of events\<close>

text \<open>
  The main loop of the caller: the descriptors epoll reports, one activation each, against
  one world.
\<close>

fun fs_run :: "fd list \<Rightarrow> fileserver \<Rightarrow> world \<Rightarrow> (fs_code ret list \<times> fileserver \<times> world) option" where
  "fs_run [] fs w = Some ([], fs, w)"
| "fs_run (sd # sds) fs w =
     (case fileserver_activate fs sd None w of
        None \<Rightarrow> None
      | Some (r, fs1, p, w1) \<Rightarrow> map_option (\<lambda>(rs, fs2, w2). (r # rs, fs2, w2)) (fs_run sds fs1 w1))"

lemma fs_run_total:
  assumes "fs_ok fs"
  shows "\<exists>rs fs' w'. fs_run sds fs w = Some (map Ret rs, fs', w') \<and> fs_ok fs'"
  using assms
proof (induction sds arbitrary: fs w)
  case Nil
  then show ?case by (auto intro: exI [of _ "[]"])
next
  case (Cons sd sds)
  from fileserver_activate_cases [OF Cons.prems] obtain r fs1 p1 w1 where
    "fileserver_activate fs sd None w = Some (Ret r, fs1, p1, w1)" "fs_ok fs1" by metis
  moreover from Cons.IH [OF this(2)] obtain rs fs' w' where
    "fs_run sds fs1 w1 = Some (map Ret rs, fs', w')" "fs_ok fs'" by metis
  ultimately show ?case by (auto intro!: exI [of _ "r # rs"])
qed

text \<open>A request that arrives in pieces: the last activation answers the whole of it.\<close>

lemma fs_run_chunks:
  assumes "fs_ok fs" "0 \<le> sd" "sd \<noteq> fs_listen_sockd fs"
    and "map_of (fs_connections fs) sd = Some c" "\<not> fs_replying c"
    and "w_recv w = map RData (chunks @ [bs]) @ q" "[] \<notin> set (chunks @ [bs])"
    and "length (fs_request_so_far c @ concat (chunks @ [bs])) < FT_STR_SIZE"
    and "\<And>n. 0 < n \<Longrightarrow> n \<le> length chunks \<Longrightarrow>
           http_serve (fs_docroot fs) (w_files w) (fs_request_so_far c @ concat (take n chunks)) = None"
    and "http_serve (fs_docroot fs) (w_files w) (fs_request_so_far c @ concat (chunks @ [bs])) = Some reply"
  shows "\<exists>r fs' w'. fs_run (replicate (Suc (length chunks)) sd) fs w =
           Some (map Ret (replicate (length chunks) FS_SUCCESS @ [r]), fs', w')
         \<and> fs_delivers reply fs sd w r fs' w'"
  using assms
proof (induction chunks arbitrary: fs w c)
  case Nil
  obtain r fs' p' w' where act: "fileserver_activate fs sd None w = Some (Ret r, fs', p', w')"
    by (rule fileserver_activate_cases [OF Nil.prems(1)])
  with activate_chunk [OF Nil.prems(1-5) _ _ _ act] Nil.prems(6-) show ?case by auto
next
  case (Cons ch chunks)
  let ?so = "fs_request_so_far c"
  obtain r fs1 p1 w1 where act: "fileserver_activate fs sd None w = Some (Ret r, fs1, p1, w1)"
    and fs1: "fs_ok fs1" "fs_listen_sockd fs1 = fs_listen_sockd fs" "fs_docroot fs1 = fs_docroot fs"
    by (rule fileserver_activate_cases [OF Cons.prems(1)])
  have "http_serve (fs_docroot fs) (w_files w) (?so @ ch) = None"
    using Cons.prems(9) [of 1] by simp
  then have wait: "fs_waits (?so @ ch) fs sd w r fs1 w1" and q1: "w_recv w1 = map RData (chunks @ [bs]) @ q"
    using activate_chunk [OF Cons.prems(1-5) _ _ _ act, of ch "map RData (chunks @ [bs]) @ q"] Cons.prems(6-8)
    by auto
  from wait obtain c1 where c1: "map_of (fs_connections fs1) sd = Some c1" "\<not> fs_replying c1"
    "fs_request_so_far c1 = ?so @ ch" by (auto simp: fs_waits_def)
  have none: "http_serve (fs_docroot fs1) (w_files w1) (fs_request_so_far c1 @ concat (take n chunks)) = None"
    if "0 < n" "n \<le> length chunks" for n
    using Cons.prems(9) [of "Suc n"] that fs1 wait c1 by (simp add: fs_waits_def)
  have "\<exists>r fs' w'. fs_run (replicate (Suc (length chunks)) sd) fs1 w1 =
           Some (map Ret (replicate (length chunks) FS_SUCCESS @ [r]), fs', w')
         \<and> fs_delivers reply fs1 sd w1 r fs' w'"
    using Cons.prems fs1 wait c1 none q1
    by (intro Cons.IH [of fs1 c1 w1]) (auto simp: fs_waits_def)
  then obtain r2 fs2 w2 where "fs_run (replicate (Suc (length chunks)) sd) fs1 w1 =
           Some (map Ret (replicate (length chunks) FS_SUCCESS @ [r2]), fs2, w2)"
    "fs_delivers reply fs1 sd w1 r2 fs2 w2" by blast
  with act wait fs_delivers_cong [of fs1 fs sd w1 w] show ?case by (auto simp: fs_waits_def)
qed

end
