(* ===== verification/Fileserver_Http.thy ===== *)
theory Fileserver_Http
  imports Fileserver_Service
begin

text \<open>
  The request the clients of this repository print is the request the file server parses:
  as a whole, and however the network cuts it into pieces.
\<close>

definition http_path_ok :: "string \<Rightarrow> bool" where
  "http_path_ok p \<longleftrightarrow> p \<noteq> [] \<and> length p < FT_STR_SIZE \<and> list_all (\<lambda>c. c \<notin> {NUL, CR, CHR '' ''}) p"

definition http_host_ok :: "string \<Rightarrow> bool" where
  "http_host_ok h \<longleftrightarrow> list_all (\<lambda>c. c \<notin> {NUL, CR}) h"

lemma request_no_nul:
  assumes "http_path_ok path" "http_host_ok host"
  shows "cstr (http_get_request path host) = http_get_request path host"
  using assms
  by (intro cstr_id) (auto simp: http_get_request_def http_path_ok_def http_host_ok_def FT_2CRLF_def list_all_iff)

lemma ascii_lower_CR [simp]: "ascii_lower c = ascii_lower CR \<longleftrightarrow> c = CR"
  by (rule ascii_lower_inject) simp

lemma ascii_lower_space [simp]: "ascii_lower c = ascii_lower (CHR '' '') \<longleftrightarrow> c = CHR '' ''"
  by (rule ascii_lower_inject) simp

lemma ascii_lower_CR' [simp]: "ascii_lower CR = ascii_lower c \<longleftrightarrow> c = CR"
  using ascii_lower_CR by metis

text \<open>The blank line is at the very end.\<close>

lemma find_blank_line:
  assumes "http_path_ok path" "http_host_ok host"
  shows "find_ci (http_get_request path host) FT_2CRLF = Some (length path + length host + 21)"
proof -
  let ?a = "''GET '' @ path @ '' HTTP/1.1''" and ?b = "''Host: '' @ host"
  have a: "find_ci (?a @ ys) (CR # [LF, CR, LF]) = map_option ((+) (length ?a)) (find_ci ys [CR, LF, CR, LF])" for ys
    using assms(1) by (intro find_ci_skip) (auto simp: http_path_ok_def list_all_iff)
  have b: "find_ci (?b @ ys) (CR # [LF, CR, LF]) = map_option ((+) (length ?b)) (find_ci ys [CR, LF, CR, LF])" for ys
    using assms(2) by (intro find_ci_skip) (auto simp: http_host_ok_def list_all_iff)
  have req: "http_get_request path host = ?a @ CR # LF # ?b @ [CR, LF, CR, LF]"
    by (simp add: http_get_request_def FT_2CRLF_def)
  have "find_ci (CR # LF # ?b @ [CR, LF, CR, LF]) [CR, LF, CR, LF] = Some (2 + length ?b)"
    using b [of "[CR, LF, CR, LF]"] by simp
  with a [of "CR # LF # ?b @ [CR, LF, CR, LF]"] show ?thesis
    unfolding req FT_2CRLF_def by simp
qed

lemma find_path_end:
  assumes "http_path_ok path"
  shows "find_ci (path @ CHR '' '' # r) '' '' = Some (length path)"
proof -
  have "find_ci (path @ CHR '' '' # r) (CHR '' '' # []) = map_option ((+) (length path)) (find_ci (CHR '' '' # r) '' '')"
    using assms by (intro find_ci_skip) (auto simp: http_path_ok_def list_all_iff)
  then show ?thesis by simp
qed

lemma parse_get_request:
  assumes "http_path_ok path" "http_host_ok host"
  shows "fs_parse_request (http_get_request path host) = Path path"
proof -
  let ?req = "http_get_request path host"
  have blank: "strcasestr ?req FT_2CRLF = Some (length path + length host + 21)"
    using find_blank_line [OF assms] request_no_nul [OF assms] by (simp add: strcasestr_def)
  have get: "strcasestr ?req ''GET '' = Some 0"
    by (simp add: strcasestr_def request_no_nul [OF assms]) (simp add: http_get_request_def)
  have rest: "drop 4 ?req = path @ CHR '' '' # ''HTTP/1.1'' @ crlf @ ''Host: '' @ host @ FT_2CRLF"
    by (simp add: http_get_request_def)
  have nul: "NUL \<notin> set (drop 4 ?req)"
    using assms unfolding rest by (auto simp: http_path_ok_def http_host_ok_def FT_2CRLF_def list_all_iff)
  have "strcasestr (drop 4 ?req) '' '' = Some (length path)"
    unfolding strcasestr_def cstr_id [OF nul] unfolding rest using find_path_end [OF assms(1)] by simp
  moreover have "take (length path) (drop 4 ?req) = path" unfolding rest by simp
  moreover have "length path \<noteq> 0" "\<not> FT_STR_SIZE - 1 < length path"
    using assms(1) by (auto simp: http_path_ok_def)
  ultimately show ?thesis
    by (simp add: fs_parse_request_def blank get)
qed

lemma parse_get_request_prefix:
  assumes "http_path_ok path" "http_host_ok host" and n: "n < length (http_get_request path host)"
  shows "fs_parse_request (take n (http_get_request path host)) = NeedMore"
proof -
  let ?req = "http_get_request path host"
  have "cstr (take n ?req) = take n ?req"
    using request_no_nul [OF assms(1,2)] set_cstr [of ?req] by (intro cstr_id) (auto dest: in_set_takeD)
  moreover have "find_ci (take n ?req) FT_2CRLF = None"
    using find_blank_line [OF assms(1,2)] n
    by (rule_tac find_ci_take) (auto simp: http_get_request_def FT_2CRLF_def)
  ultimately show ?thesis by (simp add: fs_parse_request_def strcasestr_def)
qed

lemma concat_take_prefix:
  assumes "n \<le> length xs"
  shows "concat (take n xs) = take (length (concat (take n xs))) (concat (xs @ ys))"
proof -
  have "concat (xs @ ys) = concat (take n xs) @ concat (drop n xs @ ys)"
    by (metis append_assoc append_take_drop_id concat_append)
  then show ?thesis by simp
qed

lemma http_serve_prefix:
  assumes "http_path_ok path" "http_host_ok host"
    and "concat (chunks @ [bs]) = http_get_request path host" "bs \<noteq> []" "n \<le> length chunks"
  shows "http_serve docroot files (concat (take n chunks)) = None"
proof -
  have "length (concat (take n chunks)) \<le> length (concat chunks)"
    using concat_append [of "take n chunks" "drop n chunks"] by simp
  then have "length (concat (take n chunks)) < length (http_get_request path host)"
    using arg_cong [OF assms(3), of length] assms(4) by (cases bs) auto
  from parse_get_request_prefix [OF assms(1,2) this] have
    "fs_parse_request (concat (take n chunks)) = NeedMore"
    using concat_take_prefix [OF assms(5), of "[bs]"] unfolding assms(3) by simp
  then show ?thesis by (simp add: http_serve_def)
qed

end
