(* ===== verification/Fileserver_Properties.thy ===== *)
theory Fileserver_Properties
  imports Fileserver_Http
begin

text \<open>
  What the file server promises, for every behaviour of the kernel and of its clients.
\<close>

section \<open>Properties of the file server\<close>

text \<open>
  C1: whatever descriptors epoll reports, in whatever order, and whatever the kernel answers
  to each call, a server in a consistent state serves them all: every activation returns,
  none reads or writes outside a buffer or through a missing stream, and the server it
  leaves is consistent again.
\<close>

theorem fileserver_always_returns:
  assumes "fs_ok fs"
  shows "\<exists>rs fs' w'. fs_run sds fs w = Some (map Ret rs, fs', w') \<and> fs_ok fs'"
  using assms by (rule fs_run_total)

text \<open>A server on descriptor 3 with one fresh connection on descriptor 5.\<close>

definition demo_server :: fileserver where
  "demo_server =
     \<lparr>fs_listen_addr = 0, fs_listen_port = 80, fs_listen_sockd = 3, fs_epolld = 4,
      fs_docroot = ''/www'', fs_connections = [(5, fs_new_conn 5)],
      fs_bytes_received = 0, fs_bytes_sent = 0, fs_replies_sent = 0\<rparr>"

lemma demo_server_ok: "fs_ok demo_server"
  by (simp add: fs_ok_def demo_server_def)

theorem fileserver_always_returns_witness:
  "\<exists>rs fs' w'. fs_run [3, 5, 5, 9] demo_server quiet_world = Some (map Ret rs, fs', w') \<and> fs_ok fs'"
  by (rule fileserver_always_returns) (rule demo_server_ok)

lemma request_served:
  assumes "fs_ok fs" "0 \<le> sd" "sd \<noteq> fs_listen_sockd fs"
    and "map_of (fs_connections fs) sd = Some c" "fc_state c = FS_IDLE"
    and "w_recv w = map RData (chunks @ [bs]) @ q" "[] \<notin> set (chunks @ [bs])"
    and "concat (chunks @ [bs]) = http_get_request path host"
    and "http_path_ok path" "http_host_ok host" "length (http_get_request path host) < FT_STR_SIZE"
  shows "\<exists>r fs' w'. fs_run (replicate (Suc (length chunks)) sd) fs w =
           Some (map Ret (replicate (length chunks) FS_SUCCESS @ [r]), fs', w')
         \<and> fs_delivers (fs_reply_for (fs_docroot fs) (w_files w) path) fs sd w r fs' w'"
proof (rule fs_run_chunks)
  show "\<not> fs_replying c" using assms(5) by (simp add: fs_replying_def)
  show "length (fs_request_so_far c @ concat (chunks @ [bs])) < FT_STR_SIZE"
    using assms(5,8,11) by (simp add: fs_request_so_far_def)
  have "bs \<noteq> []" using assms(7) by auto
  then show "http_serve (fs_docroot fs) (w_files w) (fs_request_so_far c @ concat (take n chunks)) = None"
    if "n \<le> length chunks" for n
    using http_serve_prefix [OF assms(9,10,8) _ that] assms(5) by (simp add: fs_request_so_far_def)
  show "http_serve (fs_docroot fs) (w_files w) (fs_request_so_far c @ concat (chunks @ [bs])) =
          Some (fs_reply_for (fs_docroot fs) (w_files w) path)"
    using parse_get_request [OF assms(9,10)] assms(5,8) by (simp add: fs_request_so_far_def http_serve_def)
qed (use assms in auto)

text \<open>
  C2: a GET request that arrives in any number of pieces is answered once: every activation
  before the last waits, and the last one sends the reply the contract prescribes for the
  path (header and file, or the 404 line), all of it, or a prefix with exactly the rest
  still owed when the socket is full, or a prefix on a connection that is closed.
\<close>

theorem request_pieces_answered:
  assumes "fs_ok fs" "0 \<le> sd" "sd \<noteq> fs_listen_sockd fs"
    and "map_of (fs_connections fs) sd = Some c" "fc_state c = FS_IDLE"
    and "w_recv w = map RData (chunks @ [bs]) @ q" "[] \<notin> set (chunks @ [bs])"
    and "concat (chunks @ [bs]) = http_get_request path host"
    and "http_path_ok path" "http_host_ok host" "length (http_get_request path host) < FT_STR_SIZE"
  shows "\<exists>r fs' w'. fs_run (replicate (Suc (length chunks)) sd) fs w =
           Some (map Ret (replicate (length chunks) FS_SUCCESS @ [r]), fs', w')
         \<and> fs_delivers (fs_reply_for (fs_docroot fs) (w_files w) path) fs sd w r fs' w'"
  using assms by (rule request_served)

definition demo_request :: string where
  "demo_request = http_get_request ''/f'' ''h''"

definition demo_world :: world where
  "demo_world = quiet_world
     \<lparr>w_recv := [RData (take 20 demo_request), RData (drop 20 demo_request)],
      w_files := [(''/www/f'', \<lparr>fi_content = ''abc'', fi_fail = None\<rparr>)]\<rparr>"

theorem request_pieces_answered_witness:
  "\<exists>r fs' w'. fs_run [5, 5] demo_server demo_world = Some ([Ret FS_SUCCESS, Ret r], fs', w')
     \<and> fs_delivers (http_200_header 3 @ ''abc'') demo_server 5 demo_world r fs' w'"
proof -
  have len: "length (http_get_request ''/f'' ''h'') = 28"
    by (simp add: http_get_request_def FT_2CRLF_def)
  have reply: "fs_reply_for (fs_docroot demo_server) (w_files demo_world) ''/f'' = http_200_header (length ''abc'') @ ''abc''"
    by (simp add: fs_reply_for_def demo_server_def demo_world_def)
  have three: "length ''abc'' = 3" by simp
  have srv: "0 \<le> (5::fd)" "5 \<noteq> fs_listen_sockd demo_server"
    "map_of (fs_connections demo_server) 5 = Some (fs_new_conn 5)" "fc_state (fs_new_conn 5) = FS_IDLE"
    by (simp_all add: demo_server_def fs_new_conn_def)
  have ne: "take 20 demo_request \<noteq> []" "drop 20 demo_request \<noteq> []"
    using len by (simp_all add: demo_request_def flip: length_greater_0_conv)
  have q: "w_recv demo_world = map RData ([take 20 demo_request] @ [drop 20 demo_request]) @ []"
    "concat ([take 20 demo_request] @ [drop 20 demo_request]) = http_get_request ''/f'' ''h''"
    "[] \<notin> set ([take 20 demo_request] @ [drop 20 demo_request])"
    using ne by (simp_all add: demo_world_def demo_request_def)
  have args: "http_path_ok ''/f''" "http_host_ok ''h''" "length (http_get_request ''/f'' ''h'') < FT_STR_SIZE"
    using len by (simp_all add: http_path_ok_def http_host_ok_def)
  have two: "replicate (Suc (length [take 20 demo_request])) (5::fd) = [5, 5]"
    "map Ret (replicate (length [take 20 demo_request]) FS_SUCCESS @ [r]) = [Ret FS_SUCCESS, Ret r]" for r
    by simp_all
  from request_pieces_answered [OF demo_server_ok srv q(1,3,2) args] show ?thesis
    unfolding reply [unfolded three] two .
qed

text \<open>The one-activation view of a reply under way, and the frame of every activation.\<close>

lemma activate_conn_facts:
  assumes ok: "fs_ok fs" and sd: "0 \<le> sd" "sd \<noteq> fs_listen_sockd fs"
    and c: "map_of (fs_connections fs) sd = Some c"
    and act: "fileserver_activate fs sd p w = Some (r, fs', p', w')"
  obtains x' where "drive fs_step (fs_enter fs c p w) = Some (r, x')" "fs_fin (fs_enter fs c p w) r x'"
    "fs_post r x'" "fs' = fs_write_back x'" "w' = cx_w x'" "fc_sockd c = sd"
proof -
  from act sd c obtain x' where dr: "drive fs_step (fs_enter fs c p w) = Some (r, x')"
    and out: "fs' = fs_write_back x'" "w' = cx_w x'" by (auto simp: fileserver_activate_conn)
  moreover from fs_ok_lookup [OF ok c] have ci: "fs_inv (cx_c (fs_enter fs c p w))" "fc_sockd c = sd" by auto
  ultimately show thesis
    using that fs_loop.result_fin [OF ci(1) dr] fs_loop.result_post [OF ci(1) dr] by auto
qed

text \<open>
  C9: once a connection is replying, every activation conserves the reply: what it puts on
  the socket together with what it then owes is what it owed before; it ends the reply only
  when nothing is owed, and counts it once.
\<close>

theorem reply_conserved:
  assumes "fs_ok fs" "0 \<le> sd" "sd \<noteq> fs_listen_sockd fs"
    and "map_of (fs_connections fs) sd = Some c" "fs_replying c"
    and "fileserver_activate fs sd p w = Some (Ret r, fs', p', w')"
  shows "fs_delivers (fs_owed fs sd w) fs sd w r fs' w'"
proof -
  obtain x' where x': "fs_fin (fs_enter fs c p w) (Ret r) x'" "fs' = fs_write_back x'" "w' = cx_w x'"
    "fc_sockd c = sd"
    by (rule activate_conn_facts [OF assms(1-4,6)])
  have "fs_to_send (fs_enter fs c p w) = fs_owed fs sd w"
    using assms(4) by (simp add: fs_owed_def) (rule fs_to_send_docroot; simp)
  with fs_reply_exit_delivers [OF x'(1), of sd c] x' assms(4,5) show ?thesis by simp
qed

text \<open>The same server with its connection about to send the 404 line, and room for it.\<close>

definition demo_busy :: fileserver where
  "demo_busy = demo_server\<lparr>fs_connections :=
     [(5, (fs_new_conn 5)\<lparr>fc_state := FS_REPLY_404_START\<rparr>), (6, fs_new_conn 6)]\<rparr>"

lemma demo_busy_ok: "fs_ok demo_busy"
  by (simp add: fs_ok_def demo_busy_def fs_inv_def) (simp add: fs_new_conn_def)

theorem reply_conserved_witness:
  "\<exists>r fs' p' w'. fileserver_activate demo_busy 5 None (quiet_world\<lparr>w_send := [SOk 10]\<rparr>) = Some (Ret r, fs', p', w')
     \<and> fs_delivers FT_HTTP_404 demo_busy 5 (quiet_world\<lparr>w_send := [SOk 10]\<rparr>) r fs' w'"
proof -
  let ?w = "quiet_world\<lparr>w_send := [SOk 10]\<rparr>"
  obtain r fs' p' w' where act: "fileserver_activate demo_busy 5 None ?w = Some (Ret r, fs', p', w')"
    by (rule fileserver_activate_cases [OF demo_busy_ok])
  have "fs_owed demo_busy 5 ?w = FT_HTTP_404"
    by (simp add: fs_owed_def demo_busy_def fs_to_send_def)
  with reply_conserved [OF demo_busy_ok _ _ _ _ act] act show ?thesis
    by (auto simp: demo_busy_def demo_server_def fs_replying_def)
qed

text \<open>
  C24: an activation of one connection leaves every other connection as it was and sends
  nothing on any other socket.
\<close>

theorem connections_isolated:
  assumes "fs_ok fs" "0 \<le> sd" "sd \<noteq> fs_listen_sockd fs"
    and "fileserver_activate fs sd p w = Some (r, fs', p', w')" "k \<noteq> sd"
  shows "map_of (fs_connections fs') k = map_of (fs_connections fs) k
         \<and> sent_on k (w_log w') = sent_on k (w_log w)"
proof (cases "map_of (fs_connections fs) sd")
  case None
  with assms show ?thesis by (simp add: fileserver_activate_def)
next
  case (Some c)
  obtain x' where x': "fs_fin (fs_enter fs c p w) r x'" "fs' = fs_write_back x'" "w' = cx_w x'" "fc_sockd c = sd"
    by (rule activate_conn_facts [OF assms(1-3) Some assms(4)])
  with fs_write_back_lookup [OF x'(1)] Some assms(5) show ?thesis
    by (auto simp: fs_fin_def fs_same_def)
qed

theorem connections_isolated_witness:
  "\<exists>r fs' p' w'. fileserver_activate demo_busy 5 None quiet_world = Some (r, fs', p', w')
     \<and> map_of (fs_connections fs') 6 = Some (fs_new_conn 6) \<and> sent_on 6 (w_log w') = []"
proof -
  obtain r fs' p' w' where act: "fileserver_activate demo_busy 5 None quiet_world = Some (Ret r, fs', p', w')"
    by (rule fileserver_activate_cases [OF demo_busy_ok])
  with connections_isolated [OF demo_busy_ok _ _ act, of 6] show ?thesis
    by (auto simp: demo_busy_def demo_server_def quiet_world_def)
qed

text \<open>
  The server's counter of bytes sent moves, modulo 2 to the 64, by exactly the number of
  bytes the activation put on the socket.
\<close>

theorem bytes_sent_counted:
  assumes "fs_ok fs" "0 \<le> sd" "sd \<noteq> fs_listen_sockd fs"
    and "fileserver_activate fs sd p w = Some (r, fs', p', w')"
  shows "fs_bytes_sent fs' - of_nat (length (sent_on sd (w_log w'))) =
         fs_bytes_sent fs - of_nat (length (sent_on sd (w_log w)))"
proof (cases "map_of (fs_connections fs) sd")
  case None
  with assms show ?thesis by (simp add: fileserver_activate_def)
next
  case (Some c)
  obtain x' where x': "fs_fin (fs_enter fs c p w) r x'" "fs' = fs_write_back x'" "w' = cx_w x'" "fc_sockd c = sd"
    by (rule activate_conn_facts [OF assms(1-3) Some assms(4)])
  then show ?thesis
    by (auto simp: fs_fin_def fs_accounts_def fs_out_def fs_same_def fs_write_back_def)
qed

theorem bytes_sent_counted_witness:
  "\<exists>r fs' p' w'. fileserver_activate demo_busy 5 None (quiet_world\<lparr>w_send := [SOk 10]\<rparr>) = Some (r, fs', p', w')
     \<and> fs_bytes_sent fs' = of_nat (length (sent_on 5 (w_log w')))"
proof -
  let ?w = "quiet_world\<lparr>w_send := [SOk 10]\<rparr>"
  obtain r fs' p' w' where act: "fileserver_activate demo_busy 5 None ?w = Some (Ret r, fs', p', w')"
    by (rule fileserver_activate_cases [OF demo_busy_ok])
  with bytes_sent_counted [OF demo_busy_ok _ _ act] show ?thesis
    by (auto simp: demo_busy_def demo_server_def quiet_world_def)
qed

text \<open>
  A reply whose header and file fill the reply buffer exactly is sent completely, and is
  then taken for a connection the client closed: \<open>fread\<close> got all it asked for, so the
  stream does not report its end and stays open, and the next \<open>send\<close>, of no bytes, returns
  0.  The reply is never counted.
\<close>

theorem exact_fill_reported_closed:
  assumes "fs_inv (cx_c x)" "fc_state (cx_c x) = FS_REPLY_FILE_START"
    and "fopen_r (fs_abspath x) (cx_w x) = Some f" "fi_fail (st_image f) = None" "0 < fsize f"
    and "length (http_200_header (fsize f)) + fsize f = FT_BUF_SIZE"
    and "w_send (cx_w x) = [SOk k]" "FT_BUF_SIZE \<le> k"
  shows "\<exists>x'. drive fs_step x = Some (Ret FS_CLOSED, x') \<and> fs_out x' = fs_out x @ fs_to_send x
         \<and> fs_replies_sent (cx_fs x') = fs_replies_sent (cx_fs x)"
proof -
  let ?h = "http_200_header (fsize f)"
  note f = fopen_r_stream [OF assms(3)]
  have inv: "rp_buf_read_offset (cx_c x) = 0" "rp_f_read_offset (cx_c x) = 0"
    using assms(1,2) by (simp_all add: fs_inv_def)
  have room: "length ?h < FT_BUF_SIZE" "FT_BUF_SIZE - length ?h = fsize f"
    using assms(5,6) by simp_all
  have rd: "fread (fsize f) f = (fi_content (st_image f), f\<lparr>st_pos := fsize f\<rparr>)"
    using f assms(4) by (simp add: fread_def fread_limit_def fsize_def Let_def)
  define y where "y = (fs_set_epoll [EPOLLOUT] x)
     \<lparr>cx_c := (cx_c x)\<lparr>rp_f_length := fsize f, fc_state := FS_REPLY_FILE_CONTINUE,
        rp_buf := ?h @ fi_content (st_image f), rp_f := Some (f\<lparr>st_pos := fsize f\<rparr>), rp_f_read_offset := fsize f\<rparr>\<rparr>"
  have first: "fs_step x = fs_step_send y"
    using assms f inv room rd
    by (simp add: fs_step_def fs_step_file_start_def fs_step_file_continue_def fs_goto_def Let_def y_def)
  let ?bs = "?h @ fi_content (st_image f)"
  have all: "min k (length ?bs) = length ?bs" "?bs \<noteq> []" "length ?bs = FT_BUF_SIZE"
    using assms(5-8) by (auto simp: fsize_def)
  define z where "z = fs_drained (fs_sent (length ?bs)
     (y\<lparr>cx_w := emit (Sent (fc_sockd (cx_c x)) ?bs) ((cx_w y)\<lparr>w_send := []\<rparr>)\<rparr>))"
  have "fs_step_send y = Again z"
    using assms(7) all inv by (simp add: fs_step_send_def sys_send_def z_def y_def Let_def)
  moreover have "rp_buf (cx_c z) = []" "rp_buf_read_offset (cx_c z) = 0" "fc_state (cx_c z) = FS_REPLY_FILE_CONTINUE"
    "rp_f_read_offset (cx_c z) = rp_f_length (cx_c z)" "rp_f (cx_c z) \<noteq> None" "w_send (cx_w z) = []"
    by (simp_all add: z_def y_def)
  then have "fs_step z = Exit (Ret FS_CLOSED) (fileserve_connection_close z)"
    by (auto simp: fs_step_def fs_step_file_continue_def fs_step_send_def sys_send_def)
  ultimately have "drive fs_step x = Some (Ret FS_CLOSED, fileserve_connection_close z)"
    using first by (simp add: drive_again drive_exit)
  moreover have "fs_to_send x = ?bs" using assms(2,3) f by (simp add: fs_to_send_def)
  ultimately show ?thesis by (simp add: z_def y_def fs_out_def)
qed

text \<open>A file of 51158 bytes behind a header of 42.\<close>

definition demo_fill :: fs_ctx where
  "demo_fill = fs_enter demo_server
     ((fs_new_conn 5)\<lparr>fc_state := FS_REPLY_FILE_START, rq_filepath := ''/f''\<rparr>) None
     (quiet_world\<lparr>w_send := [SOk 51200],
        w_files := [(''/www/f'', \<lparr>fi_content = replicate 51158 (CHR ''x''), fi_fail = None\<rparr>)]\<rparr>)"

theorem exact_fill_reported_closed_witness:
  "\<exists>x'. drive fs_step demo_fill = Some (Ret FS_CLOSED, x') \<and> fs_out x' = fs_out demo_fill @ fs_to_send demo_fill
         \<and> fs_replies_sent (cx_fs x') = fs_replies_sent (cx_fs demo_fill)"
proof -
  let ?f = "\<lparr>st_image = \<lparr>fi_content = replicate 51158 (CHR ''x''), fi_fail = None\<rparr>, st_pos = 0,
               st_eof = False, st_err = False\<rparr>"
  have "fopen_r (fs_abspath demo_fill) (cx_w demo_fill) = Some ?f"
    by (simp add: demo_fill_def fs_abspath_def fopen_r_def demo_server_def)
  moreover have sz: "fsize ?f = 51158" by (simp add: fsize_def)
  moreover have "length (http_200_header 51158) = 42"
    by (simp add: length_http_200_header show_nat.simps)
  moreover have "fs_inv (cx_c demo_fill)" "fc_state (cx_c demo_fill) = FS_REPLY_FILE_START"
    "w_send (cx_w demo_fill) = [SOk 51200]"
    by (simp_all add: demo_fill_def fs_inv_def) (simp_all add: fs_new_conn_def)
  ultimately show ?thesis
    by (intro exact_fill_reported_closed [where f = ?f and k = 51200]) simp_all
qed

text \<open>
  Accepting connections on fresh descriptors enters each of them in the table with an
  empty request, keeps all others and closes nothing; the loop ends when the queue is empty.
\<close>

theorem accept_enters_all:
  assumes "0 \<le> fs_listen_sockd fs" "w_accept w = map Inr xs" "w_ctl w = []"
    and "distinct (map fst xs)" "\<forall>sd\<in>fst ` set xs. map_of (fs_connections fs) sd = None"
  shows "\<exists>fs' w'. fileserver_activate fs (fs_listen_sockd fs) p w = Some (Ret FS_ERR_WOULDBLOCK, fs', p, w')
     \<and> map_of (fs_connections fs') =
         (\<lambda>k. if k \<in> fst ` set xs then Some (fs_new_conn k) else map_of (fs_connections fs) k)
     \<and> closed_fds (w_log w') = closed_fds (w_log w)"
proof -
  have "\<exists>fs' w'. drive fs_accept_step (fs, w) = Some (FS_ERR_WOULDBLOCK, fs', w')
     \<and> map_of (fs_connections fs') =
         (\<lambda>k. if k \<in> fst ` set xs then Some (fs_new_conn k) else map_of (fs_connections fs) k)
     \<and> closed_fds (w_log w') = closed_fds (w_log w)"
    using assms(2-)
  proof (induction xs arbitrary: fs w)
    case Nil
    then have "fs_accept_step (fs, w) = Exit FS_ERR_WOULDBLOCK (fs, w)"
      by (simp add: fs_accept_step_def fileserver_accept_one_def sys_accept_def)
    then show ?case by (simp add: drive_exit)
  next
    case (Cons a xs)
    obtain sd addr where a: "a = (sd, addr)" by fastforce
    define fs1 where "fs1 = fs\<lparr>fs_connections := AList.update sd (fs_new_conn sd) (fs_connections fs)\<rparr>"
    define w1 where "w1 = emit (Epoll CtlAdd sd [EPOLLIN]) (w\<lparr>w_accept := map Inr xs\<rparr>)"
    have "fs_accept_step (fs, w) = Again (fs1, w1)"
      using Cons.prems a
      by (simp add: fs_accept_step_def fileserver_accept_one_def sys_accept_def epoll_ctl_def fs1_def w1_def)
    moreover have "\<exists>fs' w'. drive fs_accept_step (fs1, w1) = Some (FS_ERR_WOULDBLOCK, fs', w')
     \<and> map_of (fs_connections fs') =
         (\<lambda>k. if k \<in> fst ` set xs then Some (fs_new_conn k) else map_of (fs_connections fs1) k)
     \<and> closed_fds (w_log w') = closed_fds (w_log w1)"
      using Cons.prems a by (intro Cons.IH) (auto simp: fs1_def w1_def emit_def)
    moreover have "closed_fds (w_log w1) = closed_fds (w_log w)" by (simp add: w1_def)
    ultimately show ?case
      using Cons.prems a by (auto simp: drive_again fs1_def fun_eq_iff)
  qed
  then show ?thesis using assms(1) by (auto simp: fileserver_activate_def)
qed

theorem accept_enters_all_witness:
  "\<exists>fs' w'. fileserver_activate demo_server 3 None (quiet_world\<lparr>w_accept := [Inr (7, 0), Inr (8, 1)]\<rparr>) =
       Some (Ret FS_ERR_WOULDBLOCK, fs', None, w')
     \<and> map_of (fs_connections fs') 8 = Some (fs_new_conn 8) \<and> closed_fds (w_log w') = []"
  using accept_enters_all [of demo_server "quiet_world\<lparr>w_accept := [Inr (7, 0), Inr (8, 1)]\<rparr>"
      "[(7, 0), (8, 1)]" None]
  by (auto simp: demo_server_def quiet_world_def)

text \<open>
  The code-to-text function lets through every index up to the size of its table in
  bytes: for 15 to 119 it reads outside the table.
\<close>

theorem codetoa_reads_outside:
  "fileserver_codetoa i = UB \<longleftrightarrow> 15 \<le> i \<and> i < 120"
proof -
  have "length fileserver_code_strings = 15" by (simp add: fileserver_code_strings_def)
  then show ?thesis by (auto simp: fileserver_codetoa_def)
qed

lemma shutdown_connections_log:
  "closed_fds (w_log (fold (\<lambda>(sd, c). fileserver_connection_destroy_cb c) cs w)) =
     closed_fds (w_log w) @ map (fc_sockd \<circ> snd) cs"
  by (induction cs arbitrary: w)
     (auto simp: fileserver_connection_destroy_cb_def Let_def fclose_w_def)

text \<open>
  Shutting down closes the socket of every connection and then the listening socket,
  each once, and leaves no connection in the table.
\<close>

theorem shutdown_closes_everything:
  "case fileserver_shutdown fs w of (r, fs', w') \<Rightarrow>
     closed_fds (w_log w') = closed_fds (w_log w) @ map (fc_sockd \<circ> snd) (fs_connections fs) @ [fs_listen_sockd fs]
     \<and> fs_connections fs' = []"
proof -
  define w2 where "w2 = snd (epoll_ctl CtlDel (fs_listen_sockd fs) []
    (fold (\<lambda>(sd, c). fileserver_connection_destroy_cb c) (fs_connections fs) w))"
  obtain ok w3 where sc: "sys_close (fs_listen_sockd fs) w2 = (ok, w3)" by fastforce
  have "w_log w3 = w_log w2 @ [Closed (fs_listen_sockd fs)]"
    using sys_close_frame(5) [of "fs_listen_sockd fs" w2] sc by simp
  then have "closed_fds (w_log w3) =
      closed_fds (w_log w) @ map (fc_sockd \<circ> snd) (fs_connections fs) @ [fs_listen_sockd fs]"
    by (simp add: w2_def shutdown_connections_log)
  moreover have "fileserver_shutdown fs w =
      (if ok then FS_SUCCESS else FS_ERR_CLOSE, fs\<lparr>fs_connections := []\<rparr>, w3)"
    using sc by (simp add: fileserver_shutdown_def w2_def)
  ultimately show ?thesis by simp
qed

end
