(* ===== verification/Filegetter.thy ===== *)
theory Filegetter
  imports Fileserver
begin

text \<open>
  The HTTP client (\<open>filetransfer/filegetter.c\<close>, \<open>filegetter.h\<close>), direct or through a
  SOCKS5 proxy.  \<open>fg_buf\<close> is the list of the bytes below \<open>buf_write_offset\<close>; addresses and
  ports are in network order, as the structure keeps them, and are copied to the buffer byte
  by byte as they lie in memory.  The state of the handler is the getter and the world.
\<close>

section \<open>Data\<close>

datatype fg_code =
    FG_SUCCESS | FG_ERR_INVALID | FG_ERR_FATAL | FG_ERR_NOTSTARTED | FG_ERR_NEEDFSPEC
  | FG_ERR_SOCKET | FG_ERR_SOCKSINIT | FG_ERR_SOCKSCONN | FG_ERR_HTTPCONN | FG_ERR_FOPEN
  | FG_ERR_CLOSE | FG_ERR_WOULDBLOCK | FG_ERR_SEND | FG_ERR_RECV | FG_CLOSED | FG_OK_200 | FG_ERR_404

datatype fg_state =
    FG_IDLE | FG_SPEC | FG_SEND | FG_RECEIVE | FG_CHECK_DOWNLOAD
  | FG_REQUEST_SOCKS_INIT | FG_TOREPLY_SOCKS_INIT | FG_REPLY_SOCKS_INIT
  | FG_REQUEST_SOCKS_CONN | FG_TOREPLY_SOCKS_CONN | FG_REPLY_SOCKS_CONN
  | FG_REQUEST_HTTP | FG_TOREPLY_HTTP | FG_REPLY_HTTP

record fg_stats =
  st_first_byte_time :: timespec
  st_download_time :: timespec
  st_body_bytes_downloaded :: u64
  st_body_bytes_expected :: u64
  st_bytes_downloaded :: u64
  st_bytes_uploaded :: u64

record fg_filespec =
  fp_remote_path :: string
  fp_local_path :: string
  fp_do_save :: bool
  fp_save_to_memory :: bool

record fg_serverspec =
  sp_http_hostname :: string
  sp_http_addr :: u32
  sp_http_port :: u16
  sp_socks_addr :: u32
  sp_socks_port :: u16
  sp_persistent :: bool
  sp_useHostname :: bool
  sp_hostnameLength :: int

record filegetter =
  fg_sspec :: fg_serverspec
  fg_fspec :: fg_filespec
  fg_curstats :: fg_stats
  fg_allstats :: fg_stats
  fg_sockd :: fd
  fg_epolld :: fd
  fg_f :: bool
  fg_content :: "string option"
  fg_buf :: string
  fg_buf_read_offset :: nat
  fg_download_start :: timespec
  fg_download_first_byte :: timespec
  fg_download_end :: timespec
  fg_state :: fg_state
  fg_nextstate :: fg_state
  fg_errcode :: fg_code

type_synonym fg_ctx = "filegetter \<times> world"

definition filegetter_code_strings :: "string list" where
  "filegetter_code_strings =
     [''FG_SUCCESS'', ''FG_ERR_INVALID'', ''FG_ERR_FATAL'', ''FG_ERR_NOTSTARTED'',
      ''FG_ERR_NEEDFSPEC'', ''FG_ERR_SOCKET'', ''FG_ERR_SOCKSINIT'', ''FG_ERR_SOCKSCONN'',
      ''FG_ERR_HTTPCONN'', ''FG_ERR_FOPEN'', ''FG_ERR_CLOSE'', ''FG_ERR_WOULDBLOCK'',
      ''FG_ERR_SEND'', ''FG_ERR_RECV'', ''FG_CLOSED'', ''FG_OK_200'', ''FG_ERR_404'']"

text \<open>As in the server, the bound is the size of the table in bytes.\<close>

definition filegetter_codetoa :: "int \<Rightarrow> string option ret" where
  "filegetter_codetoa index =
     (if 0 \<le> index \<and> index < 8 * int (length filegetter_code_strings)
      then if nat index < length filegetter_code_strings
           then Ret (Some (filegetter_code_strings ! nat index)) else UB
      else Ret None)"

definition zero_time :: timespec where "zero_time = \<lparr>tv_sec = 0, tv_nsec = 0\<rparr>"

definition zero_stats :: fg_stats where
  "zero_stats = \<lparr>st_first_byte_time = zero_time, st_download_time = zero_time,
     st_body_bytes_downloaded = 0, st_body_bytes_expected = 0, st_bytes_downloaded = 0,
     st_bytes_uploaded = 0\<rparr>"

definition zero_getter :: filegetter where
  "zero_getter = \<lparr>
     fg_sspec = \<lparr>sp_http_hostname = [], sp_http_addr = 0, sp_http_port = 0, sp_socks_addr = 0,
                sp_socks_port = 0, sp_persistent = False, sp_useHostname = False,
                sp_hostnameLength = 0\<rparr>,
     fg_fspec = \<lparr>fp_remote_path = [], fp_local_path = [], fp_do_save = False,
                fp_save_to_memory = False\<rparr>,
     fg_curstats = zero_stats, fg_allstats = zero_stats, fg_sockd = 0, fg_epolld = 0,
     fg_f = False, fg_content = None, fg_buf = [], fg_buf_read_offset = 0,
     fg_download_start = zero_time, fg_download_first_byte = zero_time,
     fg_download_end = zero_time, fg_state = FG_IDLE, fg_nextstate = FG_IDLE,
     fg_errcode = FG_SUCCESS\<rparr>"

section \<open>Connecting and disconnecting\<close>

definition filegetter_connect ::
    "u32 \<Rightarrow> u16 \<Rightarrow> filegetter \<Rightarrow> world \<Rightarrow> fg_code \<times> filegetter \<times> world" where
  "filegetter_connect addr port fg w =
     (case sys_socket w of
        (Inl e, w1) \<Rightarrow> (FG_ERR_SOCKET, fg, w1)
      | (Inr sockd, w1) \<Rightarrow>
          (case sys_connect sockd addr port w1 of (result, w2) \<Rightarrow>
             if result \<noteq> None \<and> result \<noteq> Some EINPROGRESS then (FG_ERR_SOCKET, fg, w2)
             else (FG_SUCCESS, fg\<lparr>fg_sockd := sockd\<rparr>, snd (epoll_ctl CtlAdd sockd [EPOLLOUT] w2))))"

definition filegetter_disconnect :: "filegetter \<Rightarrow> world \<Rightarrow> fg_code \<times> filegetter \<times> world" where
  "filegetter_disconnect fg w =
     (let (fclose_ok, w1) = (if fg_f fg then sys_fclose w else (True, w));
          (close_ok, w2) = (if fg_sockd fg \<noteq> 0
                            then sys_close (fg_sockd fg) (snd (epoll_ctl CtlDel (fg_sockd fg) [] w1))
                            else (True, w1))
      in (if close_ok \<and> fclose_ok then FG_SUCCESS else FG_ERR_CLOSE,
          fg\<lparr>fg_f := False, fg_sockd := 0\<rparr>, w2))"

definition filegetter_shutdown :: "filegetter \<Rightarrow> world \<Rightarrow> fg_code \<times> filegetter \<times> world" where
  "filegetter_shutdown fg w = filegetter_disconnect (fg\<lparr>fg_state := FG_IDLE\<rparr>) w"

definition filegetter_die :: "filegetter \<Rightarrow> world \<Rightarrow> (fg_code ret, fg_ctx) outcome" where
  "filegetter_die fg w = Exit (Ret FG_ERR_FATAL) (snd (filegetter_shutdown fg w))"

section \<open>Metrics\<close>

text \<open>The \<open>while\<close> loop that brings a sum of \<open>tv_nsec\<close> back into range.\<close>

function ts_carry :: "timespec \<Rightarrow> timespec" where
  "ts_carry t =
     (if NSEC \<le> tv_nsec t then ts_carry \<lparr>tv_sec = tv_sec t + 1, tv_nsec = tv_nsec t - NSEC\<rparr> else t)"
  by auto
termination by (relation "measure (\<lambda>t. nat (tv_nsec t))") (auto simp: NSEC_def)

declare ts_carry.simps [simp del]

definition ts_plus :: "timespec \<Rightarrow> timespec \<Rightarrow> timespec" where
  "ts_plus a b = ts_carry \<lparr>tv_sec = tv_sec a + tv_sec b, tv_nsec = tv_nsec a + tv_nsec b\<rparr>"

definition filegetter_metrics_first :: "filegetter \<Rightarrow> filegetter" where
  "filegetter_metrics_first fg =
     fg\<lparr>fg_curstats := (fg_curstats fg)\<lparr>st_first_byte_time :=
          ts_minus (fg_download_first_byte fg) (fg_download_start fg)\<rparr>\<rparr>"

definition filegetter_metrics_progress :: "filegetter \<Rightarrow> world \<Rightarrow> fg_ctx" where
  "filegetter_metrics_progress fg w =
     (let (now, w') = clock_gettime w
      in (fg\<lparr>fg_curstats := (fg_curstats fg)\<lparr>st_download_time :=
               ts_minus now (fg_download_start fg)\<rparr>\<rparr>, w'))"

definition filegetter_metrics_complete :: "filegetter \<Rightarrow> filegetter" where
  "filegetter_metrics_complete fg =
     fg\<lparr>fg_allstats := (fg_allstats fg)
          \<lparr>st_first_byte_time := ts_plus (st_first_byte_time (fg_allstats fg)) (st_first_byte_time (fg_curstats fg)),
           st_download_time := ts_plus (st_download_time (fg_allstats fg)) (st_download_time (fg_curstats fg))\<rparr>\<rparr>"

section \<open>Starting a download\<close>

definition filegetter_start :: "fd \<Rightarrow> fg_code \<times> filegetter" where
  "filegetter_start epolld = (FG_SUCCESS, zero_getter\<lparr>fg_state := FG_SPEC, fg_epolld := epolld\<rparr>)"

text \<open>
  The specifications are copied before anything can fail.  A failed \<open>fopen\<close> leaves the
  offsets and the statistics of the previous download in place.
\<close>

definition filegetter_set_specs ::
    "filegetter \<Rightarrow> fg_serverspec \<Rightarrow> fg_filespec \<Rightarrow> world \<Rightarrow> fg_code \<times> filegetter \<times> world" where
  "filegetter_set_specs fg sspec fspec w =
     (if fg_state fg \<noteq> FG_SPEC then (FG_ERR_INVALID, fg, w)
      else
        (let fg1 = fg\<lparr>fg_sspec := sspec, fg_fspec := fspec,
                     fg_content := (if fp_save_to_memory fspec then Some [] else fg_content fg)\<rparr>;
             (ok, w1) = (if fp_do_save fspec then fopen_w w else (True, w));
             fg2 = (if fp_do_save fspec then fg1\<lparr>fg_f := ok\<rparr> else fg1)
         in if \<not> ok then (FG_ERR_FOPEN, fg2, w1)
            else (FG_SUCCESS,
                  fg2\<lparr>fg_buf_read_offset := 0, fg_buf := [], fg_curstats := zero_stats\<rparr>, w1)))"

definition filegetter_changeEpoll :: "filegetter \<Rightarrow> epoll_ev list \<Rightarrow> world \<Rightarrow> world" where
  "filegetter_changeEpoll fg evs w = snd (epoll_ctl CtlMod (fg_sockd fg) evs w)"

definition INADDR_NONE :: u32 where "INADDR_NONE = 0xFFFFFFFF"

definition filegetter_download ::
    "filegetter \<Rightarrow> fg_serverspec \<Rightarrow> fg_filespec \<Rightarrow> world \<Rightarrow> fg_code \<times> filegetter \<times> world" where
  "filegetter_download fg0 sspec fspec w0 =
     (case filegetter_set_specs fg0 sspec fspec w0 of (result, fg, w) \<Rightarrow>
        if sp_persistent (fg_sspec fg) \<and> 0 < fg_sockd fg
        then (let fg' = fg\<lparr>fg_state := FG_REQUEST_HTTP\<rparr>
              in (FG_SUCCESS, fg', filegetter_changeEpoll fg' [EPOLLOUT] w))
        else if result = FG_SUCCESS
        then (let (now, w1) = clock_gettime w;
                  fg1 = fg\<lparr>fg_download_start := now\<rparr>;
                  socks = (0 < sp_socks_port (fg_sspec fg1) \<and> sp_socks_addr (fg_sspec fg1) \<noteq> INADDR_NONE)
              in case (if socks
                       then filegetter_connect (sp_socks_addr (fg_sspec fg1)) (sp_socks_port (fg_sspec fg1)) fg1 w1
                       else filegetter_connect (sp_http_addr (fg_sspec fg1)) (sp_http_port (fg_sspec fg1)) fg1 w1)
                 of (r, fg2, w2) \<Rightarrow>
                   if r \<noteq> FG_SUCCESS
                   then (if socks then FG_ERR_SOCKSCONN else FG_ERR_HTTPCONN, fg2, w2)
                   else let fg3 = fg2\<lparr>fg_state := if socks then FG_REQUEST_SOCKS_INIT else FG_REQUEST_HTTP\<rparr>
                        in (FG_SUCCESS, fg3, filegetter_changeEpoll fg3 [EPOLLOUT] w2))
        else (result, fg, filegetter_changeEpoll fg [EPOLLOUT] w))"

section \<open>The state machine\<close>

definition fg_goto :: "fg_state \<Rightarrow> filegetter \<Rightarrow> filegetter" where
  "fg_goto st fg = fg\<lparr>fg_state := st\<rparr>"

definition fg_io :: "fg_state \<Rightarrow> fg_state \<Rightarrow> filegetter \<Rightarrow> filegetter" where
  "fg_io st next fg = fg\<lparr>fg_state := st, fg_nextstate := next\<rparr>"

text \<open>The unread part of the buffer, \<open>fg_buf + buf_read_offset\<close> up to the write offset.\<close>

definition fg_avail :: "filegetter \<Rightarrow> string" where
  "fg_avail fg = drop (fg_buf_read_offset fg) (fg_buf fg)"

definition fg_space :: "filegetter \<Rightarrow> nat" where
  "fg_space fg = FT_BUF_SIZE - length (fg_buf fg)"

definition fg_append :: "string \<Rightarrow> filegetter \<Rightarrow> filegetter" where
  "fg_append bs fg = fg\<lparr>fg_buf := fg_buf fg @ bs\<rparr>"

definition FT_SOCKS_INIT :: string where "FT_SOCKS_INIT = map char_of [5, 1, 0 :: nat]"
definition FT_SOCKS_REQ_HEAD :: string where "FT_SOCKS_REQ_HEAD = map char_of [5, 1, 0, 1 :: nat]"
definition FT_SOCKS_REQ_HOST :: string where "FT_SOCKS_REQ_HOST = map char_of [5, 1, 0, 3 :: nat]"

text \<open>\<open>case FG_REQUEST_SOCKS_INIT\<close>; the \<open>TOREPLY\<close> states differ only in what follows.\<close>

definition fg_step_request_socks_init :: "fg_ctx \<Rightarrow> (fg_code ret, fg_ctx) outcome" where
  "fg_step_request_socks_init = (\<lambda>(fg, w).
     (if fg_space fg < length FT_SOCKS_INIT then Exit AssertFail (fg, w)
      else let fg1 = fg_io FG_SEND FG_TOREPLY_SOCKS_INIT (fg_append FT_SOCKS_INIT fg)
           in Again (fg1, filegetter_changeEpoll fg1 [EPOLLOUT] w)))"

definition fg_step_toreply :: "fg_state \<Rightarrow> fg_ctx \<Rightarrow> (fg_code ret, fg_ctx) outcome" where
  "fg_step_toreply next = (\<lambda>(fg, w).
     Again (fg_io FG_RECEIVE next fg, filegetter_changeEpoll fg [EPOLLIN] w))"

definition fg_byte :: "filegetter \<Rightarrow> nat \<Rightarrow> nat" where
  "fg_byte fg i = of_char (fg_avail fg ! i)"

definition fg_step_reply_socks_init :: "fg_ctx \<Rightarrow> (fg_code ret, fg_ctx) outcome" where
  "fg_step_reply_socks_init = (\<lambda>(fg, w).
     (if length (fg_avail fg) < 2 then Again (fg_goto FG_TOREPLY_SOCKS_INIT fg, w)
      else if fg_byte fg 0 \<noteq> 5 then Exit (Ret FG_ERR_SOCKSINIT) (fg, w)
      else if fg_byte fg 1 \<noteq> 0 then Exit (Ret FG_ERR_SOCKSINIT) (fg, w)
      else Again (fg_goto FG_REQUEST_SOCKS_CONN
             (fg\<lparr>fg_buf_read_offset := fg_buf_read_offset fg + 2\<rparr>), w)))"

text \<open>
  The host name is copied with \<open>hostnameLength\<close> bytes from an array of 256; the assertion
  compares as \<open>size_t\<close>, so a negative sum never passes it.
\<close>

definition fg_socks_target :: "fg_serverspec \<Rightarrow> string" where
  "fg_socks_target sp =
     (if sp_useHostname sp
      then FT_SOCKS_REQ_HOST @ le_bytes 1 (nat (sp_hostnameLength sp mod 256))
             @ take (nat (sp_hostnameLength sp)) (sp_http_hostname sp @ replicate FT_STR_SIZE NUL)
             @ le_bytes 2 (unat (sp_http_port sp))
      else FT_SOCKS_REQ_HEAD @ le_bytes 4 (unat (sp_http_addr sp)) @ le_bytes 2 (unat (sp_http_port sp)))"

definition fg_step_request_socks_conn :: "fg_ctx \<Rightarrow> (fg_code ret, fg_ctx) outcome" where
  "fg_step_request_socks_conn = (\<lambda>(fg, w).
     (let sp = fg_sspec fg; len = sp_hostnameLength sp;
          need = (if sp_useHostname sp then 7 + len else 10);
          fg1 = fg_io FG_SEND FG_TOREPLY_SOCKS_CONN (fg_append (fg_socks_target sp) fg)
      in if need < 0 \<or> int (fg_space fg) < need then Exit AssertFail (fg, w)
         else if sp_useHostname sp \<and> (len < 0 \<or> int FT_STR_SIZE < len) then Exit UB (fg, w)
         else Again (fg1, filegetter_changeEpoll fg1 [EPOLLOUT] w)))"

text \<open>\<open>case FG_REPLY_SOCKS_CONN\<close>; the reconnect closes the old socket without its epoll entry.\<close>

definition fg_socks_bind_addr :: "filegetter \<Rightarrow> u32" where
  "fg_socks_bind_addr fg = of_nat (le_value (take 4 (drop 4 (fg_avail fg))))"

definition fg_socks_bind_port :: "filegetter \<Rightarrow> u16" where
  "fg_socks_bind_port fg = of_nat (le_value (take 2 (drop 8 (fg_avail fg))))"

definition fg_step_reply_socks_conn :: "fg_ctx \<Rightarrow> (fg_code ret, fg_ctx) outcome" where
  "fg_step_reply_socks_conn = (\<lambda>(fg, w).
     (if length (fg_avail fg) < 10 then Again (fg_goto FG_TOREPLY_SOCKS_CONN fg, w)
      else if fg_byte fg 0 \<noteq> 5 then Exit (Ret FG_ERR_SOCKSCONN) (fg, w)
      else if fg_byte fg 1 \<noteq> 0 then Exit (Ret FG_ERR_SOCKSCONN) (fg, w)
      else if fg_byte fg 3 \<noteq> 1 then Exit (Ret FG_ERR_SOCKSCONN) (fg, w)
      else
        let addr = fg_socks_bind_addr fg; port = fg_socks_bind_port fg;
            fg1 = fg\<lparr>fg_buf_read_offset := fg_buf_read_offset fg + 10\<rparr>
        in if addr \<noteq> 0 \<and> port \<noteq> 0
           then (case filegetter_connect addr port fg1 (snd (sys_close (fg_sockd fg1) w)) of (r, fg2, w2) \<Rightarrow>
                   if r \<noteq> FG_SUCCESS then Exit (Ret FG_ERR_SOCKSCONN) (fg2, w2)
                   else Again (fg_io FG_REQUEST_HTTP FG_REQUEST_HTTP fg2, w2))
           else Again (fg_io FG_REQUEST_HTTP FG_REQUEST_HTTP fg1, w)))"

text \<open>
  \<open>case FG_REQUEST_HTTP\<close>.  \<open>snprintf\<close> writes at most \<open>space\<close> bytes, its NUL included, and
  returns the full length, which is compared with the size of the whole buffer: when the
  request does not fit behind what is buffered, the write offset passes the end of the
  buffer and the following \<open>send\<close> reads outside it.  Path and host name are arrays of
  256 bytes; one that fills its array has no terminating NUL for \<open>%s\<close> to stop at.
\<close>

definition fg_names_terminated :: "filegetter \<Rightarrow> bool" where
  "fg_names_terminated fg \<longleftrightarrow>
     length (cstr (fp_remote_path (fg_fspec fg))) < FT_STR_SIZE
     \<and> length (cstr (sp_http_hostname (fg_sspec fg))) < FT_STR_SIZE"

definition fg_step_request_http :: "fg_ctx \<Rightarrow> (fg_code ret, fg_ctx) outcome" where
  "fg_step_request_http = (\<lambda>(fg, w).
     (let request = http_get_request (cstr (fp_remote_path (fg_fspec fg))) (cstr (sp_http_hostname (fg_sspec fg)));
          written = (if length request < fg_space fg then request
                     else take (fg_space fg - 1) request @ [NUL]);
          fg1 = fg_append written fg
      in if fg_space fg = 0 then Exit AssertFail (fg, w)
         else if \<not> fg_names_terminated fg then Exit UB (fg, w)
         else if FT_BUF_SIZE \<le> length request then filegetter_die fg w
         else if fg_space fg < length request then Exit UB (fg, w)
         else Again (fg_io FG_SEND FG_TOREPLY_HTTP fg1, filegetter_changeEpoll fg1 [EPOLLOUT] w)))"

text \<open>\<open>case FG_REPLY_HTTP\<close>: the NUL behind the received bytes may lie outside the buffer.\<close>

definition size_of_int :: "int \<Rightarrow> u64" where
  "size_of_int i = of_int i"

definition fg_add_expected :: "u64 \<Rightarrow> filegetter \<Rightarrow> filegetter" where
  "fg_add_expected n fg =
     fg\<lparr>fg_curstats := (fg_curstats fg)\<lparr>st_body_bytes_expected := n\<rparr>,
        fg_allstats := (fg_allstats fg)\<lparr>st_body_bytes_expected := st_body_bytes_expected (fg_allstats fg) + n\<rparr>\<rparr>"

definition fg_step_reply_http :: "fg_ctx \<Rightarrow> (fg_code ret, fg_ctx) outcome" where
  "fg_step_reply_http = (\<lambda>(fg, w).
     (let avail = fg_avail fg; ro = fg_buf_read_offset fg in
      if FT_BUF_SIZE \<le> length (fg_buf fg) then Exit UB (fg, w)
      else if strcasestr avail FT_HTTP_404 \<noteq> None
      then Exit (Ret FG_ERR_404)
             (fg_io FG_SPEC FG_REQUEST_HTTP (fg\<lparr>fg_buf_read_offset := ro + length FT_HTTP_404\<rparr>), w)
      else case strcasestr avail FT_2CRLF of
        None \<Rightarrow> Again (fg_io FG_RECEIVE FG_REPLY_HTTP fg, w)
      | Some content \<Rightarrow>
          if strcasestr avail FT_HTTP_200 = None then Again (fg_io FG_RECEIVE FG_REPLY_HTTP fg, w)
          else (case strcasestr avail FT_CONTENT of
                  None \<Rightarrow> filegetter_die fg w
                | Some cl \<Rightarrow>
                    let avail1 = avail[content := NUL];
                        expected = size_of_int (atoi (drop (cl + length FT_CONTENT) avail1));
                        fg1 = fg_add_expected expected
                                (fg\<lparr>fg_buf := take ro (fg_buf fg) @ avail1,
                                   fg_buf_read_offset := ro + content + length FT_2CRLF\<rparr>)
                    in Again (fg_goto FG_CHECK_DOWNLOAD fg1, w))))"

definition fg_uploaded :: "nat \<Rightarrow> filegetter \<Rightarrow> filegetter" where
  "fg_uploaded k fg =
     fg\<lparr>fg_curstats := (fg_curstats fg)\<lparr>st_bytes_uploaded := st_bytes_uploaded (fg_curstats fg) + of_nat k\<rparr>,
        fg_allstats := (fg_allstats fg)\<lparr>st_bytes_uploaded := st_bytes_uploaded (fg_allstats fg) + of_nat k\<rparr>\<rparr>"

definition fg_downloaded :: "nat \<Rightarrow> filegetter \<Rightarrow> filegetter" where
  "fg_downloaded k fg =
     fg\<lparr>fg_curstats := (fg_curstats fg)\<lparr>st_bytes_downloaded := st_bytes_downloaded (fg_curstats fg) + of_nat k\<rparr>,
        fg_allstats := (fg_allstats fg)\<lparr>st_bytes_downloaded := st_bytes_downloaded (fg_allstats fg) + of_nat k\<rparr>\<rparr>"

definition fg_step_send :: "fg_ctx \<Rightarrow> (fg_code ret, fg_ctx) outcome" where
  "fg_step_send = (\<lambda>(fg, w).
     (if length (fg_buf fg) < fg_buf_read_offset fg then Exit AssertFail (fg, w)
      else case sys_send (fg_sockd fg) (fg_avail fg) w of
        (Inl e, w1) \<Rightarrow>
          if e = EWOULDBLOCK \<or> e = ENOTCONN \<or> e = EALREADY then Exit (Ret FG_ERR_WOULDBLOCK) (fg, w1)
          else filegetter_die (fg\<lparr>fg_errcode := FG_ERR_SEND\<rparr>) w1
      | (Inr k, w1) \<Rightarrow>
          if k = 0 then filegetter_die (fg\<lparr>fg_errcode := FG_CLOSED\<rparr>) w1
          else let fg1 = fg_uploaded k (fg\<lparr>fg_buf_read_offset := fg_buf_read_offset fg + k\<rparr>)
               in if fg_buf_read_offset fg1 = length (fg_buf fg1)
                  then Again (fg_goto (fg_nextstate fg1) (fg1\<lparr>fg_buf_read_offset := 0, fg_buf := []\<rparr>), w1)
                  else Again (fg1, w1)))"

definition fg_step_receive :: "fg_ctx \<Rightarrow> (fg_code ret, fg_ctx) outcome" where
  "fg_step_receive = (\<lambda>(fg, w).
     (case sys_recv (fg_space fg) w of
        (Inl e, w1) \<Rightarrow>
          if e = EWOULDBLOCK then Exit (Ret FG_ERR_WOULDBLOCK) (fg, w1)
          else filegetter_die (fg\<lparr>fg_errcode := FG_ERR_RECV\<rparr>) w1
      | (Inr bs, w1) \<Rightarrow>
          if bs = [] then filegetter_die (fg\<lparr>fg_errcode := FG_CLOSED\<rparr>) w1
          else Again (fg_goto (fg_nextstate fg) (fg_downloaded (length bs) (fg_append bs fg)), w1)))"

text \<open>\<open>case FG_CHECK_DOWNLOAD\<close>: time stamps, then content, then file, then the decision.\<close>

definition fg_body_counted :: "nat \<Rightarrow> filegetter \<Rightarrow> filegetter" where
  "fg_body_counted k fg =
     fg\<lparr>fg_curstats := (fg_curstats fg)\<lparr>st_body_bytes_downloaded := st_body_bytes_downloaded (fg_curstats fg) + of_nat k\<rparr>,
        fg_allstats := (fg_allstats fg)\<lparr>st_body_bytes_downloaded := st_body_bytes_downloaded (fg_allstats fg) + of_nat k\<rparr>\<rparr>"

definition fg_stamped :: "fg_ctx \<Rightarrow> fg_ctx" where
  "fg_stamped = (\<lambda>(fg, w).
     (let n = length (fg_avail fg);
          (fg1, w1) = (if st_body_bytes_downloaded (fg_curstats fg) = 0 \<and> 0 < n
                       then (let (now, w1) = clock_gettime w
                             in (filegetter_metrics_first (fg\<lparr>fg_download_first_byte := now\<rparr>), w1))
                       else (fg, w));
          fg2 = fg_body_counted n fg1
      in if 0 < n then filegetter_metrics_progress fg2 w1 else (fg2, w1)))"

definition fg_finished :: "fg_ctx \<Rightarrow> (fg_code ret, fg_ctx) outcome" where
  "fg_finished = (\<lambda>(fg, w).
     (let (now, w1) = clock_gettime w;
          fg1 = filegetter_metrics_complete (fg\<lparr>fg_download_end := now\<rparr>);
          (fg2, w2) = (if sp_persistent (fg_sspec fg1) then (fg1, w1) else snd (filegetter_disconnect fg1 w1))
      in Exit (Ret FG_OK_200) (fg_goto FG_SPEC fg2, w2)))"

definition fg_step_check_download :: "fg_ctx \<Rightarrow> (fg_code ret, fg_ctx) outcome" where
  "fg_step_check_download x =
     (case fg_stamped x of (fg, w) \<Rightarrow>
        let avail = fg_avail fg;
            fg1 = fg\<lparr>fg_content := map_option (\<lambda>s. s @ avail) (fg_content fg)\<rparr>;
            (written, w1) = (if fg_f fg1 then fwrite_w avail w else (length avail, w));
            fg2 = fg1\<lparr>fg_buf := [], fg_buf_read_offset := 0\<rparr>
        in if written \<noteq> length avail then filegetter_die fg1 w1
           else if st_body_bytes_expected (fg_curstats fg2) \<le> st_body_bytes_downloaded (fg_curstats fg2)
           then fg_finished (fg2, w1)
           else Again (fg_io FG_RECEIVE FG_CHECK_DOWNLOAD fg2, w1))"

definition fg_step :: "fg_ctx \<Rightarrow> (fg_code ret, fg_ctx) outcome" where
  "fg_step x =
     (case fg_state (fst x) of
        FG_IDLE \<Rightarrow> Exit (Ret FG_ERR_NOTSTARTED) x
      | FG_SPEC \<Rightarrow> Exit (Ret FG_ERR_NEEDFSPEC) x
      | FG_REQUEST_SOCKS_INIT \<Rightarrow> fg_step_request_socks_init x
      | FG_TOREPLY_SOCKS_INIT \<Rightarrow> fg_step_toreply FG_REPLY_SOCKS_INIT x
      | FG_REPLY_SOCKS_INIT \<Rightarrow> fg_step_reply_socks_init x
      | FG_REQUEST_SOCKS_CONN \<Rightarrow> fg_step_request_socks_conn x
      | FG_TOREPLY_SOCKS_CONN \<Rightarrow> fg_step_toreply FG_REPLY_SOCKS_CONN x
      | FG_REPLY_SOCKS_CONN \<Rightarrow> fg_step_reply_socks_conn x
      | FG_REQUEST_HTTP \<Rightarrow> fg_step_request_http x
      | FG_TOREPLY_HTTP \<Rightarrow> fg_step_toreply FG_REPLY_HTTP x
      | FG_REPLY_HTTP \<Rightarrow> fg_step_reply_http x
      | FG_SEND \<Rightarrow> fg_step_send x
      | FG_RECEIVE \<Rightarrow> fg_step_receive x
      | FG_CHECK_DOWNLOAD \<Rightarrow> fg_step_check_download x)"

text \<open>The assertions at the entry of \<open>filegetter_activate\<close>.\<close>

definition fg_assertstate :: "filegetter \<Rightarrow> bool" where
  "fg_assertstate fg \<longleftrightarrow>
     fg_state fg \<noteq> FG_IDLE \<and> fg_sockd fg \<noteq> 0
     \<and> fg_buf_read_offset fg < FT_BUF_SIZE \<and> length (fg_buf fg) < FT_BUF_SIZE
     \<and> fg_buf_read_offset fg \<le> length (fg_buf fg)"

definition filegetter_activate :: "filegetter \<Rightarrow> world \<Rightarrow> (fg_code ret \<times> filegetter \<times> world) option" where
  "filegetter_activate fg w =
     (if \<not> fg_assertstate fg then Some (AssertFail, fg, w) else drive fg_step (fg, w))"

definition filegetter_stat_download :: "filegetter \<Rightarrow> fg_code \<times> fg_stats" where
  "filegetter_stat_download fg = (FG_SUCCESS, fg_curstats fg)"

definition filegetter_stat_aggregate :: "filegetter \<Rightarrow> fg_code \<times> fg_stats" where
  "filegetter_stat_aggregate fg = (FG_SUCCESS, fg_allstats fg)"

end
