(* ===== verification/Filegetter_Correct.thy ===== *)
theory Filegetter_Correct
  imports Filegetter
begin

text \<open>
  Correctness of the HTTP client's handler: it returns for every behaviour of the server, the
  proxy and the kernel; it leaves its memory or fails an assertion exactly in the situations
  \<open>fg_overflow\<close> and \<open>fg_no_room\<close> name; the counters count; the body is delivered without loss or duplication.
\<close>

section \<open>Invariant and measure\<close>

definition fg_inv :: "filegetter \<Rightarrow> bool" where
  "fg_inv fg \<longleftrightarrow>
     fg_state fg \<noteq> FG_IDLE \<and> fg_buf_read_offset fg \<le> length (fg_buf fg) \<and> length (fg_buf fg) \<le> FT_BUF_SIZE
     \<and> (fg_state fg = FG_SEND \<longrightarrow>
          fg_nextstate fg \<in> {FG_TOREPLY_SOCKS_INIT, FG_TOREPLY_SOCKS_CONN, FG_TOREPLY_HTTP})
     \<and> (fg_state fg = FG_RECEIVE \<longrightarrow>
          fg_nextstate fg \<in> {FG_REPLY_SOCKS_INIT, FG_REPLY_SOCKS_CONN, FG_REPLY_HTTP, FG_CHECK_DOWNLOAD}
          \<and> (fg_nextstate fg = FG_CHECK_DOWNLOAD \<longrightarrow> fg_buf fg = []))"

fun fg_rank :: "fg_state \<Rightarrow> nat" where
  "fg_rank FG_IDLE = 0"
| "fg_rank FG_SPEC = 0"
| "fg_rank FG_SEND = 0"
| "fg_rank FG_RECEIVE = 0"
| "fg_rank FG_CHECK_DOWNLOAD = 1"
| "fg_rank FG_REQUEST_SOCKS_INIT = 1"
| "fg_rank FG_TOREPLY_SOCKS_INIT = 1"
| "fg_rank FG_REPLY_SOCKS_INIT = 2"
| "fg_rank FG_REQUEST_SOCKS_CONN = 1"
| "fg_rank FG_TOREPLY_SOCKS_CONN = 1"
| "fg_rank FG_REPLY_SOCKS_CONN = 2"
| "fg_rank FG_REQUEST_HTTP = 1"
| "fg_rank FG_TOREPLY_HTTP = 1"
| "fg_rank FG_REPLY_HTTP = 2"

definition fg_mu :: "fg_ctx \<Rightarrow> nat" where
  "fg_mu x = 3 * io_work (snd x) + fg_rank (fg_state (fst x))"

section \<open>Memory errors\<close>

definition fg_http_request :: "filegetter \<Rightarrow> string" where
  "fg_http_request fg = http_get_request (cstr (fp_remote_path (fg_fspec fg))) (cstr (sp_http_hostname (fg_sspec fg)))"

definition fg_overflow :: "filegetter \<Rightarrow> bool" where
  "fg_overflow fg \<longleftrightarrow>
     (fg_state fg = FG_REPLY_HTTP \<and> length (fg_buf fg) = FT_BUF_SIZE)
     \<or> (fg_state fg = FG_REQUEST_HTTP \<and> (\<not> fg_names_terminated fg
          \<or> (length (fg_http_request fg) < FT_BUF_SIZE \<and> fg_space fg < length (fg_http_request fg))))
     \<or> (fg_state fg = FG_REQUEST_SOCKS_CONN \<and> sp_useHostname (fg_sspec fg)
          \<and> sp_hostnameLength (fg_sspec fg) \<notin> {0 .. int FT_STR_SIZE})"

definition fg_no_room :: "filegetter \<Rightarrow> bool" where
  "fg_no_room fg \<longleftrightarrow>
     (fg_state fg = FG_REQUEST_SOCKS_INIT \<and> fg_space fg < 3)
     \<or> (fg_state fg = FG_REQUEST_SOCKS_CONN \<and>
          (let need = (if sp_useHostname (fg_sspec fg) then 7 + sp_hostnameLength (fg_sspec fg) else 10)
           in need < 0 \<or> int (fg_space fg) < need))
     \<or> (fg_state fg = FG_REQUEST_HTTP \<and> fg_space fg = 0)"

section \<open>Accounts and the body\<close>

definition fg_accounts :: "fg_ctx \<Rightarrow> u64 \<times> u64 \<times> u64 \<times> u64" where
  "fg_accounts = (\<lambda>(fg, w).
     (st_bytes_uploaded (fg_curstats fg) - of_nat (length (all_sent (w_log w))),
      st_bytes_uploaded (fg_allstats fg) - of_nat (length (all_sent (w_log w))),
      st_bytes_downloaded (fg_curstats fg) + of_nat (length (arriving w)),
      st_bytes_downloaded (fg_allstats fg) + of_nat (length (arriving w))))"

definition fg_in_body :: "filegetter \<Rightarrow> bool" where
  "fg_in_body fg \<longleftrightarrow> fg_state fg = FG_CHECK_DOWNLOAD
     \<or> (fg_state fg = FG_RECEIVE \<and> fg_nextstate fg = FG_CHECK_DOWNLOAD)"

text \<open>The bytes of the body still to come, those in the buffer and those in the socket.\<close>

definition fg_coming :: "fg_ctx \<Rightarrow> string" where
  "fg_coming x = fg_avail (fst x) @ arriving (snd x)"

text \<open>\<open>d\<close> has been delivered between \<open>x\<close> and \<open>x'\<close>: to the memory copy, the file, the counters.\<close>

definition fg_delivered :: "fg_ctx \<Rightarrow> string \<Rightarrow> fg_ctx \<Rightarrow> bool" where
  "fg_delivered x d x' \<longleftrightarrow>
     fg_coming x = d @ fg_coming x'
     \<and> fg_content (fst x') = map_option (\<lambda>s. s @ d) (fg_content (fst x))
     \<and> file_written (w_log (snd x')) = file_written (w_log (snd x)) @ (if fg_f (fst x) then d else [])
     \<and> st_body_bytes_downloaded (fg_curstats (fst x')) =
         st_body_bytes_downloaded (fg_curstats (fst x)) + of_nat (length d)
     \<and> st_body_bytes_expected (fg_curstats (fst x')) = st_body_bytes_expected (fg_curstats (fst x))"

definition fg_rel :: "fg_ctx \<Rightarrow> fg_ctx \<Rightarrow> bool" where
  "fg_rel x x' \<longleftrightarrow> fg_accounts x' = fg_accounts x
     \<and> (fg_in_body (fst x) \<longrightarrow> fg_in_body (fst x') \<and> fg_f (fst x') = fg_f (fst x) \<and> (\<exists>d. fg_delivered x d x'))"

definition fg_fin :: "fg_ctx \<Rightarrow> fg_code ret \<Rightarrow> fg_ctx \<Rightarrow> bool" where
  "fg_fin x r x' \<longleftrightarrow> fg_accounts x' = fg_accounts x
     \<and> (fg_in_body (fst x) \<longrightarrow>
          r \<in> {Ret FG_OK_200, Ret FG_ERR_WOULDBLOCK, Ret FG_ERR_FATAL}
          \<and> (r = Ret FG_OK_200 \<longrightarrow> (\<exists>d. fg_delivered x d x') \<and> fg_avail (fst x') = []
               \<and> st_body_bytes_expected (fg_curstats (fst x')) \<le> st_body_bytes_downloaded (fg_curstats (fst x')))
          \<and> (r = Ret FG_ERR_WOULDBLOCK \<longrightarrow> (\<exists>d. fg_delivered x d x') \<and> fg_in_body (fst x')))"

definition fg_post :: "fg_code ret \<Rightarrow> fg_ctx \<Rightarrow> bool" where
  "fg_post r x \<longleftrightarrow>
     (r = UB \<longleftrightarrow> fg_overflow (fst x) \<and> \<not> fg_no_room (fst x)) \<and> (r = AssertFail \<longleftrightarrow> fg_no_room (fst x))
     \<and> r \<noteq> Ret FG_ERR_NOTSTARTED
     \<and> (fg_state (fst x) \<in> {FG_SEND, FG_RECEIVE} \<longrightarrow> fg_inv (fst x))
     \<and> fg_state (fst x) \<noteq> FG_CHECK_DOWNLOAD
     \<and> (fg_state (fst x) = FG_REPLY_HTTP \<longrightarrow> FT_BUF_SIZE \<le> length (fg_buf (fst x)))
     \<and> (r = Ret FG_ERR_WOULDBLOCK \<longrightarrow> fg_inv (fst x))
     \<and> (r \<in> {Ret FG_OK_200, Ret FG_ERR_404} \<longrightarrow> fg_state (fst x) = FG_SPEC)
     \<and> (r = Ret FG_ERR_FATAL \<longrightarrow> fg_state (fst x) = FG_IDLE \<and> fg_sockd (fst x) = 0)"

definition fg_pass :: "fg_ctx \<Rightarrow> (fg_code ret, fg_ctx) outcome \<Rightarrow> bool" where
  "fg_pass x out \<longleftrightarrow>
     (case out of
        Again x' \<Rightarrow> fg_inv (fst x') \<and> fg_mu x' < fg_mu x \<and> fg_rel x x'
      | Exit r x' \<Rightarrow> fg_post r x' \<and> fg_fin x r x')"

lemmas fg_pass_defs = fg_pass_def fg_post_def fg_fin_def fg_rel_def

text \<open>In the states in which nothing is written to the buffer there is no memory error.\<close>

lemma fg_quiet_states [simp]:
  assumes "fg_state fg \<notin> {FG_REPLY_HTTP, FG_REQUEST_HTTP, FG_REQUEST_SOCKS_INIT, FG_REQUEST_SOCKS_CONN}"
  shows "\<not> fg_overflow fg" "\<not> fg_no_room fg"
  using assms by (auto simp: fg_overflow_def fg_no_room_def)

section \<open>Effects of the helpers\<close>

lemma changeEpoll_frame [simp]:
  "io_work (filegetter_changeEpoll fg evs w) = io_work w"
  "arriving (filegetter_changeEpoll fg evs w) = arriving w"
  "all_sent (w_log (filegetter_changeEpoll fg evs w)) = all_sent (w_log w)"
  "file_written (w_log (filegetter_changeEpoll fg evs w)) = file_written (w_log w)"
  "w_send (filegetter_changeEpoll fg evs w) = w_send w"
  "w_recv (filegetter_changeEpoll fg evs w) = w_recv w"
  by (simp_all add: filegetter_changeEpoll_def)

lemma disconnect_frame:
  assumes "filegetter_disconnect fg w = (r, fg', w')"
  shows "fg' = fg\<lparr>fg_f := False, fg_sockd := 0\<rparr>" "arriving w' = arriving w"
    "all_sent (w_log w') = all_sent (w_log w)" "file_written (w_log w') = file_written (w_log w)"
proof -
  define w1 where "w1 = (if fg_f fg then snd (sys_fclose w) else w)"
  define w2 where "w2 = (if fg_sockd fg \<noteq> 0
      then snd (sys_close (fg_sockd fg) (snd (epoll_ctl CtlDel (fg_sockd fg) [] w1))) else w1)"
  have "fg' = fg\<lparr>fg_f := False, fg_sockd := 0\<rparr> \<and> w' = w2"
    using assms by (auto simp: filegetter_disconnect_def w1_def w2_def Let_def split: prod.splits if_splits)
  then show "fg' = fg\<lparr>fg_f := False, fg_sockd := 0\<rparr>" "arriving w' = arriving w"
    "all_sent (w_log w') = all_sent (w_log w)" "file_written (w_log w') = file_written (w_log w)"
    by (simp_all add: w2_def w1_def)
qed

lemma connect_frame:
  assumes "filegetter_connect addr port fg w = (r, fg', w')"
  shows "\<exists>sd. fg' = fg\<lparr>fg_sockd := sd\<rparr>" "arriving w' = arriving w" "io_work w' = io_work w"
    "all_sent (w_log w') = all_sent (w_log w)" "file_written (w_log w') = file_written (w_log w)"
    "w_send w' = w_send w" "w_recv w' = w_recv w"
proof -
  obtain a w1 where s: "sys_socket w = (a, w1)" by fastforce
  have w1: "w1 = snd (sys_socket w)" using s by simp
  show "\<exists>sd. fg' = fg\<lparr>fg_sockd := sd\<rparr>" "arriving w' = arriving w" "io_work w' = io_work w"
    "all_sent (w_log w') = all_sent (w_log w)" "file_written (w_log w') = file_written (w_log w)"
    "w_send w' = w_send w" "w_recv w' = w_recv w"
    using assms
    by (auto simp: filegetter_connect_def sys_connect_def epoll_ctl_def emit_def sys_socket_def arriving_def
        io_work_def Let_def split: sum.splits prod.splits list.splits if_splits
        intro: exI [of _ "fg_sockd fg"])
qed

lemma die_pass:
  assumes "fg_accounts (fg, w) = fg_accounts x"
  shows "fg_pass x (filegetter_die fg w)"
proof -
  obtain r fg' w' where d: "filegetter_disconnect (fg\<lparr>fg_state := FG_IDLE\<rparr>) w = (r, fg', w')"
    by (metis prod_cases3)
  from disconnect_frame [OF d] assms show ?thesis
    by (auto simp: fg_pass_defs filegetter_die_def filegetter_shutdown_def d fg_accounts_def)
qed

section \<open>The passes\<close>

lemma socks_init_pass:
  assumes inv: "fg_inv fg" and st: "fg_state fg = FG_REQUEST_SOCKS_INIT"
  shows "fg_pass (fg, w) (fg_step_request_socks_init (fg, w))"
proof -
  let ?fg1 = "fg_io FG_SEND FG_TOREPLY_SOCKS_INIT (fg_append FT_SOCKS_INIT fg)"
  have len: "length FT_SOCKS_INIT = 3" by (simp add: FT_SOCKS_INIT_def)
  have "fg_pass (fg, w) (Exit AssertFail (fg, w))" if "fg_space fg < 3"
    using that st by (simp add: fg_pass_defs fg_no_room_def fg_accounts_def fg_in_body_def)
  moreover have "fg_pass (fg, w) (Again (?fg1, filegetter_changeEpoll ?fg1 [EPOLLOUT] w))"
    if "\<not> fg_space fg < 3"
    using that inv st len
    by (simp add: fg_pass_defs fg_accounts_def fg_in_body_def fg_inv_def fg_mu_def fg_io_def fg_append_def fg_space_def)
  ultimately show ?thesis by (simp add: fg_step_request_socks_init_def len Let_def)
qed

lemma toreply_pass:
  assumes "fg_inv fg" "fg_state fg \<in> {FG_TOREPLY_SOCKS_INIT, FG_TOREPLY_SOCKS_CONN, FG_TOREPLY_HTTP}"
    and "next \<in> {FG_REPLY_SOCKS_INIT, FG_REPLY_SOCKS_CONN, FG_REPLY_HTTP}"
  shows "fg_pass (fg, w) (fg_step_toreply next (fg, w))"
proof -
  have "\<not> fg_in_body fg" "fg_rank (fg_state fg) = 1" using assms(2) by (auto simp: fg_in_body_def)
  with assms show ?thesis
    by (auto simp: fg_pass_defs fg_step_toreply_def fg_accounts_def fg_inv_def fg_mu_def fg_io_def)
qed

lemma reply_socks_init_pass:
  assumes "fg_inv fg" "fg_state fg = FG_REPLY_SOCKS_INIT"
  shows "fg_pass (fg, w) (fg_step_reply_socks_init (fg, w))"
  using assms
  by (auto simp: fg_pass_defs fg_step_reply_socks_init_def fg_accounts_def fg_in_body_def fg_inv_def fg_mu_def
      fg_goto_def fg_avail_def)

lemma length_socks_target:
  assumes "0 \<le> sp_hostnameLength sp" "sp_hostnameLength sp \<le> 256"
  shows "length (fg_socks_target sp) = (if sp_useHostname sp then 7 + nat (sp_hostnameLength sp) else 10)"
proof -
  have "nat (sp_hostnameLength sp) \<le> 256" using assms by simp
  then show ?thesis by (auto simp: fg_socks_target_def FT_SOCKS_REQ_HOST_def FT_SOCKS_REQ_HEAD_def min_def)
qed

lemma length_socks_target_addr:
  "\<not> sp_useHostname sp \<Longrightarrow> length (fg_socks_target sp) = 10"
  by (simp add: fg_socks_target_def FT_SOCKS_REQ_HEAD_def)

lemma request_socks_conn_pass:
  assumes inv: "fg_inv fg" and st: "fg_state fg = FG_REQUEST_SOCKS_CONN"
  shows "fg_pass (fg, w) (fg_step_request_socks_conn (fg, w))"
proof -
  let ?sp = "fg_sspec fg"
  let ?need = "if sp_useHostname ?sp then 7 + sp_hostnameLength ?sp else 10"
  let ?fg1 = "fg_io FG_SEND FG_TOREPLY_SOCKS_CONN (fg_append (fg_socks_target ?sp) fg)"
  have "fg_pass (fg, w) (Exit AssertFail (fg, w))" if "?need < 0 \<or> int (fg_space fg) < ?need"
    using that st by (simp add: fg_pass_defs fg_no_room_def fg_accounts_def fg_in_body_def Let_def split: if_splits)
  moreover have "fg_pass (fg, w) (Exit UB (fg, w))"
    if "\<not> (?need < 0 \<or> int (fg_space fg) < ?need)"
      "sp_useHostname ?sp" "sp_hostnameLength ?sp < 0 \<or> 256 < sp_hostnameLength ?sp"
    using that st by (auto simp: fg_pass_defs fg_overflow_def fg_no_room_def fg_accounts_def fg_in_body_def)
  moreover have "fg_pass (fg, w) (Again (?fg1, filegetter_changeEpoll ?fg1 [EPOLLOUT] w))"
    if "\<not> (?need < 0 \<or> int (fg_space fg) < ?need)"
      "\<not> (sp_useHostname ?sp \<and> (sp_hostnameLength ?sp < 0 \<or> 256 < sp_hostnameLength ?sp))"
  proof -
    have "length (fg_buf fg) + length (fg_socks_target ?sp) \<le> FT_BUF_SIZE"
      using that inv length_socks_target [of ?sp] length_socks_target_addr [of ?sp]
      by (auto simp: fg_space_def fg_inv_def split: if_splits)
    with inv st show ?thesis
      by (simp add: fg_pass_defs fg_accounts_def fg_in_body_def fg_inv_def fg_mu_def fg_io_def fg_append_def)
  qed
  ultimately show ?thesis
    by (auto simp: fg_step_request_socks_conn_def Let_def)
qed

lemma reply_socks_conn_pass:
  assumes inv: "fg_inv fg" and st: "fg_state fg = FG_REPLY_SOCKS_CONN"
  shows "fg_pass (fg, w) (fg_step_reply_socks_conn (fg, w))"
proof -
  let ?fg1 = "fg\<lparr>fg_buf_read_offset := fg_buf_read_offset fg + 10\<rparr>"
  obtain r fg2 w2 where c: "filegetter_connect (fg_socks_bind_addr fg) (fg_socks_bind_port fg) ?fg1
      (snd (sys_close (fg_sockd fg) w)) = (r, fg2, w2)" by (metis prod_cases3)
  note fr = connect_frame [OF c]
  obtain sd where fg2: "fg2 = ?fg1\<lparr>fg_sockd := sd\<rparr>" using fr(1) by blast
  have short: "fg_pass (fg, w) (Again (fg_goto FG_TOREPLY_SOCKS_CONN fg, w))"
    using inv st by (simp add: fg_pass_defs fg_accounts_def fg_in_body_def fg_inv_def fg_mu_def fg_goto_def)
  have ref: "fg_pass (fg, w) (Exit (Ret FG_ERR_SOCKSCONN) (fg, w))"
    "fg_pass (fg, w) (Exit (Ret FG_ERR_SOCKSCONN) (fg2, w2))"
    using st fr fg2 by (simp_all add: fg_pass_defs fg_accounts_def fg_in_body_def)
  have ok: "fg_pass (fg, w) (Again (fg_io FG_REQUEST_HTTP FG_REQUEST_HTTP fg2, w2))"
    "fg_pass (fg, w) (Again (fg_io FG_REQUEST_HTTP FG_REQUEST_HTTP ?fg1, w))" if "10 \<le> length (fg_avail fg)"
    using inv st fr fg2 that
    by (simp_all add: fg_pass_defs fg_accounts_def fg_in_body_def fg_inv_def fg_mu_def fg_io_def fg_avail_def)
  from short ref ok c show ?thesis
    by (auto simp: fg_step_reply_socks_conn_def Let_def)
qed

lemma request_http_pass:
  assumes inv: "fg_inv fg" and st: "fg_state fg = FG_REQUEST_HTTP"
  shows "fg_pass (fg, w) (fg_step_request_http (fg, w))"
proof -
  let ?req = "http_get_request (cstr (fp_remote_path (fg_fspec fg))) (cstr (sp_http_hostname (fg_sspec fg)))"
  let ?wr = "if length ?req < fg_space fg then ?req else take (fg_space fg - 1) ?req @ [NUL]"
  let ?fg1 = "fg_append ?wr fg"
  have "fg_pass (fg, w) (Exit AssertFail (fg, w))" if "fg_space fg = 0"
    using that st by (simp add: fg_pass_defs fg_no_room_def fg_accounts_def fg_in_body_def)
  moreover have "fg_pass (fg, w) (filegetter_die fg w)" by (rule die_pass) simp
  moreover have "fg_pass (fg, w) (Exit UB (fg, w))"
    if "fg_space fg \<noteq> 0" "\<not> fg_names_terminated fg \<or> (length ?req < FT_BUF_SIZE \<and> fg_space fg < length ?req)"
    using that st by (auto simp: fg_pass_defs fg_overflow_def fg_no_room_def fg_http_request_def fg_accounts_def fg_in_body_def)
  moreover have "fg_pass (fg, w) (Again (fg_io FG_SEND FG_TOREPLY_HTTP ?fg1, filegetter_changeEpoll ?fg1 [EPOLLOUT] w))"
    if "fg_space fg \<noteq> 0"
  proof -
    have "length (fg_buf fg) + length ?wr \<le> FT_BUF_SIZE"
      using that inv by (auto simp: fg_space_def fg_inv_def)
    with inv st show ?thesis
      by (simp add: fg_pass_defs fg_accounts_def fg_in_body_def fg_inv_def fg_mu_def fg_io_def fg_append_def)
  qed
  ultimately show ?thesis
    unfolding fg_step_request_http_def Let_def by (simp split del: if_split) (simp split: if_split)
qed

lemma reply_http_pass:
  assumes inv: "fg_inv fg" and st: "fg_state fg = FG_REPLY_HTTP"
  shows "fg_pass (fg, w) (fg_step_reply_http (fg, w))"
proof -
  let ?av = "fg_avail fg"
  have fits: "length (take (fg_buf_read_offset fg) (fg_buf fg)) = fg_buf_read_offset fg"
    using inv by (simp add: fg_inv_def)
  have c: "content + 4 \<le> length ?av" if "strcasestr ?av FT_2CRLF = Some content" for content
    using find_ci_Some [of "cstr ?av" FT_2CRLF content] that length_cstr_le [of ?av]
    by (simp add: strcasestr_def FT_2CRLF_def)
  have "fg_pass (fg, w) (Exit UB (fg, w))" if "FT_BUF_SIZE \<le> length (fg_buf fg)"
    using that inv st by (simp add: fg_pass_defs fg_overflow_def fg_no_room_def fg_accounts_def fg_in_body_def fg_inv_def)
  moreover have "fg_pass (fg, w) (Exit (Ret FG_ERR_404) (fg_io FG_SPEC FG_REQUEST_HTTP
      (fg\<lparr>fg_buf_read_offset := fg_buf_read_offset fg + length FT_HTTP_404\<rparr>), w))"
    using st by (simp add: fg_pass_defs fg_accounts_def fg_in_body_def fg_io_def)
  moreover have "fg_pass (fg, w) (Again (fg_io FG_RECEIVE FG_REPLY_HTTP fg, w))"
    using inv st by (simp add: fg_pass_defs fg_accounts_def fg_in_body_def fg_inv_def fg_mu_def fg_io_def)
  moreover have "fg_pass (fg, w) (filegetter_die fg w)" by (rule die_pass) simp
  moreover have "fg_pass (fg, w) (Again (fg_goto FG_CHECK_DOWNLOAD (fg_add_expected n
      (fg\<lparr>fg_buf := take (fg_buf_read_offset fg) (fg_buf fg) @ ?av[content := NUL],
          fg_buf_read_offset := fg_buf_read_offset fg + content + length FT_2CRLF\<rparr>)), w))"
    if "strcasestr ?av FT_2CRLF = Some content" for content n
    using inv st c [OF that] fits
    by (simp add: fg_pass_defs fg_accounts_def fg_in_body_def fg_inv_def fg_mu_def fg_goto_def fg_add_expected_def
        fg_avail_def FT_2CRLF_def)
  ultimately show ?thesis
    by (simp add: fg_step_reply_http_def Let_def split: option.split)
qed

lemma send_pass:
  assumes inv: "fg_inv fg" and st: "fg_state fg = FG_SEND"
  shows "fg_pass (fg, w) (fg_step_send (fg, w))"
proof -
  obtain a w1 where s: "sys_send (fg_sockd fg) (fg_avail fg) w = (a, w1)" by fastforce
  have ro: "\<not> length (fg_buf fg) < fg_buf_read_offset fg" using inv by (simp add: fg_inv_def)
  show ?thesis
  proof (cases a)
    case (Inl e)
    note io = sys_send_Inl [OF s [unfolded Inl]]
    have arr: "arriving w1 = arriving w" using io(2) by (simp add: arriving_def)
    have "fg_pass (fg, w) (Exit (Ret FG_ERR_WOULDBLOCK) (fg, w1))"
      using inv st io arr by (simp add: fg_pass_defs fg_accounts_def fg_in_body_def)
    moreover have "fg_pass (fg, w) (filegetter_die (fg\<lparr>fg_errcode := FG_ERR_SEND\<rparr>) w1)"
      using io arr by (intro die_pass) (simp add: fg_accounts_def)
    ultimately show ?thesis using s Inl ro by (simp add: fg_step_send_def)
  next
    case (Inr k)
    note io = sys_send_Inr [OF s [unfolded Inr]]
    have arr: "arriving w1 = arriving w" using io(3) by (simp add: arriving_def)
    have "fg_pass (fg, w) (filegetter_die (fg\<lparr>fg_errcode := FG_CLOSED\<rparr>) w1)" if "k = 0"
      using io arr that by (intro die_pass) (simp add: fg_accounts_def)
    moreover have "length (take k (fg_avail fg)) = k" "fg_buf_read_offset fg + k \<le> length (fg_buf fg)"
      using io(1) inv by (auto simp: fg_avail_def fg_inv_def)
    ultimately show ?thesis
      using s Inr ro inv st io arr
      by (auto simp: fg_step_send_def fg_pass_defs fg_accounts_def fg_in_body_def fg_inv_def fg_mu_def fg_uploaded_def
          fg_goto_def Let_def)
  qed
qed

lemma receive_pass:
  assumes inv: "fg_inv fg" and st: "fg_state fg = FG_RECEIVE"
  shows "fg_pass (fg, w) (fg_step_receive (fg, w))"
proof -
  obtain a w1 where s: "sys_recv (fg_space fg) w = (a, w1)" by fastforce
  show ?thesis
  proof (cases a)
    case (Inl e)
    note io = sys_recv_Inl [OF s [unfolded Inl]] sys_recv_arriving(2) [OF s [unfolded Inl]]
    have "fg_delivered (fg, w) [] (fg, w1)"
      using io by (simp add: fg_delivered_def fg_coming_def option.map_ident_strong)
    then have "fg_pass (fg, w) (Exit (Ret FG_ERR_WOULDBLOCK) (fg, w1))"
      using inv st io by (auto simp: fg_pass_defs fg_accounts_def)
    moreover have "fg_pass (fg, w) (filegetter_die (fg\<lparr>fg_errcode := FG_ERR_RECV\<rparr>) w1)"
      using io by (intro die_pass) (simp add: fg_accounts_def)
    ultimately show ?thesis using s Inl by (simp add: fg_step_receive_def)
  next
    case (Inr bs)
    note io = sys_recv_Inr [OF s [unfolded Inr]] sys_recv_arriving(1) [OF s [unfolded Inr]]
    let ?fg1 = "fg_goto (fg_nextstate fg) (fg_downloaded (length bs) (fg_append bs fg))"
    have die: "fg_pass (fg, w) (filegetter_die (fg\<lparr>fg_errcode := FG_CLOSED\<rparr>) w1)" if "bs = []"
      using io that by (intro die_pass) (simp add: fg_accounts_def)
    have again: "fg_pass (fg, w) (Again (?fg1, w1))" if "bs \<noteq> []"
    proof -
      have acc: "fg_accounts (?fg1, w1) = fg_accounts (fg, w)"
        using io by (simp add: fg_accounts_def fg_downloaded_def fg_goto_def fg_append_def)
      have ff: "fg_f ?fg1 = fg_f fg" by (simp add: fg_goto_def fg_downloaded_def fg_append_def)
      have rank: "fg_rank (fg_nextstate fg) \<le> 2" by (cases "fg_nextstate fg") simp_all
      have body: "fg_delivered (fg, w) [] (?fg1, w1) \<and> fg_in_body ?fg1" if "fg_in_body fg"
        using that st inv io
        by (auto simp: fg_in_body_def fg_inv_def fg_delivered_def fg_coming_def fg_avail_def fg_downloaded_def
            fg_goto_def fg_append_def option.map_ident_strong)
      have "fg_inv ?fg1"
        using inv st io(1) by (auto simp: fg_inv_def fg_goto_def fg_downloaded_def fg_append_def fg_space_def)
      moreover have "fg_mu (?fg1, w1) < fg_mu (fg, w)"
        using io(2) [OF that] rank st by (simp add: fg_mu_def fg_goto_def)
      ultimately show ?thesis
        using acc body ff by (auto simp: fg_pass_defs)
    qed
    show ?thesis using s Inr die again by (simp add: fg_step_receive_def)
  qed
qed

text \<open>Time stamps change neither what is delivered nor the counters.\<close>

lemma fg_stamped_frame:
  assumes "fg_stamped (fg, w) = (fg', w')"
  shows "fg_avail fg' = fg_avail fg" "fg_buf fg' = fg_buf fg" "fg_content fg' = fg_content fg" "fg_f fg' = fg_f fg"
    "fg_accounts (fg', w') = fg_accounts (fg, w)" "arriving w' = arriving w" "io_work w' = io_work w"
    "w_log w' = w_log w"
    "st_body_bytes_downloaded (fg_curstats fg') = st_body_bytes_downloaded (fg_curstats fg) + of_nat (length (fg_avail fg))"
    "st_body_bytes_expected (fg_curstats fg') = st_body_bytes_expected (fg_curstats fg)"
    "fg_sspec fg' = fg_sspec fg"
proof -
  obtain t1 v1 where c1: "clock_gettime w = (t1, v1)" by fastforce
  obtain t2 v2 where c2: "clock_gettime v1 = (t2, v2)" by fastforce
  have f: "arriving v1 = arriving w" "io_work v1 = io_work w" "w_log v1 = w_log w"
    "arriving v2 = arriving w" "io_work v2 = io_work w" "w_log v2 = w_log w"
    using clock_frame [of w] clock_frame [of v1] arriving_update(5) [of w] arriving_update(5) [of v1]
    unfolding c1 c2 by auto
  show "fg_avail fg' = fg_avail fg" "fg_buf fg' = fg_buf fg" "fg_content fg' = fg_content fg" "fg_f fg' = fg_f fg"
    "fg_accounts (fg', w') = fg_accounts (fg, w)" "arriving w' = arriving w" "io_work w' = io_work w"
    "w_log w' = w_log w"
    "st_body_bytes_downloaded (fg_curstats fg') = st_body_bytes_downloaded (fg_curstats fg) + of_nat (length (fg_avail fg))"
    "st_body_bytes_expected (fg_curstats fg') = st_body_bytes_expected (fg_curstats fg)"
    "fg_sspec fg' = fg_sspec fg"
    using assms f c1 c2
    by (auto simp: fg_stamped_def filegetter_metrics_first_def filegetter_metrics_progress_def fg_body_counted_def
        fg_avail_def fg_accounts_def Let_def split: if_splits)
qed

lemma fg_finished_pass:
  assumes "fg_accounts (fg, w) = fg_accounts x"
    and "fg_in_body (fst x) \<Longrightarrow> fg_delivered x d (fg, w)" "fg_avail fg = []"
    and "st_body_bytes_expected (fg_curstats fg) \<le> st_body_bytes_downloaded (fg_curstats fg)"
  shows "fg_pass x (fg_finished (fg, w))"
proof -
  obtain t w1 where c: "clock_gettime w = (t, w1)" by fastforce
  have f: "arriving w1 = arriving w" "w_log w1 = w_log w"
    using clock_frame [of w] arriving_update(5) [of w] unfolding c by auto
  obtain r fg2 w2 where d: "filegetter_disconnect (filegetter_metrics_complete (fg\<lparr>fg_download_end := t\<rparr>)) w1 = (r, fg2, w2)"
    by (metis prod_cases3)
  note fr = disconnect_frame [OF d]
  show ?thesis
    using assms f fr d c
    by (auto simp: fg_finished_def fg_pass_defs fg_accounts_def fg_delivered_def fg_coming_def fg_avail_def
        filegetter_metrics_complete_def fg_goto_def Let_def)
qed

lemma check_download_pass:
  assumes inv: "fg_inv fg" and st: "fg_state fg = FG_CHECK_DOWNLOAD"
  shows "fg_pass (fg, w) (fg_step_check_download (fg, w))"
proof -
  obtain fg1 w1 where s: "fg_stamped (fg, w) = (fg1, w1)" by fastforce
  note fr = fg_stamped_frame [OF s]
  let ?av = "fg_avail fg"
  obtain n w2 where wr: "(if fg_f fg1 then fwrite_w ?av w1 else (length ?av, w1)) = (n, w2)" by fastforce
  have w2: "w2 = (if fg_f fg1 then snd (fwrite_w ?av w1) else w1)" using wr by (auto split: if_splits)
  have f2: "arriving w2 = arriving w" "io_work w2 = io_work w" "all_sent (w_log w2) = all_sent (w_log w)"
    using fr unfolding w2 by (auto simp: fwrite_w_def emit_def arriving_def io_work_def split: list.splits)
  have wfile: "file_written (w_log w2) = file_written (w_log w) @ (if fg_f fg then ?av else [])" if "n = length ?av"
    using wr fr that by (auto simp: fwrite_w_def min_def split: if_splits list.splits)
  define fg2 where "fg2 = fg1\<lparr>fg_content := map_option (\<lambda>s. s @ ?av) (fg_content fg1)\<rparr>"
  define fg3 where "fg3 = fg2\<lparr>fg_buf := [], fg_buf_read_offset := 0\<rparr>"
  have acc: "fg_accounts (fg2, w2) = fg_accounts (fg, w)" "fg_accounts (fg3, w2) = fg_accounts (fg, w)"
    using fr f2 by (simp_all add: fg2_def fg3_def fg_accounts_def)
  have die: "fg_pass (fg, w) (filegetter_die fg2 w2)" by (rule die_pass) (rule acc)
  have del: "fg_delivered (fg, w) ?av (fg3, w2)" if "n = length ?av"
    using fr f2 wfile [OF that] by (simp add: fg_delivered_def fg_coming_def fg3_def fg2_def fg_avail_def)
  have fin: "fg_pass (fg, w) (fg_finished (fg3, w2))"
    if "n = length ?av" "st_body_bytes_expected (fg_curstats fg3) \<le> st_body_bytes_downloaded (fg_curstats fg3)"
    using that acc del by (intro fg_finished_pass) (auto simp: fg3_def fg_avail_def)
  have again: "fg_pass (fg, w) (Again (fg_io FG_RECEIVE FG_CHECK_DOWNLOAD fg3, w2))" if "n = length ?av"
    using acc del [OF that] f2 st fr
    by (auto simp: fg_pass_defs fg_inv_def fg_mu_def fg_io_def fg_in_body_def fg_accounts_def fg_delivered_def
        fg_coming_def fg_avail_def fg3_def fg2_def)
  have "fg_step_check_download (fg, w) =
      (if n \<noteq> length ?av then filegetter_die fg2 w2
       else if st_body_bytes_expected (fg_curstats fg3) \<le> st_body_bytes_downloaded (fg_curstats fg3)
       then fg_finished (fg3, w2) else Again (fg_io FG_RECEIVE FG_CHECK_DOWNLOAD fg3, w2))"
    using wr unfolding fg3_def fg2_def fr(1) [symmetric]
    by (simp add: fg_step_check_download_def s Let_def split del: if_split)
  with die fin again show ?thesis by simp
qed

lemma fg_step_pass:
  assumes "fg_inv (fst x)"
  shows "fg_pass x (fg_step x)"
proof -
  obtain fg w where x: "x = (fg, w)" by fastforce
  have spec: "fg_pass (fg, w) (Exit (Ret FG_ERR_NEEDFSPEC) (fg, w))" if "fg_state fg = FG_SPEC"
    using that by (simp add: fg_pass_defs fg_in_body_def)
  show ?thesis
    using assms unfolding x
    by (cases "fg_state fg")
       (simp_all add: fg_step_def spec socks_init_pass toreply_pass reply_socks_init_pass request_socks_conn_pass
         reply_socks_conn_pass request_http_pass reply_http_pass send_pass receive_pass check_download_pass,
        simp add: fg_inv_def)
qed

lemma fg_delivered_trans:
  "fg_delivered x d y \<Longrightarrow> fg_f (fst y) = fg_f (fst x) \<Longrightarrow> fg_delivered y e z \<Longrightarrow> fg_delivered x (d @ e) z"
  by (auto simp: fg_delivered_def option.map_comp comp_def)

lemma fg_delivered_trans_ex:
  "fg_delivered x d y \<Longrightarrow> fg_delivered y e z \<Longrightarrow> fg_f (fst y) = fg_f (fst x) \<Longrightarrow> \<exists>d. fg_delivered x d z"
  using fg_delivered_trans by blast

interpretation fg_loop: handler_relation fg_step "\<lambda>x. fg_inv (fst x)" fg_mu fg_post fg_rel fg_fin
proof unfold_locales
  show "fg_inv (fst t)" "fg_mu t < fg_mu s" "fg_rel s t" if "fg_inv (fst s)" "fg_step s = Again t" for s t
    using fg_step_pass [OF that(1)] that(2) by (simp_all add: fg_pass_def)
  show "fg_post r t" "fg_fin s r t" if "fg_inv (fst s)" "fg_step s = Exit r t" for s r t
    using fg_step_pass [OF that(1)] that(2) by (simp_all add: fg_pass_def)
  show "fg_fin s r u" if "fg_rel s t" "fg_fin t r u" for s t r u
    using that by (auto simp: fg_rel_def fg_fin_def intro: fg_delivered_trans_ex)
qed

section \<open>Progress\<close>

text \<open>
  A download completes only after something was received: from a state other than the two
  that examine received bytes, the work left to the kernel has become less.
\<close>

definition fg_examining_state :: "fg_state \<Rightarrow> bool" where
  "fg_examining_state st \<longleftrightarrow> st = FG_CHECK_DOWNLOAD \<or> st = FG_REPLY_HTTP"

definition fg_advance :: "fg_ctx \<Rightarrow> fg_ctx \<Rightarrow> bool" where
  "fg_advance x x' \<longleftrightarrow> io_work (snd x') < io_work (snd x)
     \<or> (io_work (snd x') = io_work (snd x)
         \<and> (fg_examining_state (fg_state (fst x')) \<longrightarrow> fg_examining_state (fg_state (fst x))))"

definition fg_completes :: "fg_ctx \<Rightarrow> fg_code ret \<Rightarrow> fg_ctx \<Rightarrow> bool" where
  "fg_completes x r x' \<longleftrightarrow> (r = Ret FG_OK_200 \<longrightarrow>
     io_work (snd x') < io_work (snd x)
     \<or> (io_work (snd x') = io_work (snd x) \<and> fg_examining_state (fg_state (fst x))))"

lemma fg_rank_le: "fg_rank st \<le> 2"
  by (cases st) simp_all

lemma socks_reply_not_check:
  "fg_state (fst x) \<in> {FG_REPLY_SOCKS_INIT, FG_REPLY_SOCKS_CONN} \<Longrightarrow> fg_step x = Again x' \<Longrightarrow>
   fg_state (fst x') \<noteq> FG_CHECK_DOWNLOAD"
  by (cases x) (auto simp: fg_step_def fg_step_reply_socks_init_def fg_step_reply_socks_conn_def fg_goto_def fg_io_def
      Let_def split: if_splits prod.splits)

lemma step_advance:
  assumes "fg_inv (fst x)" "fg_step x = Again x'"
  shows "fg_advance x x'"
proof -
  have mu: "fg_mu x' < fg_mu x" using fg_loop.again_less assms by blast
  then have le: "io_work (snd x') \<le> io_work (snd x)"
    using fg_rank_le [of "fg_state (fst x)"] by (simp add: fg_mu_def)
  show ?thesis
  proof (cases "io_work (snd x') = io_work (snd x)")
    case True
    with mu have rank: "fg_rank (fg_state (fst x')) < fg_rank (fg_state (fst x))" by (simp add: fg_mu_def)
    have "fg_examining_state (fg_state (fst x))" if ex: "fg_examining_state (fg_state (fst x'))"
    proof -
      have "fg_state (fst x') = FG_CHECK_DOWNLOAD" "fg_rank (fg_state (fst x)) = 2"
        using ex rank fg_rank_le [of "fg_state (fst x)"] by (auto simp: fg_examining_state_def)
      with socks_reply_not_check [OF _ assms(2)] show ?thesis
        by (cases "fg_state (fst x)") (auto simp: fg_examining_state_def)
    qed
    with True show ?thesis by (simp add: fg_advance_def)
  next
    case False
    with le show ?thesis by (simp add: fg_advance_def)
  qed
qed

lemma finished_work: "fg_finished (fg, w) = Exit r x' \<Longrightarrow> io_work (snd x') = io_work w"
  by (auto simp: fg_finished_def Let_def filegetter_disconnect_def clock_gettime_def io_work_def sys_close_def
      sys_fclose_def epoll_ctl_def emit_def split: prod.splits if_splits list.splits)

lemma ok_exit:
  assumes "fg_step x = Exit (Ret FG_OK_200) x'"
  shows "fg_state (fst x) = FG_CHECK_DOWNLOAD \<and> io_work (snd x') = io_work (snd x)"
proof -
  obtain fg w where x: "x = (fg, w)" by fastforce
  have die: "filegetter_die g v \<noteq> Exit (Ret FG_OK_200) x'" for g v by (simp add: filegetter_die_def)
  have st: "fg_state fg = FG_CHECK_DOWNLOAD"
    using assms die
    by (cases "fg_state fg")
       (auto simp: x fg_step_def fg_step_request_socks_init_def fg_step_toreply_def fg_step_reply_socks_init_def
         fg_step_request_socks_conn_def fg_step_reply_socks_conn_def fg_step_request_http_def fg_step_reply_http_def
         fg_step_send_def fg_step_receive_def Let_def split: if_splits option.splits sum.splits prod.splits)
  obtain fg1 w1 where s: "fg_stamped (fg, w) = (fg1, w1)" by fastforce
  have w1: "io_work w1 = io_work w" using fg_stamped_frame(7) [OF s] .
  have wr: "io_work v = io_work w1" if "fwrite_w bs w1 = (n, v)" for bs n v
    using fwrite_frame(3) [of bs w1] that by simp
  show ?thesis
    using assms st die finished_work w1
    by (auto dest!: wr simp: x fg_step_def fg_step_check_download_def s Let_def split: if_splits prod.splits)
qed

interpretation fg_progress: handler_relation fg_step "\<lambda>x. fg_inv (fst x)" fg_mu fg_post fg_advance fg_completes
proof unfold_locales
  show "fg_advance s t" if "fg_inv (fst s)" "fg_step s = Again t" for s t
    using step_advance that by blast
  show "fg_completes s r t" if "fg_inv (fst s)" "fg_step s = Exit r t" for s r t
    using ok_exit [of s t] that(2) by (auto simp: fg_completes_def fg_examining_state_def)
  show "fg_completes s r u" if "fg_advance s t" "fg_completes t r u" for s t r u
    using that by (auto simp: fg_advance_def fg_completes_def)
qed

section \<open>The contract of the client\<close>

text \<open>
  What a caller may rely on: in a consistent state (\<open>ok\<close>) an activation returns, leaves a
  consistent state, and reports a completed download only after the kernel did some work.
\<close>

locale getter_contract =
  fixes activate :: "'g \<Rightarrow> world \<Rightarrow> ('c ret \<times> 'g \<times> world) option"
    and ok :: "'g \<Rightarrow> bool"
    and completed :: 'c
  assumes total: "ok g \<Longrightarrow> activate g w \<noteq> None"
    and keeps: "ok g \<Longrightarrow> activate g w = Some (r, g', w') \<Longrightarrow> ok g'"
    and progress: "ok g \<Longrightarrow> activate g w = Some (Ret completed, g', w') \<Longrightarrow> io_work w' < io_work w"
begin

lemma activate_cases:
  assumes "ok g"
  obtains r g' w' where "activate g w = Some (r, g', w')" "ok g'"
    "r = Ret completed \<Longrightarrow> io_work w' < io_work w"
  using assms total [of g w] keeps [of g w] progress [of g w] by (cases "activate g w") auto

end

definition fg_ok :: "filegetter \<Rightarrow> bool" where
  "fg_ok fg \<longleftrightarrow> (fg_assertstate fg \<longrightarrow> fg_inv fg \<and> \<not> fg_examining_state (fg_state fg))"

lemma fg_ok_idle [simp]: "fg_state fg = FG_IDLE \<Longrightarrow> fg_ok fg"
  by (simp add: fg_ok_def fg_assertstate_def)

lemma fg_ok_other:
  "fg_state fg \<notin> {FG_SEND, FG_RECEIVE, FG_CHECK_DOWNLOAD, FG_REPLY_HTTP} \<Longrightarrow> fg_ok fg"
  by (auto simp: fg_ok_def fg_assertstate_def fg_inv_def fg_examining_state_def)

lemma fg_ok_post: "fg_post r x \<Longrightarrow> fg_ok (fst x)"
  by (cases "fg_state (fst x)") (auto simp: fg_post_def fg_ok_def fg_assertstate_def fg_inv_def fg_examining_state_def)

interpretation getter: getter_contract filegetter_activate fg_ok FG_OK_200
proof unfold_locales
  fix g w and r :: "fg_code ret" and g' w'
  show "filegetter_activate g w \<noteq> None" if "fg_ok g"
    using that fg_loop.returns [of "(g, w)"] by (simp add: filegetter_activate_def fg_ok_def)
  show "fg_ok g'" if "fg_ok g" "filegetter_activate g w = Some (r, g', w')"
    using that fg_loop.result_post [of "(g, w)" r "(g', w')"] fg_ok_post [of r "(g', w')"]
    by (auto simp: filegetter_activate_def fg_ok_def split: if_splits)
  show "io_work w' < io_work w" if "fg_ok g" "filegetter_activate g w = Some (Ret FG_OK_200, g', w')"
    using that fg_progress.result_fin [of "(g, w)" "Ret FG_OK_200" "(g', w')"]
    by (auto simp: filegetter_activate_def fg_ok_def fg_completes_def split: if_splits)
qed

end
