(* ===== verification/Filegetter_Http.thy ===== *)
theory Filegetter_Http
  imports Filegetter_Correct
begin

text \<open>
  The client against the reply the file server prints: header recognised wherever the network
  cuts it, content length read back, body delivered to the last byte.
\<close>

section \<open>The header\<close>

lemma header_split:
  "http_200_header n = ''HTTP/1.1 200 OK'' @ crlf @ ''Content-Length: '' @ show_nat n @ crlf @ crlf"
  by (simp add: http_200_header_def FT_HTTP_200_def FT_CONTENT_def FT_2CRLF_def)

lemma show_nat_digits: "c \<in> set (show_nat n) \<Longrightarrow> 48 \<le> (of_char c :: nat) \<and> (of_char c :: nat) \<le> 57"
  using show_nat_avoids [of c n] by (meson not_less)

lemma ascii_lower_digit: "(of_char c :: nat) \<le> 57 \<Longrightarrow> ascii_lower c = c"
  by (simp add: ascii_lower_def char_of_def)

lemma show_nat_lower:
  assumes "c \<in> set (show_nat n)"
  shows "ascii_lower c \<noteq> ascii_lower CR" "ascii_lower c \<noteq> ascii_lower (CHR ''H'')"
proof -
  have c: "48 \<le> (of_char c :: nat)" "(of_char c :: nat) \<le> 57" "ascii_lower c = c"
    using show_nat_digits [OF assms] ascii_lower_digit by auto
  have "ascii_lower CR = CR" "ascii_lower (CHR ''H'') = CHR ''h''" by code_simp+
  with c show "ascii_lower c \<noteq> ascii_lower CR" "ascii_lower c \<noteq> ascii_lower (CHR ''H'')" by auto
qed

lemma find_ci_next: "\<not> ci_prefix n (h # t) \<Longrightarrow> find_ci (h # t) n = map_option Suc (find_ci t n)"
  by simp

lemma header_no_404:
  "find_ci (http_200_header n @ p) FT_HTTP_404 = map_option ((+) (length (http_200_header n))) (find_ci p FT_HTTP_404)"
proof -
  define m where "m = ''TTP/1.1 404 NOT FOUND'' @ crlf"
  define a where "a = ''TTP/1.1 200 OK'' @ crlf @ ''Content-Lengt''"
  define b where "b = '': '' @ show_nat n @ crlf @ crlf"
  have m: "FT_HTTP_404 = CHR ''H'' # m" by (simp add: FT_HTTP_404_def m_def)
  have a: "find_ci (a @ y) (CHR ''H'' # m) = map_option ((+) (length a)) (find_ci y (CHR ''H'' # m))" for y
    by (rule find_ci_skip) (simp add: a_def ascii_lower_def char_of_def)
  have b: "find_ci (b @ y) (CHR ''H'' # m) = map_option ((+) (length b)) (find_ci y (CHR ''H'' # m))" for y
    by (rule find_ci_skip) (use show_nat_lower(2) in \<open>auto simp: b_def ascii_lower_def char_of_def\<close>)
  have h: "http_200_header n @ p = CHR ''H'' # a @ CHR ''h'' # b @ p" "length (http_200_header n) = 2 + length a + length b"
    by (simp_all add: header_split a_def b_def)
  have c: "\<not> ci_prefix (CHR ''H'' # m) (CHR ''H'' # a @ y)" "\<not> ci_prefix (CHR ''H'' # m) (CHR ''h'' # b @ y)" for y
    by (simp_all add: ascii_lower_def char_of_def m_def a_def b_def)
  show ?thesis
    unfolding m h
    by (cases "find_ci p (CHR ''H'' # m)")
       (simp_all only: find_ci_next c a b option.map not_False_eq_True, simp)
qed

lemma header_blank_line:
  "find_ci (http_200_header n @ p) FT_2CRLF = Some (length (http_200_header n) - 4)"
proof -
  define m where "m = [LF, CR, LF]"
  define a where "a = ''HTTP/1.1 200 OK''"
  define b where "b = ''Content-Length: '' @ show_nat n"
  have m: "FT_2CRLF = CR # m" by (simp add: FT_2CRLF_def m_def)
  have a: "find_ci (a @ y) (CR # m) = map_option ((+) (length a)) (find_ci y (CR # m))" for y
    by (rule find_ci_skip) (simp add: a_def ascii_lower_def char_of_def)
  have b: "find_ci (b @ y) (CR # m) = map_option ((+) (length b)) (find_ci y (CR # m))" for y
    by (rule find_ci_skip) (use show_nat_lower(1) in \<open>auto simp: b_def ascii_lower_def char_of_def\<close>)
  have h: "http_200_header n @ p = a @ CR # LF # b @ (CR # m) @ p" "length (http_200_header n) = length a + length b + 6"
    by (simp_all add: header_split a_def b_def m_def)
  have c: "\<not> ci_prefix (CR # m) (CR # LF # b @ y)" "\<not> ci_prefix (CR # m) (LF # y)" for y
    by (simp_all add: ascii_lower_def char_of_def m_def b_def)
  have d: "find_ci ((CR # m) @ y) (CR # m) = Some 0" for y
    by (rule find_ci_here) (simp_all only: ci_prefix_self, simp)
  show ?thesis
    unfolding m h by (simp only: find_ci_next c a b d option.map not_False_eq_True) simp
qed

lemma header_content_length:
  "find_ci (http_200_header n @ p) FT_CONTENT = Some 17"
proof -
  define m where "m = ''ontent-Length: ''"
  define a where "a = ''HTTP/1.1 200 OK'' @ crlf"
  have m: "FT_CONTENT = CHR ''C'' # m" by (simp add: FT_CONTENT_def m_def)
  have a: "find_ci (a @ y) (CHR ''C'' # m) = map_option ((+) (length a)) (find_ci y (CHR ''C'' # m))" for y
    by (rule find_ci_skip) (simp add: a_def ascii_lower_def char_of_def)
  have h: "http_200_header n @ p = a @ (CHR ''C'' # m) @ show_nat n @ crlf @ crlf @ p" "length a = 17"
    by (simp_all add: header_split a_def m_def)
  have d: "find_ci ((CHR ''C'' # m) @ y) (CHR ''C'' # m) = Some 0" for y
    by (rule find_ci_here) (simp_all only: ci_prefix_self, simp)
  show ?thesis
    unfolding m h by (simp only: a d option.map h)  simp
qed

lemma header_ok: "find_ci (http_200_header n @ p) FT_HTTP_200 = Some 0"
proof -
  have "ci_prefix FT_HTTP_200 (FT_HTTP_200 @ y)" for y by (rule ci_prefix_self)
  moreover have "http_200_header n @ p = FT_HTTP_200 @ FT_CONTENT @ show_nat n @ FT_2CRLF @ p"
    by (simp add: http_200_header_def)
  ultimately show ?thesis by (intro find_ci_here) (auto simp: FT_HTTP_200_def)
qed

lemma header_no_nul: "NUL \<notin> set (http_200_header n)"
  using show_nat_avoids [of NUL n] by (auto simp: header_split)

lemma cstr_header: "cstr (http_200_header n @ p) = http_200_header n @ cstr p"
  by (rule cstr_append) (rule header_no_nul)

text \<open>The content length the client reads is the one the server printed.\<close>

lemma content_length_read_back:
  assumes "n < 2 ^ 31"
  shows "atoi (drop (17 + length FT_CONTENT) ((http_200_header n @ p)[length (http_200_header n) - 4 := NUL])) = int n"
proof -
  let ?a = "''HTTP/1.1 200 OK'' @ crlf @ ''Content-Length: ''"
  have h: "http_200_header n @ p = (?a @ show_nat n) @ CR # [LF, CR, LF] @ p" by (simp add: header_split)
  have len: "length (http_200_header n) - 4 = length (?a @ show_nat n)" by (simp add: header_split)
  have "(http_200_header n @ p)[length (http_200_header n) - 4 := NUL] = ?a @ show_nat n @ NUL # [LF, CR, LF] @ p"
    unfolding h len by (subst list_update_length) simp
  then have "drop (17 + length FT_CONTENT) ((http_200_header n @ p)[length (http_200_header n) - 4 := NUL]) =
      show_nat n @ NUL # [LF, CR, LF] @ p"
    by (simp add: FT_CONTENT_def)
  then show ?thesis
    using assms by (simp only: atoi_show_nat no_leading_digit_def list.case isdigit_def) (simp add: atoi_show_nat no_leading_digit_def isdigit_def)
qed

section \<open>Receiving the header\<close>

definition no_404_marker :: "string \<Rightarrow> bool" where
  "no_404_marker body \<longleftrightarrow> find_ci body FT_HTTP_404 = None"

lemma reply_prefix_no_404:
  assumes "no_404_marker body"
  shows "strcasestr (take k (http_200_header n @ body)) FT_HTTP_404 = None"
proof -
  have "find_ci (http_200_header n @ body) FT_HTTP_404 = None"
    using assms by (simp add: header_no_404 no_404_marker_def)
  moreover obtain j where "cstr (take k (http_200_header n @ body)) = take j (http_200_header n @ body)"
    using take_cstr [of "take k (http_200_header n @ body)"] by (metis take_take)
  ultimately show ?thesis by (simp add: strcasestr_def find_ci_take_None del: take_append)
qed

lemma length_header_gt: "4 < length (http_200_header n)" "length FT_2CRLF = 4"
  by (simp_all add: header_split FT_2CRLF_def)

text \<open>An incomplete header sends the client back for more.\<close>

lemma step_header_incomplete:
  assumes "fg_state fg = FG_REPLY_HTTP" "fg_buf_read_offset fg = 0" "length (fg_buf fg) < FT_BUF_SIZE"
    and "fg_buf fg = take k (http_200_header n @ body)" "k < length (http_200_header n)" "no_404_marker body"
  shows "fg_step (fg, w) = Again (fg_io FG_RECEIVE FG_REPLY_HTTP fg, w)"
proof -
  have av: "fg_avail fg = take k (http_200_header n @ body)" using assms by (simp add: fg_avail_def)
  have "NUL \<notin> set (take k (http_200_header n))" using header_no_nul [of n] by (auto dest: in_set_takeD)
  then have "cstr (fg_avail fg) = take k (http_200_header n @ body)" unfolding av using assms(5) by (simp add: cstr_id)
  moreover have "find_ci (take k (http_200_header n @ body)) FT_2CRLF = None"
    using assms(5) length_header_gt by (intro find_ci_take [OF header_blank_line]) simp
  ultimately have "strcasestr (fg_avail fg) FT_2CRLF = None" by (simp add: strcasestr_def)
  moreover have "strcasestr (fg_avail fg) FT_HTTP_404 = None"
    unfolding av by (rule reply_prefix_no_404 [OF assms(6)])
  ultimately show ?thesis
    using assms(1-3) by (simp add: fg_step_def fg_step_reply_http_def Let_def)
qed

text \<open>The complete header starts the body, with whatever of it has arrived.\<close>

lemma step_header_complete:
  assumes st: "fg_state fg = FG_REPLY_HTTP" "fg_buf_read_offset fg = 0" "length (fg_buf fg) < FT_BUF_SIZE"
    and buf: "fg_buf fg = http_200_header n @ take k body" and n: "n < 2 ^ 31" and "no_404_marker body"
  shows "\<exists>fg1. fg_step (fg, w) = Again (fg1, w) \<and> fg_state fg1 = FG_CHECK_DOWNLOAD \<and> fg_avail fg1 = take k body
     \<and> st_body_bytes_expected (fg_curstats fg1) = of_nat n
     \<and> st_body_bytes_downloaded (fg_curstats fg1) = st_body_bytes_downloaded (fg_curstats fg)
     \<and> fg_content fg1 = fg_content fg \<and> fg_f fg1 = fg_f fg
     \<and> fg_buf_read_offset fg1 \<le> length (fg_buf fg1) \<and> length (fg_buf fg1) = length (fg_buf fg)"
proof -
  let ?H = "http_200_header n"
  have av: "fg_avail fg = ?H @ take k body" using st buf by (simp add: fg_avail_def)
  have no: "strcasestr (fg_avail fg) FT_HTTP_404 = None"
    using reply_prefix_no_404 [OF assms(6), of "length ?H + k" n] by (simp add: av)
  have yes: "strcasestr (fg_avail fg) FT_2CRLF = Some (length ?H - 4)" "strcasestr (fg_avail fg) FT_HTTP_200 = Some 0"
    "strcasestr (fg_avail fg) FT_CONTENT = Some 17"
    by (simp_all add: av strcasestr_def cstr_header header_blank_line header_ok header_content_length)
  have cl: "atoi (drop (17 + length FT_CONTENT) ((fg_avail fg)[length ?H - 4 := NUL])) = int n"
    unfolding av by (rule content_length_read_back [OF n])
  define fg1 where "fg1 = fg_goto FG_CHECK_DOWNLOAD (fg_add_expected (size_of_int (int n))
     (fg\<lparr>fg_buf := (fg_avail fg)[length ?H - 4 := NUL], fg_buf_read_offset := length ?H\<rparr>))"
  have "fg_step (fg, w) = Again (fg1, w)"
    using st no yes cl length_header_gt(1) [of n] length_header_gt(2)
    by (simp add: fg_step_def fg_step_reply_http_def Let_def fg1_def)
  moreover have "fg_avail fg1 = take k body"
    using length_header_gt(1) [of n] st(2) buf by (simp add: fg1_def fg_goto_def fg_add_expected_def fg_avail_def)
  ultimately show ?thesis
    using buf length_header_gt(1) [of n]
    by (intro exI [of _ fg1]) (simp add: fg1_def fg_goto_def fg_add_expected_def size_of_int_def av)
qed

section \<open>Receiving the body\<close>

definition all_data :: "recv_answer list \<Rightarrow> bool" where
  "all_data q \<longleftrightarrow> list_all (\<lambda>a. case a of RData bs \<Rightarrow> bs \<noteq> [] | RErr e \<Rightarrow> False) q"

lemma all_data_map: "all_data (map RData cs) \<longleftrightarrow> [] \<notin> set cs"
  by (induction cs) (auto simp: all_data_def)

lemma recv_all_data:
  assumes "all_data (w_recv w)" "w_recv w \<noteq> []" "0 < n"
  obtains bs w' where "sys_recv n w = (Inr bs, w')" "bs \<noteq> []" "all_data (w_recv w')" "w_fwrite w' = w_fwrite w"
proof (cases "w_recv w")
  case (Cons a q)
  with assms obtain bs where a: "a = RData bs" "bs \<noteq> []" "all_data q" by (cases a) (auto simp: all_data_def)
  show thesis
  proof (cases "length bs \<le> n")
    case True
    with Cons a assms(3) show thesis by (intro that [of bs "w\<lparr>w_recv := q\<rparr>"]) (auto simp: sys_recv_def)
  next
    case False
    with Cons a assms(3) show thesis
      by (intro that [of "take n bs" "w\<lparr>w_recv := RData (drop n bs) # q\<rparr>"]) (auto simp: sys_recv_def all_data_def)
  qed
qed (use assms in simp)

text \<open>
  The body phase with all of the body on its way: enough bytes are coming, the connection
  only delivers data, and writing to the file does not fail.
\<close>

definition fg_body_ready :: "fg_ctx \<Rightarrow> bool" where
  "fg_body_ready = (\<lambda>(fg, w).
     fg_inv fg \<and> fg_in_body fg \<and> all_data (w_recv w) \<and> w_fwrite w = []
     \<and> unat (st_body_bytes_expected (fg_curstats fg)) \<le>
         unat (st_body_bytes_downloaded (fg_curstats fg)) + length (fg_coming (fg, w))
     \<and> unat (st_body_bytes_downloaded (fg_curstats fg)) + length (fg_coming (fg, w)) < 2 ^ 64
     \<and> (fg_state fg = FG_RECEIVE \<longrightarrow>
          st_body_bytes_downloaded (fg_curstats fg) < st_body_bytes_expected (fg_curstats fg)))"

lemma body_ready_receive:
  assumes rd: "fg_body_ready (fg, w)" and st: "fg_state fg = FG_RECEIVE"
  shows "\<exists>x'. fg_step (fg, w) = Again x' \<and> fg_body_ready x'"
proof -
  have buf: "fg_buf fg = []" "fg_nextstate fg = FG_CHECK_DOWNLOAD" "fg_avail fg = []" "fg_space fg = 51200"
    using rd st by (auto simp: fg_body_ready_def fg_inv_def fg_in_body_def fg_avail_def fg_space_def)
  have "unat (st_body_bytes_downloaded (fg_curstats fg)) < unat (st_body_bytes_expected (fg_curstats fg))"
    using rd st by (simp add: fg_body_ready_def word_less_nat_alt)
  then have "arriving w \<noteq> []" using rd buf by (auto simp: fg_body_ready_def fg_coming_def)
  then have q: "w_recv w \<noteq> []" by (auto simp: arriving_def)
  obtain bs w1 where s: "sys_recv (fg_space fg) w = (Inr bs, w1)" "bs \<noteq> []" "all_data (w_recv w1)" "w_fwrite w1 = w_fwrite w"
    using rd buf by (auto simp: fg_body_ready_def intro: recv_all_data [OF _ q, of 51200])
  define fg1 where "fg1 = fg_goto FG_CHECK_DOWNLOAD (fg_downloaded (length bs) (fg_append bs fg))"
  have step: "fg_step (fg, w) = Again (fg1, w1)"
    using st s buf by (simp add: fg_step_def fg_step_receive_def fg1_def)
  have "fg_inv fg1" using fg_loop.again_inv [OF _ step] rd by (simp add: fg_body_ready_def)
  moreover have "fg_coming (fg1, w1) = fg_coming (fg, w)"
    using sys_recv_arriving(1) [OF s(1)] buf rd
    by (simp add: fg_coming_def fg1_def fg_goto_def fg_downloaded_def fg_append_def fg_avail_def fg_body_ready_def
        fg_inv_def)
  ultimately show ?thesis
    using step rd s by (auto simp: fg_body_ready_def fg_in_body_def fg1_def fg_goto_def fg_downloaded_def fg_append_def)
qed

lemma body_ready_check:
  assumes rd: "fg_body_ready (fg, w)" and st: "fg_state fg = FG_CHECK_DOWNLOAD"
  shows "(\<exists>x'. fg_step (fg, w) = Again x' \<and> fg_body_ready x') \<or> (\<exists>x'. fg_step (fg, w) = Exit (Ret FG_OK_200) x')"
proof -
  obtain fg1 w1 where s: "fg_stamped (fg, w) = (fg1, w1)" by fastforce
  note fr = fg_stamped_frame [OF s]
  have w1: "w_recv w1 = w_recv w" "w_fwrite w1 = w_fwrite w"
    using s by (auto simp: fg_stamped_def filegetter_metrics_progress_def clock_gettime_def Let_def
        split: if_splits list.splits prod.splits)
  define w2 where "w2 = (if fg_f fg1 then emit (FileWrote (fg_avail fg)) w1 else w1)"
  have wr: "(if fg_f fg1 then fwrite_w (fg_avail fg1) w1 else (length (fg_avail fg1), w1)) = (length (fg_avail fg), w2)"
    using w1 rd fr(1) by (simp add: fwrite_w_def w2_def fg_body_ready_def)
  define fg3 where "fg3 = fg1\<lparr>fg_content := map_option (\<lambda>s. s @ fg_avail fg1) (fg_content fg1), fg_buf := [], fg_buf_read_offset := 0\<rparr>"
  have step: "fg_step (fg, w) = (if st_body_bytes_expected (fg_curstats fg3) \<le> st_body_bytes_downloaded (fg_curstats fg3)
       then fg_finished (fg3, w2) else Again (fg_io FG_RECEIVE FG_CHECK_DOWNLOAD fg3, w2))"
    using wr st unfolding fg3_def
    by (simp add: fg_step_def fg_step_check_download_def s Let_def fr(1) split del: if_split)
  show ?thesis
  proof (cases "st_body_bytes_expected (fg_curstats fg3) \<le> st_body_bytes_downloaded (fg_curstats fg3)")
    case True
    then show ?thesis using step by (auto simp: fg_finished_def Let_def split: prod.splits)
  next
    case False
    define fg4 where "fg4 = fg_io FG_RECEIVE FG_CHECK_DOWNLOAD fg3"
    have again: "fg_step (fg, w) = Again (fg4, w2)" using False step by (simp add: fg4_def)
    have inv: "fg_inv fg4" using fg_loop.again_inv [OF _ again] rd by (simp add: fg_body_ready_def)
    have "unat (st_body_bytes_downloaded (fg_curstats fg) + of_nat (length (fg_avail fg))) =
        unat (st_body_bytes_downloaded (fg_curstats fg)) + length (fg_avail fg)"
      using rd by (simp add: fg_body_ready_def fg_coming_def unat_word_ariths unat_of_nat mod_simps)
    then have "fg_body_ready (fg4, w2)"
      using rd inv False fr w1
      by (auto simp: fg_body_ready_def fg4_def fg3_def fg_io_def fg_in_body_def fg_coming_def fg_avail_def w2_def)
    with again show ?thesis by blast
  qed
qed

interpretation fg_body_loop: handler_loop fg_step fg_body_ready fg_mu "\<lambda>r x. r = Ret FG_OK_200"
proof unfold_locales
  fix s t :: fg_ctx and r
  have cases: "fg_state (fst s) = FG_RECEIVE \<or> fg_state (fst s) = FG_CHECK_DOWNLOAD" if "fg_body_ready s"
    using that by (auto simp: fg_body_ready_def fg_in_body_def)
  show "fg_body_ready t" if "fg_body_ready s" "fg_step s = Again t"
    using cases [OF that(1)] that body_ready_receive [of "fst s" "snd s"] body_ready_check [of "fst s" "snd s"] by auto
  show "r = Ret FG_OK_200" if "fg_body_ready s" "fg_step s = Exit r t"
    using cases [OF that(1)] that body_ready_receive [of "fst s" "snd s"] body_ready_check [of "fst s" "snd s"] by auto
  show "fg_mu t < fg_mu s" if "fg_body_ready s" "fg_step s = Again t"
    using that by (intro fg_loop.again_less) (auto simp: fg_body_ready_def)
qed

section \<open>The whole reply\<close>

lemma step_receive_chunk:
  assumes "fg_state fg = FG_RECEIVE" "w_recv w = RData c # q" "c \<noteq> []" "length (fg_buf fg) + length c < FT_BUF_SIZE"
  shows "fg_step (fg, w) = Again (fg_goto (fg_nextstate fg) (fg_downloaded (length c) (fg_append c fg)), w\<lparr>w_recv := q\<rparr>)"
  using assms by (auto simp: fg_step_def fg_step_receive_def sys_recv_def fg_space_def)

text \<open>The state in which \<open>k\<close> bytes of the reply have been received and the header is incomplete.\<close>

definition fg_reading_header :: "string \<Rightarrow> nat \<Rightarrow> filegetter \<Rightarrow> bool" where
  "fg_reading_header body k fg \<longleftrightarrow>
     fg_inv fg \<and> fg_state fg = FG_RECEIVE \<and> fg_nextstate fg = FG_REPLY_HTTP \<and> fg_buf_read_offset fg = 0
     \<and> fg_buf fg = take k (http_200_header (length body) @ body) \<and> k < length (http_200_header (length body))
     \<and> st_body_bytes_downloaded (fg_curstats fg) = 0"

definition fg_reading_body :: "string \<Rightarrow> fg_ctx \<Rightarrow> fg_ctx \<Rightarrow> bool" where
  "fg_reading_body body x x1 \<longleftrightarrow>
     fg_body_ready x1 \<and> fg_coming x1 = body \<and> fg_content (fst x1) = fg_content (fst x) \<and> fg_f (fst x1) = fg_f (fst x)
     \<and> st_body_bytes_expected (fg_curstats (fst x1)) = of_nat (length body)
     \<and> st_body_bytes_downloaded (fg_curstats (fst x1)) = 0 \<and> w_log (snd x1) = w_log (snd x)"

lemma header_received:
  assumes body: "length body < 2 ^ 31" "no_404_marker body"
  shows "fg_reading_header body k fg \<Longrightarrow> w_recv w = map RData cs \<Longrightarrow> [] \<notin> set cs \<Longrightarrow> w_fwrite w = []
    \<Longrightarrow> concat cs = drop k (http_200_header (length body) @ body)
    \<Longrightarrow> \<forall>c\<in>set cs. length (http_200_header (length body)) + length c < FT_BUF_SIZE
    \<Longrightarrow> \<exists>x1. drive fg_step (fg, w) = drive fg_step x1 \<and> fg_reading_body body (fg, w) x1"
proof (induction cs arbitrary: fg w k)
  case Nil
  then show ?case by (simp add: fg_reading_header_def)
next
  case (Cons c cs)
  let ?H = "http_200_header (length body)" and ?k = "k + length c"
  let ?w1 = "w\<lparr>w_recv := map RData cs\<rparr>"
  note h = Cons.prems(1) [unfolded fg_reading_header_def]
  have lenb: "length (fg_buf fg) = k" using h by simp
  define fg1 where "fg1 = fg_goto FG_REPLY_HTTP (fg_downloaded (length c) (fg_append c fg))"
  have step1: "fg_step (fg, w) = Again (fg1, ?w1)"
    using h Cons.prems lenb by (subst step_receive_chunk) (auto simp: fg1_def)
  have split: "drop k (?H @ body) = c @ concat cs" using Cons.prems(5) by simp
  then have rest: "concat cs = drop ?k (?H @ body)" by (metis append_eq_conv_conj drop_drop add.commute)
  have "c = take (length c) (drop k (?H @ body))" using split by (metis append_eq_conv_conj)
  then have buf1: "fg_buf fg1 = take ?k (?H @ body)"
    using h by (simp add: fg1_def fg_goto_def fg_downloaded_def fg_append_def take_add del: take_append drop_append)
  have inv1: "fg_inv fg1" using fg_loop.again_inv [OF _ step1] h by simp
  have st1: "fg_state fg1 = FG_REPLY_HTTP" "fg_buf_read_offset fg1 = 0" "length (fg_buf fg1) < FT_BUF_SIZE"
    "fg_content fg1 = fg_content fg" "fg_f fg1 = fg_f fg" "st_body_bytes_downloaded (fg_curstats fg1) = 0"
    using h Cons.prems(6) lenb by (auto simp: fg1_def fg_goto_def fg_downloaded_def fg_append_def)
  show ?case
  proof (cases "?k < length ?H")
    case True
    let ?fg2 = "fg_io FG_RECEIVE FG_REPLY_HTTP fg1"
    have step2: "fg_step (fg1, ?w1) = Again (?fg2, ?w1)"
      using step_header_incomplete [OF st1(1-3) buf1 True body(2)] .
    have "fg_inv ?fg2" using fg_loop.again_inv [OF _ step2] inv1 by simp
    then have "fg_reading_header body ?k ?fg2"
      using True st1 buf1 by (simp add: fg_reading_header_def fg_io_def)
    from Cons.IH [OF this, of ?w1] Cons.prems rest obtain x1 where
      "drive fg_step (?fg2, ?w1) = drive fg_step x1" "fg_reading_body body (?fg2, ?w1) x1" by auto
    with step1 step2 st1 show ?thesis
      by (intro exI [of _ x1]) (simp add: drive_again fg_reading_body_def fg_io_def)
  next
    case False
    then have buf: "fg_buf fg1 = ?H @ take (?k - length ?H) body" using buf1 by simp
    obtain fg2 where step2: "fg_step (fg1, ?w1) = Again (fg2, ?w1)" and fg2: "fg_state fg2 = FG_CHECK_DOWNLOAD"
      "fg_avail fg2 = take (?k - length ?H) body" "st_body_bytes_expected (fg_curstats fg2) = of_nat (length body)"
      "st_body_bytes_downloaded (fg_curstats fg2) = 0" "fg_content fg2 = fg_content fg" "fg_f fg2 = fg_f fg"
      using step_header_complete [OF st1(1-3) buf body] st1 by auto
    have "fg_inv fg2" using fg_loop.again_inv [OF _ step2] inv1 by simp
    moreover have coming: "fg_coming (fg2, ?w1) = body"
      using fg2 rest False by (simp add: fg_coming_def arriving_def comp_def)
    ultimately have "fg_body_ready (fg2, ?w1)"
      using fg2 Cons.prems(3,4) body(1)
      by (simp add: fg_body_ready_def fg_in_body_def all_data_map unat_of_nat)
    with coming fg2 step1 step2 show ?thesis
      by (intro exI [of _ "(fg2, ?w1)"]) (simp add: drive_again fg_reading_body_def)
  qed
qed

lemma whole_reply_received:
  assumes "fg_reading_header body 0 fg" "w_recv w = map RData cs" "[] \<notin> set cs" "w_fwrite w = []"
    and "concat cs = http_200_header (length body) @ body"
    and "\<forall>c\<in>set cs. length (http_200_header (length body)) + length c < FT_BUF_SIZE"
    and "length body < 2 ^ 31" "no_404_marker body"
  shows "\<exists>fg' w'. drive fg_step (fg, w) = Some (Ret FG_OK_200, fg', w')
     \<and> fg_content fg' = map_option (\<lambda>s. s @ body) (fg_content fg)
     \<and> file_written (w_log w') = file_written (w_log w) @ (if fg_f fg then body else [])
     \<and> st_body_bytes_downloaded (fg_curstats fg') = of_nat (length body)
     \<and> fg_state fg' = FG_SPEC \<and> arriving w' = []"
proof -
  obtain x1 where dr: "drive fg_step (fg, w) = drive fg_step x1" and rb: "fg_reading_body body (fg, w) x1"
    using header_received [OF assms(7,8,1-4)] assms(5,6) by auto
  note b = rb [unfolded fg_reading_body_def]
  obtain fg' w' where fin: "drive fg_step x1 = Some (Ret FG_OK_200, fg', w')"
    using fg_body_loop.returns_with_post [of x1] b by auto
  have x1: "fg_inv (fst x1)" "fg_in_body (fst x1)" using b by (auto simp: fg_body_ready_def split: prod.splits)
  have f: "fg_fin x1 (Ret FG_OK_200) (fg', w')" using fg_loop.result_fin [OF x1(1) fin] .
  then obtain d where d: "fg_delivered x1 d (fg', w')" "fg_avail fg' = []"
    and enough: "st_body_bytes_expected (fg_curstats fg') \<le> st_body_bytes_downloaded (fg_curstats fg')"
    using x1(2) by (auto simp: fg_fin_def)
  have split: "body = d @ arriving w'" using d b by (simp add: fg_delivered_def fg_coming_def)
  then have le: "length d \<le> length body" by simp
  have "(of_nat (length body) :: u64) \<le> of_nat (length d)"
    using enough d b by (simp add: fg_delivered_def)
  moreover have "unat (of_nat (length body) :: u64) = length body" "unat (of_nat (length d) :: u64) = length d"
    using assms(7) le by (simp_all add: unat_of_nat)
  ultimately have "length body \<le> length d" by (simp add: word_le_nat_alt)
  with split have "d = body" "arriving w' = []" by simp_all
  moreover have "fg_state fg' = FG_SPEC" using fg_loop.result_post [OF x1(1) fin] by (simp add: fg_post_def)
  ultimately show ?thesis using d b dr fin by (auto simp: fg_delivered_def)
qed

end
