(* ===== verification/Filegetter_Properties.thy ===== *)
theory Filegetter_Properties
  imports Filegetter_Http
begin

text \<open>
  What the HTTP client promises.
\<close>

section \<open>Returning, and memory errors\<close>

lemma getter_activate_facts:
  assumes "fg_inv fg"
  obtains r fg' w' where "filegetter_activate fg w = Some (r, fg', w')"
    "fg_assertstate fg \<Longrightarrow> fg_post r (fg', w')" "\<not> fg_assertstate fg \<Longrightarrow> r = AssertFail \<and> (fg', w') = (fg, w)"
proof (cases "fg_assertstate fg")
  case True
  obtain r x' where "drive fg_step (fg, w) = Some (r, x')" "fg_post r x'"
    using fg_loop.returns_with_post [of "(fg, w)"] assms by auto
  with True that show thesis by (cases x') (auto simp: filegetter_activate_def)
qed (use that in \<open>simp add: filegetter_activate_def\<close>)

text \<open>
  C12: for every behaviour of server, proxy and kernel the client's handler returns, and never
  reports that it was not started.  It leaves its memory exactly when it stops in one of the
  situations \<open>fg_overflow\<close> lists with room for what it is about to write: a full buffer when
  a reply is examined, a path or host name without an end, a request that is shorter than the
  buffer but does not fit behind what is buffered, a host name length outside its array.  An
  assertion fails exactly when there is no room (\<open>fg_no_room\<close>), or at once when the handler
  is called in a state it does not expect.
\<close>

theorem getter_returns_safely:
  assumes "fg_inv fg"
  shows "\<exists>r fg' w'. filegetter_activate fg w = Some (r, fg', w')
     \<and> (r = UB \<longleftrightarrow> fg_assertstate fg \<and> fg_overflow fg' \<and> \<not> fg_no_room fg')
     \<and> (r = AssertFail \<longleftrightarrow> \<not> fg_assertstate fg \<or> fg_no_room fg')
     \<and> r \<noteq> Ret FG_ERR_NOTSTARTED"
proof -
  obtain r fg' w' where "filegetter_activate fg w = Some (r, fg', w')"
    "fg_assertstate fg \<Longrightarrow> fg_post r (fg', w')" "\<not> fg_assertstate fg \<Longrightarrow> r = AssertFail \<and> (fg', w') = (fg, w)"
    using getter_activate_facts [OF assms] by blast
  then show ?thesis by (cases "fg_assertstate fg") (auto simp: fg_post_def)
qed

definition demo_getter :: filegetter where
  "demo_getter = zero_getter
     \<lparr>fg_sockd := 9, fg_state := FG_RECEIVE, fg_nextstate := FG_REPLY_HTTP, fg_content := Some []\<rparr>"

lemma demo_getter_inv: "fg_inv demo_getter" "fg_assertstate demo_getter"
  by (simp_all add: demo_getter_def fg_inv_def fg_assertstate_def zero_getter_def)

text \<open>A client with a single byte left in its buffer, about to ask the server or the proxy.\<close>

definition demo_stuffed :: "fg_state \<Rightarrow> filegetter" where
  "demo_stuffed st = demo_getter\<lparr>fg_state := st, fg_buf := replicate (FT_BUF_SIZE - 1) (CHR ''x'')\<rparr>"

lemma demo_stuffed_inv:
  "fg_inv (demo_stuffed FG_REQUEST_HTTP)" "fg_assertstate (demo_stuffed FG_REQUEST_HTTP)"
  "fg_inv (demo_stuffed FG_REQUEST_SOCKS_INIT)" "fg_assertstate (demo_stuffed FG_REQUEST_SOCKS_INIT)"
  by (simp_all add: demo_stuffed_def demo_getter_def zero_getter_def fg_inv_def fg_assertstate_def)

lemma demo_stuffed_activate:
  "filegetter_activate (demo_stuffed FG_REQUEST_HTTP) quiet_world = Some (UB, demo_stuffed FG_REQUEST_HTTP, quiet_world)"
  "filegetter_activate (demo_stuffed FG_REQUEST_SOCKS_INIT) quiet_world
     = Some (AssertFail, demo_stuffed FG_REQUEST_SOCKS_INIT, quiet_world)"
proof -
  have req: "1 < length (http_get_request [] [])" "length (http_get_request [] []) < FT_BUF_SIZE"
    by (simp_all add: http_get_request_def FT_2CRLF_def)
  have st: "fg_state (demo_stuffed st) = st" "fg_space (demo_stuffed st) = 1" "fg_names_terminated (demo_stuffed st)"
      "fp_remote_path (fg_fspec (demo_stuffed st)) = []" "sp_http_hostname (fg_sspec (demo_stuffed st)) = []" "cstr [] = []" for st
    by (simp_all add: fg_names_terminated_def demo_stuffed_def demo_getter_def zero_getter_def fg_space_def cstr_def)
  have "fg_step (demo_stuffed FG_REQUEST_HTTP, quiet_world) = Exit UB (demo_stuffed FG_REQUEST_HTTP, quiet_world)"
    using req by (simp add: fg_step_def fg_step_request_http_def st)
  moreover have "fg_step (demo_stuffed FG_REQUEST_SOCKS_INIT, quiet_world)
      = Exit AssertFail (demo_stuffed FG_REQUEST_SOCKS_INIT, quiet_world)"
    by (simp add: fg_step_def fg_step_request_socks_init_def FT_SOCKS_INIT_def st)
  ultimately show
    "filegetter_activate (demo_stuffed FG_REQUEST_HTTP) quiet_world = Some (UB, demo_stuffed FG_REQUEST_HTTP, quiet_world)"
    "filegetter_activate (demo_stuffed FG_REQUEST_SOCKS_INIT) quiet_world
       = Some (AssertFail, demo_stuffed FG_REQUEST_SOCKS_INIT, quiet_world)"
    using demo_stuffed_inv(2,4) by (simp_all add: filegetter_activate_def drive_exit)
qed

theorem getter_returns_safely_witness:
  "fg_overflow (demo_stuffed FG_REQUEST_HTTP) \<and> \<not> fg_no_room (demo_stuffed FG_REQUEST_HTTP)
   \<and> fg_no_room (demo_stuffed FG_REQUEST_SOCKS_INIT)"
  using getter_returns_safely [OF demo_stuffed_inv(1), of quiet_world]
    getter_returns_safely [OF demo_stuffed_inv(3), of quiet_world] demo_stuffed_activate demo_stuffed_inv(2,4)
  by auto

text \<open>
  The terminating NUL is written one byte behind the buffer: whenever the first read of a
  reply fills the buffer, whatever the bytes are, the handler writes outside it.
\<close>

theorem full_buffer_overflows:
  assumes "fg_inv fg" "fg_assertstate fg" "fg_state fg = FG_RECEIVE" "fg_nextstate fg = FG_REPLY_HTTP" "fg_buf fg = []"
    and "w_recv w = RData bs # q" "FT_BUF_SIZE \<le> length bs"
  shows "\<exists>fg' w'. filegetter_activate fg w = Some (UB, fg', w')"
proof -
  obtain w1 where s: "sys_recv (fg_space fg) w = (Inr (take FT_BUF_SIZE bs), w1)"
    using assms(5-7) by (cases "length bs = 51200") (auto simp: sys_recv_def fg_space_def)
  define fg1 where "fg1 = fg_goto FG_REPLY_HTTP (fg_downloaded FT_BUF_SIZE (fg_append (take FT_BUF_SIZE bs) fg))"
  have "fg_step (fg, w) = Again (fg1, w1)"
    using s assms by (auto simp: fg_step_def fg_step_receive_def fg1_def)
  moreover have "fg_step (fg1, w1) = Exit UB (fg1, w1)"
    using assms(5,7)
    by (simp add: fg_step_def fg_step_reply_http_def fg1_def fg_goto_def fg_downloaded_def fg_append_def)
  ultimately show ?thesis using assms(2) by (simp add: filegetter_activate_def drive_again drive_exit)
qed

theorem full_buffer_overflows_witness:
  "\<exists>fg' w'. filegetter_activate demo_getter (quiet_world\<lparr>w_recv := [RData (replicate 51200 (CHR ''x''))]\<rparr>) = Some (UB, fg', w')"
  by (rule full_buffer_overflows [where bs = "replicate 51200 (CHR ''x'')" and q = "[]"])
     (simp_all add: demo_getter_inv, simp_all add: demo_getter_def zero_getter_def)

section \<open>Downloads\<close>

text \<open>
  C14: a reply as the file server prints it, cut into any pieces that leave room in the buffer,
  is downloaded completely: the client reports success, its memory copy and its file gain
  exactly the body, the body counter is the length of the body, nothing is left over.
\<close>

theorem reply_downloaded:
  assumes "fg_reading_header body 0 fg" "fg_assertstate fg" "w_recv w = map RData cs" "[] \<notin> set cs" "w_fwrite w = []"
    and "concat cs = http_200_header (length body) @ body"
    and "\<forall>c\<in>set cs. length (http_200_header (length body)) + length c < FT_BUF_SIZE"
    and "length body < 2 ^ 31" "no_404_marker body"
  shows "\<exists>fg' w'. filegetter_activate fg w = Some (Ret FG_OK_200, fg', w')
     \<and> fg_content fg' = map_option (\<lambda>s. s @ body) (fg_content fg)
     \<and> file_written (w_log w') = file_written (w_log w) @ (if fg_f fg then body else [])
     \<and> st_body_bytes_downloaded (fg_curstats fg') = of_nat (length body)
     \<and> fg_state fg' = FG_SPEC \<and> arriving w' = []"
  using whole_reply_received [OF assms(1,3-9)] assms(2) by (simp add: filegetter_activate_def)

theorem reply_downloaded_witness:
  "\<exists>fg' w'. filegetter_activate demo_getter
       (quiet_world\<lparr>w_recv := [RData (take 20 (http_200_header 3 @ ''abc'')), RData (drop 20 (http_200_header 3 @ ''abc''))]\<rparr>)
     = Some (Ret FG_OK_200, fg', w') \<and> fg_content fg' = Some ''abc''"
proof -
  let ?r = "http_200_header (length ''abc'') @ ''abc''"
  let ?w = "quiet_world\<lparr>w_recv := [RData (take 20 ?r), RData (drop 20 ?r)]\<rparr>"
  have l: "length (http_200_header (length ''abc'')) = 38"
    by (simp add: header_split show_nat.simps)
  have rh: "fg_reading_header ''abc'' 0 demo_getter"
    using demo_getter_inv l by (simp add: fg_reading_header_def) (simp add: demo_getter_def zero_getter_def zero_stats_def)
  have q: "w_recv ?w = map RData [take 20 ?r, drop 20 ?r]" "[] \<notin> set [take 20 ?r, drop 20 ?r]" "w_fwrite ?w = []"
    "concat [take 20 ?r, drop 20 ?r] = ?r"
    using l by (simp_all add: quiet_world_def del: take_append drop_append flip: length_greater_0_conv)
  have small: "\<forall>c\<in>set [take 20 ?r, drop 20 ?r]. length (http_200_header (length ''abc'')) + length c < FT_BUF_SIZE"
    "length ''abc'' < 2 ^ 31" "no_404_marker ''abc''"
    using l by (simp_all add: no_404_marker_def FT_HTTP_404_def ascii_lower_def char_of_def)
  have three: "length ''abc'' = 3" by simp
  have "fg_content demo_getter = Some []" by (simp add: demo_getter_def)
  with reply_downloaded [OF rh demo_getter_inv(2) q small] show ?thesis unfolding three by auto
qed

text \<open>
  C25: in the body phase every activation conserves the body: it ends in success, would-block
  or a fatal error; with the first two, what the memory copy gained, followed by what is still
  coming, is what was coming before, the file (when one is open) gained the same bytes, and the
  body counter moved by as many; success is reported only when the expected count is reached.
\<close>

theorem body_conserved:
  assumes "fg_inv fg" "fg_in_body fg" "filegetter_activate fg w = Some (r, fg', w')" "fg_assertstate fg"
  shows "r \<in> {Ret FG_OK_200, Ret FG_ERR_WOULDBLOCK, Ret FG_ERR_FATAL}
     \<and> (r \<noteq> Ret FG_ERR_FATAL \<longrightarrow> (\<exists>d. fg_delivered (fg, w) d (fg', w')))
     \<and> (r = Ret FG_OK_200 \<longrightarrow> fg_avail fg' = []
          \<and> st_body_bytes_expected (fg_curstats fg') \<le> st_body_bytes_downloaded (fg_curstats fg'))"
proof -
  have "drive fg_step (fg, w) = Some (r, fg', w')" using assms(3,4) by (simp add: filegetter_activate_def)
  from fg_loop.result_fin [OF _ this] assms(1,2) show ?thesis by (auto simp: fg_fin_def)
qed

definition demo_in_body :: filegetter where
  "demo_in_body = demo_getter\<lparr>fg_nextstate := FG_CHECK_DOWNLOAD,
     fg_curstats := zero_stats\<lparr>st_body_bytes_expected := 2\<rparr>\<rparr>"

theorem body_conserved_witness:
  "\<exists>r fg' w'. filegetter_activate demo_in_body (quiet_world\<lparr>w_recv := [RData ''ab'']\<rparr>) = Some (r, fg', w')
     \<and> r \<in> {Ret FG_OK_200, Ret FG_ERR_WOULDBLOCK, Ret FG_ERR_FATAL}
     \<and> (r \<noteq> Ret FG_ERR_FATAL \<longrightarrow> (\<exists>d. ''ab'' = d @ fg_coming (fg', w') \<and> fg_content fg' = Some d))"
proof -
  let ?w = "quiet_world\<lparr>w_recv := [RData ''ab'']\<rparr>"
  have inv: "fg_inv demo_in_body" "fg_in_body demo_in_body" "fg_assertstate demo_in_body"
    by (simp_all add: demo_in_body_def demo_getter_def zero_getter_def fg_inv_def fg_in_body_def fg_assertstate_def)
  obtain r fg' w' where act: "filegetter_activate demo_in_body ?w = Some (r, fg', w')"
    using getter_activate_facts [OF inv(1)] by blast
  with body_conserved [OF inv(1,2) act inv(3)] show ?thesis
    by (auto simp: fg_delivered_def fg_coming_def fg_avail_def arriving_def demo_in_body_def demo_getter_def zero_getter_def)
qed

text \<open>
  The transfer counters of the client, per download and in total, count what was put on
  the wire and what was taken from it, modulo 2 to the 64.
\<close>

theorem getter_counts_bytes:
  assumes "fg_inv fg" "filegetter_activate fg w = Some (r, fg', w')"
  shows "fg_accounts (fg', w') = fg_accounts (fg, w)"
proof (cases "fg_assertstate fg")
  case True
  then have "drive fg_step (fg, w) = Some (r, fg', w')" using assms(2) by (simp add: filegetter_activate_def)
  from fg_loop.result_fin [OF _ this] assms(1) show ?thesis by (simp add: fg_fin_def)
qed (use assms in \<open>simp add: filegetter_activate_def\<close>)

theorem getter_counts_bytes_witness:
  "\<exists>r fg' w'. filegetter_activate demo_getter (quiet_world\<lparr>w_recv := [RData ''HTTP'']\<rparr>) = Some (r, fg', w')
     \<and> fg_accounts (fg', w') = (0, 0, 4, 4)"
proof -
  let ?w = "quiet_world\<lparr>w_recv := [RData ''HTTP'']\<rparr>"
  obtain r fg' w' where act: "filegetter_activate demo_getter ?w = Some (r, fg', w')"
    using getter_activate_facts [OF demo_getter_inv(1)] by blast
  with getter_counts_bytes [OF demo_getter_inv(1) act] show ?thesis
    by (auto simp: fg_accounts_def arriving_def demo_getter_def zero_getter_def zero_stats_def quiet_world_def)
qed

section \<open>Specifications, times\<close>

text \<open>
  On a persistent connection a download asked for while another one is under way is
  reported as started, although the specifications given are dropped: the handler goes back to
  sending the request of the old one.
\<close>

theorem persistent_download_ignores_refusal:
  assumes "fg_state fg \<noteq> FG_SPEC" "sp_persistent (fg_sspec fg)" "0 < fg_sockd fg"
  shows "\<exists>w'. filegetter_download fg sspec fspec w = (FG_SUCCESS, fg\<lparr>fg_state := FG_REQUEST_HTTP\<rparr>, w')
     \<and> fst (filegetter_set_specs fg sspec fspec w) = FG_ERR_INVALID"
  using assms by (simp add: filegetter_download_def filegetter_set_specs_def Let_def)

theorem persistent_download_ignores_refusal_witness:
  "\<exists>w'. filegetter_download (demo_getter\<lparr>fg_sspec := (fg_sspec demo_getter)\<lparr>sp_persistent := True\<rparr>\<rparr>)
       (fg_sspec demo_getter) ((fg_fspec demo_getter)\<lparr>fp_remote_path := ''/g''\<rparr>) quiet_world =
     (FG_SUCCESS, demo_getter\<lparr>fg_sspec := (fg_sspec demo_getter)\<lparr>sp_persistent := True\<rparr>, fg_state := FG_REQUEST_HTTP\<rparr>, w')"
  using persistent_download_ignores_refusal
    [of "demo_getter\<lparr>fg_sspec := (fg_sspec demo_getter)\<lparr>sp_persistent := True\<rparr>\<rparr>"
      "fg_sspec demo_getter" "(fg_fspec demo_getter)\<lparr>fp_remote_path := ''/g''\<rparr>" quiet_world]
  by (auto simp: demo_getter_def)

text \<open>A time in nanoseconds, and a time whose nanoseconds are in range.\<close>

definition ts_ns :: "timespec \<Rightarrow> int" where
  "ts_ns t = tv_sec t * NSEC + tv_nsec t"

definition ts_ok :: "timespec \<Rightarrow> bool" where
  "ts_ok t \<longleftrightarrow> 0 \<le> tv_nsec t \<and> tv_nsec t < NSEC"

lemma ts_borrow_props:
  "tv_nsec t < NSEC \<Longrightarrow> ts_ns (ts_borrow t) = ts_ns t \<and> ts_ok (ts_borrow t)"
proof (induction t rule: ts_borrow.induct)
  case (1 t)
  then show ?case
    by (subst (1 2) ts_borrow.simps) (auto simp: ts_ns_def ts_ok_def NSEC_def)
qed

lemma ts_carry_props:
  "0 \<le> tv_nsec t \<Longrightarrow> ts_ns (ts_carry t) = ts_ns t \<and> ts_ok (ts_carry t)"
proof (induction t rule: ts_carry.induct)
  case (1 t)
  then show ?case
    by (subst (1 2) ts_carry.simps) (auto simp: ts_ns_def ts_ok_def NSEC_def)
qed

text \<open>
  The times reported are exact and normalised: the first-byte time is the difference of
  the two clock readings, and the totals are the sums of the per-download times, to the
  nanosecond.
\<close>

theorem times_exact:
  assumes "ts_ok (fg_download_first_byte fg)" "ts_ok (fg_download_start fg)"
    and "ts_ok (st_download_time (fg_curstats fg))" "ts_ok (st_download_time (fg_allstats fg))"
  shows "ts_ns (st_first_byte_time (fg_curstats (filegetter_metrics_first fg))) =
           ts_ns (fg_download_first_byte fg) - ts_ns (fg_download_start fg)
     \<and> ts_ok (st_first_byte_time (fg_curstats (filegetter_metrics_first fg)))
     \<and> ts_ns (st_download_time (fg_allstats (filegetter_metrics_complete fg))) =
           ts_ns (st_download_time (fg_allstats fg)) + ts_ns (st_download_time (fg_curstats fg))
     \<and> ts_ok (st_download_time (fg_allstats (filegetter_metrics_complete fg)))"
  using assms ts_borrow_props [of "\<lparr>tv_sec = tv_sec (fg_download_first_byte fg) - tv_sec (fg_download_start fg),
      tv_nsec = tv_nsec (fg_download_first_byte fg) - tv_nsec (fg_download_start fg)\<rparr>"]
    ts_carry_props [of "\<lparr>tv_sec = tv_sec (st_download_time (fg_allstats fg)) + tv_sec (st_download_time (fg_curstats fg)),
      tv_nsec = tv_nsec (st_download_time (fg_allstats fg)) + tv_nsec (st_download_time (fg_curstats fg))\<rparr>"]
  by (auto simp: filegetter_metrics_first_def filegetter_metrics_complete_def ts_minus_def ts_plus_def ts_ok_def
      ts_ns_def algebra_simps)

theorem times_exact_witness:
  "ts_ns (st_first_byte_time (fg_curstats (filegetter_metrics_first
     (zero_getter\<lparr>fg_download_start := \<lparr>tv_sec = 5, tv_nsec = 900000000\<rparr>,
                 fg_download_first_byte := \<lparr>tv_sec = 7, tv_nsec = 100000000\<rparr>\<rparr>)))) = 1200000000"
  using times_exact [of "zero_getter\<lparr>fg_download_start := \<lparr>tv_sec = 5, tv_nsec = 900000000\<rparr>,
                 fg_download_first_byte := \<lparr>tv_sec = 7, tv_nsec = 100000000\<rparr>\<rparr>"]
  by (simp add: ts_ok_def ts_ns_def NSEC_def zero_getter_def zero_stats_def zero_time_def)

end
