(* ===== verification/Filegetter_Socks.thy ===== *)
theory Filegetter_Socks
  imports Filegetter_Properties
begin

text \<open>
  The SOCKS5 handshake of the client: what it puts on the wire, in which order, and what it
  makes of the proxy's answers.
\<close>

text \<open>
  What a stage of the handshake needs to know: \<open>av\<close> is buffered and unread, \<open>q\<close> and \<open>s\<close> are
  the answers the kernel has left, \<open>out\<close> has been sent.
\<close>

definition fg_at ::
    "fg_state \<Rightarrow> string \<Rightarrow> recv_answer list \<Rightarrow> send_answer list \<Rightarrow> string \<Rightarrow> fg_serverspec \<Rightarrow> fg_filespec
      \<Rightarrow> fg_ctx \<Rightarrow> bool" where
  "fg_at st av q s out sp fp = (\<lambda>(fg, w).
     fg_inv fg \<and> fg_state fg = st \<and> fg_avail fg = av \<and> w_recv w = q \<and> w_send w = s
     \<and> all_sent (w_log w) = out \<and> fg_sspec fg = sp \<and> fg_fspec fg = fp \<and> length (fg_buf fg) \<le> 10
     \<and> (st \<in> {FG_TOREPLY_SOCKS_INIT, FG_TOREPLY_SOCKS_CONN, FG_TOREPLY_HTTP} \<longrightarrow> fg_buf fg = []))"

lemma fg_at_length: "fg_at st av q s out sp fp (fg, w) \<Longrightarrow> length (fg_buf fg) = fg_buf_read_offset fg + length av"
  by (auto simp: fg_at_def fg_inv_def fg_avail_def)

text \<open>A request that is buffered and taken whole leaves an empty buffer and the next state.\<close>

lemma sent_whole:
  assumes "fg_state fg = FG_SEND" "fg_nextstate fg = nxt" "fg_avail fg \<noteq> []" "fg_inv fg"
    and "w_send w = SOk k # s" "length (fg_avail fg) \<le> k"
    and "nxt \<in> {FG_TOREPLY_SOCKS_INIT, FG_TOREPLY_SOCKS_CONN, FG_TOREPLY_HTTP}"
  shows "\<exists>y. drive fg_step (fg, w) = drive fg_step y \<and>
     fg_at nxt [] (w_recv w) s (all_sent (w_log w) @ fg_avail fg) (fg_sspec fg) (fg_fspec fg) y"
proof -
  let ?n = "length (fg_avail fg)"
  let ?w1 = "emit (Sent (fg_sockd fg) (fg_avail fg)) (w\<lparr>w_send := s\<rparr>)"
  define fg1 where "fg1 = fg_goto nxt ((fg_uploaded ?n (fg\<lparr>fg_buf_read_offset := fg_buf_read_offset fg + ?n\<rparr>))
      \<lparr>fg_buf_read_offset := 0, fg_buf := []\<rparr>)"
  have off: "fg_buf_read_offset fg + ?n = length (fg_buf fg)" "\<not> length (fg_buf fg) < fg_buf_read_offset fg"
    using assms(4) by (auto simp: fg_inv_def fg_avail_def)
  have sd: "sys_send (fg_sockd fg) (fg_avail fg) w = (Inr ?n, ?w1)"
    using assms(3,5,6) by (simp add: sys_send_def min_def)
  have "fg_step (fg, w) = Again (fg1, ?w1)"
    using assms(1-3) off sd by (simp add: fg_step_def fg_step_send_def fg1_def fg_uploaded_def Let_def)
  moreover have "fg_at nxt [] (w_recv w) s (all_sent (w_log w) @ fg_avail fg) (fg_sspec fg) (fg_fspec fg) (fg1, ?w1)"
    using assms(7) by (auto simp: fg_at_def fg1_def fg_goto_def fg_uploaded_def fg_inv_def fg_avail_def)
  ultimately show ?thesis by (auto simp: drive_again intro!: exI [of _ "(fg1, ?w1)"])
qed

lemma sent_request:
  assumes "fg_at st [] q (SOk k # s) out sp fp (fg, w)" "bs \<noteq> []" "length bs \<le> k" "length bs \<le> 40000"
    and "fg_step (fg, w) = Again (fg_io FG_SEND nxt (fg_append bs fg), w1)"
    and "w_recv w1 = w_recv w" "w_send w1 = w_send w" "all_sent (w_log w1) = all_sent (w_log w)"
    and "nxt \<in> {FG_TOREPLY_SOCKS_INIT, FG_TOREPLY_SOCKS_CONN, FG_TOREPLY_HTTP}"
  shows "\<exists>y. drive fg_step (fg, w) = drive fg_step y \<and> fg_at nxt [] q s (out @ bs) sp fp y"
proof -
  let ?fg1 = "fg_io FG_SEND nxt (fg_append bs fg)"
  have av: "fg_avail ?fg1 = bs"
    using assms(1) by (simp add: fg_at_def fg_avail_def fg_io_def fg_append_def fg_inv_def)
  have "fg_inv ?fg1"
    using assms(1,4,9) by (auto simp: fg_at_def fg_inv_def fg_io_def fg_append_def)
  then show ?thesis
    using sent_whole [of ?fg1 nxt w1 k s] assms av
    by (auto simp: drive_again fg_at_def) (auto simp: fg_io_def fg_append_def)
qed

lemma at_request_init:
  assumes "fg_at FG_REQUEST_SOCKS_INIT [] q (SOk k # s) out sp fp x" "3 \<le> k"
  shows "\<exists>y. drive fg_step x = drive fg_step y \<and> fg_at FG_TOREPLY_SOCKS_INIT [] q s (out @ FT_SOCKS_INIT) sp fp y"
proof -
  obtain fg w where x: "x = (fg, w)" by fastforce
  have len: "length FT_SOCKS_INIT = 3" by (simp add: FT_SOCKS_INIT_def)
  have ne: "FT_SOCKS_INIT \<noteq> []" using len by auto
  let ?fg1 = "fg_io FG_SEND FG_TOREPLY_SOCKS_INIT (fg_append FT_SOCKS_INIT fg)"
  have "fg_step (fg, w) = Again (?fg1, filegetter_changeEpoll ?fg1 [EPOLLOUT] w)"
    using assms len by (auto simp: x fg_at_def fg_step_def fg_step_request_socks_init_def fg_space_def Let_def)
  from sent_request [OF assms(1) [unfolded x] ne _ _ this] assms(2) len show ?thesis by (simp add: x)
qed

lemma at_toreply:
  assumes "fg_at st [] (RData bs # q) s out sp fp x" "bs \<noteq> []" "length bs \<le> 10"
    and "(st, nxt) \<in> {(FG_TOREPLY_SOCKS_INIT, FG_REPLY_SOCKS_INIT), (FG_TOREPLY_SOCKS_CONN, FG_REPLY_SOCKS_CONN)}"
  shows "\<exists>y. drive fg_step x = drive fg_step y \<and> fg_at nxt bs q s out sp fp y"
proof -
  obtain fg w where x: "x = (fg, w)" by fastforce
  define fg1 where "fg1 = fg_io FG_RECEIVE nxt fg"
  define w1 where "w1 = filegetter_changeEpoll fg [EPOLLIN] w"
  define fg2 where "fg2 = fg_goto nxt (fg_downloaded (length bs) (fg_append bs fg1))"
  have buf: "fg_buf fg = []" "fg_buf_read_offset fg = 0" using assms(1,4) x by (auto simp: fg_at_def fg_inv_def)
  have "fg_step x = Again (fg1, w1)"
    using assms(1,4) by (auto simp: x fg_at_def fg_step_def fg_step_toreply_def fg1_def w1_def)
  moreover have "fg_step (fg1, w1) = Again (fg2, w1\<lparr>w_recv := q\<rparr>)"
    using assms(1-3) buf by (subst step_receive_chunk) (auto simp: x fg1_def fg2_def w1_def fg_io_def fg_at_def)
  moreover have "fg_at nxt bs q s out sp fp (fg2, w1\<lparr>w_recv := q\<rparr>)"
    using assms buf
    by (auto simp: x fg_at_def fg2_def fg1_def w1_def fg_goto_def fg_downloaded_def fg_append_def fg_io_def fg_inv_def
        fg_avail_def)
  ultimately show ?thesis by (intro exI [of _ "(fg2, w1\<lparr>w_recv := q\<rparr>)"]) (simp add: drive_again)
qed

definition socks_init_ok :: string where "socks_init_ok = map char_of [5, 0 :: nat]"

lemma at_reply_init:
  assumes "fg_at FG_REPLY_SOCKS_INIT socks_init_ok q s out sp fp x"
  shows "\<exists>y. drive fg_step x = drive fg_step y \<and> fg_at FG_REQUEST_SOCKS_CONN [] q s out sp fp y"
proof -
  obtain fg w where x: "x = (fg, w)" by fastforce
  define fg1 where "fg1 = fg_goto FG_REQUEST_SOCKS_CONN (fg\<lparr>fg_buf_read_offset := fg_buf_read_offset fg + 2\<rparr>)"
  have av: "fg_avail fg = socks_init_ok" using assms by (simp add: x fg_at_def)
  have len: "length (fg_buf fg) = fg_buf_read_offset fg + 2"
    using fg_at_length [OF assms [unfolded x]] by (simp add: socks_init_ok_def)
  have "fg_step x = Again (fg1, w)"
    using assms av by (simp add: x fg_at_def fg_step_def fg_step_reply_socks_init_def fg_byte_def socks_init_ok_def fg1_def)
  moreover have "fg_at FG_REQUEST_SOCKS_CONN [] q s out sp fp (fg1, w)"
    using assms len by (simp add: x fg_at_def fg1_def fg_goto_def fg_inv_def fg_avail_def)
  ultimately show ?thesis by (intro exI [of _ "(fg1, w)"]) (simp add: drive_again)
qed

definition socks_target_ok :: "fg_serverspec \<Rightarrow> bool" where
  "socks_target_ok sp \<longleftrightarrow> \<not> sp_useHostname sp \<or> (0 \<le> sp_hostnameLength sp \<and> sp_hostnameLength sp \<le> 256)"

lemma length_target_ok:
  "socks_target_ok sp \<Longrightarrow> 7 \<le> length (fg_socks_target sp) \<and> length (fg_socks_target sp) \<le> 263
     \<and> int (length (fg_socks_target sp)) = (if sp_useHostname sp then 7 + sp_hostnameLength sp else 10)"
  using length_socks_target [of sp] length_socks_target_addr [of sp] by (auto simp: socks_target_ok_def)

lemma at_request_conn:
  assumes "fg_at FG_REQUEST_SOCKS_CONN [] q (SOk k # s) out sp fp x" "socks_target_ok sp" "263 \<le> k"
  shows "\<exists>y. drive fg_step x = drive fg_step y \<and> fg_at FG_TOREPLY_SOCKS_CONN [] q s (out @ fg_socks_target sp) sp fp y"
proof -
  obtain fg w where x: "x = (fg, w)" by fastforce
  note len = length_target_ok [OF assms(2)]
  have ne: "fg_socks_target sp \<noteq> []" using len by auto
  let ?fg1 = "fg_io FG_SEND FG_TOREPLY_SOCKS_CONN (fg_append (fg_socks_target sp) fg)"
  have "fg_step (fg, w) = Again (?fg1, filegetter_changeEpoll ?fg1 [EPOLLOUT] w)"
    using assms len
    by (auto simp: x fg_at_def fg_step_def fg_step_request_socks_conn_def fg_space_def socks_target_ok_def Let_def)
  from sent_request [OF assms(1) [unfolded x] ne _ _ this] assms(3) len show ?thesis by (simp add: x)
qed

text \<open>The proxy's consent, without a new address to connect to.\<close>

definition socks_conn_ok :: "string \<Rightarrow> bool" where
  "socks_conn_ok resp \<longleftrightarrow> length resp = 10 \<and> (of_char (resp ! 0) :: nat) = 5 \<and> (of_char (resp ! 1) :: nat) = 0
     \<and> (of_char (resp ! 3) :: nat) = 1 \<and> le_value (take 4 (drop 4 resp)) = 0"

lemma at_reply_conn:
  assumes "fg_at FG_REPLY_SOCKS_CONN resp q s out sp fp x" "socks_conn_ok resp"
  shows "\<exists>y. drive fg_step x = drive fg_step y \<and> fg_at FG_REQUEST_HTTP [] q s out sp fp y"
proof -
  obtain fg w where x: "x = (fg, w)" by fastforce
  define fg1 where "fg1 = fg_io FG_REQUEST_HTTP FG_REQUEST_HTTP (fg\<lparr>fg_buf_read_offset := fg_buf_read_offset fg + 10\<rparr>)"
  have av: "fg_avail fg = resp" using assms by (simp add: x fg_at_def)
  have len: "length (fg_buf fg) = fg_buf_read_offset fg + 10"
    using fg_at_length [OF assms(1) [unfolded x]] assms(2) by (simp add: socks_conn_ok_def)
  have "fg_step x = Again (fg1, w)"
    using assms av
    by (simp add: x fg_at_def fg_step_def fg_step_reply_socks_conn_def fg_byte_def socks_conn_ok_def fg1_def
        fg_socks_bind_addr_def Let_def)
  moreover have "fg_at FG_REQUEST_HTTP [] q s out sp fp (fg1, w)"
    using assms len by (simp add: x fg_at_def fg1_def fg_io_def fg_inv_def fg_avail_def)
  ultimately show ?thesis by (intro exI [of _ "(fg1, w)"]) (simp add: drive_again)
qed

definition http_request_of :: "fg_serverspec \<Rightarrow> fg_filespec \<Rightarrow> string" where
  "http_request_of sp fp = http_get_request (cstr (fp_remote_path fp)) (cstr (sp_http_hostname sp))"

definition names_ok :: "fg_serverspec \<Rightarrow> fg_filespec \<Rightarrow> bool" where
  "names_ok sp fp \<longleftrightarrow>
     length (cstr (fp_remote_path fp)) < FT_STR_SIZE \<and> length (cstr (sp_http_hostname sp)) < FT_STR_SIZE"

lemma length_http_request_of: "names_ok sp fp \<Longrightarrow> length (http_request_of sp fp) \<le> 600"
  by (simp add: names_ok_def http_request_of_def http_get_request_def FT_2CRLF_def)

lemma at_request_http:
  assumes "fg_at FG_REQUEST_HTTP [] q (SOk k # s) out sp fp x"
    and "length (http_request_of sp fp) \<le> k" "names_ok sp fp"
  shows "\<exists>y. drive fg_step x = drive fg_step y \<and> fg_at FG_TOREPLY_HTTP [] q s (out @ http_request_of sp fp) sp fp y"
proof -
  obtain fg w where x: "x = (fg, w)" by fastforce
  have ne: "http_request_of sp fp \<noteq> []" by (simp add: http_request_of_def http_get_request_def)
  let ?fg1 = "fg_io FG_SEND FG_TOREPLY_HTTP (fg_append (http_request_of sp fp) fg)"
  have at: "fg_state fg = FG_REQUEST_HTTP" "length (fg_buf fg) \<le> 10" "fg_sspec fg = sp" "fg_fspec fg = fp"
    using assms(1) by (simp_all add: x fg_at_def)
  note short = length_http_request_of [OF assms(3)]
  have "fg_names_terminated fg" using at assms(3) by (simp add: names_ok_def fg_names_terminated_def)
  moreover have "length (http_request_of sp fp) < 51200 - length (fg_buf fg)" using at short by simp
  moreover have "filegetter_changeEpoll (fg_append bs fg) [EPOLLOUT] w = filegetter_changeEpoll fg [EPOLLOUT] w" for bs
    by (simp add: filegetter_changeEpoll_def fg_append_def)
  ultimately have "fg_step (fg, w) = Again (?fg1, filegetter_changeEpoll fg [EPOLLOUT] w)"
    using at short
    by (simp add: fg_step_def fg_step_request_http_def fg_space_def Let_def flip: http_request_of_def)
  from sent_request [OF assms(1) [unfolded x] ne assms(2) _ this] short show ?thesis by (simp add: x)
qed

lemma at_toreply_http:
  assumes "fg_at FG_TOREPLY_HTTP [] [] s out sp fp x"
  shows "\<exists>fg' w'. drive fg_step x = Some (Ret FG_ERR_WOULDBLOCK, fg', w') \<and> all_sent (w_log w') = out
     \<and> fg_state fg' = FG_RECEIVE \<and> fg_nextstate fg' = FG_REPLY_HTTP \<and> fg_buf fg' = []"
proof -
  obtain fg w where x: "x = (fg, w)" by fastforce
  let ?fg1 = "fg_io FG_RECEIVE FG_REPLY_HTTP fg" and ?w1 = "filegetter_changeEpoll fg [EPOLLIN] w"
  have at: "fg_state fg = FG_TOREPLY_HTTP" "w_recv w = []" "all_sent (w_log w) = out" "fg_buf fg = []"
    using assms by (simp_all add: x fg_at_def)
  have "fg_step x = Again (?fg1, ?w1)" using at by (simp add: x fg_step_def fg_step_toreply_def)
  moreover have "fg_step (?fg1, ?w1) = Exit (Ret FG_ERR_WOULDBLOCK) (?fg1, ?w1)"
    using at by (simp add: fg_step_def fg_step_receive_def sys_recv_def fg_io_def)
  ultimately show ?thesis using at by (simp add: drive_again drive_exit fg_io_def)
qed

section \<open>The handshake\<close>

text \<open>
  C13: with a proxy that agrees, the client sends exactly its greeting, the connection request
  for the configured target and the HTTP request, in this order, each after the answer to the
  one before, and then waits for the HTTP reply with an empty buffer.
\<close>

theorem socks_handshake:
  assumes "fg_assertstate (fst x)"
    and "fg_at FG_REQUEST_SOCKS_INIT [] [RData socks_init_ok, RData resp] [SOk a, SOk b, SOk c] out sp fp x"
    and "3 \<le> a" "263 \<le> b" "length (http_request_of sp fp) \<le> c" "names_ok sp fp"
    and "socks_conn_ok resp" "socks_target_ok sp"
  shows "\<exists>fg' w'. filegetter_activate (fst x) (snd x) = Some (Ret FG_ERR_WOULDBLOCK, fg', w')
     \<and> all_sent (w_log w') = out @ FT_SOCKS_INIT @ fg_socks_target sp @ http_request_of sp fp
     \<and> fg_state fg' = FG_RECEIVE \<and> fg_nextstate fg' = FG_REPLY_HTTP \<and> fg_buf fg' = []"
proof -
  have r: "resp \<noteq> []" "length resp \<le> 10" "socks_init_ok \<noteq> []" "length socks_init_ok \<le> 10"
    using assms(7) by (auto simp: socks_conn_ok_def socks_init_ok_def)
  obtain y1 where 1: "drive fg_step x = drive fg_step y1"
    "fg_at FG_TOREPLY_SOCKS_INIT [] [RData socks_init_ok, RData resp] [SOk b, SOk c] (out @ FT_SOCKS_INIT) sp fp y1"
    using at_request_init [OF assms(2,3)] by blast
  obtain y2 where 2: "drive fg_step y1 = drive fg_step y2"
    "fg_at FG_REPLY_SOCKS_INIT socks_init_ok [RData resp] [SOk b, SOk c] (out @ FT_SOCKS_INIT) sp fp y2"
    using at_toreply [OF 1(2) r(3,4)] by blast
  obtain y3 where 3: "drive fg_step y2 = drive fg_step y3"
    "fg_at FG_REQUEST_SOCKS_CONN [] [RData resp] [SOk b, SOk c] (out @ FT_SOCKS_INIT) sp fp y3"
    using at_reply_init [OF 2(2)] by blast
  let ?o = "(out @ FT_SOCKS_INIT) @ fg_socks_target sp"
  obtain y4 where 4: "drive fg_step y3 = drive fg_step y4"
    "fg_at FG_TOREPLY_SOCKS_CONN [] [RData resp] [SOk c] ?o sp fp y4"
    using at_request_conn [OF 3(2) assms(8,4)] by blast
  obtain y5 where 5: "drive fg_step y4 = drive fg_step y5" "fg_at FG_REPLY_SOCKS_CONN resp [] [SOk c] ?o sp fp y5"
    using at_toreply [OF 4(2) r(1,2)] by blast
  obtain y6 where 6: "drive fg_step y5 = drive fg_step y6" "fg_at FG_REQUEST_HTTP [] [] [SOk c] ?o sp fp y6"
    using at_reply_conn [OF 5(2) assms(7)] by blast
  obtain y7 where 7: "drive fg_step y6 = drive fg_step y7"
    "fg_at FG_TOREPLY_HTTP [] [] [] (?o @ http_request_of sp fp) sp fp y7"
    using at_request_http [OF 6(2) assms(5,6)] by blast
  have "drive fg_step (fst x, snd x) = drive fg_step y7" using 1(1) 2(1) 3(1) 4(1) 5(1) 6(1) 7(1) by simp
  with at_toreply_http [OF 7(2)] assms(1) show ?thesis by (auto simp: filegetter_activate_def)
qed

definition demo_target :: fg_serverspec where
  "demo_target = (fg_sspec zero_getter)\<lparr>sp_http_hostname := ''h'', sp_http_addr := 0x0100007F, sp_http_port := 0x5000\<rparr>"

definition demo_spec :: fg_filespec where
  "demo_spec = (fg_fspec zero_getter)\<lparr>fp_remote_path := ''/f''\<rparr>"

definition demo_socks :: fg_ctx where
  "demo_socks =
     (zero_getter\<lparr>fg_sockd := 9, fg_state := FG_REQUEST_SOCKS_INIT, fg_sspec := demo_target, fg_fspec := demo_spec\<rparr>,
      quiet_world\<lparr>w_recv := [RData socks_init_ok, RData (map char_of [5, 0, 0, 1, 0, 0, 0, 0, 0, 0 :: nat])],
                  w_send := [SOk 1000, SOk 1000, SOk 1000]\<rparr>)"

theorem socks_handshake_witness:
  "\<exists>fg' w'. filegetter_activate (fst demo_socks) (snd demo_socks) = Some (Ret FG_ERR_WOULDBLOCK, fg', w')
     \<and> all_sent (w_log w') = FT_SOCKS_INIT @ fg_socks_target demo_target @ http_request_of demo_target demo_spec"
proof -
  let ?resp = "map char_of [5, 0, 0, 1, 0, 0, 0, 0, 0, 0 :: nat] :: string"
  have a: "fg_assertstate (fst demo_socks)"
    by (simp add: demo_socks_def fg_assertstate_def zero_getter_def)
  have at: "fg_at FG_REQUEST_SOCKS_INIT [] [RData socks_init_ok, RData ?resp] [SOk 1000, SOk 1000, SOk 1000] []
      demo_target demo_spec demo_socks"
    by (simp add: fg_at_def demo_socks_def fg_inv_def fg_avail_def zero_getter_def quiet_world_def)
  have l: "length (http_request_of demo_target demo_spec) = 28"
    by (simp add: http_request_of_def demo_target_def demo_spec_def http_get_request_def FT_2CRLF_def)
  have n: "names_ok demo_target demo_spec"
    by (simp add: names_ok_def demo_target_def demo_spec_def)
  have r: "socks_conn_ok ?resp" "socks_target_ok demo_target"
    by (simp_all add: socks_conn_ok_def socks_target_ok_def demo_target_def zero_getter_def)
  show ?thesis using socks_handshake [OF a at _ _ _ n r] l by auto
qed

end
