(* ===== verification/File_Transfer.thy ===== *)
theory File_Transfer
  imports Fileserver_Properties Filegetter_Socks
begin

text \<open>
  The HTTP client and the file server together: what one puts on the wire is what the other
  receives, cut into pieces as the network likes.
\<close>

section \<open>The client sends its request and waits\<close>

lemma request_then_waits:
  assumes inv: "fg_inv fg" "fg_state fg = FG_REQUEST_HTTP" "fg_buf fg = []" "fg_names_terminated fg"
    and w: "w_recv w = []" "w_send w = [SOk k]" "length (fg_http_request fg) \<le> k"
  shows "\<exists>fg1 w1. drive fg_step (fg, w) = Some (Ret FG_ERR_WOULDBLOCK, fg1, w1)
     \<and> all_sent (w_log w1) = all_sent (w_log w) @ fg_http_request fg \<and> fg_assertstate fg1 = fg_assertstate fg
     \<and> fg_inv fg1 \<and> fg_state fg1 = FG_RECEIVE \<and> fg_nextstate fg1 = FG_REPLY_HTTP \<and> fg_buf fg1 = []
     \<and> fg_content fg1 = fg_content fg \<and> fg_f fg1 = fg_f fg
     \<and> st_body_bytes_downloaded (fg_curstats fg1) = st_body_bytes_downloaded (fg_curstats fg)"
proof -
  let ?r = "fg_http_request fg"
  have short: "length ?r \<le> 600" and ne: "?r \<noteq> []"
    using inv(4) by (simp_all add: fg_http_request_def fg_names_terminated_def http_get_request_def FT_2CRLF_def)
  have off: "fg_buf_read_offset fg = 0" using inv(1,3) by (simp add: fg_inv_def)
  define fg1 where "fg1 = fg_io FG_SEND FG_TOREPLY_HTTP (fg_append ?r fg)"
  define w1 where "w1 = filegetter_changeEpoll (fg_append ?r fg) [EPOLLOUT] w"
  have s1: "fg_step (fg, w) = Again (fg1, w1)"
    using inv short by (simp add: fg_step_def fg_step_request_http_def fg_space_def Let_def fg1_def w1_def
        flip: fg_http_request_def)
  have w1: "w_recv w1 = []" "w_send w1 = [SOk k]" "all_sent (w_log w1) = all_sent (w_log w)" using w by (simp_all add: w1_def)
  define fg2 where "fg2 = fg_goto FG_TOREPLY_HTTP ((fg_uploaded (length ?r) (fg1\<lparr>fg_buf_read_offset := length ?r\<rparr>))
      \<lparr>fg_buf_read_offset := 0, fg_buf := []\<rparr>)"
  define w2 where "w2 = emit (Sent (fg_sockd fg) ?r) (w1\<lparr>w_send := []\<rparr>)"
  have av: "fg_avail fg1 = ?r" "fg_state fg1 = FG_SEND" "fg_nextstate fg1 = FG_TOREPLY_HTTP" "fg_sockd fg1 = fg_sockd fg"
    "fg_buf fg1 = ?r" "fg_buf_read_offset fg1 = 0"
    using inv(3) off by (simp_all add: fg1_def fg_avail_def fg_io_def fg_append_def)
  have "sys_send (fg_sockd fg) ?r w1 = (Inr (length ?r), w2)"
    using w1 w(3) ne by (simp add: sys_send_def w2_def min_def)
  then have s2: "fg_step (fg1, w1) = Again (fg2, w2)"
    using av ne by (simp add: fg_step_def fg_step_send_def fg2_def fg_uploaded_def Let_def)
  define fg3 where "fg3 = fg_io FG_RECEIVE FG_REPLY_HTTP fg2"
  define w3 where "w3 = filegetter_changeEpoll fg2 [EPOLLIN] w2"
  have s3: "fg_step (fg2, w2) = Again (fg3, w3)"
    by (simp add: fg_step_def fg_step_toreply_def fg3_def w3_def fg2_def fg_goto_def)
  have "w_recv w3 = []" using w1 by (simp add: w3_def w2_def)
  then have s4: "fg_step (fg3, w3) = Exit (Ret FG_ERR_WOULDBLOCK) (fg3, w3)"
    by (simp add: fg_step_def fg_step_receive_def sys_recv_def fg3_def fg_io_def)
  have "all_sent (w_log w3) = all_sent (w_log w) @ ?r" using w1 by (simp add: w3_def w2_def)
  moreover have "fg_inv fg3"
    using fg_loop.again_inv [OF _ s3] fg_loop.again_inv [OF _ s2] fg_loop.again_inv [OF _ s1] inv(1) by simp
  moreover have "fg_assertstate fg3 = fg_assertstate fg" "fg_content fg3 = fg_content fg" "fg_f fg3 = fg_f fg"
    "st_body_bytes_downloaded (fg_curstats fg3) = st_body_bytes_downloaded (fg_curstats fg)"
    using inv(2,3) off by (auto simp: fg3_def fg2_def fg1_def fg_io_def fg_goto_def fg_append_def fg_uploaded_def fg_assertstate_def)
  ultimately show ?thesis
    using s1 s2 s3 s4 by (simp add: drive_again drive_exit) (simp add: fg3_def fg2_def fg_io_def fg_goto_def)
qed

lemma NUL_notin_cstr: "NUL \<notin> set (cstr s)"
  by (auto simp: cstr_def dest: set_takeWhileD)

section \<open>A file goes over\<close>

text \<open>A client about to ask a server for the file at \<open>path\<close>, over a connection that takes its request.\<close>

definition fg_asks :: "filegetter \<Rightarrow> world \<Rightarrow> bool" where
  "fg_asks fg w \<longleftrightarrow> fg_inv fg \<and> fg_state fg = FG_REQUEST_HTTP \<and> fg_buf fg = [] \<and> fg_assertstate fg
     \<and> fg_names_terminated fg \<and> st_body_bytes_downloaded (fg_curstats fg) = 0
     \<and> w_recv w = [] \<and> (\<exists>k. w_send w = [SOk k] \<and> length (fg_http_request fg) \<le> k)"

text \<open>A server with an idle connection, and pieces that have arrived on it.\<close>

definition fs_gets :: "fileserver \<Rightarrow> fd \<Rightarrow> string list \<Rightarrow> world \<Rightarrow> bool" where
  "fs_gets fs sd chunks w \<longleftrightarrow> fs_ok fs \<and> 0 \<le> sd \<and> sd \<noteq> fs_listen_sockd fs
     \<and> map_option fc_state (map_of (fs_connections fs) sd) = Some FS_IDLE
     \<and> w_recv w = map RData chunks \<and> [] \<notin> set chunks \<and> chunks \<noteq> []"

text \<open>
  C3: end to end.  The client's request goes over the wire in any pieces to the server; when
  the server reports the request served, what it has put on the wire, in any pieces that
  leave room in the client's buffer, makes the client report success with exactly the content
  of the file.
\<close>

theorem file_transferred:
  assumes client: "fg_asks fg wc" "filegetter_activate fg wc = Some (r, fg1, wc1)"
    and up: "all_sent (w_log wc1) = all_sent (w_log wc) @ concat chunks" "fs_gets fs sd chunks ws"
    and path: "path = cstr (fp_remote_path (fg_fspec fg))" "http_path_ok path"
      "http_host_ok (cstr (sp_http_hostname (fg_sspec fg)))" "length (fg_http_request fg) < FT_STR_SIZE"
    and disk: "map_of (w_files ws) (cstr (fs_docroot fs) @ path) = Some im"
      "length (fi_content im) < 2 ^ 31" "no_404_marker (fi_content im)"
    and server: "fs_run (replicate (length chunks) sd) fs ws = Some (rs, fs', ws')" "last rs = Ret FS_SUCCESS"
    and down: "sent_on sd (w_log ws') = sent_on sd (w_log ws) @ concat cs" "w_recv wc2 = map RData cs" "[] \<notin> set cs"
      "w_fwrite wc2 = []" "\<forall>c\<in>set cs. length (http_200_header (length (fi_content im))) + length c < FT_BUF_SIZE"
  shows "\<exists>fg2 wc3. filegetter_activate fg1 wc2 = Some (Ret FG_OK_200, fg2, wc3)
     \<and> fg_content fg2 = map_option (\<lambda>s. s @ fi_content im) (fg_content fg)
     \<and> file_written (w_log wc3) = file_written (w_log wc2) @ (if fg_f fg then fi_content im else [])"
proof -
  let ?body = "fi_content im"
  obtain k where k: "w_send wc = [SOk k]" "length (fg_http_request fg) \<le> k" using client(1) by (auto simp: fg_asks_def)
  have ask: "fg_inv fg" "fg_state fg = FG_REQUEST_HTTP" "fg_buf fg = []" "fg_names_terminated fg" "w_recv wc = []"
    "fg_assertstate fg" "st_body_bytes_downloaded (fg_curstats fg) = 0" using client(1) by (simp_all add: fg_asks_def)
  have dr: "drive fg_step (fg, wc) = Some (r, fg1, wc1)" using client(2) ask(6) by (simp add: filegetter_activate_def)
  note waits = request_then_waits [OF ask(1-5) k, unfolded dr]
  then have c: "all_sent (w_log wc1) = all_sent (w_log wc) @ fg_http_request fg" "fg_assertstate fg1"
    "fg_content fg1 = fg_content fg" "fg_f fg1 = fg_f fg" using ask(6) by auto
  have "0 < length (http_200_header (length ?body))" using length_header_gt(1) [of "length ?body"] by linarith
  then have rh: "fg_reading_header ?body 0 fg1"
    using waits ask(7) by (auto simp: fg_reading_header_def fg_inv_def)
  obtain bs cs' where chunks: "chunks = cs' @ [bs]" using up(2) by (cases chunks rule: rev_exhaust) (auto simp: fs_gets_def)
  have request: "concat (cs' @ [bs]) = http_get_request path (cstr (sp_http_hostname (fg_sspec fg)))"
    using c(1) up(1) chunks path(1) by (simp add: fg_http_request_def)
  obtain conn where conn: "map_of (fs_connections fs) sd = Some conn" "fc_state conn = FS_IDLE"
    using up(2) by (auto simp: fs_gets_def)
  have "length (http_get_request path (cstr (sp_http_hostname (fg_sspec fg)))) < FT_STR_SIZE"
    using path(1,4) by (simp add: fg_http_request_def)
  from request_served [OF _ _ _ conn _ _ request path(2,3) this, of ws "[]"] up(2) chunks server
  have "fs_delivers (fs_reply_for (fs_docroot fs) (w_files ws) path) fs sd ws FS_SUCCESS fs' ws'"
    by (auto simp: fs_gets_def)
  then have "sent_on sd (w_log ws') = sent_on sd (w_log ws) @ http_200_header (length ?body) @ ?body"
    using disk(1) path(1) cstr_id [OF NUL_notin_cstr [of "fp_remote_path (fg_fspec fg)"]]
    by (simp add: fs_delivers_def fs_reply_for_def)
  then have "concat cs = http_200_header (length ?body) @ ?body" using down(1) by simp
  from whole_reply_received [OF rh down(2-4) this down(5) disk(2,3)] c show ?thesis
    by (auto simp: filegetter_activate_def)
qed

text \<open>One file, one request in two pieces, one reply in one piece.\<close>

definition demo_asking :: filegetter where
  "demo_asking = zero_getter\<lparr>fg_sockd := 9, fg_state := FG_REQUEST_HTTP, fg_sspec := demo_target,
     fg_fspec := demo_spec, fg_content := Some []\<rparr>"

definition demo_serving :: world where
  "demo_serving = demo_world\<lparr>w_send := [SOk 1000]\<rparr>"

definition demo_outcome :: "(fs_code ret list \<times> string) option" where
  "demo_outcome = map_option (\<lambda>(rs, fs', w'). (rs, sent_on 5 (w_log w'))) (fs_run [5, 5] demo_server demo_serving)"

lemma demo_outcome_eq: "demo_outcome = Some ([Ret FS_SUCCESS, Ret FS_SUCCESS], http_200_header 3 @ ''abc'')"
  by (simp add: demo_outcome_def fileserver_activate_def demo_server_def demo_serving_def demo_world_def quiet_world_def
    demo_request_def http_get_request_def FT_2CRLF_def fs_new_conn_def drive_again drive_exit fs_step_def fs_idle_reset_def
    fs_set_epoll_def fs_step_request_def sys_recv_def epoll_ctl_def fs_handle_request_def fs_received_def fs_note_def
    fs_goto_def fs_parse_request_def fs_step_file_start_def fs_abspath_def fopen_r_def fsize_def fs_step_file_continue_def
    fread_def fread_limit_def fs_step_send_def sys_send_def fs_sent_def fs_reply_finished_def fs_write_back_def emit_def
    strcasestr_def ascii_lower_def Let_def http_200_header_def show_nat.simps FT_HTTP_200_def FT_CONTENT_def dec_digit_def fclose_w_def char_of_def)

lemma demo_asking_facts:
  "fg_asks demo_asking (quiet_world\<lparr>w_send := [SOk 1000]\<rparr>)" "fg_http_request demo_asking = demo_request"
  "length demo_request = 28"
proof -
  show r: "fg_http_request demo_asking = demo_request"
    by (simp add: fg_http_request_def demo_asking_def demo_target_def demo_spec_def demo_request_def zero_getter_def)
  show l: "length demo_request = 28" by (simp add: demo_request_def http_get_request_def FT_2CRLF_def)
  have "fg_inv demo_asking" "fg_assertstate demo_asking" "fg_names_terminated demo_asking"
    by (simp_all add: demo_asking_def fg_inv_def fg_assertstate_def fg_names_terminated_def demo_target_def demo_spec_def zero_getter_def)
  with l show "fg_asks demo_asking (quiet_world\<lparr>w_send := [SOk 1000]\<rparr>)"
    unfolding fg_asks_def r by (simp add: demo_asking_def zero_getter_def quiet_world_def zero_stats_def)
qed

theorem file_transferred_witness:
  "\<exists>r fg1 wc1 fg2 wc3. filegetter_activate demo_asking (quiet_world\<lparr>w_send := [SOk 1000]\<rparr>) = Some (r, fg1, wc1)
     \<and> filegetter_activate fg1 (quiet_world\<lparr>w_recv := [RData (http_200_header 3 @ ''abc'')]\<rparr>) = Some (Ret FG_OK_200, fg2, wc3)
     \<and> fg_content fg2 = Some ''abc''"
proof -
  let ?wc = "quiet_world\<lparr>w_send := [SOk 1000]\<rparr>" and ?chunks = "[take 20 demo_request, drop 20 demo_request]"
  let ?im = "\<lparr>fi_content = ''abc'', fi_fail = None\<rparr>" and ?reply = "http_200_header 3 @ ''abc''"
  note ask = demo_asking_facts
  have a: "fg_inv demo_asking" "fg_state demo_asking = FG_REQUEST_HTTP" "fg_buf demo_asking = []"
    "fg_names_terminated demo_asking" "fg_assertstate demo_asking" using ask(1) by (simp_all add: fg_asks_def)
  obtain fg1 wc1 where dr: "drive fg_step (demo_asking, ?wc) = Some (Ret FG_ERR_WOULDBLOCK, fg1, wc1)"
    and sent: "all_sent (w_log wc1) = all_sent (w_log ?wc) @ demo_request"
    using request_then_waits [OF a(1-4), of ?wc 1000] ask(2,3) by (auto simp: quiet_world_def)
  have act: "filegetter_activate demo_asking ?wc = Some (Ret FG_ERR_WOULDBLOCK, fg1, wc1)"
    using dr a(5) by (simp add: filegetter_activate_def)
  obtain fs' ws' where run: "fs_run (replicate (length ?chunks) 5) demo_server demo_serving = Some ([Ret FS_SUCCESS, Ret FS_SUCCESS], fs', ws')"
    and answer: "sent_on 5 (w_log ws') = ?reply"
    using demo_outcome_eq by (auto simp: demo_outcome_def)
  have gets: "fs_gets demo_server 5 ?chunks demo_serving"
    using demo_server_ok ask(3)
    by (auto simp: fs_gets_def demo_serving_def demo_world_def demo_server_def fs_new_conn_def simp flip: length_greater_0_conv)
  have names: "''/f'' = cstr (fp_remote_path (fg_fspec demo_asking))" "cstr (sp_http_hostname (fg_sspec demo_asking)) = ''h''"
    by (simp_all add: demo_asking_def demo_target_def demo_spec_def)
  have path: "http_path_ok ''/f''" "http_host_ok (cstr (sp_http_hostname (fg_sspec demo_asking)))"
    unfolding names(2) by (simp_all add: http_path_ok_def http_host_ok_def)
  have disk: "map_of (w_files demo_serving) (cstr (fs_docroot demo_server) @ ''/f'') = Some ?im" "length (fi_content ?im) < 2 ^ 31"
    "no_404_marker (fi_content ?im)"
    by (simp_all add: demo_serving_def demo_world_def demo_server_def no_404_marker_def FT_HTTP_404_def ascii_lower_def char_of_def)
  have len: "length (http_200_header 3) = 38" "length (http_200_header (length (''abc'' :: string))) = 38" by (simp_all add: header_split show_nat.simps)
  have "sent_on 5 (w_log ws') = sent_on 5 (w_log demo_serving) @ concat [?reply]"
    using answer by (simp add: demo_serving_def demo_world_def quiet_world_def)
  from file_transferred [OF ask(1) act _ gets names(1) path _ disk run _ this, of "quiet_world\<lparr>w_recv := [RData ?reply]\<rparr>"]
  have "\<exists>fg2 wc3. filegetter_activate fg1 (quiet_world\<lparr>w_recv := [RData ?reply]\<rparr>) = Some (Ret FG_OK_200, fg2, wc3)
     \<and> fg_content fg2 = map_option (\<lambda>s. s @ ''abc'') (fg_content demo_asking)"
    using sent ask(2,3) len by (auto simp: quiet_world_def)
  with act show ?thesis by (auto simp: demo_asking_def)
qed

end
