(* ===== verification/Cdf.thy ===== *)
theory Cdf
  imports Complex_Main "HOL-Library.Multiset" Kernel
begin

text \<open>
  Cumulative distributions (\<open>filetransfer/cdf.c\<close>).  The code compares doubles and adds
  nothing on the paths that are reachable, so values and fractions are rationals, which the
  finite doubles are.  \<open>GList\<close> is a list; a list whose nodes were freed while its head is
  still in use is \<open>None\<close>.
\<close>

section \<open>Data\<close>

record cdf_entry =
  ce_value :: rat
  ce_fraction :: rat

record cdf =
  cdf_id :: nat
  cdf_entries :: "cdf_entry list option"

definition cdfentry_compare :: "cdf_entry \<Rightarrow> cdf_entry \<Rightarrow> int" where
  "cdfentry_compare a b =
     (if ce_value a > ce_value b then 1 else if ce_value a = ce_value b then 0 else - 1)"

text \<open>\<open>g_list_insert_sorted\<close>: in front of the first element that is not smaller.\<close>

fun insert_sorted :: "cdf_entry \<Rightarrow> cdf_entry list \<Rightarrow> cdf_entry list" where
  "insert_sorted e [] = [e]"
| "insert_sorted e (x # xs) = (if 0 < cdfentry_compare e x then x # insert_sorted e xs else e # x # xs)"

section \<open>Reading a distribution\<close>

text \<open>
  \<open>%lf\<close>: optional sign, digits with an optional point, optional exponent.  The decimal value
  is kept exactly; hexadecimal notation, infinities and NaN are not modelled.
\<close>

definition decimal :: "string \<Rightarrow> string \<Rightarrow> rat" where
  "decimal ip fp = of_nat (read_digits 10 0 (ip @ fp)) / 10 ^ length fp"

definition scan_sign :: "string \<Rightarrow> rat \<times> string" where
  "scan_sign s = (case s of
     c # t \<Rightarrow> if c = CHR ''-'' then (- 1, t) else if c = CHR ''+'' then (1, t) else (1, s) | [] \<Rightarrow> (1, s))"

definition scan_fraction :: "string \<Rightarrow> string \<times> string" where
  "scan_fraction s = (case s of
     c # t \<Rightarrow> if c = CHR ''.'' then (takeWhile isdigit t, dropWhile isdigit t) else ([], s) | [] \<Rightarrow> ([], s))"

definition scan_exponent :: "rat \<Rightarrow> string \<Rightarrow> (rat \<times> string) option" where
  "scan_exponent v s = (case s of
     c # t \<Rightarrow>
       if c = CHR ''e'' \<or> c = CHR ''E''
       then (case scan_sign t of (sg, u) \<Rightarrow>
               let ds = takeWhile isdigit u; n = read_digits 10 0 ds in
               if ds = [] then None
               else Some (if sg < 0 then v / 10 ^ n else v * 10 ^ n, dropWhile isdigit u))
       else Some (v, s)
   | [] \<Rightarrow> Some (v, s))"

definition scan_double :: "string \<Rightarrow> (rat \<times> string) option" where
  "scan_double s =
     (case scan_sign (dropWhile isspace s) of (sg, t) \<Rightarrow>
        let ip = takeWhile isdigit t in
        case scan_fraction (dropWhile isdigit t) of (fp, u) \<Rightarrow>
          if ip = [] \<and> fp = [] then None else scan_exponent (sg * decimal ip fp) u)"

lemma scan_sign_length: "length (snd (scan_sign s)) \<le> length s"
  by (auto simp: scan_sign_def split: list.splits)

lemma scan_exponent_length: "scan_exponent v s = Some (x, r) \<Longrightarrow> length r \<le> length s"
proof (cases s)
  case (Cons c t)
  assume "scan_exponent v s = Some (x, r)"
  with Cons scan_sign_length [of t] length_dropWhile_le [of isdigit "snd (scan_sign t)"] show ?thesis
    by (auto simp: scan_exponent_def Let_def split: if_splits prod.splits)
qed (simp add: scan_exponent_def)

lemma scan_fraction_length:
  assumes "scan_fraction s = (fp, u)"
  shows "length fp + length u \<le> length s"
proof (cases s)
  case (Cons c v)
  have "length (takeWhile isdigit v) + length (dropWhile isdigit v) = length v"
    by (metis length_append takeWhile_dropWhile_id)
  with assms Cons show ?thesis by (auto simp: scan_fraction_def split: if_splits)
qed (use assms in \<open>simp add: scan_fraction_def\<close>)

lemma scan_double_length:
  assumes "scan_double s = Some (x, r)"
  shows "length r < length s"
proof -
  obtain sg t where t: "scan_sign (dropWhile isspace s) = (sg, t)" by fastforce
  obtain fp u where u: "scan_fraction (dropWhile isdigit t) = (fp, u)" by fastforce
  let ?ip = "takeWhile isdigit t"
  have ne: "?ip \<noteq> [] \<or> fp \<noteq> []" and ex: "scan_exponent (sg * decimal ?ip fp) u = Some (x, r)"
    using assms t u by (auto simp: scan_double_def Let_def split: if_splits)
  have t_len: "length t \<le> length s"
    using scan_sign_length [of "dropWhile isspace s"] length_dropWhile_le [of isspace s] unfolding t by simp
  have ip: "length ?ip + length (dropWhile isdigit t) = length t"
    by (metis length_append takeWhile_dropWhile_id)
  have "length fp + length u \<le> length (dropWhile isdigit t)"
    using scan_fraction_length [OF u] .
  moreover have "0 < length ?ip \<or> 0 < length fp" using ne by auto
  ultimately show ?thesis using t_len ip scan_exponent_length [OF ex] by linarith
qed

text \<open>One \<open>fscanf\<close>: two numbers, and the white space behind them.\<close>

definition scan_line :: "string \<Rightarrow> ((rat \<times> rat) \<times> string) option" where
  "scan_line s =
     (case scan_double s of
        None \<Rightarrow> None
      | Some (v, t) \<Rightarrow>
          (case scan_double t of
             None \<Rightarrow> None
           | Some (p, u) \<Rightarrow> Some ((v, p), dropWhile isspace u)))"

lemma scan_line_length: "scan_line s = Some (vp, r) \<Longrightarrow> length r < length s"
  using length_dropWhile_le [of isspace]
  by (auto simp: scan_line_def split: option.splits dest!: scan_double_length)
     (meson le_less_trans less_trans)

text \<open>
  The loop: it ends when a call reached the end of the file, or did not match; an empty file
  does not match.
\<close>

function cdf_scans :: "string \<Rightarrow> (rat \<times> rat) option list" where
  "cdf_scans s =
     (case scan_line s of
        None \<Rightarrow> [None]
      | Some (vp, r) \<Rightarrow> Some vp # (if r = [] then [] else cdf_scans r))"
  by auto
termination
  by (relation "measure length") (auto dest: scan_line_length)

declare cdf_scans.simps [simp del]

text \<open>After a mismatch the entries are freed and the pointer to them is returned.\<close>

fun cdf_scan :: "(rat \<times> rat) option list \<Rightarrow> cdf_entry list \<Rightarrow> cdf_entry list option" where
  "cdf_scan [] entries = Some entries"
| "cdf_scan (None # rest) entries = (if entries = [] then Some [] else None)"
| "cdf_scan (Some (v, p) # rest) entries =
     cdf_scan rest (insert_sorted \<lparr>ce_value = v, ce_fraction = p\<rparr> entries)"

definition cdf_parse :: "string option \<Rightarrow> cdf_entry list option" where
  "cdf_parse f = (case f of None \<Rightarrow> Some [] | Some content \<Rightarrow> cdf_scan (cdf_scans content) [])"

definition cdf_new :: "nat \<Rightarrow> string option \<Rightarrow> cdf option" where
  "cdf_new quark f =
     (case cdf_parse f of
        Some [] \<Rightarrow> None
      | ol \<Rightarrow> Some \<lparr>cdf_id = quark, cdf_entries = ol\<rparr>)"

section \<open>Building a distribution\<close>

text \<open>\<open>_cdf_addEntry\<close> asserts that the list it adds to is not empty.\<close>

definition cdf_addEntry :: "rat \<Rightarrow> cdf_entry list \<Rightarrow> cdf_entry list ret" where
  "cdf_addEntry v list =
     (if list = [] then AssertFail else Ret (insert_sorted \<lparr>ce_value = v, ce_fraction = 0\<rparr> list))"

fun cdf_addAll :: "rat list \<Rightarrow> cdf_entry list \<Rightarrow> cdf_entry list ret" where
  "cdf_addAll [] list = Ret list"
| "cdf_addAll (v # vs) list =
     (case cdf_addEntry v list of Ret list' \<Rightarrow> cdf_addAll vs list' | AssertFail \<Rightarrow> AssertFail | UB \<Rightarrow> UB)"

text \<open>The loop that assigns the fractions; the sum is asserted to stay below 1 after each step.\<close>

fun cdf_fractions :: "rat \<Rightarrow> rat \<Rightarrow> cdf_entry list \<Rightarrow> cdf_entry list ret" where
  "cdf_fractions increment cumFrac [] = Ret []"
| "cdf_fractions increment cumFrac (e # es) =
     (if cumFrac + increment \<le> 1
      then (case cdf_fractions increment (cumFrac + increment) es of
              Ret r \<Rightarrow> Ret (e\<lparr>ce_fraction := cumFrac\<rparr> # r) | AssertFail \<Rightarrow> AssertFail | UB \<Rightarrow> UB)
      else AssertFail)"

definition cdf_newFromQueue :: "rat list \<Rightarrow> cdf ret" where
  "cdf_newFromQueue doubleValues =
     (case cdf_addAll doubleValues [] of
        Ret list \<Rightarrow>
          (let increment = 1 / of_nat (length doubleValues) in
           case cdf_fractions increment increment list of
             Ret es \<Rightarrow> Ret \<lparr>cdf_id = 0, cdf_entries = Some es\<rparr> | AssertFail \<Rightarrow> AssertFail | UB \<Rightarrow> UB)
      | AssertFail \<Rightarrow> AssertFail | UB \<Rightarrow> UB)"

text \<open>The differences and sums are of type \<open>guint\<close>, taken before the conversion.\<close>

definition cdf_generate :: "nat \<Rightarrow> u32 \<Rightarrow> u32 \<Rightarrow> u32 \<Rightarrow> cdf" where
  "cdf_generate quark base_center base_width tail_width =
     (let v = (\<lambda>x :: u32. of_nat (unat x));
          e1 = \<lparr>ce_value = v (base_center - base_width), ce_fraction = 10 / 100\<rparr>;
          e2 = \<lparr>ce_value = v base_center, ce_fraction = 80 / 100\<rparr>;
          e3 = \<lparr>ce_value = v (base_center + base_width), ce_fraction = 90 / 100\<rparr>;
          e4 = \<lparr>ce_value = v (base_center + base_width + tail_width), ce_fraction = 95 / 100\<rparr>
      in \<lparr>cdf_id = quark,
          cdf_entries = Some (insert_sorted e4 (insert_sorted e3 (insert_sorted e2 (insert_sorted e1 []))))\<rparr>)"

section \<open>Looking up a percentile\<close>

text \<open>The walk from the back; \<open>prev\<close> is \<open>prev_entry\<close>, which starts as NULL.\<close>

fun cdf_backward :: "rat \<Rightarrow> cdf_entry option \<Rightarrow> cdf_entry list \<Rightarrow> rat ret" where
  "cdf_backward p prev [] = (case prev of None \<Rightarrow> UB | Some e \<Rightarrow> Ret (ce_value e))"
| "cdf_backward p prev (e # es) =
     (if ce_fraction e = p then Ret (ce_value e)
      else if ce_fraction e < p then (case prev of None \<Rightarrow> UB | Some q \<Rightarrow> Ret (ce_value q))
      else cdf_backward p (Some e) es)"

fun cdf_forward :: "rat \<Rightarrow> cdf_entry list \<Rightarrow> rat ret" where
  "cdf_forward p [] = AssertFail"
| "cdf_forward p (e # es) = (if p \<le> ce_fraction e then Ret (ce_value e) else cdf_forward p es)"

definition cdf_getValue :: "cdf \<Rightarrow> rat \<Rightarrow> rat ret" where
  "cdf_getValue cdf percentile =
     (if \<not> (0 \<le> percentile \<and> percentile \<le> 1) then AssertFail
      else case cdf_entries cdf of
        None \<Rightarrow> UB
      | Some es \<Rightarrow> if 1 / 2 < percentile then cdf_backward percentile None (rev es)
                   else cdf_forward percentile es)"

section \<open>The walk from the back against the definition\<close>

text \<open>The reference: the value of the first entry whose fraction reaches the percentile.\<close>

fun cdf_quantile :: "rat \<Rightarrow> cdf_entry list \<Rightarrow> rat option" where
  "cdf_quantile p [] = None"
| "cdf_quantile p (e # es) = (if p \<le> ce_fraction e then Some (ce_value e) else cdf_quantile p es)"

definition cdf_increasing :: "cdf_entry list \<Rightarrow> bool" where
  "cdf_increasing es \<longleftrightarrow> sorted_wrt (\<lambda>a b. ce_fraction a < ce_fraction b) es"

lemma quantile_None_iff: "cdf_quantile p es = None \<longleftrightarrow> (\<forall>e\<in>set es. ce_fraction e < p)"
  by (induction es) auto

lemma quantile_append:
  "cdf_quantile p (xs @ ys) = (case cdf_quantile p xs of None \<Rightarrow> cdf_quantile p ys | Some v \<Rightarrow> Some v)"
  by (induction xs) auto

lemma forward_quantile: "cdf_forward p es = (case cdf_quantile p es of None \<Rightarrow> AssertFail | Some v \<Rightarrow> Ret v)"
  by (induction es) auto

lemma backward_quantile:
  assumes "cdf_increasing es"
  shows "cdf_backward p prev (rev es) =
     (case cdf_quantile p es of
        Some v \<Rightarrow> Ret v | None \<Rightarrow> (case prev of None \<Rightarrow> UB | Some e \<Rightarrow> Ret (ce_value e)))"
  using assms
proof (induction es arbitrary: prev rule: rev_induct)
  case Nil
  then show ?case by simp
next
  case (snoc x xs)
  then have inc: "cdf_increasing xs" "\<forall>e\<in>set xs. ce_fraction e < ce_fraction x"
    by (auto simp: cdf_increasing_def sorted_wrt_append)
  show ?case
  proof (cases "p < ce_fraction x")
    case True
    then show ?thesis using snoc.IH [OF inc(1)] by (auto simp: quantile_append split: option.splits)
  next
    case False
    with inc(2) have "cdf_quantile p xs = None" by (auto simp: quantile_None_iff)
    with False show ?thesis by (auto simp: quantile_append)
  qed
qed

lemma set_insert_sorted [simp]: "set (insert_sorted e es) = insert e (set es)"
  by (induction es) auto

lemma insert_sorted_sorted:
  "sorted (map ce_value es) \<Longrightarrow> sorted (map ce_value (insert_sorted e es))"
  by (induction es) (auto simp: cdfentry_compare_def split: if_splits)

lemma mset_insert_sorted: "mset (insert_sorted e es) = add_mset e (mset es)"
  by (induction es) auto

lemma cdf_scan_sorted:
  "cdf_scan ls es = Some r \<Longrightarrow> sorted (map ce_value es) \<Longrightarrow> sorted (map ce_value r)"
  by (induction ls es rule: cdf_scan.induct) (auto simp: insert_sorted_sorted split: if_splits)

text \<open>The entry a line stands for.\<close>

definition line_entry :: "rat \<times> rat \<Rightarrow> cdf_entry" where
  "line_entry l = \<lparr>ce_value = fst l, ce_fraction = snd l\<rparr>"

lemma cdf_scan_all:
  "\<exists>r. cdf_scan (map Some ls) es = Some r \<and> mset r = mset es + mset (map line_entry ls)"
proof (induction ls arbitrary: es)
  case (Cons l ls)
  from Cons.IH [of "insert_sorted (line_entry l) es"] show ?case
    by (cases l) (auto simp: mset_insert_sorted line_entry_def)
qed simp

lemma cdf_scan_bad: "cdf_scan (map Some ls @ None # rest) es = None" if "es \<noteq> [] \<or> ls \<noteq> []"
  using that
proof (induction ls arbitrary: es)
  case (Cons l ls)
  have "insert_sorted e es \<noteq> []" for e by (cases es) auto
  with Cons.IH show ?case by (cases l) simp
qed simp

text \<open>A file is read up to its end or its first mismatch.\<close>

lemma cdf_scans_shape:
  "(\<exists>ls. ls \<noteq> [] \<and> cdf_scans s = map Some ls) \<or> (\<exists>ls. cdf_scans s = map Some ls @ [None])"
proof (induction s rule: cdf_scans.induct)
  case (1 s)
  show ?case
  proof (cases "scan_line s")
    case None
    then have "cdf_scans s = map Some [] @ [None]" by (simp add: cdf_scans.simps)
    then show ?thesis by blast
  next
    case (Some y)
    obtain vp r where y: "y = (vp, r)" by fastforce
    show ?thesis
    proof (cases "r = []")
      case True
      with Some y have "cdf_scans s = map Some [vp]" by (simp add: cdf_scans.simps)
      then show ?thesis by blast
    next
      case False
      with Some y have s: "cdf_scans s = Some vp # cdf_scans r" by (simp add: cdf_scans.simps)
      with 1 [OF Some y [symmetric] False] show ?thesis by (metis append_Cons list.distinct(1) list.simps(9))
    qed
  qed
qed

section \<open>Properties\<close>

text \<open>
  C23: where the fractions increase with the values, a lookup returns the value of the first
  entry that reaches the percentile, from whichever end it walks; a percentile above the last
  fraction is not answered: below one half an assertion fails, above it a NULL pointer is read.
\<close>

theorem cdf_getValue_quantile:
  assumes "cdf_entries cdf = Some es" "cdf_increasing es" "0 \<le> p" "p \<le> 1"
  shows "cdf_getValue cdf p =
     (case cdf_quantile p es of Some v \<Rightarrow> Ret v | None \<Rightarrow> if 1 / 2 < p then UB else AssertFail)"
  using assms by (auto simp: cdf_getValue_def forward_quantile backward_quantile split: option.split)

definition demo_cdf :: cdf where
  "demo_cdf = cdf_generate 0 100 20 50"

lemma demo_cdf_entries:
  "cdf_entries demo_cdf = Some [\<lparr>ce_value = 80, ce_fraction = 1 / 10\<rparr>, \<lparr>ce_value = 100, ce_fraction = 4 / 5\<rparr>,
     \<lparr>ce_value = 120, ce_fraction = 9 / 10\<rparr>, \<lparr>ce_value = 170, ce_fraction = 19 / 20\<rparr>]"
  by (simp add: demo_cdf_def cdf_generate_def Let_def cdfentry_compare_def)

theorem cdf_getValue_quantile_witness:
  "cdf_getValue demo_cdf (85 / 100) = Ret 120 \<and> cdf_getValue demo_cdf (96 / 100) = UB"
  using cdf_getValue_quantile [OF demo_cdf_entries, of "85 / 100"]
    cdf_getValue_quantile [OF demo_cdf_entries, of "96 / 100"]
  by (simp add: cdf_increasing_def)

text \<open>
  C34: reading a distribution file that parses to its end keeps every line as often as it
  stands there, sorted by value.  A line that does not parse, wherever it stands behind one or
  more that did, leaves a list that has been freed; as the first line it leaves no entries.
  One of the three is the case for every file.
\<close>

theorem cdf_parse_lines:
  "(\<exists>ls. ls \<noteq> [] \<and> cdf_scans f = map Some ls
       \<and> (\<exists>es. cdf_parse (Some f) = Some es \<and> sorted (map ce_value es) \<and> mset es = mset (map line_entry ls)))
   \<or> (\<exists>ls. ls \<noteq> [] \<and> cdf_scans f = map Some ls @ [None] \<and> cdf_parse (Some f) = None)
   \<or> (cdf_scans f = [None] \<and> cdf_parse (Some f) = Some [])"
proof -
  consider (good) ls where "ls \<noteq> []" "cdf_scans f = map Some ls"
    | (bad) ls where "ls \<noteq> []" "cdf_scans f = map Some ls @ [None]"
    | (empty) "cdf_scans f = [None]"
    using cdf_scans_shape [of f] by (metis append_Nil list.simps(8))
  then show ?thesis
  proof cases
    case good
    with cdf_scan_all [of ls "[]"] cdf_scan_sorted [of "cdf_scans f" "[]"] show ?thesis
      by (fastforce simp: cdf_parse_def)
  next
    case bad
    with cdf_scan_bad [of "[]" ls "[]"] show ?thesis by (auto simp: cdf_parse_def)
  qed (simp add: cdf_parse_def)
qed

lemma demo_scans:
  "cdf_scans ''20 1.0 10 0.5 20 1.0'' = map Some [(20, 1), (10, 1 / 2), (20, 1)]"
  "cdf_scans ''20 1.0 10 0.5 x'' = map Some [(20, 1), (10, 1 / 2)] @ [None]"
  by (simp_all add: cdf_scans.simps scan_line_def scan_double_def scan_sign_def scan_fraction_def scan_exponent_def
      decimal_def isspace_def isdigit_def digit_val_def)

theorem cdf_parse_lines_witness:
  "(\<exists>es. cdf_parse (Some ''20 1.0 10 0.5 20 1.0'') = Some es \<and> sorted (map ce_value es) \<and> length es = 3)
   \<and> cdf_parse (Some ''20 1.0 10 0.5 x'') = None"
proof -
  have map_Some: "map Some ls = map Some ls' \<longleftrightarrow> ls = ls'" for ls ls' :: "(rat \<times> rat) list"
    by (simp add: inj_map_eq_map)
  have mixed: "map Some ls \<noteq> map Some ls' @ [None]" "map Some ls \<noteq> [None]" for ls ls' :: "(rat \<times> rat) list"
    by (metis (no_types) in_set_conv_decomp ex_map_conv not_Some_eq) auto
  from cdf_parse_lines [of "''20 1.0 10 0.5 20 1.0''"] mixed obtain es where
    es: "cdf_parse (Some ''20 1.0 10 0.5 20 1.0'') = Some es" "sorted (map ce_value es)"
      "mset es = mset (map line_entry [(20, 1), (10, 1 / 2), (20, 1)])"
    unfolding demo_scans map_Some by metis
  from es(3) have "length es = 3" by (metis size_mset length_map list.size(3,4) numeral_3_eq_3 One_nat_def add.right_neutral add_Suc_right)
  with es(1,2) have "\<exists>es. cdf_parse (Some ''20 1.0 10 0.5 20 1.0'') = Some es \<and> sorted (map ce_value es) \<and> length es = 3"
    by blast
  moreover have "map Some [(20, 1), (10, 1 / 2)] @ [None] \<noteq> [None :: (rat \<times> rat) option]" by simp
  with cdf_parse_lines [of "''20 1.0 10 0.5 x''"] mixed(1) have "cdf_parse (Some ''20 1.0 10 0.5 x'') = None"
    unfolding demo_scans by metis
  ultimately show ?thesis ..
qed

text \<open>
  A distribution is never built from a queue of values: the first value already violates
  the assertion that the list it goes into is not empty.
\<close>

theorem cdf_newFromQueue_aborts:
  "cdf_newFromQueue vs = (if vs = [] then Ret \<lparr>cdf_id = 0, cdf_entries = Some []\<rparr> else AssertFail)"
  by (cases vs) (simp_all add: cdf_newFromQueue_def cdf_addEntry_def)

end
