(* ===== verification/Service_Getter.thy ===== *)
theory Service_Getter
  imports Filegetter_Properties Cdf
begin

text \<open>
  The download service around the HTTP client (\<open>filetransfer/service-filegetter.c\<close>,
  \<open>service-filegetter.h\<close>): one file or a random choice from a list, think times, retries,
  expiration.  Logging and the progress reports are left out: they write text to a callback.
  The tree of downloads is keyed by consecutive numbers and is a list here; the callback that
  resolves host names is a function, \<open>None\<close> for NULL.
\<close>

section \<open>Data\<close>

datatype sfg_state = SFG_NONE | SFG_THINKING | SFG_DOWNLOADING | SFG_DONE
datatype sfg_type = SFG_SINGLE | SFG_MULTI

record server_args =
  sa_host :: string
  sa_port :: string

record single_args =
  ga_http_server :: server_args
  ga_socks_proxy :: server_args
  ga_hostbyname :: "(string \<Rightarrow> u32) option"
  ga_sleep :: bool
  ga_num_downloads :: string
  ga_filepath :: string

record multi_args =
  ma_server_specification_filepath :: "string option"
  ma_thinktimes_cdf_filepath :: "string option"
  ma_runtime_seconds :: string
  ma_num_downloads :: "string option"
  ma_socks_proxy :: server_args
  ma_hostbyname :: "(string \<Rightarrow> u32) option"
  ma_sleep :: bool

record sfg_download =
  dl_fspec :: fg_filespec
  dl_sspec :: fg_serverspec

record service =
  sfg_state :: sfg_state
  sfg_type :: sfg_type
  sfg_fg :: filegetter
  sfg_downloads :: "sfg_download list option"
  sfg_current :: "sfg_download option"
  sfg_hostbyname :: "(string \<Rightarrow> u32) option"
  sfg_sleep :: bool
  sfg_think_times :: "cdf option"
  sfg_wakeup :: timespec
  sfg_expire :: timespec
  sfg_requested :: int
  sfg_completed :: int

definition zero_service :: "sfg_type \<Rightarrow> service" where
  "zero_service ty = \<lparr>sfg_state = SFG_NONE, sfg_type = ty, sfg_fg = zero_getter, sfg_downloads = None,
     sfg_current = None, sfg_hostbyname = None, sfg_sleep = False, sfg_think_times = None,
     sfg_wakeup = zero_time, sfg_expire = zero_time, sfg_requested = 0, sfg_completed = 0\<rparr>"

section \<open>Arguments\<close>

definition service_filegetter_getaddr :: "server_args \<Rightarrow> (string \<Rightarrow> u32) option \<Rightarrow> u32" where
  "service_filegetter_getaddr server hostname_cb =
     (case inet_aton (sa_host server) of
        Some a \<Rightarrow> a
      | None \<Rightarrow> (case hostname_cb of None \<Rightarrow> INADDR_NONE | Some cb \<Rightarrow> cb (sa_host server)))"

definition port_of :: "string \<Rightarrow> u16" where
  "port_of s = htons (of_int (atoi s))"

text \<open>
  \<open>strncpy\<close> with the size of the array: 256 bytes at most, unterminated when the string has
  that many.
\<close>

definition service_filegetter_get_download_from_args ::
    "server_args \<Rightarrow> server_args option \<Rightarrow> string \<Rightarrow> (string \<Rightarrow> u32) option \<Rightarrow> sfg_download option" where
  "service_filegetter_get_download_from_args http_server socks_proxy filepath cb =
     (if take 1 (cstr filepath) \<noteq> ''/'' then None
      else
        let host = cstr (sa_host http_server);
            isOnion = (strstr host ''.onion'' \<noteq> None);
            http_addr = (if isOnion then 0 else service_filegetter_getaddr http_server cb);
            http_port = port_of (sa_port http_server);
            (socks_addr, socks_port) =
              (case socks_proxy of
                 None \<Rightarrow> (0, 0) | Some p \<Rightarrow> (service_filegetter_getaddr p cb, port_of (sa_port p)))
        in if (\<not> isOnion \<and> http_addr = 0) \<or> http_port = 0 then None
           else if isOnion \<and> socks_addr = 0 then None
           else Some \<lparr>
             dl_fspec = \<lparr>fp_remote_path = take FT_STR_SIZE (cstr filepath), fp_local_path = [],
                        fp_do_save = False, fp_save_to_memory = False\<rparr>,
             dl_sspec = \<lparr>sp_http_hostname = take FT_STR_SIZE host, sp_http_addr = http_addr,
                        sp_http_port = http_port, sp_socks_addr = socks_addr, sp_socks_port = socks_port,
                        sp_persistent = False, sp_useHostname = isOnion,
                        sp_hostnameLength = int (length host)\<rparr>\<rparr>)"

text \<open>
  One line of the specification file.  \<open>tokens\<close> has a NULL behind its last element and
  nothing behind that: with fewer than three tokens the path is NULL or read outside the
  vector.
\<close>

definition import_line :: "server_args option \<Rightarrow> (string \<Rightarrow> u32) option \<Rightarrow> string \<Rightarrow> sfg_download option ret" where
  "import_line socks_proxy cb linebuffer =
     (let line = cstr linebuffer in
      if line = [] then UB
      else let line' = (if last line = LF then butlast line else line) in
        case g_strsplit line' '':'' 3 of
          h # p # filepath # _ \<Rightarrow>
            if strstr filepath '':'' \<noteq> None then Ret None
            else Ret (service_filegetter_get_download_from_args \<lparr>sa_host = h, sa_port = p\<rparr> socks_proxy filepath cb)
        | _ \<Rightarrow> UB)"

fun import_lines ::
    "server_args option \<Rightarrow> (string \<Rightarrow> u32) option \<Rightarrow> string list \<Rightarrow> sfg_download list option ret" where
  "import_lines proxy cb [] = Ret (Some [])"
| "import_lines proxy cb (l # ls) =
     (case import_line proxy cb l of
        Ret None \<Rightarrow> Ret None
      | Ret (Some d) \<Rightarrow>
          (case import_lines proxy cb ls of
             Ret ds \<Rightarrow> Ret (map_option ((#) d) ds) | AssertFail \<Rightarrow> AssertFail | UB \<Rightarrow> UB)
      | AssertFail \<Rightarrow> AssertFail | UB \<Rightarrow> UB)"

definition file_content :: "string \<Rightarrow> world \<Rightarrow> string option" where
  "file_content path w = map_option (\<lambda>f. take (fread_limit f) (fi_content (st_image f))) (fopen_r (cstr path) w)"

definition service_filegetter_import_download_specs :: "multi_args \<Rightarrow> world \<Rightarrow> sfg_download list option ret" where
  "service_filegetter_import_download_specs args w =
     (case Option.bind (ma_server_specification_filepath args) (\<lambda>p. file_content p w) of
        None \<Rightarrow> Ret None
      | Some content \<Rightarrow>
          import_lines (Some (ma_socks_proxy args)) (ma_hostbyname args) (fgets_lines 510 content))"

section \<open>Starting\<close>

type_synonym sfg_ctx = "service \<times> world"

text \<open>\<open>rand() % 0\<close> and a NULL \<open>current_download\<close> are undefined.\<close>

definition sfg_download_current :: "service \<Rightarrow> world \<Rightarrow> fg_code ret \<times> sfg_ctx" where
  "sfg_download_current sfg w =
     (case sfg_current sfg of
        None \<Rightarrow> (UB, sfg, w)
      | Some d \<Rightarrow>
          (case filegetter_download (sfg_fg sfg) (dl_sspec d) (dl_fspec d) w of (r, fg, w1) \<Rightarrow>
             (Ret r, sfg\<lparr>sfg_fg := fg,
                        sfg_state := if r = FG_SUCCESS then SFG_DOWNLOADING else sfg_state sfg\<rparr>, w1)))"

definition service_filegetter_download_next :: "service \<Rightarrow> world \<Rightarrow> fg_code ret \<times> sfg_ctx" where
  "service_filegetter_download_next sfg w =
     (case sfg_type sfg of
        SFG_SINGLE \<Rightarrow> sfg_download_current sfg w
      | SFG_MULTI \<Rightarrow>
          (case sfg_downloads sfg of
             None \<Rightarrow> (UB, sfg, w)
           | Some ds \<Rightarrow>
               if ds = [] then (UB, sfg, w)
               else (case sys_rand w of (r, w1) \<Rightarrow>
                       sfg_download_current (sfg\<lparr>sfg_current := Some (ds ! (r mod length ds))\<rparr>) w1)))"

text \<open>The result and the socket reported to the caller, when there is one.\<close>

definition service_filegetter_launch ::
    "service \<Rightarrow> fd \<Rightarrow> world \<Rightarrow> fg_code ret \<times> fd option \<times> sfg_ctx" where
  "service_filegetter_launch sfg epolld w =
     (case service_filegetter_download_next (sfg\<lparr>sfg_fg := snd (filegetter_start epolld)\<rparr>) w of
        (r, sfg1, w1) \<Rightarrow> (r, if r = Ret FG_SUCCESS then Some (fg_sockd (sfg_fg sfg1)) else None, sfg1, w1))"

definition service_filegetter_start_single ::
    "single_args \<Rightarrow> fd \<Rightarrow> world \<Rightarrow> fg_code ret \<times> fd option \<times> sfg_ctx" where
  "service_filegetter_start_single args epolld w =
     (let sfg = (zero_service SFG_SINGLE)\<lparr>sfg_hostbyname := ga_hostbyname args, sfg_sleep := ga_sleep args,
                  sfg_current := service_filegetter_get_download_from_args (ga_http_server args)
                    (Some (ga_socks_proxy args)) (ga_filepath args) (ga_hostbyname args)\<rparr>
      in if sfg_current sfg = None then (Ret FG_ERR_INVALID, None, sfg, w)
         else let sfg1 = sfg\<lparr>sfg_requested := atoi (ga_num_downloads args)\<rparr>
              in if sfg_requested sfg1 \<le> 0 then (Ret FG_ERR_INVALID, None, sfg1, w)
                 else service_filegetter_launch sfg1 epolld w)"

text \<open>
  When the specification file does not parse, \<open>cdf_free\<close> is called on the think times even
  where there are none.
\<close>

definition service_filegetter_start_multi ::
    "multi_args \<Rightarrow> fd \<Rightarrow> world \<Rightarrow> fg_code ret \<times> fd option \<times> sfg_ctx" where
  "service_filegetter_start_multi args epolld w =
     (let sfg = (zero_service SFG_MULTI)\<lparr>sfg_hostbyname := ma_hostbyname args, sfg_sleep := ma_sleep args\<rparr>;
          cdf = (case ma_thinktimes_cdf_filepath args of None \<Rightarrow> None | Some p \<Rightarrow> cdf_new 0 (file_content p w));
          sfg1 = sfg\<lparr>sfg_think_times := cdf\<rparr>
      in if \<not> ma_sleep args then (Ret FG_ERR_INVALID, None, sfg, w)
         else if ma_thinktimes_cdf_filepath args \<noteq> None \<and> cdf = None then (Ret FG_ERR_INVALID, None, sfg1, w)
         else case service_filegetter_import_download_specs args w of
           Ret None \<Rightarrow> (if cdf = None then UB else Ret FG_ERR_INVALID, None, sfg1, w)
         | Ret (Some ds) \<Rightarrow>
             (let runtime = atoi (ma_runtime_seconds args);
                  (now, w1) = (if 0 < runtime then clock_gettime w else (zero_time, w));
                  expire = (if 0 < runtime then now\<lparr>tv_sec := tv_sec now + runtime\<rparr> else zero_time);
                  sfg2 = sfg1\<lparr>sfg_downloads := Some ds, sfg_expire := expire,
                             sfg_requested := (case ma_num_downloads args of None \<Rightarrow> 0 | Some n \<Rightarrow> atoi n)\<rparr>
              in service_filegetter_launch sfg2 epolld w1)
         | AssertFail \<Rightarrow> (AssertFail, None, sfg1, w)
         | UB \<Rightarrow> (UB, None, sfg1, w))"

section \<open>Stopping\<close>

definition service_filegetter_stop :: "service \<Rightarrow> world \<Rightarrow> fg_code \<times> sfg_ctx" where
  "service_filegetter_stop sfg w =
     (let sfg1 = sfg\<lparr>sfg_think_times := None, sfg_downloads := None\<rparr> in
      if sfg_state sfg1 \<noteq> SFG_DONE
      then (case filegetter_shutdown (sfg_fg sfg1) w of (r, fg, w1) \<Rightarrow>
              (r, sfg1\<lparr>sfg_fg := fg, sfg_current := None, sfg_state := SFG_DONE\<rparr>, w1))
      else (FG_SUCCESS, sfg1, w))"

definition service_filegetter_expire :: "service \<Rightarrow> world \<Rightarrow> fg_code \<times> sfg_ctx" where
  "service_filegetter_expire sfg w = (FG_OK_200, snd (service_filegetter_stop sfg w))"

section \<open>Activation\<close>

text \<open>The two labels of \<open>service_filegetter_activate\<close>.\<close>

datatype sfg_label = START_OVER | REACTIVATE

type_synonym sfg_run = "sfg_label \<times> service \<times> world"

definition sfg_exit :: "fg_code ret \<Rightarrow> service \<Rightarrow> world \<Rightarrow> (fg_code ret, sfg_run) outcome" where
  "sfg_exit r sfg w = Exit r (REACTIVATE, sfg, w)"

definition sfg_expired :: "service \<Rightarrow> world \<Rightarrow> (fg_code ret, sfg_run) outcome" where
  "sfg_expired sfg w = (case service_filegetter_expire sfg w of (r, sfg1, w1) \<Rightarrow> sfg_exit (Ret r) sfg1 w1)"

text \<open>Errors that shut the client down: it is started again and the service sleeps.\<close>

definition sfg_retry :: "service \<Rightarrow> world \<Rightarrow> (fg_code ret, sfg_run) outcome" where
  "sfg_retry sfg w =
     (let w1 = snd (snd (filegetter_shutdown (sfg_fg sfg) w));
          fg = snd (filegetter_start (fg_epolld (sfg_fg sfg)));
          (now, w2) = clock_gettime w1;
          sfg1 = sfg\<lparr>sfg_fg := fg, sfg_state := SFG_THINKING, sfg_wakeup := now\<lparr>tv_sec := tv_sec now + 60\<rparr>\<rparr>
      in if \<not> sfg_sleep sfg then sfg_exit UB sfg1 w2
         else sfg_exit (Ret FG_ERR_WOULDBLOCK) sfg1 (emit (Callback 60) w2))"

text \<open>\<open>RAND_MAX\<close> and the conversion of the think time to \<open>guint\<close>, undefined when out of range.\<close>

definition RAND_MAX :: nat where "RAND_MAX = 2147483647"

definition guint_of :: "rat \<Rightarrow> nat option" where
  "guint_of r = (if - 1 < r \<and> r < 2 ^ 32 then Some (nat \<lfloor>r\<rfloor>) else None)"

definition sfg_think :: "service \<Rightarrow> cdf \<Rightarrow> world \<Rightarrow> (fg_code ret, sfg_run) outcome" where
  "sfg_think sfg cdf w =
     (case sys_rand w of (r, w1) \<Rightarrow>
        (case cdf_getValue cdf (of_nat r / of_nat RAND_MAX) of
           Ret v \<Rightarrow>
             (case guint_of (v / 1000) of
                None \<Rightarrow> sfg_exit UB sfg w1
              | Some sleeptime \<Rightarrow>
                  (let (now, w2) = clock_gettime w1;
                       sfg1 = sfg\<lparr>sfg_wakeup := now\<lparr>tv_sec := tv_sec now + int sleeptime\<rparr>\<rparr>
                   in if 0 < tv_sec (sfg_expire sfg1) \<and> tv_sec (sfg_expire sfg1) < tv_sec (sfg_wakeup sfg1)
                      then sfg_expired sfg1 w2
                      else if \<not> sfg_sleep sfg1 then sfg_exit UB sfg1 w2
                      else Again (START_OVER, sfg1, emit (Callback sleeptime) w2)))
         | AssertFail \<Rightarrow> sfg_exit AssertFail sfg w1
         | UB \<Rightarrow> sfg_exit UB sfg w1))"

text \<open>A completed download.\<close>

definition sfg_completed_one :: "service \<Rightarrow> world \<Rightarrow> (fg_code ret, sfg_run) outcome" where
  "sfg_completed_one sfg w =
     (let sfg1 = sfg\<lparr>sfg_completed := sfg_completed sfg + 1, sfg_state := SFG_THINKING\<rparr> in
      if 0 < sfg_requested sfg1 \<and> sfg_requested sfg1 \<le> sfg_completed sfg1 then sfg_expired sfg1 w
      else case (sfg_type sfg1, sfg_think_times sfg1) of
        (SFG_MULTI, Some cdf) \<Rightarrow> sfg_think sfg1 cdf w
      | _ \<Rightarrow>
          (case service_filegetter_download_next sfg1 w of (r, sfg2, w2) \<Rightarrow>
             case r of Ret _ \<Rightarrow> Again (REACTIVATE, sfg2, w2) | _ \<Rightarrow> sfg_exit r sfg2 w2))"

definition sfg_reactivate :: "service \<Rightarrow> world \<Rightarrow> (fg_code ret, sfg_run) outcome" where
  "sfg_reactivate sfg w =
     (case filegetter_activate (sfg_fg sfg) w of
        None \<Rightarrow> Again (REACTIVATE, sfg, w)
      | Some (result, fg, w1) \<Rightarrow>
          (let sfg1 = sfg\<lparr>sfg_fg := fg\<rparr> in
           case result of
             Ret code \<Rightarrow>
               if code = FG_ERR_FATAL \<or> code = FG_ERR_SOCKSCONN then sfg_retry sfg1 w1
               else if code = FG_OK_200 then sfg_completed_one sfg1 w1
               else if code = FG_ERR_WOULDBLOCK then sfg_exit (Ret code) sfg1 w1
               else (case filegetter_shutdown fg w1 of (_, fg2, w2) \<Rightarrow> sfg_exit (Ret code) (sfg1\<lparr>sfg_fg := fg2\<rparr>) w2)
           | _ \<Rightarrow> sfg_exit result sfg1 w1))"

text \<open>From \<open>start_over\<close> to \<open>reactivate\<close>: expiration, waking up, the check of the socket.\<close>

definition sfg_check_socket :: "fd \<Rightarrow> service \<Rightarrow> world \<Rightarrow> (fg_code ret, sfg_run) outcome" where
  "sfg_check_socket sockd sfg w =
     (if sfg_state sfg \<noteq> SFG_DOWNLOADING \<or> fg_sockd (sfg_fg sfg) \<noteq> sockd
      then sfg_exit (Ret FG_ERR_INVALID) sfg w else sfg_reactivate sfg w)"

definition sfg_wake :: "fd \<Rightarrow> service \<Rightarrow> world \<Rightarrow> (fg_code ret, sfg_run) outcome" where
  "sfg_wake sockd sfg w =
     (if sfg_state sfg = SFG_THINKING
      then (case clock_gettime w of (now, w1) \<Rightarrow>
              if tv_sec (sfg_wakeup sfg) \<le> tv_sec now
              then (case service_filegetter_download_next sfg w1 of (r, sfg1, w2) \<Rightarrow>
                      case r of Ret _ \<Rightarrow> sfg_check_socket sockd sfg1 w2 | _ \<Rightarrow> sfg_exit r sfg1 w2)
              else sfg_exit (Ret FG_ERR_WOULDBLOCK) sfg w1)
      else sfg_check_socket sockd sfg w)"

definition sfg_start_over :: "fd \<Rightarrow> service \<Rightarrow> world \<Rightarrow> (fg_code ret, sfg_run) outcome" where
  "sfg_start_over sockd sfg w =
     (if sfg_state sfg \<in> {SFG_THINKING, SFG_DOWNLOADING} \<and> 0 < tv_sec (sfg_expire sfg)
      then (case clock_gettime w of (now, w1) \<Rightarrow>
              if tv_sec (sfg_expire sfg) < tv_sec now then sfg_expired sfg w1 else sfg_wake sockd sfg w1)
      else sfg_wake sockd sfg w)"

definition sfg_step :: "fd \<Rightarrow> sfg_run \<Rightarrow> (fg_code ret, sfg_run) outcome" where
  "sfg_step sockd = (\<lambda>(label, sfg, w).
     (case label of START_OVER \<Rightarrow> sfg_start_over sockd sfg w | REACTIVATE \<Rightarrow> sfg_reactivate sfg w))"

definition service_filegetter_activate :: "service \<Rightarrow> fd \<Rightarrow> world \<Rightarrow> (fg_code ret \<times> service \<times> world) option" where
  "service_filegetter_activate sfg sockd w =
     map_option (\<lambda>(r, _, sfg', w'). (r, sfg', w')) (drive (sfg_step sockd) (START_OVER, sfg, w))"

end
