(* ===== verification/Service_Getter_Properties.thy ===== *)
theory Service_Getter_Properties
  imports Service_Getter Filegetter_Socks
begin

text \<open>
  The download service: its activation returns for every behaviour of its environment, by the
  contract of the client; what it does at the end of a download, after an error, and when the
  next download cannot be started.
\<close>

section \<open>Starting a download keeps the client consistent\<close>

lemma set_specs_frame:
  assumes "filegetter_set_specs fg sspec fspec w = (r, fg', w')"
  shows "io_work w' = io_work w \<and> w_recv w' = w_recv w \<and> w_socket w' = w_socket w \<and> fg_sockd fg' = fg_sockd fg
     \<and> fg_state fg' = fg_state fg \<and> (r = FG_ERR_INVALID \<and> fg' = fg \<or> fg_state fg = FG_SPEC)"
  using assms by (auto simp: filegetter_set_specs_def fopen_w_def Let_def split: if_splits prod.splits list.splits)

lemma clock_io: "clock_gettime w = (t, w') \<Longrightarrow> io_work w' = io_work w"
  using clock_frame [of w] by simp

lemma download_keeps:
  assumes ok: "fg_ok fg" and d: "filegetter_download fg sspec fspec w = (r, fg', w')"
  shows "fg_ok fg' \<and> io_work w' = io_work w"
proof -
  obtain r1 fg1 w1 where s: "filegetter_set_specs fg sspec fspec w = (r1, fg1, w1)" by (metis prod_cases3)
  note sf = set_specs_frame [OF s]
  obtain t w2 where c: "clock_gettime w1 = (t, w2)" by fastforce
  let ?fg2 = "fg1\<lparr>fg_download_start := t\<rparr>"
  obtain r3 fg3 w3 where h: "filegetter_connect (sp_http_addr (fg_sspec fg1)) (sp_http_port (fg_sspec fg1)) ?fg2 w2 = (r3, fg3, w3)"
    by (metis prod_cases3)
  obtain r4 fg4 w4 where k: "filegetter_connect (sp_socks_addr (fg_sspec fg1)) (sp_socks_port (fg_sspec fg1)) ?fg2 w2 = (r4, fg4, w4)"
    by (metis prod_cases3)
  have io: "io_work w2 = io_work w" "io_work w3 = io_work w" "io_work w4 = io_work w"
    using clock_io [OF c] sf connect_frame(3) [OF h] connect_frame(3) [OF k] by simp_all
  have st: "fg_state fg3 = fg_state fg1" "fg_state fg4 = fg_state fg1"
    using connect_frame(1) [OF h] connect_frame(1) [OF k] by auto
  have req: "fg_ok (g\<lparr>fg_state := FG_REQUEST_HTTP\<rparr>)" "fg_ok (g\<lparr>fg_state := FG_REQUEST_SOCKS_INIT\<rparr>)" for g
    by (simp_all add: fg_ok_other)
  have spec: "fg_ok g" if "fg_state g = FG_SPEC" for g using that by (simp add: fg_ok_other)
  from d sf ok io st req spec show ?thesis
    by (auto simp: filegetter_download_def s c h k Let_def split: if_splits)
qed

lemma download_current_keeps:
  assumes "fg_ok (sfg_fg sfg)" "sfg_download_current sfg w = (r, sfg', w')"
  shows "fg_ok (sfg_fg sfg') \<and> io_work w' = io_work w"
  using assms download_keeps by (auto simp: sfg_download_current_def split: option.splits prod.splits)

lemma download_next_keeps:
  assumes ok: "fg_ok (sfg_fg sfg)" and d: "service_filegetter_download_next sfg w = (r, sfg', w')"
  shows "fg_ok (sfg_fg sfg') \<and> io_work w' = io_work w"
proof -
  have rnd: "io_work v = io_work w" if "sys_rand w = (n, v)" for n v
    using that by (auto simp: sys_rand_def split: list.splits)
  show ?thesis
    using d ok rnd download_current_keeps
    by (auto simp: service_filegetter_download_next_def split: sfg_type.splits option.splits if_splits prod.splits)
       (metis service.select_convs(3) service.surjective service.update_convs(5))+
qed

section \<open>The activation returns\<close>

text \<open>A pass ends with a consistent client, or goes around again after the kernel worked.\<close>

definition sfg_pass :: "nat \<Rightarrow> (fg_code ret, sfg_run) outcome \<Rightarrow> bool" where
  "sfg_pass n out \<longleftrightarrow>
     (case out of
        Again (l, sfg, w) \<Rightarrow> fg_ok (sfg_fg sfg) \<and> io_work w < n
      | Exit r (l, sfg, w) \<Rightarrow> fg_ok (sfg_fg sfg))"

lemma sfg_exit_pass [simp]: "sfg_pass n (sfg_exit r sfg w) \<longleftrightarrow> fg_ok (sfg_fg sfg)"
  by (simp add: sfg_pass_def sfg_exit_def)

lemma shutdown_idle: "filegetter_shutdown fg w = (r, fg', w') \<Longrightarrow> fg_state fg' = FG_IDLE \<and> fg_sockd fg' = 0"
  using disconnect_frame(1) [of "fg\<lparr>fg_state := FG_IDLE\<rparr>" w r fg' w'] by (simp add: filegetter_shutdown_def)

lemma expired_pass: "fg_ok (sfg_fg sfg) \<Longrightarrow> sfg_pass n (sfg_expired sfg w)"
  by (auto simp: sfg_expired_def service_filegetter_expire_def service_filegetter_stop_def Let_def
      split: prod.splits if_splits dest: shutdown_idle)

lemma retry_pass: "sfg_pass n (sfg_retry sfg w)"
  by (auto simp: sfg_retry_def filegetter_start_def Let_def fg_ok_other split: prod.splits)

lemma think_pass:
  assumes "fg_ok (sfg_fg sfg)" "io_work w < n"
  shows "sfg_pass n (sfg_think sfg cdf w)"
proof -
  obtain r w1 where r: "sys_rand w = (r, w1)" by fastforce
  obtain t w2 where c: "clock_gettime w1 = (t, w2)" by fastforce
  have io: "io_work w2 = io_work w"
    using r clock_io [OF c] by (auto simp: sys_rand_def split: list.splits)
  have "sfg_pass n (Again (START_OVER, sfg\<lparr>sfg_wakeup := v\<rparr>, emit e w2))" for v e
    using assms io by (simp add: sfg_pass_def)
  with assms show ?thesis
    by (auto simp: sfg_think_def r c Let_def expired_pass split: ret.split option.split)
qed

lemma next_pass:
  assumes "fg_ok (sfg_fg sfg)" "io_work w < n"
  shows "sfg_pass n (case service_filegetter_download_next sfg w of (r, sfg2, w2) \<Rightarrow>
             case r of Ret _ \<Rightarrow> Again (REACTIVATE, sfg2, w2) | _ \<Rightarrow> sfg_exit r sfg2 w2)"
proof -
  obtain r sfg2 w2 where d: "service_filegetter_download_next sfg w = (r, sfg2, w2)" by (metis prod_cases3)
  from download_next_keeps [OF assms(1) d] assms(2) show ?thesis
    by (auto simp: d sfg_pass_def [of n "Again _"] split: ret.split)
qed

lemma completed_pass:
  assumes "fg_ok (sfg_fg sfg)" "io_work w < n"
  shows "sfg_pass n (sfg_completed_one sfg w)"
  using assms
  by (auto simp: sfg_completed_one_def Let_def expired_pass think_pass next_pass split: sfg_type.split option.split)

lemma reactivate_pass:
  assumes ok: "fg_ok (sfg_fg sfg)"
  shows "sfg_pass (io_work w) (sfg_reactivate sfg w)"
proof -
  obtain r fg w1 where act: "filegetter_activate (sfg_fg sfg) w = Some (r, fg, w1)" "fg_ok fg"
    "r = Ret FG_OK_200 \<Longrightarrow> io_work w1 < io_work w"
    using getter.activate_cases [OF ok, of w] by metis
  then show ?thesis
    by (auto simp: sfg_reactivate_def Let_def retry_pass completed_pass split: ret.split prod.split dest: shutdown_idle)
qed

lemma check_socket_pass: "fg_ok (sfg_fg sfg) \<Longrightarrow> sfg_pass (io_work w) (sfg_check_socket sockd sfg w)"
  by (simp add: sfg_check_socket_def reactivate_pass)

lemma wake_pass:
  assumes "fg_ok (sfg_fg sfg)"
  shows "sfg_pass (io_work w) (sfg_wake sockd sfg w)"
proof -
  obtain t w1 where c: "clock_gettime w = (t, w1)" by fastforce
  obtain r sfg1 w2 where d: "service_filegetter_download_next sfg w1 = (r, sfg1, w2)" by (metis prod_cases3)
  from download_next_keeps [OF assms d] clock_io [OF c] have "fg_ok (sfg_fg sfg1)" "io_work w2 = io_work w" by auto
  with check_socket_pass [of sfg1 w2 sockd] check_socket_pass [of sfg w sockd] assms show ?thesis
    by (auto simp: sfg_wake_def c d split: ret.split)
qed

lemma start_over_pass:
  assumes "fg_ok (sfg_fg sfg)"
  shows "sfg_pass (io_work w) (sfg_start_over sockd sfg w)"
proof -
  obtain t w1 where c: "clock_gettime w = (t, w1)" by fastforce
  from wake_pass [OF assms, of w1 sockd] wake_pass [OF assms, of w sockd] clock_io [OF c] assms show ?thesis
    by (auto simp: sfg_start_over_def c expired_pass)
qed

interpretation sfg_loop: handler_loop "sfg_step sockd" "\<lambda>(l, sfg, w). fg_ok (sfg_fg sfg)"
  "\<lambda>(l, sfg, w). io_work w" "\<lambda>r (l, sfg, w). fg_ok (sfg_fg sfg)" for sockd
proof -
  have pass: "sfg_pass (io_work w) (sfg_step sockd (l, sfg, w))" if "fg_ok (sfg_fg sfg)" for l sfg w
    using that by (cases l) (simp_all add: sfg_step_def start_over_pass reactivate_pass)
  show "handler_loop (sfg_step sockd) (\<lambda>(l, sfg, w). fg_ok (sfg_fg sfg)) (\<lambda>(l, sfg, w). io_work w)
          (\<lambda>r (l, sfg, w). fg_ok (sfg_fg sfg))"
  proof
    show "case t of (l, sfg, w) \<Rightarrow> fg_ok (sfg_fg sfg)"
      "(case t of (l, sfg, w) \<Rightarrow> io_work w) < (case s of (l, sfg, w) \<Rightarrow> io_work w)"
      if "case s of (l, sfg, w) \<Rightarrow> fg_ok (sfg_fg sfg)" "sfg_step sockd s = Again t" for s t
      using pass [of "fst (snd s)" "snd (snd s)" "fst s"] that by (auto simp: sfg_pass_def split: prod.splits)
    show "case t of (l, sfg, w) \<Rightarrow> fg_ok (sfg_fg sfg)"
      if "case s of (l, sfg, w) \<Rightarrow> fg_ok (sfg_fg sfg)" "sfg_step sockd s = Exit r t" for s t r
      using pass [of "fst (snd s)" "snd (snd s)" "fst s"] that by (auto simp: sfg_pass_def split: prod.splits)
  qed
qed

section \<open>Properties\<close>

text \<open>
  An activation of the service returns, whatever its environment does: retries, think
  times and back-to-back downloads cannot keep it running without the kernel delivering
  something; and it leaves the client in a state that can be activated again.
\<close>

theorem service_always_returns:
  assumes "fg_ok (sfg_fg sfg)"
  shows "\<exists>r sfg' w'. service_filegetter_activate sfg sockd w = Some (r, sfg', w') \<and> fg_ok (sfg_fg sfg')"
  using sfg_loop.returns_with_post [of "(START_OVER, sfg, w)" sockd] assms
  by (auto simp: service_filegetter_activate_def)

definition demo_download :: sfg_download where
  "demo_download = \<lparr>dl_fspec = demo_spec, dl_sspec = demo_target\<rparr>"

definition demo_service :: service where
  "demo_service = (zero_service SFG_SINGLE)\<lparr>sfg_state := SFG_DOWNLOADING, sfg_sleep := True,
     sfg_current := Some demo_download, sfg_requested := 2, sfg_fg := demo_in_body\<rparr>"

lemma demo_in_body_ok: "fg_ok demo_in_body"
  by (simp add: fg_ok_def demo_in_body_def demo_getter_def zero_getter_def fg_inv_def fg_examining_state_def)

theorem service_always_returns_witness:
  "\<exists>r sfg' w'. service_filegetter_activate demo_service 9 (quiet_world\<lparr>w_recv := [RData ''ab'']\<rparr>) = Some (r, sfg', w')
     \<and> fg_ok (sfg_fg sfg')"
  by (rule service_always_returns) (simp add: demo_service_def demo_in_body_ok)

text \<open>An activation of a service that is downloading, without an expiration, is one of its client.\<close>

lemma activate_downloading:
  assumes "sfg_state sfg = SFG_DOWNLOADING" "tv_sec (sfg_expire sfg) \<le> 0" "fg_sockd (sfg_fg sfg) = sockd"
  shows "service_filegetter_activate sfg sockd w =
    (case sfg_reactivate sfg w of
       Again x \<Rightarrow> map_option (\<lambda>(r, _, sfg', w'). (r, sfg', w')) (drive (sfg_step sockd) x)
     | Exit r (_, sfg', w') \<Rightarrow> Some (r, sfg', w'))"
proof -
  have step: "sfg_step sockd (START_OVER, sfg, w) = sfg_reactivate sfg w"
    using assms by (simp add: sfg_step_def sfg_start_over_def sfg_wake_def sfg_check_socket_def)
  show ?thesis
    by (cases "sfg_reactivate sfg w")
       (auto simp: service_filegetter_activate_def step drive_again drive_exit split: prod.split)
qed

text \<open>
  C22: the last of the requested downloads ends the service: it reports success, has counted
  all of them, has shut its client down and released its socket.
\<close>

theorem service_finishes:
  assumes "sfg_state sfg = SFG_DOWNLOADING" "tv_sec (sfg_expire sfg) \<le> 0"
    and "filegetter_activate (sfg_fg sfg) w = Some (Ret FG_OK_200, fg, w1)"
    and "0 < sfg_requested sfg" "sfg_completed sfg + 1 = sfg_requested sfg"
  shows "\<exists>sfg' w'. service_filegetter_activate sfg (fg_sockd (sfg_fg sfg)) w = Some (Ret FG_OK_200, sfg', w')
     \<and> sfg_state sfg' = SFG_DONE \<and> sfg_completed sfg' = sfg_requested sfg
     \<and> fg_state (sfg_fg sfg') = FG_IDLE \<and> fg_sockd (sfg_fg sfg') = 0"
proof -
  obtain r fg2 w2 where s: "filegetter_shutdown fg w1 = (r, fg2, w2)" by (metis prod_cases3)
  from assms show ?thesis
    using shutdown_idle [OF s]
    by (simp add: activate_downloading sfg_reactivate_def sfg_completed_one_def sfg_expired_def sfg_exit_def
        service_filegetter_expire_def service_filegetter_stop_def s Let_def)
qed

lemma demo_in_body_completes:
  "\<exists>fg w1. filegetter_activate demo_in_body (quiet_world\<lparr>w_recv := [RData ''ab''], w_socket := q\<rparr>) = Some (Ret FG_OK_200, fg, w1)
     \<and> fg_sockd fg = 0 \<and> fg_state fg = FG_SPEC \<and> w_socket w1 = q"
proof -
  define fg1 where "fg1 = demo_in_body\<lparr>fg_state := FG_CHECK_DOWNLOAD, fg_buf := ''ab'',
    fg_curstats := (fg_curstats demo_in_body)\<lparr>st_bytes_downloaded := 2\<rparr>,
    fg_allstats := (fg_allstats demo_in_body)\<lparr>st_bytes_downloaded := 2\<rparr>\<rparr>"
  have a: "fg_assertstate demo_in_body"
    by (simp add: demo_in_body_def demo_getter_def zero_getter_def fg_assertstate_def)
  have 1: "fg_step (demo_in_body, quiet_world\<lparr>w_recv := [RData ''ab''], w_socket := q\<rparr>) = Again (fg1, quiet_world\<lparr>w_recv := [], w_socket := q\<rparr>)"
    by (subst step_receive_chunk)
       (auto simp: fg1_def demo_in_body_def demo_getter_def zero_getter_def fg_goto_def fg_downloaded_def fg_append_def
         zero_stats_def)
  have "\<exists>fg w1. fg_step (fg1, quiet_world\<lparr>w_recv := [], w_socket := q\<rparr>) = Exit (Ret FG_OK_200) (fg, w1)
      \<and> fg_sockd fg = 0 \<and> fg_state fg = FG_SPEC \<and> w_socket w1 = q"
    by (simp add: fg_step_def fg1_def fg_step_check_download_def fg_stamped_def fg_avail_def demo_in_body_def
        demo_getter_def zero_getter_def zero_stats_def quiet_world_def clock_gettime_def fg_body_counted_def
        filegetter_metrics_first_def filegetter_metrics_progress_def fg_finished_def filegetter_disconnect_def
        sys_close_def epoll_ctl_def emit_def filegetter_metrics_complete_def fg_goto_def)
  with 1 a show ?thesis by (auto simp: filegetter_activate_def drive_again drive_exit)
qed

theorem service_finishes_witness:
  "\<exists>sfg' w'. service_filegetter_activate (demo_service\<lparr>sfg_requested := 1\<rparr>) 9
       (quiet_world\<lparr>w_recv := [RData ''ab'']\<rparr>) = Some (Ret FG_OK_200, sfg', w')
     \<and> sfg_state sfg' = SFG_DONE \<and> sfg_completed sfg' = 1"
proof -
  have "quiet_world\<lparr>w_recv := [RData ''ab'']\<rparr> = quiet_world\<lparr>w_recv := [RData ''ab''], w_socket := []\<rparr>"
    by (simp add: quiet_world_def)
  then obtain fg w1 where act: "filegetter_activate demo_in_body (quiet_world\<lparr>w_recv := [RData ''ab'']\<rparr>) = Some (Ret FG_OK_200, fg, w1)"
    using demo_in_body_completes [of "[]"] by auto
  have sd: "fg_sockd demo_in_body = 9" by (simp add: demo_in_body_def demo_getter_def)
  show ?thesis
    using service_finishes [of "demo_service\<lparr>sfg_requested := 1\<rparr>" "quiet_world\<lparr>w_recv := [RData ''ab'']\<rparr>" fg w1] act sd
    by (auto simp: demo_service_def zero_service_def zero_time_def)
qed

text \<open>
  When the client had to shut down or could not get through the proxy, the service starts
  it afresh, asks to sleep for 60 seconds and reports that it would block; nothing of the old
  connection is left.
\<close>

theorem fatal_error_retries:
  assumes "sfg_state sfg = SFG_DOWNLOADING" "tv_sec (sfg_expire sfg) \<le> 0" "sfg_sleep sfg"
    and "filegetter_activate (sfg_fg sfg) w = Some (Ret e, fg, w1)" "e = FG_ERR_FATAL \<or> e = FG_ERR_SOCKSCONN"
  shows "\<exists>sfg' w'. service_filegetter_activate sfg (fg_sockd (sfg_fg sfg)) w = Some (Ret FG_ERR_WOULDBLOCK, sfg', w')
     \<and> sfg_state sfg' = SFG_THINKING \<and> sfg_completed sfg' = sfg_completed sfg
     \<and> fg_state (sfg_fg sfg') = FG_SPEC \<and> fg_buf (sfg_fg sfg') = [] \<and> fg_sockd (sfg_fg sfg') = 0
     \<and> fg_epolld (sfg_fg sfg') = fg_epolld fg \<and> last (w_log w') = Callback 60"
proof -
  obtain r fg2 w2 where s: "filegetter_shutdown fg w1 = (r, fg2, w2)" by (metis prod_cases3)
  obtain t w3 where c: "clock_gettime w2 = (t, w3)" by fastforce
  from assms show ?thesis
    by (auto simp: activate_downloading sfg_reactivate_def sfg_retry_def sfg_exit_def s c Let_def filegetter_start_def
        zero_getter_def)
qed

lemma demo_closed_fatal:
  "\<exists>fg w1. filegetter_activate demo_in_body (quiet_world\<lparr>w_recv := [RErr EOTHER]\<rparr>) = Some (Ret FG_ERR_FATAL, fg, w1)"
proof -
  have a: "fg_assertstate demo_in_body" "fg_state demo_in_body = FG_RECEIVE"
    by (simp_all add: demo_in_body_def demo_getter_def zero_getter_def fg_assertstate_def)
  have "\<exists>x. fg_step (demo_in_body, quiet_world\<lparr>w_recv := [RErr EOTHER]\<rparr>) = Exit (Ret FG_ERR_FATAL) x"
    using a(2) by (simp add: fg_step_def fg_step_receive_def sys_recv_def filegetter_die_def)
  with a(1) show ?thesis by (auto simp: filegetter_activate_def drive_exit)
qed

theorem fatal_error_retries_witness:
  "\<exists>sfg' w'. service_filegetter_activate demo_service 9 (quiet_world\<lparr>w_recv := [RErr EOTHER]\<rparr>) =
       Some (Ret FG_ERR_WOULDBLOCK, sfg', w') \<and> sfg_state sfg' = SFG_THINKING \<and> last (w_log w') = Callback 60"
proof -
  obtain fg w1 where act: "filegetter_activate demo_in_body (quiet_world\<lparr>w_recv := [RErr EOTHER]\<rparr>) = Some (Ret FG_ERR_FATAL, fg, w1)"
    using demo_closed_fatal by blast
  have sd: "fg_sockd demo_in_body = 9" by (simp add: demo_in_body_def demo_getter_def)
  show ?thesis
    using fatal_error_retries [of demo_service "quiet_world\<lparr>w_recv := [RErr EOTHER]\<rparr>" FG_ERR_FATAL fg w1] act sd
    by (auto simp: demo_service_def zero_service_def zero_time_def)
qed

text \<open>
  A download that completes while no socket can be had for the next one ends the program:
  the result of starting the next download is dropped, the client is activated without a
  connection, and its assertion fails.
\<close>

theorem next_download_failure_aborts:
  assumes "sfg_state sfg = SFG_DOWNLOADING" "tv_sec (sfg_expire sfg) \<le> 0" "sfg_type sfg = SFG_SINGLE"
    and "sfg_current sfg = Some d" "\<not> sp_persistent (dl_sspec d)" "\<not> fp_do_save (dl_fspec d)"
    and "filegetter_activate (sfg_fg sfg) w = Some (Ret FG_OK_200, fg, w1)" "fg_sockd fg = 0" "fg_state fg = FG_SPEC"
    and "sfg_completed sfg + 1 < sfg_requested sfg" "w_socket w1 = Inl e # q"
  shows "\<exists>sfg' w'. service_filegetter_activate sfg (fg_sockd (sfg_fg sfg)) w = Some (AssertFail, sfg', w')"
proof -
  obtain t w2 where c: "clock_gettime w1 = (t, w2)" by fastforce
  have q: "w_socket w2 = Inl e # q" using assms(11) c by (auto simp: clock_gettime_def split: list.splits)
  define sfg1 where "sfg1 = sfg\<lparr>sfg_fg := fg, sfg_completed := sfg_completed sfg + 1, sfg_state := SFG_THINKING\<rparr>"
  obtain r fg2 w3 where d: "filegetter_download fg (dl_sspec d) (dl_fspec d) w1 = (r, fg2, w3)" by (metis prod_cases3)
  have "r \<noteq> FG_SUCCESS \<and> fg_sockd fg2 = 0"
    using d assms(5-9) c q
    by (auto simp: filegetter_download_def filegetter_set_specs_def filegetter_connect_def sys_socket_def Let_def
        split: if_splits)
  then have fg2: "\<not> fg_assertstate fg2" by (simp add: fg_assertstate_def)
  define sfg2 where "sfg2 = sfg1\<lparr>sfg_fg := fg2, sfg_state := if r = FG_SUCCESS then SFG_DOWNLOADING else SFG_THINKING\<rparr>"
  have "sfg_reactivate sfg w = Again (REACTIVATE, sfg2, w3)"
    using assms d by (simp add: sfg_reactivate_def sfg_completed_one_def service_filegetter_download_next_def
        sfg_download_current_def sfg2_def sfg1_def)
  moreover have "sfg_step sockd (REACTIVATE, sfg2, w3) = Exit AssertFail (REACTIVATE, sfg2, w3)" for sockd
    using fg2 by (simp add: sfg_step_def sfg_reactivate_def filegetter_activate_def sfg2_def sfg_exit_def)
  ultimately show ?thesis using assms(1,2) by (simp add: activate_downloading drive_exit)
qed

theorem next_download_failure_aborts_witness:
  "\<exists>sfg' w'. service_filegetter_activate demo_service 9
       (quiet_world\<lparr>w_recv := [RData ''ab''], w_socket := [Inl EOTHER]\<rparr>) = Some (AssertFail, sfg', w')"
proof -
  let ?w = "quiet_world\<lparr>w_recv := [RData ''ab''], w_socket := [Inl EOTHER]\<rparr>"
  obtain fg w1 where act: "filegetter_activate demo_in_body ?w = Some (Ret FG_OK_200, fg, w1)" "fg_sockd fg = 0"
    "fg_state fg = FG_SPEC" "w_socket w1 = [Inl EOTHER]"
    using demo_in_body_completes [of "[Inl EOTHER]"] by blast
  have sd: "fg_sockd demo_in_body = 9" by (simp add: demo_in_body_def demo_getter_def)
  show ?thesis
    using next_download_failure_aborts [of demo_service demo_download ?w fg w1 EOTHER "[]"] act sd
    by (simp add: demo_service_def zero_service_def zero_time_def demo_download_def demo_target_def demo_spec_def
        zero_getter_def)
qed

text \<open>
  A specification file without lines is accepted, and the service then divides by the
  number of its downloads, zero.
\<close>

theorem empty_specification_divides_by_zero:
  assumes "ma_sleep args" "ma_thinktimes_cdf_filepath args = None"
    and "ma_server_specification_filepath args = Some p" "file_content p w = Some []"
  shows "\<exists>x. service_filegetter_start_multi args epolld w = (UB, None, x)"
proof -
  have imp: "service_filegetter_import_download_specs args w = Ret (Some [])"
    using assms(3,4) by (simp add: service_filegetter_import_download_specs_def fgets_lines.simps)
  show ?thesis
    using assms(1,2)
    by (auto simp: service_filegetter_start_multi_def imp service_filegetter_launch_def
        service_filegetter_download_next_def zero_service_def Let_def split: prod.split)
qed

definition demo_multi :: multi_args where
  "demo_multi = \<lparr>ma_server_specification_filepath = Some ''s'', ma_thinktimes_cdf_filepath = None,
     ma_runtime_seconds = ''0'', ma_num_downloads = None, ma_socks_proxy = \<lparr>sa_host = ''0.0.0.0'', sa_port = ''0''\<rparr>,
     ma_hostbyname = None, ma_sleep = True\<rparr>"

theorem empty_specification_divides_by_zero_witness:
  "\<exists>x. service_filegetter_start_multi demo_multi 4
     (quiet_world\<lparr>w_files := [(''s'', \<lparr>fi_content = [], fi_fail = None\<rparr>)]\<rparr>) = (UB, None, x)"
  by (rule empty_specification_divides_by_zero [where p = "''s''"])
     (simp_all add: demo_multi_def file_content_def fopen_r_def fread_limit_def)

end
