(* ===== verification/Torrent_Base.thy ===== *)
theory Torrent_Base
  imports Kernel
begin

text \<open>
  What the parts of the torrent plug-in (\<open>src/torrent/\<close>) share: their result codes with the
  numbers C gives them, the message kinds of the authority, local arrays that are not
  initialised, and the printing of cookies.

  A local array is the list of its bytes from index 0; behind the end of the list it holds
  NULs up to its size.  What it holds before the function writes to it is the parameter
  \<open>stack\<close> of the model: any garbage, also what an earlier call left there.  Writing \<open>bs\<close> at its
  start gives \<open>overlay bs stack\<close>.  A string function on an array without a NUL is \<open>UB\<close>.
\<close>

section \<open>Result codes\<close>

datatype ts_code =
    TS_SUCCESS | TS_CLOSED | TS_ERR_INVALID | TS_ERR_FATAL | TS_ERR_BADSD | TS_ERR_WOULDBLOCK
  | TS_ERR_BUFSPACE | TS_ERR_SOCKET | TS_ERR_CONNECT | TS_ERR_BIND | TS_ERR_LISTEN | TS_ERR_ACCEPT
  | TS_ERR_RECV | TS_ERR_SEND | TS_ERR_CLOSE | TS_ERR_EPOLL | TS_ERR_NOCONN

datatype ta_code =
    TA_SUCCESS | TA_CLOSED | TA_ERR_INVALID | TA_ERR_FATAL | TA_ERR_BADSD | TA_ERR_WOULDBLOCK
  | TA_ERR_BUFSPACE | TA_ERR_SOCKET | TA_ERR_BIND | TA_ERR_LISTEN | TA_ERR_ACCEPT | TA_ERR_RECV
  | TA_ERR_SEND | TA_ERR_CLOSE | TA_ERR_EPOLL | TA_ERR_NOCONN

datatype tc_code =
    TC_SUCCESS | TC_BLOCK_DOWNLOADED | TC_CLOSED | TC_ERR_INVALID | TC_ERR_FATAL | TC_ERR_BADSD
  | TC_ERR_WOULDBLOCK | TC_ERR_BUFSPACE | TC_ERR_SOCKET | TC_ERR_BIND | TC_ERR_LISTEN
  | TC_ERR_ACCEPT | TC_ERR_RECV | TC_ERR_SEND | TC_ERR_CLOSE | TC_ERR_EPOLL | TC_ERR_CONNECT
  | TC_ERR_SOCKSINIT | TC_ERR_SOCKSCONN | TC_ERR_NOSERVER

text \<open>The numbers of the codes that are mixed with descriptors in one \<open>gint\<close>.\<close>

fun ts_num :: "ts_code \<Rightarrow> int" where
  "ts_num TS_SUCCESS = 0" | "ts_num TS_CLOSED = 1" | "ts_num TS_ERR_INVALID = 2"
| "ts_num TS_ERR_FATAL = 3" | "ts_num TS_ERR_BADSD = 4" | "ts_num TS_ERR_WOULDBLOCK = 5"
| "ts_num TS_ERR_BUFSPACE = 6" | "ts_num TS_ERR_SOCKET = 7" | "ts_num TS_ERR_CONNECT = 8"
| "ts_num TS_ERR_BIND = 9" | "ts_num TS_ERR_LISTEN = 10" | "ts_num TS_ERR_ACCEPT = 11"
| "ts_num TS_ERR_RECV = 12" | "ts_num TS_ERR_SEND = 13" | "ts_num TS_ERR_CLOSE = 14"
| "ts_num TS_ERR_EPOLL = 15" | "ts_num TS_ERR_NOCONN = 16"

fun tc_num :: "tc_code \<Rightarrow> int" where
  "tc_num TC_SUCCESS = 0" | "tc_num TC_BLOCK_DOWNLOADED = 1" | "tc_num TC_CLOSED = 2"
| "tc_num TC_ERR_INVALID = 3" | "tc_num TC_ERR_FATAL = 4" | "tc_num TC_ERR_BADSD = 5"
| "tc_num TC_ERR_WOULDBLOCK = 6" | "tc_num TC_ERR_BUFSPACE = 7" | "tc_num TC_ERR_SOCKET = 8"
| "tc_num TC_ERR_BIND = 9" | "tc_num TC_ERR_LISTEN = 10" | "tc_num TC_ERR_ACCEPT = 11"
| "tc_num TC_ERR_RECV = 12" | "tc_num TC_ERR_SEND = 13" | "tc_num TC_ERR_CLOSE = 14"
| "tc_num TC_ERR_EPOLL = 15" | "tc_num TC_ERR_CONNECT = 16" | "tc_num TC_ERR_SOCKSINIT = 17"
| "tc_num TC_ERR_SOCKSCONN = 18" | "tc_num TC_ERR_NOSERVER = 19"

fun ta_num :: "ta_code \<Rightarrow> int" where
  "ta_num TA_SUCCESS = 0" | "ta_num TA_CLOSED = 1" | "ta_num TA_ERR_INVALID = 2"
| "ta_num TA_ERR_FATAL = 3" | "ta_num TA_ERR_BADSD = 4" | "ta_num TA_ERR_WOULDBLOCK = 5"
| "ta_num TA_ERR_BUFSPACE = 6" | "ta_num TA_ERR_SOCKET = 7" | "ta_num TA_ERR_BIND = 8"
| "ta_num TA_ERR_LISTEN = 9" | "ta_num TA_ERR_ACCEPT = 10" | "ta_num TA_ERR_RECV = 11"
| "ta_num TA_ERR_SEND = 12" | "ta_num TA_ERR_CLOSE = 13" | "ta_num TA_ERR_EPOLL = 14"
| "ta_num TA_ERR_NOCONN = 15"

lemma ts_num_nonneg [simp]: "0 \<le> ts_num c" by (cases c) simp_all
lemma tc_num_nonneg [simp]: "0 \<le> tc_num c" by (cases c) simp_all
lemma ta_num_nonneg [simp]: "0 \<le> ta_num c" by (cases c) simp_all

section \<open>Messages of the authority\<close>

definition TA_MSG_REGISTER :: nat where "TA_MSG_REGISTER = 1"
definition TA_MSG_REQUEST_NODES :: nat where "TA_MSG_REQUEST_NODES = 2"

lemma ta_msg [simp]: "TA_MSG_REGISTER = 1" "TA_MSG_REQUEST_NODES = 2"
  by (simp_all add: TA_MSG_REGISTER_def TA_MSG_REQUEST_NODES_def)

text \<open>An address and a port as \<open>memcpy\<close> puts them into a buffer.\<close>

definition addr_port_bytes :: "u32 \<times> u16 \<Rightarrow> string" where
  "addr_port_bytes = (\<lambda>(addr, port). le_bytes 4 (unat addr) @ le_bytes 2 (unat port))"

lemma length_addr_port_bytes [simp]: "length (addr_port_bytes a) = 6"
  by (simp add: addr_port_bytes_def split: prod.splits)

section \<open>Arrays that are not initialised\<close>

definition overlay :: "string \<Rightarrow> string \<Rightarrow> string" where
  "overlay bs a = bs @ drop (length bs) a"

text \<open>The bytes from index \<open>i\<close> on, \<open>n\<close> of them.\<close>

definition array_slice :: "nat \<Rightarrow> nat \<Rightarrow> string \<Rightarrow> string" where
  "array_slice i n a = (let s = take n (drop i a) in s @ replicate (n - length s) NUL)"

text \<open>The array of \<open>n\<close> bytes as a C string, when there is a NUL in it.\<close>

definition array_str :: "nat \<Rightarrow> string \<Rightarrow> string option" where
  "array_str n a = (let s = cstr a in if length s < n then Some s else None)"

lemma overlay_Nil [simp]: "overlay [] a = a" "overlay bs [] = bs"
  by (simp_all add: overlay_def)

lemma length_array_slice [simp]: "length (array_slice i n a) = n"
  by (simp add: array_slice_def Let_def)

lemma array_slice_prefix: "i + n \<le> length bs \<Longrightarrow> array_slice i n (overlay bs a) = take n (drop i bs)"
  by (simp add: array_slice_def overlay_def Let_def)

lemma array_str_overlay:
  "NUL \<notin> set bs \<Longrightarrow> length bs < n \<Longrightarrow> array_str n bs = Some bs"
  by (simp add: array_str_def cstr_id Let_def)

end
