(* ===== verification/Torrent_Authority.thy ===== *)
theory Torrent_Authority
  imports Torrent_Base
begin

text \<open>
  The torrent authority (\<open>torrent/torrent-authority.c\<close>, \<open>torrent-authority.h\<close>): it keeps
  the list of the registered servers and tells it to the clients that ask.

  The connections are objects of a heap, because the lists \<open>servers\<close> and \<open>clients\<close> and the
  table \<open>connections\<close> share them: the table and the lists hold addresses, \<open>ta_heap\<close> the
  live objects.  Closing a connection frees its object and leaves the lists as they are.
  Reading an object that was freed is \<open>UB\<close>.
\<close>

section \<open>Data\<close>

record ta_conn =
  tac_sockd :: fd
  tac_addr :: u32
  tac_serverPort :: u16

record authority =
  ta_epolld :: fd
  ta_listenSockd :: fd
  ta_servers :: "nat list"
  ta_clients :: "nat list"
  ta_connections :: "(fd \<times> nat) list"
  ta_heap :: "(nat \<times> ta_conn) list"
  ta_next :: nat

type_synonym ta_ctx = "authority \<times> world"

definition TA_BUF_SIZE :: nat where "TA_BUF_SIZE = 4096"

section \<open>Starting, accepting, closing\<close>

definition torrentAuthority_changeEpoll :: "fd \<Rightarrow> epoll_ev list \<Rightarrow> world \<Rightarrow> world" where
  "torrentAuthority_changeEpoll sockd evs w = snd (epoll_ctl CtlMod sockd evs w)"

text \<open>\<open>close\<close> and \<open>free\<close> of the object at an address.\<close>

definition torrentAuthority_connection_destroy_cb :: "nat \<Rightarrow> ta_ctx \<Rightarrow> ta_ctx" where
  "torrentAuthority_connection_destroy_cb p = (\<lambda>(ta, w).
     (case map_of (ta_heap ta) p of
        None \<Rightarrow> (ta, w)
      | Some c \<Rightarrow> (ta\<lparr>ta_heap := AList.delete p (ta_heap ta)\<rparr>, snd (sys_close (tac_sockd c) w))))"

definition torrentAuthority_connectionClose :: "nat \<Rightarrow> ta_conn \<Rightarrow> ta_ctx \<Rightarrow> ta_ctx" where
  "torrentAuthority_connectionClose p c = (\<lambda>(ta, w).
     torrentAuthority_connection_destroy_cb p
       (ta\<lparr>ta_connections := AList.delete (tac_sockd c) (ta_connections ta)\<rparr>,
        snd (epoll_ctl CtlDel (tac_sockd c) [] w)))"

definition torrentAuthority_start ::
    "authority \<Rightarrow> fd \<Rightarrow> u32 \<Rightarrow> u16 \<Rightarrow> world \<Rightarrow> ta_code \<times> authority \<times> world" where
  "torrentAuthority_start ta epolld listenIP listenPort w =
     (case sys_socket w of
        (Inl e, w1) \<Rightarrow> (TA_ERR_SOCKET, ta, w1)
      | (Inr sockd, w1) \<Rightarrow>
          (let (ok, w2) = sys_bind sockd w1 in
           if \<not> ok then (TA_ERR_BIND, ta, w2)
           else let (ok, w3) = sys_listen sockd listenIP listenPort w2 in
             if \<not> ok then (TA_ERR_LISTEN, ta, w3)
             else let ta' = \<lparr>ta_epolld = epolld, ta_listenSockd = sockd, ta_servers = [],
                            ta_clients = [], ta_connections = [], ta_heap = [],
                            ta_next = ta_next ta\<rparr>;
                      (ok, w4) = epoll_ctl CtlAdd sockd [EPOLLIN] w3
                  in if \<not> ok then (TA_ERR_EPOLL, ta', w4) else (TA_SUCCESS, ta', w4)))"

text \<open>\<open>g_hash_table_replace\<close> destroys the value it replaces.\<close>

definition torrentAuthority_accept :: "authority \<Rightarrow> world \<Rightarrow> ta_code \<times> authority \<times> world" where
  "torrentAuthority_accept ta w =
     (case sys_accept w of
        (Inl e, w1) \<Rightarrow> (if e = EWOULDBLOCK then TA_ERR_WOULDBLOCK else TA_ERR_ACCEPT, ta, w1)
      | (Inr (sockd, addr), w1) \<Rightarrow>
          (let (ok, w2) = epoll_ctl CtlAdd sockd [EPOLLIN] w1 in
           if \<not> ok then (TA_ERR_EPOLL, ta, w2)
           else let p = ta_next ta;
                    ta1 = ta\<lparr>ta_heap := (p, \<lparr>tac_sockd = sockd, tac_addr = addr, tac_serverPort = 0\<rparr>) # ta_heap ta,
                             ta_next := Suc p,
                             ta_connections := AList.update sockd p (ta_connections ta)\<rparr>
                in (TA_SUCCESS,
                    case map_of (ta_connections ta) sockd of
                      None \<Rightarrow> (ta1, w2)
                    | Some old \<Rightarrow> torrentAuthority_connection_destroy_cb old (ta1, w2))))"

text \<open>The \<open>do ... while(!res)\<close> around it.\<close>

definition ta_accept_step :: "ta_ctx \<Rightarrow> (ta_code, ta_ctx) outcome" where
  "ta_accept_step = (\<lambda>(ta, w).
     (case torrentAuthority_accept ta w of (r, ta', w') \<Rightarrow>
        if r = TA_SUCCESS then Again (ta', w') else Exit r (ta', w')))"

text \<open>The code of a failing \<open>close\<close> is \<open>TS_ERR_CLOSE\<close>, from the enumeration of the server.\<close>

definition torrentAuthority_shutdown :: "authority \<Rightarrow> world \<Rightarrow> ts_code \<times> authority \<times> world" where
  "torrentAuthority_shutdown ta w =
     (let (ta1, w1) = fold (\<lambda>(sd, p). torrentAuthority_connection_destroy_cb p) (ta_connections ta)
                        (ta\<lparr>ta_servers := [], ta_clients := []\<rparr>, w);
          w2 = snd (epoll_ctl CtlDel (ta_listenSockd ta) [] w1);
          (ok, w3) = sys_close (ta_listenSockd ta) w2
      in (if ok then TS_SUCCESS else TS_ERR_CLOSE, ta1\<lparr>ta_connections := []\<rparr>, w3))"

section \<open>Messages\<close>

text \<open>The message that tells a client about one server: \<open>buffer[0] = 1\<close> is its number of nodes.\<close>

definition ta_announcement :: "u32 \<Rightarrow> u16 \<Rightarrow> string" where
  "ta_announcement addr port = CHR 0x01 # addr_port_bytes (addr, port)"

text \<open>The loop over the clients.  It stops at the first \<open>send\<close> that fails.\<close>

fun ta_notify :: "string \<Rightarrow> (nat \<times> ta_conn) list \<Rightarrow> nat list \<Rightarrow> world \<Rightarrow> ta_code ret \<times> world" where
  "ta_notify msg heap [] w = (Ret TA_SUCCESS, w)"
| "ta_notify msg heap (p # ps) w =
     (case map_of heap p of
        None \<Rightarrow> (UB, w)
      | Some client \<Rightarrow>
          (case sys_send (tac_sockd client) msg w of
             (Inl e, w1) \<Rightarrow> (Ret TA_ERR_SEND, w1)
           | (Inr k, w1) \<Rightarrow> ta_notify msg heap ps w1))"

definition ta_register :: "string \<Rightarrow> nat \<Rightarrow> ta_conn \<Rightarrow> authority \<Rightarrow> world \<Rightarrow> ta_code ret \<times> authority \<times> world" where
  "ta_register buffer p c ta w =
     (let port = of_nat (le_value (array_slice 1 2 buffer));
          ta1 = ta\<lparr>ta_heap := AList.map_entry p (\<lambda>_. c\<lparr>tac_serverPort := port\<rparr>) (ta_heap ta),
                   ta_servers := ta_servers ta @ [p]\<rparr>;
          (r, w1) = ta_notify (ta_announcement (tac_addr c) port) (ta_heap ta1) (ta_clients ta1) w
      in (r, ta1, w1))"

text \<open>The nodes as they are written to the buffer; \<open>None\<close> when one of them was freed.\<close>

fun ta_nodes :: "(nat \<times> ta_conn) list \<Rightarrow> nat list \<Rightarrow> (u32 \<times> u16) list option" where
  "ta_nodes heap [] = Some []"
| "ta_nodes heap (p # ps) =
     (case map_of heap p of
        None \<Rightarrow> None
      | Some c \<Rightarrow> map_option ((#) (tac_addr c, tac_serverPort c)) (ta_nodes heap ps))"

text \<open>\<open>buffer[0]\<close> is a \<open>guchar\<close>: the number of servers modulo 256.\<close>

definition ta_node_list :: "(u32 \<times> u16) list \<Rightarrow> string" where
  "ta_node_list ns = char_of (length ns) # concat (map addr_port_bytes ns)"

definition ta_request_nodes :: "fd \<Rightarrow> nat \<Rightarrow> authority \<Rightarrow> world \<Rightarrow> ta_code ret \<times> authority \<times> world" where
  "ta_request_nodes sockd p ta w =
     (let ta1 = ta\<lparr>ta_clients := ta_clients ta @ [p]\<rparr> in
      case ta_nodes (ta_heap ta1) (ta_servers ta1) of
        None \<Rightarrow> (UB, ta1, w)
      | Some ns \<Rightarrow>
          if TA_BUF_SIZE < length (ta_node_list ns) then (UB, ta1, w)
          else (case sys_send sockd (ta_node_list ns) w of
                  (Inl e, w1) \<Rightarrow> (Ret TA_ERR_SEND, ta1, w1)
                | (Inr k, w1) \<Rightarrow>
                    (Ret TA_SUCCESS, ta1, torrentAuthority_changeEpoll sockd [EPOLLIN] w1)))"

definition ta_message :: "string \<Rightarrow> fd \<Rightarrow> nat \<Rightarrow> ta_conn \<Rightarrow> authority \<Rightarrow> world \<Rightarrow> ta_code ret \<times> authority \<times> world" where
  "ta_message buffer sockd p c ta w =
     (let kind = (of_char (hd buffer) :: nat) in
      if kind = TA_MSG_REGISTER then ta_register buffer p c ta w
      else if kind = TA_MSG_REQUEST_NODES then ta_request_nodes sockd p ta w
      else (Ret TA_SUCCESS, ta, w))"

section \<open>The handler\<close>

definition torrentAuthority_activate ::
    "string \<Rightarrow> authority \<Rightarrow> fd \<Rightarrow> world \<Rightarrow> (ta_code ret \<times> authority \<times> world) option" where
  "torrentAuthority_activate stack ta sockd w =
     (if sockd < 0 then Some (Ret TA_ERR_FATAL, ta, w)
      else if sockd = ta_listenSockd ta
      then map_option (\<lambda>(r, ta', w'). (Ret r, ta', w')) (drive ta_accept_step (ta, w))
      else case map_of (ta_connections ta) sockd of
        None \<Rightarrow> Some (Ret TA_ERR_NOCONN, ta, w)
      | Some p \<Rightarrow>
          (case map_of (ta_heap ta) p of
             None \<Rightarrow> Some (UB, ta, w)
           | Some c \<Rightarrow>
               Some (case sys_recv TA_BUF_SIZE w of
                 (Inl e, w1) \<Rightarrow>
                   if e = EWOULDBLOCK then (Ret TA_ERR_WOULDBLOCK, ta, w1)
                   else (Ret TA_ERR_RECV, torrentAuthority_connectionClose p c (ta, w1))
               | (Inr bs, w1) \<Rightarrow>
                   if bs = [] then (Ret TA_CLOSED, torrentAuthority_connectionClose p c (ta, w1))
                   else ta_message (overlay bs stack) sockd p c ta w1)))"

end
