(* ===== verification/Torrent_Authority_Properties.thy ===== *)
theory Torrent_Authority_Properties
  imports Torrent_Authority
begin

text \<open>
  The torrent authority: the invariant of its table and heap, that it always returns and
  when it can read freed memory, and what it tells its clients.
\<close>

section \<open>The invariant\<close>

text \<open>
  Every entry of the table leads to a live object with its descriptor; addresses are below
  the next one to be allocated.  The lists \<open>servers\<close> and \<open>clients\<close> may hold freed addresses.
\<close>

definition ta_ok :: "authority \<Rightarrow> bool" where
  "ta_ok ta \<longleftrightarrow>
     (\<forall>k p. map_of (ta_connections ta) k = Some p \<longrightarrow>
        (\<exists>c. map_of (ta_heap ta) p = Some c \<and> tac_sockd c = k))
     \<and> (\<forall>p c. map_of (ta_heap ta) p = Some c \<longrightarrow> p < ta_next ta)"

lemma ta_okI:
  assumes "\<And>k p. map_of (ta_connections ta) k = Some p \<Longrightarrow> \<exists>c. map_of (ta_heap ta) p = Some c \<and> tac_sockd c = k"
    and "\<And>p c. map_of (ta_heap ta) p = Some c \<Longrightarrow> p < ta_next ta"
  shows "ta_ok ta"
  unfolding ta_ok_def using assms by blast

lemma ta_ok_below: "ta_ok ta \<Longrightarrow> map_of (ta_heap ta) p = Some c \<Longrightarrow> p < ta_next ta"
  unfolding ta_ok_def by blast

lemma ta_ok_lookup:
  assumes "ta_ok ta" "map_of (ta_connections ta) k = Some p"
  obtains c where "map_of (ta_heap ta) p = Some c" "tac_sockd c = k" "p < ta_next ta"
  using assms unfolding ta_ok_def by blast

lemma ta_close_frame:
  assumes "map_of (ta_heap ta) p = Some c"
  shows "torrentAuthority_connectionClose p c (ta, w) =
    (ta\<lparr>ta_connections := AList.delete (tac_sockd c) (ta_connections ta), ta_heap := AList.delete p (ta_heap ta)\<rparr>,
     snd (sys_close (tac_sockd c) (snd (epoll_ctl CtlDel (tac_sockd c) [] w))))"
  using assms by (simp add: torrentAuthority_connectionClose_def torrentAuthority_connection_destroy_cb_def)

lemma ta_ok_close:
  assumes ok: "ta_ok ta" and p: "map_of (ta_connections ta) k = Some p" "map_of (ta_heap ta) p = Some c"
  shows "ta_ok (fst (torrentAuthority_connectionClose p c (ta, w)))"
proof (rule ta_okI)
  have k: "tac_sockd c = k" using ta_ok_lookup [OF ok p(1)] p(2) by auto
  fix j q assume "map_of (ta_connections (fst (torrentAuthority_connectionClose p c (ta, w)))) j = Some q"
  then have j: "j \<noteq> k" "map_of (ta_connections ta) j = Some q"
    using k by (simp_all add: ta_close_frame [OF p(2)] split: if_splits)
  from ta_ok_lookup [OF ok j(2)] obtain d where d: "map_of (ta_heap ta) q = Some d" "tac_sockd d = j" .
  with j k p(2) have "q \<noteq> p" by auto
  with d show "\<exists>c'. map_of (ta_heap (fst (torrentAuthority_connectionClose p c (ta, w)))) q = Some c' \<and> tac_sockd c' = j"
    by (simp add: ta_close_frame [OF p(2)])
next
  fix q d assume "map_of (ta_heap (fst (torrentAuthority_connectionClose p c (ta, w)))) q = Some d"
  then show "q < ta_next (fst (torrentAuthority_connectionClose p c (ta, w)))"
    using ta_ok_below [OF ok] by (simp add: ta_close_frame [OF p(2)] split: if_splits)
qed

lemma ta_accept_error:
  "torrentAuthority_accept ta w = (r, ta', w') \<Longrightarrow> r \<noteq> TA_SUCCESS \<Longrightarrow> ta' = ta"
  by (auto simp: torrentAuthority_accept_def Let_def split: sum.splits prod.splits if_splits option.splits)

lemma ta_destroy_frame [simp]:
  "w_accept (snd (torrentAuthority_connection_destroy_cb p (ta, w))) = w_accept w"
  "ta_connections (fst (torrentAuthority_connection_destroy_cb p (ta, w))) = ta_connections ta"
  "ta_next (fst (torrentAuthority_connection_destroy_cb p (ta, w))) = ta_next ta"
  "ta_heap (fst (torrentAuthority_connection_destroy_cb p (ta, w))) = 
     (case map_of (ta_heap ta) p of None \<Rightarrow> ta_heap ta | Some _ \<Rightarrow> AList.delete p (ta_heap ta))"
  by (simp_all add: torrentAuthority_connection_destroy_cb_def split: option.splits)

lemma ta_accept_success:
  assumes ok: "ta_ok ta" and acc: "torrentAuthority_accept ta w = (TA_SUCCESS, ta', w')"
  shows "ta_ok ta'" and "length (w_accept w') < length (w_accept w)"
proof -
  define p where "p = ta_next ta"
  obtain sd addr w1 w2 where a: "sys_accept w = (Inr (sd, addr), w1)" "epoll_ctl CtlAdd sd [EPOLLIN] w1 = (True, w2)"
    using acc by (auto simp: torrentAuthority_accept_def Let_def split: sum.splits prod.splits if_splits)
  define ta1 where "ta1 = ta\<lparr>ta_heap := (p, \<lparr>tac_sockd = sd, tac_addr = addr, tac_serverPort = 0\<rparr>) # ta_heap ta,
      ta_next := Suc p, ta_connections := AList.update sd p (ta_connections ta)\<rparr>"
  have less: "length (w_accept w2) < length (w_accept w)"
    using a epoll_ctl_frame(3) [of CtlAdd sd "[EPOLLIN]" w1] by (auto simp: sys_accept_def split: list.splits)
  have res: "(case map_of (ta_connections ta) sd of None \<Rightarrow> (ta1, w2)
      | Some old \<Rightarrow> torrentAuthority_connection_destroy_cb old (ta1, w2)) = (ta', w')"
    using acc a unfolding ta1_def p_def by (simp add: torrentAuthority_accept_def Let_def)
  have below: "q < p" if "map_of (ta_heap ta) q = Some c" for q c
    using ta_ok_below [OF ok that] by (simp add: p_def)
  show "length (w_accept w') < length (w_accept w)"
    using res less ta_destroy_frame(1) [of _ ta1 w2]
    by (cases "map_of (ta_connections ta) sd") (auto dest!: arg_cong [where f = snd])
  have ta': "ta' = fst (case map_of (ta_connections ta) sd of None \<Rightarrow> (ta1, w2)
      | Some old \<Rightarrow> torrentAuthority_connection_destroy_cb old (ta1, w2))"
    using arg_cong [OF res, of fst] by simp
  have heap: "map_of (ta_heap ta') q = Some c \<Longrightarrow> map_of (ta_heap ta1) q = Some c" for q c
    unfolding ta' by (cases "map_of (ta_connections ta) sd") (simp_all split: option.splits if_splits)
  have conn: "ta_connections ta' = AList.update sd p (ta_connections ta)" "ta_next ta' = Suc p"
    unfolding ta' by (simp_all add: ta1_def split: option.splits)
  show "ta_ok ta'"
  proof (rule ta_okI)
    fix k q assume "map_of (ta_connections ta') k = Some q"
    then consider "k = sd" "q = p" | "k \<noteq> sd" "map_of (ta_connections ta) k = Some q"
      by (auto simp: conn split: if_splits)
    then show "\<exists>c. map_of (ta_heap ta') q = Some c \<and> tac_sockd c = k"
    proof cases
      case 1
      have "old \<noteq> p" if "map_of (ta_connections ta) sd = Some old" for old
        using ta_ok_lookup [OF ok that] by (auto simp: p_def)
      with 1 show ?thesis unfolding ta' by (auto simp: ta1_def split: option.splits)
    next
      case 2
      from ta_ok_lookup [OF ok 2(2)] obtain c where c: "map_of (ta_heap ta) q = Some c" "tac_sockd c = k" .
      have "old \<noteq> q" if "map_of (ta_connections ta) sd = Some old" for old
        by (rule ta_ok_lookup [OF ok that]) (use c 2(1) in auto)
      with c below [OF c(1)] show ?thesis
        unfolding ta' by (cases "map_of (ta_connections ta) sd") (simp_all add: ta1_def split: option.splits)
    qed
  next
    fix q c assume "map_of (ta_heap ta') q = Some c"
    from heap [OF this] show "q < ta_next ta'" by (auto simp: ta1_def conn dest: below split: if_splits)
  qed
qed

interpretation ta_loop: handler_loop ta_accept_step "\<lambda>(ta, w). ta_ok ta"
  "\<lambda>(ta, w). length (w_accept w)" "\<lambda>r (ta, w). ta_ok ta"
  by unfold_locales
     (auto simp: ta_accept_step_def split: prod.splits if_splits dest: ta_accept_success ta_accept_error)

section \<open>Always returning\<close>

text \<open>A peer the authority lists and whose connection is gone.\<close>

definition ta_dangling :: "authority \<Rightarrow> bool" where
  "ta_dangling ta \<longleftrightarrow> list_ex (\<lambda>p. map_of (ta_heap ta) p = None) (ta_servers ta @ ta_clients ta)"

lemma ta_notify_result:
  "ta_notify msg heap ps w = (r, w') \<Longrightarrow>
     r \<noteq> AssertFail \<and> (r = UB \<longrightarrow> list_ex (\<lambda>p. map_of heap p = None) ps)"
  by (induction ps arbitrary: w) (auto split: option.splits prod.splits sum.splits)

lemma ta_nodes_None: "ta_nodes heap ps = None \<longleftrightarrow> list_ex (\<lambda>p. map_of heap p = None) ps"
  by (induction ps) (auto split: option.splits)

lemma ta_nodes_length: "ta_nodes heap ps = Some ns \<Longrightarrow> length ns = length ps"
  by (induction ps arbitrary: ns) (auto split: option.splits)

lemma length_ta_node_list: "length (ta_node_list ns) = 1 + 6 * length ns"
proof -
  have "length (concat (map addr_port_bytes ns)) = 6 * length ns" by (induction ns) simp_all
  then show ?thesis by (simp add: ta_node_list_def)
qed

lemma ta_ok_update:
  assumes "ta_ok ta" "map_of (ta_heap ta) p = Some c" "tac_sockd c' = tac_sockd c"
    and "ta_connections ta' = ta_connections ta" "ta_next ta' = ta_next ta"
    and "ta_heap ta' = AList.map_entry p (\<lambda>_. c') (ta_heap ta)"
  shows "ta_ok ta'"
proof (rule ta_okI)
  fix k q assume "map_of (ta_connections ta') k = Some q"
  then have "map_of (ta_connections ta) k = Some q" using assms(4) by simp
  from ta_ok_lookup [OF assms(1) this] obtain d where "map_of (ta_heap ta) q = Some d" "tac_sockd d = k" .
  then show "\<exists>d. map_of (ta_heap ta') q = Some d \<and> tac_sockd d = k"
    using assms(2,3,6) by (cases "q = p") auto
next
  fix q d assume "map_of (ta_heap ta') q = Some d"
  then show "q < ta_next ta'"
    using ta_ok_below [OF assms(1)] assms(2,5,6) by (auto split: if_splits)
qed

lemma ta_ok_lists: "ta_ok (ta\<lparr>ta_servers := ss, ta_clients := cs\<rparr>) = ta_ok ta"
  by (simp add: ta_ok_def)

lemma ta_message_result:
  assumes ok: "ta_ok ta" and p: "map_of (ta_heap ta) p = Some c" and msg: "ta_message buffer sd p c ta w = (r, ta', w')"
  shows "ta_ok ta'" and "r \<noteq> AssertFail"
    and "r = UB \<Longrightarrow> ta_dangling ta \<or> 682 < length (ta_servers ta)"
proof -
  let ?port = "of_nat (le_value (array_slice 1 2 buffer)) :: u16"
  let ?ta1 = "ta\<lparr>ta_heap := AList.map_entry p (\<lambda>_. c\<lparr>tac_serverPort := ?port\<rparr>) (ta_heap ta),
                   ta_servers := ta_servers ta @ [p]\<rparr>"
  have ok1: "ta_ok ?ta1" by (rule ta_ok_update [OF ok p]) simp_all
  have ok2: "ta_ok (ta\<lparr>ta_clients := ta_clients ta @ [p]\<rparr>)" using ok by (simp add: ta_ok_def)
  consider "r = Ret TA_SUCCESS" "ta' = ta"
    | "ta_notify (ta_announcement (tac_addr c) ?port) (ta_heap ?ta1) (ta_clients ta) w = (r, w')" "ta' = ?ta1"
    | "ta_request_nodes sd p ta w = (r, ta', w')"
    using msg unfolding ta_message_def ta_register_def Let_def
    by (cases "ta_notify (ta_announcement (tac_addr c) ?port) (ta_heap ?ta1) (ta_clients ta) w")
       (simp split: if_splits)
  then have "ta_ok ta' \<and> r \<noteq> AssertFail \<and> (r = UB \<longrightarrow> ta_dangling ta \<or> 682 < length (ta_servers ta))"
  proof cases
    case 1
    with ok show ?thesis by simp
  next
    case 2
    have "list_ex (\<lambda>q. map_of (ta_heap ?ta1) q = None) (ta_clients ta) \<Longrightarrow> ta_dangling ta"
      by (auto simp: ta_dangling_def list_ex_iff split: if_splits)
    with ta_notify_result [OF 2(1)] 2(2) ok1 show ?thesis by auto
  next
    case 3
    with ok2 show ?thesis
      by (auto simp: ta_request_nodes_def Let_def ta_nodes_None ta_dangling_def length_ta_node_list TA_BUF_SIZE_def
          dest!: ta_nodes_length split: option.splits if_splits sum.splits prod.splits)
  qed
  then show "ta_ok ta'" "r \<noteq> AssertFail" "r = UB \<Longrightarrow> ta_dangling ta \<or> 682 < length (ta_servers ta)" by auto
qed

lemma torrentAuthority_activate_facts:
  assumes ok: "ta_ok ta"
  shows "\<exists>r ta' w'. torrentAuthority_activate stack ta sd w = Some (r, ta', w') \<and> ta_ok ta' \<and> r \<noteq> AssertFail
           \<and> (r = UB \<longrightarrow> ta_dangling ta \<or> 682 < length (ta_servers ta))"
proof (cases "0 \<le> sd \<and> sd \<noteq> ta_listenSockd ta \<and> map_of (ta_connections ta) sd \<noteq> None")
  case False
  then show ?thesis
    using ok ta_loop.returns_with_post [of "(ta, w)"] by (auto simp: torrentAuthority_activate_def split: option.splits)
next
  case True
  then obtain p where p: "map_of (ta_connections ta) sd = Some p" by auto
  from ta_ok_lookup [OF ok p] obtain c where c: "map_of (ta_heap ta) p = Some c" "tac_sockd c = sd" .
  obtain a w1 where rc: "sys_recv TA_BUF_SIZE w = (a, w1)" by fastforce
  obtain r ta' w' where msg: "ta_message (overlay (projr a) stack) sd p c ta w1 = (r, ta', w')" by (metis prod_cases3)
  obtain ta2 w2 where cl: "torrentAuthority_connectionClose p c (ta, w1) = (ta2, w2)" by fastforce
  have "ta_ok ta2" using ta_ok_close [OF ok p c(1), of w1] cl by simp
  with ta_message_result [OF ok c(1) msg] True p c(1) rc msg cl ok show ?thesis
    by (auto simp: torrentAuthority_activate_def split: sum.splits)
qed

text \<open>
  C16: the authority always returns and keeps its invariant, and when it touches memory it
  must not, then a peer it lists has gone or more than 682 servers are registered.
\<close>

theorem authority_returns_safely:
  assumes ok: "ta_ok ta"
  shows "\<exists>r ta' w'. torrentAuthority_activate stack ta sd w = Some (r, ta', w') \<and> ta_ok ta' \<and> r \<noteq> AssertFail
           \<and> (r = UB \<longrightarrow> ta_dangling ta \<or> 682 < length (ta_servers ta))"
  using assms by (rule torrentAuthority_activate_facts)

definition demo_authority :: authority where
  "demo_authority = \<lparr>ta_epolld = 3, ta_listenSockd = 4, ta_servers = [0], ta_clients = [1],
     ta_connections = [(5, 0), (6, 1), (7, 2)],
     ta_heap = [(0, \<lparr>tac_sockd = 5, tac_addr = 10, tac_serverPort = 80\<rparr>),
                (1, \<lparr>tac_sockd = 6, tac_addr = 11, tac_serverPort = 0\<rparr>),
                (2, \<lparr>tac_sockd = 7, tac_addr = 12, tac_serverPort = 0\<rparr>)],
     ta_next = 3\<rparr>"

lemma demo_authority_ok: "ta_ok demo_authority"
  by (rule ta_okI) (auto simp: demo_authority_def split: if_splits)

theorem authority_returns_safely_witness:
  "\<exists>r ta' w'. torrentAuthority_activate ''junk'' demo_authority 6 (quiet_world\<lparr>w_recv := [RData ''hello'']\<rparr>) = Some (r, ta', w')
     \<and> ta_ok ta' \<and> r \<noteq> UB"
  using authority_returns_safely [OF demo_authority_ok, of "''junk''" 6 "quiet_world\<lparr>w_recv := [RData ''hello'']\<rparr>"]
  by (fastforce simp: ta_dangling_def demo_authority_def)

section \<open>The directory\<close>

text \<open>The descriptor of a listed peer.\<close>

definition ta_fd :: "authority \<Rightarrow> nat \<Rightarrow> fd" where
  "ta_fd ta p = tac_sockd (the (map_of (ta_heap ta) p))"

lemma ta_notify_all:
  assumes "list_all (\<lambda>p. map_of heap p \<noteq> None) ps" "length ks = length ps"
    "\<forall>k\<in>set ks. length msg \<le> k" "msg \<noteq> []" "w_send w = map SOk ks"
  shows "ta_notify msg heap ps w =
    (Ret TA_SUCCESS, w\<lparr>w_send := [], w_log := w_log w @ map (\<lambda>p. Sent (tac_sockd (the (map_of heap p))) msg) ps\<rparr>)"
  using assms
proof (induction ps arbitrary: ks w)
  case Nil
  then show ?case by simp
next
  case (Cons p ps)
  then obtain k ks' where ks: "ks = k # ks'" by (cases ks) auto
  from Cons.prems ks have "sys_send sd msg w = (Inr (length msg), emit (Sent sd msg) (w\<lparr>w_send := map SOk ks'\<rparr>))" for sd
    by (simp add: sys_send_def min_absorb2)
  with Cons ks show ?case by (auto simp: emit_def)
qed

lemma array_slice_cons_le_bytes:
  "array_slice 1 2 (overlay (c # le_bytes 2 v) stack) = le_bytes 2 v"
  by (simp add: array_slice_prefix)

lemma u16_le_bytes [simp]: "(of_nat (le_value (le_bytes 2 (unat p))) :: u16) = p"
proof -
  have "unat p < 256 ^ 2" using unsigned_less [of p, where 'a = nat] by simp
  then show ?thesis by (simp add: le_value_bytes)
qed

lemma u32_le_bytes [simp]: "(of_nat (le_value (le_bytes 4 (unat a))) :: u32) = a"
proof -
  have "unat a < 256 ^ 4" using unsigned_less [of a, where 'a = nat] by simp
  then show ?thesis by (simp add: le_value_bytes)
qed

lemma ta_nodes_map_entry:
  "p \<notin> set ps \<Longrightarrow> ta_nodes (AList.map_entry p f heap) ps = ta_nodes heap ps"
  by (induction ps) (auto split: option.splits)

lemma ta_nodes_append:
  "ta_nodes heap ps = Some ns \<Longrightarrow> map_of heap p = Some c
    \<Longrightarrow> ta_nodes heap (ps @ [p]) = Some (ns @ [(tac_addr c, tac_serverPort c)])"
  by (induction ps arbitrary: ns) (auto split: option.splits)

text \<open>
  C10: the authority keeps a directory of addresses and ports.  A registration in a message of
  three bytes appends the peer's address with the port of the message, and every client that
  has asked before is sent exactly this node.
\<close>

theorem registration_enters_directory:
  assumes ok: "ta_ok ta" "0 \<le> sd" "sd \<noteq> ta_listenSockd ta"
    and p: "map_of (ta_connections ta) sd = Some p" "map_of (ta_heap ta) p = Some c" "p \<notin> set (ta_servers ta)"
    and dir: "ta_nodes (ta_heap ta) (ta_servers ta) = Some ns"
    and live: "list_all (\<lambda>q. map_of (ta_heap ta) q \<noteq> None) (ta_clients ta)"
    and w: "w_recv w = RData (CHR 0x01 # le_bytes 2 (unat port)) # rest"
      "w_send w = map SOk ks" "length ks = length (ta_clients ta)" "\<forall>k\<in>set ks. 7 \<le> k"
  shows "\<exists>ta' w'. torrentAuthority_activate stack ta sd w = Some (Ret TA_SUCCESS, ta', w')
     \<and> ta_nodes (ta_heap ta') (ta_servers ta') = Some (ns @ [(tac_addr c, port)])
     \<and> w_log w' = w_log w @ map (\<lambda>q. Sent (ta_fd ta q) (ta_announcement (tac_addr c) port)) (ta_clients ta)"
proof -
  let ?msg = "CHR 0x01 # le_bytes 2 (unat port)"
  let ?heap = "AList.map_entry p (\<lambda>_. c\<lparr>tac_serverPort := port\<rparr>) (ta_heap ta)"
  let ?ta' = "ta\<lparr>ta_heap := ?heap, ta_servers := ta_servers ta @ [p]\<rparr>"
  let ?say = "ta_announcement (tac_addr c) port"
  have rc: "sys_recv TA_BUF_SIZE w = (Inr ?msg, w\<lparr>w_recv := rest\<rparr>)"
    using w(1) by (simp add: sys_recv_def TA_BUF_SIZE_def)
  have live': "list_all (\<lambda>q. map_of ?heap q \<noteq> None) (ta_clients ta)"
    using live by (auto simp: list_all_iff p(2))
  have "ta_notify ?say ?heap (ta_clients ta) (w\<lparr>w_recv := rest\<rparr>) = (Ret TA_SUCCESS, w\<lparr>w_recv := rest, w_send := [],
      w_log := w_log w @ map (\<lambda>q. Sent (tac_sockd (the (map_of ?heap q))) ?say) (ta_clients ta)\<rparr>)"
    by (subst ta_notify_all [OF live', of ks]) (use w in \<open>simp_all add: ta_announcement_def\<close>)
  moreover have "tac_sockd (the (map_of ?heap q)) = ta_fd ta q" if "q \<in> set (ta_clients ta)" for q
    using live that p(2) by (auto simp: ta_fd_def list_all_iff)
  then have "map (\<lambda>q. Sent (tac_sockd (the (map_of ?heap q))) ?say) (ta_clients ta)
      = map (\<lambda>q. Sent (ta_fd ta q) ?say) (ta_clients ta)" by simp
  moreover have slice: "array_slice 1 2 (overlay ?msg stack) = le_bytes 2 (unat port)"
    by (rule array_slice_cons_le_bytes)
  then have "ta_message (overlay ?msg stack) sd p c ta (w\<lparr>w_recv := rest\<rparr>) =
      (let (r, w1) = ta_notify ?say ?heap (ta_clients ta) (w\<lparr>w_recv := rest\<rparr>) in (r, ?ta', w1))"
    by (simp add: ta_message_def ta_register_def overlay_def)
  ultimately have "ta_message (overlay ?msg stack) sd p c ta (w\<lparr>w_recv := rest\<rparr>) =
      (Ret TA_SUCCESS, ?ta', w\<lparr>w_recv := rest, w_send := [],
        w_log := w_log w @ map (\<lambda>q. Sent (ta_fd ta q) ?say) (ta_clients ta)\<rparr>)"
    by (simp add: Let_def)
  then have "torrentAuthority_activate stack ta sd w = Some (Ret TA_SUCCESS, ?ta', w\<lparr>w_recv := rest, w_send := [],
      w_log := w_log w @ map (\<lambda>q. Sent (ta_fd ta q) ?say) (ta_clients ta)\<rparr>)"
    using ok(2,3) p rc by (simp add: torrentAuthority_activate_def)
  moreover have "ta_nodes ?heap (ta_servers ta @ [p]) = Some (ns @ [(tac_addr c, port)])"
    using ta_nodes_append [of ?heap "ta_servers ta" ns p "c\<lparr>tac_serverPort := port\<rparr>"] dir p
    by (simp add: ta_nodes_map_entry)
  ultimately show ?thesis by simp
qed

theorem registration_enters_directory_witness:
  "\<exists>ta' w'. torrentAuthority_activate [] demo_authority 7
       (quiet_world\<lparr>w_recv := [RData (CHR 0x01 # le_bytes 2 (unat (443 :: u16)))], w_send := [SOk 7]\<rparr>) =
       Some (Ret TA_SUCCESS, ta', w')
     \<and> ta_nodes (ta_heap ta') (ta_servers ta') = Some [(10, 80), (12, 443)]
     \<and> w_log w' = [Sent 6 (ta_announcement 12 443)]"
  using registration_enters_directory [OF demo_authority_ok, of 7 2 "\<lparr>tac_sockd = 7, tac_addr = 12, tac_serverPort = 0\<rparr>"
      "[(10, 80)]" "quiet_world\<lparr>w_recv := [RData (CHR 0x01 # le_bytes 2 (unat (443 :: u16)))], w_send := [SOk 7]\<rparr>" 443 "[]" "[7]" "[]"]
  by (simp add: demo_authority_def ta_fd_def quiet_world_def)

text \<open>
  C35: after a client that asked for nodes has gone, the list of clients still holds its
  connection, which was freed: the next registration reads freed memory.
\<close>

theorem departed_client_dangles:
  assumes ok: "ta_ok ta" "0 \<le> sd" "sd \<noteq> ta_listenSockd ta"
    and p: "map_of (ta_connections ta) sd = Some p" "ta_clients ta = p # cs"
    and q: "map_of (ta_connections ta) sd' = Some q" "0 \<le> sd'" "sd' \<noteq> ta_listenSockd ta" "sd' \<noteq> sd"
    and w: "w_recv w = [RData []]" "w_recv v = RData (CHR 0x01 # bs) # rest" "length bs < TA_BUF_SIZE"
  shows "\<exists>ta' w'. torrentAuthority_activate stack ta sd w = Some (Ret TA_CLOSED, ta', w')
     \<and> (\<exists>ta'' v'. torrentAuthority_activate stack' ta' sd' v = Some (UB, ta'', v'))"
proof -
  from ta_ok_lookup [OF ok(1) p(1)] obtain c where c: "map_of (ta_heap ta) p = Some c" "tac_sockd c = sd" .
  from ta_ok_lookup [OF ok(1) q(1)] obtain d where d: "map_of (ta_heap ta) q = Some d" "tac_sockd d = sd'" .
  have "p \<noteq> q" using c d q(4) by auto
  let ?ta' = "ta\<lparr>ta_connections := AList.delete sd (ta_connections ta), ta_heap := AList.delete p (ta_heap ta)\<rparr>"
  have "sys_recv TA_BUF_SIZE w = (Inr [], w\<lparr>w_recv := []\<rparr>)"
    using w(1) by (simp add: sys_recv_def TA_BUF_SIZE_def)
  then have "\<exists>w'. torrentAuthority_activate stack ta sd w = Some (Ret TA_CLOSED, ?ta', w')"
    using ok p c by (simp add: torrentAuthority_activate_def ta_close_frame)
  moreover have "sys_recv TA_BUF_SIZE v = (Inr (CHR 0x01 # bs), v\<lparr>w_recv := rest\<rparr>)"
    using w by (simp add: sys_recv_def)
  then have "\<exists>ta'' v'. torrentAuthority_activate stack' ?ta' sd' v = Some (UB, ta'', v')"
    using q d \<open>p \<noteq> q\<close> p(2)
    by (simp add: torrentAuthority_activate_def ta_message_def ta_register_def overlay_def Let_def)
  ultimately show ?thesis by blast
qed

theorem departed_client_dangles_witness:
  "\<exists>ta' w'. torrentAuthority_activate [] demo_authority 6 (quiet_world\<lparr>w_recv := [RData []]\<rparr>) = Some (Ret TA_CLOSED, ta', w')
     \<and> (\<exists>ta'' v'. torrentAuthority_activate [] ta' 7
          (quiet_world\<lparr>w_recv := [RData [CHR 0x01, CHR 0x50, CHR 0x00]]\<rparr>) = Some (UB, ta'', v'))"
  by (rule departed_client_dangles [OF demo_authority_ok, where cs = "[]" and p = 1 and q = 2 and bs = "[CHR 0x50, CHR 0x00]" and rest = "[]"])
     (simp_all add: demo_authority_def quiet_world_def TA_BUF_SIZE_def)

end
