(* ===== verification/Torrent_Server.thy ===== *)
theory Torrent_Server
  imports Torrent_Base
begin

text \<open>
  The torrent server (\<open>torrent/torrent-server.c\<close>, \<open>torrent-server.h\<close>): it registers with
  the authority and serves blocks, each an exchange of \<open>downBlockSize\<close> bytes received for
  \<open>upBlockSize\<close> bytes sent.

  The objects of the table \<open>connections\<close> have no other reference, so the table holds them
  themselves.  \<open>tsx\<close> is what one activation works on.  The byte counters are \<open>gint\<close>s that
  never pass the block sizes (\<open>ts_counted\<close> in \<open>Torrent_Server_Properties\<close>), so they are
  mathematical integers here.
\<close>

section \<open>Data\<close>

definition TS_BUF_SIZE :: nat where "TS_BUF_SIZE = 16384"

datatype ts_state = TS_IDLE | TS_AUTH_REGISTER | TS_AUTH_IDLE | TS_REQUEST | TS_TRANSFER | TS_FINISHED

record packet_info =
  pk_sendTime :: int
  pk_recvTime :: int
  pk_cookie :: u32

record ts_conn =
  tsc_sockd :: fd
  tsc_addr :: u32
  tsc_state :: ts_state
  tsc_down :: int
  tsc_up :: int
  tsc_cookie :: u32

record ts_server =
  ts_epolld :: fd
  ts_listenSockd :: fd
  ts_authSockd :: fd
  ts_serverPort :: u16
  ts_connections :: "(fd \<times> ts_conn) list"
  ts_downBlockSize :: int
  ts_upBlockSize :: int
  ts_errcode :: ts_code
  ts_packetInfo :: "packet_info list"

record tsx =
  tsx_ts :: ts_server
  tsx_c :: ts_conn
  tsx_w :: world

type_synonym ts_result = "ts_code ret \<times> tsx"

definition torrentServer_changeEpoll :: "fd \<Rightarrow> epoll_ev list \<Rightarrow> world \<Rightarrow> world" where
  "torrentServer_changeEpoll sockd evs w = snd (epoll_ctl CtlMod sockd evs w)"

section \<open>The payload\<close>

text \<open>
  The text a \<open>sprintf\<close> of the loop writes, with its NUL: 23 bytes, at positions 18 apart.
  \<open>populate_from\<close> is the loop from position \<open>i\<close> on, and \<open>None\<close> when a write leaves the
  array the buffer lies in.
\<close>

definition cookie_line :: "u32 \<Rightarrow> string" where
  "cookie_line cookie = ''TOR-COOKIE: '' @ show_cookie cookie @ crlf"

definition write_at :: "nat \<Rightarrow> string \<Rightarrow> string \<Rightarrow> string" where
  "write_at i s buf = take i buf @ s @ drop (i + length s) buf"

function populate_from :: "nat \<Rightarrow> u32 \<Rightarrow> nat \<Rightarrow> string \<Rightarrow> string option" where
  "populate_from len cookie i buf =
     (if i + 18 < len
      then if i + length (cookie_line cookie) + 1 \<le> TS_BUF_SIZE
           then populate_from len cookie (i + 18) (write_at i (cookie_line cookie @ [NUL]) buf)
           else None
      else Some buf)"
  by auto
termination by (relation "measure (\<lambda>(len, cookie, i, buf). len - i)") auto

declare populate_from.simps [simp del]

definition torrentServer_populateCookies :: "nat \<Rightarrow> u32 \<Rightarrow> string option" where
  "torrentServer_populateCookies len cookie =
     populate_from len cookie 0 (replicate len NUL)"

section \<open>Starting and accepting\<close>

text \<open>A descriptor or a code, in one \<open>gint\<close>.  A failure leaves the socket open.\<close>

definition torrentServer_connect :: "u32 \<Rightarrow> u16 \<Rightarrow> world \<Rightarrow> int \<times> world" where
  "torrentServer_connect addr port w =
     (case sys_socket w of
        (Inl e, w1) \<Rightarrow> (ts_num TS_ERR_SOCKET, w1)
      | (Inr sockd, w1) \<Rightarrow>
          (let (result, w2) = sys_connect sockd addr port w1 in
           if result \<noteq> None \<and> result \<noteq> Some EINPROGRESS then (ts_num TS_ERR_CONNECT, w2)
           else let (ok, w3) = epoll_ctl CtlAdd sockd [EPOLLOUT] w2
                in if \<not> ok then (ts_num TS_ERR_EPOLL, w3) else (sockd, w3)))"

definition torrentServer_connection_destroy_cb :: "ts_conn \<Rightarrow> world \<Rightarrow> world" where
  "torrentServer_connection_destroy_cb c w = snd (sys_close (tsc_sockd c) w)"

definition torrentServer_connectionClose :: "tsx \<Rightarrow> tsx" where
  "torrentServer_connectionClose x =
     (let c = tsx_c x; w1 = snd (epoll_ctl CtlDel (tsc_sockd c) [] (tsx_w x))
      in x\<lparr>tsx_ts := (tsx_ts x)\<lparr>ts_connections := AList.delete (tsc_sockd c) (ts_connections (tsx_ts x))\<rparr>,
           tsx_w := torrentServer_connection_destroy_cb c w1\<rparr>)"

definition ts_new_conn :: "fd \<Rightarrow> u32 \<Rightarrow> ts_state \<Rightarrow> ts_conn" where
  "ts_new_conn sockd addr st =
     \<lparr>tsc_sockd = sockd, tsc_addr = addr, tsc_state = st, tsc_down = 0, tsc_up = 0, tsc_cookie = 0\<rparr>"

definition ts_fresh :: "fd \<Rightarrow> fd \<Rightarrow> int \<Rightarrow> int \<Rightarrow> ts_server" where
  "ts_fresh epolld sockd downBlockSize upBlockSize =
     \<lparr>ts_epolld = epolld, ts_listenSockd = sockd, ts_authSockd = 0, ts_serverPort = 0,
      ts_connections = [], ts_downBlockSize = downBlockSize, ts_upBlockSize = upBlockSize,
      ts_errcode = TS_SUCCESS, ts_packetInfo = []\<rparr>"

text \<open>\<open>ntohs\<close> is \<open>htons\<close>.\<close>

definition ts_join_authority :: "ts_server \<Rightarrow> u16 \<Rightarrow> u32 \<Rightarrow> u16 \<Rightarrow> world \<Rightarrow> int \<times> ts_server \<times> world" where
  "ts_join_authority ts listenPort authAddr authPort w =
     (let (sockd, w1) = torrentServer_connect authAddr authPort w in
      if sockd < 0 then (sockd, ts, w1)
      else (ts_num TS_SUCCESS,
            ts\<lparr>ts_authSockd := sockd, ts_serverPort := htons listenPort,
               ts_connections := AList.update sockd (ts_new_conn sockd authAddr TS_AUTH_REGISTER) (ts_connections ts)\<rparr>,
            torrentServer_changeEpoll sockd [EPOLLOUT] w1))"

definition torrentServer_start ::
    "ts_server \<Rightarrow> fd \<Rightarrow> u32 \<Rightarrow> u16 \<Rightarrow> u32 \<Rightarrow> u16 \<Rightarrow> int \<Rightarrow> int \<Rightarrow> world \<Rightarrow> int \<times> ts_server \<times> world" where
  "torrentServer_start ts epolld listenAddr listenPort authAddr authPort downBlockSize upBlockSize w =
     (case sys_socket w of
        (Inl e, w1) \<Rightarrow> (ts_num TS_ERR_SOCKET, ts, w1)
      | (Inr sockd, w1) \<Rightarrow>
          (let (ok, w2) = sys_bind sockd w1 in
           if \<not> ok then (ts_num TS_ERR_BIND, ts, w2)
           else let (ok, w3) = sys_listen sockd listenAddr listenPort w2 in
             if \<not> ok then (ts_num TS_ERR_LISTEN, ts, w3)
             else let ts1 = ts_fresh epolld sockd downBlockSize upBlockSize;
                      (ok, w4) = epoll_ctl CtlAdd sockd [EPOLLIN] w3
                  in if \<not> ok then (ts_num TS_ERR_EPOLL, ts1, w4)
                     else ts_join_authority ts1 listenPort authAddr authPort w4))"

definition torrentServer_accept :: "ts_server \<Rightarrow> world \<Rightarrow> ts_code \<times> ts_server \<times> world" where
  "torrentServer_accept ts w =
     (case sys_accept w of
        (Inl e, w1) \<Rightarrow> (TS_ERR_ACCEPT, ts, w1)
      | (Inr (sockd, addr), w1) \<Rightarrow>
          (let (ok, w2) = epoll_ctl CtlAdd sockd [EPOLLIN] w1 in
           if \<not> ok then (TS_ERR_EPOLL, ts, w2)
           else (TS_SUCCESS,
                 ts\<lparr>ts_connections := AList.update sockd (ts_new_conn sockd addr TS_IDLE) (ts_connections ts)\<rparr>,
                 case map_of (ts_connections ts) sockd of
                   None \<Rightarrow> w2 | Some old \<Rightarrow> torrentServer_connection_destroy_cb old w2)))"

definition ts_accept_step :: "ts_server \<times> world \<Rightarrow> (ts_code, ts_server \<times> world) outcome" where
  "ts_accept_step = (\<lambda>(ts, w).
     (case torrentServer_accept ts w of (r, ts', w') \<Rightarrow>
        if r = TS_SUCCESS then Again (ts', w') else Exit r (ts', w')))"

definition torrentServer_shutdown :: "ts_server \<Rightarrow> world \<Rightarrow> ts_code \<times> ts_server \<times> world" where
  "torrentServer_shutdown ts w =
     (let w1 = fold (\<lambda>(sd, c). torrentServer_connection_destroy_cb c) (ts_connections ts) w;
          w2 = snd (epoll_ctl CtlDel (ts_listenSockd ts) [] w1);
          (ok, w3) = sys_close (ts_listenSockd ts) w2
      in (if ok then TS_SUCCESS else TS_ERR_CLOSE, ts\<lparr>ts_connections := []\<rparr>, w3))"

section \<open>The states of a connection\<close>

text \<open>\<open>TS_ASSERTIO\<close>: a failed call, and the end of the stream.\<close>

definition ts_io_failed :: "bool \<Rightarrow> ts_code \<Rightarrow> tsx \<Rightarrow> ts_result" where
  "ts_io_failed allowed code x =
     (if allowed then (Ret TS_ERR_WOULDBLOCK, x)
      else (Ret TS_ERR_FATAL, x\<lparr>tsx_ts := (tsx_ts x)\<lparr>ts_errcode := code\<rparr>\<rparr>))"

definition ts_io_closed :: "tsx \<Rightarrow> ts_result" where
  "ts_io_closed x =
     (let x1 = torrentServer_connectionClose x
      in (Ret TS_ERR_FATAL, x1\<lparr>tsx_ts := (tsx_ts x1)\<lparr>ts_errcode := TS_CLOSED\<rparr>\<rparr>))"

definition ts_send_allowed :: "errno \<Rightarrow> bool" where
  "ts_send_allowed e \<longleftrightarrow> e = EWOULDBLOCK \<or> e = ENOTCONN \<or> e = EALREADY"

definition ts_goto :: "ts_state \<Rightarrow> tsx \<Rightarrow> tsx" where
  "ts_goto st x = x\<lparr>tsx_c := (tsx_c x)\<lparr>tsc_state := st\<rparr>\<rparr>"

definition ts_epoll :: "epoll_ev list \<Rightarrow> tsx \<Rightarrow> tsx" where
  "ts_epoll evs x = x\<lparr>tsx_w := torrentServer_changeEpoll (tsc_sockd (tsx_c x)) evs (tsx_w x)\<rparr>"

definition ts_registration :: "u16 \<Rightarrow> string" where
  "ts_registration port = char_of TA_MSG_REGISTER # le_bytes 2 (unat port)"

definition ts_auth_register :: "tsx \<Rightarrow> ts_result" where
  "ts_auth_register x =
     (case sys_send (tsc_sockd (tsx_c x)) (ts_registration (ts_serverPort (tsx_ts x))) (tsx_w x) of
        (Inl e, w) \<Rightarrow> ts_io_failed (ts_send_allowed e) TS_ERR_SEND (x\<lparr>tsx_w := w\<rparr>)
      | (Inr k, w) \<Rightarrow>
          if k = 0 then ts_io_closed (x\<lparr>tsx_w := w\<rparr>)
          else (Ret TS_SUCCESS, ts_goto TS_AUTH_IDLE (ts_epoll [EPOLLIN] (x\<lparr>tsx_w := w\<rparr>))))"

text \<open>\<open>g_ascii_strtoll\<close> behind a match, as a \<open>guint32\<close>.\<close>

definition ts_cookie_after :: "nat \<Rightarrow> string \<Rightarrow> u32" where
  "ts_cookie_after i s = of_int (strtol 16 (drop (i + length ''TOR-COOKIE: '') s))"

text \<open>\<open>case TS_REQUEST\<close> after its \<open>recv\<close>: \<open>s\<close> is \<open>buf\<close> as a string.\<close>

definition ts_read_request :: "string \<Rightarrow> tsx \<Rightarrow> tsx" where
  "ts_read_request s x =
     (case strcasestr s ''FILE REQUEST'' of
        None \<Rightarrow> ts_goto TS_REQUEST x
      | Some _ \<Rightarrow>
          (let x1 = (case strcasestr s ''TOR-COOKIE: '' of
                       None \<Rightarrow> x
                     | Some i \<Rightarrow> x\<lparr>tsx_c := (tsx_c x)\<lparr>tsc_cookie := ts_cookie_after i s\<rparr>\<rparr>)
           in ts_epoll [EPOLLIN, EPOLLOUT] (ts_goto TS_TRANSFER x1)))"

definition ts_request :: "string \<Rightarrow> tsx \<Rightarrow> ts_result" where
  "ts_request stack x =
     (case sys_recv TS_BUF_SIZE (tsx_w x) of
        (Inl e, w) \<Rightarrow> ts_io_failed (e = EWOULDBLOCK) TS_ERR_RECV (x\<lparr>tsx_w := w\<rparr>)
      | (Inr bs, w) \<Rightarrow>
          if bs = [] then ts_io_closed (x\<lparr>tsx_w := w\<rparr>)
          else (case array_str TS_BUF_SIZE (overlay bs stack) of
                  None \<Rightarrow> (UB, x\<lparr>tsx_w := w\<rparr>)
                | Some s \<Rightarrow> (Ret TS_SUCCESS, ts_read_request s (x\<lparr>tsx_w := w\<rparr>))))"

text \<open>\<open>case TS_IDLE\<close>, which falls through to \<open>case TS_REQUEST\<close>.\<close>

definition ts_idle :: "tsx \<Rightarrow> tsx" where
  "ts_idle x =
     ts_goto TS_REQUEST (ts_epoll [EPOLLIN] (x\<lparr>tsx_c := (tsx_c x)\<lparr>tsc_down := 0, tsc_up := 0\<rparr>\<rparr>))"

text \<open>A time stamp among the received bytes is queued with the time of its arrival.\<close>

definition ts_time_stamp :: "string \<Rightarrow> tsx \<Rightarrow> tsx" where
  "ts_time_stamp s x =
     (case strcasestr s ''TIME: '' of
        None \<Rightarrow> x
      | Some i \<Rightarrow>
          (let (now, w) = clock_gettime (tsx_w x);
               info = \<lparr>pk_sendTime = strtol 10 (drop (i + length ''TIME: '') s),
                       pk_recvTime = TIME_TO_NS now,
                       pk_cookie = (case strcasestr s ''TOR-COOKIE: '' of
                                      None \<Rightarrow> 0 | Some j \<Rightarrow> ts_cookie_after j s)\<rparr>
           in x\<lparr>tsx_w := w, tsx_ts := (tsx_ts x)\<lparr>ts_packetInfo := ts_packetInfo (tsx_ts x) @ [info]\<rparr>\<rparr>))"

text \<open>
  The two halves of \<open>case TS_TRANSFER\<close>; each goes on (\<open>Inr\<close>) or returns (\<open>Inl\<close>).  The
  length of a piece is what is left of the block, at most the size of \<open>buf\<close>.
\<close>

definition ts_transfer_down :: "string \<Rightarrow> epoll_ev list \<Rightarrow> tsx \<Rightarrow> ts_result + tsx" where
  "ts_transfer_down stack events x =
     (if EPOLLIN \<in> set events \<and> tsc_down (tsx_c x) < ts_downBlockSize (tsx_ts x)
      then let remaining = nat (ts_downBlockSize (tsx_ts x) - tsc_down (tsx_c x))
           in case sys_recv (min remaining TS_BUF_SIZE) (tsx_w x) of
                (Inl e, w) \<Rightarrow> Inl (ts_io_failed (e = EWOULDBLOCK) TS_ERR_RECV (x\<lparr>tsx_w := w\<rparr>))
              | (Inr bs, w) \<Rightarrow>
                  if bs = [] then Inl (ts_io_closed (x\<lparr>tsx_w := w\<rparr>))
                  else let x1 = x\<lparr>tsx_w := w, tsx_c := (tsx_c x)\<lparr>tsc_down := tsc_down (tsx_c x) + int (length bs)\<rparr>\<rparr>
                       in (case array_str TS_BUF_SIZE (overlay bs stack) of
                             None \<Rightarrow> Inl (UB, x1) | Some s \<Rightarrow> Inr (ts_time_stamp s x1))
      else Inr x)"

definition ts_transfer_up :: "epoll_ev list \<Rightarrow> tsx \<Rightarrow> ts_result + tsx" where
  "ts_transfer_up events x =
     (if EPOLLOUT \<in> set events \<and> tsc_up (tsx_c x) < ts_upBlockSize (tsx_ts x)
      then let remaining = nat (ts_upBlockSize (tsx_ts x) - tsc_up (tsx_c x));
               len = min remaining TS_BUF_SIZE
           in case torrentServer_populateCookies len (tsc_cookie (tsx_c x)) of
                None \<Rightarrow> Inl (UB, x)
              | Some buf \<Rightarrow>
                  (case sys_send (tsc_sockd (tsx_c x)) (take len buf) (tsx_w x) of
                     (Inl e, w) \<Rightarrow> Inl (ts_io_failed (ts_send_allowed e) TS_ERR_SEND (x\<lparr>tsx_w := w\<rparr>))
                   | (Inr k, w) \<Rightarrow>
                       if k = 0 then Inl (ts_io_closed (x\<lparr>tsx_w := w\<rparr>))
                       else Inr (x\<lparr>tsx_w := w, tsx_c := (tsx_c x)\<lparr>tsc_up := tsc_up (tsx_c x) + int k\<rparr>\<rparr>))
      else Inr x)"

definition ts_transfer_next :: "tsx \<Rightarrow> tsx" where
  "ts_transfer_next x =
     (let down = ts_downBlockSize (tsx_ts x) \<le> tsc_down (tsx_c x);
          up = ts_upBlockSize (tsx_ts x) \<le> tsc_up (tsx_c x)
      in if down \<and> up then ts_epoll [EPOLLOUT] (ts_goto TS_FINISHED x)
         else if down then ts_epoll [EPOLLOUT] x
         else if up then ts_epoll [EPOLLIN] x
         else x)"

definition ts_transfer :: "string \<Rightarrow> epoll_ev list \<Rightarrow> tsx \<Rightarrow> ts_result" where
  "ts_transfer stack events x =
     (case ts_transfer_down stack events x of
        Inl r \<Rightarrow> r
      | Inr x1 \<Rightarrow>
          (case ts_transfer_up events x1 of
             Inl r \<Rightarrow> r
           | Inr x2 \<Rightarrow> (Ret TS_SUCCESS, ts_transfer_next x2)))"

definition ts_finished :: "tsx \<Rightarrow> ts_result" where
  "ts_finished x =
     (case sys_send (tsc_sockd (tsx_c x)) ''FINISHED'' (tsx_w x) of
        (Inl e, w) \<Rightarrow> ts_io_failed (ts_send_allowed e) TS_ERR_SEND (x\<lparr>tsx_w := w\<rparr>)
      | (Inr k, w) \<Rightarrow>
          if k = 0 then ts_io_closed (x\<lparr>tsx_w := w\<rparr>)
          else (Ret TS_SUCCESS, ts_epoll [EPOLLIN] (ts_goto TS_IDLE (x\<lparr>tsx_w := w\<rparr>))))"

definition ts_step :: "string \<Rightarrow> epoll_ev list \<Rightarrow> tsx \<Rightarrow> ts_result" where
  "ts_step stack events x =
     (case tsc_state (tsx_c x) of
        TS_AUTH_IDLE \<Rightarrow> (Ret TS_SUCCESS, x)
      | TS_AUTH_REGISTER \<Rightarrow> ts_auth_register x
      | TS_IDLE \<Rightarrow> ts_request stack (ts_idle x)
      | TS_REQUEST \<Rightarrow> ts_request stack x
      | TS_TRANSFER \<Rightarrow> ts_transfer stack events x
      | TS_FINISHED \<Rightarrow> ts_finished x)"

section \<open>The handler\<close>

text \<open>The connection is the object of the table; one that was closed is not there any more.\<close>

definition ts_write_back :: "tsx \<Rightarrow> ts_server" where
  "ts_write_back x =
     (tsx_ts x)\<lparr>ts_connections :=
        AList.map_entry (tsc_sockd (tsx_c x)) (\<lambda>_. tsx_c x) (ts_connections (tsx_ts x))\<rparr>"

definition torrentServer_activate ::
    "string \<Rightarrow> ts_server \<Rightarrow> fd \<Rightarrow> epoll_ev list \<Rightarrow> world \<Rightarrow> (ts_code ret \<times> ts_server \<times> world) option" where
  "torrentServer_activate stack ts sockd events w =
     (if sockd < 0 then Some (Ret TS_ERR_FATAL, ts, w)
      else if sockd = ts_listenSockd ts
      then map_option (\<lambda>(r, ts', w'). (Ret r, ts', w')) (drive ts_accept_step (ts, w))
      else case map_of (ts_connections ts) sockd of
        None \<Rightarrow> Some (Ret TS_ERR_NOCONN, ts, w)
      | Some c \<Rightarrow>
          (case ts_step stack events \<lparr>tsx_ts = ts, tsx_c = c, tsx_w = w\<rparr> of
             (r, x) \<Rightarrow> Some (r, ts_write_back x, tsx_w x)))"

end
