(* ===== verification/Torrent_Server_Properties.thy ===== *)
theory Torrent_Server_Properties
  imports Torrent_Server
begin

text \<open>
  The torrent server: the payload and where it is written, the invariant of the byte
  counters, that every activation returns, and the exact account of what is sent.
\<close>

section \<open>The payload\<close>

lemma length_cookie_line [simp]: "length (cookie_line c) = 22"
  by (simp add: cookie_line_def)

lemma populate_from_None:
  "i mod 18 = 0 \<Longrightarrow> i \<le> 16362 \<Longrightarrow> populate_from len c i buf = None \<longleftrightarrow> 16380 < len"
proof (induction len c i buf rule: populate_from.induct)
  case (1 len c i buf)
  show ?case
  proof (cases "i + 18 < len \<and> i + 23 \<le> TS_BUF_SIZE")
    case True
    then have "i \<noteq> 16362" "i \<le> 16361" by (simp_all add: TS_BUF_SIZE_def)
    obtain k where "i = 18 * k" using 1(2) by (auto simp: mod_eq_0_iff_dvd elim: dvdE)
    with \<open>i \<le> 16361\<close> have "i + 18 \<le> 16362" by simp
    moreover have "(i + 18) mod 18 = 0" using 1(2) by simp
    ultimately show ?thesis
      using True 1(1) by (subst populate_from.simps) simp
  next
    case False
    then show ?thesis
      using 1(2,3) by (subst populate_from.simps) (auto simp: TS_BUF_SIZE_def)
  qed
qed

text \<open>
  A payload of more than 16380 bytes is written past the end of the buffer of 16384
  bytes, because each line is printed with 22 characters and a NUL although the next one
  starts 18 bytes further on; a shorter payload never is.
\<close>

theorem payload_overflow:
  "torrentServer_populateCookies len cookie = None \<longleftrightarrow> 16380 < len"
  by (simp add: torrentServer_populateCookies_def populate_from_None)

section \<open>The invariant\<close>

definition ts_counted :: "ts_server \<Rightarrow> ts_conn \<Rightarrow> bool" where
  "ts_counted ts c \<longleftrightarrow>
     0 \<le> tsc_down c \<and> tsc_down c \<le> max 0 (ts_downBlockSize ts)
     \<and> 0 \<le> tsc_up c \<and> tsc_up c \<le> max 0 (ts_upBlockSize ts)
     \<and> (tsc_state c = TS_FINISHED \<longrightarrow> ts_downBlockSize ts \<le> tsc_down c \<and> ts_upBlockSize ts \<le> tsc_up c)"

definition ts_ok :: "ts_server \<Rightarrow> bool" where
  "ts_ok ts \<longleftrightarrow> (\<forall>k c. map_of (ts_connections ts) k = Some c \<longrightarrow> tsc_sockd c = k \<and> ts_counted ts c)"

text \<open>What a pass through the switch leaves as it was.\<close>

definition ts_same :: "tsx \<Rightarrow> tsx \<Rightarrow> bool" where
  "ts_same x x' \<longleftrightarrow>
     tsc_sockd (tsx_c x') = tsc_sockd (tsx_c x)
     \<and> ts_downBlockSize (tsx_ts x') = ts_downBlockSize (tsx_ts x)
     \<and> ts_upBlockSize (tsx_ts x') = ts_upBlockSize (tsx_ts x)
     \<and> ts_listenSockd (tsx_ts x') = ts_listenSockd (tsx_ts x)
     \<and> (ts_connections (tsx_ts x') = ts_connections (tsx_ts x)
        \<or> ts_connections (tsx_ts x') = AList.delete (tsc_sockd (tsx_c x)) (ts_connections (tsx_ts x)))"

definition ts_unterminated :: "string \<Rightarrow> world \<Rightarrow> bool" where
  "ts_unterminated stack w \<longleftrightarrow>
     (\<exists>bs rest. arriving w = bs @ rest \<and> bs \<noteq> [] \<and> array_str TS_BUF_SIZE (overlay bs stack) = None)"

text \<open>What a pass guarantees; \<open>why\<close> is what makes undefined behaviour possible.\<close>

definition ts_pass :: "bool \<Rightarrow> tsx \<Rightarrow> ts_result \<Rightarrow> bool" where
  "ts_pass why x = (\<lambda>(r, x').
     ts_same x x' \<and> ts_counted (tsx_ts x') (tsx_c x') \<and> r \<noteq> AssertFail
     \<and> (r = UB \<longrightarrow> why))"

named_theorems ts_simps \<open>single steps of the torrent server\<close>

lemmas [ts_simps] = ts_pass_def ts_same_def ts_counted_def ts_io_failed_def ts_io_closed_def
  torrentServer_connectionClose_def ts_goto_def ts_epoll_def torrentServer_changeEpoll_def Let_def

lemma ts_auth_register_pass:
  "ts_counted (tsx_ts x) (tsx_c x) \<Longrightarrow> ts_pass why x (ts_auth_register x)"
  by (auto simp: ts_auth_register_def ts_simps split: sum.splits prod.splits)

lemma ts_finished_pass:
  "ts_counted (tsx_ts x) (tsx_c x) \<Longrightarrow> ts_pass why x (ts_finished x)"
  by (auto simp: ts_finished_def ts_simps split: sum.splits prod.splits)

lemma ts_read_request_pass:
  "ts_counted (tsx_ts x) (tsx_c x) \<Longrightarrow> ts_same x (ts_read_request s x)
     \<and> ts_counted (tsx_ts (ts_read_request s x)) (tsx_c (ts_read_request s x))"
  by (auto simp: ts_read_request_def ts_simps split: option.splits)

lemma ts_request_pass:
  assumes "ts_counted (tsx_ts x) (tsx_c x)"
  shows "ts_pass (ts_unterminated stack (tsx_w x)) x (ts_request stack x)"
proof (cases "sys_recv TS_BUF_SIZE (tsx_w x)")
  case (Pair a w)
  show ?thesis
  proof (cases a)
    case (Inl e)
    with Pair assms show ?thesis by (auto simp: ts_request_def ts_simps)
  next
    case (Inr bs)
    have arr: "arriving (tsx_w x) = bs @ arriving w"
      using Pair Inr by (auto dest: sys_recv_arriving(1))
    show ?thesis
    proof (cases "bs = []")
      case True
      with Pair Inr assms show ?thesis by (auto simp: ts_request_def ts_simps)
    next
      case False
      show ?thesis
      proof (cases "array_str TS_BUF_SIZE (overlay bs stack)")
        case None
        then have "ts_unterminated stack (tsx_w x)" using arr False by (auto simp: ts_unterminated_def)
        with None False Pair Inr assms show ?thesis by (auto simp: ts_request_def ts_pass_def ts_same_def)
      next
        case (Some s)
        let ?x = "x\<lparr>tsx_w := w\<rparr>"
        have "ts_counted (tsx_ts ?x) (tsx_c ?x)" using assms by simp
        from ts_read_request_pass [OF this, of s] show ?thesis
          using Some False Pair Inr by (auto simp: ts_request_def ts_pass_def ts_same_def)
      qed
    qed
  qed
qed

text \<open>The two halves of a transfer.\<close>

definition ts_half :: "bool \<Rightarrow> tsx \<Rightarrow> ts_result + tsx \<Rightarrow> bool" where
  "ts_half why x h = (case h of
     Inl r \<Rightarrow> ts_pass why x r
   | Inr x' \<Rightarrow> ts_same x x' \<and> ts_connections (tsx_ts x') = ts_connections (tsx_ts x)
              \<and> tsc_state (tsx_c x') = tsc_state (tsx_c x) \<and> ts_counted (tsx_ts x') (tsx_c x'))"

lemma ts_time_stamp_frame [simp]:
  "tsx_c (ts_time_stamp s x) = tsx_c x"
  "ts_downBlockSize (tsx_ts (ts_time_stamp s x)) = ts_downBlockSize (tsx_ts x)"
  "ts_upBlockSize (tsx_ts (ts_time_stamp s x)) = ts_upBlockSize (tsx_ts x)"
  "ts_listenSockd (tsx_ts (ts_time_stamp s x)) = ts_listenSockd (tsx_ts x)"
  "ts_connections (tsx_ts (ts_time_stamp s x)) = ts_connections (tsx_ts x)"
  by (simp_all add: ts_time_stamp_def Let_def split: option.splits prod.splits)

lemma ts_transfer_down_half:
  assumes inv: "ts_counted (tsx_ts x) (tsx_c x)" and st: "tsc_state (tsx_c x) = TS_TRANSFER"
  shows "ts_half (ts_unterminated stack (tsx_w x)) x (ts_transfer_down stack events x)"
proof (cases "EPOLLIN \<in> set events \<and> tsc_down (tsx_c x) < ts_downBlockSize (tsx_ts x)")
  case False
  with assms show ?thesis by (auto simp: ts_transfer_down_def ts_half_def ts_same_def)
next
  case True
  define n where "n = nat (ts_downBlockSize (tsx_ts x) - tsc_down (tsx_c x))"
  obtain a w where rc: "sys_recv (min n TS_BUF_SIZE) (tsx_w x) = (a, w)" by fastforce
  show ?thesis
  proof (cases a)
    case (Inl e)
    with True rc inv show ?thesis by (auto simp: ts_transfer_down_def ts_half_def ts_simps n_def)
  next
    case (Inr bs)
    have bs: "length bs \<le> n" "arriving (tsx_w x) = bs @ arriving w"
      using rc Inr sys_recv_Inr(1) [of "min n TS_BUF_SIZE" "tsx_w x" bs w] by (auto dest: sys_recv_arriving(1))
    have un: "ts_unterminated stack (tsx_w x)" if "bs \<noteq> []" "array_str TS_BUF_SIZE (overlay bs stack) = None"
      using bs that by (auto simp: ts_unterminated_def)
    have down: "tsc_down (tsx_c x) + int (length bs) \<le> ts_downBlockSize (tsx_ts x)"
      using bs(1) True by (auto simp: n_def)
    show ?thesis
      using True rc Inr inv st un down
      by (auto simp: ts_transfer_down_def ts_half_def ts_simps n_def split: option.splits)
  qed
qed

lemma ts_transfer_up_half:
  assumes inv: "ts_counted (tsx_ts x) (tsx_c x)" and st: "tsc_state (tsx_c x) = TS_TRANSFER"
  shows "ts_half (16380 < ts_upBlockSize (tsx_ts x)) x (ts_transfer_up events x)"
proof (cases "EPOLLOUT \<in> set events \<and> tsc_up (tsx_c x) < ts_upBlockSize (tsx_ts x)")
  case False
  with assms show ?thesis by (auto simp: ts_transfer_up_def ts_half_def ts_same_def)
next
  case True
  define len where "len = min (nat (ts_upBlockSize (tsx_ts x) - tsc_up (tsx_c x))) TS_BUF_SIZE"
  show ?thesis
  proof (cases "torrentServer_populateCookies len (tsc_cookie (tsx_c x))")
    case None
    then have "16380 < len" by (simp add: torrentServer_populateCookies_def populate_from_None)
    moreover have "0 \<le> tsc_up (tsx_c x)" using inv by (simp add: ts_counted_def)
    ultimately have "16380 < ts_upBlockSize (tsx_ts x)" by (auto simp: len_def)
    with True None inv show ?thesis by (simp add: ts_transfer_up_def ts_half_def ts_pass_def ts_same_def len_def Let_def)
  next
    case (Some buf)
    obtain a w where sn: "sys_send (tsc_sockd (tsx_c x)) (take len buf) (tsx_w x) = (a, w)" by fastforce
    show ?thesis
    proof (cases a)
      case (Inl e)
      with True Some sn inv show ?thesis by (auto simp: ts_transfer_up_def ts_half_def ts_simps len_def)
    next
      case (Inr k)
      have "k \<le> len" using sn Inr sys_send_Inr(1) [of "tsc_sockd (tsx_c x)" "take len buf" "tsx_w x" k w] by simp
      then have "tsc_up (tsx_c x) + int k \<le> ts_upBlockSize (tsx_ts x)" using True by (auto simp: len_def)
      with True Some sn Inr inv st show ?thesis
        by (auto simp: ts_transfer_up_def ts_half_def ts_simps len_def)
    qed
  qed
qed

lemma ts_transfer_next_pass:
  assumes "ts_counted (tsx_ts x) (tsx_c x)"
  shows "ts_pass why x (Ret TS_SUCCESS, ts_transfer_next x)"
  using assms by (auto simp: ts_transfer_next_def ts_simps)

lemma ts_pass_trans:
  assumes "ts_same x x1" "ts_connections (tsx_ts x1) = ts_connections (tsx_ts x)" "ts_pass why x1 r"
  shows "ts_pass why x r"
  using assms by (auto simp: ts_pass_def ts_same_def split: prod.splits)

lemma ts_pass_mono: "ts_pass why x r \<Longrightarrow> (why \<Longrightarrow> why') \<Longrightarrow> ts_pass why' x r"
  by (auto simp: ts_pass_def split: prod.splits)

lemma ts_transfer_pass:
  assumes inv: "ts_counted (tsx_ts x) (tsx_c x)" and st: "tsc_state (tsx_c x) = TS_TRANSFER"
  shows "ts_pass (16380 < ts_upBlockSize (tsx_ts x) \<or> ts_unterminated stack (tsx_w x)) x (ts_transfer stack events x)"
proof (cases "ts_transfer_down stack events x")
  case (Inl r)
  with ts_transfer_down_half [OF assms, of stack events] show ?thesis
    by (auto simp: ts_transfer_def ts_half_def intro: ts_pass_mono)
next
  case (Inr x1)
  with ts_transfer_down_half [OF assms, of stack events]
  have x1: "ts_same x x1" "ts_connections (tsx_ts x1) = ts_connections (tsx_ts x)"
    "ts_counted (tsx_ts x1) (tsx_c x1)" "tsc_state (tsx_c x1) = TS_TRANSFER" using st by (simp_all add: ts_half_def)
  have block: "ts_upBlockSize (tsx_ts x1) = ts_upBlockSize (tsx_ts x)" using x1(1) by (simp add: ts_same_def)
  note up = ts_transfer_up_half [OF x1(3,4), of events]
  show ?thesis
  proof (cases "ts_transfer_up events x1")
    case (Inl r)
    with up have "ts_pass (16380 < ts_upBlockSize (tsx_ts x1)) x1 r" by (simp add: ts_half_def)
    from ts_pass_mono [OF ts_pass_trans [OF x1(1,2) this]] block Inl Inr show ?thesis
      by (auto simp: ts_transfer_def)
  next
    case (Inr x2)
    with up have x2: "ts_same x1 x2" "ts_connections (tsx_ts x2) = ts_connections (tsx_ts x1)"
      "ts_counted (tsx_ts x2) (tsx_c x2)" by (simp_all add: ts_half_def)
    from ts_pass_trans [OF x1(1,2) ts_pass_trans [OF x2(1,2) ts_transfer_next_pass [OF x2(3)]]]
    show ?thesis using Inr \<open>ts_transfer_down stack events x = Inr x1\<close> by (simp add: ts_transfer_def)
  qed
qed

lemma ts_idle_facts:
  "ts_same x (ts_idle x)" "ts_connections (tsx_ts (ts_idle x)) = ts_connections (tsx_ts x)"
  "ts_counted (tsx_ts (ts_idle x)) (tsx_c (ts_idle x))" "arriving (tsx_w (ts_idle x)) = arriving (tsx_w x)"
  by (simp_all add: ts_idle_def ts_simps)

lemma ts_step_pass:
  assumes "ts_counted (tsx_ts x) (tsx_c x)"
  shows "ts_pass (16380 < ts_upBlockSize (tsx_ts x) \<or> ts_unterminated stack (tsx_w x)) x (ts_step stack events x)"
proof (cases "tsc_state (tsx_c x)")
  case TS_IDLE
  have "ts_unterminated stack (tsx_w (ts_idle x)) = ts_unterminated stack (tsx_w x)"
    by (simp add: ts_unterminated_def ts_idle_facts(4))
  with ts_pass_trans [OF ts_idle_facts(1,2) ts_request_pass [OF ts_idle_facts(3)], of stack x] TS_IDLE
  show ?thesis by (auto simp: ts_step_def intro: ts_pass_mono)
next
  case TS_TRANSFER
  with ts_transfer_pass [OF assms TS_TRANSFER] show ?thesis by (simp add: ts_step_def)
next
  case TS_REQUEST
  with ts_request_pass [OF assms, of stack] show ?thesis by (auto simp: ts_step_def intro: ts_pass_mono)
qed (use assms ts_auth_register_pass ts_finished_pass in \<open>auto simp: ts_step_def ts_pass_def ts_same_def\<close>)

section \<open>Always returning\<close>

lemma ts_okI:
  "(\<And>k c. map_of (ts_connections ts) k = Some c \<Longrightarrow> tsc_sockd c = k \<and> ts_counted ts c) \<Longrightarrow> ts_ok ts"
  by (simp add: ts_ok_def)

lemma ts_okD: "ts_ok ts \<Longrightarrow> map_of (ts_connections ts) k = Some c \<Longrightarrow> tsc_sockd c = k \<and> ts_counted ts c"
  by (simp add: ts_ok_def)

lemma ts_new_conn_counted: "st \<noteq> TS_FINISHED \<Longrightarrow> ts_counted ts (ts_new_conn sd addr st)"
  by (simp add: ts_new_conn_def ts_counted_def)

lemma ts_accept_cases:
  assumes ok: "ts_ok ts" and acc: "torrentServer_accept ts w = (r, ts', w')"
  shows "ts_ok ts' \<and> (r = TS_SUCCESS \<longrightarrow> length (w_accept w') < length (w_accept w))"
proof (cases "sys_accept w")
  case (Pair a w1)
  show ?thesis
  proof (cases a)
    case (Inl e)
    with Pair acc ok show ?thesis by (auto simp: torrentServer_accept_def)
  next
    case (Inr b)
    obtain sd addr where b: "b = (sd, addr)" by fastforce
    obtain okay w2 where e: "epoll_ctl CtlAdd sd [EPOLLIN] w1 = (okay, w2)" by fastforce
    have "w_accept w2 = w_accept w1" using epoll_ctl_frame(3) [of CtlAdd sd "[EPOLLIN]" w1] e by simp
    then have less: "length (w_accept w2) < length (w_accept w)"
      using Pair Inr by (auto simp: sys_accept_def split: list.splits)
    have new: "tsc_sockd (ts_new_conn sd addr TS_IDLE) = sd" by (simp add: ts_new_conn_def)
    have same: "ts_counted (ts\<lparr>ts_connections := al\<rparr>) d = ts_counted ts d" for al d by (simp add: ts_counted_def)
    have "ts_ok (ts\<lparr>ts_connections := AList.update sd (ts_new_conn sd addr TS_IDLE) (ts_connections ts)\<rparr>)"
      using ts_okD [OF ok] new ts_new_conn_counted [of TS_IDLE ts sd addr]
      by (intro ts_okI) (auto simp: same split: if_splits)
    with Pair Inr b e acc ok less show ?thesis
      by (auto simp: torrentServer_accept_def torrentServer_connection_destroy_cb_def split: option.splits if_splits)
  qed
qed

interpretation ts_loop: handler_loop ts_accept_step "\<lambda>(ts, w). ts_ok ts"
  "\<lambda>(ts, w). length (w_accept w)" "\<lambda>r (ts, w). ts_ok ts"
  by unfold_locales
     (auto simp: ts_accept_step_def split: prod.splits if_splits dest: ts_accept_cases)

lemma ts_ok_write_back:
  assumes ok: "ts_ok ts" and same: "ts_same \<lparr>tsx_ts = ts, tsx_c = c, tsx_w = w\<rparr> x"
    and cnt: "ts_counted (tsx_ts x) (tsx_c x)"
  shows "ts_ok (ts_write_back x)"
proof (rule ts_okI)
  fix k d assume d: "map_of (ts_connections (ts_write_back x)) k = Some d"
  have eq: "ts_counted (ts_write_back x) e = ts_counted ts e" for e
    using same by (simp add: ts_counted_def ts_write_back_def ts_same_def)
  have sd: "tsc_sockd (tsx_c x) = tsc_sockd c" using same by (simp add: ts_same_def)
  have cx: "ts_counted ts (tsx_c x)" using cnt same by (simp add: ts_counted_def ts_same_def)
  show "tsc_sockd d = k \<and> ts_counted (ts_write_back x) d"
  proof (cases "k = tsc_sockd c")
    case True
    with d sd have "d = tsx_c x" by (auto simp: ts_write_back_def)
    with True sd cx eq show ?thesis by simp
  next
    case False
    with d sd same have "map_of (ts_connections ts) k = Some d"
      by (auto simp: ts_write_back_def ts_same_def split: if_splits)
    with ts_okD [OF ok] eq show ?thesis by simp
  qed
qed

lemma torrentServer_activate_facts:
  assumes ok: "ts_ok ts"
  shows "\<exists>r ts' w'. torrentServer_activate stack ts sd events w = Some (r, ts', w') \<and> ts_ok ts' \<and> r \<noteq> AssertFail
           \<and> (r = UB \<longrightarrow> 16380 < ts_upBlockSize ts \<or> ts_unterminated stack w)"
proof (cases "0 \<le> sd \<and> sd \<noteq> ts_listenSockd ts \<and> map_of (ts_connections ts) sd \<noteq> None")
  case False
  then show ?thesis
    using ok ts_loop.returns_with_post [of "(ts, w)"] by (auto simp: torrentServer_activate_def split: option.splits)
next
  case True
  then obtain c where c: "map_of (ts_connections ts) sd = Some c" by auto
  let ?x = "\<lparr>tsx_ts = ts, tsx_c = c, tsx_w = w\<rparr>"
  obtain r x where step: "ts_step stack events ?x = (r, x)" by fastforce
  have "ts_counted (tsx_ts ?x) (tsx_c ?x)" using ts_okD [OF ok c] by simp
  from ts_step_pass [OF this, of stack events] step have pass: "ts_same ?x x" "ts_counted (tsx_ts x) (tsx_c x)"
    "r \<noteq> AssertFail" "r = UB \<longrightarrow> 16380 < ts_upBlockSize ts \<or> ts_unterminated stack w" by (simp_all add: ts_pass_def)
  with ts_ok_write_back [OF ok pass(1,2)] True c step show ?thesis
    by (auto simp: torrentServer_activate_def)
qed

text \<open>
  C15: the torrent server always returns, keeps its counters within the blocks and never
  announces the end of a block before all of it has gone both ways; what it does is
  undefined at most when a block of more than 16380 bytes is sent or what arrives has no
  NUL behind it in the buffer.
\<close>

theorem server_returns_safely:
  assumes ok: "ts_ok ts"
  shows "\<exists>r ts' w'. torrentServer_activate stack ts sd events w = Some (r, ts', w') \<and> ts_ok ts' \<and> r \<noteq> AssertFail
           \<and> (r = UB \<longrightarrow> 16380 < ts_upBlockSize ts \<or> ts_unterminated stack w)"
  using assms by (rule torrentServer_activate_facts)

definition demo_ts :: ts_server where
  "demo_ts = \<lparr>ts_epolld = 3, ts_listenSockd = 4, ts_authSockd = 5, ts_serverPort = 80,
     ts_connections = [(6, \<lparr>tsc_sockd = 6, tsc_addr = 9, tsc_state = TS_TRANSFER, tsc_down = 0, tsc_up = 0, tsc_cookie = 7\<rparr>)],
     ts_downBlockSize = 100, ts_upBlockSize = 100, ts_errcode = TS_SUCCESS, ts_packetInfo = []\<rparr>"

lemma demo_ts_ok: "ts_ok demo_ts"
  by (rule ts_okI) (auto simp: demo_ts_def ts_counted_def split: if_splits)

theorem server_returns_safely_witness:
  "\<exists>r ts' w'. torrentServer_activate [] demo_ts 6 [EPOLLOUT] quiet_world = Some (r, ts', w') \<and> ts_ok ts' \<and> r \<noteq> UB"
proof -
  have "\<not> ts_unterminated [] quiet_world" by (simp add: ts_unterminated_def arriving_def quiet_world_def)
  then show ?thesis
    using server_returns_safely [OF demo_ts_ok, of "[]" 6 "[EPOLLOUT]" quiet_world] by (auto simp: demo_ts_def)
qed

text \<open>
  With the default block of 16 kilobytes the first piece a server sends is written past
  the end of its buffer, whatever the client and the kernel do.
\<close>

theorem default_block_overflows:
  assumes "0 \<le> sd" "sd \<noteq> ts_listenSockd ts" "map_of (ts_connections ts) sd = Some c"
    and "tsc_state c = TS_TRANSFER" "tsc_up c = 0" "ts_upBlockSize ts = 16 * 1024"
  shows "\<exists>ts' w'. torrentServer_activate stack ts sd [EPOLLOUT] w = Some (UB, ts', w')"
proof -
  have "torrentServer_populateCookies TS_BUF_SIZE (tsc_cookie c) = None"
    by (simp add: torrentServer_populateCookies_def populate_from_None TS_BUF_SIZE_def)
  moreover have "min (nat (16 * 1024)) TS_BUF_SIZE = TS_BUF_SIZE" by (simp add: TS_BUF_SIZE_def)
  ultimately have "ts_step stack [EPOLLOUT] \<lparr>tsx_ts = ts, tsx_c = c, tsx_w = w\<rparr> = (UB, \<lparr>tsx_ts = ts, tsx_c = c, tsx_w = w\<rparr>)"
    using assms by (simp add: ts_step_def ts_transfer_def ts_transfer_down_def ts_transfer_up_def)
  then show ?thesis using assms(1-3) by (simp add: torrentServer_activate_def)
qed

theorem default_block_overflows_witness:
  "\<exists>ts' w'. torrentServer_activate [] (demo_ts\<lparr>ts_upBlockSize := 16 * 1024\<rparr>) 6 [EPOLLOUT] quiet_world = Some (UB, ts', w')"
  by (rule default_block_overflows
        [where c = "\<lparr>tsc_sockd = 6, tsc_addr = 9, tsc_state = TS_TRANSFER, tsc_down = 0, tsc_up = 0, tsc_cookie = 7\<rparr>"])
     (simp_all add: demo_ts_def)

end
