(* ===== verification/Torrent_Client.thy ===== *)
theory Torrent_Client
  imports Torrent_Server "HOL-Library.Signed_Division"
begin

text \<open>
  The torrent client (\<open>torrent/torrent-client.c\<close>, \<open>torrent-client.h\<close>): it asks the
  authority for servers, connects to each of them (directly or through a SOCKS5 proxy) and
  fetches the blocks of a file from whichever server is free.

  The servers are objects that the list \<open>servers\<close>, the table \<open>connections\<close> and the field
  \<open>currentBlockTransfer\<close> share; no object is ever freed, so \<open>tc_heap\<close> is a growing list and an
  address is an index.  \<open>tp_buf\<close> is the list of the bytes below \<open>buf_write_offset\<close>.  The
  counters of one block stay below the block size and are mathematical integers; the totals
  over all blocks are checked for the range of a \<open>gint\<close>.
\<close>

section \<open>Data\<close>

definition TC_BUF_SIZE :: nat where "TC_BUF_SIZE = 16384"

definition TC_SOCKS_INIT :: string where "TC_SOCKS_INIT = [CHR 0x05, CHR 0x01, CHR 0x00]"
definition TC_SOCKS_REQ_HEAD :: string where
  "TC_SOCKS_REQ_HEAD = [CHR 0x05, CHR 0x01, CHR 0x00, CHR 0x01]"

datatype tc_state =
    TC_SOCKS_REQUEST_INIT | TC_SOCKS_TOREPLY_INIT | TC_SOCKS_REPLY_INIT
  | TC_SOCKS_REQUEST_CONN | TC_SOCKS_TOREPLY_CONN | TC_SOCKS_REPLY_CONN
  | TC_SEND | TC_RECEIVE | TC_AUTH_REQUEST_NODES | TC_AUTH_RECEIVE_NODES | TC_AUTH_IDLE
  | TC_SERVER_REQUEST | TC_SERVER_TRANSFER | TC_SERVER_FINISHED | TC_SERVER_IDLE | TC_SERVER_INVALID

record tc_peer =
  tp_addr :: u32
  tp_port :: u16
  tp_sockd :: fd
  tp_state :: tc_state
  tp_nextstate :: tc_state
  tp_buf :: string
  tp_buf_read_offset :: nat
  tp_cookie :: u32
  tp_down :: int
  tp_up :: int
  tp_download_start :: timespec
  tp_download_first_byte :: timespec
  tp_download_end :: timespec

record tc_client =
  tc_epolld :: fd
  tc_sockd :: fd
  tc_authSockd :: fd
  tc_serverPort :: u16
  tc_maxConnections :: int
  tc_servers :: "nat list"
  tc_connections :: "(fd \<times> nat) list"
  tc_heap :: "tc_peer list"
  tc_lastServerListFetch :: timespec
  tc_socksAddr :: u32
  tc_socksPort :: u16
  tc_authAddr :: u32
  tc_authPort :: u16
  tc_errcode :: tc_code
  tc_totalBytesDown :: int
  tc_totalBytesUp :: int
  tc_bytesInProgress :: int
  tc_fileSize :: int
  tc_downBlockSize :: int
  tc_upBlockSize :: int
  tc_blocksDownloaded :: int
  tc_blocksRemaining :: int
  tc_numBlocks :: int
  tc_download_start :: timespec
  tc_download_first_byte :: timespec
  tc_currentBlockTransfer :: "nat option"

type_synonym tc_ctx = "tc_client \<times> world"

definition gint_ok :: "int \<Rightarrow> bool" where
  "gint_ok i \<longleftrightarrow> - (2 ^ 31) \<le> i \<and> i < 2 ^ 31"

text \<open>An object from \<open>g_new0\<close>.\<close>

definition tc_zero_time :: timespec where "tc_zero_time = \<lparr>tv_sec = 0, tv_nsec = 0\<rparr>"

definition tc_new_peer :: "u32 \<Rightarrow> u16 \<Rightarrow> fd \<Rightarrow> tc_state \<Rightarrow> u32 \<Rightarrow> tc_peer" where
  "tc_new_peer addr port sockd st cookie =
     \<lparr>tp_addr = addr, tp_port = port, tp_sockd = sockd, tp_state = st,
      tp_nextstate = TC_SOCKS_REQUEST_INIT, tp_buf = [], tp_buf_read_offset = 0, tp_cookie = cookie,
      tp_down = 0, tp_up = 0, tp_download_start = tc_zero_time,
      tp_download_first_byte = tc_zero_time, tp_download_end = tc_zero_time\<rparr>"

text \<open>Assignment to fields of the object at an address.\<close>

definition tc_upd :: "nat \<Rightarrow> (tc_peer \<Rightarrow> tc_peer) \<Rightarrow> tc_client \<Rightarrow> tc_client" where
  "tc_upd p f tc = tc\<lparr>tc_heap := (tc_heap tc)[p := f (tc_heap tc ! p)]\<rparr>"

definition torrentClient_changeEpoll :: "fd \<Rightarrow> epoll_ev list \<Rightarrow> world \<Rightarrow> tc_code \<times> world" where
  "torrentClient_changeEpoll sockd evs w =
     (let (ok, w1) = epoll_ctl CtlMod sockd evs w in (if ok then TC_SUCCESS else TC_ERR_EPOLL, w1))"

text \<open>Every caller ignores the result.\<close>

definition tc_epoll :: "fd \<Rightarrow> epoll_ev list \<Rightarrow> tc_ctx \<Rightarrow> tc_ctx" where
  "tc_epoll sockd evs = (\<lambda>(tc, w). (tc, snd (torrentClient_changeEpoll sockd evs w)))"

section \<open>The payload\<close>

text \<open>
  The loop bound \<open>length - strlen(filler)\<close> is a \<open>size_t\<close>.  \<open>None\<close> when a copy leaves the
  array.
\<close>

definition tc_filler :: "u32 \<Rightarrow> timespec \<Rightarrow> string" where
  "tc_filler cookie now =
     ''TOR-COOKIE: '' @ show_cookie cookie @ crlf @ ''TIME: ''
       @ show_nat (nat (TIME_TO_NS now mod 2 ^ 64)) @ crlf"

function fill_from :: "nat \<Rightarrow> string \<Rightarrow> nat \<Rightarrow> string \<Rightarrow> string option" where
  "fill_from bound filler i buf =
     (if filler \<noteq> [] \<and> i < bound
      then if i + length filler \<le> TC_BUF_SIZE
           then fill_from bound filler (i + length filler) (write_at i filler buf)
           else None
      else Some buf)"
  by auto
termination
  by (relation "measure (\<lambda>(b, f, i, buf). TC_BUF_SIZE + length f - i)") (auto simp flip: length_greater_0_conv)

declare fill_from.simps [simp del]

definition torrentClient_fillBuffer :: "nat \<Rightarrow> string \<Rightarrow> string option" where
  "torrentClient_fillBuffer len filler =
     fill_from (nat ((int len - int (length filler)) mod 2 ^ 64)) filler 0 (replicate len NUL)"

section \<open>Connecting, starting, closing\<close>

definition torrentClient_connect :: "u32 \<Rightarrow> u16 \<Rightarrow> world \<Rightarrow> int \<times> world" where
  "torrentClient_connect addr port w =
     (case sys_socket w of
        (Inl e, w1) \<Rightarrow> (tc_num TC_ERR_SOCKET, w1)
      | (Inr sockd, w1) \<Rightarrow>
          (let (result, w2) = sys_connect sockd addr port w1 in
           if result \<noteq> None \<and> result \<noteq> Some EINPROGRESS then (tc_num TC_ERR_CONNECT, w2)
           else let (ok, w3) = epoll_ctl CtlAdd sockd [EPOLLOUT] w2
                in if \<not> ok then (tc_num TC_ERR_EPOLL, w3) else (sockd, w3)))"

text \<open>No reference to an object of an earlier start is left, so the heap starts empty.\<close>

definition tc_initialised ::
    "tc_client \<Rightarrow> fd \<Rightarrow> u32 \<Rightarrow> u16 \<Rightarrow> u32 \<Rightarrow> u16 \<Rightarrow> u16 \<Rightarrow> int \<Rightarrow> int \<Rightarrow> int \<Rightarrow> tc_client" where
  "tc_initialised tc epolld socksAddr socksPort authAddr authPort serverPort fileSize down up =
     (let n = (fileSize + down - 1) sdiv down in
      tc\<lparr>tc_serverPort := serverPort, tc_maxConnections := -1, tc_epolld := epolld, tc_servers := [],
         tc_connections := [], tc_heap := [], tc_socksAddr := socksAddr, tc_socksPort := socksPort,
         tc_authAddr := authAddr, tc_authPort := authPort, tc_totalBytesDown := 0,
         tc_totalBytesUp := 0, tc_fileSize := fileSize, tc_downBlockSize := down,
         tc_upBlockSize := up, tc_bytesInProgress := 0, tc_numBlocks := n, tc_blocksRemaining := n,
         tc_blocksDownloaded := 0, tc_currentBlockTransfer := None\<rparr>)"

definition torrentClient_start ::
    "tc_client \<Rightarrow> fd \<Rightarrow> u32 \<Rightarrow> u16 \<Rightarrow> u32 \<Rightarrow> u16 \<Rightarrow> u16 \<Rightarrow> int \<Rightarrow> int \<Rightarrow> int \<Rightarrow> world
      \<Rightarrow> int ret \<times> tc_client \<times> world" where
  "torrentClient_start tc epolld socksAddr socksPort authAddr authPort serverPort fileSize down up w =
     (if down = 0 \<or> \<not> gint_ok (fileSize + down) \<or> \<not> gint_ok (fileSize + down - 1)
         \<or> \<not> gint_ok ((fileSize + down - 1) sdiv down)
      then (UB, tc, w)
      else let tc1 = tc_initialised tc epolld socksAddr socksPort authAddr authPort serverPort fileSize down up;
               (sockd, w1) = torrentClient_connect authAddr authPort w
           in if sockd < 0 then (Ret sockd, tc1, w1)
              else let p = length (tc_heap tc1);
                       tc2 = tc1\<lparr>tc_authSockd := sockd,
                                 tc_heap := tc_heap tc1 @ [tc_new_peer authAddr authPort sockd TC_AUTH_REQUEST_NODES 0],
                                 tc_connections := AList.update sockd p (tc_connections tc1)\<rparr>;
                       (tc3, w3) = tc_epoll sockd [EPOLLOUT] (tc2, w1)
                   in (Ret 0, tc3, w3))"

definition torrentClient_connectionClose :: "nat \<Rightarrow> bool \<Rightarrow> tc_ctx \<Rightarrow> tc_ctx" where
  "torrentClient_connectionClose p closeSocket = (\<lambda>(tc, w).
     (let sockd = tp_sockd (tc_heap tc ! p);
          w1 = snd (epoll_ctl CtlDel sockd [] w);
          tc1 = tc_upd p (\<lambda>s. s\<lparr>tp_state := TC_SERVER_IDLE\<rparr>)
                  (tc\<lparr>tc_connections := AList.delete sockd (tc_connections tc),
                      tc_servers := tc_servers tc @ [p]\<rparr>)
      in if closeSocket
         then (tc_upd p (\<lambda>s. s\<lparr>tp_sockd := 0\<rparr>) tc1, snd (sys_close sockd w1))
         else (tc1, w1)))"

text \<open>
  The loop over \<open>servers\<close>, from position \<open>i\<close> on.  Closing a connection appends its server
  to the list the loop runs over.
\<close>

definition tc_open :: "tc_client \<Rightarrow> nat" where
  "tc_open tc = length (filter (\<lambda>s. tp_sockd s \<noteq> 0) (tc_heap tc))"

lemma filter_update_less:
  "p < length xs \<Longrightarrow> P (xs ! p) \<Longrightarrow> \<not> P y \<Longrightarrow> length (filter P (xs[p := y])) < length (filter P xs)"
  by (induction xs arbitrary: p) (auto split: nat.splits)

lemma tc_open_close:
  assumes "p < length (tc_heap tc)" "tp_sockd (tc_heap tc ! p) \<noteq> 0"
  shows "tc_open (fst (torrentClient_connectionClose p True (tc, w))) < tc_open tc"
  using filter_update_less [of p "tc_heap tc" "\<lambda>s. tp_sockd s \<noteq> 0"
      "(tc_heap tc ! p)\<lparr>tp_state := TC_SERVER_IDLE, tp_sockd := 0\<rparr>"] assms
  by (simp add: torrentClient_connectionClose_def tc_open_def tc_upd_def Let_def)

function tc_shutdown_from :: "nat \<Rightarrow> tc_ctx \<Rightarrow> unit ret \<times> tc_ctx" where
  "tc_shutdown_from i (tc, w) =
     (if i < length (tc_servers tc)
      then let p = tc_servers tc ! i in
           if length (tc_heap tc) \<le> p then (UB, tc, w)
           else if tp_sockd (tc_heap tc ! p) \<noteq> 0
           then tc_shutdown_from (Suc i) (torrentClient_connectionClose p True (tc, w))
           else tc_shutdown_from (Suc i) (tc, w)
      else (Ret (), tc, w))"
  by pat_completeness auto
termination
proof (relation "measures [\<lambda>(i, tc, w). tc_open tc, \<lambda>(i, tc, w). length (tc_servers tc) - i]", goal_cases)
  case (2 i tc w x)
  then show ?case
    using tc_open_close [of x tc w]
    by (cases "torrentClient_connectionClose x True (tc, w)") simp
qed auto

declare tc_shutdown_from.simps [simp del]

definition torrentClient_shutdown :: "tc_client \<Rightarrow> world \<Rightarrow> tc_code ret \<times> tc_client \<times> world" where
  "torrentClient_shutdown tc w =
     (case tc_shutdown_from 0 (tc, w) of
        (Ret _, tc1, w1) \<Rightarrow> (Ret TC_SUCCESS, tc1\<lparr>tc_connections := []\<rparr>, w1)
      | (_, tc1, w1) \<Rightarrow> (UB, tc1, w1))"

section \<open>The states of a server\<close>

text \<open>
  The handler of the object \<open>p\<close> with descriptor \<open>sockd\<close>.  \<open>tc_at\<close> is \<open>server->...\<close>.
\<close>

abbreviation tc_at :: "tc_client \<Rightarrow> nat \<Rightarrow> tc_peer" where "tc_at tc p \<equiv> tc_heap tc ! p"

type_synonym tc_result = "(tc_code ret, tc_ctx) outcome"

definition tc_goto :: "nat \<Rightarrow> tc_state \<Rightarrow> tc_client \<Rightarrow> tc_client" where
  "tc_goto p st = tc_upd p (\<lambda>s. s\<lparr>tp_state := st\<rparr>)"

definition tc_io :: "nat \<Rightarrow> tc_state \<Rightarrow> tc_state \<Rightarrow> tc_client \<Rightarrow> tc_client" where
  "tc_io p st next = tc_upd p (\<lambda>s. s\<lparr>tp_state := st, tp_nextstate := next\<rparr>)"

definition tc_append :: "nat \<Rightarrow> string \<Rightarrow> tc_client \<Rightarrow> tc_client" where
  "tc_append p bs = tc_upd p (\<lambda>s. s\<lparr>tp_buf := tp_buf s @ bs\<rparr>)"

text \<open>\<open>TC_ASSERTIO\<close>.\<close>

definition tc_send_allowed :: "errno \<Rightarrow> bool" where
  "tc_send_allowed e \<longleftrightarrow> e = EWOULDBLOCK \<or> e = ENOTCONN \<or> e = EALREADY"

definition tc_io_failed :: "bool \<Rightarrow> tc_code \<Rightarrow> tc_ctx \<Rightarrow> tc_result" where
  "tc_io_failed allowed code = (\<lambda>(tc, w).
     if allowed then Exit (Ret TC_ERR_WOULDBLOCK) (tc, w)
     else Exit (Ret TC_ERR_FATAL) (tc\<lparr>tc_errcode := code\<rparr>, w))"

definition tc_io_closed :: "tc_ctx \<Rightarrow> tc_result" where
  "tc_io_closed = (\<lambda>(tc, w). Exit (Ret TC_ERR_FATAL) (tc\<lparr>tc_errcode := TC_CLOSED\<rparr>, w))"

subsection \<open>The SOCKS5 handshake\<close>

definition tc_socks_request_init :: "fd \<Rightarrow> nat \<Rightarrow> tc_ctx \<Rightarrow> tc_result" where
  "tc_socks_request_init sockd p = (\<lambda>(tc, w).
     if TC_BUF_SIZE - length (tp_buf (tc_at tc p)) < length TC_SOCKS_INIT then Exit AssertFail (tc, w)
     else Again (tc_epoll sockd [EPOLLOUT]
            (tc_io p TC_SEND TC_SOCKS_TOREPLY_INIT (tc_append p TC_SOCKS_INIT tc), w)))"

definition tc_socks_toreply :: "tc_state \<Rightarrow> fd \<Rightarrow> nat \<Rightarrow> tc_ctx \<Rightarrow> tc_result" where
  "tc_socks_toreply reply sockd p x =
     (case tc_epoll sockd [EPOLLIN] x of (tc, w) \<Rightarrow> Again (tc_io p TC_RECEIVE reply tc, w))"

text \<open>Byte \<open>i\<close> of what has been received and not been read yet.\<close>

definition tc_byte :: "nat \<Rightarrow> nat \<Rightarrow> tc_client \<Rightarrow> char" where
  "tc_byte p i tc = (let s = tc_at tc p in tp_buf s ! (tp_buf_read_offset s + i))"

definition tc_unread :: "nat \<Rightarrow> tc_client \<Rightarrow> string" where
  "tc_unread p tc = (let s = tc_at tc p in drop (tp_buf_read_offset s) (tp_buf s))"

definition tc_skip :: "nat \<Rightarrow> nat \<Rightarrow> tc_client \<Rightarrow> tc_client" where
  "tc_skip p n = tc_upd p (\<lambda>s. s\<lparr>tp_buf_read_offset := tp_buf_read_offset s + n\<rparr>)"

definition tc_socks_reply_init :: "nat \<Rightarrow> tc_ctx \<Rightarrow> tc_result" where
  "tc_socks_reply_init p = (\<lambda>(tc, w).
     if length (tc_unread p tc) < 2 then Again (tc_goto p TC_SOCKS_TOREPLY_INIT tc, w)
     else if tc_byte p 0 tc \<noteq> CHR 0x05 then Exit (Ret TC_ERR_SOCKSINIT) (tc, w)
     else if tc_byte p 1 tc \<noteq> CHR 0x00 then Exit (Ret TC_ERR_SOCKSINIT) (tc, w)
     else Again (tc_goto p TC_SOCKS_REQUEST_CONN (tc_skip p 2 tc), w))"

definition tc_socks_request :: "tc_peer \<Rightarrow> string" where
  "tc_socks_request s = TC_SOCKS_REQ_HEAD @ addr_port_bytes (tp_addr s, htons (tp_port s))"

definition tc_socks_request_conn :: "fd \<Rightarrow> nat \<Rightarrow> tc_ctx \<Rightarrow> tc_result" where
  "tc_socks_request_conn sockd p = (\<lambda>(tc, w).
     if TC_BUF_SIZE - length (tp_buf (tc_at tc p)) < length TC_SOCKS_REQ_HEAD + 6 then Exit AssertFail (tc, w)
     else Again (tc_epoll sockd [EPOLLOUT]
            (tc_io p TC_SEND TC_SOCKS_TOREPLY_CONN (tc_append p (tc_socks_request (tc_at tc p)) tc), w)))"

text \<open>
  The bound address is where the client reconnects.  The result of the connect is compared
  with \<open>TC_SUCCESS\<close> although it is a descriptor; \<open>tc->sockd\<close> is what is closed.
\<close>

definition tc_socks_rebind :: "nat \<Rightarrow> tc_ctx \<Rightarrow> bool \<times> tc_ctx" where
  "tc_socks_rebind p = (\<lambda>(tc, w).
     (let u = tc_unread p tc;
          addr = of_nat (le_value (take 4 (drop 4 u))) :: u32;
          port = of_nat (le_value (take 2 (drop 8 u))) :: u16;
          tc1 = tc_skip p 10 tc
      in if addr \<noteq> 0 \<and> port \<noteq> 0
         then let w1 = snd (sys_close (tc_sockd tc1) w);
                  (result, w2) = torrentClient_connect addr port w1
              in (result = tc_num TC_SUCCESS, (tc1, w2))
         else (True, (tc1, w))))"

definition tc_socks_reply_conn :: "fd \<Rightarrow> nat \<Rightarrow> tc_ctx \<Rightarrow> tc_result" where
  "tc_socks_reply_conn sockd p = (\<lambda>(tc, w).
     if length (tc_unread p tc) < 10 then Again (tc_goto p TC_SOCKS_TOREPLY_CONN tc, w)
     else if tc_byte p 0 tc \<noteq> CHR 0x05 then Exit (Ret TC_ERR_SOCKSCONN) (tc, w)
     else if tc_byte p 1 tc \<noteq> CHR 0x00 then Exit (Ret TC_ERR_SOCKSCONN) (tc, w)
     else if tc_byte p 3 tc \<noteq> CHR 0x01 then Exit (Ret TC_ERR_SOCKSCONN) (tc, w)
     else case tc_socks_rebind p (tc, w) of (ok, tc1, w1) \<Rightarrow>
       if \<not> ok then Exit (Ret TC_ERR_SOCKSCONN) (tc1, w1)
       else Again (tc_epoll sockd [EPOLLOUT] (tc_io p TC_SERVER_REQUEST TC_SERVER_REQUEST tc1, w1)))"

definition tc_send :: "fd \<Rightarrow> nat \<Rightarrow> tc_ctx \<Rightarrow> tc_result" where
  "tc_send sockd p = (\<lambda>(tc, w).
     if length (tp_buf (tc_at tc p)) < tp_buf_read_offset (tc_at tc p) then Exit AssertFail (tc, w)
     else case sys_send sockd (tc_unread p tc) w of
       (Inl e, w1) \<Rightarrow> tc_io_failed (tc_send_allowed e) TC_ERR_SEND (tc, w1)
     | (Inr k, w1) \<Rightarrow>
         if k = 0 then tc_io_closed (tc, w1)
         else let tc1 = tc_skip p k tc; s = tc_at tc1 p
              in if tp_buf_read_offset s = length (tp_buf s)
                 then Again (tc_goto p (tp_nextstate s)
                        (tc_upd p (\<lambda>s. s\<lparr>tp_buf_read_offset := 0, tp_buf := []\<rparr>) tc1), w1)
                 else Again (tc1, w1))"

definition tc_receive :: "fd \<Rightarrow> nat \<Rightarrow> tc_ctx \<Rightarrow> tc_result" where
  "tc_receive sockd p = (\<lambda>(tc, w).
     case sys_recv (TC_BUF_SIZE - length (tp_buf (tc_at tc p))) w of
       (Inl e, w1) \<Rightarrow> tc_io_failed (e = EWOULDBLOCK) TC_ERR_RECV (tc, w1)
     | (Inr bs, w1) \<Rightarrow>
         if bs = [] then tc_io_closed (tc, w1)
         else Again (tc_goto p (tp_nextstate (tc_at tc p)) (tc_append p bs tc), w1))"

subsection \<open>The authority\<close>

definition tc_auth_request_nodes :: "fd \<Rightarrow> nat \<Rightarrow> tc_ctx \<Rightarrow> tc_result" where
  "tc_auth_request_nodes sockd p = (\<lambda>(tc, w).
     case sys_send sockd [char_of TA_MSG_REQUEST_NODES] w of
       (Inl e, w1) \<Rightarrow> tc_io_failed (tc_send_allowed e) TC_ERR_SEND (tc, w1)
     | (Inr k, w1) \<Rightarrow>
         if k = 0 then tc_io_closed (tc, w1)
         else (case tc_epoll sockd [EPOLLIN] (tc, w1) of (tc1, w2) \<Rightarrow>
                 Exit (Ret TC_SUCCESS) (tc_goto p TC_AUTH_RECEIVE_NODES tc1, w2)))"

text \<open>\<open>buf[0]\<close> is a signed \<open>gchar\<close>.\<close>

definition tc_num_nodes :: "string \<Rightarrow> nat" where
  "tc_num_nodes buf = nat (signed_take_bit 7 (of_char (hd (array_slice 0 1 buf)) :: int))"

definition tc_node :: "string \<Rightarrow> nat \<Rightarrow> u32 \<times> u16" where
  "tc_node buf i =
     (of_nat (le_value (array_slice (1 + 6 * i) 4 buf)), of_nat (le_value (array_slice (5 + 6 * i) 2 buf)))"

definition tc_nodes :: "string \<Rightarrow> (u32 \<times> u16) list" where
  "tc_nodes buf = map (tc_node buf) [0..<tc_num_nodes buf]"

definition tc_known :: "u32 \<Rightarrow> u16 \<Rightarrow> tc_client \<Rightarrow> bool" where
  "tc_known addr port tc \<longleftrightarrow>
     list_ex (\<lambda>q. tp_addr (tc_at tc q) = addr \<and> tp_port (tc_at tc q) = port) (tc_servers tc)"

definition tc_use_proxy :: "tc_client \<Rightarrow> bool" where
  "tc_use_proxy tc \<longleftrightarrow> tc_socksAddr tc \<noteq> htonl (- 1)"

text \<open>A new server; \<open>False\<close> stands for \<open>return TC_ERR_CONNECT\<close>.\<close>

definition tc_add_node :: "u32 \<Rightarrow> u16 \<Rightarrow> tc_ctx \<Rightarrow> bool \<times> tc_ctx" where
  "tc_add_node addr port = (\<lambda>(tc, w).
     (let (sd, w1) = (if tc_use_proxy tc then torrentClient_connect (tc_socksAddr tc) (tc_socksPort tc) w
                      else torrentClient_connect addr (htons port) w);
          st = (if tc_use_proxy tc then TC_SOCKS_REQUEST_INIT else TC_SERVER_REQUEST);
          (r, w2) = sys_rand w1;
          q = length (tc_heap tc);
          tc1 = tc\<lparr>tc_heap := tc_heap tc @ [tc_new_peer addr port sd st (of_nat (r mod (2 ^ 32 - 1)))]\<rparr>
      in if sd < 0 then (False, (tc1, w2))
         else let (tc2, w3) = tc_epoll sd [EPOLLOUT] (tc1, w2)
              in (True, (tc2\<lparr>tc_servers := tc_servers tc2 @ [q],
                             tc_connections := AList.update sd q (tc_connections tc2)\<rparr>, w3))))"

fun tc_add_nodes :: "(u32 \<times> u16) list \<Rightarrow> tc_ctx \<Rightarrow> bool \<times> tc_ctx" where
  "tc_add_nodes [] x = (True, x)"
| "tc_add_nodes ((addr, port) # ns) x =
     (if tc_known addr port (fst x) then tc_add_nodes ns x
      else case tc_add_node addr port x of
        (False, x1) \<Rightarrow> (False, x1)
      | (True, x1) \<Rightarrow> tc_add_nodes ns x1)"

definition tc_auth_receive_nodes :: "string \<Rightarrow> fd \<Rightarrow> nat \<Rightarrow> tc_ctx \<Rightarrow> tc_result" where
  "tc_auth_receive_nodes stack sockd p = (\<lambda>(tc, w).
     case sys_recv 1024 w of
       (Inl e, w1) \<Rightarrow> tc_io_failed (e = EWOULDBLOCK) TC_ERR_RECV (tc, w1)
     | (Inr bs, w1) \<Rightarrow>
         if bs = [] then tc_io_closed (tc, w1)
         else (case tc_add_nodes (tc_nodes (overlay bs stack)) (tc, w1) of
                 (False, x) \<Rightarrow> Exit (Ret TC_ERR_CONNECT) x
               | (True, tc1, w2) \<Rightarrow>
                   let (now, w3) = clock_gettime w2;
                       (tc2, w4) = tc_epoll sockd [EPOLLIN] (tc1\<lparr>tc_lastServerListFetch := now\<rparr>, w3)
                   in Exit (Ret TC_SUCCESS) (tc_goto p TC_AUTH_RECEIVE_NODES tc2, w4)))"

subsection \<open>The blocks\<close>

definition tc_file_request :: "u32 \<Rightarrow> string" where
  "tc_file_request cookie = ''FILE REQUEST'' @ crlf @ cookie_line cookie"

definition tc_request_sent :: "nat \<Rightarrow> timespec \<Rightarrow> tc_client \<Rightarrow> tc_client" where
  "tc_request_sent p now tc =
     tc_upd p (\<lambda>s. s\<lparr>tp_down := 0, tp_up := 0, tp_buf_read_offset := 0, tp_buf := [],
                    tp_state := TC_SERVER_TRANSFER, tp_download_start := now\<rparr>)
       (tc\<lparr>tc_blocksRemaining := tc_blocksRemaining tc - 1\<rparr>)"

definition tc_server_request :: "fd \<Rightarrow> nat \<Rightarrow> tc_ctx \<Rightarrow> tc_result" where
  "tc_server_request sockd p = (\<lambda>(tc0, w0).
     (let (tc, w) = (if tc_totalBytesDown tc0 = 0
                     then let (now, w) = clock_gettime w0 in (tc0\<lparr>tc_download_start := now\<rparr>, w)
                     else (tc0, w0))
      in if tc_blocksRemaining tc \<le> 0
         then Exit (Ret TC_SUCCESS) (tc_epoll sockd [EPOLLIN] (tc_goto p TC_SERVER_IDLE tc, w))
         else case sys_send sockd (tc_file_request (tp_cookie (tc_at tc p))) w of
           (Inl e, w1) \<Rightarrow> tc_io_failed (tc_send_allowed e) TC_ERR_SEND (tc, w1)
         | (Inr k, w1) \<Rightarrow>
             if k = 0 then tc_io_closed (tc, w1)
             else let (tc1, w2) = tc_epoll sockd [EPOLLIN] (tc, w1);
                      (now, w3) = clock_gettime w2
                  in Exit (Ret TC_SUCCESS) (tc_request_sent p now tc1, w3)))"

text \<open>The bookkeeping of received bytes: the first of all, the first of the block, the sums.\<close>

definition tc_received :: "nat \<Rightarrow> nat \<Rightarrow> tc_ctx \<Rightarrow> tc_ctx" where
  "tc_received p n = (\<lambda>(tc, w).
     (let (tc1, w1) = (if tc_totalBytesDown tc = 0
                       then let (now, w1) = clock_gettime w in (tc\<lparr>tc_download_first_byte := now\<rparr>, w1)
                       else (tc, w));
          (tc2, w2) = (if tp_down (tc_at tc1 p) = 0
                       then let (now, w2) = clock_gettime w1
                            in (tc_upd p (\<lambda>s. s\<lparr>tp_download_first_byte := now\<rparr>) tc1, w2)
                       else (tc1, w1))
      in (tc_upd p (\<lambda>s. s\<lparr>tp_down := tp_down s + int n\<rparr>)
            (tc2\<lparr>tc_totalBytesDown := tc_totalBytesDown tc2 + int n,
                 tc_bytesInProgress := tc_bytesInProgress tc2 - int n\<rparr>), w2)))"

definition tc_transfer_down :: "epoll_ev list \<Rightarrow> fd \<Rightarrow> nat \<Rightarrow> tc_ctx \<Rightarrow> tc_result" where
  "tc_transfer_down events sockd p = (\<lambda>(tc, w).
     if EPOLLIN \<in> set events \<and> tp_down (tc_at tc p) < tc_downBlockSize tc
     then case sys_recv (min (nat (tc_downBlockSize tc - tp_down (tc_at tc p))) TC_BUF_SIZE) w of
            (Inl e, w1) \<Rightarrow> tc_io_failed (e = EWOULDBLOCK) TC_ERR_RECV (tc, w1)
          | (Inr bs, w1) \<Rightarrow>
              if bs = [] then tc_io_closed (tc, w1)
              else if \<not> gint_ok (tc_totalBytesDown tc + int (length bs))
                      \<or> \<not> gint_ok (tc_bytesInProgress tc - int (length bs)) then Exit UB (tc, w1)
              else Again (tc_received p (length bs) (tc, w1))
     else Again (tc, w))"

definition tc_transfer_up :: "epoll_ev list \<Rightarrow> fd \<Rightarrow> nat \<Rightarrow> tc_ctx \<Rightarrow> tc_result" where
  "tc_transfer_up events sockd p = (\<lambda>(tc, w).
     if EPOLLOUT \<in> set events \<and> tp_up (tc_at tc p) < tc_upBlockSize tc
     then let len = min (nat (tc_upBlockSize tc - tp_up (tc_at tc p))) TC_BUF_SIZE;
              (now, w1) = clock_gettime w
          in case torrentClient_fillBuffer len (tc_filler (tp_cookie (tc_at tc p)) now) of
               None \<Rightarrow> Exit UB (tc, w1)
             | Some buf \<Rightarrow>
                 (case sys_send sockd (take len buf) w1 of
                    (Inl e, w2) \<Rightarrow> tc_io_failed (tc_send_allowed e) TC_ERR_SEND (tc, w2)
                  | (Inr k, w2) \<Rightarrow>
                      if k = 0 then tc_io_closed (tc, w2)
                      else if \<not> gint_ok (tc_totalBytesUp tc + int k) then Exit UB (tc, w2)
                      else Again (tc_upd p (\<lambda>s. s\<lparr>tp_up := tp_up s + int k\<rparr>)
                                    (tc\<lparr>tc_totalBytesUp := tc_totalBytesUp tc + int k\<rparr>), w2))
     else Again (tc, w))"

definition tc_transfer_next :: "fd \<Rightarrow> nat \<Rightarrow> tc_ctx \<Rightarrow> tc_ctx" where
  "tc_transfer_next sockd p = (\<lambda>(tc0, w).
     (let tc = tc0\<lparr>tc_currentBlockTransfer := Some p\<rparr>;
          down = tc_downBlockSize tc \<le> tp_down (tc_at tc p);
          up = tc_upBlockSize tc \<le> tp_up (tc_at tc p)
      in if down \<and> up then tc_epoll sockd [EPOLLIN] (tc_goto p TC_SERVER_FINISHED tc, w)
         else if down then tc_epoll sockd [EPOLLOUT] (tc, w)
         else if up then tc_epoll sockd [EPOLLIN] (tc, w)
         else (tc, w)))"

text \<open>The two halves go on with \<open>Again\<close>; then \<open>break\<close> leaves the switch.\<close>

definition tc_server_transfer :: "epoll_ev list \<Rightarrow> fd \<Rightarrow> nat \<Rightarrow> tc_ctx \<Rightarrow> tc_result" where
  "tc_server_transfer events sockd p x =
     (case tc_transfer_down events sockd p x of
        Exit r y \<Rightarrow> Exit r y
      | Again x1 \<Rightarrow>
          (case tc_transfer_up events sockd p x1 of
             Exit r y \<Rightarrow> Exit r y
           | Again x2 \<Rightarrow> Exit (Ret TC_SUCCESS) (tc_transfer_next sockd p x2)))"

definition tc_block_done :: "nat \<Rightarrow> timespec \<Rightarrow> tc_client \<Rightarrow> tc_client" where
  "tc_block_done p now tc =
     tc_upd p (\<lambda>s. s\<lparr>tp_state := TC_SERVER_REQUEST, tp_download_end := now\<rparr>)
       (tc\<lparr>tc_currentBlockTransfer := Some p, tc_blocksDownloaded := tc_blocksDownloaded tc + 1\<rparr>)"

definition tc_server_finished :: "string \<Rightarrow> fd \<Rightarrow> nat \<Rightarrow> tc_ctx \<Rightarrow> tc_result" where
  "tc_server_finished stack sockd p = (\<lambda>(tc, w).
     case sys_recv TC_BUF_SIZE w of
       (Inl e, w1) \<Rightarrow> tc_io_failed (e = EWOULDBLOCK) TC_ERR_RECV (tc, w1)
     | (Inr bs, w1) \<Rightarrow>
         if bs = [] then tc_io_closed (tc, w1)
         else (case array_str TC_BUF_SIZE (overlay bs stack) of
                 None \<Rightarrow> Exit UB (tc, w1)
               | Some s \<Rightarrow>
                   if strcasestr s ''FINISHED'' = None then Exit (Ret TC_SUCCESS) (tc, w1)
                   else let (now, w2) = clock_gettime w1
                        in Exit (Ret TC_BLOCK_DOWNLOADED)
                             (tc_epoll sockd [EPOLLOUT] (tc_block_done p now tc, w2))))"

section \<open>The handler\<close>

definition tc_step :: "string \<Rightarrow> epoll_ev list \<Rightarrow> fd \<Rightarrow> nat \<Rightarrow> tc_ctx \<Rightarrow> tc_result" where
  "tc_step stack events sockd p x =
     (case tp_state (tc_at (fst x) p) of
        TC_SOCKS_REQUEST_INIT \<Rightarrow> tc_socks_request_init sockd p x
      | TC_SOCKS_TOREPLY_INIT \<Rightarrow> tc_socks_toreply TC_SOCKS_REPLY_INIT sockd p x
      | TC_SOCKS_REPLY_INIT \<Rightarrow> tc_socks_reply_init p x
      | TC_SOCKS_REQUEST_CONN \<Rightarrow> tc_socks_request_conn sockd p x
      | TC_SOCKS_TOREPLY_CONN \<Rightarrow> tc_socks_toreply TC_SOCKS_REPLY_CONN sockd p x
      | TC_SOCKS_REPLY_CONN \<Rightarrow> tc_socks_reply_conn sockd p x
      | TC_SEND \<Rightarrow> tc_send sockd p x
      | TC_RECEIVE \<Rightarrow> tc_receive sockd p x
      | TC_AUTH_REQUEST_NODES \<Rightarrow> tc_auth_request_nodes sockd p x
      | TC_AUTH_RECEIVE_NODES \<Rightarrow> tc_auth_receive_nodes stack sockd p x
      | TC_SERVER_REQUEST \<Rightarrow> tc_server_request sockd p x
      | TC_SERVER_TRANSFER \<Rightarrow> tc_server_transfer events sockd p x
      | TC_SERVER_FINISHED \<Rightarrow> tc_server_finished stack sockd p x
      | _ \<Rightarrow> Exit (Ret TC_SUCCESS) x)"

definition torrentClient_activate ::
    "string \<Rightarrow> tc_client \<Rightarrow> fd \<Rightarrow> epoll_ev list \<Rightarrow> world \<Rightarrow> (tc_code ret \<times> tc_client \<times> world) option" where
  "torrentClient_activate stack tc sockd events w =
     (case map_of (tc_connections tc) sockd of
        None \<Rightarrow> Some (Ret TC_ERR_NOSERVER, tc, w)
      | Some p \<Rightarrow> drive (tc_step stack events sockd p) (tc, w))"

end
