(* ===== verification/Torrent_Client_Correct.thy ===== *)
theory Torrent_Client_Correct
  imports Torrent_Client
begin

text \<open>
  The torrent client: the invariant of its objects, the conserved quantities (blocks asked
  for, in flight and done; bytes of the blocks and of the whole), and that every activation
  returns.
\<close>

section \<open>Objects\<close>

definition in_flight :: "tc_peer \<Rightarrow> bool" where
  "in_flight s \<longleftrightarrow> tp_state s = TC_SERVER_TRANSFER \<or> tp_state s = TC_SERVER_FINISHED"

text \<open>What a server contributes to the blocks and to the bytes.\<close>

definition block_of :: "tc_peer \<Rightarrow> int" where "block_of s = (if in_flight s then 1 else 0)"
definition bytes_of :: "tc_peer \<Rightarrow> int" where "bytes_of s = (if in_flight s then tp_down s else 0)"

definition peer_ok :: "int \<Rightarrow> tc_peer \<Rightarrow> bool" where
  "peer_ok d s \<longleftrightarrow>
     tp_buf_read_offset s \<le> length (tp_buf s) \<and> length (tp_buf s) \<le> TC_BUF_SIZE
     \<and> tp_nextstate s \<noteq> TC_SERVER_TRANSFER \<and> tp_nextstate s \<noteq> TC_SERVER_FINISHED
     \<and> (in_flight s \<longrightarrow> 0 \<le> tp_down s \<and> tp_down s \<le> d)
     \<and> (tp_state s = TC_SERVER_FINISHED \<longrightarrow> tp_down s = d)"

definition tc_ok :: "tc_client \<Rightarrow> bool" where
  "tc_ok tc \<longleftrightarrow>
     0 < tc_downBlockSize tc
     \<and> list_all (peer_ok (tc_downBlockSize tc)) (tc_heap tc)
     \<and> list_all (\<lambda>p. p < length (tc_heap tc)) (tc_servers tc)
     \<and> list_all (\<lambda>(k, p). p < length (tc_heap tc)) (tc_connections tc)"

section \<open>Conserved quantities\<close>

definition total_blocks :: "tc_client \<Rightarrow> int" where
  "total_blocks tc = tc_blocksDownloaded tc + tc_blocksRemaining tc + sum_list (map block_of (tc_heap tc))"

definition unaccounted_bytes :: "tc_client \<Rightarrow> int" where
  "unaccounted_bytes tc =
     tc_totalBytesDown tc - tc_blocksDownloaded tc * tc_downBlockSize tc - sum_list (map bytes_of (tc_heap tc))"

definition tc_conserves :: "tc_client \<Rightarrow> tc_client \<Rightarrow> bool" where
  "tc_conserves tc tc' \<longleftrightarrow>
     total_blocks tc' = total_blocks tc \<and> unaccounted_bytes tc' = unaccounted_bytes tc
     \<and> tc_bytesInProgress tc' + tc_totalBytesDown tc' = tc_bytesInProgress tc + tc_totalBytesDown tc
     \<and> tc_downBlockSize tc' = tc_downBlockSize tc \<and> tc_upBlockSize tc' = tc_upBlockSize tc
     \<and> tc_fileSize tc' = tc_fileSize tc \<and> tc_numBlocks tc' = tc_numBlocks tc
     \<and> length (tc_heap tc) \<le> length (tc_heap tc')"

lemma tc_conserves_refl [simp]: "tc_conserves tc tc"
  by (simp add: tc_conserves_def)

lemma tc_conserves_trans: "tc_conserves a b \<Longrightarrow> tc_conserves b c \<Longrightarrow> tc_conserves a c"
  by (simp add: tc_conserves_def)

lemma sum_list_update_int:
  "p < length xs \<Longrightarrow> sum_list (map f (xs[p := y])) = sum_list (map f xs) - f (xs ! p) + (f y :: int)"
  by (induction xs arbitrary: p) (auto split: nat.splits)

lemma length_tc_upd [simp]: "length (tc_heap (tc_upd p f tc)) = length (tc_heap tc)"
  by (simp add: tc_upd_def)

lemma tc_upd_at [simp]: "p < length (tc_heap tc) \<Longrightarrow> tc_at (tc_upd p f tc) p = f (tc_at tc p)"
  by (simp add: tc_upd_def)

text \<open>Assigning to an object: the invariant needs it to stay well formed, and the quantities
  change by its contribution.\<close>

lemma tc_ok_upd:
  assumes "tc_ok tc" "p < length (tc_heap tc)" "peer_ok (tc_downBlockSize tc) (f (tc_at tc p))"
  shows "tc_ok (tc_upd p f tc)"
  using assms by (auto simp: tc_ok_def tc_upd_def intro: list_all_list_update)

lemma tc_conserves_upd:
  assumes "p < length (tc_heap tc)"
    and "block_of (f (tc_at tc p)) = block_of (tc_at tc p)" "bytes_of (f (tc_at tc p)) = bytes_of (tc_at tc p)"
  shows "tc_conserves tc (tc_upd p f tc)"
  using assms
  by (simp add: tc_conserves_def total_blocks_def unaccounted_bytes_def tc_upd_def sum_list_update_int)

lemma peer_ok_at: "tc_ok tc \<Longrightarrow> p < length (tc_heap tc) \<Longrightarrow> peer_ok (tc_downBlockSize tc) (tc_at tc p)"
  by (simp add: tc_ok_def list_all_iff)

text \<open>An assignment to a server that is not in flight and does not take off.\<close>

definition ground_ok :: "tc_peer \<Rightarrow> bool" where
  "ground_ok s \<longleftrightarrow>
     tp_buf_read_offset s \<le> length (tp_buf s) \<and> length (tp_buf s) \<le> TC_BUF_SIZE
     \<and> tp_nextstate s \<noteq> TC_SERVER_TRANSFER \<and> tp_nextstate s \<noteq> TC_SERVER_FINISHED
     \<and> tp_state s \<noteq> TC_SERVER_TRANSFER \<and> tp_state s \<noteq> TC_SERVER_FINISHED"

lemma ground_peer_ok: "ground_ok s \<Longrightarrow> peer_ok d s \<and> block_of s = 0 \<and> bytes_of s = 0"
  by (simp add: ground_ok_def peer_ok_def in_flight_def block_of_def bytes_of_def)

lemma ground_at:
  "tc_ok tc \<Longrightarrow> p < length (tc_heap tc) \<Longrightarrow> \<not> in_flight (tc_at tc p) \<Longrightarrow> ground_ok (tc_at tc p)"
  using peer_ok_at [of tc p] by (simp add: ground_ok_def peer_ok_def in_flight_def)

lemma ground_upd:
  assumes "tc_ok tc" "p < length (tc_heap tc)" "\<not> in_flight (tc_at tc p)" "ground_ok (f (tc_at tc p))"
  shows "tc_ok (tc_upd p f tc) \<and> tc_conserves tc (tc_upd p f tc)"
  using assms ground_at [OF assms(1-3)]
  by (auto intro!: tc_ok_upd tc_conserves_upd dest: ground_peer_ok simp: ground_peer_ok)

section \<open>Fields the invariant does not see\<close>

lemma tc_ok_fields [simp]:
  "tc_ok (tc\<lparr>tc_errcode := e\<rparr>) = tc_ok tc"
  "tc_ok (tc\<lparr>tc_lastServerListFetch := t\<rparr>) = tc_ok tc"
  "tc_ok (tc\<lparr>tc_download_start := t\<rparr>) = tc_ok tc"
  "tc_ok (tc\<lparr>tc_download_first_byte := t\<rparr>) = tc_ok tc"
  "tc_ok (tc\<lparr>tc_currentBlockTransfer := q\<rparr>) = tc_ok tc"
  "tc_ok (tc\<lparr>tc_totalBytesUp := i\<rparr>) = tc_ok tc"
  "tc_ok (tc\<lparr>tc_totalBytesDown := i, tc_bytesInProgress := j\<rparr>) = tc_ok tc"
  "tc_ok (tc\<lparr>tc_blocksRemaining := i\<rparr>) = tc_ok tc"
  "tc_ok (tc\<lparr>tc_currentBlockTransfer := q, tc_blocksDownloaded := i\<rparr>) = tc_ok tc"
  by (simp_all add: tc_ok_def)

lemma tc_conserves_fields [simp]:
  "tc_conserves tc (tc'\<lparr>tc_errcode := e\<rparr>) = tc_conserves tc tc'"
  "tc_conserves tc (tc'\<lparr>tc_lastServerListFetch := t\<rparr>) = tc_conserves tc tc'"
  "tc_conserves tc (tc'\<lparr>tc_download_start := t\<rparr>) = tc_conserves tc tc'"
  "tc_conserves tc (tc'\<lparr>tc_download_first_byte := t\<rparr>) = tc_conserves tc tc'"
  "tc_conserves tc (tc'\<lparr>tc_currentBlockTransfer := q\<rparr>) = tc_conserves tc tc'"
  "tc_conserves tc (tc'\<lparr>tc_totalBytesUp := i\<rparr>) = tc_conserves tc tc'"
  by (simp_all add: tc_conserves_def total_blocks_def unaccounted_bytes_def)

lemma tc_epoll_eq: "tc_epoll sd evs x = (fst x, snd (epoll_ctl CtlMod sd evs (snd x)))"
  by (cases x) (simp add: tc_epoll_def torrentClient_changeEpoll_def split_def Let_def)

lemma torrentClient_connect_frame [simp]:
  "io_work (snd (torrentClient_connect a p w)) = io_work w"
  using sys_socket_frame(4) [of w]
  by (auto simp: torrentClient_connect_def Let_def split: sum.splits prod.splits
      dest!: arg_cong [where f = "\<lambda>x. io_work (snd x)"])

section \<open>Passes\<close>

definition tc_rank :: "tc_state \<Rightarrow> nat" where
  "tc_rank st = (case st of
     TC_SOCKS_REPLY_INIT \<Rightarrow> 3 | TC_SOCKS_REPLY_CONN \<Rightarrow> 3
   | TC_SOCKS_REQUEST_INIT \<Rightarrow> 2 | TC_SOCKS_TOREPLY_INIT \<Rightarrow> 2
   | TC_SOCKS_REQUEST_CONN \<Rightarrow> 2 | TC_SOCKS_TOREPLY_CONN \<Rightarrow> 2
   | TC_SEND \<Rightarrow> 1 | TC_RECEIVE \<Rightarrow> 1 | _ \<Rightarrow> 0)"

lemma tc_rank_le: "tc_rank st \<le> 3"
  by (cases st) (simp_all add: tc_rank_def)

definition tc_measure :: "nat \<Rightarrow> tc_ctx \<Rightarrow> nat" where
  "tc_measure p x = 5 * io_work (snd x) + tc_rank (tp_state (tc_at (fst x) p))"

definition tc_pass :: "nat \<Rightarrow> tc_ctx \<Rightarrow> tc_result \<Rightarrow> bool" where
  "tc_pass p x res = (case res of
     Again x' \<Rightarrow> tc_ok (fst x') \<and> tc_conserves (fst x) (fst x') \<and> tc_measure p x' < tc_measure p x
   | Exit r x' \<Rightarrow> tc_ok (fst x') \<and> tc_conserves (fst x) (fst x'))"

lemma tc_pass_exit: "tc_pass p x (Exit r x') = (tc_ok (fst x') \<and> tc_conserves (fst x) (fst x'))"
  by (simp add: tc_pass_def)

text \<open>One step on the ground: an assignment to the server's own object.\<close>

lemma tc_pass_again_ground:
  assumes "tc_ok tc" "p < length (tc_heap tc)" "\<not> in_flight (tc_at tc p)" "ground_ok (f (tc_at tc p))"
    and "5 * io_work w' + tc_rank (tp_state (f (tc_at tc p))) < 5 * io_work w + tc_rank (tp_state (tc_at tc p))"
  shows "tc_pass p (tc, w) (Again (tc_upd p f tc, w'))"
  using ground_upd [where f = f, OF assms(1-4)] assms(2,5) by (simp add: tc_pass_def tc_measure_def)

lemma tc_upd_upd: "p < length (tc_heap tc) \<Longrightarrow> tc_upd p f (tc_upd p g tc) = tc_upd p (\<lambda>s. f (g s)) tc"
  by (simp add: tc_upd_def)

lemmas tc_writes = tc_goto_def tc_io_def tc_append_def tc_skip_def tc_upd_upd

lemma tc_socks_request_init_pass:
  assumes "tc_ok tc" "p < length (tc_heap tc)" "tp_state (tc_at tc p) = TC_SOCKS_REQUEST_INIT"
  shows "tc_pass p (tc, w) (tc_socks_request_init sd p (tc, w))"
proof -
  have fl: "\<not> in_flight (tc_at tc p)" using assms(3) by (simp add: in_flight_def)
  note g = ground_at [OF assms(1,2) fl]
  show ?thesis
    using assms g fl
    by (auto simp: tc_socks_request_init_def tc_writes tc_epoll_eq tc_pass_exit ground_ok_def tc_rank_def TC_SOCKS_INIT_def
        intro!: tc_pass_again_ground)
qed

lemma tc_socks_toreply_pass:
  assumes "tc_ok tc" "p < length (tc_heap tc)"
    and "tp_state (tc_at tc p) = TC_SOCKS_TOREPLY_INIT \<or> tp_state (tc_at tc p) = TC_SOCKS_TOREPLY_CONN"
    and "reply = TC_SOCKS_REPLY_INIT \<or> reply = TC_SOCKS_REPLY_CONN"
  shows "tc_pass p (tc, w) (tc_socks_toreply reply sd p (tc, w))"
proof -
  have fl: "\<not> in_flight (tc_at tc p)" using assms(3) by (auto simp: in_flight_def)
  note g = ground_at [OF assms(1,2) fl]
  show ?thesis
    using assms g fl
    by (auto simp: tc_socks_toreply_def tc_writes tc_epoll_eq ground_ok_def tc_rank_def intro!: tc_pass_again_ground)
qed

lemma tc_socks_reply_init_pass:
  assumes "tc_ok tc" "p < length (tc_heap tc)" "tp_state (tc_at tc p) = TC_SOCKS_REPLY_INIT"
  shows "tc_pass p (tc, w) (tc_socks_reply_init p (tc, w))"
proof -
  have fl: "\<not> in_flight (tc_at tc p)" using assms(3) by (simp add: in_flight_def)
  note g = ground_at [OF assms(1,2) fl]
  show ?thesis
    using assms g fl
    by (auto simp: tc_socks_reply_init_def tc_writes tc_pass_exit ground_ok_def tc_rank_def tc_unread_def Let_def
        intro!: tc_pass_again_ground)
qed

lemma tc_socks_request_conn_pass:
  assumes "tc_ok tc" "p < length (tc_heap tc)" "tp_state (tc_at tc p) = TC_SOCKS_REQUEST_CONN"
  shows "tc_pass p (tc, w) (tc_socks_request_conn sd p (tc, w))"
proof -
  have fl: "\<not> in_flight (tc_at tc p)" using assms(3) by (simp add: in_flight_def)
  note g = ground_at [OF assms(1,2) fl]
  have len: "length (tc_socks_request s) = 10" "length TC_SOCKS_REQ_HEAD = 4" for s
    by (simp_all add: tc_socks_request_def TC_SOCKS_REQ_HEAD_def)
  show ?thesis
    using assms g fl
    by (auto simp: tc_socks_request_conn_def tc_writes tc_epoll_eq tc_pass_exit ground_ok_def tc_rank_def len
        intro!: tc_pass_again_ground)
qed

lemma tc_socks_reply_conn_pass:
  assumes "tc_ok tc" "p < length (tc_heap tc)" "tp_state (tc_at tc p) = TC_SOCKS_REPLY_CONN"
  shows "tc_pass p (tc, w) (tc_socks_reply_conn sd p (tc, w))"
proof -
  have fl: "\<not> in_flight (tc_at tc p)" using assms(3) by (simp add: in_flight_def)
  note g = ground_at [OF assms(1,2) fl]
  obtain good tc1 w1 where rb: "tc_socks_rebind p (tc, w) = (good, tc1, w1)" by (metis prod_cases3)
  have tc1: "tc1 = tc_skip p 10 tc" and io: "io_work w1 = io_work w"
    using rb torrentClient_connect_frame sys_close_frame(6)
    by (auto simp: tc_socks_rebind_def Let_def split_def split: if_splits)
  show ?thesis
  proof (cases "length (tc_unread p tc) < 10")
    case True
    then show ?thesis
      using assms g fl
      by (auto simp: tc_socks_reply_conn_def tc_writes ground_ok_def tc_rank_def intro!: tc_pass_again_ground)
  next
    case False
    then have ro: "tp_buf_read_offset (tc_at tc p) + 10 \<le> length (tp_buf (tc_at tc p))"
      by (simp add: tc_unread_def Let_def)
    have "ground_ok ((tc_at tc p)\<lparr>tp_buf_read_offset := tp_buf_read_offset (tc_at tc p) + 10\<rparr>)"
      using g ro by (simp add: ground_ok_def)
    with ground_upd [OF assms(1,2) fl, of "\<lambda>s. s\<lparr>tp_buf_read_offset := tp_buf_read_offset s + 10\<rparr>"]
    have "tc_ok tc1 \<and> tc_conserves tc tc1" by (simp add: tc1 tc_skip_def)
    moreover have "tc_pass p (tc, w) (Again (tc_epoll sd [EPOLLOUT] (tc_io p TC_SERVER_REQUEST TC_SERVER_REQUEST tc1, w1)))"
      using assms g fl ro io
      by (auto simp: tc1 tc_writes tc_epoll_eq ground_ok_def tc_rank_def intro!: tc_pass_again_ground)
    ultimately show ?thesis
      using False rb assms(1) by (auto simp: tc_socks_reply_conn_def tc_pass_exit)
  qed
qed

lemma tc_io_failed_pass:
  "tc_ok tc' \<Longrightarrow> tc_conserves tc tc' \<Longrightarrow> tc_pass p (tc, w) (tc_io_failed allowed code (tc', w'))"
  by (simp add: tc_io_failed_def tc_pass_exit)

lemma tc_io_closed_pass:
  "tc_ok tc' \<Longrightarrow> tc_conserves tc tc' \<Longrightarrow> tc_pass p (tc, w) (tc_io_closed (tc', w'))"
  by (simp add: tc_io_closed_def tc_pass_exit)

lemma tc_send_pass:
  assumes "tc_ok tc" "p < length (tc_heap tc)" "tp_state (tc_at tc p) = TC_SEND"
  shows "tc_pass p (tc, w) (tc_send sd p (tc, w))"
proof -
  have fl: "\<not> in_flight (tc_at tc p)" using assms(3) by (simp add: in_flight_def)
  note g = ground_at [OF assms(1,2) fl]
  obtain a w1 where sn: "sys_send sd (tc_unread p tc) w = (a, w1)" by fastforce
  show ?thesis
  proof (cases a)
    case (Inl e)
    with sn assms g show ?thesis by (auto simp: tc_send_def ground_ok_def intro: tc_io_failed_pass)
  next
    case (Inr k)
    have k: "k \<le> length (tc_unread p tc)" "0 < k \<Longrightarrow> io_work w1 < io_work w"
      using sn Inr sys_send_Inr(1,2) by blast+
    have rk: "tc_rank (tp_nextstate (tc_at tc p)) \<le> 3" by (rule tc_rank_le)
    show ?thesis
    proof (cases "k = 0")
      case True
      with sn Inr assms g show ?thesis by (auto simp: tc_send_def ground_ok_def intro: tc_io_closed_pass)
    next
      case False
      with sn Inr assms g fl k rk show ?thesis
        by (auto simp: tc_send_def tc_writes ground_ok_def tc_unread_def tc_rank_def [of TC_SEND] Let_def
            intro!: tc_pass_again_ground)
    qed
  qed
qed

lemma tc_receive_pass:
  assumes "tc_ok tc" "p < length (tc_heap tc)" "tp_state (tc_at tc p) = TC_RECEIVE"
  shows "tc_pass p (tc, w) (tc_receive sd p (tc, w))"
proof -
  have fl: "\<not> in_flight (tc_at tc p)" using assms(3) by (simp add: in_flight_def)
  note g = ground_at [OF assms(1,2) fl]
  let ?n = "TC_BUF_SIZE - length (tp_buf (tc_at tc p))"
  obtain a w1 where rc: "sys_recv ?n w = (a, w1)" by fastforce
  show ?thesis
  proof (cases a)
    case (Inl e)
    with rc assms show ?thesis by (auto simp: tc_receive_def intro: tc_io_failed_pass)
  next
    case (Inr bs)
    have k: "length bs \<le> ?n" "bs \<noteq> [] \<Longrightarrow> io_work w1 < io_work w"
      using rc Inr sys_recv_Inr(1,2) by blast+
    have rk: "tc_rank (tp_nextstate (tc_at tc p)) \<le> 3" by (rule tc_rank_le)
    show ?thesis
    proof (cases "bs = []")
      case True
      with rc Inr assms show ?thesis by (auto simp: tc_receive_def intro: tc_io_closed_pass)
    next
      case False
      with rc Inr assms g fl k rk show ?thesis
        by (auto simp: tc_receive_def tc_writes ground_ok_def tc_rank_def [of TC_RECEIVE] intro!: tc_pass_again_ground)
    qed
  qed
qed

section \<open>The authority\<close>

lemma tc_auth_request_nodes_pass:
  assumes "tc_ok tc" "p < length (tc_heap tc)" "tp_state (tc_at tc p) = TC_AUTH_REQUEST_NODES"
  shows "tc_pass p (tc, w) (tc_auth_request_nodes sd p (tc, w))"
proof -
  have fl: "\<not> in_flight (tc_at tc p)" using assms(3) by (simp add: in_flight_def)
  note g = ground_at [OF assms(1,2) fl]
  have "tc_ok (tc_goto p TC_AUTH_RECEIVE_NODES tc) \<and> tc_conserves tc (tc_goto p TC_AUTH_RECEIVE_NODES tc)"
    unfolding tc_goto_def using g by (intro ground_upd [OF assms(1,2) fl]) (simp add: ground_ok_def)
  with assms(1) show ?thesis
    by (auto simp: tc_auth_request_nodes_def tc_epoll_eq tc_pass_exit
        intro: tc_io_failed_pass tc_io_closed_pass split: sum.splits prod.splits)
qed

text \<open>A new server is on the ground.\<close>

lemma tc_add_node_facts:
  assumes ok: "tc_ok tc" and add: "tc_add_node addr port (tc, w) = (b, tc', w')"
  shows "tc_ok tc' \<and> tc_conserves tc tc' \<and> (\<forall>p<length (tc_heap tc). tc_at tc' p = tc_at tc p)"
proof -
  define sd where "sd = fst (if tc_use_proxy tc then torrentClient_connect (tc_socksAddr tc) (tc_socksPort tc) w
                             else torrentClient_connect addr (htons port) w)"
  define st where "st = (if tc_use_proxy tc then TC_SOCKS_REQUEST_INIT else TC_SERVER_REQUEST)"
  obtain cookie where heap: "tc_heap tc' = tc_heap tc @ [tc_new_peer addr port sd st cookie]"
      "tc_servers tc' = tc_servers tc \<or> tc_servers tc' = tc_servers tc @ [length (tc_heap tc)]"
      "tc_connections tc' = tc_connections tc \<or> tc_connections tc' = AList.update sd (length (tc_heap tc)) (tc_connections tc)"
      "tc_blocksDownloaded tc' = tc_blocksDownloaded tc" "tc_blocksRemaining tc' = tc_blocksRemaining tc"
      "tc_totalBytesDown tc' = tc_totalBytesDown tc" "tc_bytesInProgress tc' = tc_bytesInProgress tc"
      "tc_downBlockSize tc' = tc_downBlockSize tc" "tc_upBlockSize tc' = tc_upBlockSize tc"
      "tc_fileSize tc' = tc_fileSize tc" "tc_numBlocks tc' = tc_numBlocks tc"
    using add unfolding sd_def st_def
    by (auto simp: tc_add_node_def Let_def tc_epoll_eq split_def split: if_splits)
  let ?s = "tc_new_peer addr port sd st cookie"
  have g: "ground_ok ?s" by (simp add: ground_ok_def tc_new_peer_def st_def)
  have "list_all (\<lambda>p. p < length (tc_heap tc')) (tc_servers tc')"
    using ok heap(1,2) by (auto simp: tc_ok_def list_all_iff intro: less_SucI)
  moreover have "list_all (\<lambda>(k, p). p < length (tc_heap tc')) (AList.update sd (length (tc_heap tc)) (tc_connections tc))"
    using ok heap(1) by (intro list_all_update_alist) (auto simp: tc_ok_def list_all_iff intro: less_SucI)
  moreover have "list_all (\<lambda>(k, p). p < length (tc_heap tc')) (tc_connections tc)"
    using ok heap(1) by (auto simp: tc_ok_def list_all_iff intro: less_SucI)
  ultimately have "tc_ok tc'"
    using ok heap ground_peer_ok [OF g] by (auto simp: tc_ok_def)
  moreover have "tc_conserves tc tc'"
    using heap ground_peer_ok [OF g] by (simp add: tc_conserves_def total_blocks_def unaccounted_bytes_def)
  ultimately show ?thesis using heap(1) by (simp add: nth_append)
qed

lemma tc_add_nodes_facts:
  "tc_ok tc \<Longrightarrow> tc_add_nodes ns (tc, w) = (b, tc', w') \<Longrightarrow>
     tc_ok tc' \<and> tc_conserves tc tc' \<and> (\<forall>p<length (tc_heap tc). tc_at tc' p = tc_at tc p)"
proof (induction ns arbitrary: tc w)
  case (Cons n ns)
  obtain addr port where n: "n = (addr, port)" by fastforce
  show ?case
  proof (cases "tc_known addr port tc")
    case True
    with Cons n show ?thesis by simp
  next
    case False
    obtain c tc1 w1 where add: "tc_add_node addr port (tc, w) = (c, tc1, w1)" by (metis prod_cases3)
    note one = tc_add_node_facts [OF Cons.prems(1) add]
    show ?thesis
    proof (cases c)
      case False
      with Cons.prems(2) \<open>\<not> tc_known addr port tc\<close> n add one show ?thesis by auto
    next
      case True
      with Cons.prems(2) False n add have "tc_add_nodes ns (tc1, w1) = (b, tc', w')" by simp
      from Cons.IH [OF _ this] one show ?thesis
        by (auto intro: tc_conserves_trans simp: tc_conserves_def)
    qed
  qed
qed simp

lemma tc_auth_receive_nodes_pass:
  assumes "tc_ok tc" "p < length (tc_heap tc)" "tp_state (tc_at tc p) = TC_AUTH_RECEIVE_NODES"
  shows "tc_pass p (tc, w) (tc_auth_receive_nodes stack sd p (tc, w))"
proof -
  have fl: "\<not> in_flight (tc_at tc p)" using assms(3) by (simp add: in_flight_def)
  note g = ground_at [OF assms(1,2) fl]
  obtain a w1 where rc: "sys_recv 1024 w = (a, w1)" by fastforce
  show ?thesis
  proof (cases a)
    case (Inl e)
    with rc assms(1) show ?thesis by (auto simp: tc_auth_receive_nodes_def intro: tc_io_failed_pass)
  next
    case (Inr bs)
    obtain b tc1 w2 where add: "tc_add_nodes (tc_nodes (overlay bs stack)) (tc, w1) = (b, tc1, w2)"
      by (metis prod_cases3)
    note facts = tc_add_nodes_facts [OF assms(1) add]
    have at: "tc_at tc1 p = tc_at tc p" "p < length (tc_heap tc1)"
      using facts assms(2) by (auto simp: tc_conserves_def)
    obtain now w3 where ck: "clock_gettime w2 = (now, w3)" by fastforce
    define tc2 where "tc2 = tc1\<lparr>tc_lastServerListFetch := now\<rparr>"
    have "tc_ok tc2" "tc_at tc2 p = tc_at tc p" "p < length (tc_heap tc2)" using facts at by (simp_all add: tc2_def)
    moreover from this have "tc_ok (tc_goto p TC_AUTH_RECEIVE_NODES tc2) \<and> tc_conserves tc2 (tc_goto p TC_AUTH_RECEIVE_NODES tc2)"
      unfolding tc_goto_def using g fl by (intro ground_upd) (simp_all add: ground_ok_def)
    moreover have "tc_conserves tc tc2" using facts by (simp add: tc2_def)
    ultimately have "tc_ok (tc_goto p TC_AUTH_RECEIVE_NODES tc2) \<and> tc_conserves tc (tc_goto p TC_AUTH_RECEIVE_NODES tc2)"
      by (auto intro: tc_conserves_trans)
    with rc Inr add facts ck assms(1) show ?thesis
      by (auto simp: tc_auth_receive_nodes_def tc_epoll_eq tc_pass_exit tc2_def [symmetric]
          intro: tc_io_closed_pass split: bool.splits)
  qed
qed

section \<open>The blocks\<close>

lemma tc_server_request_pass:
  assumes "tc_ok tc" "p < length (tc_heap tc)" "tp_state (tc_at tc p) = TC_SERVER_REQUEST"
  shows "tc_pass p (tc, w) (tc_server_request sd p (tc, w))"
proof -
  obtain tc1 w1 where start: "(if tc_totalBytesDown tc = 0
      then let (now, w1) = clock_gettime w in (tc\<lparr>tc_download_start := now\<rparr>, w1) else (tc, w)) = (tc1, w1)"
    by fastforce
  then have same: "tc_ok tc1" "tc_conserves tc tc1" "tc_heap tc1 = tc_heap tc"
    using assms(1) by (auto simp: Let_def split: if_splits prod.splits)
  have at: "p < length (tc_heap tc1)" "tp_state (tc_at tc1 p) = TC_SERVER_REQUEST" using same(3) assms by simp_all
  then have fl: "\<not> in_flight (tc_at tc1 p)" by (simp add: in_flight_def)
  note g = ground_at [OF same(1) at(1) fl]
  have idle: "tc_ok (tc_goto p TC_SERVER_IDLE tc1) \<and> tc_conserves tc1 (tc_goto p TC_SERVER_IDLE tc1)"
    unfolding tc_goto_def using g by (intro ground_upd [OF same(1) at(1) fl]) (simp add: ground_ok_def)
  let ?f = "\<lambda>now s. s\<lparr>tp_down := 0, tp_up := 0, tp_buf_read_offset := 0, tp_buf := [],
                    tp_state := TC_SERVER_TRANSFER, tp_download_start := now\<rparr>"
  have "peer_ok (tc_downBlockSize tc1) (?f now (tc_at tc1 p))" for now
    using g same(1) by (simp add: peer_ok_def ground_ok_def in_flight_def tc_ok_def)
  then have sent: "tc_ok (tc_request_sent p now tc1)" for now
    unfolding tc_request_sent_def using same(1) at(1) by (intro tc_ok_upd) simp_all
  moreover have "tc_conserves tc1 (tc_request_sent p now tc1)" for now
    using at fl ground_peer_ok [OF g]
    by (simp add: tc_conserves_def total_blocks_def unaccounted_bytes_def tc_request_sent_def tc_upd_def
        sum_list_update_int block_of_def bytes_of_def in_flight_def)
  moreover note idle same(1,2)
  ultimately show ?thesis
    by (auto simp: tc_server_request_def start tc_epoll_eq tc_pass_exit intro: tc_conserves_trans tc_io_failed_pass tc_io_closed_pass
        split: sum.splits prod.splits)
qed

text \<open>Each half of a transfer goes on in the same state of the server, or returns.\<close>

definition tc_half :: "nat \<Rightarrow> tc_ctx \<Rightarrow> tc_result \<Rightarrow> bool" where
  "tc_half p x res = (case res of
     Again x' \<Rightarrow> tc_ok (fst x') \<and> tc_conserves (fst x) (fst x')
       \<and> tp_state (tc_at (fst x') p) = tp_state (tc_at (fst x) p)
   | Exit r x' \<Rightarrow> tc_ok (fst x') \<and> tc_conserves (fst x) (fst x'))"

lemma tc_received_facts:
  assumes ok: "tc_ok tc" "p < length (tc_heap tc)" "tp_state (tc_at tc p) = TC_SERVER_TRANSFER"
    and n: "tp_down (tc_at tc p) + int n \<le> tc_downBlockSize tc"
    and rec: "tc_received p n (tc, w) = (tc', w')"
  shows "tc_ok tc' \<and> tc_conserves tc tc' \<and> tp_state (tc_at tc' p) = TC_SERVER_TRANSFER"
proof -
  obtain t where tc': "tc_heap tc' = (tc_heap tc)[p := (tc_at tc p)\<lparr>tp_download_first_byte := t, tp_down := tp_down (tc_at tc p) + int n\<rparr>]"
    and rest: "tc_totalBytesDown tc' = tc_totalBytesDown tc + int n" "tc_bytesInProgress tc' = tc_bytesInProgress tc - int n"
    "tc_servers tc' = tc_servers tc" "tc_connections tc' = tc_connections tc"
    "tc_blocksDownloaded tc' = tc_blocksDownloaded tc" "tc_blocksRemaining tc' = tc_blocksRemaining tc"
    "tc_downBlockSize tc' = tc_downBlockSize tc" "tc_upBlockSize tc' = tc_upBlockSize tc"
    "tc_fileSize tc' = tc_fileSize tc" "tc_numBlocks tc' = tc_numBlocks tc"
  proof (cases "tp_down (tc_at tc p) = 0")
    case True
    with ok rec show thesis
      by (intro that [of "fst (clock_gettime (if tc_totalBytesDown tc = 0 then snd (clock_gettime w) else w))"]) (auto simp: tc_received_def tc_upd_def Let_def split_def split: if_splits)
  next
    case False
    with ok rec show thesis
      by (intro that [of "tp_download_first_byte (tc_at tc p)"])
         (auto simp: tc_received_def tc_upd_def Let_def split_def split: if_splits)
  qed
  let ?s = "(tc_at tc p)\<lparr>tp_download_first_byte := t, tp_down := tp_down (tc_at tc p) + int n\<rparr>"
  have "peer_ok (tc_downBlockSize tc) ?s"
    using peer_ok_at [OF ok(1,2)] ok(3) n by (simp add: peer_ok_def in_flight_def)
  then have "tc_ok tc'"
    using ok(1) tc' rest by (auto simp: tc_ok_def intro: list_all_list_update)
  moreover have "tc_conserves tc tc'"
    using ok(2,3) tc' rest
    by (simp add: tc_conserves_def total_blocks_def unaccounted_bytes_def sum_list_update_int
        block_of_def bytes_of_def in_flight_def)
  ultimately show ?thesis using tc' ok(2,3) by simp
qed

lemma tc_transfer_down_half:
  assumes ok: "tc_ok tc" "p < length (tc_heap tc)" "tp_state (tc_at tc p) = TC_SERVER_TRANSFER"
  shows "tc_half p (tc, w) (tc_transfer_down events sd p (tc, w))"
proof (cases "EPOLLIN \<in> set events \<and> tp_down (tc_at tc p) < tc_downBlockSize tc")
  case False
  with ok(1) show ?thesis by (auto simp: tc_transfer_down_def tc_half_def)
next
  case True
  let ?n = "min (nat (tc_downBlockSize tc - tp_down (tc_at tc p))) TC_BUF_SIZE"
  obtain a w1 where rc: "sys_recv ?n w = (a, w1)" by fastforce
  show ?thesis
  proof (cases a)
    case (Inl e)
    with True rc ok(1) show ?thesis by (auto simp: tc_transfer_down_def tc_half_def tc_io_failed_def)
  next
    case (Inr bs)
    have "length bs \<le> ?n" using rc Inr sys_recv_Inr(1) by blast
    then have n: "tp_down (tc_at tc p) + int (length bs) \<le> tc_downBlockSize tc" using True by auto
    obtain tc1 w2 where rec: "tc_received p (length bs) (tc, w1) = (tc1, w2)" by fastforce
    from tc_received_facts [OF ok n rec] True rc Inr rec ok show ?thesis
      by (auto simp: tc_transfer_down_def tc_half_def tc_io_closed_def)
  qed
qed

lemma tc_transfer_up_half:
  assumes ok: "tc_ok tc" "p < length (tc_heap tc)" "tp_state (tc_at tc p) = TC_SERVER_TRANSFER"
  shows "tc_half p (tc, w) (tc_transfer_up events sd p (tc, w))"
proof -
  have up: "tc_ok (tc_upd p (\<lambda>s. s\<lparr>tp_up := tp_up s + k\<rparr>) (tc\<lparr>tc_totalBytesUp := i\<rparr>))
      \<and> tc_conserves tc (tc_upd p (\<lambda>s. s\<lparr>tp_up := tp_up s + k\<rparr>) (tc\<lparr>tc_totalBytesUp := i\<rparr>))" for k i
    using peer_ok_at [OF ok(1,2)] ok
    by (auto intro!: tc_ok_upd tc_conserves_trans [OF _ tc_conserves_upd] simp: peer_ok_def in_flight_def block_of_def bytes_of_def)
  show ?thesis
    using ok up
    by (auto simp: tc_transfer_up_def tc_half_def tc_io_failed_def tc_io_closed_def Let_def
        split: sum.splits prod.splits option.splits)
qed

lemma tc_transfer_next_facts:
  assumes ok: "tc_ok tc" "p < length (tc_heap tc)" "tp_state (tc_at tc p) = TC_SERVER_TRANSFER"
  shows "tc_ok (fst (tc_transfer_next sd p (tc, w))) \<and> tc_conserves tc (fst (tc_transfer_next sd p (tc, w)))"
proof -
  let ?tc = "tc\<lparr>tc_currentBlockTransfer := Some p\<rparr>"
  have "tc_ok (tc_goto p TC_SERVER_FINISHED ?tc) \<and> tc_conserves ?tc (tc_goto p TC_SERVER_FINISHED ?tc)"
    if "tc_downBlockSize tc \<le> tp_down (tc_at tc p)"
    unfolding tc_goto_def using peer_ok_at [OF ok(1,2)] ok that
    by (auto intro!: tc_ok_upd tc_conserves_upd simp: peer_ok_def in_flight_def block_of_def bytes_of_def)
  moreover have "tc_conserves ?tc tc' = tc_conserves tc tc'" for tc'
    by (simp add: tc_conserves_def total_blocks_def unaccounted_bytes_def)
  ultimately show ?thesis
    using ok(1) by (auto simp: tc_transfer_next_def Let_def tc_epoll_eq)
qed

lemma tc_server_transfer_pass:
  assumes ok: "tc_ok tc" "p < length (tc_heap tc)" "tp_state (tc_at tc p) = TC_SERVER_TRANSFER"
  shows "tc_pass p (tc, w) (tc_server_transfer events sd p (tc, w))"
proof (cases "tc_transfer_down events sd p (tc, w)")
  case (Exit r y)
  with tc_transfer_down_half [OF ok, of w events sd] show ?thesis
    by (simp add: tc_server_transfer_def tc_half_def tc_pass_exit)
next
  case (Again x1)
  obtain tc1 w1 where x1: "x1 = (tc1, w1)" by fastforce
  have h1: "tc_ok tc1" "tc_conserves tc tc1" "tp_state (tc_at tc1 p) = TC_SERVER_TRANSFER"
    using tc_transfer_down_half [OF ok, of w events sd] Again x1 ok(3) by (simp_all add: tc_half_def)
  have p1: "p < length (tc_heap tc1)" using h1(2) ok(2) by (simp add: tc_conserves_def)
  note half = tc_transfer_up_half [OF h1(1) p1 h1(3), of w1 events sd]
  show ?thesis
  proof (cases "tc_transfer_up events sd p (tc1, w1)")
    case (Exit r y)
    with half Again x1 h1(2) show ?thesis
      by (auto simp: tc_server_transfer_def tc_half_def tc_pass_exit intro: tc_conserves_trans)
  next
    case (Again x2)
    obtain tc2 w2 where x2: "x2 = (tc2, w2)" by fastforce
    have h2: "tc_ok tc2" "tc_conserves tc1 tc2" "tp_state (tc_at tc2 p) = TC_SERVER_TRANSFER"
      using half Again x2 h1(3) by (simp_all add: tc_half_def)
    have p2: "p < length (tc_heap tc2)" using h2(2) p1 by (simp add: tc_conserves_def)
    from tc_transfer_next_facts [OF h2(1) p2 h2(3), of sd w2] h1(2) h2(2) Again x2 x1
      \<open>tc_transfer_down events sd p (tc, w) = Again x1\<close> show ?thesis
      by (auto simp: tc_server_transfer_def tc_pass_exit intro: tc_conserves_trans)
  qed
qed

lemma tc_server_finished_pass:
  assumes ok: "tc_ok tc" "p < length (tc_heap tc)" "tp_state (tc_at tc p) = TC_SERVER_FINISHED"
  shows "tc_pass p (tc, w) (tc_server_finished stack sd p (tc, w))"
proof -
  let ?f = "\<lambda>now s. s\<lparr>tp_state := TC_SERVER_REQUEST, tp_download_end := now\<rparr>"
  have "tc_ok (tc_block_done p now tc)" for now
    unfolding tc_block_done_def using peer_ok_at [OF ok(1,2)] ok
    by (intro tc_ok_upd) (auto simp: peer_ok_def in_flight_def)
  moreover have "tc_conserves tc (tc_block_done p now tc)" for now
    using ok peer_ok_at [OF ok(1,2)]
    by (simp add: tc_conserves_def total_blocks_def unaccounted_bytes_def tc_block_done_def tc_upd_def
        sum_list_update_int block_of_def bytes_of_def in_flight_def peer_ok_def algebra_simps)
  ultimately show ?thesis
    using ok(1)
    by (auto simp: tc_server_finished_def tc_epoll_eq tc_pass_exit intro: tc_io_failed_pass tc_io_closed_pass
        split: sum.splits prod.splits option.splits)
qed

section \<open>Activations\<close>

lemma tc_step_pass:
  assumes "tc_ok tc" "p < length (tc_heap tc)"
  shows "tc_pass p (tc, w) (tc_step stack events sd p (tc, w))"
  using assms
  by (cases "tp_state (tc_at tc p)")
     (auto simp: tc_step_def tc_pass_exit intro: tc_socks_request_init_pass tc_socks_toreply_pass
       tc_socks_reply_init_pass tc_socks_request_conn_pass tc_socks_reply_conn_pass tc_send_pass tc_receive_pass
       tc_auth_request_nodes_pass tc_auth_receive_nodes_pass tc_server_request_pass tc_server_transfer_pass
       tc_server_finished_pass)

interpretation tc_loop: handler_relation "tc_step stack events sd p"
  "\<lambda>(tc, w). tc_ok tc \<and> p < length (tc_heap tc)" "tc_measure p" "\<lambda>r (tc, w). tc_ok tc"
  "\<lambda>(tc, w) (tc', w'). tc_conserves tc tc'" "\<lambda>(tc, w) r (tc', w'). tc_conserves tc tc'"
  for stack events sd p
proof (unfold_locales, goal_cases)
  case (1 s s')
  with tc_step_pass [of "fst s" p "snd s" stack events sd] show ?case
    by (auto simp: tc_pass_def tc_conserves_def split: prod.splits)
next
  case (2 s s')
  with tc_step_pass [of "fst s" p "snd s" stack events sd] show ?case
    by (auto simp: tc_pass_def split: prod.splits)
next
  case (3 s r s')
  with tc_step_pass [of "fst s" p "snd s" stack events sd] show ?case
    by (auto simp: tc_pass_def split: prod.splits)
next
  case (4 s s')
  with tc_step_pass [of "fst s" p "snd s" stack events sd] show ?case
    by (auto simp: tc_pass_def split: prod.splits)
next
  case (5 s r s')
  with tc_step_pass [of "fst s" p "snd s" stack events sd] show ?case
    by (auto simp: tc_pass_def split: prod.splits)
next
  case (6 s s' r s'')
  then show ?case by (auto intro: tc_conserves_trans)
qed

lemma torrentClient_activate_facts:
  assumes "tc_ok tc"
  shows "\<exists>r tc' w'. torrentClient_activate stack tc sd events w = Some (r, tc', w') \<and> tc_ok tc' \<and> tc_conserves tc tc'"
proof (cases "map_of (tc_connections tc) sd")
  case None
  with assms show ?thesis by (simp add: torrentClient_activate_def)
next
  case (Some p)
  then have "p < length (tc_heap tc)"
    using assms by (auto simp: tc_ok_def list_all_iff dest!: map_of_SomeD)
  with assms tc_loop.returns_with_post [where s = "(tc, w)" and p = p and stack = stack and events = events and sd = sd]
  obtain r tc' w' where dr: "drive (tc_step stack events sd p) (tc, w) = Some (r, tc', w')" and "tc_ok tc'" by auto
  with tc_loop.result_fin [OF _ dr] assms \<open>p < length (tc_heap tc)\<close> Some show ?thesis
    by (simp add: torrentClient_activate_def)
qed

end
