(* ===== verification/Torrent_Client_Fetch.thy ===== *)
theory Torrent_Client_Fetch
  imports Torrent_Client_Properties
begin

text \<open>
  A block arrives: the client takes the pieces, waits for the server's last word, counts the
  block and is ready to ask for the next one.  And what shutting a client down closes.
\<close>

section \<open>Pieces\<close>

text \<open>
  The server at \<open>p\<close>, on descriptor \<open>sd\<close>, owes \<open>n\<close> more bytes of its block; what the client
  sends has gone, and the totals are those of a client that has run from its start and has
  not come near the range of a \<open>gint\<close>.
\<close>

definition fetching :: "tc_client \<Rightarrow> nat \<Rightarrow> fd \<Rightarrow> nat \<Rightarrow> bool" where
  "fetching tc p sd n \<longleftrightarrow>
     p < length (tc_heap tc) \<and> map_of (tc_connections tc) sd = Some p
     \<and> tp_state (tc_at tc p) = (if n = 0 then TC_SERVER_FINISHED else TC_SERVER_TRANSFER)
     \<and> tp_down (tc_at tc p) + int n = tc_downBlockSize tc \<and> tc_upBlockSize tc \<le> tp_up (tc_at tc p)
     \<and> 0 \<le> tc_totalBytesDown tc \<and> tc_bytesInProgress tc = - tc_totalBytesDown tc
     \<and> tc_totalBytesDown tc + int n < 2 ^ 31"

lemma tc_received_eq:
  "\<exists>t t' w'. tc_received p n (tc, w) =
     (tc_upd p (\<lambda>s. s\<lparr>tp_down := tp_down s + int n\<rparr>)
       ((if tp_down (tc_at tc p) = 0 then tc_upd p (\<lambda>s. s\<lparr>tp_download_first_byte := t'\<rparr>) else (\<lambda>x. x))
         (tc\<lparr>tc_download_first_byte := t, tc_totalBytesDown := tc_totalBytesDown tc + int n,
             tc_bytesInProgress := tc_bytesInProgress tc - int n\<rparr>)), w')"
proof (cases "tc_totalBytesDown tc = 0")
  case True
  then show ?thesis
    by (intro exI [of _ "fst (clock_gettime w)"] exI [of _ "fst (clock_gettime (snd (clock_gettime w)))"])
       (simp add: tc_received_def Let_def split_def tc_upd_def)
next
  case False
  then show ?thesis
    by (intro exI [of _ "tc_download_first_byte tc"] exI [of _ "fst (clock_gettime w)"])
       (simp add: tc_received_def Let_def split_def tc_upd_def)
qed

lemma piece_fetched:
  assumes f: "fetching tc p sd n" and c: "w_recv w = RData c # q" "c \<noteq> []" "length c \<le> TC_BUF_SIZE" "length c \<le> n"
  shows "\<exists>tc' w'. torrentClient_activate stack tc sd [EPOLLIN] w = Some (Ret TC_SUCCESS, tc', w')
     \<and> fetching tc' p sd (n - length c) \<and> tc_blocksDownloaded tc' = tc_blocksDownloaded tc
     \<and> tc_totalBytesDown tc' = tc_totalBytesDown tc + int (length c)"
proof -
  have n: "0 < n" using c by (cases c) auto
  note f' = f [unfolded fetching_def]
  have st: "tp_state (tc_at tc p) = TC_SERVER_TRANSFER" using f' n by simp
  let ?room = "min (nat (tc_downBlockSize tc - tp_down (tc_at tc p))) TC_BUF_SIZE"
  have room: "?room = min n TC_BUF_SIZE" using f' by auto
  then have "?room \<noteq> 0" using n by (simp add: TC_BUF_SIZE_def)
  then have rc: "sys_recv ?room w = (Inr c, w\<lparr>w_recv := q\<rparr>)" using c room by (simp add: sys_recv_def)
  have less: "tp_down (tc_at tc p) < tc_downBlockSize tc" using f' n by linarith
  have range: "gint_ok (tc_totalBytesDown tc + int (length c))" "gint_ok (tc_bytesInProgress tc - int (length c))"
    using f' c(4) by (auto simp: gint_ok_def)
  obtain t t' w' where rec: "tc_received p (length c) (tc, w\<lparr>w_recv := q\<rparr>) =
     (tc_upd p (\<lambda>s. s\<lparr>tp_down := tp_down s + int (length c)\<rparr>)
       ((if tp_down (tc_at tc p) = 0 then tc_upd p (\<lambda>s. s\<lparr>tp_download_first_byte := t'\<rparr>) else (\<lambda>x. x))
         (tc\<lparr>tc_download_first_byte := t, tc_totalBytesDown := tc_totalBytesDown tc + int (length c),
             tc_bytesInProgress := tc_bytesInProgress tc - int (length c)\<rparr>)), w')"
    using tc_received_eq [of p "length c" tc "w\<lparr>w_recv := q\<rparr>"] by (elim exE) (rule that)
  obtain tc1 where tc1: "tc_received p (length c) (tc, w\<lparr>w_recv := q\<rparr>) = (tc1, w')" using rec by blast
  have facts: "length (tc_heap tc1) = length (tc_heap tc)" "tc_connections tc1 = tc_connections tc"
    "tc_downBlockSize tc1 = tc_downBlockSize tc" "tc_upBlockSize tc1 = tc_upBlockSize tc"
    "tc_blocksDownloaded tc1 = tc_blocksDownloaded tc" "tc_totalBytesDown tc1 = tc_totalBytesDown tc + int (length c)"
    "tc_bytesInProgress tc1 = tc_bytesInProgress tc - int (length c)"
    "tp_state (tc_at tc1 p) = TC_SERVER_TRANSFER" "tp_up (tc_at tc1 p) = tp_up (tc_at tc p)"
    "tp_down (tc_at tc1 p) = tp_down (tc_at tc p) + int (length c)"
    using tc1 rec f' st by (auto simp: tc_upd_def)
  have down: "tc_transfer_down [EPOLLIN] sd p (tc, w) = Again (tc1, w')"
    using less rc c(2) range tc1 by (simp add: tc_transfer_down_def)
  have up: "tc_transfer_up [EPOLLIN] sd p (tc1, w') = Again (tc1, w')" by (simp add: tc_transfer_up_def)
  obtain tc2 w2 where next_state: "tc_transfer_next sd p (tc1, w') = (tc2, w2)" by fastforce
  have "fetching tc2 p sd (n - length c) \<and> tc_blocksDownloaded tc2 = tc_blocksDownloaded tc1
     \<and> tc_totalBytesDown tc2 = tc_totalBytesDown tc1"
    using next_state f' facts c(4)
    by (auto simp: fetching_def tc_transfer_next_def tc_epoll_eq tc_goto_def tc_upd_def Let_def split: if_splits)
  moreover have "tc_step stack [EPOLLIN] sd p (tc, w) = Exit (Ret TC_SUCCESS) (tc2, w2)"
    using st down up next_state by (simp add: tc_step_def tc_server_transfer_def)
  ultimately show ?thesis using f' facts by (simp add: torrentClient_activate_def drive_exit)
qed

text \<open>An activation that finds the bytes \<open>c\<close> on the descriptor.\<close>

definition arrives :: "fd \<Rightarrow> string \<Rightarrow> string \<times> fd \<times> epoll_ev list \<times> world \<Rightarrow> bool" where
  "arrives sd c = (\<lambda>(stack, sd', events, w). sd' = sd \<and> events = [EPOLLIN] \<and> (\<exists>q. w_recv w = RData c # q))"

lemma tc_run_append: "tc_run as tc = Some tc1 \<Longrightarrow> tc_run (as @ bs) tc = tc_run bs tc1"
  by (induction as tc rule: tc_run.induct) (auto split: option.splits prod.splits ret.splits)

lemma pieces_fetched:
  assumes "list_all2 (arrives sd) cs as"
  shows "fetching tc p sd n \<Longrightarrow> list_all (\<lambda>c. c \<noteq> [] \<and> length c \<le> TC_BUF_SIZE) cs \<Longrightarrow> length (concat cs) \<le> n
    \<Longrightarrow> \<exists>tc'. tc_run as tc = Some tc' \<and> fetching tc' p sd (n - length (concat cs))
        \<and> tc_blocksDownloaded tc' = tc_blocksDownloaded tc
        \<and> tc_totalBytesDown tc' = tc_totalBytesDown tc + int (length (concat cs))"
  using assms
proof (induction arbitrary: tc n rule: list_all2_induct)
  case (Cons c cs a as)
  from Cons.hyps(1) obtain stack w q where a: "a = (stack, sd, [EPOLLIN], w)" "w_recv w = RData c # q"
    by (auto simp: arrives_def)
  from Cons.prems have c: "c \<noteq> []" "length c \<le> TC_BUF_SIZE" "length c \<le> n" by simp_all
  from piece_fetched [OF Cons.prems(1) a(2) c] obtain tc1 w1 where
    act: "torrentClient_activate stack tc sd [EPOLLIN] w = Some (Ret TC_SUCCESS, tc1, w1)"
    and f1: "fetching tc1 p sd (n - length c)" "tc_blocksDownloaded tc1 = tc_blocksDownloaded tc"
    "tc_totalBytesDown tc1 = tc_totalBytesDown tc + int (length c)" by blast
  have "length (concat cs) \<le> n - length c" using Cons.prems(3) by simp
  from Cons.IH [OF f1(1) _ this] Cons.prems(2) f1(2,3) act a show ?case by (auto simp: diff_diff_eq add.assoc)
qed simp

lemma last_word:
  assumes f: "fetching tc p sd 0" and w: "w_recv w = RData ''FINISHED'' # q"
    and s: "array_str TC_BUF_SIZE (overlay ''FINISHED'' stack) = Some s"
  shows "\<exists>tc' w'. torrentClient_activate stack tc sd [EPOLLIN] w = Some (Ret TC_BLOCK_DOWNLOADED, tc', w')
     \<and> tc_blocksDownloaded tc' = tc_blocksDownloaded tc + 1 \<and> tp_state (tc_at tc' p) = TC_SERVER_REQUEST
     \<and> tc_totalBytesDown tc' = tc_totalBytesDown tc"
proof -
  have "strcasestr s ''FINISHED'' = Some 0"
  proof -
    define r where "r = cstr (drop (length ''FINISHED'') stack)"
    have "s = ''FINISHED'' @ r" using s by (simp add: array_str_def overlay_def cstr_append r_def Let_def split: if_splits)
    moreover have "cstr (''FINISHED'' @ r) = ''FINISHED'' @ r"
      by (simp add: cstr_append cstr_id r_def set_cstr)
    ultimately show ?thesis unfolding strcasestr_def by (simp add: find_ci_here)
  qed
  moreover have "sys_recv TC_BUF_SIZE w = (Inr ''FINISHED'', w\<lparr>w_recv := q\<rparr>)"
    using w by (simp add: sys_recv_def TC_BUF_SIZE_def)
  ultimately show ?thesis
    using f s by (auto simp: fetching_def torrentClient_activate_def drive_exit tc_step_def tc_server_finished_def
        tc_epoll_eq tc_block_done_def tc_upd_def split_def Let_def)
qed

text \<open>
  C5: a block that arrives, in whatever pieces, followed by the server's last word, is
  counted once, with all its bytes, and the server is free for the next request.
\<close>

theorem block_fetched:
  assumes "fetching tc p sd (length (concat cs))" "list_all2 (arrives sd) cs as"
    and "list_all (\<lambda>c. c \<noteq> [] \<and> length c \<le> TC_BUF_SIZE) cs"
    and "w_recv w = RData ''FINISHED'' # q" "array_str TC_BUF_SIZE (overlay ''FINISHED'' stack) = Some s"
  shows "\<exists>tc'. tc_run (as @ [(stack, sd, [EPOLLIN], w)]) tc = Some tc'
     \<and> tc_blocksDownloaded tc' = tc_blocksDownloaded tc + 1
     \<and> tc_totalBytesDown tc' = tc_totalBytesDown tc + int (length (concat cs))
     \<and> tp_state (tc_at tc' p) = TC_SERVER_REQUEST"
proof -
  from pieces_fetched [OF assms(2,1,3)] obtain tc1 where run: "tc_run as tc = Some tc1"
    and f: "fetching tc1 p sd 0" "tc_blocksDownloaded tc1 = tc_blocksDownloaded tc"
    "tc_totalBytesDown tc1 = tc_totalBytesDown tc + int (length (concat cs))" by auto
  from last_word [OF f(1) assms(4,5)] f show ?thesis by (auto simp: tc_run_append [OF run])
qed

definition demo_fetching :: tc_client where
  "demo_fetching =
     \<lparr>tc_epolld = 3, tc_sockd = 0, tc_authSockd = 5, tc_serverPort = 0, tc_maxConnections = -1,
      tc_servers = [0], tc_connections = [(6, 0)],
      tc_heap = [(tc_new_peer 1 80 6 TC_SERVER_TRANSFER 7)\<lparr>tp_up := 2\<rparr>], tc_lastServerListFetch = tc_zero_time,
      tc_socksAddr = 0, tc_socksPort = 0, tc_authAddr = 0, tc_authPort = 0, tc_errcode = TC_SUCCESS,
      tc_totalBytesDown = 0, tc_totalBytesUp = 2, tc_bytesInProgress = 0, tc_fileSize = 5,
      tc_downBlockSize = 5, tc_upBlockSize = 2, tc_blocksDownloaded = 0, tc_blocksRemaining = 0,
      tc_numBlocks = 1, tc_download_start = tc_zero_time, tc_download_first_byte = tc_zero_time,
      tc_currentBlockTransfer = None\<rparr>"

theorem block_fetched_witness:
  "\<exists>tc'. tc_run [([], 6, [EPOLLIN], quiet_world\<lparr>w_recv := [RData ''abc'']\<rparr>),
                ([], 6, [EPOLLIN], quiet_world\<lparr>w_recv := [RData ''de'']\<rparr>),
                ([], 6, [EPOLLIN], quiet_world\<lparr>w_recv := [RData ''FINISHED'']\<rparr>)] demo_fetching = Some tc'
     \<and> tc_blocksDownloaded tc' = tc_numBlocks demo_fetching \<and> tc_totalBytesDown tc' = 5"
proof -
  let ?as = "[([], 6, [EPOLLIN], quiet_world\<lparr>w_recv := [RData ''abc'']\<rparr>),
              ([], 6, [EPOLLIN], quiet_world\<lparr>w_recv := [RData ''de'']\<rparr>)] :: (string \<times> fd \<times> epoll_ev list \<times> world) list"
  have "fetching demo_fetching 0 6 (length (concat [''abc'', ''de'']))"
    by (simp add: fetching_def demo_fetching_def tc_new_peer_def)
  moreover have "list_all2 (arrives 6) [''abc'', ''de''] ?as" by (simp add: arrives_def)
  moreover have "list_all (\<lambda>c. c \<noteq> [] \<and> length c \<le> TC_BUF_SIZE) [''abc'', ''de'']" by (simp add: TC_BUF_SIZE_def)
  moreover have "w_recv (quiet_world\<lparr>w_recv := [RData ''FINISHED'']\<rparr>) = RData ''FINISHED'' # []" by simp
  moreover have "array_str TC_BUF_SIZE (overlay ''FINISHED'' []) = Some ''FINISHED''"
    unfolding overlay_Nil by (rule array_str_overlay) (simp_all add: TC_BUF_SIZE_def)
  ultimately have "\<exists>tc'. tc_run (?as @ [([], 6, [EPOLLIN], quiet_world\<lparr>w_recv := [RData ''FINISHED'']\<rparr>)]) demo_fetching = Some tc'
     \<and> tc_blocksDownloaded tc' = tc_blocksDownloaded demo_fetching + 1
     \<and> tc_totalBytesDown tc' = tc_totalBytesDown demo_fetching + int (length (concat [''abc'', ''de'']))
     \<and> tp_state (tc_at tc' 0) = TC_SERVER_REQUEST"
    by (rule block_fetched)
  then show ?thesis unfolding append.simps by (auto simp: demo_fetching_def simp del: tc_run.simps)
qed

section \<open>Shutting down\<close>

text \<open>The servers with a descriptor, and what closing them does to the kernel.\<close>

definition tc_opens :: "tc_client \<Rightarrow> nat list \<Rightarrow> nat list" where
  "tc_opens tc ps = filter (\<lambda>p. tp_sockd (tc_at tc p) \<noteq> 0) ps"

definition tc_closings :: "tc_client \<Rightarrow> nat list \<Rightarrow> effect list" where
  "tc_closings tc ps = concat (map (\<lambda>p. [Epoll CtlDel (tp_sockd (tc_at tc p)) [], Closed (tp_sockd (tc_at tc p))]) (tc_opens tc ps))"

lemma close_server:
  assumes "p < length (tc_heap tc)" "tp_sockd (tc_at tc p) \<noteq> 0"
    and "torrentClient_connectionClose p True (tc, w) = (tc', w')"
  shows "tc_servers tc' = tc_servers tc @ [p]" "length (tc_heap tc') = length (tc_heap tc)"
    "w_log w' = w_log w @ [Epoll CtlDel (tp_sockd (tc_at tc p)) [], Closed (tp_sockd (tc_at tc p))]"
    "tp_sockd (tc_at tc' p) = 0" "q \<noteq> p \<Longrightarrow> tc_at tc' q = tc_at tc q"
  using assms by (auto simp: torrentClient_connectionClose_def tc_upd_def Let_def)

lemma shutdown_from_log:
  assumes "list_all (\<lambda>p. p < length (tc_heap (fst x))) (tc_servers (fst x))"
    and "distinct (tc_opens (fst x) (drop i (tc_servers (fst x))))"
  shows "\<exists>tc' w'. tc_shutdown_from i x = (Ret (), tc', w')
     \<and> w_log w' = w_log (snd x) @ tc_closings (fst x) (drop i (tc_servers (fst x)))"
  using assms
proof (induction i x rule: tc_shutdown_from.induct)
  case (1 i tc w)
  show ?case
  proof (cases "i < length (tc_servers tc)")
    case False
    then show ?thesis by (simp add: tc_shutdown_from.simps [of i tc w] tc_closings_def tc_opens_def)
  next
    case True
    let ?p = "tc_servers tc ! i"
    have p: "?p < length (tc_heap tc)" using True "1.prems"(1) by (simp add: list_all_length)
    have split: "drop i (tc_servers tc) = ?p # drop (Suc i) (tc_servers tc)" using True by (simp add: Cons_nth_drop_Suc)
    show ?thesis
    proof (cases "tp_sockd (tc_at tc ?p) = 0")
      case True
      with "1.IH"(2) [OF \<open>i < _\<close> refl] p "1.prems" split show ?thesis
        by (simp add: tc_shutdown_from.simps [of i tc w] Let_def tc_closings_def tc_opens_def)
    next
      case False
      obtain tc1 w1 where cl: "torrentClient_connectionClose ?p True (tc, w) = (tc1, w1)" by fastforce
      note c = close_server [OF p False cl]
      let ?rest = "drop (Suc i) (tc_servers tc)"
      have notin_rest: "?p \<notin> set (tc_opens tc ?rest)" using "1.prems"(2) split False by (simp add: tc_opens_def)
      have same: "tp_sockd (tc_at tc1 q) \<noteq> 0 \<longleftrightarrow> tp_sockd (tc_at tc q) \<noteq> 0" if "q \<in> set ?rest" for q
        using that notin_rest c(4,5) False by (cases "q = ?p") (auto simp: tc_opens_def)
      have rest: "drop (Suc i) (tc_servers tc1) = ?rest @ [?p]" using c(1) True by simp
      have opens: "tc_opens tc1 (drop (Suc i) (tc_servers tc1)) = tc_opens tc ?rest"
        using same c(4) by (auto simp: rest tc_opens_def intro: filter_cong)
      moreover have "tc_at tc1 q = tc_at tc q" if "q \<in> set (tc_opens tc ?rest)" for q
        using that notin_rest c(5) by (metis)
      ultimately have closings: "tc_closings tc1 (drop (Suc i) (tc_servers tc1)) = tc_closings tc ?rest"
        unfolding tc_closings_def by (auto intro!: arg_cong [where f = concat] map_cong)
      have "list_all (\<lambda>p. p < length (tc_heap tc1)) (tc_servers tc1)" using "1.prems"(1) p c(1,2) by simp
      moreover have "distinct (tc_opens tc1 (drop (Suc i) (tc_servers tc1)))"
        using "1.prems"(2) split False opens by (simp add: tc_opens_def)
      ultimately obtain tc2 w2 where "tc_shutdown_from (Suc i) (tc1, w1) = (Ret (), tc2, w2)"
        and "w_log w2 = w_log w1 @ tc_closings tc ?rest"
        using "1.IH"(1) [OF True refl] p False cl closings by auto
      moreover have "tc_closings tc (drop i (tc_servers tc)) =
          [Epoll CtlDel (tp_sockd (tc_at tc ?p)) [], Closed (tp_sockd (tc_at tc ?p))] @ tc_closings tc ?rest"
        using False unfolding split by (simp add: tc_closings_def tc_opens_def)
      ultimately show ?thesis
        using True p False cl c(3) by (simp add: tc_shutdown_from.simps [of i tc w] Let_def)
    qed
  qed
qed

text \<open>
  Shutting a client down takes every open server out of the epoll and closes it, once
  each and in order, and closes nothing else: the connection to the authority stays open.
\<close>

theorem shutdown_closes_servers:
  assumes "tc_ok tc" "distinct (tc_opens tc (tc_servers tc))"
  shows "\<exists>tc' w'. torrentClient_shutdown tc w = (Ret TC_SUCCESS, tc', w') \<and> tc_connections tc' = []
     \<and> w_log w' = w_log w @ concat (map (\<lambda>p. [Epoll CtlDel (tp_sockd (tc_at tc p)) [], Closed (tp_sockd (tc_at tc p))])
                                      (tc_opens tc (tc_servers tc)))"
proof -
  obtain tc1 w1 where "tc_shutdown_from 0 (tc, w) = (Ret (), tc1, w1)" "w_log w1 = w_log w @ tc_closings tc (tc_servers tc)"
    using shutdown_from_log [of "(tc, w)" 0] assms by (auto simp: tc_ok_def)
  then show ?thesis by (simp add: torrentClient_shutdown_def tc_closings_def)
qed

theorem shutdown_closes_servers_witness:
  "\<exists>tc' w'. torrentClient_shutdown (demo_fetching\<lparr>tc_connections := [(5, 0), (6, 0)]\<rparr>) quiet_world = (Ret TC_SUCCESS, tc', w')
     \<and> w_log w' = [Epoll CtlDel 6 [], Closed 6]"
proof -
  let ?tc = "demo_fetching\<lparr>tc_connections := [(5, 0), (6, 0)]\<rparr>"
  have "tc_ok ?tc" by (simp add: tc_ok_def demo_fetching_def peer_ok_def in_flight_def tc_new_peer_def)
  moreover have "distinct (tc_opens ?tc (tc_servers ?tc))" by (simp add: tc_opens_def demo_fetching_def)
  ultimately show ?thesis
    using shutdown_closes_servers [of ?tc quiet_world]
    by (auto simp: tc_opens_def demo_fetching_def tc_new_peer_def quiet_world_def)
qed

end
