(* ===== verification/Torrent_Protocol.thy ===== *)
theory Torrent_Protocol
  imports Torrent_Authority_Properties Torrent_Client
begin

text \<open>
  What the parts of the torrent plug-in say to each other: lists of nodes from the authority
  to the client, file requests from the client to the server, registrations from the server
  to the authority.  The locale \<open>node_wire\<close> is the contract between the writer and the
  reader of a list of nodes; the reader's buffer holds garbage behind what was received.
\<close>

section \<open>Lists of nodes\<close>

locale node_wire =
  fixes enc :: "'n list \<Rightarrow> string"
    and dec :: "string \<Rightarrow> 'n list"
    and wf :: "'n list \<Rightarrow> bool"
  assumes dec_enc: "wf ns \<Longrightarrow> dec (overlay (enc ns) junk) = ns"
begin

lemma enc_inject:
  assumes "wf ns" "wf ms" "enc ns = enc ms"
  shows "ns = ms"
  using dec_enc [OF assms(1), of "[]"] dec_enc [OF assms(2), of "[]"] assms(3) by simp

text \<open>What arrives behind a list in the same buffer is as good as garbage.\<close>

lemma dec_first:
  assumes "wf ns"
  shows "dec (overlay (enc ns @ rest) junk) = ns"
proof -
  have "overlay (enc ns @ rest) junk = overlay (enc ns) (replicate (length (enc ns)) NUL @ overlay rest (drop (length (enc ns)) junk))"
    by (simp add: overlay_def add.commute)
  then show ?thesis using dec_enc [OF assms] by simp
qed

end

text \<open>One node in its six bytes.\<close>

lemma tc_node_at:
  assumes "buf = CHR 0x00 # concat (map addr_port_bytes ns) @ rest \<or> buf = c # concat (map addr_port_bytes ns) @ rest"
    and "i < length ns"
  shows "tc_node buf i = ns ! i"
proof -
  obtain b where buf: "buf = b # concat (map addr_port_bytes ns) @ rest" using assms(1) by blast
  have split: "concat (map addr_port_bytes ns) =
      concat (map addr_port_bytes (take i ns)) @ addr_port_bytes (ns ! i) @ concat (map addr_port_bytes (drop (Suc i) ns))"
    using id_take_nth_drop [OF assms(2)] by (metis concat_append list.simps(9) map_append concat.simps(2))
  have len: "length (concat (map addr_port_bytes (take i ns))) = 6 * i"
    using assms(2) by (simp add: length_concat comp_def sum_list_triv)
  obtain a p where ap: "ns ! i = (a, p)" by fastforce
  have "drop (1 + 6 * i) buf = addr_port_bytes (a, p) @ concat (map addr_port_bytes (drop (Suc i) ns)) @ rest"
    unfolding buf split using len ap by simp
  moreover from this have "drop (5 + 6 * i) buf = le_bytes 2 (unat p) @ concat (map addr_port_bytes (drop (Suc i) ns)) @ rest"
    using drop_drop [of 4 "1 + 6 * i" buf] by (simp add: addr_port_bytes_def add.commute)
  ultimately show ?thesis
    by (simp add: tc_node_def array_slice_def addr_port_bytes_def ap Let_def)
qed

text \<open>How many nodes the client takes from a list of \<open>n\<close>.\<close>

definition nodes_read :: "nat \<Rightarrow> nat" where
  "nodes_read n = (if n mod 256 < 128 then n mod 256 else 0)"

lemma nodes_read_less: "nodes_read n < 128"
  by (simp add: nodes_read_def)

lemma tc_num_nodes_list: "tc_num_nodes (char_of n # s) = nodes_read n"
proof -
  define m where "m = int (n mod 256)"
  have m: "0 \<le> m" "m < 256" by (simp_all add: m_def)
  have "signed_take_bit 7 m = (m + 128) mod 256 - 128"
    by (simp add: signed_take_bit_eq_take_bit_shift take_bit_eq_mod)
  also have "\<dots> = (if m < 128 then m else m - 256)"
  proof (cases "m < 128")
    case False
    have "(m - 128 + 256) mod 256 = m - 128" using m False by (subst mod_add_self2) simp
    with False show ?thesis by (simp add: add.commute)
  qed (use m in simp)
  finally have "signed_take_bit 7 (int (n mod 256)) = (if n mod 256 < 128 then int (n mod 256) else int (n mod 256) - 256)"
    by (simp add: m_def)
  moreover have "(of_char (char_of n :: char) :: int) = int (n mod 256)"
    using of_nat_of_char [of "char_of n", where 'a = int] by simp
  ultimately show ?thesis
    by (simp add: tc_num_nodes_def array_slice_def nodes_read_def Let_def nat_mod_distrib)
qed

lemma node_list_wire:
  "tc_nodes (overlay (take 1024 (ta_node_list ns @ rest)) stack) = take (nodes_read (length ns)) ns"
proof -
  let ?k = "nodes_read (length ns)"
  have k: "?k \<le> length ns" "?k < 128" by (simp_all add: nodes_read_def)
  have split: "concat (map addr_port_bytes ns) = concat (map addr_port_bytes (take ?k ns)) @ concat (map addr_port_bytes (drop ?k ns))"
    by (metis append_take_drop_id concat_append map_append)
  have len: "length (concat (map addr_port_bytes (take ?k ns))) = 6 * ?k"
    using k by (simp add: length_concat comp_def sum_list_triv)
  then have "\<exists>more. overlay (take 1024 (ta_node_list ns @ rest)) stack =
      char_of (length ns) # concat (map addr_port_bytes (take ?k ns)) @ more"
    using k unfolding ta_node_list_def split by (simp add: overlay_def)
  then obtain more where buf: "overlay (take 1024 (ta_node_list ns @ rest)) stack =
      char_of (length ns) # concat (map addr_port_bytes (take ?k ns)) @ more" ..
  have "tc_node (overlay (take 1024 (ta_node_list ns @ rest)) stack) i = ns ! i" if "i < ?k" for i
    using tc_node_at [OF disjI2 [OF buf], of i] that k by simp
  moreover have "tc_num_nodes (overlay (take 1024 (ta_node_list ns @ rest)) stack) = ?k"
    unfolding buf by (rule tc_num_nodes_list)
  ultimately show ?thesis
    using k by (auto simp: tc_nodes_def intro!: nth_equalityI)
qed

interpretation nodes: node_wire ta_node_list tc_nodes "\<lambda>ns. length ns < 128"
proof
  fix ns :: "(u32 \<times> u16) list" and junk
  assume n: "length ns < 128"
  have "take 1024 (ta_node_list ns @ []) = ta_node_list ns" using n by (simp add: length_ta_node_list)
  with node_list_wire [of ns "[]" junk] n show "tc_nodes (overlay (ta_node_list ns) junk) = ns"
    by (simp add: nodes_read_def)
qed

text \<open>
  C27: of a list of nodes the authority has sent, whatever follows it and whatever lay in the
  buffer, the client reads the nodes the number in the first byte stands for as a signed
  byte: all of them up to 127, none from 128 to 255, and from 256 on those up to the
  remainder.
\<close>

theorem node_list_read:
  "tc_nodes (overlay (take 1024 (ta_node_list ns @ rest)) stack) = take (nodes_read (length ns)) ns"
  by (rule node_list_wire)

lemma announcement_is_list: "ta_announcement a p = ta_node_list [(a, p)]"
proof -
  have "char_of (of_char (CHR 0x01) :: nat) = CHR 0x01" by (rule char_of_char)
  then have "char_of (Suc 0) = CHR 0x01" by (simp del: char_of_char)
  then show ?thesis by (simp add: ta_announcement_def ta_node_list_def)
qed

text \<open>
  Two announcements that reach the client in one \<open>recv\<close> are read as one: the second
  server is lost.
\<close>

theorem coalesced_announcement_lost:
  "tc_nodes (overlay (ta_announcement a p @ ta_announcement b q) stack) = [(a, p)]"
  using nodes.dec_first [of "[(a, p)]"] by (simp add: announcement_is_list)

section \<open>Cookies\<close>

lemma strtol_show_cookie: "strtol 16 (show_cookie c @ CR # r) = int (unat c)"
proof -
  have digits: "\<forall>x\<in>set (show_cookie c). \<exists>e<16. x = hex_digit e"
    using set_hex_digits [of 8 "unat c"] by (auto simp: show_cookie_def)
  obtain d u where u: "show_cookie c = hex_digit d # u" "d < 16"
    using digits length_show_cookie [of c] by (cases "show_cookie c") auto
  have nul: "NUL \<notin> set (show_cookie c)" using digits hex_digit_facts(4) by force
  have cs: "cstr (show_cookie c @ CR # r) = show_cookie c @ CR # cstr r"
    using nul by (simp add: cstr_append)
  obtain e v where v: "u = hex_digit e # v" "e < 16"
    using digits u length_show_cookie [of c] by (cases u) auto
  have "\<not> ci_prefix ''0x'' (show_cookie c @ CR # cstr r)"
    using hex_digit_facts(5) [OF v(2)] u v by (auto simp: ascii_lower_def)
  moreover have "read_digits 16 0 (show_cookie c @ CR # cstr r) = unat c"
    using unsigned_less [of c, where 'a = nat]
    by (simp add: show_cookie_def read_digits_hex digit_val_def)
  ultimately have "strtol_digits 16 (show_cookie c @ CR # cstr r) = unat c" by simp
  then have val: "strtol_digits 16 (hex_digit d # u @ CR # cstr r) = unat c" by (simp only: u append_Cons)
  have "strtol 16 (show_cookie c @ CR # r) = max (- (2 ^ 63)) (min (2 ^ 63 - 1) (int (unat c)))"
    unfolding val [symmetric] using hex_digit_facts [OF u(2)] cs u by (intro strtol_plain) simp_all
  moreover have "int (unat c) < 2 ^ 32" using unsigned_less [of c, where 'a = int] by simp
  moreover have "0 \<le> int (unat c)" by simp
  ultimately show ?thesis by (simp only: in_range_64)
qed

lemma file_request_nul: "NUL \<notin> set (tc_file_request cookie)"
  using set_hex_digits [of 8 "unat cookie"] hex_digit_facts(4)
  by (force simp: tc_file_request_def cookie_line_def show_cookie_def)

lemma length_file_request: "length (tc_file_request cookie) = 36"
  by (simp add: tc_file_request_def cookie_line_def)

text \<open>
  C26: the server reads the request of the client in one piece, whatever lies in the buffer
  behind it: it learns the client's cookie and starts the transfer.
\<close>

theorem file_request_understood:
  assumes "array_str TS_BUF_SIZE (overlay (tc_file_request cookie) stack) = Some s"
  shows "ts_read_request s x =
    ts_epoll [EPOLLIN, EPOLLOUT] (ts_goto TS_TRANSFER (x\<lparr>tsx_c := (tsx_c x)\<lparr>tsc_cookie := cookie\<rparr>\<rparr>))"
proof -
  note nul = file_request_nul [of cookie]
  define r where "r = cstr (drop (length (tc_file_request cookie)) stack)"
  have s: "s = tc_file_request cookie @ r"
    using assms nul by (simp add: array_str_def overlay_def cstr_append r_def Let_def split: if_splits)
  have sn: "cstr s = s" using nul by (simp add: s cstr_append cstr_id r_def set_cstr)
  have "strcasestr s ''FILE REQUEST'' = Some 0"
    unfolding strcasestr_def sn by (rule find_ci_here) (simp_all add: s tc_file_request_def)
  moreover have "strcasestr s ''TOR-COOKIE: '' = Some 14"
    unfolding strcasestr_def sn
    by (simp add: s tc_file_request_def cookie_line_def ascii_lower_def)
  moreover have "drop (14 + length ''TOR-COOKIE: '') s = show_cookie cookie @ CR # LF # r"
    by (simp add: s tc_file_request_def cookie_line_def)
  then have "ts_cookie_after 14 s = cookie"
    by (simp add: ts_cookie_after_def strtol_show_cookie)
  ultimately show ?thesis by (simp add: ts_read_request_def)
qed

definition demo_tsx :: tsx where
  "demo_tsx = \<lparr>tsx_ts = ts_fresh 3 80 100 100,
     tsx_c = \<lparr>tsc_sockd = 6, tsc_addr = 9, tsc_state = TS_REQUEST, tsc_down = 0, tsc_up = 0, tsc_cookie = 0\<rparr>,
     tsx_w = quiet_world\<rparr>"

theorem file_request_understood_witness:
  "array_str TS_BUF_SIZE (overlay (tc_file_request 0xCAFE) []) = Some (tc_file_request 0xCAFE)
   \<and> ts_read_request (tc_file_request 0xCAFE) demo_tsx =
     ts_epoll [EPOLLIN, EPOLLOUT] (ts_goto TS_TRANSFER (demo_tsx\<lparr>tsx_c := (tsx_c demo_tsx)\<lparr>tsc_cookie := 0xCAFE\<rparr>\<rparr>))"
proof
  show "array_str TS_BUF_SIZE (overlay (tc_file_request 0xCAFE) []) = Some (tc_file_request 0xCAFE)"
    unfolding overlay_Nil
    by (rule array_str_overlay) (simp_all add: file_request_nul length_file_request TS_BUF_SIZE_def)
  then show "ts_read_request (tc_file_request 0xCAFE) demo_tsx =
     ts_epoll [EPOLLIN, EPOLLOUT] (ts_goto TS_TRANSFER (demo_tsx\<lparr>tsx_c := (tsx_c demo_tsx)\<lparr>tsc_cookie := 0xCAFE\<rparr>\<rparr>))"
    by (rule file_request_understood)
qed

end
