(* ===== verification/Torrent_Service.thy ===== *)
theory Torrent_Service
  imports Torrent_Client Torrent_Authority
begin

text \<open>
  The torrent service (\<open>torrent/torrent-service.c\<close>, \<open>torrent-service.h\<close>): it starts a
  client, a server or both from textual arguments and passes descriptors on to them; a client
  that fails is started again.  The name lookup \<open>hostbyname\<close> is a parameter.
\<close>

record node_args =
  na_nodeType :: string
  na_authorityHostname :: string
  na_authorityPort :: string
  na_socksHostname :: string
  na_socksPort :: string
  na_serverPort :: string
  na_fileSize :: string
  na_downBlockSize :: "string option"
  na_upBlockSize :: "string option"

record tservice =
  sv_server :: "ts_server option"
  sv_client :: "tc_client option"
  sv_authority :: "authority option"
  sv_lastReport :: timespec
  sv_clientDone :: bool
  sv_wakeupTime :: timespec

section \<open>Sizes\<close>

text \<open>
  The first token of \<open>strtok\<close> at one delimiter, and a size with its unit: \<open>None\<close> when the
  product is no \<open>gint\<close>.
\<close>

definition strtok_first :: "char \<Rightarrow> string \<Rightarrow> string" where
  "strtok_first d s = takeWhile (\<lambda>c. c \<noteq> d) (dropWhile (\<lambda>c. c = d) (cstr s))"

definition torrent_size :: "string \<Rightarrow> int option" where
  "torrent_size s =
     (let v = (if strstr s ''KB'' \<noteq> None then atoi (strtok_first (CHR ''K'') s) * 1024
               else if strstr s ''MB'' \<noteq> None then atoi (strtok_first (CHR ''M'') s) * 1024 * 1024
               else atoi s)
      in if gint_ok v then Some v else None)"

definition block_size :: "string option \<Rightarrow> int option" where
  "block_size arg = (case arg of None \<Rightarrow> Some (16 * 1024) | Some s \<Rightarrow> torrent_size s)"

text \<open>\<open>!g_ascii_strncasecmp(nodeType, name, strlen(name))\<close>\<close>

definition node_type_is :: "string \<Rightarrow> string \<Rightarrow> bool" where
  "node_type_is s name = ci_prefix name (cstr s)"

section \<open>Reports\<close>

text \<open>
  The four times of a report: the first byte and now, of the download and of the block.  The
  report goes through \<open>currentBlockTransfer\<close>.
\<close>

definition report_times :: "tc_client \<Rightarrow> tc_peer \<Rightarrow> timespec \<Rightarrow> timespec list" where
  "report_times tc s now =
     [ts_minus (tc_download_first_byte tc) (tc_download_start tc),
      ts_minus now (tc_download_start tc),
      ts_minus (tp_download_first_byte s) (tp_download_start s),
      ts_minus now (tp_download_start s)]"

definition torrentService_report :: "tc_client \<Rightarrow> world \<Rightarrow> timespec list ret \<times> world" where
  "torrentService_report tc w =
     (let (now, w1) = clock_gettime w in
      case tc_currentBlockTransfer tc of
        None \<Rightarrow> (UB, w1)
      | Some p \<Rightarrow> (Ret (report_times tc (tc_at tc p) now), w1))"

section \<open>Starting\<close>

definition zero_ts_server :: ts_server where "zero_ts_server = ts_fresh 0 0 0 0"

definition zero_tc_client :: tc_client where
  "zero_tc_client = \<lparr>tc_epolld = 0, tc_sockd = 0, tc_authSockd = 0, tc_serverPort = 0,
     tc_maxConnections = 0, tc_servers = [], tc_connections = [], tc_heap = [],
     tc_lastServerListFetch = tc_zero_time, tc_socksAddr = 0, tc_socksPort = 0, tc_authAddr = 0,
     tc_authPort = 0, tc_errcode = TC_SUCCESS, tc_totalBytesDown = 0, tc_totalBytesUp = 0,
     tc_bytesInProgress = 0, tc_fileSize = 0, tc_downBlockSize = 0, tc_upBlockSize = 0,
     tc_blocksDownloaded = 0, tc_blocksRemaining = 0, tc_numBlocks = 0,
     tc_download_start = tc_zero_time, tc_download_first_byte = tc_zero_time,
     tc_currentBlockTransfer = None\<rparr>"

text \<open>
  The block sizes are those of the client, so the server gets them the other way round.
  \<open>Inl\<close> is an early return.
\<close>

definition sv_start_server ::
    "(string \<Rightarrow> u32) \<Rightarrow> node_args \<Rightarrow> fd \<Rightarrow> int \<Rightarrow> int \<Rightarrow> tservice \<times> world
      \<Rightarrow> (int ret \<times> tservice \<times> world) + tservice \<times> world" where
  "sv_start_server hostbyname args serverEpolld down up = (\<lambda>(sv, w).
     if node_type_is (na_nodeType args) ''server'' \<or> node_type_is (na_nodeType args) ''node''
     then case torrentServer_start zero_ts_server serverEpolld (htonl 0)
                 (htons (of_int (atoi (na_serverPort args)))) (hostbyname (na_authorityHostname args))
                 (htons (of_int (atoi (na_authorityPort args)))) up down w of (ret, ts, w1) \<Rightarrow>
            if ret < 0 then Inl (Ret (-1), sv\<lparr>sv_server := None\<rparr>, w1)
            else Inr (sv\<lparr>sv_server := Some ts\<rparr>, w1)
     else Inr (sv, w))"

definition sv_start_client ::
    "(string \<Rightarrow> u32) \<Rightarrow> node_args \<Rightarrow> fd \<Rightarrow> int \<Rightarrow> int \<Rightarrow> int \<Rightarrow> tservice \<times> world
      \<Rightarrow> int ret \<times> tservice \<times> world" where
  "sv_start_client hostbyname args clientEpolld fileSize down up = (\<lambda>(sv, w).
     if node_type_is (na_nodeType args) ''client'' \<or> node_type_is (na_nodeType args) ''node''
     then case torrentClient_start zero_tc_client clientEpolld (hostbyname (na_socksHostname args))
                 (htons (of_int (atoi (na_socksPort args)))) (hostbyname (na_authorityHostname args))
                 (htons (of_int (atoi (na_authorityPort args)))) (of_int (atoi (na_serverPort args)))
                 fileSize down up w of
            (Ret ret, tc, w1) \<Rightarrow>
              if ret < 0 then (Ret (-1), sv\<lparr>sv_client := None\<rparr>, w1)
              else (Ret 0, sv\<lparr>sv_client := Some tc\<rparr>, w1)
          | (_, tc, w1) \<Rightarrow> (UB, sv\<lparr>sv_client := Some tc\<rparr>, w1)
     else (Ret 0, sv, w))"

definition torrentService_startNode ::
    "(string \<Rightarrow> u32) \<Rightarrow> tservice \<Rightarrow> node_args \<Rightarrow> fd \<Rightarrow> fd \<Rightarrow> world \<Rightarrow> int ret \<times> tservice \<times> world" where
  "torrentService_startNode hostbyname sv args serverEpolld clientEpolld w =
     (case (torrent_size (na_fileSize args), block_size (na_downBlockSize args), block_size (na_upBlockSize args)) of
        (Some fileSize, Some down, Some up) \<Rightarrow>
          (case sv_start_server hostbyname args serverEpolld down up (sv, w) of
             Inl r \<Rightarrow> r
           | Inr x \<Rightarrow> sv_start_client hostbyname args clientEpolld fileSize down up x)
      | _ \<Rightarrow> (UB, sv, w))"

section \<open>Activating\<close>

text \<open>A failed client is shut down and started again with its own parameters.\<close>

definition tc_restart :: "tc_client \<Rightarrow> world \<Rightarrow> unit ret \<times> tc_client \<times> world" where
  "tc_restart tc w =
     (case torrentClient_shutdown tc w of
        (Ret _, tc1, w1) \<Rightarrow>
          (case torrentClient_start tc1 (tc_epolld tc1) (tc_socksAddr tc1) (tc_socksPort tc1)
                  (tc_authAddr tc1) (tc_authPort tc1) (tc_serverPort tc1) (tc_fileSize tc1)
                  (tc_downBlockSize tc1) (tc_upBlockSize tc1) w1 of
             (Ret _, tc2, w2) \<Rightarrow> (Ret (), tc2, w2)
           | (_, tc2, w2) \<Rightarrow> (UB, tc2, w2))
      | (_, tc1, w1) \<Rightarrow> (UB, tc1, w1))"

definition sv_retry :: "tservice \<Rightarrow> tc_client \<Rightarrow> world \<Rightarrow> int ret \<times> tservice \<times> world" where
  "sv_retry sv tc w =
     (case tc_restart tc w of
        (Ret _, tc1, w1) \<Rightarrow>
          (let (now, w2) = clock_gettime w1
           in (Ret (-1), sv\<lparr>sv_client := Some tc1,
                            sv_wakeupTime := \<lparr>tv_sec = tv_sec now + 60, tv_nsec = 0\<rparr>\<rparr>,
               emit (Callback 60) w2))
      | (_, tc1, w1) \<Rightarrow> (UB, sv\<lparr>sv_client := Some tc1\<rparr>, w1))"

text \<open>The progress reports; \<open>False\<close> when a report dereferences NULL.\<close>

definition sv_progress :: "tc_code \<Rightarrow> tservice \<Rightarrow> tc_client \<Rightarrow> world \<Rightarrow> bool \<times> tservice \<times> world" where
  "sv_progress ret sv tc w =
     (if \<not> sv_clientDone sv \<and> 0 < tc_totalBytesDown tc
      then let (now, w1) = clock_gettime w in
        if tc_fileSize tc \<le> tc_totalBytesDown tc
        then (case torrentService_report tc w1 of (r, w2) \<Rightarrow>
                (r \<noteq> UB, sv\<lparr>sv_clientDone := True\<rparr>, w2))
        else if ret = TC_BLOCK_DOWNLOADED
        then (case torrentService_report tc w1 of (r, w2) \<Rightarrow>
                (r \<noteq> UB, sv\<lparr>sv_lastReport := now\<rparr>, w2))
        else (case tc_currentBlockTransfer tc of
                None \<Rightarrow> (True, sv, w1)
              | Some p \<Rightarrow>
                  if 1 < tv_sec now - tv_sec (sv_lastReport sv)
                     \<and> (0 < tp_down (tc_at tc p) \<or> 0 < tp_up (tc_at tc p))
                  then (case torrentService_report tc w1 of (r, w2) \<Rightarrow>
                          (r \<noteq> UB, sv\<lparr>sv_lastReport := now\<rparr>, w2))
                  else (True, sv, w1))
      else (True, sv, w))"

text \<open>The part for the client: \<open>Inl\<close> returns, \<open>Inr\<close> goes on to the server.\<close>

definition sv_activate_client ::
    "string \<Rightarrow> tservice \<Rightarrow> fd \<Rightarrow> epoll_ev list \<Rightarrow> fd \<Rightarrow> world
      \<Rightarrow> ((int ret \<times> tservice \<times> world) + tservice \<times> world) option" where
  "sv_activate_client stack sv sockd events epolld w =
     (case sv_client sv of
        None \<Rightarrow> Some (Inr (sv, w))
      | Some tc \<Rightarrow>
          if tc_epolld tc \<noteq> epolld then Some (Inr (sv, w))
          else map_option (\<lambda>(r, tc1, w1).
            (let sv1 = sv\<lparr>sv_client := Some tc1\<rparr> in
             case r of
               Ret ret \<Rightarrow>
                 if ret = TC_ERR_FATAL \<or> ret = TC_ERR_SOCKSCONN then Inl (sv_retry sv1 tc1 w1)
                 else (case sv_progress ret sv1 tc1 w1 of (ok, sv2, w2) \<Rightarrow>
                         if ok then Inr (sv2, w2) else Inl (UB, sv2, w2))
             | AssertFail \<Rightarrow> Inl (AssertFail, sv1, w1)
             | UB \<Rightarrow> Inl (UB, sv1, w1)))
            (torrentClient_activate stack tc sockd events w))"

definition sv_activate_server ::
    "string \<Rightarrow> tservice \<Rightarrow> fd \<Rightarrow> epoll_ev list \<Rightarrow> fd \<Rightarrow> world \<Rightarrow> (int ret \<times> tservice \<times> world) option" where
  "sv_activate_server stack sv sockd events epolld w =
     (case sv_server sv of
        None \<Rightarrow> Some (Ret 0, sv, w)
      | Some ts \<Rightarrow>
          if ts_epolld ts \<noteq> epolld then Some (Ret 0, sv, w)
          else map_option (\<lambda>(r, ts1, w1).
            (case r of Ret _ \<Rightarrow> Ret 0 | AssertFail \<Rightarrow> AssertFail | UB \<Rightarrow> UB, sv\<lparr>sv_server := Some ts1\<rparr>, w1))
            (torrentServer_activate stack ts sockd events w))"

definition torrentService_activate ::
    "string \<Rightarrow> tservice \<Rightarrow> fd \<Rightarrow> epoll_ev list \<Rightarrow> fd \<Rightarrow> world \<Rightarrow> (int ret \<times> tservice \<times> world) option" where
  "torrentService_activate stack sv sockd events epolld w =
     Option.bind (sv_activate_client stack sv sockd events epolld w) (\<lambda>r. case r of
       Inl res \<Rightarrow> Some res
     | Inr (sv1, w1) \<Rightarrow> sv_activate_server stack sv1 sockd events epolld w1)"

section \<open>Stopping\<close>

definition torrentService_stop :: "tservice \<Rightarrow> world \<Rightarrow> int ret \<times> tservice \<times> world" where
  "torrentService_stop sv w =
     (let (r, w1) = (case sv_client sv of
            None \<Rightarrow> (Ret TC_SUCCESS, w)
          | Some tc \<Rightarrow> (case torrentClient_shutdown tc w of (r, tc1, w1) \<Rightarrow> (r, w1)))
      in if r = UB then (UB, sv, w1)
         else let w2 = (case sv_server sv of None \<Rightarrow> w1
                        | Some ts \<Rightarrow> snd (snd (torrentServer_shutdown ts w1)));
                  w3 = (case sv_authority sv of None \<Rightarrow> w2
                        | Some ta \<Rightarrow> snd (snd (torrentAuthority_shutdown ta w2)))
              in (Ret 0, sv\<lparr>sv_client := None, sv_server := None, sv_authority := None\<rparr>, w3))"

end
