(* ===== verification/Torrent_Node.thy ===== *)
theory Torrent_Node
  imports Torrent_Service
begin

text \<open>
  The torrent plug-in itself (\<open>torrent/torrent.c\<close>): the global \<open>torrent\<close>, started from the
  command line, activated when descriptors are ready, freed when its download is complete.

  Parameters: \<open>getaddrinfo\<close> as \<open>lookup\<close> (\<open>None\<close> when it fails), and what each
  \<open>epoll_wait\<close> reports (\<open>None\<close> for \<open>-1\<close>).
\<close>

record torrent =
  tn_server :: "ts_server option"
  tn_client :: "tc_client option"
  tn_authority :: "authority option"
  tn_lastReport :: timespec
  tn_clientDone :: bool

type_synonym tn_ctx = "torrent \<times> world"
type_synonym ready = "(fd \<times> epoll_ev list) list"

section \<open>Names\<close>

text \<open>When the lookup fails, \<open>freeaddrinfo\<close> gets a pointer nothing was stored in.\<close>

definition torrent_resolveHostname :: "(string \<Rightarrow> u32 option) \<Rightarrow> string \<Rightarrow> u32 option" where
  "torrent_resolveHostname lookup hostname =
     (if ci_prefix ''none'' (cstr hostname) then Some (htonl (- 1))
      else if ci_prefix ''localhost'' (cstr hostname) then Some (htonl 0x7f000001)
      else lookup hostname)"

section \<open>Starting\<close>

text \<open>An argument; \<open>argv[argc]\<close> is NULL and there is nothing behind it.\<close>

definition argument :: "string list \<Rightarrow> nat \<Rightarrow> string option" where
  "argument argv i = (if i < length argv then Some (argv ! i) else None)"

definition epoll_create :: "world \<Rightarrow> fd \<times> world" where
  "epoll_create w =
     (case sys_socket w of
        (Inl e, w1) \<Rightarrow> (0, snd (sys_close (-1) w1))
      | (Inr epolld, w1) \<Rightarrow> (epolld, w1))"

text \<open>The numbers and sizes of a node, read from the command line.\<close>

record node_config =
  nc_authHostname :: string
  nc_authPort :: int
  nc_socksHostname :: string
  nc_socksPort :: int
  nc_serverPort :: int
  nc_fileSize :: int
  nc_downBlockSize :: int
  nc_upBlockSize :: int

definition node_config_of :: "string list \<Rightarrow> node_config option" where
  "node_config_of argv =
     (case (argument argv 2, argument argv 3, argument argv 4, argument argv 5, argument argv 6,
            Option.bind (argument argv 7) torrent_size,
            if length argv = 10 then Option.bind (argument argv 8) torrent_size else Some (16 * 1024),
            if length argv = 10 then Option.bind (argument argv 9) torrent_size else Some (16 * 1024)) of
        (Some ah, Some ap, Some sh, Some sp, Some vp, Some fs, Some down, Some up) \<Rightarrow>
          Some \<lparr>nc_authHostname = ah, nc_authPort = atoi ap, nc_socksHostname = sh,
                nc_socksPort = atoi sp, nc_serverPort = atoi vp, nc_fileSize = fs,
                nc_downBlockSize = down, nc_upBlockSize = up\<rparr>
      | _ \<Rightarrow> None)"

definition tn_start_server ::
    "(string \<Rightarrow> u32 option) \<Rightarrow> node_config \<Rightarrow> tn_ctx \<Rightarrow> (unit ret \<times> tn_ctx) + tn_ctx" where
  "tn_start_server lookup nc = (\<lambda>(tn, w).
     (let (epolld, w1) = epoll_create w in
      case torrent_resolveHostname lookup (nc_authHostname nc) of
        None \<Rightarrow> Inl (UB, tn, w1)
      | Some authAddr \<Rightarrow>
          (case torrentServer_start zero_ts_server epolld (htonl 0) (htons (of_int (nc_serverPort nc)))
                  authAddr (htons (of_int (nc_authPort nc))) (nc_upBlockSize nc) (nc_downBlockSize nc) w1 of
             (ret, ts, w2) \<Rightarrow>
               if ret < 0 then Inl (Ret (), tn\<lparr>tn_server := None\<rparr>, w2)
               else Inr (tn\<lparr>tn_server := Some ts\<rparr>, w2))))"

definition tn_start_client ::
    "(string \<Rightarrow> u32 option) \<Rightarrow> node_config \<Rightarrow> tn_ctx \<Rightarrow> unit ret \<times> tn_ctx" where
  "tn_start_client lookup nc = (\<lambda>(tn, w).
     (let (epolld, w1) = epoll_create w in
      case (torrent_resolveHostname lookup (nc_socksHostname nc), torrent_resolveHostname lookup (nc_authHostname nc)) of
        (Some socksAddr, Some authAddr) \<Rightarrow>
          (case torrentClient_start zero_tc_client epolld socksAddr (htons (of_int (nc_socksPort nc)))
                  authAddr (htons (of_int (nc_authPort nc))) (of_int (nc_serverPort nc))
                  (nc_fileSize nc) (nc_downBlockSize nc) (nc_upBlockSize nc) w1 of
             (Ret ret, tc, w2) \<Rightarrow> (Ret (), tn\<lparr>tn_client := if ret < 0 then None else Some tc\<rparr>, w2)
           | (_, tc, w2) \<Rightarrow> (UB, tn, w2))
      | _ \<Rightarrow> (UB, tn, w1)))"

definition tn_start_authority :: "string list \<Rightarrow> tn_ctx \<Rightarrow> unit ret \<times> tn_ctx" where
  "tn_start_authority argv = (\<lambda>(tn, w).
     (case argument argv 2 of
        None \<Rightarrow> (UB, tn, w)
      | Some authPort \<Rightarrow>
          (let (epolld, w1) = epoll_create w in
           case torrentAuthority_start \<lparr>ta_epolld = 0, ta_listenSockd = 0, ta_servers = [], ta_clients = [],
                    ta_connections = [], ta_heap = [], ta_next = 0\<rparr> epolld (htonl 0)
                  (htons (of_int (atoi authPort))) w1 of
             (ret, ta, w2) \<Rightarrow>
               (Ret (), tn\<lparr>tn_authority := if ta_num ret < 0 then None else Some ta\<rparr>, w2))))"

definition torrent_new ::
    "(string \<Rightarrow> u32 option) \<Rightarrow> string list \<Rightarrow> world \<Rightarrow> unit ret \<times> tn_ctx" where
  "torrent_new lookup argv w =
     (let (now, w1) = clock_gettime w;
          tn = \<lparr>tn_server = None, tn_client = None, tn_authority = None, tn_lastReport = now,
                tn_clientDone = False\<rparr>
      in if length argv < 3 then (Ret (), tn, w1)
         else let nodeType = argv ! 1;
                  client = node_type_is nodeType ''client'';
                  server = node_type_is nodeType ''server'';
                  node = node_type_is nodeType ''node''
              in if client \<or> server \<or> node
                 then if length argv < 5 then (Ret (), tn, w1)
                      else (case node_config_of argv of
                              None \<Rightarrow> (UB, tn, w1)
                            | Some nc \<Rightarrow>
                                (case (if server \<or> node then tn_start_server lookup nc (tn, w1) else Inr (tn, w1)) of
                                   Inl r \<Rightarrow> r
                                 | Inr (tn1, w2) \<Rightarrow>
                                     if client \<or> node then tn_start_client lookup nc (tn1, w2)
                                     else (Ret (), tn1, w2)))
                 else if node_type_is nodeType ''authority'' then tn_start_authority argv (tn, w1)
                 else (Ret (), tn, w1))"

section \<open>Freeing\<close>

definition torrent_free :: "torrent \<Rightarrow> world \<Rightarrow> unit ret \<times> tn_ctx" where
  "torrent_free tn w =
     (let (r, w1) = (case tn_client tn of
            None \<Rightarrow> (Ret TC_SUCCESS, w)
          | Some tc \<Rightarrow> (case torrentClient_shutdown tc w of (r, tc1, w1) \<Rightarrow> (r, w1)))
      in if r = UB then (UB, tn, w1)
         else let w2 = (case tn_server tn of None \<Rightarrow> w1
                        | Some ts \<Rightarrow> snd (snd (torrentServer_shutdown ts w1)));
                  w3 = (case tn_authority tn of None \<Rightarrow> w2
                        | Some ta \<Rightarrow> snd (snd (torrentAuthority_shutdown ta w2)))
              in (Ret (), tn\<lparr>tn_client := None, tn_server := None, tn_authority := None\<rparr>, w3))"

section \<open>Activating\<close>

fun tn_server_events ::
    "string \<Rightarrow> ready \<Rightarrow> ts_server \<Rightarrow> world \<Rightarrow> (unit ret \<times> ts_server \<times> world) option" where
  "tn_server_events stack [] ts w = Some (Ret (), ts, w)"
| "tn_server_events stack ((sd, events) # es) ts w =
     Option.bind (torrentServer_activate stack ts sd events w) (\<lambda>(r, ts1, w1).
       case r of Ret _ \<Rightarrow> tn_server_events stack es ts1 w1
       | AssertFail \<Rightarrow> Some (AssertFail, ts1, w1) | UB \<Rightarrow> Some (UB, ts1, w1))"

text \<open>The queue of time stamps is emptied; the latencies are what is logged.\<close>

definition packet_latency :: "packet_info \<Rightarrow> u32" where
  "packet_latency i = of_int ((pk_recvTime i - pk_sendTime i) sdiv 1000000)"

definition ts_drain :: "ts_server \<Rightarrow> u32 list \<times> ts_server" where
  "ts_drain ts = (map packet_latency (ts_packetInfo ts), ts\<lparr>ts_packetInfo := []\<rparr>)"

text \<open>The part for the server: \<open>Inl\<close> returns.\<close>

definition tn_activate_server ::
    "string \<Rightarrow> ready option \<Rightarrow> tn_ctx \<Rightarrow> ((unit ret \<times> tn_ctx) + tn_ctx) option" where
  "tn_activate_server stack ready = (\<lambda>(tn, w).
     (case tn_server tn of
        None \<Rightarrow> Some (Inr (tn, w))
      | Some ts \<Rightarrow>
          if ts_epolld ts = 0 then Some (Inl (Ret (), tn, w))
          else (case ready of
                  None \<Rightarrow> Some (Inl (Ret (), tn, w))
                | Some es \<Rightarrow>
                    map_option (\<lambda>(r, ts1, w1).
                      case r of
                        Ret _ \<Rightarrow> Inr (tn\<lparr>tn_server := Some (snd (ts_drain ts1))\<rparr>, w1)
                      | _ \<Rightarrow> Inl (r, tn\<lparr>tn_server := Some ts1\<rparr>, w1))
                      (tn_server_events stack es ts w))))"

definition torrent_report :: "tc_client \<Rightarrow> world \<Rightarrow> bool \<times> world" where
  "torrent_report tc w = (case torrentService_report tc w of (r, w1) \<Rightarrow> (r \<noteq> UB, w1))"

definition tn_progress :: "tc_code \<Rightarrow> tc_client \<Rightarrow> torrent \<Rightarrow> world \<Rightarrow> bool \<times> tn_ctx" where
  "tn_progress ret tc tn w =
     (let (now, w1) = clock_gettime w;
          report = (ret = TC_BLOCK_DOWNLOADED
            \<or> (case tc_currentBlockTransfer tc of
                 None \<Rightarrow> False
               | Some p \<Rightarrow> 1 < tv_sec now - tv_sec (tn_lastReport tn)
                           \<and> (0 < tp_down (tc_at tc p) \<or> 0 < tp_up (tc_at tc p))))
      in if report
         then (case torrent_report tc w1 of (ok, w2) \<Rightarrow> (ok, tn\<lparr>tn_lastReport := now\<rparr>, w2))
         else (True, tn, w1))"

definition tn_complete :: "tc_client \<Rightarrow> torrent \<Rightarrow> world \<Rightarrow> unit ret \<times> tn_ctx" where
  "tn_complete tc tn w =
     (if tc_numBlocks tc \<le> tc_blocksDownloaded tc
      then (case torrent_report tc w of (ok, w1) \<Rightarrow>
              if ok then torrent_free (tn\<lparr>tn_clientDone := True\<rparr>) w1 else (UB, tn, w1))
      else (Ret (), tn, w))"

text \<open>
  What follows the activation of the client: \<open>Inl\<close> returns from \<open>torrent_activate\<close>,
  \<open>Inr\<close> goes on with the next event.
\<close>

definition tn_after_client :: "tc_code \<Rightarrow> tc_client \<Rightarrow> torrent \<Rightarrow> world \<Rightarrow> (unit ret \<times> tn_ctx) + tn_ctx" where
  "tn_after_client ret tc tn w =
     (if ret = TC_ERR_FATAL \<or> ret = TC_ERR_SOCKSCONN
      then (case tc_restart tc w of
              (Ret _, tc1, w1) \<Rightarrow> Inl (Ret (), tn\<lparr>tn_client := Some tc1\<rparr>, emit (Callback (60 * 1000)) w1)
            | (_, tc1, w1) \<Rightarrow> Inl (UB, tn, w1))
      else if \<not> tn_clientDone tn \<and> 0 < tc_totalBytesDown tc
      then (case tn_progress ret tc tn w of
              (False, x) \<Rightarrow> Inl (UB, x)
            | (True, tn1, w1) \<Rightarrow>
                (case tn_complete tc tn1 w1 of
                   (Ret _, x) \<Rightarrow> Inr x
                 | (_, x) \<Rightarrow> Inl (UB, x)))
      else Inr (tn, w))"

fun tn_client_events :: "string \<Rightarrow> ready \<Rightarrow> tn_ctx \<Rightarrow> (unit ret \<times> tn_ctx) option" where
  "tn_client_events stack [] x = Some (Ret (), x)"
| "tn_client_events stack ((sd, events) # es) (tn, w) =
     (case tn_client tn of
        None \<Rightarrow> Some (UB, tn, w)
      | Some tc \<Rightarrow>
          Option.bind (torrentClient_activate stack tc sd events w) (\<lambda>(r, tc1, w1).
            let tn1 = tn\<lparr>tn_client := Some tc1\<rparr> in
            case r of
              Ret ret \<Rightarrow>
                (case tn_after_client ret tc1 tn1 w1 of
                   Inl res \<Rightarrow> Some res
                 | Inr y \<Rightarrow> tn_client_events stack es y)
            | AssertFail \<Rightarrow> Some (AssertFail, tn1, w1)
            | UB \<Rightarrow> Some (UB, tn1, w1)))"

fun tn_authority_events ::
    "string \<Rightarrow> ready \<Rightarrow> authority \<Rightarrow> world \<Rightarrow> (unit ret \<times> authority \<times> world) option" where
  "tn_authority_events stack [] ta w = Some (Ret (), ta, w)"
| "tn_authority_events stack ((sd, events) # es) ta w =
     Option.bind (torrentAuthority_activate stack ta sd w) (\<lambda>(r, ta1, w1).
       case r of Ret _ \<Rightarrow> tn_authority_events stack es ta1 w1
       | AssertFail \<Rightarrow> Some (AssertFail, ta1, w1) | UB \<Rightarrow> Some (UB, ta1, w1))"

definition tn_activate_authority :: "string \<Rightarrow> ready option \<Rightarrow> tn_ctx \<Rightarrow> (unit ret \<times> tn_ctx) option" where
  "tn_activate_authority stack ready = (\<lambda>(tn, w).
     (case tn_authority tn of
        None \<Rightarrow> Some (Ret (), tn, w)
      | Some ta \<Rightarrow>
          if ta_epolld ta = 0 then Some (Ret (), tn, w)
          else (case ready of
                  None \<Rightarrow> Some (Ret (), tn, w)
                | Some es \<Rightarrow>
                    map_option (\<lambda>(r, ta1, w1). (r, tn\<lparr>tn_authority := Some ta1\<rparr>, w1))
                      (tn_authority_events stack es ta w))))"

definition torrent_activate ::
    "string \<Rightarrow> ready option \<Rightarrow> ready option \<Rightarrow> ready option \<Rightarrow> tn_ctx \<Rightarrow> (unit ret \<times> tn_ctx) option" where
  "torrent_activate stack server_ready client_ready authority_ready x =
     Option.bind (tn_activate_server stack server_ready x) (\<lambda>s. case s of
       Inl res \<Rightarrow> Some res
     | Inr (tn, w) \<Rightarrow>
         if tn_client tn \<noteq> None
         then (case client_ready of
                 None \<Rightarrow> Some (Ret (), tn, w)
               | Some es \<Rightarrow> tn_client_events stack es (tn, w))
         else tn_activate_authority stack authority_ready (tn, w))"

end
