(* ===== verification/Torrent_Client_Faults.thy ===== *)
theory Torrent_Client_Faults
  imports Torrent_Client_Properties
begin

text \<open>
  The torrent client: when an activation does not return, and that a block the client has
  counted is a block it can report on.
\<close>

section \<open>Situations\<close>

text \<open>What arrives next leaves no NUL in the buffer it is read into.\<close>

definition tc_unterminated :: "string \<Rightarrow> world \<Rightarrow> bool" where
  "tc_unterminated stack w \<longleftrightarrow>
     (\<exists>bs rest. arriving w = bs @ rest \<and> bs \<noteq> [] \<and> array_str TC_BUF_SIZE (overlay bs stack) = None)"

text \<open>A sum of bytes is within one buffer of the largest or smallest \<open>gint\<close>.\<close>

definition tc_sums_full :: "tc_client \<Rightarrow> bool" where
  "tc_sums_full tc \<longleftrightarrow> (\<exists>n\<le>TC_BUF_SIZE. \<not> gint_ok (tc_totalBytesDown tc + int n)
     \<or> \<not> gint_ok (tc_bytesInProgress tc - int n) \<or> \<not> gint_ok (tc_totalBytesUp tc + int n))"

text \<open>
  How the handler of server \<open>p\<close>, called with the client and world \<open>x\<close>, comes to an end in \<open>tc'\<close> that is not
  a return: an assertion fails when the answer of the proxy has filled the buffer; the
  payload is written behind its buffer when less than one filler is left to send, which is
  at most 50 bytes long; a sum of bytes overflows; the server's last word has no end.
\<close>

definition tc_fault :: "string \<Rightarrow> nat \<Rightarrow> tc_ctx \<Rightarrow> tc_code ret \<Rightarrow> tc_client \<Rightarrow> bool" where
  "tc_fault stack p x r tc' \<longleftrightarrow>
     (r = AssertFail \<and> tp_state (tc_at tc' p) \<in> {TC_SOCKS_REQUEST_INIT, TC_SOCKS_REQUEST_CONN}
        \<and> TC_BUF_SIZE < length (tp_buf (tc_at tc' p)) + 10)
     \<or> (r = UB \<and> tp_state (tc_at tc' p) = TC_SERVER_TRANSFER
        \<and> (tc_sums_full tc' \<or> 0 < tc_upBlockSize tc' - tp_up (tc_at tc' p) \<and> tc_upBlockSize tc' - tp_up (tc_at tc' p) < 50))
     \<or> (r = UB \<and> tp_state (tc_at (fst x) p) = TC_SERVER_FINISHED \<and> tc_unterminated stack (snd x))"

text \<open>A client that has counted a block has noted the server it came from.\<close>

definition tc_reportable :: "tc_client \<Rightarrow> bool" where
  "tc_reportable tc \<longleftrightarrow> tc_blocksDownloaded tc \<le> 0 \<or> tc_currentBlockTransfer tc \<noteq> None"

definition tc_noted :: "tc_client \<Rightarrow> tc_client \<Rightarrow> bool" where
  "tc_noted tc tc' \<longleftrightarrow> tc_currentBlockTransfer tc' \<noteq> None
     \<or> (tc_currentBlockTransfer tc' = tc_currentBlockTransfer tc \<and> tc_blocksDownloaded tc' = tc_blocksDownloaded tc)"

lemma tc_noted_refl [simp]: "tc_noted tc tc"
  by (simp add: tc_noted_def)

lemma tc_noted_reportable: "tc_noted tc tc' \<Longrightarrow> tc_reportable tc \<Longrightarrow> tc_reportable tc'"
  by (auto simp: tc_noted_def tc_reportable_def)

lemma tc_noted_upd [simp]: "tc_noted tc (tc_upd p f tc') = tc_noted tc tc'"
  by (simp add: tc_noted_def tc_upd_def)

lemma tc_noted_fields [simp]:
  "tc_noted tc (tc'\<lparr>tc_errcode := e\<rparr>) = tc_noted tc tc'"
  "tc_noted tc (tc'\<lparr>tc_download_start := t\<rparr>) = tc_noted tc tc'"
  "tc_noted tc (tc'\<lparr>tc_download_first_byte := t\<rparr>) = tc_noted tc tc'"
  "tc_noted tc (tc'\<lparr>tc_lastServerListFetch := t\<rparr>) = tc_noted tc tc'"
  "tc_noted tc (tc'\<lparr>tc_totalBytesUp := i\<rparr>) = tc_noted tc tc'"
  "tc_noted tc (tc'\<lparr>tc_blocksRemaining := i\<rparr>) = tc_noted tc tc'"
  "tc_noted tc (tc'\<lparr>tc_totalBytesDown := i, tc_bytesInProgress := j\<rparr>) = tc_noted tc tc'"
  by (simp_all add: tc_noted_def)

section \<open>The payload\<close>

lemma length_tc_filler: "length (tc_filler cookie now) \<le> 50"
proof -
  have "nat (TIME_TO_NS now mod 2 ^ 64) < 10 ^ Suc 19" by (rule le_less_trans [of _ "nat (2 ^ 64 - 1)"]) auto
  from length_show_nat_less [OF this] show ?thesis by (simp add: tc_filler_def)
qed

lemma fill_from_within: "bound + length filler \<le> TC_BUF_SIZE \<Longrightarrow> fill_from bound filler i buf \<noteq> None"
proof (induction bound filler i buf rule: fill_from.induct)
  case (1 bound filler i buf)
  then show ?case
    by (cases "filler \<noteq> [] \<and> i < bound") (auto simp: fill_from.simps [of bound filler i buf] simp del: not_None_eq)
qed

lemma fillBuffer_short:
  assumes "torrentClient_fillBuffer len filler = None" "len \<le> TC_BUF_SIZE"
  shows "len < length filler"
proof (rule ccontr)
  assume long: "\<not> len < length filler"
  then have "(int len - int (length filler)) mod 2 ^ 64 = int (len - length filler)"
    using assms(2) by (simp add: TC_BUF_SIZE_def of_nat_diff)
  then have "nat ((int len - int (length filler)) mod 2 ^ 64) = len - length filler" by simp
  with assms(1) have "fill_from (len - length filler) filler 0 (replicate len NUL) = None"
    unfolding torrentClient_fillBuffer_def by metis
  with assms(2) long fill_from_within [of "len - length filler" filler 0 "replicate len NUL"] show False by simp
qed

section \<open>The steps\<close>

text \<open>What a step reports, and what stops it.\<close>

definition tc_told :: "string \<Rightarrow> nat \<Rightarrow> tc_ctx \<Rightarrow> tc_result \<Rightarrow> bool" where
  "tc_told stack p x res = (case res of
     Again x' \<Rightarrow> tc_noted (fst x) (fst x') \<and> tp_state (tc_at (fst x') p) \<noteq> TC_SERVER_FINISHED
   | Exit r x' \<Rightarrow> tc_noted (fst x) (fst x')
       \<and> (r = Ret TC_BLOCK_DOWNLOADED \<longrightarrow> tc_currentBlockTransfer (fst x') \<noteq> None)
       \<and> ((\<exists>c. r = Ret c) \<or> tc_fault stack p x r (fst x')))"

lemma tc_told_io [simp]:
  "tc_noted (fst x) tc' \<Longrightarrow> tc_told stack p x (tc_io_failed allowed code (tc', w'))"
  "tc_noted (fst x) tc' \<Longrightarrow> tc_told stack p x (tc_io_closed (tc', w'))"
  by (simp_all add: tc_io_failed_def tc_io_closed_def tc_told_def)

lemma tc_told_again:
  "tc_told stack p x (Again x') \<longleftrightarrow> tc_noted (fst x) (fst x') \<and> tp_state (tc_at (fst x') p) \<noteq> TC_SERVER_FINISHED"
  by (simp add: tc_told_def)

lemma tc_told_exit:
  "tc_told stack p x (Exit r x') \<longleftrightarrow> tc_noted (fst x) (fst x')
     \<and> (r = Ret TC_BLOCK_DOWNLOADED \<longrightarrow> tc_currentBlockTransfer (fst x') \<noteq> None)
     \<and> ((\<exists>c. r = Ret c) \<or> tc_fault stack p x r (fst x'))"
  by (simp add: tc_told_def)

lemmas tc_told_simps = tc_told_again tc_told_exit tc_epoll_eq tc_writes tc_fault_def

lemma tc_add_node_noted: "tc_add_node addr port (tc, w) = (b, tc', w') \<Longrightarrow> tc_noted tc tc'"
  by (auto simp: tc_add_node_def tc_noted_def Let_def tc_epoll_eq split_def split: if_splits)

lemma tc_noted_trans: "tc_noted a b \<Longrightarrow> tc_noted b c \<Longrightarrow> tc_noted a c"
  by (auto simp: tc_noted_def)

lemma tc_add_nodes_noted: "tc_add_nodes ns (tc, w) = (b, tc', w') \<Longrightarrow> tc_noted tc tc'"
proof (induction ns arbitrary: tc w)
  case (Cons n ns)
  obtain addr port where n: "n = (addr, port)" by fastforce
  obtain c tc1 w1 where add: "tc_add_node addr port (tc, w) = (c, tc1, w1)" by (metis prod_cases3)
  note one = tc_add_node_noted [OF add]
  show ?case
  proof (cases "tc_known addr port tc")
    case False
    with Cons.prems n add one Cons.IH [of tc1 w1] show ?thesis by (cases c) (auto intro: tc_noted_trans)
  qed (use Cons n in simp)
qed simp

lemma tc_socks_told:
  assumes "tc_ok tc" "p < length (tc_heap tc)"
  shows "tp_state (tc_at tc p) = TC_SOCKS_REQUEST_INIT \<Longrightarrow> tc_told stack p (tc, w) (tc_socks_request_init sd p (tc, w))"
    and "reply \<noteq> TC_SERVER_FINISHED \<Longrightarrow> tc_told stack p (tc, w) (tc_socks_toreply reply sd p (tc, w))"
    and "tc_told stack p (tc, w) (tc_socks_reply_init p (tc, w))"
    and "tp_state (tc_at tc p) = TC_SOCKS_REQUEST_CONN \<Longrightarrow> tc_told stack p (tc, w) (tc_socks_request_conn sd p (tc, w))"
    and "tc_told stack p (tc, w) (tc_socks_reply_conn sd p (tc, w))"
proof -
  have len: "length TC_SOCKS_INIT = 3" "length TC_SOCKS_REQ_HEAD = 4"
    by (simp_all add: TC_SOCKS_INIT_def TC_SOCKS_REQ_HEAD_def)
  show "tc_told stack p (tc, w) (tc_socks_request_init sd p (tc, w))" if "tp_state (tc_at tc p) = TC_SOCKS_REQUEST_INIT"
    using assms that by (auto simp: tc_socks_request_init_def tc_told_simps len)
  show "tc_told stack p (tc, w) (tc_socks_request_conn sd p (tc, w))" if "tp_state (tc_at tc p) = TC_SOCKS_REQUEST_CONN"
    using assms that by (auto simp: tc_socks_request_conn_def tc_told_simps len)
  show "tc_told stack p (tc, w) (tc_socks_toreply reply sd p (tc, w))" if "reply \<noteq> TC_SERVER_FINISHED"
    using assms that by (simp add: tc_socks_toreply_def tc_told_simps)
  show "tc_told stack p (tc, w) (tc_socks_reply_init p (tc, w))"
    using assms by (simp add: tc_socks_reply_init_def tc_told_simps)
  obtain good tc1 w1 where rb: "tc_socks_rebind p (tc, w) = (good, tc1, w1)" by (metis prod_cases3)
  then have "tc1 = tc_skip p 10 tc" by (auto simp: tc_socks_rebind_def Let_def split_def split: if_splits)
  with assms rb show "tc_told stack p (tc, w) (tc_socks_reply_conn sd p (tc, w))"
    by (simp add: tc_socks_reply_conn_def tc_told_simps)
qed

lemma tc_io_told:
  assumes "tc_ok tc" "p < length (tc_heap tc)" "\<not> in_flight (tc_at tc p)"
  shows "tc_told stack p (tc, w) (tc_send sd p (tc, w))" and "tc_told stack p (tc, w) (tc_receive sd p (tc, w))"
proof -
  note g = ground_at [OF assms]
  obtain a w1 where sn: "sys_send sd (tc_unread p tc) w = (a, w1)" by fastforce
  show "tc_told stack p (tc, w) (tc_send sd p (tc, w))"
    using sn g assms(2)
    by (cases a) (auto simp: tc_send_def ground_ok_def  tc_told_simps Let_def)
  obtain b w2 where rc: "sys_recv (TC_BUF_SIZE - length (tp_buf (tc_at tc p))) w = (b, w2)" by fastforce
  show "tc_told stack p (tc, w) (tc_receive sd p (tc, w))"
    using rc g assms(2)
    by (cases b) (auto simp: tc_receive_def ground_ok_def  tc_told_simps)
qed

lemma tc_auth_told:
  shows "tc_told stack p (tc, w) (tc_auth_request_nodes sd p (tc, w))"
    and "tc_told stack p (tc, w) (tc_auth_receive_nodes stack sd p (tc, w))"
proof -
  show "tc_told stack p (tc, w) (tc_auth_request_nodes sd p (tc, w))"
    by (auto simp: tc_auth_request_nodes_def tc_epoll_eq  split: sum.splits prod.splits)
       (simp add: tc_told_simps)
  obtain a w1 where rc: "sys_recv 1024 w = (a, w1)" by fastforce
  show "tc_told stack p (tc, w) (tc_auth_receive_nodes stack sd p (tc, w))"
  proof (cases a)
    case (Inl e)
    with rc show ?thesis by (simp add: tc_auth_receive_nodes_def)
  next
    case (Inr bs)
    obtain b tc1 w2 where add: "tc_add_nodes (tc_nodes (overlay bs stack)) (tc, w1) = (b, tc1, w2)" by (metis prod_cases3)
    from tc_add_nodes_noted [OF add] add rc Inr show ?thesis
      by (cases b) (auto simp: tc_auth_receive_nodes_def split_def tc_told_simps Let_def)
  qed
qed

lemma tc_server_request_told: "tc_told stack p (tc, w) (tc_server_request sd p (tc, w))"
proof -
  obtain tc1 w1 where start: "(if tc_totalBytesDown tc = 0
      then let (now, w1) = clock_gettime w in (tc\<lparr>tc_download_start := now\<rparr>, w1) else (tc, w)) = (tc1, w1)"
    by fastforce
  then have n: "tc_noted tc tc1" by (auto simp: split_def Let_def split: if_splits)
  then show ?thesis
    by (auto simp: tc_server_request_def start tc_request_sent_def tc_told_exit tc_epoll_eq tc_goto_def split: sum.splits prod.splits)
qed

lemma tc_received_noted [simp]: "tc_noted tc (fst (tc_received p n (tc, w)))"
  by (auto simp: tc_received_def split_def Let_def split: if_splits)

lemma tc_transfer_down_told:
  assumes "tp_state (tc_at tc p) = TC_SERVER_TRANSFER"
  shows "case tc_transfer_down events sd p (tc, w) of Again x' \<Rightarrow> tc_noted tc (fst x')
    | Exit r x' \<Rightarrow> tc_told stack p (tc, w) (Exit r x')"
proof (cases "EPOLLIN \<in> set events \<and> tp_down (tc_at tc p) < tc_downBlockSize tc")
  case True
  let ?n = "min (nat (tc_downBlockSize tc - tp_down (tc_at tc p))) TC_BUF_SIZE"
  obtain a w1 where rc: "sys_recv ?n w = (a, w1)" by fastforce
  show ?thesis
  proof (cases a)
    case (Inl e)
    with True rc show ?thesis by (simp add: tc_transfer_down_def tc_io_failed_def tc_told_exit)
  next
    case (Inr bs)
    have "length bs \<le> ?n" using rc Inr sys_recv_Inr(1) by blast
    then have "tc_sums_full tc" if "\<not> gint_ok (tc_totalBytesDown tc + int (length bs)) \<or> \<not> gint_ok (tc_bytesInProgress tc - int (length bs))"
      using that by (auto simp: tc_sums_full_def)
    with True rc Inr assms show ?thesis
      by (auto simp: tc_transfer_down_def tc_told_exit tc_fault_def tc_io_closed_def split: prod.split)
  qed
qed (auto simp: tc_transfer_down_def)

lemma tc_transfer_up_told:
  assumes "tp_state (tc_at tc p) = TC_SERVER_TRANSFER" "tc_noted (fst x0) tc"
  shows "case tc_transfer_up events sd p (tc, w) of Again x' \<Rightarrow> tc_noted tc (fst x') | Exit r x' \<Rightarrow> tc_told stack p x0 (Exit r x')"
proof (cases "EPOLLOUT \<in> set events \<and> tp_up (tc_at tc p) < tc_upBlockSize tc")
  case True
  let ?left = "tc_upBlockSize tc - tp_up (tc_at tc p)" and ?n = "min (nat (tc_upBlockSize tc - tp_up (tc_at tc p))) TC_BUF_SIZE"
  obtain now w1 where ck: "clock_gettime w = (now, w1)" by fastforce
  show ?thesis
  proof (cases "torrentClient_fillBuffer ?n (tc_filler (tp_cookie (tc_at tc p)) now)")
    case None
    then have "?n < length (tc_filler (tp_cookie (tc_at tc p)) now)" by (intro fillBuffer_short) auto
    with length_tc_filler [of "tp_cookie (tc_at tc p)" now] have "?n < 50" by linarith
    then have "0 < ?left \<and> ?left < 50" using True by (auto simp: TC_BUF_SIZE_def)
    with True ck None assms show ?thesis by (auto simp: tc_transfer_up_def tc_told_exit tc_fault_def Let_def)
  next
    case (Some buf)
    obtain a w2 where sn: "sys_send sd (take ?n buf) w1 = (a, w2)" by fastforce
    have "tc_sums_full tc" if "a = Inr k" "\<not> gint_ok (tc_totalBytesUp tc + int k)" for k
    proof -
      have "k \<le> length (take ?n buf)" using sn that(1) sys_send_Inr(1) by blast
      then have "k \<le> TC_BUF_SIZE" by simp
      with that(2) show ?thesis by (auto simp: tc_sums_full_def)
    qed
    with True ck Some sn assms show ?thesis
      by (cases a) (auto simp: tc_transfer_up_def tc_told_exit tc_fault_def tc_io_failed_def tc_io_closed_def Let_def)
  qed
qed (use assms in \<open>auto simp: tc_transfer_up_def\<close>)

lemma tc_server_transfer_told:
  assumes "tc_ok tc" "p < length (tc_heap tc)" "tp_state (tc_at tc p) = TC_SERVER_TRANSFER"
  shows "tc_told stack p (tc, w) (tc_server_transfer events sd p (tc, w))"
proof (cases "tc_transfer_down events sd p (tc, w)")
  case (Exit r y)
  with tc_transfer_down_told [OF assms(3), of stack w events sd] show ?thesis by (simp add: tc_server_transfer_def)
next
  case (Again x1)
  obtain tc1 w1 where x1: "x1 = (tc1, w1)" by fastforce
  have st: "tp_state (tc_at tc1 p) = TC_SERVER_TRANSFER"
    using tc_transfer_down_half [OF assms, of w events sd] Again x1 assms(3) by (simp add: tc_half_def)
  have noted: "tc_noted tc tc1"
    using tc_transfer_down_told [OF assms(3), of stack w events sd] Again x1 by simp
  from tc_transfer_up_told [of tc1 p "(tc, w)" stack events sd w1] st noted Again x1 show ?thesis
    by (cases "tc_transfer_up events sd p (tc1, w1)")
       (auto simp: tc_server_transfer_def tc_told_exit tc_transfer_next_def tc_noted_def tc_epoll_eq tc_goto_def tc_upd_def split_def Let_def)
qed

lemma tc_server_finished_told:
  assumes "tp_state (tc_at tc p) = TC_SERVER_FINISHED"
  shows "tc_told stack p (tc, w) (tc_server_finished stack sd p (tc, w))"
proof -
  obtain a w1 where rc: "sys_recv TC_BUF_SIZE w = (a, w1)" by fastforce
  show ?thesis
  proof (cases a)
    case (Inl e)
    with rc show ?thesis by (simp add: tc_server_finished_def)
  next
    case (Inr bs)
    then have "arriving w = bs @ arriving w1" using rc by (auto dest: sys_recv_arriving(1))
    then have "tc_unterminated stack w" if "bs \<noteq> []" "array_str TC_BUF_SIZE (overlay bs stack) = None"
      using that by (auto simp: tc_unterminated_def)
    with rc Inr assms show ?thesis
      by (auto simp: tc_server_finished_def tc_told_exit tc_fault_def tc_block_done_def tc_epoll_eq split: prod.split option.split)
         (simp_all add: tc_noted_def tc_upd_def)
  qed
qed

lemma tc_step_told:
  assumes "tc_ok tc" "p < length (tc_heap tc)"
  shows "tc_told stack p (tc, w) (tc_step stack events sd p (tc, w))"
proof -
  have ground: "tp_state (tc_at tc p) = TC_SEND \<or> tp_state (tc_at tc p) = TC_RECEIVE \<Longrightarrow> \<not> in_flight (tc_at tc p)"
    by (auto simp: in_flight_def)
  have other: "tc_told stack p (tc, w) (Exit (Ret TC_SUCCESS) (tc, w))" by (simp add: tc_told_exit)
  show ?thesis
    using assms ground other
    by (cases "tp_state (tc_at tc p)")
       (simp_all add: tc_step_def tc_socks_told tc_io_told tc_auth_told tc_server_request_told
         tc_server_transfer_told tc_server_finished_told)
qed

section \<open>Activations\<close>

interpretation tc_faults: handler_relation "tc_step stack events sd p"
  "\<lambda>(tc, w). tc_ok tc \<and> p < length (tc_heap tc) \<and> tc_reportable tc" "tc_measure p"
  "\<lambda>r (tc, w). tc_reportable tc \<and> (r = Ret TC_BLOCK_DOWNLOADED \<longrightarrow> tc_currentBlockTransfer tc \<noteq> None)"
  "\<lambda>(tc, w) (tc', w'). tp_state (tc_at tc' p) \<noteq> TC_SERVER_FINISHED"
  "\<lambda>(tc, w) r (tc', w'). (\<exists>c. r = Ret c) \<or> tc_fault stack p (tc, w) r tc'"
  for stack events sd p
proof (unfold_locales, goal_cases)
  case (1 s s')
  with tc_step_pass [of "fst s" p "snd s" stack events sd] tc_step_told [of "fst s" p stack "snd s" events sd] show ?case
    by (auto simp: tc_pass_def tc_conserves_def tc_told_again intro: tc_noted_reportable split: prod.splits)
next
  case (2 s s')
  with tc_step_pass [of "fst s" p "snd s" stack events sd] show ?case by (auto simp: tc_pass_def split: prod.splits)
next
  case (3 s r s')
  with tc_step_told [of "fst s" p stack "snd s" events sd] show ?case
    by (auto simp: tc_told_exit intro: tc_noted_reportable split: prod.splits)
next
  case (4 s s')
  with tc_step_told [of "fst s" p stack "snd s" events sd] show ?case by (auto simp: tc_told_again split: prod.splits)
next
  case (5 s r s')
  with tc_step_told [of "fst s" p stack "snd s" events sd] show ?case by (auto simp: tc_told_exit split: prod.splits)
next
  case (6 s s' r s'')
  then show ?case by (auto simp: tc_fault_def split: prod.splits)
qed

lemma torrentClient_activate_cases:
  assumes "tc_ok tc" "tc_reportable tc" "torrentClient_activate stack tc sd events w = Some (r, tc', w')"
  shows "tc_reportable tc'" "r = Ret TC_BLOCK_DOWNLOADED \<Longrightarrow> tc_currentBlockTransfer tc' \<noteq> None"
    "(\<exists>c. r = Ret c) \<or> (\<exists>p. map_of (tc_connections tc) sd = Some p \<and> tc_fault stack p (tc, w) r tc')"
proof -
  have "tc_reportable tc' \<and> (r = Ret TC_BLOCK_DOWNLOADED \<longrightarrow> tc_currentBlockTransfer tc' \<noteq> None)
      \<and> ((\<exists>c. r = Ret c) \<or> (\<exists>p. map_of (tc_connections tc) sd = Some p \<and> tc_fault stack p (tc, w) r tc'))"
  proof (cases "map_of (tc_connections tc) sd")
    case None
    with assms show ?thesis by (auto simp: torrentClient_activate_def)
  next
    case (Some p)
    then have p: "p < length (tc_heap tc)" using assms(1) by (auto simp: tc_ok_def list_all_iff dest!: map_of_SomeD)
    from Some assms(3) have dr: "drive (tc_step stack events sd p) (tc, w) = Some (r, tc', w')"
      by (simp add: torrentClient_activate_def)
    with tc_faults.result_post [OF _ dr] tc_faults.result_fin [OF _ dr] assms(1,2) p Some show ?thesis by auto
  qed
  then show "tc_reportable tc'" "r = Ret TC_BLOCK_DOWNLOADED \<Longrightarrow> tc_currentBlockTransfer tc' \<noteq> None"
    "(\<exists>c. r = Ret c) \<or> (\<exists>p. map_of (tc_connections tc) sd = Some p \<and> tc_fault stack p (tc, w) r tc')" by blast+
qed

end
