(* ===== verification/Torrent_Node_Properties.thy ===== *)
theory Torrent_Node_Properties
  imports Torrent_Node Torrent_Authority_Properties Torrent_Server_Properties Torrent_Client_Faults
begin

text \<open>
  The torrent plug-in as a whole: its parts keep their invariants through every activation;
  what a completed download does; what starting hides; what shutting down a client closes.
\<close>

section \<open>Restarting and freeing\<close>

text \<open>What a client was started with.\<close>

definition tc_sizes :: "tc_client \<Rightarrow> int \<times> int \<times> int" where
  "tc_sizes tc = (tc_fileSize tc, tc_downBlockSize tc, tc_upBlockSize tc)"

lemma tc_shutdown_from_Ret:
  assumes "list_all (\<lambda>p. p < length (tc_heap (fst x))) (tc_servers (fst x))"
  shows "fst (tc_shutdown_from i x) = Ret () \<and> tc_sizes (fst (snd (tc_shutdown_from i x))) = tc_sizes (fst x)"
  using assms
proof (induction i x rule: tc_shutdown_from.induct)
  case (1 i tc w)
  show ?case
  proof (cases "i < length (tc_servers tc)")
    case False
    then show ?thesis by (simp add: tc_shutdown_from.simps [of i tc w])
  next
    case True
    let ?p = "tc_servers tc ! i"
    have p: "?p < length (tc_heap tc)" using True "1.prems" by (simp add: list_all_length)
    have close: "list_all (\<lambda>p. p < length (tc_heap (fst (torrentClient_connectionClose ?p True (tc, w)))))
        (tc_servers (fst (torrentClient_connectionClose ?p True (tc, w))))"
      "tc_sizes (fst (torrentClient_connectionClose ?p True (tc, w))) = tc_sizes tc"
      using "1.prems" p by (simp_all add: torrentClient_connectionClose_def Let_def tc_upd_def tc_sizes_def)
    show ?thesis
      using "1.IH" [OF True refl] True p "1.prems" close
      by (simp add: tc_shutdown_from.simps [of i tc w] Let_def)
  qed
qed

lemma torrentClient_shutdown_Ret:
  assumes "tc_ok tc"
  obtains tc1 w1 where "torrentClient_shutdown tc w = (Ret TC_SUCCESS, tc1, w1)" "tc_sizes tc1 = tc_sizes tc"
proof -
  obtain r tc1 w1 where sh: "tc_shutdown_from 0 (tc, w) = (r, tc1, w1)" by (metis prod_cases3)
  with tc_shutdown_from_Ret [of "(tc, w)" 0] assms have "r = Ret ()" "tc_sizes tc1 = tc_sizes tc"
    by (simp_all add: tc_ok_def)
  with sh show thesis
    by (intro that [of "tc1\<lparr>tc_connections := []\<rparr>" w1]) (simp_all add: torrentClient_shutdown_def tc_sizes_def)
qed

text \<open>
  A client that was started: the sizes it would be started with again are in range, there is
  something to download, and what it has counted it can report.
\<close>

definition tc_started :: "tc_client \<Rightarrow> bool" where
  "tc_started tc \<longleftrightarrow> tc_reportable tc \<and> 0 < tc_numBlocks tc \<and> 0 < tc_fileSize tc
     \<and> gint_ok (tc_fileSize tc + tc_downBlockSize tc) \<and> gint_ok (tc_fileSize tc + tc_downBlockSize tc - 1)
     \<and> gint_ok ((tc_fileSize tc + tc_downBlockSize tc - 1) sdiv tc_downBlockSize tc)"

lemma sdiv_blocks_pos: "0 < f \<Longrightarrow> 0 < d \<Longrightarrow> 0 < (f + d - 1) sdiv d" for f d :: int
  by (simp add: signed_divide_int_def sgn_if pos_imp_zdiv_pos_iff)

lemma torrentClient_start_started:
  assumes start: "torrentClient_start tc0 epolld sa sp aa ap port fileSize down up w0 = (Ret n, tc, w1)"
    and "0 < down" "0 < fileSize"
  shows "tc_started tc"
  using start sdiv_blocks_pos [OF assms(3,2)] assms(2,3)
  by (auto simp: torrentClient_start_def tc_initialised_def Let_def tc_epoll_eq tc_started_def tc_reportable_def
      split: if_splits prod.splits)

lemma tc_started_conserves:
  "tc_started tc \<Longrightarrow> tc_conserves tc tc' \<Longrightarrow> tc_reportable tc' \<Longrightarrow> tc_started tc'"
  by (simp add: tc_started_def tc_conserves_def)

lemma tc_restart_Ret:
  assumes "tc_ok tc" "tc_started tc"
  obtains tc2 w2 where "tc_restart tc w = (Ret (), tc2, w2)" "tc_ok tc2" "tc_started tc2"
proof -
  obtain tc1 w1 where sh: "torrentClient_shutdown tc w = (Ret TC_SUCCESS, tc1, w1)" "tc_sizes tc1 = tc_sizes tc"
    using torrentClient_shutdown_Ret [OF assms(1)] by metis
  let ?st = "torrentClient_start tc1 (tc_epolld tc1) (tc_socksAddr tc1) (tc_socksPort tc1)
      (tc_authAddr tc1) (tc_authPort tc1) (tc_serverPort tc1) (tc_fileSize tc1) (tc_downBlockSize tc1) (tc_upBlockSize tc1) w1"
  have pos: "0 < tc_downBlockSize tc1" "0 < tc_fileSize tc1"
    using assms sh(2) by (simp_all add: tc_ok_def tc_started_def tc_sizes_def)
  have "\<exists>n. fst ?st = Ret n"
    using assms sh(2) pos by (auto simp: torrentClient_start_def tc_started_def tc_sizes_def Let_def split: prod.split)
  then obtain n tc2 w2 where st: "?st = (Ret n, tc2, w2)" by (metis prod.collapse)
  from that [of tc2 w2] torrentClient_start_facts [OF st pos(1)] torrentClient_start_started [OF st pos] sh st
  show thesis by (simp add: tc_restart_def)
qed

definition tn_ok :: "torrent \<Rightarrow> bool" where
  "tn_ok tn \<longleftrightarrow> pred_option ts_ok (tn_server tn)
     \<and> pred_option (\<lambda>tc. tc_ok tc \<and> tc_started tc) (tn_client tn) \<and> pred_option ta_ok (tn_authority tn)"

lemma tn_ok_update [simp]:
  "tn_ok tn \<Longrightarrow> ts_ok ts \<Longrightarrow> tn_ok (tn\<lparr>tn_server := Some ts\<rparr>)"
  "tn_ok tn \<Longrightarrow> tc_ok tc \<Longrightarrow> tc_started tc \<Longrightarrow> tn_ok (tn\<lparr>tn_client := Some tc\<rparr>)"
  "tn_ok tn \<Longrightarrow> ta_ok ta \<Longrightarrow> tn_ok (tn\<lparr>tn_authority := Some ta\<rparr>)"
  "tn_ok (tn\<lparr>tn_lastReport := t\<rparr>) = tn_ok tn" "tn_ok (tn\<lparr>tn_clientDone := b\<rparr>) = tn_ok tn"
  "tn_ok (tn\<lparr>tn_client := None, tn_server := None, tn_authority := None\<rparr>)"
  by (auto simp: tn_ok_def)

lemma torrent_free_facts:
  assumes "tn_ok tn"
  shows "\<exists>w'. torrent_free tn w = (Ret (), tn\<lparr>tn_client := None, tn_server := None, tn_authority := None\<rparr>, w')"
proof (cases "tn_client tn")
  case None
  then show ?thesis by (simp add: torrent_free_def Let_def)
next
  case (Some tc)
  with assms have "tc_ok tc" by (simp add: tn_ok_def)
  then obtain tc1 w1 where "torrentClient_shutdown tc w = (Ret TC_SUCCESS, tc1, w1)" by (rule torrentClient_shutdown_Ret)
  with Some show ?thesis by (simp add: torrent_free_def Let_def)
qed

section \<open>Trouble\<close>

text \<open>
  Steps one after the other: \<open>step\<close> gives the state after one that returns.  There is trouble
  when they get to one that is \<open>bad\<close>.
\<close>

inductive trouble :: "('e \<Rightarrow> 's \<Rightarrow> 's option) \<Rightarrow> ('e \<Rightarrow> 's \<Rightarrow> bool) \<Rightarrow> 'e list \<Rightarrow> 's \<Rightarrow> bool"
  for step bad where
  here: "bad e s \<Longrightarrow> trouble step bad (e # es) s"
| later: "step e s = Some s' \<Longrightarrow> trouble step bad es s' \<Longrightarrow> trouble step bad (e # es) s"

inductive_simps trouble_simps [simp]: "trouble step bad [] s" "trouble step bad (e # es) s"

text \<open>The server: what arrives is not text, or the block does not fit in its buffer.\<close>

definition server_bad :: "string \<Rightarrow> fd \<times> epoll_ev list \<Rightarrow> ts_server \<times> world \<Rightarrow> bool" where
  "server_bad stack e = (\<lambda>(ts, w). 16380 < ts_upBlockSize ts \<or> ts_unterminated stack w)"

definition server_next :: "string \<Rightarrow> fd \<times> epoll_ev list \<Rightarrow> ts_server \<times> world \<Rightarrow> (ts_server \<times> world) option" where
  "server_next stack e = (\<lambda>(ts, w).
     case torrentServer_activate stack ts (fst e) (snd e) w of Some (Ret _, x) \<Rightarrow> Some x | _ \<Rightarrow> None)"

text \<open>The authority: a peer it lists has gone, or its list does not fit in its buffer.\<close>

definition authority_bad :: "string \<Rightarrow> fd \<times> epoll_ev list \<Rightarrow> authority \<times> world \<Rightarrow> bool" where
  "authority_bad stack e = (\<lambda>(ta, w). ta_dangling ta \<or> 682 < length (ta_servers ta))"

definition authority_next :: "string \<Rightarrow> fd \<times> epoll_ev list \<Rightarrow> authority \<times> world \<Rightarrow> (authority \<times> world) option" where
  "authority_next stack e = (\<lambda>(ta, w).
     case torrentAuthority_activate stack ta (fst e) w of Some (Ret _, x) \<Rightarrow> Some x | _ \<Rightarrow> None)"

text \<open>The client: it has been released by an earlier event, or its handler stops as \<open>tc_fault\<close> says.\<close>

definition client_bad :: "string \<Rightarrow> fd \<times> epoll_ev list \<Rightarrow> tn_ctx \<Rightarrow> bool" where
  "client_bad stack e = (\<lambda>(tn, w).
     case tn_client tn of
       None \<Rightarrow> True
     | Some tc \<Rightarrow>
         (case (map_of (tc_connections tc) (fst e), torrentClient_activate stack tc (fst e) (snd e) w) of
            (Some p, Some (r, tc', _)) \<Rightarrow> tc_fault stack p (tc, w) r tc'
          | _ \<Rightarrow> False))"

definition client_next :: "string \<Rightarrow> fd \<times> epoll_ev list \<Rightarrow> tn_ctx \<Rightarrow> tn_ctx option" where
  "client_next stack e x = (case tn_client_events stack [e] x of Some (Ret _, y) \<Rightarrow> Some y | _ \<Rightarrow> None)"

text \<open>An activation of the plug-in: trouble in the batch of one of its parts.\<close>

type_synonym activation = "string \<times> ready option \<times> ready option \<times> ready option"

inductive node_bad :: "activation \<Rightarrow> tn_ctx \<Rightarrow> bool" where
  server: "tn_server tn = Some ts \<Longrightarrow> trouble (server_next stack) (server_bad stack) es (ts, w)
     \<Longrightarrow> node_bad (stack, Some es, cr, ar) (tn, w)"
| client: "tn_activate_server stack sr x = Some (Inr y) \<Longrightarrow> trouble (client_next stack) (client_bad stack) es y
     \<Longrightarrow> node_bad (stack, sr, Some es, ar) x"
| authority: "tn_activate_server stack sr x = Some (Inr (tn, w)) \<Longrightarrow> tn_authority tn = Some ta
     \<Longrightarrow> trouble (authority_next stack) (authority_bad stack) es (ta, w) \<Longrightarrow> node_bad (stack, sr, cr, Some es) x"

inductive_cases node_badE: "node_bad (stack, sr, cr, ar) x"

definition node_next :: "activation \<Rightarrow> tn_ctx \<Rightarrow> tn_ctx option" where
  "node_next a x = (case a of (stack, sr, cr, ar) \<Rightarrow>
     case torrent_activate stack sr cr ar x of Some (Ret _, y) \<Rightarrow> Some y | _ \<Rightarrow> None)"

section \<open>Every activation returns\<close>

lemma server_events_facts:
  "ts_ok ts \<Longrightarrow> \<exists>r ts' w'. tn_server_events stack es ts w = Some (r, ts', w') \<and> ts_ok ts'
     \<and> (r = Ret () \<or> trouble (server_next stack) (server_bad stack) es (ts, w))"
proof (induction es arbitrary: ts w)
  case (Cons e es)
  obtain sd events where e: "e = (sd, events)" by fastforce
  from torrentServer_activate_facts [OF Cons.prems, of stack sd events w] obtain r ts1 w1
    where act: "torrentServer_activate stack ts sd events w = Some (r, ts1, w1)" "ts_ok ts1" "r \<noteq> AssertFail"
      "r = UB \<longrightarrow> server_bad stack e (ts, w)" by (auto simp: server_bad_def)
  with e Cons.IH [of ts1 w1] show ?case by (cases r) (auto simp: server_next_def)
qed simp

lemma authority_events_facts:
  "ta_ok ta \<Longrightarrow> \<exists>r ta' w'. tn_authority_events stack es ta w = Some (r, ta', w') \<and> ta_ok ta'
     \<and> (r = Ret () \<or> trouble (authority_next stack) (authority_bad stack) es (ta, w))"
proof (induction es arbitrary: ta w)
  case (Cons e es)
  obtain sd events where e: "e = (sd, events)" by fastforce
  from torrentAuthority_activate_facts [OF Cons.prems, of stack sd w] obtain r ta1 w1
    where act: "torrentAuthority_activate stack ta sd w = Some (r, ta1, w1)" "ta_ok ta1" "r \<noteq> AssertFail"
      "r = UB \<longrightarrow> authority_bad stack e (ta, w)" by (auto simp: authority_bad_def)
  with e Cons.IH [of ta1 w1] show ?case by (cases r) (auto simp: authority_next_def)
qed simp

lemma torrent_report_ok: "fst (torrent_report tc w) = (tc_currentBlockTransfer tc \<noteq> None)"
  by (auto simp: torrent_report_def torrentService_report_def split: prod.splits option.splits)

lemma after_client_facts:
  assumes "tn_ok tn" "tc_ok tc" "tc_started tc" "ret = TC_BLOCK_DOWNLOADED \<Longrightarrow> tc_currentBlockTransfer tc \<noteq> None"
  shows "case tn_after_client ret tc (tn\<lparr>tn_client := Some tc\<rparr>) w of
      Inl (r, tn', w') \<Rightarrow> r = Ret () \<and> tn_ok tn' | Inr (tn', w') \<Rightarrow> tn_ok tn'"
proof -
  let ?tn = "tn\<lparr>tn_client := Some tc\<rparr>"
  have ok: "tn_ok ?tn" using assms by simp
  have complete: "r = Ret () \<and> tn_ok tn2" if "tn_ok tn'" "tn_complete tc tn' w' = (r, tn2, w2)" for tn' w' r tn2 w2
  proof -
    obtain b w3 where rp: "torrent_report tc w' = (b, w3)" by fastforce
    then have "tc_numBlocks tc \<le> tc_blocksDownloaded tc \<Longrightarrow> b"
      using torrent_report_ok [of tc w'] assms(3) by (auto simp: tc_started_def tc_reportable_def)
    with that rp torrent_free_facts [of "tn'\<lparr>tn_clientDone := True\<rparr>" w3] show ?thesis
      by (auto simp: tn_complete_def split: if_splits)
  qed
  have progress: "b \<and> tn_ok tn'" if "tn_progress ret tc ?tn w = (b, tn', w')" for b tn' w'
    using that ok assms(4) torrent_report_ok [of tc]
    by (auto simp: tn_progress_def split: if_splits prod.splits option.splits) (metis fst_conv option.discI)+
  consider (failed) "ret = TC_ERR_FATAL \<or> ret = TC_ERR_SOCKSCONN"
    | (silent) "\<not> (ret = TC_ERR_FATAL \<or> ret = TC_ERR_SOCKSCONN)" "\<not> (\<not> tn_clientDone ?tn \<and> 0 < tc_totalBytesDown tc)"
    | (report) "\<not> (ret = TC_ERR_FATAL \<or> ret = TC_ERR_SOCKSCONN)" "\<not> tn_clientDone ?tn \<and> 0 < tc_totalBytesDown tc"
    by blast
  then show ?thesis
  proof cases
    case failed
    obtain tc1 w1 where "tc_restart tc w = (Ret (), tc1, w1)" "tc_ok tc1" "tc_started tc1"
      using tc_restart_Ret [OF assms(2,3)] by metis
    with failed assms(1) show ?thesis by (simp add: tn_after_client_def)
  next
    case silent
    with ok show ?thesis unfolding tn_after_client_def by auto
  next
    case report
    obtain b tn1 w1 where pr: "tn_progress ret tc ?tn w = (b, tn1, w1)" by (metis prod_cases3)
    obtain r tn2 w2 where co: "tn_complete tc tn1 w1 = (r, tn2, w2)" by (metis prod_cases3)
    from progress [OF pr] complete [OF _ co] report pr co show ?thesis
      unfolding tn_after_client_def by simp
  qed
qed

lemma client_events_facts:
  "tn_ok tn \<Longrightarrow> \<exists>r tn' w'. tn_client_events stack es (tn, w) = Some (r, tn', w') \<and> tn_ok tn'
     \<and> (r = Ret () \<or> trouble (client_next stack) (client_bad stack) es (tn, w))"
proof (induction es arbitrary: tn w)
  case (Cons e es)
  obtain sd events where e: "e = (sd, events)" by fastforce
  show ?case
  proof (cases "tn_client tn")
    case (Some tc)
    with Cons.prems have tc: "tc_ok tc" "tc_started tc" by (simp_all add: tn_ok_def)
    from torrentClient_activate_facts [OF tc(1)] obtain r tc1 w1 where
      act: "torrentClient_activate stack tc sd events w = Some (r, tc1, w1)" "tc_ok tc1" "tc_conserves tc tc1" by blast
    have "tc_reportable tc" using tc(2) by (simp add: tc_started_def)
    note why = torrentClient_activate_cases [OF tc(1) this act(1)]
    have tc1: "tc_started tc1" using tc_started_conserves [OF tc(2) act(3) why(1)] .
    show ?thesis
    proof (cases r)
      case (Ret ret)
      note after = after_client_facts [OF Cons.prems act(2) tc1, of ret w1]
      have current: "ret = TC_BLOCK_DOWNLOADED \<Longrightarrow> tc_currentBlockTransfer tc1 \<noteq> None" using why(2) Ret by simp
      show ?thesis
      proof (cases "tn_after_client ret tc1 (tn\<lparr>tn_client := Some tc1\<rparr>) w1")
        case (Inl res)
        with after current act Some Ret e show ?thesis by (cases res) (auto simp: Let_def)
      next
        case (Inr y)
        with after current have ok: "tn_ok (fst y)" by (cases y) simp
        have "client_next stack e (tn, w) = Some y" using Inr act Some Ret e by (simp add: client_next_def Let_def)
        with Cons.IH [OF ok, of "snd y"] Inr act Some Ret e show ?thesis by (auto simp: Let_def)
      qed
    qed (use act why Some e Cons.prems tc1 in \<open>auto simp: Let_def client_bad_def\<close>)
  qed (use Cons.prems in \<open>simp add: e client_bad_def\<close>)
qed simp

lemma ts_ok_drain [simp]: "ts_ok (snd (ts_drain ts)) = ts_ok ts"
  by (simp add: ts_drain_def ts_ok_def ts_counted_def)

lemma activate_server_facts:
  assumes ok: "tn_ok tn"
  shows "\<exists>s. tn_activate_server stack sr (tn, w) = Some s
      \<and> (case s of Inl (r, tn', w') \<Rightarrow> tn_ok tn' \<and> (r = Ret () \<or> node_bad (stack, sr, cr, ar) (tn, w)) | Inr (tn', w') \<Rightarrow> tn_ok tn')"
proof (cases "\<exists>ts es. tn_server tn = Some ts \<and> ts_epolld ts \<noteq> 0 \<and> sr = Some es")
  case False
  with ok show ?thesis by (cases "tn_server tn"; cases sr) (auto simp: tn_activate_server_def)
next
  case True
  then obtain ts es where ts: "tn_server tn = Some ts" "ts_epolld ts \<noteq> 0" "sr = Some es" by blast
  with ok have "ts_ok ts" by (simp add: tn_ok_def)
  from server_events_facts [OF this] obtain r ts1 w1 where
    "tn_server_events stack es ts w = Some (r, ts1, w1)" "ts_ok ts1"
    "r = Ret () \<or> trouble (server_next stack) (server_bad stack) es (ts, w)" by blast
  with ts ok show ?thesis by (cases r) (auto simp: tn_activate_server_def intro: node_bad.server)
qed

lemma torrent_activate_facts:
  assumes ok: "tn_ok tn"
  shows "\<exists>r tn' w'. torrent_activate stack sr cr ar (tn, w) = Some (r, tn', w') \<and> tn_ok tn'
     \<and> (r = Ret () \<or> node_bad (stack, sr, cr, ar) (tn, w))"
proof -
  obtain s where srv: "tn_activate_server stack sr (tn, w) = Some s"
    "case s of Inl (r, tn', w') \<Rightarrow> tn_ok tn' \<and> (r = Ret () \<or> node_bad (stack, sr, cr, ar) (tn, w)) | Inr (tn', w') \<Rightarrow> tn_ok tn'"
    using activate_server_facts [OF ok] by blast
  show ?thesis
  proof (cases s)
    case (Inl res)
    with srv show ?thesis by (cases res) (simp add: torrent_activate_def)
  next
    case (Inr y)
    obtain tn1 w1 where y: "y = (tn1, w1)" by fastforce
    with srv Inr have s1: "tn_ok tn1" "tn_activate_server stack sr (tn, w) = Some (Inr (tn1, w1))" by simp_all
    show ?thesis
    proof (cases "tn_client tn1 \<noteq> None")
      case True
      with client_events_facts [OF s1(1), of stack _ w1] s1 show ?thesis
        by (cases cr) (fastforce simp: torrent_activate_def intro: node_bad.client)+
    next
      case False
      show ?thesis
      proof (cases "\<exists>ta es. tn_authority tn1 = Some ta \<and> ta_epolld ta \<noteq> 0 \<and> ar = Some es")
        case True
        then obtain ta es where ta: "tn_authority tn1 = Some ta" "ta_epolld ta \<noteq> 0" "ar = Some es" by blast
        with s1(1) have "ta_ok ta" by (simp add: tn_ok_def)
        from authority_events_facts [OF this] obtain r ta1 w2 where
          "tn_authority_events stack es ta w1 = Some (r, ta1, w2)" "ta_ok ta1"
          "r = Ret () \<or> trouble (authority_next stack) (authority_bad stack) es (ta, w1)" by blast
        with ta s1 \<open>\<not> tn_client tn1 \<noteq> None\<close> show ?thesis
          by (auto simp: torrent_activate_def tn_activate_authority_def intro: node_bad.authority)
      next
        case none: False
        with s1 False show ?thesis
          by (cases "tn_authority tn1"; cases ar) (auto simp: torrent_activate_def tn_activate_authority_def)
      qed
    qed
  qed
qed

section \<open>Starting\<close>

lemma torrentServer_start_ok:
  assumes "torrentServer_start ts epolld addr port authAddr authPort down up w = (r, ts', w')" "ts_ok ts"
  shows "ts_ok ts'"
proof -
  have fresh: "ts_ok (ts_fresh e s d u)" for e s d u by (simp add: ts_ok_def ts_fresh_def)
  have join: "ts_ok ts2" if "ts_join_authority (ts_fresh e s d u) port authAddr authPort v = (q, ts2, v')" for e s d u v q ts2 v'
    using that by (auto simp: ts_join_authority_def ts_ok_def ts_fresh_def ts_new_conn_def ts_counted_def Let_def
        split: prod.splits if_splits)
  show ?thesis
    using assms fresh
    by (auto simp: torrentServer_start_def Let_def dest: join split: sum.splits prod.splits if_splits)
qed

lemma torrentAuthority_start_ok:
  "torrentAuthority_start ta epolld addr port w = (r, ta', w') \<Longrightarrow> ta_ok ta \<Longrightarrow> ta_ok ta'"
  by (auto simp: torrentAuthority_start_def ta_ok_def Let_def split: sum.splits prod.splits if_splits)

lemma tn_start_server_ok:
  assumes "tn_start_server lookup nc (tn, w) = s" "tn_ok tn"
  shows "case s of Inl (r, tn', w') \<Rightarrow> tn_ok tn' \<and> tn_client tn' = tn_client tn
    | Inr (tn', w') \<Rightarrow> tn_ok tn' \<and> tn_client tn' = tn_client tn"
proof -
  have "ts_ok zero_ts_server" by (simp add: zero_ts_server_def ts_ok_def ts_fresh_def)
  moreover have "tn_ok (tn\<lparr>tn_server := None\<rparr>)" using assms(2) by (simp add: tn_ok_def)
  ultimately show ?thesis
    using assms torrentServer_start_ok
    by (auto simp: tn_start_server_def Let_def split: prod.splits option.splits)
qed

lemma tn_start_client_ok:
  assumes "tn_start_client lookup nc (tn, w) = (Ret (), tn', w')" "tn_ok tn" "0 < nc_fileSize nc \<and> 0 < nc_downBlockSize nc"
  shows "tn_ok tn'"
proof -
  have start: "tc_ok tc \<and> tc_started tc"
    if "torrentClient_start zero_tc_client e sa sp aa ap port (nc_fileSize nc) (nc_downBlockSize nc) up w0 = (Ret n, tc, w1)"
    for e sa sp aa ap port up w0 n tc w1
    using torrentClient_start_facts [OF that] torrentClient_start_started [OF that] assms(3) by blast
  have "tn_ok (tn\<lparr>tn_client := None\<rparr>)" using assms(2) by (simp add: tn_ok_def)
  with assms show ?thesis
    by (auto simp: tn_start_client_def Let_def dest!: start split: prod.splits option.splits ret.splits)
qed

lemma tn_start_authority_ok:
  assumes "tn_start_authority argv (tn, w) = (Ret (), tn', w')" "tn_ok tn"
  shows "tn_ok tn'"
proof -
  have "tn_ok (tn\<lparr>tn_authority := None\<rparr>)" using assms(2) by (simp add: tn_ok_def)
  moreover have "ta_ok \<lparr>ta_epolld = 0, ta_listenSockd = 0, ta_servers = [], ta_clients = [],
      ta_connections = [], ta_heap = [], ta_next = 0\<rparr>" by (simp add: ta_ok_def)
  ultimately show ?thesis
    using assms by (auto simp: tn_start_authority_def Let_def dest: torrentAuthority_start_ok split: prod.splits option.splits)
qed

lemma torrent_new_ok:
  assumes new: "torrent_new lookup argv w = (Ret (), tn, w')"
    and sizes: "\<And>nc. node_config_of argv = Some nc \<Longrightarrow> 0 < nc_fileSize nc \<and> 0 < nc_downBlockSize nc"
  shows "tn_ok tn"
proof -
  obtain now w1 where ck: "clock_gettime w = (now, w1)" by fastforce
  let ?tn = "\<lparr>tn_server = None, tn_client = None, tn_authority = None, tn_lastReport = now, tn_clientDone = False\<rparr>"
  have ok: "tn_ok ?tn" by (simp add: tn_ok_def)
  show ?thesis
  proof (cases "node_config_of argv")
    case None
    with new ok ck tn_start_authority_ok show ?thesis
      by (auto simp: torrent_new_def Let_def split: if_splits)
  next
    case (Some nc)
    obtain s where s: "(if node_type_is (argv ! 1) ''server'' \<or> node_type_is (argv ! 1) ''node''
        then tn_start_server lookup nc (?tn, w1) else Inr (?tn, w1)) = s" by blast
    with ok have "case s of Inl (r, tn', w') \<Rightarrow> tn_ok tn' | Inr (tn', w') \<Rightarrow> tn_ok tn'"
      using tn_start_server_ok [OF _ ok, of lookup nc w1 s] by (auto split: sum.splits if_splits)
    with new ok ck s Some sizes [OF Some] show ?thesis
      by (auto simp: torrent_new_def Let_def dest: tn_start_authority_ok tn_start_client_ok split: if_splits sum.splits prod.splits)
  qed
qed

section \<open>Runs\<close>

text \<open>
  A run of the plug-in: activations, each with what lies on the stack and what the three
  descriptors report; it ends at the first one that does not return normally.
\<close>

fun tn_run :: "activation list \<Rightarrow> tn_ctx \<Rightarrow> (unit ret \<times> tn_ctx) option" where
  "tn_run [] x = Some (Ret (), x)"
| "tn_run ((stack, sr, cr, ar) # as) x =
     Option.bind (torrent_activate stack sr cr ar x) (\<lambda>(r, y). if r = Ret () then tn_run as y else Some (r, y))"

lemma tn_run_facts:
  "tn_ok (fst x) \<Longrightarrow> \<exists>r y. tn_run as x = Some (r, y) \<and> tn_ok (fst y) \<and> (r = Ret () \<or> trouble node_next node_bad as x)"
proof (induction as arbitrary: x)
  case (Cons a as)
  obtain stack sr cr ar where a: "a = (stack, sr, cr, ar)" by (metis prod_cases4)
  from torrent_activate_facts [OF Cons.prems, of stack sr cr ar "snd x"] obtain r tn' w'
    where act: "torrent_activate stack sr cr ar x = Some (r, tn', w')" "tn_ok tn'" "r = Ret () \<or> node_bad a x"
    using a by auto
  show ?case
  proof (cases "r = Ret ()")
    case True
    with act a have "node_next a x = Some (tn', w')" by (simp add: node_next_def)
    with True act Cons.IH [of "(tn', w')"] a show ?thesis by auto
  qed (use act a in auto)
qed simp

text \<open>
  C8: a plug-in started with positive sizes works off any run of activations: all of them
  return, through restarts, completion and release, unless one of these comes up: the batch
  goes on with the client after it was released; the handler of a server stops in one of the
  four ways \<open>tc_fault\<close> lists; the server is to send a block of more than 16380 bytes or reads
  something that is not text; the authority lists a peer that has gone, or more than 682
  servers.  In every case the servers, clients and connections are well formed at the end.
\<close>

theorem node_runs:
  assumes "torrent_new lookup argv w = (Ret (), tn, w1)"
    and "\<And>nc. node_config_of argv = Some nc \<Longrightarrow> 0 < nc_fileSize nc \<and> 0 < nc_downBlockSize nc"
  shows "\<exists>r tn' w'. tn_run as (tn, w1) = Some (r, tn', w') \<and> tn_ok tn'
    \<and> (r = Ret () \<or> trouble node_next node_bad as (tn, w1))"
  using tn_run_facts [of "(tn, w1)" as] torrent_new_ok [OF assms] by auto

definition demo_argv :: "string list" where
  "demo_argv = [''torrent'', ''client'', ''none'', ''80'', ''none'', ''0'', ''90'', ''64'']"

lemma demo_config:
  "node_config_of demo_argv = Some \<lparr>nc_authHostname = ''none'', nc_authPort = 80, nc_socksHostname = ''none'',
     nc_socksPort = 0, nc_serverPort = 90, nc_fileSize = 64, nc_downBlockSize = 16384, nc_upBlockSize = 16384\<rparr>"
  by (simp add: node_config_of_def demo_argv_def argument_def torrent_size_def gint_ok_def strstr_def Let_def
      atoi_def strtol_def isspace_def digit_val_def signed_take_bit_int_eq_self)

text \<open>The kernel has two sockets, 7 and 8, and takes a byte.\<close>

definition demo_net :: world where
  "demo_net = quiet_world\<lparr>w_socket := [Inr 7, Inr 8], w_send := [SOk 1]\<rparr>"

lemma demo_start:
  "\<exists>tn w1 tc. torrent_new (\<lambda>_. None) demo_argv demo_net = (Ret (), tn, w1)
     \<and> tn_server tn = None \<and> tn_client tn = Some tc \<and> tc_connections tc = [(8, 0)]
     \<and> tp_state (tc_at tc 0) = TC_AUTH_REQUEST_NODES \<and> tc_totalBytesDown tc = 0 \<and> w_send w1 = [SOk 1]"
proof -
  have kind: "node_type_is ''client'' ''client''" "\<not> node_type_is ''client'' ''server''" "\<not> node_type_is ''client'' ''node''"
    by (simp_all add: node_type_is_def ascii_lower_def char_of_def)
  have argv: "demo_argv ! Suc 0 = ''client''" "length demo_argv = 8" by (simp_all add: demo_argv_def)
  show ?thesis
    using kind by (simp add: torrent_new_def argv demo_config tn_start_client_def torrent_resolveHostname_def
        torrentClient_start_def tc_initialised_def gint_ok_def signed_divide_int_def split_def Let_def
        epoll_create_def torrentClient_connect_def demo_net_def quiet_world_def sys_socket_def sys_connect_def
        epoll_ctl_def clock_gettime_def emit_def tc_epoll_eq tc_new_peer_def zero_tc_client_def)
qed

theorem node_runs_witness:
  "\<exists>tn w1 tn' w'. torrent_new (\<lambda>_. None) demo_argv demo_net = (Ret (), tn, w1)
     \<and> tn_run [([], None, Some [(8, [EPOLLOUT])], None)] (tn, w1) = Some (Ret (), tn', w') \<and> tn_ok tn'"
proof -
  obtain tn w1 tc where new: "torrent_new (\<lambda>_. None) demo_argv demo_net = (Ret (), tn, w1)"
    and tc: "tn_server tn = None" "tn_client tn = Some tc" "tc_connections tc = [(8, 0)]"
      "tp_state (tc_at tc 0) = TC_AUTH_REQUEST_NODES" "tc_totalBytesDown tc = 0" "w_send w1 = [SOk 1]"
    using demo_start by blast
  have "\<exists>tc' w'. torrentClient_activate [] tc 8 [EPOLLOUT] w1 = Some (Ret TC_SUCCESS, tc', w')"
    using tc by (simp add: torrentClient_activate_def drive_exit tc_step_def tc_auth_request_nodes_def sys_send_def split_def Let_def)
  then have "\<not> client_bad [] (8, [EPOLLOUT]) (tn, w1)" using tc by (auto simp: client_bad_def tc_fault_def)
  then have "\<not> trouble node_next node_bad [([], None, Some [(8, [EPOLLOUT])], None)] (tn, w1)"
    using tc(1) by (auto simp: tn_activate_server_def elim!: node_badE)
  with node_runs [OF new, of "[([], None, Some [(8, [EPOLLOUT])], None)]"] demo_config new show ?thesis by auto
qed

section \<open>A download that completes\<close>

lemma report_Ret: "tc_currentBlockTransfer tc \<noteq> None \<Longrightarrow> \<exists>ts w'. torrentService_report tc w = (Ret ts, w')"
  by (cases "clock_gettime w") (auto simp: torrentService_report_def)

text \<open>
  When the last block is done the plug-in reports, releases everything and goes on with
  the remaining events of the batch; the next one is handled with a client that is NULL.
\<close>

theorem completion_crashes_batch:
  assumes "tn_ok tn" "tn_client tn = Some tc" "\<not> tn_clientDone tn"
    and "torrentClient_activate stack tc sd events w = Some (Ret TC_BLOCK_DOWNLOADED, tc1, w1)"
    and "0 < tc_totalBytesDown tc1" "tc_numBlocks tc1 \<le> tc_blocksDownloaded tc1"
  shows "(\<exists>tn' w'. tn_client_events stack [(sd, events)] (tn, w) = Some (Ret (), tn', w')
       \<and> tn_clientDone tn' \<and> tn_client tn' = None \<and> tn_server tn' = None)
     \<and> (\<exists>y. tn_client_events stack ((sd, events) # e # es) (tn, w) = Some (UB, y))"
proof -
  have tc: "tc_ok tc" "tc_started tc" using assms(1,2) by (simp_all add: tn_ok_def)
  then have "tc_reportable tc" by (simp add: tc_started_def)
  note why = torrentClient_activate_cases [OF tc(1) this assms(4)]
  have facts: "tc_ok tc1" "tc_conserves tc tc1" using assms(4) torrentClient_activate_facts [OF tc(1), of stack sd events w] by auto
  then have ok: "tn_ok (tn\<lparr>tn_client := Some tc1\<rparr>)"
    using assms(1) tc_started_conserves [OF tc(2) _ why(1)] by simp
  obtain now w2 where ck: "clock_gettime w1 = (now, w2)" by fastforce
  obtain ts w3 where rp: "torrentService_report tc1 w2 = (Ret ts, w3)"
    using report_Ret [OF why(2)] by blast
  obtain ts' w4 where rp': "torrentService_report tc1 w3 = (Ret ts', w4)"
    using report_Ret [OF why(2)] by blast
  define tn1 where "tn1 = tn\<lparr>tn_client := Some tc1, tn_lastReport := now, tn_clientDone := True\<rparr>"
  have "tn_ok tn1" using ok by (simp add: tn1_def)
  from torrent_free_facts [OF this] obtain w' where
    fr: "torrent_free tn1 w4 = (Ret (), tn1\<lparr>tn_client := None, tn_server := None, tn_authority := None\<rparr>, w')" by blast
  have "tn_after_client TC_BLOCK_DOWNLOADED tc1 (tn\<lparr>tn_client := Some tc1\<rparr>) w1
      = Inr (tn1\<lparr>tn_client := None, tn_server := None, tn_authority := None\<rparr>, w')"
    using assms(3,5,6) ck rp rp' fr
    by (simp add: tn_after_client_def tn_progress_def torrent_report_def tn_complete_def tn1_def)
  with assms(2,4) show ?thesis by (cases e) (simp add: tn1_def)
qed

text \<open>A client whose only block has gone over; the server's last word is on its way.\<close>

definition demo_finishing :: tc_client where
  "demo_finishing = zero_tc_client\<lparr>tc_servers := [0], tc_connections := [(6, 0)],
     tc_heap := [(tc_new_peer 1 80 6 TC_SERVER_FINISHED 7)\<lparr>tp_down := 100\<rparr>],
     tc_fileSize := 100, tc_downBlockSize := 100, tc_numBlocks := 1, tc_totalBytesDown := 100\<rparr>"

definition demo_torrent :: torrent where
  "demo_torrent = \<lparr>tn_server = None, tn_client = Some demo_finishing, tn_authority = None,
     tn_lastReport = tc_zero_time, tn_clientDone = False\<rparr>"

lemma demo_finished:
  "\<exists>tc1 w1. torrentClient_activate [] demo_finishing 6 [EPOLLIN] (quiet_world\<lparr>w_recv := [RData ''FINISHED'']\<rparr>)
       = Some (Ret TC_BLOCK_DOWNLOADED, tc1, w1)
     \<and> tc_totalBytesDown tc1 = 100 \<and> tc_numBlocks tc1 = 1 \<and> tc_blocksDownloaded tc1 = 1"
proof -
  have "array_str TC_BUF_SIZE (overlay ''FINISHED'' []) = Some ''FINISHED''"
    unfolding overlay_Nil by (rule array_str_overlay) (simp_all add: TC_BUF_SIZE_def)
  moreover have "strcasestr ''FINISHED'' ''FINISHED'' = Some 0" by (simp add: strcasestr_def)
  moreover have "length ''FINISHED'' \<le> TC_BUF_SIZE" by (simp add: TC_BUF_SIZE_def)
  then have "sys_recv TC_BUF_SIZE (quiet_world\<lparr>w_recv := [RData ''FINISHED'']\<rparr>) = (Inr ''FINISHED'', quiet_world)"
    by (simp add: sys_recv_def quiet_world_def TC_BUF_SIZE_def)
  ultimately show ?thesis
    by (simp add: torrentClient_activate_def drive_exit tc_step_def tc_server_finished_def demo_finishing_def zero_tc_client_def
      tc_new_peer_def tc_block_done_def tc_upd_def tc_epoll_eq split_def Let_def)
qed

lemma demo_torrent_ok: "tn_ok demo_torrent"
  by (simp add: tn_ok_def demo_torrent_def demo_finishing_def tc_ok_def peer_ok_def in_flight_def tc_new_peer_def zero_tc_client_def
      tc_started_def tc_reportable_def gint_ok_def signed_divide_int_def)

theorem completion_crashes_batch_witness:
  "\<exists>y. tn_client_events [] [(6, [EPOLLIN]), (6, [EPOLLIN])] (demo_torrent, quiet_world\<lparr>w_recv := [RData ''FINISHED'']\<rparr>) = Some (UB, y)"
proof -
  obtain tc1 w1 where act: "torrentClient_activate [] demo_finishing 6 [EPOLLIN] (quiet_world\<lparr>w_recv := [RData ''FINISHED'']\<rparr>)
      = Some (Ret TC_BLOCK_DOWNLOADED, tc1, w1)"
    and facts: "tc_totalBytesDown tc1 = 100" "tc_numBlocks tc1 = 1" "tc_blocksDownloaded tc1 = 1"
    using demo_finished by blast
  have "tn_client demo_torrent = Some demo_finishing" "\<not> tn_clientDone demo_torrent" by (simp_all add: demo_torrent_def)
  from completion_crashes_batch [OF demo_torrent_ok this act] facts show ?thesis by simp
qed

section \<open>Starting without a socket\<close>

text \<open>The kernel hands out no negative descriptors.\<close>

definition sockets_ok :: "world \<Rightarrow> bool" where
  "sockets_ok w \<longleftrightarrow> list_all (\<lambda>a. case a of Inl e \<Rightarrow> True | Inr sd \<Rightarrow> 0 \<le> sd) (w_socket w)"

lemma sockets_ok_frame [simp]:
  "sockets_ok (emit e w) = sockets_ok w" "sockets_ok (snd (epoll_ctl op sd evs w)) = sockets_ok w"
  "sockets_ok (snd (sys_connect sd a p w)) = sockets_ok w" "sockets_ok (snd (sys_bind sd w)) = sockets_ok w"
  "sockets_ok (snd (sys_listen sd a p w)) = sockets_ok w"
  by (simp_all add: sockets_ok_def epoll_ctl_def sys_connect_def sys_bind_def sys_listen_def Let_def split: list.splits prod.splits)

lemma sys_socket_ok: "sockets_ok w \<Longrightarrow> sys_socket w = (a, w1) \<Longrightarrow> sockets_ok w1 \<and> (\<forall>sd. a = Inr sd \<longrightarrow> 0 \<le> sd)"
  by (auto simp: sockets_ok_def sys_socket_def split: list.splits)

lemma torrentClient_connect_nonneg:
  assumes "torrentClient_connect addr port w = (sd, w')" "sockets_ok w"
  shows "0 \<le> sd \<and> sockets_ok w'"
proof -
  obtain a w1 where s: "sys_socket w = (a, w1)" by fastforce
  note ok = sys_socket_ok [OF assms(2) s]
  then have "sockets_ok (snd (epoll_ctl CtlAdd x [EPOLLOUT] (snd (sys_connect x addr port w1))))" for x by simp
  with ok assms(1) s show ?thesis
    by (cases a) (auto simp: torrentClient_connect_def split_def Let_def split: if_splits)
qed

lemma torrentServer_connect_nonneg:
  assumes "torrentServer_connect addr port w = (sd, w')" "sockets_ok w"
  shows "0 \<le> sd \<and> sockets_ok w'"
proof -
  obtain a w1 where s: "sys_socket w = (a, w1)" by fastforce
  note ok = sys_socket_ok [OF assms(2) s]
  then have "sockets_ok (snd (epoll_ctl CtlAdd x [EPOLLOUT] (snd (sys_connect x addr port w1))))" for x by simp
  with ok assms(1) s show ?thesis
    by (cases a) (auto simp: torrentServer_connect_def split_def Let_def split: if_splits)
qed

lemma torrentServer_start_nonneg:
  assumes "torrentServer_start ts e la lp aa ap d u w = (r, ts', w')" "sockets_ok w"
  shows "0 \<le> r \<and> sockets_ok w'"
proof -
  obtain a w1 where s: "sys_socket w = (a, w1)" by fastforce
  note ok = sys_socket_ok [OF assms(2) s]
  have join: "0 \<le> q \<and> sockets_ok v'" if "ts_join_authority ts2 lp aa ap v = (q, ts3, v')" "sockets_ok v" for ts2 v q ts3 v'
    using that torrentServer_connect_nonneg [of aa ap v]
    by (auto simp: ts_join_authority_def torrentServer_changeEpoll_def Let_def split: prod.splits if_splits)
  show ?thesis
    using ok assms(1) s
    by (cases a) (auto simp: torrentServer_start_def split_def Let_def dest!: join split: if_splits)
qed

text \<open>
  \<open>torrentService_startNode\<close> tests the results of its parts for being negative although
  their error codes are positive: whatever fails, a start that returns reports success.
\<close>

theorem start_reports_success:
  assumes "torrentService_startNode hostbyname sv args serverEpolld clientEpolld w = (Ret r, sv', w')" "sockets_ok w"
  shows "r = 0"
proof -
  have client: "r = 0" if "sv_start_client hostbyname args e fs d u (sv1, w1) = (Ret r, sv2, w2)" "sockets_ok w1"
    for e fs d u sv1 w1 sv2 w2
    using that torrentClient_connect_nonneg
    by (auto simp: sv_start_client_def torrentClient_start_def Let_def split: if_splits prod.splits) fastforce+
  show ?thesis
    using assms
    by (auto simp: torrentService_startNode_def sv_start_server_def split: option.splits sum.splits prod.splits if_splits
        dest!: torrentServer_start_nonneg client)
qed

definition demo_args :: node_args where
  "demo_args = \<lparr>na_nodeType = ''client'', na_authorityHostname = ''a'', na_authorityPort = ''80'', na_socksHostname = ''none'',
     na_socksPort = ''0'', na_serverPort = ''90'', na_fileSize = ''64'', na_downBlockSize = None, na_upBlockSize = None\<rparr>"

definition demo_service :: tservice where
  "demo_service = \<lparr>sv_server = None, sv_client = None, sv_authority = None, sv_lastReport = tc_zero_time,
     sv_clientDone = False, sv_wakeupTime = tc_zero_time\<rparr>"

theorem start_reports_success_witness:
  "sys_socket quiet_world = (Inl EOTHER, quiet_world)
   \<and> (\<exists>r sv' w'. torrentService_startNode (\<lambda>_. 0) demo_service demo_args 3 4 quiet_world = (Ret r, sv', w') \<and> r = 0)"
proof -
  have kind: "node_type_is ''client'' ''client''" "\<not> node_type_is ''client'' ''server''" "\<not> node_type_is ''client'' ''node''"
    by (simp_all add: node_type_is_def ascii_lower_def char_of_def)
  have quiet: "sys_socket quiet_world = (Inl EOTHER, quiet_world)" by (simp add: sys_socket_def quiet_world_def)
  have size: "torrent_size ''64'' = Some 64"
    by (simp add: torrent_size_def gint_ok_def strstr_def Let_def atoi_def strtol_def isspace_def digit_val_def signed_take_bit_int_eq_self)
  have "\<exists>r sv' w'. torrentService_startNode (\<lambda>_. 0) demo_service demo_args 3 4 quiet_world = (Ret r, sv', w')"
    using kind by (simp add: torrentService_startNode_def demo_args_def size block_size_def sv_start_server_def sv_start_client_def
      torrentClient_start_def torrentClient_connect_def quiet gint_ok_def signed_divide_int_def split_def Let_def)
  then obtain r sv' w' where run: "torrentService_startNode (\<lambda>_. 0) demo_service demo_args 3 4 quiet_world = (Ret r, sv', w')" by blast
  have "sockets_ok quiet_world" by (simp add: sockets_ok_def quiet_world_def)
  from start_reports_success [OF run this] run quiet show ?thesis by blast
qed

end
