(* ===== verification/Ping_Client.thy ===== *)
theory Ping_Client
  imports Kernel
begin

text \<open>
  The ping client (\<open>ping/ping-client.c\<close>, \<open>ping-client.h\<close>): it connects to the ping server,
  directly or through a SOCKS5 proxy, and sends it a short text at regular times.

  \<open>pc_buf\<close> is the list of the bytes below \<open>buf_write_offset\<close>.  What the client asks
  \<open>createCallback\<close> for is recorded in \<open>pc_callbacks\<close>, oldest first.  \<open>pc_pingTimes\<close> is
  \<open>None\<close> when the queue is NULL or freed.  The enumerations of the codes of client, server
  and plug-in list the same codes in the same order; they are one type here.
\<close>

section \<open>Data\<close>

datatype ping_code =
    PING_SUCCESS | PING_BLOCK_DOWNLOADED | PING_CLOSED | PING_ERR_INVALID | PING_ERR_FATAL
  | PING_ERR_BADSD | PING_ERR_WOULDBLOCK | PING_ERR_BUFSPACE | PING_ERR_SOCKET | PING_ERR_BIND
  | PING_ERR_LISTEN | PING_ERR_ACCEPT | PING_ERR_RECV | PING_ERR_SEND | PING_ERR_CLOSE
  | PING_ERR_EPOLL | PING_ERR_CONNECT | PING_ERR_SOCKSINIT | PING_ERR_SOCKSCONN | PING_ERR_NOSERVER

fun ping_num :: "ping_code \<Rightarrow> int" where
  "ping_num PING_SUCCESS = 0" | "ping_num PING_BLOCK_DOWNLOADED = 1" | "ping_num PING_CLOSED = 2"
| "ping_num PING_ERR_INVALID = 3" | "ping_num PING_ERR_FATAL = 4" | "ping_num PING_ERR_BADSD = 5"
| "ping_num PING_ERR_WOULDBLOCK = 6" | "ping_num PING_ERR_BUFSPACE = 7" | "ping_num PING_ERR_SOCKET = 8"
| "ping_num PING_ERR_BIND = 9" | "ping_num PING_ERR_LISTEN = 10" | "ping_num PING_ERR_ACCEPT = 11"
| "ping_num PING_ERR_RECV = 12" | "ping_num PING_ERR_SEND = 13" | "ping_num PING_ERR_CLOSE = 14"
| "ping_num PING_ERR_EPOLL = 15" | "ping_num PING_ERR_CONNECT = 16" | "ping_num PING_ERR_SOCKSINIT = 17"
| "ping_num PING_ERR_SOCKSCONN = 18" | "ping_num PING_ERR_NOSERVER = 19"

datatype pc_state =
    PING_CLIENT_SOCKS_REQUEST_INIT | PING_CLIENT_SOCKS_TOREPLY_INIT | PING_CLIENT_SOCKS_REPLY_INIT
  | PING_CLIENT_SOCKS_REQUEST_CONN | PING_CLIENT_SOCKS_TOREPLY_CONN | PING_CLIENT_SOCKS_REPLY_CONN
  | PING_CLIENT_SEND | PING_CLIENT_RECEIVE | PING_CLIENT_PING | PING_CLIENT_IDLE

definition PING_CLIENT_SOCKS_INIT :: string where
  "PING_CLIENT_SOCKS_INIT = [CHR 0x05, CHR 0x01, CHR 0x00]"
definition PING_CLIENT_SOCKS_REQ_HEAD :: string where
  "PING_CLIENT_SOCKS_REQ_HEAD = [CHR 0x05, CHR 0x01, CHR 0x00, CHR 0x01]"
definition PING_CLIENT_BUF_SIZE :: nat where "PING_CLIENT_BUF_SIZE = 16384"

text \<open>The functions the client asks to be called back.\<close>

datatype ping_callback = SendPing | Wakeup

record ping_client =
  pc_epolld :: fd
  pc_sockd :: fd
  pc_socksAddr :: u32
  pc_socksPort :: u16
  pc_serverAddr :: u32
  pc_serverPort :: u16
  pc_pingTimes :: "int list option"
  pc_pingInterval :: int
  pc_pingSize :: int
  pc_pingsSent :: int
  pc_cookie :: u32
  pc_callbacks :: "(ping_callback \<times> u32) list"
  pc_state :: pc_state
  pc_nextstate :: pc_state
  pc_buf :: string
  pc_buf_read_offset :: nat

type_synonym pc_ctx = "ping_client \<times> world"
type_synonym pc_result = "(ping_code ret, pc_ctx) outcome"

text \<open>An object from \<open>g_new0\<close>.\<close>

definition zero_ping_client :: ping_client where
  "zero_ping_client = \<lparr>pc_epolld = 0, pc_sockd = 0, pc_socksAddr = 0, pc_socksPort = 0,
     pc_serverAddr = 0, pc_serverPort = 0, pc_pingTimes = None, pc_pingInterval = 0, pc_pingSize = 0,
     pc_pingsSent = 0, pc_cookie = 0, pc_callbacks = [], pc_state = PING_CLIENT_SOCKS_REQUEST_INIT,
     pc_nextstate = PING_CLIENT_SOCKS_REQUEST_INIT, pc_buf = [], pc_buf_read_offset = 0\<rparr>"

section \<open>Connecting, starting, closing\<close>

definition pingClient_changeEpoll :: "fd \<Rightarrow> epoll_ev list \<Rightarrow> world \<Rightarrow> world" where
  "pingClient_changeEpoll sockd evs w = snd (epoll_ctl CtlMod sockd evs w)"

definition pingClient_connect :: "u32 \<Rightarrow> u16 \<Rightarrow> world \<Rightarrow> int \<times> world" where
  "pingClient_connect addr port w =
     (case sys_socket w of
        (Inl e, w1) \<Rightarrow> (ping_num PING_ERR_SOCKET, w1)
      | (Inr sockd, w1) \<Rightarrow>
          (let (result, w2) = sys_connect sockd addr port w1 in
           if result \<noteq> None \<and> result \<noteq> Some EINPROGRESS then (ping_num PING_ERR_CONNECT, w2)
           else let (ok, w3) = epoll_ctl CtlAdd sockd [EPOLLOUT] w2
                in if \<not> ok then (ping_num PING_ERR_EPOLL, w3) else (sockd, w3)))"

text \<open>\<open>buf\<close> and its offsets are not reset.\<close>

definition pingClient_start ::
    "ping_client \<Rightarrow> fd \<Rightarrow> u32 \<Rightarrow> u16 \<Rightarrow> u32 \<Rightarrow> u16 \<Rightarrow> int \<Rightarrow> int \<Rightarrow> world \<Rightarrow> int \<times> pc_ctx" where
  "pingClient_start pc epolld socksAddr socksPort serverAddr serverPort pingInterval pingSize w =
     (let direct = (socksAddr = htonl (- 1));
          addr = (if direct then serverAddr else socksAddr);
          port = (if direct then serverPort else socksPort);
          pc1 = pc\<lparr>pc_state := if direct then PING_CLIENT_PING else PING_CLIENT_SOCKS_REQUEST_INIT,
                   pc_epolld := epolld\<rparr>;
          (sockd, w1) = pingClient_connect addr port w
      in if sockd < 0 then (sockd, pc1, w1)
         else let w2 = pingClient_changeEpoll sockd [EPOLLOUT] w1;
                  (r, w3) = sys_rand w2
              in (ping_num PING_SUCCESS,
                  pc1\<lparr>pc_sockd := sockd, pc_pingInterval := pingInterval, pc_pingSize := pingSize,
                      pc_pingTimes := Some [], pc_pingsSent := 0, pc_cookie := of_nat (r mod (2 ^ 32 - 1)),
                      pc_socksAddr := socksAddr, pc_socksPort := socksPort,
                      pc_serverAddr := serverAddr, pc_serverPort := serverPort\<rparr>, w3))"

definition pingClient_shutdown :: "pc_ctx \<Rightarrow> pc_ctx" where
  "pingClient_shutdown = (\<lambda>(pc, w).
     (let w1 = snd (epoll_ctl CtlDel (pc_sockd pc) [] w);
          w2 = snd (sys_close (pc_sockd pc) w1)
      in (pc\<lparr>pc_sockd := 0, pc_pingTimes := None\<rparr>, w2)))"

text \<open>\<open>pingClient_shutdown\<close> and \<open>pingClient_start\<close> with the client's own parameters.\<close>

definition pingClient_restart :: "pc_ctx \<Rightarrow> pc_ctx" where
  "pingClient_restart x =
     (case pingClient_shutdown x of (pc, w) \<Rightarrow>
        snd (pingClient_start pc (pc_epolld pc) (pc_socksAddr pc) (pc_socksPort pc) (pc_serverAddr pc)
               (pc_serverPort pc) (pc_pingInterval pc) (pc_pingSize pc) w))"

definition pc_callback :: "ping_callback \<Rightarrow> u32 \<Rightarrow> ping_client \<Rightarrow> ping_client" where
  "pc_callback f ms pc = pc\<lparr>pc_callbacks := pc_callbacks pc @ [(f, ms)]\<rparr>"

section \<open>Pings\<close>

definition ping_text :: "u32 \<Rightarrow> timespec \<Rightarrow> string" where
  "ping_text cookie now =
     ''TOR-COOKIE: '' @ show_cookie cookie @ crlf
       @ ''TIME: '' @ show_nat (nat (TIME_TO_NS now mod 2 ^ 64)) @ crlf @ crlf"

function ping_fill :: "nat \<Rightarrow> string \<Rightarrow> string \<Rightarrow> string" where
  "ping_fill limit msg buf =
     (if length buf < limit \<and> msg \<noteq> [] then ping_fill limit msg (buf @ msg) else buf)"
  by auto
termination
  by (relation "measure (\<lambda>(limit, msg, buf). limit - length buf)") (auto simp flip: length_greater_0_conv)

declare ping_fill.simps [simp del]

text \<open>
  The size is compared as a \<open>gsize\<close>: a negative one is more than \<open>2 ^ 63\<close>, and the string
  grows until \<open>g_realloc\<close> aborts.
\<close>

definition ping_send_allowed :: "errno \<Rightarrow> bool" where
  "ping_send_allowed e \<longleftrightarrow> e = EWOULDBLOCK \<or> e = ENOTCONN \<or> e = EALREADY"

definition pingClient_sendPing :: "pc_ctx \<Rightarrow> unit ret \<times> pc_ctx" where
  "pingClient_sendPing = (\<lambda>(pc, w).
     (let (now, w1) = clock_gettime w in
      if pc_pingSize pc < 0 then (AssertFail, pc, w1)
      else let text = take (nat (pc_pingSize pc))
                        (ping_fill (nat (pc_pingSize pc)) (ping_text (pc_cookie pc) now) []);
               (a, w2) = sys_send (pc_sockd pc) text w1
           in if (case a of Inl e \<Rightarrow> \<not> ping_send_allowed e | Inr k \<Rightarrow> False)
              then case pingClient_restart (pc, w2) of (pc1, w3) \<Rightarrow> (Ret (), pc_callback Wakeup 60 pc1, w3)
              else case pc_pingTimes pc of
                     None \<Rightarrow> (UB, pc, w2)
                   | Some ts \<Rightarrow>
                       (Ret (), pc_callback SendPing (of_int (pc_pingInterval pc))
                                  (pc\<lparr>pc_pingTimes := Some (ts @ [TIME_TO_NS now]),
                                      pc_pingsSent := pc_pingsSent pc + 1\<rparr>), w2)))"

section \<open>The handler\<close>

definition pc_goto :: "pc_state \<Rightarrow> ping_client \<Rightarrow> ping_client" where
  "pc_goto st pc = pc\<lparr>pc_state := st\<rparr>"

definition pc_io :: "pc_state \<Rightarrow> pc_state \<Rightarrow> ping_client \<Rightarrow> ping_client" where
  "pc_io st next pc = pc\<lparr>pc_state := st, pc_nextstate := next\<rparr>"

definition pc_append :: "string \<Rightarrow> ping_client \<Rightarrow> ping_client" where
  "pc_append bs pc = pc\<lparr>pc_buf := pc_buf pc @ bs\<rparr>"

definition pc_unread :: "ping_client \<Rightarrow> string" where
  "pc_unread pc = drop (pc_buf_read_offset pc) (pc_buf pc)"

definition pc_skip :: "nat \<Rightarrow> ping_client \<Rightarrow> ping_client" where
  "pc_skip n pc = pc\<lparr>pc_buf_read_offset := pc_buf_read_offset pc + n\<rparr>"

definition pc_request :: "string \<Rightarrow> pc_state \<Rightarrow> fd \<Rightarrow> pc_ctx \<Rightarrow> pc_result" where
  "pc_request bs next sockd = (\<lambda>(pc, w).
     if PING_CLIENT_BUF_SIZE - length (pc_buf pc) < length bs then Exit AssertFail (pc, w)
     else Again (pc_io PING_CLIENT_SEND next (pc_append bs pc), pingClient_changeEpoll sockd [EPOLLOUT] w))"

definition pc_socks_target :: "ping_client \<Rightarrow> string" where
  "pc_socks_target pc =
     PING_CLIENT_SOCKS_REQ_HEAD @ le_bytes 4 (unat (pc_serverAddr pc)) @ le_bytes 2 (unat (pc_serverPort pc))"

definition pc_toreply :: "pc_state \<Rightarrow> fd \<Rightarrow> pc_ctx \<Rightarrow> pc_result" where
  "pc_toreply reply sockd = (\<lambda>(pc, w).
     Again (pc_io PING_CLIENT_RECEIVE reply pc, pingClient_changeEpoll sockd [EPOLLIN] w))"

definition pc_socks_reply_init :: "pc_ctx \<Rightarrow> pc_result" where
  "pc_socks_reply_init = (\<lambda>(pc, w).
     (let u = pc_unread pc in
      if length u < 2 then Again (pc_goto PING_CLIENT_SOCKS_TOREPLY_INIT pc, w)
      else if u ! 0 \<noteq> CHR 0x05 then Exit (Ret PING_ERR_SOCKSINIT) (pc, w)
      else if u ! 1 \<noteq> CHR 0x00 then Exit (Ret PING_ERR_SOCKSINIT) (pc, w)
      else Again (pc_goto PING_CLIENT_SOCKS_REQUEST_CONN (pc_skip 2 pc), w)))"

text \<open>The bound address is read and not used.\<close>

definition pc_socks_reply_conn :: "fd \<Rightarrow> pc_ctx \<Rightarrow> pc_result" where
  "pc_socks_reply_conn sockd = (\<lambda>(pc, w).
     (let u = pc_unread pc in
      if length u < 10 then Again (pc_goto PING_CLIENT_SOCKS_TOREPLY_CONN pc, w)
      else if u ! 0 \<noteq> CHR 0x05 then Exit (Ret PING_ERR_SOCKSCONN) (pc, w)
      else if u ! 1 \<noteq> CHR 0x00 then Exit (Ret PING_ERR_SOCKSCONN) (pc, w)
      else if u ! 3 \<noteq> CHR 0x01 then Exit (Ret PING_ERR_SOCKSCONN) (pc, w)
      else Again (pc_io PING_CLIENT_PING PING_CLIENT_PING (pc_skip 10 pc),
                  pingClient_changeEpoll sockd [EPOLLOUT] w)))"

text \<open>\<open>PING_CLIENT_ASSERTIO\<close>: a failed call; the end of the stream is \<open>PING_ERR_FATAL\<close>.\<close>

definition pc_io_failed :: "bool \<Rightarrow> pc_ctx \<Rightarrow> pc_result" where
  "pc_io_failed allowed x = Exit (Ret (if allowed then PING_ERR_WOULDBLOCK else PING_ERR_FATAL)) x"

definition pc_send :: "fd \<Rightarrow> pc_ctx \<Rightarrow> pc_result" where
  "pc_send sockd = (\<lambda>(pc, w).
     if length (pc_buf pc) < pc_buf_read_offset pc then Exit AssertFail (pc, w)
     else case sys_send sockd (pc_unread pc) w of
       (Inl e, w1) \<Rightarrow> pc_io_failed (ping_send_allowed e) (pc, w1)
     | (Inr k, w1) \<Rightarrow>
         if k = 0 then Exit (Ret PING_ERR_FATAL) (pc, w1)
         else let pc1 = pc_skip k pc
              in if pc_buf_read_offset pc1 = length (pc_buf pc1)
                 then Again (pc_goto (pc_nextstate pc1) (pc1\<lparr>pc_buf_read_offset := 0, pc_buf := []\<rparr>), w1)
                 else Again (pc1, w1))"

definition pc_receive :: "pc_ctx \<Rightarrow> pc_result" where
  "pc_receive = (\<lambda>(pc, w).
     case sys_recv (PING_CLIENT_BUF_SIZE - length (pc_buf pc)) w of
       (Inl e, w1) \<Rightarrow> pc_io_failed (e = EWOULDBLOCK) (pc, w1)
     | (Inr bs, w1) \<Rightarrow>
         if bs = [] then Exit (Ret PING_ERR_FATAL) (pc, w1)
         else Again (pc_goto (pc_nextstate pc) (pc_append bs pc), w1))"

text \<open>The first ping is due at the next full second.\<close>

definition time_to_ping :: "timespec \<Rightarrow> u32" where
  "time_to_ping now = of_int ((1000000000 - tv_nsec now) div 1000000)"

definition pc_ping :: "fd \<Rightarrow> pc_ctx \<Rightarrow> pc_result" where
  "pc_ping sockd = (\<lambda>(pc, w).
     (let w1 = pingClient_changeEpoll sockd [EPOLLIN] w;
          (now, w2) = clock_gettime w1
      in Exit (Ret PING_SUCCESS) (pc_callback SendPing (time_to_ping now) (pc_goto PING_CLIENT_IDLE pc), w2)))"

definition pc_step :: "fd \<Rightarrow> pc_ctx \<Rightarrow> pc_result" where
  "pc_step sockd x =
     (case pc_state (fst x) of
        PING_CLIENT_SOCKS_REQUEST_INIT \<Rightarrow> pc_request PING_CLIENT_SOCKS_INIT PING_CLIENT_SOCKS_TOREPLY_INIT sockd x
      | PING_CLIENT_SOCKS_TOREPLY_INIT \<Rightarrow> pc_toreply PING_CLIENT_SOCKS_REPLY_INIT sockd x
      | PING_CLIENT_SOCKS_REPLY_INIT \<Rightarrow> pc_socks_reply_init x
      | PING_CLIENT_SOCKS_REQUEST_CONN \<Rightarrow> pc_request (pc_socks_target (fst x)) PING_CLIENT_SOCKS_TOREPLY_CONN sockd x
      | PING_CLIENT_SOCKS_TOREPLY_CONN \<Rightarrow> pc_toreply PING_CLIENT_SOCKS_REPLY_CONN sockd x
      | PING_CLIENT_SOCKS_REPLY_CONN \<Rightarrow> pc_socks_reply_conn sockd x
      | PING_CLIENT_SEND \<Rightarrow> pc_send sockd x
      | PING_CLIENT_RECEIVE \<Rightarrow> pc_receive x
      | PING_CLIENT_PING \<Rightarrow> pc_ping sockd x
      | PING_CLIENT_IDLE \<Rightarrow> Exit (Ret PING_SUCCESS) x)"

definition pingClient_activate :: "pc_ctx \<Rightarrow> fd \<Rightarrow> (ping_code ret \<times> pc_ctx) option" where
  "pingClient_activate x sockd = drive (pc_step sockd) x"

definition pingClient_wakeup :: "pc_ctx \<Rightarrow> (unit ret \<times> pc_ctx) option" where
  "pingClient_wakeup x =
     map_option (\<lambda>(r, y). (case r of Ret _ \<Rightarrow> Ret () | AssertFail \<Rightarrow> AssertFail | UB \<Rightarrow> UB, y))
       (pingClient_activate x (pc_sockd (fst x)))"

end
