(* ===== verification/Ping_Server.thy ===== *)
theory Ping_Server
  imports Ping_Client
begin

text \<open>
  The ping server (\<open>ping/ping-server.c\<close>, \<open>ping-server.h\<close>): it accepts connections and
  records the cookie and the times of every ping it reads.  It keeps no table of its
  connections: any descriptor but its own is read from.
\<close>

record ping_info =
  pi_sentTime :: u64
  pi_recvTime :: u64
  pi_cookie :: u32

record ping_server =
  psv_sockd :: fd
  psv_epolld :: fd
  psv_pings :: "ping_info list"

definition zero_ping_server :: ping_server where
  "zero_ping_server = \<lparr>psv_sockd = 0, psv_epolld = 0, psv_pings = []\<rparr>"

section \<open>Starting, accepting, closing\<close>

definition pingServer_start ::
    "ping_server \<Rightarrow> fd \<Rightarrow> u32 \<Rightarrow> u16 \<Rightarrow> world \<Rightarrow> ping_code \<times> ping_server \<times> world" where
  "pingServer_start ps epolld serverAddr serverPort w =
     (case sys_socket w of
        (Inl e, w1) \<Rightarrow> (PING_ERR_SOCKET, ps, w1)
      | (Inr sockd, w1) \<Rightarrow>
          (let (ok, w2) = sys_bind sockd w1 in
           if \<not> ok then (PING_ERR_BIND, ps, w2)
           else let (ok, w3) = sys_listen sockd serverAddr serverPort w2 in
             if \<not> ok then (PING_ERR_LISTEN, ps, w3)
             else let (ok, w4) = epoll_ctl CtlAdd sockd [EPOLLIN] w3
                  in if \<not> ok then (PING_ERR_EPOLL, ps, w4)
                     else (PING_SUCCESS, ps\<lparr>psv_sockd := sockd, psv_epolld := epolld\<rparr>, w4)))"

definition pingServer_accept :: "world \<Rightarrow> ping_code \<times> world" where
  "pingServer_accept w =
     (case sys_accept w of
        (Inl e, w1) \<Rightarrow> (PING_ERR_ACCEPT, w1)
      | (Inr (sockd, addr), w1) \<Rightarrow>
          (let (ok, w2) = epoll_ctl CtlAdd sockd [EPOLLIN] w1
           in (if ok then PING_SUCCESS else PING_ERR_EPOLL, w2)))"

text \<open>The \<open>while(!ret)\<close> loop around it.\<close>

definition psv_accept_step :: "world \<Rightarrow> (ping_code, world) outcome" where
  "psv_accept_step w =
     (case pingServer_accept w of (r, w1) \<Rightarrow> if r = PING_SUCCESS then Again w1 else Exit r w1)"

definition pingServer_shutdown :: "ping_server \<Rightarrow> world \<Rightarrow> ping_code \<times> ping_server \<times> world" where
  "pingServer_shutdown ps w =
     (let w1 = snd (epoll_ctl CtlDel (psv_sockd ps) [] w);
          w2 = snd (sys_close (psv_sockd ps) w1)
      in (PING_SUCCESS, ps\<lparr>psv_sockd := 0, psv_pings := []\<rparr>, w2))"

section \<open>Reading pings\<close>

text \<open>One line that is not empty: \<open>key: value\<close> sets the cookie or the time.\<close>

definition ping_line :: "string \<Rightarrow> u32 \<times> u64 \<Rightarrow> u32 \<times> u64" where
  "ping_line line = (\<lambda>(cookie, sentTime).
     (case g_strsplit line '': '' 2 of
        key # val # _ \<Rightarrow>
          if key = ''TOR-COOKIE'' then (ucast (strtoull 16 val), sentTime)
          else if key = ''TIME'' then (cookie, strtoull 10 val)
          else (cookie, sentTime)
      | _ \<Rightarrow> (cookie, sentTime)))"

text \<open>An empty line ends a ping.  Cookie and time are kept for the next one.\<close>

fun ping_scan :: "u64 \<Rightarrow> u32 \<times> u64 \<Rightarrow> string list \<Rightarrow> ping_info list" where
  "ping_scan recvTime st [] = []"
| "ping_scan recvTime (cookie, sentTime) (line # ls) =
     (if line = []
      then if sentTime \<noteq> 0 \<and> cookie \<noteq> 0
           then \<lparr>pi_sentTime = sentTime, pi_recvTime = recvTime, pi_cookie = cookie\<rparr>
                  # ping_scan recvTime (cookie, sentTime) ls
           else ping_scan recvTime (cookie, sentTime) ls
      else ping_scan recvTime (ping_line line (cookie, sentTime)) ls)"

definition ping_infos :: "u64 \<Rightarrow> string \<Rightarrow> ping_info list" where
  "ping_infos recvTime buf = ping_scan recvTime (0, 0) (g_strsplit buf crlf 0)"

text \<open>The NUL goes behind the received bytes, also when they fill the buffer.\<close>

definition PING_SERVER_BUF_SIZE :: nat where "PING_SERVER_BUF_SIZE = 128"

definition pingServer_read :: "ping_server \<Rightarrow> world \<Rightarrow> ping_code ret \<times> ping_server \<times> world" where
  "pingServer_read ps w =
     (case sys_recv PING_SERVER_BUF_SIZE w of
        (Inl e, w1) \<Rightarrow> (Ret (if e = EWOULDBLOCK then PING_ERR_WOULDBLOCK else PING_ERR_FATAL), ps, w1)
      | (Inr bs, w1) \<Rightarrow>
          if bs = [] then (Ret PING_ERR_FATAL, ps, w1)
          else if PING_SERVER_BUF_SIZE \<le> length bs then (UB, ps, w1)
          else let (now, w2) = clock_gettime w1
               in (Ret PING_SUCCESS,
                   ps\<lparr>psv_pings := psv_pings ps @ ping_infos (of_int (TIME_TO_NS now)) bs\<rparr>, w2))"

definition pingServer_activate ::
    "ping_server \<Rightarrow> fd \<Rightarrow> world \<Rightarrow> (ping_code ret \<times> ping_server \<times> world) option" where
  "pingServer_activate ps sockd w =
     (if sockd = psv_sockd ps then map_option (\<lambda>(r, w1). (Ret r, ps, w1)) (drive psv_accept_step w)
      else Some (pingServer_read ps w))"

end
