(* ===== verification/Ping.thy ===== *)
theory Ping
  imports Ping_Server
begin

text \<open>
  The ping service (\<open>ping/ping-service.c\<close>, \<open>ping-service.h\<close>) and the ping plug-in
  (\<open>ping/ping.c\<close>, \<open>ping.h\<close>): each runs a client and a server in one process and logs the pings
  that have arrived.

  The lookup of names and the name of the host are parameters.  What is logged about a ping is
  the result \<open>ping_report\<close>; the text of the messages is not modelled.
\<close>

definition PING_PORT :: u16 where "PING_PORT = 25"

section \<open>The service\<close>

record ping_args =
  pa_socksHostname :: string
  pa_socksPort :: string
  pa_pingInterval :: string
  pa_pingSize :: "string option"

record ping_service =
  pv_serverEpolld :: fd
  pv_clientEpolld :: fd
  pv_server :: "ping_server option"
  pv_client :: "ping_client option"
  pv_pingsTransfered :: int
  pv_lastPingSent :: u64
  pv_lastPingRecv :: u64

text \<open>
  The option \<open>pingSize\<close> is read into a variable of an inner block; the size that is used
  stays 64.  Only positive codes of the client's start are failures, and it returns none.
\<close>

definition pingService_startNode ::
    "(string \<Rightarrow> u32) \<Rightarrow> string \<Rightarrow> ping_service \<Rightarrow> ping_args \<Rightarrow> fd \<Rightarrow> fd \<Rightarrow> world \<Rightarrow> int \<times> ping_service \<times> world" where
  "pingService_startNode hostbyname myHostname pv args serverEpolld clientEpolld w =
     (let socksAddr = hostbyname (pa_socksHostname args);
          socksPort = of_int (atoi (pa_socksPort args)) :: u16;
          pingInterval = atoi (pa_pingInterval args);
          pingSize = 64;
          serverAddr = hostbyname myHostname;
          (ret, ps, w1) = pingServer_start zero_ping_server serverEpolld serverAddr (htons PING_PORT) w;
          pv1 = pv\<lparr>pv_serverEpolld := serverEpolld, pv_clientEpolld := clientEpolld, pv_server := Some ps,
                   pv_client := Some zero_ping_client, pv_pingsTransfered := 0\<rparr>
      in if 0 < ping_num ret then (ping_num ret, pv1, w1)
         else case pingClient_start zero_ping_client clientEpolld socksAddr (htons socksPort) serverAddr
                     (htons PING_PORT) pingInterval pingSize w1 of
                (ret2, pc, w2) \<Rightarrow>
                  (if 0 < ret2 then ret2 else 0, pv1\<lparr>pv_client := Some pc\<rparr>, w2))"

text \<open>
  What is logged about a ping: the difference to the one before, when both were sent at the
  same time; the number of the ping; its latency.
\<close>

record ping_report =
  pr_train :: "int option"
  pr_number :: int
  pr_latency :: u64

definition pv_report :: "ping_info \<Rightarrow> ping_service \<Rightarrow> ping_report \<times> ping_service" where
  "pv_report i pv =
     (let train = (if pi_sentTime i = pv_lastPingSent pv \<and> pi_recvTime i \<noteq> pv_lastPingRecv pv
                   then Some (sint ((pi_recvTime i - pv_lastPingRecv pv) - (pi_sentTime i - pv_lastPingSent pv)))
                   else None);
          n = pv_pingsTransfered pv + 1
      in (\<lparr>pr_train = train, pr_number = n, pr_latency = pi_recvTime i - pi_sentTime i\<rparr>,
          pv\<lparr>pv_lastPingSent := pi_sentTime i, pv_lastPingRecv := pi_recvTime i, pv_pingsTransfered := n\<rparr>))"

fun pv_reports :: "ping_info list \<Rightarrow> ping_service \<Rightarrow> ping_report list \<times> ping_service" where
  "pv_reports [] pv = ([], pv)"
| "pv_reports (i # is) pv =
     (case pv_report i pv of (r, pv1) \<Rightarrow> (case pv_reports is pv1 of (rs, pv2) \<Rightarrow> (r # rs, pv2)))"

text \<open>
  The code that is returned, the reports, the new state.  After the server's part the
  result variable has not been assigned: \<open>None\<close>.
\<close>

definition pv_activate_client ::
    "ping_service \<Rightarrow> ping_client \<Rightarrow> fd \<Rightarrow> world \<Rightarrow> (ping_code option ret \<times> ping_report list \<times> ping_service \<times> world) option" where
  "pv_activate_client pv pc sockd w =
     map_option (\<lambda>(r, pc1, w1).
       (case r of
          Ret ret \<Rightarrow>
            if ret = PING_ERR_FATAL \<or> ret = PING_ERR_SOCKSCONN
            then (case pingClient_restart (pc1, w1) of (pc2, w2) \<Rightarrow>
                    (Ret (Some ret), [], pv\<lparr>pv_client := Some (pc_callback Wakeup 60 pc2)\<rparr>,
                     snd (clock_gettime w2)))
            else (Ret (Some ret), [], pv\<lparr>pv_client := Some pc1\<rparr>, w1)
        | AssertFail \<Rightarrow> (AssertFail, [], pv\<lparr>pv_client := Some pc1\<rparr>, w1)
        | UB \<Rightarrow> (UB, [], pv\<lparr>pv_client := Some pc1\<rparr>, w1)))
       (pingClient_activate (pc, w) sockd)"

definition pv_activate_server ::
    "ping_service \<Rightarrow> ping_server \<Rightarrow> fd \<Rightarrow> world \<Rightarrow> (ping_code option ret \<times> ping_report list \<times> ping_service \<times> world) option" where
  "pv_activate_server pv ps sockd w =
     map_option (\<lambda>(r, ps1, w1).
       (case r of
          Ret _ \<Rightarrow>
            (case pv_reports (psv_pings ps1) pv of (rs, pv1) \<Rightarrow>
               (Ret None, rs, pv1\<lparr>pv_server := Some (ps1\<lparr>psv_pings := []\<rparr>)\<rparr>, w1))
        | AssertFail \<Rightarrow> (AssertFail, [], pv\<lparr>pv_server := Some ps1\<rparr>, w1)
        | UB \<Rightarrow> (UB, [], pv\<lparr>pv_server := Some ps1\<rparr>, w1)))
       (pingServer_activate ps sockd w)"

definition pingService_activate ::
    "ping_service \<Rightarrow> fd \<Rightarrow> fd \<Rightarrow> world \<Rightarrow> (ping_code option ret \<times> ping_report list \<times> ping_service \<times> world) option" where
  "pingService_activate pv sockd epolld w =
     (if epolld = pv_clientEpolld pv
      then (case pv_client pv of None \<Rightarrow> Some (UB, [], pv, w) | Some pc \<Rightarrow> pv_activate_client pv pc sockd w)
      else (case pv_server pv of None \<Rightarrow> Some (UB, [], pv, w) | Some ps \<Rightarrow> pv_activate_server pv ps sockd w))"

definition pingService_stop :: "ping_service \<Rightarrow> world \<Rightarrow> int \<times> ping_service \<times> world" where
  "pingService_stop pv w =
     (let w1 = (case pv_client pv of None \<Rightarrow> w | Some pc \<Rightarrow> snd (pingClient_shutdown (pc, w)));
          w2 = (case pv_server pv of None \<Rightarrow> w1 | Some ps \<Rightarrow> snd (snd (pingServer_shutdown ps w1)))
      in (0, pv\<lparr>pv_client := None, pv_server := None\<rparr>, w2))"

section \<open>The plug-in\<close>

record ping =
  pg_epolld :: fd
  pg_server :: "ping_server option"
  pg_client :: "ping_client option"
  pg_pingsTransfered :: int

text \<open>When the lookup fails, \<open>freeaddrinfo\<close> gets a pointer nothing was stored in.\<close>

definition ping_resolveHostname :: "(string \<Rightarrow> u32 option) \<Rightarrow> string \<Rightarrow> u32 option" where
  "ping_resolveHostname lookup hostname =
     (if map ascii_lower (cstr hostname) = ''none'' then Some (htonl (- 1))
      else if ci_prefix ''localhost'' (cstr hostname) then Some (htonl 0x7f000001)
      else lookup hostname)"

text \<open>Only negative codes are failures here; the codes are positive.\<close>

definition ping_new ::
    "(string \<Rightarrow> u32 option) \<Rightarrow> string \<Rightarrow> string list \<Rightarrow> ping \<Rightarrow> world \<Rightarrow> unit ret \<times> ping \<times> world" where
  "ping_new lookup myHostname argv pg w =
     (if length argv < 4 then (Ret (), pg, w)
      else case (ping_resolveHostname lookup (argv ! 1), ping_resolveHostname lookup myHostname) of
        (Some socksAddr, Some serverAddr) \<Rightarrow>
          (let socksPort = htons (of_int (atoi (argv ! 2)));
               pingInterval = atoi (argv ! 3);
               pingSize = (if 4 < length argv then atoi (argv ! 4) else 64)
           in case sys_socket w of
                (Inl e, w1) \<Rightarrow> (Ret (), pg\<lparr>pg_epolld := 0\<rparr>, snd (sys_close (-1) w1))
              | (Inr epolld, w1) \<Rightarrow>
                  (case pingServer_start zero_ping_server epolld serverAddr (htons PING_PORT) w1 of
                     (ret, ps, w2) \<Rightarrow>
                       (case pingClient_start zero_ping_client epolld socksAddr socksPort serverAddr
                               (htons PING_PORT) pingInterval pingSize w2 of
                          (ret2, pc, w3) \<Rightarrow>
                            (Ret (), pg\<lparr>pg_epolld := epolld, pg_server := Some ps, pg_client := Some pc,
                                        pg_pingsTransfered := 0\<rparr>, w3))))
      | _ \<Rightarrow> (UB, pg, w))"

text \<open>One event; the latencies of the pings that have arrived are what is logged.\<close>

definition pg_event :: "fd \<Rightarrow> ping \<Rightarrow> world \<Rightarrow> (unit ret \<times> u64 list \<times> ping \<times> world) option" where
  "pg_event sockd pg w =
     (case (pg_client pg, pg_server pg) of
        (Some pc, Some ps) \<Rightarrow>
          if sockd = pc_sockd pc
          then map_option (\<lambda>(r, pc1, w1).
                 (case r of
                    Ret ret \<Rightarrow>
                      if ret = PING_ERR_FATAL \<or> ret = PING_ERR_SOCKSCONN
                      then (case pingClient_restart (pc1, w1) of (pc2, w2) \<Rightarrow>
                              (Ret (), [], pg\<lparr>pg_client := Some (pc_callback Wakeup 60 pc2)\<rparr>, w2))
                      else (Ret (), [], pg\<lparr>pg_client := Some pc1\<rparr>, w1)
                  | AssertFail \<Rightarrow> (AssertFail, [], pg\<lparr>pg_client := Some pc1\<rparr>, w1)
                  | UB \<Rightarrow> (UB, [], pg\<lparr>pg_client := Some pc1\<rparr>, w1)))
                 (pingClient_activate (pc, w) sockd)
          else map_option (\<lambda>(r, ps1, w1).
                 (case r of
                    Ret _ \<Rightarrow>
                      (Ret (), map (\<lambda>i. pi_recvTime i - pi_sentTime i) (psv_pings ps1),
                       pg\<lparr>pg_pingsTransfered := pg_pingsTransfered pg + int (length (psv_pings ps1)),
                          pg_server := Some (ps1\<lparr>psv_pings := []\<rparr>)\<rparr>, w1)
                  | AssertFail \<Rightarrow> (AssertFail, [], pg\<lparr>pg_server := Some ps1\<rparr>, w1)
                  | UB \<Rightarrow> (UB, [], pg\<lparr>pg_server := Some ps1\<rparr>, w1)))
                 (pingServer_activate ps sockd w)
      | _ \<Rightarrow> Some (UB, [], pg, w))"

text \<open>\<open>ready\<close> is what \<open>epoll_wait\<close> reports, at most ten descriptors; \<open>None\<close> for \<open>-1\<close>.\<close>

fun pg_events :: "fd list \<Rightarrow> ping \<Rightarrow> world \<Rightarrow> (unit ret \<times> u64 list \<times> ping \<times> world) option" where
  "pg_events [] pg w = Some (Ret (), [], pg, w)"
| "pg_events (sd # sds) pg w =
     Option.bind (pg_event sd pg w) (\<lambda>(r, ls, pg1, w1).
       if r = Ret () then map_option (\<lambda>(r2, ls2, pg2, w2). (r2, ls @ ls2, pg2, w2)) (pg_events sds pg1 w1)
       else Some (r, ls, pg1, w1))"

definition ping_activate :: "fd list option \<Rightarrow> ping \<Rightarrow> world \<Rightarrow> (unit ret \<times> u64 list \<times> ping \<times> world) option" where
  "ping_activate ready pg w =
     (case ready of None \<Rightarrow> Some (Ret (), [], pg, w) | Some sds \<Rightarrow> pg_events sds pg w)"

text \<open>The pointers are not reset.\<close>

definition ping_free :: "ping \<Rightarrow> world \<Rightarrow> world" where
  "ping_free pg w =
     (let w1 = (case pg_client pg of None \<Rightarrow> w | Some pc \<Rightarrow> snd (pingClient_shutdown (pc, w)))
      in case pg_server pg of None \<Rightarrow> w1 | Some ps \<Rightarrow> snd (snd (pingServer_shutdown ps w1)))"

end
