(* ===== verification/Ping_Wire.thy ===== *)
theory Ping_Wire
  imports Ping
begin

text \<open>
  A ping on the wire: what the client prints, the server reads.
\<close>

section \<open>Numbers\<close>

lemma strtoull_plain:
  assumes "NUL \<notin> set s" "s = k # t" "\<not> isspace k" "k \<noteq> CHR ''-''" "k \<noteq> CHR ''+''" "strtol_digits base s < 2 ^ 64"
  shows "strtoull base s = of_nat (strtol_digits base s)"
  using assms by (auto simp: strtoull_def cstr_id Let_def simp del: strtol_digits.simps)

lemma strtoull_show_cookie: "ucast (strtoull 16 (show_cookie c)) = c"
proof -
  have digits: "\<forall>x\<in>set (show_cookie c). \<exists>e<16. x = hex_digit e"
    using set_hex_digits [of 8 "unat c"] by (auto simp: show_cookie_def)
  obtain d u where u: "show_cookie c = hex_digit d # u" "d < 16"
    using digits length_show_cookie [of c] by (cases "show_cookie c") auto
  obtain e v where v: "u = hex_digit e # v" "e < 16"
    using digits u length_show_cookie [of c] by (cases u) auto
  have "\<not> ci_prefix ''0x'' (show_cookie c)"
    using hex_digit_facts(5) [OF v(2)] u v by (auto simp: ascii_lower_def)
  moreover have "read_digits 16 0 (show_cookie c) = unat c"
    using read_digits_hex [of 0 8 "unat c" "[]"] unsigned_less [of c, where 'a = nat] by (simp add: show_cookie_def)
  ultimately have val: "strtol_digits 16 (show_cookie c) = unat c" by simp
  have nul: "NUL \<notin> set (show_cookie c)" using digits hex_digit_facts(4) by force
  have "unat c < 2 ^ 32" using unsigned_less [of c, where 'a = nat] by simp
  then have "strtoull 16 (show_cookie c) = of_nat (unat c)"
    using strtoull_plain [OF nul u(1) hex_digit_facts(1-3) [OF u(2)], of 16] val by simp
  moreover have "ucast (of_nat (unat c) :: 64 word) = c"
    by (rule bit_word_eqI) (simp add: bit_unsigned_iff)
  ultimately show ?thesis by (simp only:)
qed

lemma strtoull_show_nat:
  assumes "n < 2 ^ 64"
  shows "strtoull 10 (show_nat n) = of_nat n"
proof -
  obtain d u where u: "show_nat n = dec_digit d # u" and d: "d < 10"
    using show_nat_Cons by blast
  have nz: "NUL \<notin> set (show_nat n)" by (rule show_nat_avoids) simp
  have first: "\<not> isspace (dec_digit d)" "dec_digit d \<noteq> CHR ''-''" "dec_digit d \<noteq> CHR ''+''"
    using d dec_digit_neq [of d "CHR '' ''"] dec_digit_neq [of d "CHR ''-''"] dec_digit_neq [of d "CHR ''+''"]
    by (auto simp: isspace_def)
  have val: "strtol_digits 10 (show_nat n) = n"
    using read_digits_show_nat [of 0 n "[]"] by simp
  then show ?thesis using strtoull_plain [OF nz u first, of 10] assms by simp
qed

lemma length_show_nat_ge: "10 ^ k \<le> n \<Longrightarrow> k < length (show_nat n)"
proof (induction k arbitrary: n)
  case 0
  then show ?case using show_nat_nonempty [of n] by simp
next
  case (Suc k)
  have "\<not> n < 10" using Suc.prems by (metis le_trans one_le_numeral power_Suc power_increasing_iff leD le_add1 mult.right_neutral mult_le_mono2 one_le_power)
  moreover have "10 ^ k \<le> n div 10" using Suc.prems by (simp add: less_eq_div_iff_mult_less_eq mult.commute)
  ultimately show ?case using Suc.IH [of "n div 10"] by (simp add: show_nat.simps [of n])
qed

section \<open>One ping\<close>

definition cookie_text :: "u32 \<Rightarrow> string" where "cookie_text c = ''TOR-COOKIE: '' @ show_cookie c"
definition time_text :: "nat \<Rightarrow> string" where "time_text n = ''TIME: '' @ show_nat n"

lemma ping_text_lines:
  "ping_text c now = cookie_text c @ crlf @ time_text (nat (TIME_TO_NS now mod 2 ^ 64)) @ crlf @ crlf"
  by (simp add: ping_text_def cookie_text_def time_text_def)

lemma ping_line_cookie: "ping_line (cookie_text c) (c0, t0) = (c, t0)"
proof -
  have "cookie_text c = ''TOR-COOKIE'' @ ('':'' @ '' '') @ show_cookie c" by (simp add: cookie_text_def)
  moreover have "split_tokens '': '' 1 (show_cookie c) = [show_cookie c]" by (subst split_tokens.simps) simp
  ultimately have "split_tokens '': '' 2 (cookie_text c) = [''TOR-COOKIE'', show_cookie c]"
    using split_first [of "CHR '':''" "''TOR-COOKIE''" 2 "'' ''" "show_cookie c"] by simp
  moreover have "NUL \<notin> set (cookie_text c)"
    using set_hex_digits [of 8 "unat c"] hex_digit_facts(4) by (force simp: cookie_text_def show_cookie_def)
  then have "cstr (cookie_text c) = cookie_text c" by (rule cstr_id)
  moreover have "cookie_text c \<noteq> []" by (simp add: cookie_text_def)
  ultimately show ?thesis by (simp add: ping_line_def g_strsplit_def strtoull_show_cookie)
qed

lemma ping_line_time: "n < 2 ^ 64 \<Longrightarrow> ping_line (time_text n) (c0, t0) = (c0, of_nat n)"
proof -
  assume n: "n < 2 ^ 64"
  have "time_text n = ''TIME'' @ ('':'' @ '' '') @ show_nat n" by (simp add: time_text_def)
  moreover have "split_tokens '': '' 1 (show_nat n) = [show_nat n]" by (subst split_tokens.simps) simp
  ultimately have "split_tokens '': '' 2 (time_text n) = [''TIME'', show_nat n]"
    using split_first [of "CHR '':''" "''TIME''" 2 "'' ''" "show_nat n"] by simp
  moreover have "NUL \<notin> set (time_text n)" using show_nat_avoids [of NUL n] by (simp add: time_text_def)
  then have "cstr (time_text n) = time_text n" by (rule cstr_id)
  moreover have "time_text n \<noteq> []" by (simp add: time_text_def)
  ultimately show ?thesis using n by (simp add: ping_line_def g_strsplit_def strtoull_show_nat)
qed

lemma text_avoids:
  "CR \<notin> set (cookie_text c)" "LF \<notin> set (cookie_text c)" "NUL \<notin> set (cookie_text c)"
  "CR \<notin> set (time_text n)" "LF \<notin> set (time_text n)" "NUL \<notin> set (time_text n)"
proof -
  have "k \<notin> set (show_cookie c)" if "(of_char k :: nat) < 48" for k
  proof
    assume "k \<in> set (show_cookie c)"
    then obtain d where "d < 16" "k = hex_digit d" using set_hex_digits [of 8 "unat c"] by (auto simp: show_cookie_def)
    with that hex_digit_char [of d] show False by (auto split: if_splits)
  qed
  from this [of CR] this [of LF] this [of NUL]
  show "CR \<notin> set (cookie_text c)" "LF \<notin> set (cookie_text c)" "NUL \<notin> set (cookie_text c)"
    by (auto simp: cookie_text_def)
  show "CR \<notin> set (time_text n)" "LF \<notin> set (time_text n)" "NUL \<notin> set (time_text n)"
    using show_nat_avoids [of CR n] show_nat_avoids [of LF n] show_nat_avoids [of NUL n] by (auto simp: time_text_def)
qed

text \<open>A complete ping, followed by the beginning of its repetition, without a line end.\<close>

lemma ping_infos_one:
  assumes c: "c \<noteq> 0" and n: "n < 2 ^ 64" "n \<noteq> 0" and tail: "tail \<noteq> []" "LF \<notin> set tail" "NUL \<notin> set tail"
  shows "ping_infos t (cookie_text c @ crlf @ time_text n @ crlf @ crlf @ tail)
    = [\<lparr>pi_sentTime = of_nat n, pi_recvTime = t, pi_cookie = c\<rparr>]"
proof -
  let ?buf = "cookie_text c @ crlf @ time_text n @ crlf @ crlf @ tail"
  have "cstr ?buf = ?buf" using text_avoids tail by (intro cstr_id) auto
  moreover have "?buf \<noteq> []" by simp
  moreover have "split_tokens crlf 0 ?buf = [cookie_text c, time_text n, [], tail]"
  proof -
    have "split_tokens crlf 0 (crlf @ tail) = [] # split_tokens crlf 0 tail"
      using split_first [of CR "[]" 0 "[LF]" tail] by simp
    moreover have "split_tokens crlf 0 tail = [tail]"
      using tail(2) by (intro split_last find_cs_absent [of LF]) auto
    moreover have "split_tokens crlf 0 (time_text n @ crlf @ crlf @ tail) = time_text n # split_tokens crlf 0 (crlf @ tail)"
      using split_first [of CR "time_text n" 0 "[LF]" "crlf @ tail"] text_avoids by simp
    moreover have "split_tokens crlf 0 ?buf = cookie_text c # split_tokens crlf 0 (time_text n @ crlf @ crlf @ tail)"
      using split_first [of CR "cookie_text c" 0 "[LF]" "time_text n @ crlf @ crlf @ tail"] text_avoids by simp
    ultimately show ?thesis by simp
  qed
  moreover have "(of_nat n :: u64) \<noteq> 0" using n by (simp add: word_of_nat_eq_0_iff dvd_eq_mod_eq_0)
  moreover have "cookie_text c \<noteq> []" "time_text n \<noteq> []" by (simp_all add: cookie_text_def time_text_def)
  ultimately show ?thesis
    using c n tail by (simp add: ping_infos_def g_strsplit_def ping_line_cookie ping_line_time split_beta)
qed

text \<open>
  The default size cuts the second copy of the text after its cookie, before the end of that
  line, when the time has between 11 and 20 digits.
\<close>

lemma default_ping_text:
  assumes "10 ^ 10 \<le> TIME_TO_NS now" "TIME_TO_NS now < 2 ^ 64"
  shows "\<exists>tail. take 64 (ping_fill 64 (ping_text c now) []) =
       cookie_text c @ crlf @ time_text (nat (TIME_TO_NS now)) @ crlf @ crlf @ tail
     \<and> tail \<noteq> [] \<and> LF \<notin> set tail \<and> NUL \<notin> set tail"
proof -
  define n where "n = nat (TIME_TO_NS now)"
  define m where "m = cookie_text c @ crlf @ time_text n @ crlf @ crlf"
  have nn: "TIME_TO_NS now mod 2 ^ 64 = TIME_TO_NS now" using assms by (intro mod_pos_pos_trivial) auto
  have m: "ping_text c now = m" by (simp only: ping_text_lines nn m_def n_def)
  have "(10::nat) ^ 10 \<le> n" "n < 10 ^ Suc 19" using assms by (simp_all add: n_def)
  then have d: "10 < length (show_nat n)" "length (show_nat n) \<le> 20"
    using length_show_nat_ge [of 10 n] length_show_nat_less [of n 19] by simp_all
  then have len: "length m = 32 + length (show_nat n)" by (simp add: m_def cookie_text_def time_text_def)
  then have "m \<noteq> []" by auto
  then have fill: "ping_fill 64 m [] = m @ m"
    using len d by (simp add: ping_fill.simps [of 64 m "[]"] ping_fill.simps [of 64 m m] ping_fill.simps [of 64 m "m @ m"])
  let ?r = "32 - length (show_nat n)"
  have "length (cookie_text c @ [CR]) = 21" by (simp add: cookie_text_def)
  then have "take ?r m = take ?r (cookie_text c @ [CR])"
    using d by (cases "12 - length (show_nat n)") (auto simp: m_def)
  then have "set (take ?r m) \<subseteq> set (cookie_text c @ [CR])" by (metis set_take_subset)
  then have "LF \<notin> set (take ?r m)" "NUL \<notin> set (take ?r m)" using text_avoids by auto
  moreover have "take ?r m \<noteq> []" using d len by auto
  moreover have "take 64 (m @ m) = m @ take ?r m" using d len by simp
  ultimately show ?thesis unfolding m fill by (intro exI [of _ "take ?r m"]) (simp add: m_def n_def)
qed

text \<open>
  C18: a ping of the default size that reaches the server in one piece is recorded once, with
  the client's cookie, the time the client read and the time the server reads, when the
  cookie is not zero and the time has more than ten digits.
\<close>

theorem ping_recorded:
  assumes "pingClient_sendPing (pc, w) = (Ret (), pc', w')" "pc_pingSize pc = 64" "pc_cookie pc \<noteq> 0"
    and "w_clock w = [sent]" "10 ^ 10 \<le> TIME_TO_NS sent" "TIME_TO_NS sent < 2 ^ 64"
    and "w_send w = SOk k # ss" "64 \<le> k" "all_sent (w_log w') = all_sent (w_log w) @ bs"
    and "w_recv v = RData bs # q" "w_clock v = [arrived]" "sd \<noteq> psv_sockd ps"
  shows "\<exists>v'. pingServer_activate ps sd v = Some (Ret PING_SUCCESS,
     ps\<lparr>psv_pings := psv_pings ps @ [\<lparr>pi_sentTime = of_int (TIME_TO_NS sent), pi_recvTime = of_int (TIME_TO_NS arrived),
                                      pi_cookie = pc_cookie pc\<rparr>]\<rparr>, v')"
proof -
  let ?text = "take 64 (ping_fill 64 (ping_text (pc_cookie pc) sent) [])"
  define n where "n = nat (TIME_TO_NS sent)"
  have n: "n < 2 ^ 64" "n \<noteq> 0" "(of_nat n :: u64) = of_int (TIME_TO_NS sent)"
    using assms(5,6) by (simp_all add: n_def)
  obtain tail where tail: "?text = cookie_text (pc_cookie pc) @ crlf @ time_text n @ crlf @ crlf @ tail"
    "tail \<noteq> []" "LF \<notin> set tail" "NUL \<notin> set tail"
    using default_ping_text [OF assms(5,6)] by (auto simp: n_def)
  have len: "length ?text \<le> 64" "?text \<noteq> []"
    by (simp, unfold tail(1), simp)
  have snd_eq: "sys_send (pc_sockd pc) ?text w = (Inr (length ?text), emit (Sent (pc_sockd pc) ?text) (w\<lparr>w_send := ss\<rparr>))"
    using assms(7,8) len by (intro sys_send_all) auto
  have ck: "clock_gettime w = (sent, w)" using assms(4) by (simp add: clock_gettime_def)
  have bs: "bs = ?text"
    using assms(1,2,9) ck snd_eq
    by (auto simp: pingClient_sendPing_def Let_def split: option.splits)
  have "sys_recv PING_SERVER_BUF_SIZE v = (Inr bs, v\<lparr>w_recv := q\<rparr>)"
    using assms(10) len bs by (simp add: sys_recv_def PING_SERVER_BUF_SIZE_def)
  moreover have "bs \<noteq> []" "length bs < PING_SERVER_BUF_SIZE" using bs len by (simp_all add: PING_SERVER_BUF_SIZE_def)
  moreover have "clock_gettime (v\<lparr>w_recv := q\<rparr>) = (arrived, v\<lparr>w_recv := q\<rparr>)" using assms(11) by (simp add: clock_gettime_def)
  moreover have "ping_infos t bs = [\<lparr>pi_sentTime = of_nat n, pi_recvTime = t, pi_cookie = pc_cookie pc\<rparr>]" for t
    unfolding bs tail(1) using ping_infos_one [OF assms(3) n(1,2) tail(2-4)] .
  ultimately show ?thesis
    using assms(12) n(3) by (simp add: pingServer_activate_def pingServer_read_def)
qed

definition demo_pinger :: ping_client where
  "demo_pinger = zero_ping_client\<lparr>pc_sockd := 5, pc_pingTimes := Some [], pc_pingSize := 64, pc_cookie := 7,
     pc_state := PING_CLIENT_IDLE\<rparr>"

theorem ping_recorded_witness:
  "\<exists>bs pc' w' v'. pingClient_sendPing (demo_pinger, quiet_world\<lparr>w_clock := [\<lparr>tv_sec = 1000, tv_nsec = 5\<rparr>], w_send := [SOk 100]\<rparr>) = (Ret (), pc', w')
     \<and> all_sent (w_log w') = bs
     \<and> pingServer_activate zero_ping_server 9 (quiet_world\<lparr>w_recv := [RData bs], w_clock := [\<lparr>tv_sec = 1000, tv_nsec = 9\<rparr>]\<rparr>) =
         Some (Ret PING_SUCCESS, zero_ping_server\<lparr>psv_pings := [\<lparr>pi_sentTime = 1000000000005, pi_recvTime = 1000000000009, pi_cookie = 7\<rparr>]\<rparr>, v')"
proof -
  let ?w = "quiet_world\<lparr>w_clock := [\<lparr>tv_sec = 1000, tv_nsec = 5\<rparr>], w_send := [SOk 100]\<rparr>"
  define bs where "bs = take 64 (ping_fill 64 (ping_text 7 \<lparr>tv_sec = 1000, tv_nsec = 5\<rparr>) [])"
  let ?v = "quiet_world\<lparr>w_recv := [RData bs], w_clock := [\<lparr>tv_sec = 1000, tv_nsec = 9\<rparr>]\<rparr>"
  have time: "10 ^ 10 \<le> TIME_TO_NS \<lparr>tv_sec = 1000, tv_nsec = 5\<rparr>" "TIME_TO_NS \<lparr>tv_sec = 1000, tv_nsec = 5\<rparr> < 2 ^ 64"
    by (simp_all add: TIME_TO_NS_def)
  have "bs \<noteq> []" using default_ping_text [OF time, of 7] unfolding bs_def by (elim exE conjE) (simp only: append_is_Nil_conv, blast)
  moreover have "length bs \<le> 100" unfolding bs_def by simp
  ultimately have snd_eq: "sys_send 5 bs ?w = (Inr (length bs), emit (Sent 5 bs) (?w\<lparr>w_send := []\<rparr>))"
    by (intro sys_send_all [where k = 100]) auto
  then obtain pc' w' where run: "pingClient_sendPing (demo_pinger, ?w) = (Ret (), pc', w')" and sent: "all_sent (w_log w') = bs"
    by (simp add: pingClient_sendPing_def demo_pinger_def zero_ping_client_def clock_gettime_def quiet_world_def flip: bs_def)
  have "pc_pingSize demo_pinger = 64" "pc_cookie demo_pinger \<noteq> 0" by (simp_all add: demo_pinger_def)
  moreover have "w_clock ?w = [\<lparr>tv_sec = 1000, tv_nsec = 5\<rparr>]" "w_send ?w = SOk 100 # []" by simp_all
  moreover have "all_sent (w_log w') = all_sent (w_log ?w) @ bs" using sent by (simp add: quiet_world_def)
  moreover have "w_recv ?v = RData bs # []" "w_clock ?v = [\<lparr>tv_sec = 1000, tv_nsec = 9\<rparr>]" by simp_all
  moreover have "9 \<noteq> psv_sockd zero_ping_server" by (simp add: zero_ping_server_def)
  ultimately obtain v' where "pingServer_activate zero_ping_server 9 ?v = Some (Ret PING_SUCCESS,
     zero_ping_server\<lparr>psv_pings := psv_pings zero_ping_server @ [\<lparr>pi_sentTime = of_int (TIME_TO_NS \<lparr>tv_sec = 1000, tv_nsec = 5\<rparr>),
       pi_recvTime = of_int (TIME_TO_NS \<lparr>tv_sec = 1000, tv_nsec = 9\<rparr>), pi_cookie = pc_cookie demo_pinger\<rparr>]\<rparr>, v')"
    using ping_recorded [OF run _ _ _ time, where k = 100] by force
  with run sent show ?thesis by (auto simp: TIME_TO_NS_def demo_pinger_def zero_ping_server_def)
qed

end
