(* ===== verification/Ping_Properties.thy ===== *)
theory Ping_Properties
  imports Ping_Wire
begin

text \<open>
  What the ping client and server promise: the client's handler returns and stays inside its
  buffer; the first ping falls on a full second; what a restart leaves in the buffer; what a
  read that fills the server's buffer does.
\<close>

section \<open>The client's handler\<close>

definition pc_ok :: "ping_client \<Rightarrow> bool" where
  "pc_ok pc \<longleftrightarrow>
     pc_buf_read_offset pc \<le> length (pc_buf pc) \<and> length (pc_buf pc) \<le> PING_CLIENT_BUF_SIZE
     \<and> (pc_state pc = PING_CLIENT_SEND \<longrightarrow>
          pc_nextstate pc \<in> {PING_CLIENT_SOCKS_TOREPLY_INIT, PING_CLIENT_SOCKS_TOREPLY_CONN})
     \<and> (pc_state pc = PING_CLIENT_RECEIVE \<longrightarrow>
          pc_nextstate pc \<in> {PING_CLIENT_SOCKS_REPLY_INIT, PING_CLIENT_SOCKS_REPLY_CONN})"

fun pc_rank :: "pc_state \<Rightarrow> nat" where
  "pc_rank PING_CLIENT_SOCKS_REPLY_INIT = 2" | "pc_rank PING_CLIENT_SOCKS_REPLY_CONN = 2"
| "pc_rank PING_CLIENT_SOCKS_REQUEST_INIT = 1" | "pc_rank PING_CLIENT_SOCKS_REQUEST_CONN = 1"
| "pc_rank PING_CLIENT_SOCKS_TOREPLY_INIT = 1" | "pc_rank PING_CLIENT_SOCKS_TOREPLY_CONN = 1"
| "pc_rank PING_CLIENT_SEND = 0" | "pc_rank PING_CLIENT_RECEIVE = 0"
| "pc_rank PING_CLIENT_PING = 0" | "pc_rank PING_CLIENT_IDLE = 0"

definition pc_mu :: "pc_ctx \<Rightarrow> nat" where
  "pc_mu x = 3 * io_work (snd x) + pc_rank (pc_state (fst x))"

definition pc_post :: "ping_code ret \<Rightarrow> pc_ctx \<Rightarrow> bool" where
  "pc_post r x \<longleftrightarrow> pc_ok (fst x) \<and> r \<noteq> UB
     \<and> (r = AssertFail \<longrightarrow> PING_CLIENT_BUF_SIZE < length (pc_buf (fst x)) + 10)"

definition pc_pass :: "pc_ctx \<Rightarrow> pc_result \<Rightarrow> bool" where
  "pc_pass x res = (case res of Again x' \<Rightarrow> pc_ok (fst x') \<and> pc_mu x' < pc_mu x | Exit r x' \<Rightarrow> pc_post r x')"

lemmas pc_defs = pc_pass_def pc_post_def pc_ok_def pc_mu_def pc_goto_def pc_io_def pc_append_def pc_skip_def
  pingClient_changeEpoll_def

lemma pc_request_pass:
  assumes "pc_ok pc" "length bs \<le> 10" "pc_rank (pc_state pc) = 1"
    and "next \<in> {PING_CLIENT_SOCKS_TOREPLY_INIT, PING_CLIENT_SOCKS_TOREPLY_CONN}"
  shows "pc_pass (pc, w) (pc_request bs next sd (pc, w))"
  using assms by (auto simp: pc_request_def pc_defs)

lemma pc_send_pass:
  assumes "pc_ok pc" "pc_state pc = PING_CLIENT_SEND"
  shows "pc_pass (pc, w) (pc_send sd (pc, w))"
proof -
  obtain a w1 where s: "sys_send sd (pc_unread pc) w = (a, w1)" by fastforce
  show ?thesis
  proof (cases a)
    case (Inl e)
    with s assms show ?thesis by (auto simp: pc_send_def pc_io_failed_def pc_defs)
  next
    case (Inr k)
    note k = sys_send_Inr(1,2) [OF s [unfolded Inr]]
    have "length (pc_unread pc) + pc_buf_read_offset pc = length (pc_buf pc)"
      using assms(1) by (simp add: pc_unread_def pc_ok_def)
    with k s Inr assms show ?thesis by (auto simp: pc_send_def pc_defs Let_def)
  qed
qed

lemma pc_receive_pass:
  assumes "pc_ok pc" "pc_state pc = PING_CLIENT_RECEIVE"
  shows "pc_pass (pc, w) (pc_receive (pc, w))"
proof -
  obtain a w1 where s: "sys_recv (PING_CLIENT_BUF_SIZE - length (pc_buf pc)) w = (a, w1)" by fastforce
  show ?thesis
  proof (cases a)
    case (Inl e)
    with s assms show ?thesis by (auto simp: pc_receive_def pc_io_failed_def pc_defs)
  next
    case (Inr bs)
    note r = sys_recv_Inr(1,2) [OF s [unfolded Inr]]
    with s Inr assms show ?thesis by (auto simp: pc_receive_def pc_defs)
  qed
qed

lemma pc_step_pass:
  assumes "pc_ok (fst x)"
  shows "pc_pass x (pc_step sd x)"
proof -
  obtain pc w where x: "x = (pc, w)" by fastforce
  have ok: "pc_ok pc" using assms x by simp
  show ?thesis
  proof (cases "pc_state pc")
    case PING_CLIENT_SOCKS_REQUEST_INIT
    with ok show ?thesis by (auto simp: x pc_step_def PING_CLIENT_SOCKS_INIT_def intro!: pc_request_pass)
  next
    case PING_CLIENT_SOCKS_REQUEST_CONN
    with ok show ?thesis
      by (auto simp: x pc_step_def pc_socks_target_def PING_CLIENT_SOCKS_REQ_HEAD_def intro!: pc_request_pass)
  next
    case PING_CLIENT_SEND
    with ok show ?thesis by (simp add: x pc_step_def pc_send_pass)
  next
    case PING_CLIENT_RECEIVE
    with ok show ?thesis by (simp add: x pc_step_def pc_receive_pass)
  next
    case PING_CLIENT_PING
    with ok show ?thesis by (simp add: x pc_step_def pc_ping_def pc_callback_def pc_defs Let_def split_def)
  qed (use ok in \<open>auto simp: x pc_step_def pc_toreply_def pc_socks_reply_init_def pc_socks_reply_conn_def pc_unread_def pc_defs Let_def\<close>)
qed

interpretation pc_loop: handler_loop "pc_step sd" "\<lambda>x. pc_ok (fst x)" pc_mu pc_post for sd
proof (unfold_locales, goal_cases)
  case (1 x x')
  with pc_step_pass [of x sd] show ?case by (simp add: pc_pass_def)
next
  case (2 x x')
  with pc_step_pass [of x sd] show ?case by (simp add: pc_pass_def)
next
  case (3 x r x')
  with pc_step_pass [of x sd] show ?case by (simp add: pc_pass_def)
qed

text \<open>
  C19: the ping client's handler returns for every behaviour of proxy, server and kernel, keeps
  its buffer well formed and never leaves it; its assertions fail only when fewer than ten
  bytes of the buffer are left.
\<close>

theorem ping_client_returns:
  assumes "pc_ok pc"
  shows "\<exists>r pc' w'. pingClient_activate (pc, w) sd = Some (r, pc', w') \<and> pc_ok pc' \<and> r \<noteq> UB
     \<and> (r = AssertFail \<longrightarrow> PING_CLIENT_BUF_SIZE < length (pc_buf pc') + 10)"
  using pc_loop.returns_with_post [of "(pc, w)" sd] assms
  by (auto simp: pingClient_activate_def pc_post_def)

theorem ping_client_returns_witness:
  "\<exists>r pc' w'. pingClient_activate (zero_ping_client, quiet_world\<lparr>w_send := [SOk 2]\<rparr>) 5 = Some (r, pc', w') \<and> r \<noteq> UB"
proof -
  have "pc_ok zero_ping_client" by (simp add: pc_ok_def zero_ping_client_def)
  from ping_client_returns [OF this] show ?thesis by blast
qed

section \<open>The first ping\<close>

text \<open>
  A connected client asks to be called back once, after at most a second, so that the
  first ping is sent within the last millisecond before the next full second.
\<close>

theorem first_ping_on_the_second:
  assumes "pc_state pc = PING_CLIENT_PING" "w_clock w = [now]" "0 \<le> tv_nsec now" "tv_nsec now < 1000000000"
  shows "\<exists>pc' w' ms. pingClient_activate (pc, w) sd = Some (Ret PING_SUCCESS, pc', w')
     \<and> pc_state pc' = PING_CLIENT_IDLE \<and> pc_callbacks pc' = pc_callbacks pc @ [(SendPing, ms)] \<and> uint ms \<le> 1000
     \<and> 1000000000 - 1000000 < tv_nsec now + uint ms * 1000000 \<and> tv_nsec now + uint ms * 1000000 \<le> 1000000000"
proof -
  define d where "d = (1000000000 - tv_nsec now) div 1000000"
  have d: "0 \<le> d" "d \<le> 1000" "d * 1000000 \<le> 1000000000 - tv_nsec now" "1000000000 - tv_nsec now < d * 1000000 + 1000000"
    using assms(3,4) unfolding d_def by linarith+
  have u: "uint (time_to_ping now) = d"
    using d(1,2) by (simp add: time_to_ping_def d_def [symmetric] unsigned_of_int take_bit_int_eq_self)
  have "clock_gettime (pingClient_changeEpoll sd [EPOLLIN] w) = (now, pingClient_changeEpoll sd [EPOLLIN] w)"
    using assms(2) by (simp add: clock_gettime_def pingClient_changeEpoll_def epoll_ctl_def emit_def Let_def split: list.splits)
  then have "pingClient_activate (pc, w) sd = Some (Ret PING_SUCCESS, pc_callback SendPing (time_to_ping now) (pc_goto PING_CLIENT_IDLE pc),
      pingClient_changeEpoll sd [EPOLLIN] w)"
    using assms(1) by (simp add: pingClient_activate_def drive_exit pc_step_def pc_ping_def)
  with d u show ?thesis by (auto simp: pc_callback_def pc_goto_def)
qed

theorem first_ping_on_the_second_witness:
  "\<exists>pc' w' ms. pingClient_activate (zero_ping_client\<lparr>pc_state := PING_CLIENT_PING\<rparr>,
       quiet_world\<lparr>w_clock := [\<lparr>tv_sec = 7, tv_nsec = 250000001\<rparr>]\<rparr>) 5 = Some (Ret PING_SUCCESS, pc', w')
     \<and> pc_callbacks pc' = [(SendPing, ms)] \<and> uint ms = 749"
proof -
  let ?pc = "zero_ping_client\<lparr>pc_state := PING_CLIENT_PING\<rparr>"
  obtain pc' w' ms where "pingClient_activate (?pc, quiet_world\<lparr>w_clock := [\<lparr>tv_sec = 7, tv_nsec = 250000001\<rparr>]\<rparr>) 5 = Some (Ret PING_SUCCESS, pc', w')"
    and "pc_callbacks pc' = pc_callbacks ?pc @ [(SendPing, ms)]"
    and "1000000000 - 1000000 < 250000001 + uint ms * 1000000" "250000001 + uint ms * 1000000 \<le> 1000000000"
    using first_ping_on_the_second [of ?pc "quiet_world\<lparr>w_clock := [\<lparr>tv_sec = 7, tv_nsec = 250000001\<rparr>]\<rparr>" "\<lparr>tv_sec = 7, tv_nsec = 250000001\<rparr>" 5]
    by auto
  moreover from this(3,4) have "uint ms = 749" by linarith
  ultimately show ?thesis by (auto simp: zero_ping_client_def)
qed

section \<open>A restart\<close>

text \<open>One request that is sent whole, and then no answer.\<close>

lemma greeting_sent:
  assumes "pc_state pc = PING_CLIENT_SOCKS_REQUEST_INIT" "pc_buf_read_offset pc = 0" "length (pc_buf pc) \<le> 3"
    and "w_send w = [SOk k]" "6 \<le> k" "w_recv w = []"
  shows "\<exists>pc' w'. pingClient_activate (pc, w) sd = Some (Ret PING_ERR_WOULDBLOCK, pc', w')
     \<and> all_sent (w_log w') = all_sent (w_log w) @ pc_buf pc @ PING_CLIENT_SOCKS_INIT"
proof -
  let ?bs = "pc_buf pc @ PING_CLIENT_SOCKS_INIT"
  have len: "length ?bs \<le> k" "?bs \<noteq> []" "length (pc_buf pc) + 3 \<le> PING_CLIENT_BUF_SIZE"
    using assms(3,5) by (simp_all add: PING_CLIENT_SOCKS_INIT_def PING_CLIENT_BUF_SIZE_def)
  define pc1 where "pc1 = pc_io PING_CLIENT_SEND PING_CLIENT_SOCKS_TOREPLY_INIT (pc_append PING_CLIENT_SOCKS_INIT pc)"
  define w1 where "w1 = pingClient_changeEpoll sd [EPOLLOUT] w"
  have s1: "pc_step sd (pc, w) = Again (pc1, w1)"
    using assms(1) len(3) by (simp add: pc_step_def pc_request_def pc1_def w1_def PING_CLIENT_SOCKS_INIT_def)
  define w2 where "w2 = emit (Sent sd ?bs) (w1\<lparr>w_send := []\<rparr>)"
  define pc2 where "pc2 = pc_goto PING_CLIENT_SOCKS_TOREPLY_INIT ((pc_skip (length ?bs) pc1)\<lparr>pc_buf_read_offset := 0, pc_buf := []\<rparr>)"
  have w1: "w_send w1 = [SOk k]" "w_recv w1 = []" "all_sent (w_log w1) = all_sent (w_log w)"
    using assms(4,6) by (simp_all add: w1_def pingClient_changeEpoll_def)
  have pc1: "pc_unread pc1 = ?bs" "pc_buf pc1 = ?bs" "pc_buf_read_offset pc1 = 0" "pc_state pc1 = PING_CLIENT_SEND"
    "pc_nextstate pc1 = PING_CLIENT_SOCKS_TOREPLY_INIT"
    using assms(2) by (simp_all add: pc1_def pc_unread_def pc_io_def pc_append_def)
  have "sys_send sd ?bs w1 = (Inr (length ?bs), w2)"
    unfolding w2_def using w1(1) len by (intro sys_send_all) auto
  then have s2: "pc_step sd (pc1, w1) = Again (pc2, w2)"
    using pc1 len(2) by (simp add: pc_step_def pc_send_def pc2_def pc_skip_def Let_def)
  define w3 where "w3 = pingClient_changeEpoll sd [EPOLLIN] w2"
  define pc3 where "pc3 = pc_io PING_CLIENT_RECEIVE PING_CLIENT_SOCKS_REPLY_INIT pc2"
  have s3: "pc_step sd (pc2, w2) = Again (pc3, w3)"
    by (simp add: pc_step_def pc_toreply_def pc3_def w3_def pc2_def pc_goto_def)
  have "w_recv w3 = []" using w1(2) by (simp add: w3_def w2_def pingClient_changeEpoll_def)
  then have s4: "pc_step sd (pc3, w3) = Exit (Ret PING_ERR_WOULDBLOCK) (pc3, w3)"
    by (simp add: pc_step_def pc_receive_def sys_recv_def pc_io_failed_def pc3_def pc_io_def)
  have "all_sent (w_log w3) = all_sent (w_log w) @ ?bs"
    using w1(3) by (simp add: w3_def w2_def pingClient_changeEpoll_def)
  with s1 s2 s3 s4 show ?thesis by (simp add: pingClient_activate_def drive_again drive_exit)
qed

text \<open>
  A client whose greeting could not be sent is restarted with the greeting still in its
  buffer: the new proxy gets the greeting twice.
\<close>

theorem restart_repeats_greeting:
  assumes "pc_state pc = PING_CLIENT_SOCKS_REQUEST_INIT" "pc_buf pc = []" "pc_buf_read_offset pc = 0"
    and "pc_socksAddr pc \<noteq> htonl (- 1)" "w_recv w = []" "w_socket w = [Inr sd']" "0 \<le> sd'"
    and "w_connect w = []" "w_ctl w = []" "w_send w = [SErr EOTHER, SOk k]" "6 \<le> k"
  shows "\<exists>pc1 w1 pc2 w2. pingClient_activate (pc, w) sd = Some (Ret PING_ERR_FATAL, pc1, w1)
     \<and> pc_sockd (fst (pingClient_restart (pc1, w1))) = sd'
     \<and> pingClient_activate (pingClient_restart (pc1, w1)) sd' = Some (Ret PING_ERR_WOULDBLOCK, pc2, w2)
     \<and> all_sent (w_log w2) = all_sent (w_log w) @ PING_CLIENT_SOCKS_INIT @ PING_CLIENT_SOCKS_INIT"
proof -
  define pc1 where "pc1 = pc_io PING_CLIENT_SEND PING_CLIENT_SOCKS_TOREPLY_INIT (pc_append PING_CLIENT_SOCKS_INIT pc)"
  define w1 where "w1 = (pingClient_changeEpoll sd [EPOLLOUT] w)\<lparr>w_send := [SOk k]\<rparr>"
  have init: "length PING_CLIENT_SOCKS_INIT = 3" by (simp add: PING_CLIENT_SOCKS_INIT_def)
  have "pc_step sd (pc, w) = Again (pc1, pingClient_changeEpoll sd [EPOLLOUT] w)"
    using assms(1,2) init by (simp add: pc_step_def pc_request_def pc1_def PING_CLIENT_BUF_SIZE_def)
  moreover have "pc_step sd (pc1, pingClient_changeEpoll sd [EPOLLOUT] w) = Exit (Ret PING_ERR_FATAL) (pc1, w1)"
    using assms(3,10)
    by (simp add: pc_step_def pc_send_def sys_send_def pc_io_failed_def ping_send_allowed_def pc1_def pc_io_def pc_append_def
        w1_def pingClient_changeEpoll_def)
  ultimately have act: "pingClient_activate (pc, w) sd = Some (Ret PING_ERR_FATAL, pc1, w1)"
    by (simp add: pingClient_activate_def drive_again drive_exit)
  obtain pc2 w2 where re: "pingClient_restart (pc1, w1) = (pc2, w2)" by fastforce
  have "w_ctl w1 = []" "w_connect w1 = []" "w_socket w1 = [Inr sd']" "w_recv w1 = []" "w_send w1 = [SOk k]"
    "all_sent (w_log w1) = all_sent (w_log w)"
    using assms(5,6,8,9) by (simp_all add: w1_def pingClient_changeEpoll_def epoll_ctl_def emit_def)
  then have pc2: "pc_sockd pc2 = sd'" "pc_state pc2 = PING_CLIENT_SOCKS_REQUEST_INIT" "pc_buf pc2 = PING_CLIENT_SOCKS_INIT"
    "pc_buf_read_offset pc2 = 0" "w_recv w2 = []" "w_send w2 = [SOk k]" "all_sent (w_log w2) = all_sent (w_log w)"
    using re assms(2-4,7)
    by (auto simp: pingClient_restart_def pingClient_shutdown_def pingClient_start_def pingClient_connect_def pc1_def pc_io_def
        pc_append_def sys_socket_def sys_connect_def sys_close_def epoll_ctl_def emit_def pingClient_changeEpoll_def
        sys_rand_def Let_def split: list.splits prod.splits if_splits)
  with greeting_sent [OF pc2(2,4) _ pc2(6) assms(11) pc2(5), of sd'] init act re show ?thesis by auto
qed

text \<open>A client that was just started through a proxy.\<close>

theorem restart_repeats_greeting_witness:
  "\<exists>pc1 w1 pc2 w2. pingClient_activate (zero_ping_client, quiet_world\<lparr>w_socket := [Inr 6], w_send := [SErr EOTHER, SOk 9]\<rparr>) 5
       = Some (Ret PING_ERR_FATAL, pc1, w1)
     \<and> pingClient_activate (pingClient_restart (pc1, w1)) 6 = Some (Ret PING_ERR_WOULDBLOCK, pc2, w2)
     \<and> all_sent (w_log w2) = PING_CLIENT_SOCKS_INIT @ PING_CLIENT_SOCKS_INIT"
proof -
  let ?w = "quiet_world\<lparr>w_socket := [Inr 6], w_send := [SErr EOTHER, SOk 9]\<rparr>"
  have "pc_socksAddr zero_ping_client \<noteq> htonl (- 1)" by (simp add: zero_ping_client_def htonl_def unsigned_minus_1_eq_mask mask_eq_exp_minus_1 Let_def)
  with restart_repeats_greeting [of zero_ping_client ?w 6 9 5] show ?thesis
    by (force simp: zero_ping_client_def quiet_world_def)
qed

section \<open>The server's buffer\<close>

text \<open>
  C36: when at least 128 bytes have arrived, as two pings of the default size are, the server
  fills its buffer and writes the NUL behind it; with fewer it never leaves it.
\<close>

theorem full_read_writes_behind_buffer:
  assumes "w_recv w = RData bs # q" "sd \<noteq> psv_sockd ps"
  shows "(\<exists>ps' w'. pingServer_activate ps sd w = Some (UB, ps', w')) \<longleftrightarrow> 128 \<le> length bs"
proof (cases "128 \<le> length bs")
  case True
  then have "\<exists>w'. sys_recv PING_SERVER_BUF_SIZE w = (Inr (take 128 bs), w')"
    using assms(1) by (cases "length bs = 128") (auto simp: sys_recv_def PING_SERVER_BUF_SIZE_def)
  with True assms(2) show ?thesis by (auto simp: pingServer_activate_def pingServer_read_def PING_SERVER_BUF_SIZE_def)
next
  case False
  then have "sys_recv PING_SERVER_BUF_SIZE w = (Inr bs, w\<lparr>w_recv := q\<rparr>)"
    using assms(1) by (simp add: sys_recv_def PING_SERVER_BUF_SIZE_def)
  with False assms(2) show ?thesis
    by (auto simp: pingServer_activate_def pingServer_read_def PING_SERVER_BUF_SIZE_def split: prod.splits)
qed

theorem full_read_writes_behind_buffer_witness:
  "\<exists>ps' w'. pingServer_activate zero_ping_server 9 (quiet_world\<lparr>w_recv := [RData (replicate 128 (CHR ''x''))]\<rparr>) = Some (UB, ps', w')"
  using full_read_writes_behind_buffer [of "quiet_world\<lparr>w_recv := [RData (replicate 128 (CHR ''x''))]\<rparr>" "replicate 128 (CHR ''x'')" "[]" 9 zero_ping_server]
  by (simp add: zero_ping_server_def)

text \<open>A text that is sent whole ends in an empty line behind the empty line, and counts twice.\<close>

lemma whole_text_counts_twice:
  assumes "c \<noteq> 0" "0 < TIME_TO_NS now" "TIME_TO_NS now < 2 ^ 64"
  shows "ping_infos t (ping_text c now) =
    replicate 2 \<lparr>pi_sentTime = of_int (TIME_TO_NS now), pi_recvTime = t, pi_cookie = c\<rparr>"
proof -
  define n where "n = nat (TIME_TO_NS now)"
  have "TIME_TO_NS now mod 2 ^ 64 = TIME_TO_NS now" using assms by (intro mod_pos_pos_trivial) auto
  then have m: "ping_text c now = cookie_text c @ crlf @ time_text n @ crlf @ crlf"
    by (simp only: ping_text_lines n_def)
  have n: "n < 2 ^ 64" "n \<noteq> 0" "(of_nat n :: u64) = of_int (TIME_TO_NS now)" using assms by (simp_all add: n_def)
  have "cstr (ping_text c now) = ping_text c now" unfolding m using text_avoids by (intro cstr_id) auto
  moreover have "split_tokens crlf 0 (ping_text c now) = [cookie_text c, time_text n, [], []]"
    using split_first [of CR "[]" 0 "[LF]" "[]"] split_first [of CR "time_text n" 0 "[LF]" crlf]
      split_first [of CR "cookie_text c" 0 "[LF]" "time_text n @ crlf @ crlf"] text_avoids split_last [of "[]" crlf 0]
    by (simp add: m)
  moreover have "(of_nat n :: u64) \<noteq> 0" using n(1,2) by (simp add: word_of_nat_eq_0_iff dvd_eq_mod_eq_0)
  moreover have "cookie_text c \<noteq> []" "time_text n \<noteq> []" by (simp_all add: cookie_text_def time_text_def)
  moreover have "ping_text c now \<noteq> []" by (simp add: m)
  ultimately show ?thesis
    using assms(1) n by (simp add: ping_infos_def g_strsplit_def ping_line_cookie ping_line_time split_beta numeral_2_eq_2)
qed

end
