(* ===== verification/Torctl_Names.thy ===== *)
theory Torctl_Names
  imports Kernel
begin

text \<open>
  The words of Tor's control protocol (\<open>torcontrol/torcontrol.c\<close>, lines 44 to 350, and the
  enumerations of \<open>torcontrol.h\<close>).  A table of strings is indexed by the number of an
  enumeration; the reading functions compare with its entries, without regard to case, in the
  order the code lists them.
\<close>

definition ci_eq :: "string \<Rightarrow> string \<Rightarrow> bool" where
  "ci_eq s t \<longleftrightarrow> map ascii_lower (cstr s) = map ascii_lower (cstr t)"

text \<open>A chain of comparisons with the names of \<open>es\<close>.\<close>

fun first_named :: "('e \<Rightarrow> string) \<Rightarrow> 'e list \<Rightarrow> 'e \<Rightarrow> string \<Rightarrow> 'e" where
  "first_named name_of [] other str = other"
| "first_named name_of (e # es) other str = (if ci_eq str (name_of e) then e else first_named name_of es other str)"

lemma first_named_self:
  assumes "e \<in> set es" "\<forall>a\<in>set es. \<forall>b\<in>set es. ci_eq (name_of a) (name_of b) \<longrightarrow> a = b"
  shows "first_named name_of es other (name_of e) = e"
  using assms by (induction es) (auto simp: ci_eq_def)

section \<open>Circuits\<close>

datatype circ_status =
    CIRC_STATUS_NONE | CIRC_STATUS_LAUNCHED | CIRC_STATUS_BUILT | CIRC_STATUS_EXTENDED
  | CIRC_STATUS_FAILED | CIRC_STATUS_CLOSED | CIRC_STATUS_UNKNOWN

fun circ_status_num :: "circ_status \<Rightarrow> nat" where
  "circ_status_num CIRC_STATUS_NONE = 0" | "circ_status_num CIRC_STATUS_LAUNCHED = 1"
| "circ_status_num CIRC_STATUS_BUILT = 2" | "circ_status_num CIRC_STATUS_EXTENDED = 3"
| "circ_status_num CIRC_STATUS_FAILED = 4" | "circ_status_num CIRC_STATUS_CLOSED = 5"
| "circ_status_num CIRC_STATUS_UNKNOWN = 6"

definition circuitStatusStrings :: "string list" where
  "circuitStatusStrings = [''NONE'', ''LAUNCHED'', ''BUILT'', ''EXTENDED'', ''FAILED'', ''CLOSED'', ''UNKNOWN'']"

definition torControl_getCircStatusString :: "circ_status \<Rightarrow> string" where
  "torControl_getCircStatusString s = circuitStatusStrings ! circ_status_num s"

definition torControl_getCircStatus :: "string \<Rightarrow> circ_status" where
  "torControl_getCircStatus =
     first_named torControl_getCircStatusString
       [CIRC_STATUS_LAUNCHED, CIRC_STATUS_BUILT, CIRC_STATUS_EXTENDED, CIRC_STATUS_FAILED, CIRC_STATUS_CLOSED]
       CIRC_STATUS_UNKNOWN"

definition CIRC_BUILD_FLAGS_NONE :: u32 where "CIRC_BUILD_FLAGS_NONE = 0"
definition CIRC_BUILD_FLAGS_ONEHOP_TUNNEL :: u32 where "CIRC_BUILD_FLAGS_ONEHOP_TUNNEL = push_bit 0 1"
definition CIRC_BUILD_FLAGS_IS_INTERNAL :: u32 where "CIRC_BUILD_FLAGS_IS_INTERNAL = push_bit 1 1"
definition CIRC_BUILD_FLAGS_NEED_CAPACITY :: u32 where "CIRC_BUILD_FLAGS_NEED_CAPACITY = push_bit 2 1"
definition CIRC_BUILD_FLAGS_NEED_UPTIME :: u32 where "CIRC_BUILD_FLAGS_NEED_UPTIME = push_bit 3 1"
definition CIRC_BUILD_FLAGS_UNKNOWN :: u32 where "CIRC_BUILD_FLAGS_UNKNOWN = push_bit 4 1"

definition circ_build_flag :: "string \<Rightarrow> u32" where
  "circ_build_flag f =
     (if ci_eq f ''ONEHOP_TUNNEL'' then CIRC_BUILD_FLAGS_ONEHOP_TUNNEL
      else if ci_eq f ''IS_INTERNAL'' then CIRC_BUILD_FLAGS_IS_INTERNAL
      else if ci_eq f ''NEED_CAPACITY'' then CIRC_BUILD_FLAGS_NEED_CAPACITY
      else if ci_eq f ''NEED_UPTIME'' then CIRC_BUILD_FLAGS_NEED_UPTIME
      else CIRC_BUILD_FLAGS_UNKNOWN)"

definition torControl_getCircBuildFlags :: "string \<Rightarrow> u32" where
  "torControl_getCircBuildFlags str =
     foldl (\<lambda>ret f. or ret (circ_build_flag f)) CIRC_BUILD_FLAGS_NONE (g_strsplit str '','' 0)"

datatype circ_purpose =
    CIRC_PURPOSE_NONE | CIRC_PURPOSE_GENERAL | CIRC_PURPOSE_HS_CLIENT_INTRO | CIRC_PURPOSE_HS_CLIENT_REND
  | CIRC_PURPOSE_HS_SERVICE_INTRO | CIRC_PURPOSE_HS_SERVICE_REND | CIRC_PURPOSE_TESTING
  | CIRC_PURPOSE_CONTROLLER | CIRC_PURPOSE_UNKNOWN

fun circ_purpose_num :: "circ_purpose \<Rightarrow> nat" where
  "circ_purpose_num CIRC_PURPOSE_NONE = 0" | "circ_purpose_num CIRC_PURPOSE_GENERAL = 1"
| "circ_purpose_num CIRC_PURPOSE_HS_CLIENT_INTRO = 2" | "circ_purpose_num CIRC_PURPOSE_HS_CLIENT_REND = 3"
| "circ_purpose_num CIRC_PURPOSE_HS_SERVICE_INTRO = 4" | "circ_purpose_num CIRC_PURPOSE_HS_SERVICE_REND = 5"
| "circ_purpose_num CIRC_PURPOSE_TESTING = 6" | "circ_purpose_num CIRC_PURPOSE_CONTROLLER = 7"
| "circ_purpose_num CIRC_PURPOSE_UNKNOWN = 8"

definition circuitPurposeStrings :: "string list" where
  "circuitPurposeStrings =
     [''NONE'', ''GENERAL'', ''HS_CLIENT_INTRO'', ''HS_CLIENT_REND'', ''HS_SERVICE_INTRO'',
      ''HS_SERVICE_REND'', ''TESTING'', ''CONTROLLER'', ''UNKNOWN'']"

definition torControl_getCircPurposeString :: "circ_purpose \<Rightarrow> string" where
  "torControl_getCircPurposeString p = circuitPurposeStrings ! circ_purpose_num p"

definition torControl_getCircPurpose :: "string \<Rightarrow> circ_purpose" where
  "torControl_getCircPurpose =
     first_named torControl_getCircPurposeString
       [CIRC_PURPOSE_GENERAL, CIRC_PURPOSE_HS_CLIENT_INTRO, CIRC_PURPOSE_HS_CLIENT_REND,
        CIRC_PURPOSE_HS_SERVICE_INTRO, CIRC_PURPOSE_HS_SERVICE_REND, CIRC_PURPOSE_TESTING, CIRC_PURPOSE_CONTROLLER]
       CIRC_PURPOSE_UNKNOWN"

datatype circ_reason =
    CIRC_REASON_NONE | CIRC_REASON_TORPROTOCOL | CIRC_REASON_INTERNAL | CIRC_REASON_REQUESTED
  | CIRC_REASON_HIBERNATING | CIRC_REASON_RESOURCELIMIT | CIRC_REASON_CONNECTFAILED | CIRC_REASON_OR_IDENTITY
  | CIRC_REASON_OR_CONN_CLOSED | CIRC_REASON_TIMEOUT | CIRC_REASON_FINISHED | CIRC_REASON_DESTROYED
  | CIRC_REASON_NOPATH | CIRC_REASON_NOSUCHSERVICE | CIRC_REASON_MEASUREMENT_EXPIRED | CIRC_REASON_UNKNOWN

fun circ_reason_num :: "circ_reason \<Rightarrow> nat" where
  "circ_reason_num CIRC_REASON_NONE = 0" | "circ_reason_num CIRC_REASON_TORPROTOCOL = 1"
| "circ_reason_num CIRC_REASON_INTERNAL = 2" | "circ_reason_num CIRC_REASON_REQUESTED = 3"
| "circ_reason_num CIRC_REASON_HIBERNATING = 4" | "circ_reason_num CIRC_REASON_RESOURCELIMIT = 5"
| "circ_reason_num CIRC_REASON_CONNECTFAILED = 6" | "circ_reason_num CIRC_REASON_OR_IDENTITY = 7"
| "circ_reason_num CIRC_REASON_OR_CONN_CLOSED = 8" | "circ_reason_num CIRC_REASON_TIMEOUT = 9"
| "circ_reason_num CIRC_REASON_FINISHED = 10" | "circ_reason_num CIRC_REASON_DESTROYED = 11"
| "circ_reason_num CIRC_REASON_NOPATH = 12" | "circ_reason_num CIRC_REASON_NOSUCHSERVICE = 13"
| "circ_reason_num CIRC_REASON_MEASUREMENT_EXPIRED = 14" | "circ_reason_num CIRC_REASON_UNKNOWN = 15"

definition circuitReasonStrings :: "string list" where
  "circuitReasonStrings =
     [''NONE'', ''TORPROTOCOL'', ''INTERNAL'', ''REQUESTED'', ''HIBERNATING'',
      ''RESOURCELIMIT'', ''CONNECTFAILED'', ''OR_IDENTITY'', ''OR_CONN_CLOSED'',
      ''TIMEOUT'', ''FINISHED'', ''DESTROYED'', ''NOPATH'', ''NOSUCHSERVICE'',
      ''MEASUREMENT_EXPIRED'', ''UNKNOWN'']"

definition torControl_getCircReasonString :: "circ_reason \<Rightarrow> string" where
  "torControl_getCircReasonString r = circuitReasonStrings ! circ_reason_num r"

definition torControl_getCircReason :: "string \<Rightarrow> circ_reason" where
  "torControl_getCircReason =
     first_named torControl_getCircReasonString
       [CIRC_REASON_NONE, CIRC_REASON_TORPROTOCOL, CIRC_REASON_INTERNAL, CIRC_REASON_REQUESTED,
        CIRC_REASON_HIBERNATING, CIRC_REASON_RESOURCELIMIT, CIRC_REASON_CONNECTFAILED, CIRC_REASON_OR_IDENTITY,
        CIRC_REASON_OR_CONN_CLOSED, CIRC_REASON_TIMEOUT, CIRC_REASON_FINISHED, CIRC_REASON_DESTROYED,
        CIRC_REASON_NOPATH, CIRC_REASON_NOSUCHSERVICE, CIRC_REASON_MEASUREMENT_EXPIRED]
       CIRC_REASON_UNKNOWN"

section \<open>Streams\<close>

datatype stream_status =
    STREAM_STATUS_NONE | STREAM_STATUS_NEW | STREAM_STATUS_NEWRESOLVE | STREAM_STATUS_REMAP
  | STREAM_STATUS_SENTCONNECT | STREAM_STATUS_SENTRESOLVE | STREAM_STATUS_SUCCEEDED
  | STREAM_STATUS_FAILED | STREAM_STATUS_CLOSED | STREAM_STATUS_DETATCHED | STREAM_STATUS_UNKNOWN

fun stream_status_num :: "stream_status \<Rightarrow> nat" where
  "stream_status_num STREAM_STATUS_NONE = 0" | "stream_status_num STREAM_STATUS_NEW = 1"
| "stream_status_num STREAM_STATUS_NEWRESOLVE = 2" | "stream_status_num STREAM_STATUS_REMAP = 3"
| "stream_status_num STREAM_STATUS_SENTCONNECT = 4" | "stream_status_num STREAM_STATUS_SENTRESOLVE = 5"
| "stream_status_num STREAM_STATUS_SUCCEEDED = 6" | "stream_status_num STREAM_STATUS_FAILED = 7"
| "stream_status_num STREAM_STATUS_CLOSED = 8" | "stream_status_num STREAM_STATUS_DETATCHED = 9"
| "stream_status_num STREAM_STATUS_UNKNOWN = 10"

definition streamStatusStrings :: "string list" where
  "streamStatusStrings =
     [''NONE'', ''NEW'', ''NEW_RESOLVE'', ''REMAP'', ''SENT_CONNECT'', ''SENT_RESOLVE'',
      ''SUCCEECED'', ''FAILED'', ''CLOSED'', ''DETATCHED'', ''UNKNOWN'']"

definition torControl_getStreamStatusString :: "stream_status \<Rightarrow> string" where
  "torControl_getStreamStatusString s = streamStatusStrings ! stream_status_num s"

definition torControl_getStreamStatus :: "string \<Rightarrow> stream_status" where
  "torControl_getStreamStatus =
     first_named torControl_getStreamStatusString
       [STREAM_STATUS_NEW, STREAM_STATUS_NEWRESOLVE, STREAM_STATUS_REMAP, STREAM_STATUS_SENTCONNECT,
        STREAM_STATUS_SENTRESOLVE, STREAM_STATUS_SUCCEEDED, STREAM_STATUS_FAILED, STREAM_STATUS_CLOSED,
        STREAM_STATUS_DETATCHED]
       STREAM_STATUS_UNKNOWN"

datatype stream_reason =
    STREAM_REASON_NONE | STREAM_REASON_MISC | STREAM_REASON_RESOLVEFAILED | STREAM_REASON_CONNECTREFUSED
  | STREAM_REASON_EXITPOLICY | STREAM_REASON_DESTROY | STREAM_REASON_DONE | STREAM_REASON_TIMEOUT
  | STREAM_REASON_NOROUTE | STREAM_REASON_HIBERNATING | STREAM_REASON_INTERNAL | STREAM_REASON_RESOURCELIMIT
  | STREAM_REASON_CONNRESET | STREAM_REASON_TORPROTOCOL | STREAM_REASON_NOTDIRECTORY | STREAM_REASON_END
  | STREAM_REASON_PRIVATE_ADDR | STREAM_REASON_UNKNOWN

fun stream_reason_num :: "stream_reason \<Rightarrow> nat" where
  "stream_reason_num STREAM_REASON_NONE = 0" | "stream_reason_num STREAM_REASON_MISC = 1"
| "stream_reason_num STREAM_REASON_RESOLVEFAILED = 2" | "stream_reason_num STREAM_REASON_CONNECTREFUSED = 3"
| "stream_reason_num STREAM_REASON_EXITPOLICY = 4" | "stream_reason_num STREAM_REASON_DESTROY = 5"
| "stream_reason_num STREAM_REASON_DONE = 6" | "stream_reason_num STREAM_REASON_TIMEOUT = 7"
| "stream_reason_num STREAM_REASON_NOROUTE = 8" | "stream_reason_num STREAM_REASON_HIBERNATING = 9"
| "stream_reason_num STREAM_REASON_INTERNAL = 10" | "stream_reason_num STREAM_REASON_RESOURCELIMIT = 11"
| "stream_reason_num STREAM_REASON_CONNRESET = 12" | "stream_reason_num STREAM_REASON_TORPROTOCOL = 13"
| "stream_reason_num STREAM_REASON_NOTDIRECTORY = 14" | "stream_reason_num STREAM_REASON_END = 15"
| "stream_reason_num STREAM_REASON_PRIVATE_ADDR = 16" | "stream_reason_num STREAM_REASON_UNKNOWN = 17"

definition streamReasonStrings :: "string list" where
  "streamReasonStrings =
     [''NONE'', ''MISC'', ''RESOLVEFAILED'', ''CONNECTREFUSED'', ''EXITPOLICY'', ''DESTROY'',
      ''DONE'', ''TIMEOUT'', ''NOROUTE'', ''HIBERNATING'', ''INTERNAL'', ''RESOURCELIMIT'',
      ''CONNRESET'', ''TORPROTOCOL'', ''NOTDIRECTORY'', ''END'', ''PRIVATE_ADDR'', ''UNKNOWN'']"

definition torControl_getStreamReasonString :: "stream_reason \<Rightarrow> string" where
  "torControl_getStreamReasonString r = streamReasonStrings ! stream_reason_num r"

definition torControl_getStreamReason :: "string \<Rightarrow> stream_reason" where
  "torControl_getStreamReason =
     first_named torControl_getStreamReasonString
       [STREAM_REASON_MISC, STREAM_REASON_RESOLVEFAILED, STREAM_REASON_CONNECTREFUSED, STREAM_REASON_EXITPOLICY,
        STREAM_REASON_DESTROY, STREAM_REASON_DONE, STREAM_REASON_TIMEOUT, STREAM_REASON_NOROUTE,
        STREAM_REASON_HIBERNATING, STREAM_REASON_INTERNAL, STREAM_REASON_RESOURCELIMIT, STREAM_REASON_CONNRESET,
        STREAM_REASON_TORPROTOCOL, STREAM_REASON_NOTDIRECTORY, STREAM_REASON_END, STREAM_REASON_PRIVATE_ADDR]
       STREAM_REASON_UNKNOWN"

datatype stream_purpose =
    STREAM_PURPOSE_NONE | STREAM_PURPOSE_DIR_FETCH | STREAM_PURPOSE_UPLOAD_DESC | STREAM_PURPOSE_DNS_REQUEST
  | STREAM_PURPOSE_USER | STREAM_PURPOSE_DIRPORT_TEST | STREAM_PURPOSE_UNKNOWN

fun stream_purpose_num :: "stream_purpose \<Rightarrow> nat" where
  "stream_purpose_num STREAM_PURPOSE_NONE = 0" | "stream_purpose_num STREAM_PURPOSE_DIR_FETCH = 1"
| "stream_purpose_num STREAM_PURPOSE_UPLOAD_DESC = 2" | "stream_purpose_num STREAM_PURPOSE_DNS_REQUEST = 3"
| "stream_purpose_num STREAM_PURPOSE_USER = 4" | "stream_purpose_num STREAM_PURPOSE_DIRPORT_TEST = 5"
| "stream_purpose_num STREAM_PURPOSE_UNKNOWN = 6"

definition streamPurposeStrings :: "string list" where
  "streamPurposeStrings =
     [''NONE'', ''DIR_FETCH'', ''UPLOAD_DESC'', ''DNS_REQUEST'', ''USER'', ''DIRPORT_TEST'', ''UNKNOWN'']"

definition torControl_getStreamPurposeString :: "stream_purpose \<Rightarrow> string" where
  "torControl_getStreamPurposeString p = streamPurposeStrings ! stream_purpose_num p"

text \<open>This one compares with literals.\<close>

definition torControl_getStreamPurpose :: "string \<Rightarrow> stream_purpose" where
  "torControl_getStreamPurpose str =
     (if ci_eq str ''DIR_FETCH'' then STREAM_PURPOSE_DIR_FETCH
      else if ci_eq str ''UPLOAD_DESC'' then STREAM_PURPOSE_UPLOAD_DESC
      else if ci_eq str ''DNS_REQUEST'' then STREAM_PURPOSE_DNS_REQUEST
      else if ci_eq str ''USER'' then STREAM_PURPOSE_USER
      else if ci_eq str ''DIRPORT_TEST'' then STREAM_PURPOSE_DIRPORT_TEST
      else STREAM_PURPOSE_UNKNOWN)"

section \<open>Connections between relays\<close>

datatype orconn_status =
    ORCONN_STATUS_NONE | ORCONN_STATUS_NEW | ORCONN_STATUS_LAUNCHED | ORCONN_STATUS_CONNECTED
  | ORCONN_STATUS_FAILED | ORCONN_STATUS_CLOSED | ORCONN_STATUS_UNKNOWN

fun orconn_status_num :: "orconn_status \<Rightarrow> nat" where
  "orconn_status_num ORCONN_STATUS_NONE = 0" | "orconn_status_num ORCONN_STATUS_NEW = 1"
| "orconn_status_num ORCONN_STATUS_LAUNCHED = 2" | "orconn_status_num ORCONN_STATUS_CONNECTED = 3"
| "orconn_status_num ORCONN_STATUS_FAILED = 4" | "orconn_status_num ORCONN_STATUS_CLOSED = 5"
| "orconn_status_num ORCONN_STATUS_UNKNOWN = 6"

definition orconnStatusStrings :: "string list" where
  "orconnStatusStrings = [''NONE'', ''NEW'', ''LAUNCHED'', ''CONNECTED'', ''FAILED'', ''CLOSED'', ''UNKNOWN'']"

definition torControl_getORConnStatusString :: "orconn_status \<Rightarrow> string" where
  "torControl_getORConnStatusString s = orconnStatusStrings ! orconn_status_num s"

definition torControl_getORConnStatus :: "string \<Rightarrow> orconn_status" where
  "torControl_getORConnStatus =
     first_named torControl_getORConnStatusString
       [ORCONN_STATUS_NEW, ORCONN_STATUS_LAUNCHED, ORCONN_STATUS_CONNECTED, ORCONN_STATUS_FAILED, ORCONN_STATUS_CLOSED]
       ORCONN_STATUS_UNKNOWN"

datatype orconn_reason =
    ORCONN_REASON_NONE | ORCONN_REASON_MISC | ORCONN_REASON_DONE | ORCONN_REASON_CONNECTREFUSED
  | ORCONN_REASON_IDENTITY | ORCONN_REASON_CONNECTRESET | ORCONN_REASON_TIMEOUT | ORCONN_REASON_NOROUTE
  | ORCONN_REASON_IOERROR | ORCONN_REASON_RESOURCELIMIT | ORCONN_REASON_UNKNOWN

fun orconn_reason_num :: "orconn_reason \<Rightarrow> nat" where
  "orconn_reason_num ORCONN_REASON_NONE = 0" | "orconn_reason_num ORCONN_REASON_MISC = 1"
| "orconn_reason_num ORCONN_REASON_DONE = 2" | "orconn_reason_num ORCONN_REASON_CONNECTREFUSED = 3"
| "orconn_reason_num ORCONN_REASON_IDENTITY = 4" | "orconn_reason_num ORCONN_REASON_CONNECTRESET = 5"
| "orconn_reason_num ORCONN_REASON_TIMEOUT = 6" | "orconn_reason_num ORCONN_REASON_NOROUTE = 7"
| "orconn_reason_num ORCONN_REASON_IOERROR = 8" | "orconn_reason_num ORCONN_REASON_RESOURCELIMIT = 9"
| "orconn_reason_num ORCONN_REASON_UNKNOWN = 10"

definition orconnReasonStrings :: "string list" where
  "orconnReasonStrings =
     [''NONE'', ''MISC'', ''DONE'', ''CONNECTREFUSED'', ''IDENTITY'', ''CONNECTRESET'',
      ''TIMEOUT'', ''NOROUTE'', ''IOERROR'', ''RESOURCELIMIT'', ''UNKNOWN'']"

definition torControl_getORConnReasonString :: "orconn_reason \<Rightarrow> string" where
  "torControl_getORConnReasonString r = orconnReasonStrings ! orconn_reason_num r"

definition torControl_getORConnReason :: "string \<Rightarrow> orconn_reason" where
  "torControl_getORConnReason =
     first_named torControl_getORConnReasonString
       [ORCONN_REASON_MISC, ORCONN_REASON_DONE, ORCONN_REASON_CONNECTREFUSED, ORCONN_REASON_IDENTITY,
        ORCONN_REASON_CONNECTRESET, ORCONN_REASON_TIMEOUT, ORCONN_REASON_NOROUTE, ORCONN_REASON_IOERROR,
        ORCONN_REASON_RESOURCELIMIT]
       ORCONN_REASON_UNKNOWN"

section \<open>Log and status messages\<close>

datatype log_severity =
    LOG_SEVERITY_DEBUG | LOG_SEVERITY_INFO | LOG_SEVERITY_NOTICE | LOG_SEVERITY_WARN
  | LOG_SEVERITY_ERR | LOG_SEVERITY_UNKNOWN

definition torControl_getLogSeverity :: "string \<Rightarrow> log_severity" where
  "torControl_getLogSeverity str =
     (if ci_eq str ''DEBUG'' then LOG_SEVERITY_DEBUG
      else if ci_eq str ''INFO'' then LOG_SEVERITY_INFO
      else if ci_eq str ''NOTICE'' then LOG_SEVERITY_NOTICE
      else if ci_eq str ''WARN'' then LOG_SEVERITY_WARN
      else if ci_eq str ''ERR'' then LOG_SEVERITY_ERR
      else LOG_SEVERITY_UNKNOWN)"

datatype status_type = STATUS_TYPE_GENERAL | STATUS_TYPE_CLIENT | STATUS_TYPE_SERVER | STATUS_TYPE_UNKNOWN

definition torControl_getStatusType :: "string \<Rightarrow> status_type" where
  "torControl_getStatusType str =
     (if ci_eq str ''STATUS_GENERAL'' then STATUS_TYPE_GENERAL
      else if ci_eq str ''STATUS_CLIENT'' then STATUS_TYPE_CLIENT
      else if ci_eq str ''STATUS_SERVER'' then STATUS_TYPE_SERVER
      else STATUS_TYPE_UNKNOWN)"

datatype status_severity =
    STATUS_SEVERITY_NOTICE | STATUS_SEVERITY_WARN | STATUS_SEVERITY_ERR | STATUS_SEVERITY_UNKNOWN

definition torControl_getStatusSeverity :: "string \<Rightarrow> status_severity" where
  "torControl_getStatusSeverity str =
     (if ci_eq str ''NOTICE'' then STATUS_SEVERITY_NOTICE
      else if ci_eq str ''WARN'' then STATUS_SEVERITY_WARN
      else if ci_eq str ''ERR'' then STATUS_SEVERITY_ERR
      else STATUS_SEVERITY_UNKNOWN)"

end
