(* ===== verification/Action.thy ===== *)
theory Action
  imports Prelude
begin

text \<open>
  Functions on a state that may end in a failed assertion or undefined behaviour, and two ways of
  reasoning about them.  \<open>stays\<close> is the contract of an action under an invariant: it keeps it, and
  relates the state before to the state after by a preorder; the locale \<open>act_frame\<close> shows that
  actions with the contract are closed under the combinators.  \<open>runs m s Q\<close>: the action returns,
  with a value and a state that satisfy \<open>Q\<close>; its equations compute the condition for a composed
  action from those of its parts.
\<close>

section \<open>Actions\<close>

text \<open>A function that may end in a failed assertion or undefined behaviour, on a state.\<close>

type_synonym ('a, 's) act = "'s \<Rightarrow> 'a ret \<times> 's"

definition act_return :: "'a \<Rightarrow> ('a, 's) act" where
  "act_return v = (\<lambda>s. (Ret v, s))"

definition act_fail :: "'a ret \<Rightarrow> ('a, 's) act" where
  "act_fail r = (\<lambda>s. (r, s))"

definition act_update :: "('s \<Rightarrow> 's) \<Rightarrow> (unit, 's) act" where
  "act_update f = (\<lambda>s. (Ret (), f s))"

definition act_bind :: "('a, 's) act \<Rightarrow> ('a \<Rightarrow> ('b, 's) act) \<Rightarrow> ('b, 's) act" where
  "act_bind m f = (\<lambda>s. case m s of (Ret v, t) \<Rightarrow> f v t | (AssertFail, t) \<Rightarrow> (AssertFail, t) | (UB, t) \<Rightarrow> (UB, t))"

text \<open>\<open>m; n\<close>\<close>

definition act_then :: "('a, 's) act \<Rightarrow> ('b, 's) act \<Rightarrow> ('b, 's) act" where
  "act_then m n = act_bind m (\<lambda>_. n)"

fun act_each :: "('x \<Rightarrow> (unit, 's) act) \<Rightarrow> 'x list \<Rightarrow> (unit, 's) act" where
  "act_each f [] = act_return ()"
| "act_each f (x # xs) = act_then (f x) (act_each f xs)"

definition ret_bind :: "'a ret \<Rightarrow> ('a \<Rightarrow> 'b ret) \<Rightarrow> 'b ret" where
  "ret_bind r f = (case r of Ret v \<Rightarrow> f v | AssertFail \<Rightarrow> AssertFail | UB \<Rightarrow> UB)"

lemma ret_bind_simps [simp]:
  "ret_bind (Ret v) f = f v" "ret_bind AssertFail f = AssertFail" "ret_bind UB f = UB"
  by (simp_all add: ret_bind_def)

lemma act_bind_assoc: "act_bind (act_bind m f) g = act_bind m (\<lambda>v. act_bind (f v) g)"
  by (rule ext) (simp add: act_bind_def split: prod.splits ret.splits)

lemma act_bind_return [simp]: "act_bind (act_return v) f = f v"
  by (rule ext) (simp add: act_bind_def act_return_def)

lemma act_then_return [simp]: "act_then (act_return v) m = m"
  by (simp add: act_then_def)

lemma act_then_assoc: "act_then (act_then m n) k = act_then m (act_then n k)"
  by (simp add: act_then_def act_bind_assoc)

lemma act_each_append: "act_each f (xs @ ys) = act_then (act_each f xs) (act_each f ys)"
  by (induction xs) (simp_all add: act_then_assoc)

section \<open>The contract\<close>

definition stays :: "('s \<Rightarrow> bool) \<Rightarrow> ('s \<Rightarrow> 's \<Rightarrow> bool) \<Rightarrow> ('a, 's) act \<Rightarrow> bool" where
  "stays I R m \<longleftrightarrow> (\<forall>s. I s \<longrightarrow> I (snd (m s)) \<and> R s (snd (m s)))"

lemma staysI: "(\<And>s. I s \<Longrightarrow> I (snd (m s)) \<and> R s (snd (m s))) \<Longrightarrow> stays I R m"
  by (simp add: stays_def)

lemma staysD: "stays I R m \<Longrightarrow> m s = (r, t) \<Longrightarrow> I s \<Longrightarrow> I t \<and> R s t"
  by (auto simp: stays_def dest: spec [of _ s])

locale act_frame =
  fixes I :: "'s \<Rightarrow> bool" and R :: "'s \<Rightarrow> 's \<Rightarrow> bool"
  assumes R_refl: "R s s" and R_trans: "R s t \<Longrightarrow> R t u \<Longrightarrow> R s u"
begin

lemma return: "stays I R (act_return v)"
  by (simp add: stays_def act_return_def R_refl)

lemma fail: "stays I R (act_fail r)"
  by (simp add: stays_def act_fail_def R_refl)

lemma bind:
  assumes "stays I R m" "\<And>v. stays I R (f v)"
  shows "stays I R (act_bind m f)"
proof (rule staysI)
  fix s assume "I s"
  obtain r t where m: "m s = (r, t)" by fastforce
  with assms(1) \<open>I s\<close> have t: "I t" "R s t" by (auto dest: staysD)
  show "I (snd (act_bind m f s)) \<and> R s (snd (act_bind m f s))"
  proof (cases r)
    case (Ret v)
    obtain r2 u where u: "f v t = (r2, u)" by fastforce
    with assms(2) t(1) have "I u" "R t u" by (auto dest: staysD)
    with t m u Ret show ?thesis by (auto simp: act_bind_def intro: R_trans)
  qed (use t m in \<open>auto simp: act_bind_def\<close>)
qed

lemma seq: "stays I R m \<Longrightarrow> stays I R n \<Longrightarrow> stays I R (act_then m n)"
  unfolding act_then_def by (rule bind)

lemma each: "(\<And>x. stays I R (f x)) \<Longrightarrow> stays I R (act_each f xs)"
  by (induction xs) (simp_all add: return seq)

lemma test: "stays I R m \<Longrightarrow> stays I R (\<lambda>s. if P s then (r, s) else m s)"
  by (simp add: stays_def R_refl)

lemmas closed = return fail bind seq each

end

section \<open>Weakest conditions\<close>

definition runs :: "('a, 's) act \<Rightarrow> 's \<Rightarrow> ('a \<Rightarrow> 's \<Rightarrow> bool) \<Rightarrow> bool" where
  "runs m s Q \<longleftrightarrow> (case m s of (Ret v, t) \<Rightarrow> Q v t | _ \<Rightarrow> False)"

lemma runs_basic [simp]:
  "runs (act_return v) s P = P v s"
  "runs (act_update f) s Q = Q () (f s)"
  "runs (act_fail UB) s R = False"
  "runs (act_bind m h) s S = runs m s (\<lambda>v t. runs (h v) t S)"
  "runs (act_then m' n) s T = runs m' s (\<lambda>_ t. runs n t T)"
  by (simp_all add: runs_def act_return_def act_update_def act_fail_def act_bind_def act_then_def split: prod.split ret.split)

lemma runs_mono: "runs m s Q \<Longrightarrow> (\<And>v t. Q v t \<Longrightarrow> R v t) \<Longrightarrow> runs m s R"
  by (auto simp: runs_def split: prod.splits ret.splits)

lemma runsD: "runs m s Q \<Longrightarrow> \<exists>v t. m s = (Ret v, t) \<and> Q v t"
  by (auto simp: runs_def split: prod.splits ret.splits)

lemma runs_each:
  assumes "\<And>x s. x \<in> set xs \<Longrightarrow> I s \<Longrightarrow> runs (f x) s (\<lambda>_. I)" "I s"
  shows "runs (act_each f xs) s (\<lambda>_. I)"
  using assms
proof (induction xs arbitrary: s)
  case (Cons x xs)
  then show ?case by (auto intro: runs_mono)
qed simp

end
