(* ===== verification/Torctl_Base.thy ===== *)
theory Torctl_Base
  imports Torctl_Names Action
begin

text \<open>
  Connections to control ports and the commands sent over them (\<open>torcontrol/torcontrol.c\<close>,
  lines 815 to 916; the structures of \<open>torcontrol.h\<close> and of the three modules).

  The table \<open>tct_connections\<close> maps a descriptor to its connection; a function that holds a
  \<open>TorControl_Connection*\<close> works on the entry of its descriptor.  \<open>cn_buf\<close> is the list of the
  bytes below \<open>bufOffset\<close>.  The \<open>eventHandlers\<close> of a connection are those of its module, so
  the module is kept and the handlers are chosen by its constructor.  A circuit is named by its
  position in the list \<open>circuits\<close>, which never shrinks; the queue \<open>circuitsToBuild\<close> holds such
  names.

  What the logger passes to Shadow's log and what the pinger asks \<open>createCallback\<close> for are
  recorded in \<open>tct_logged\<close> and \<open>tct_callbacks\<close>, oldest first.
\<close>

section \<open>Data\<close>

record reply_line =
  rl_code :: int
  rl_body :: string
  rl_data :: "string list"

text \<open>What a response handler gets as \<open>userData\<close>; both structures begin with a \<open>gint\<close>.\<close>

datatype user_data = ReplyExtended int | BootstrapPhase int "string option"

fun ud_first_int :: "user_data \<Rightarrow> int" where
  "ud_first_int (ReplyExtended n) = n"
| "ud_first_int (BootstrapPhase n s) = n"

datatype cb_state =
    CIRCBUILD_AUTHENTICATE | CIRCBUILD_SETCONFS | CIRCBUILD_SETEVENTS | CIRCBUILD_CHECKSTATUS
  | CIRCBUILD_CREATE_CIRCUIT | CIRCBUILD_GET_CIRC_ID | CIRCBUILD_ATTACH_STREAMS

record circuit =
  ci_startTime :: int
  ci_endTime :: int
  ci_relays :: string
  ci_circID :: int

record circuit_build =
  cb_bootstrapped :: bool
  cb_circuits :: "circuit list"
  cb_circuitsToBuild :: "nat list"
  cb_sockd :: fd
  cb_waiting :: bool
  cb_state :: cb_state
  cb_nextState :: cb_state

datatype tcl_state =
    TCLS_IDLE | TCLS_SEND_AUTHENTICATE | TCLS_RECV_AUTHENTICATE | TCLS_SEND_SETEVENTS | TCLS_RECV_SETEVENTS

record tc_logger =
  lg_state :: tcl_state
  lg_nextState :: tcl_state
  lg_targetHostname :: string
  lg_targetPort :: u16
  lg_targetSockd :: fd
  lg_torctlEvents :: string

datatype tcp_state =
    TCPS_IDLE | TCPS_SEND_AUTHENTICATE | TCPS_RECV_AUTHENTICATE | TCPS_SEND_SETEVENTS | TCPS_RECV_SETEVENTS

record tc_pinger =
  pn_state :: tcp_state
  pn_nextState :: tcp_state
  pn_targetHostname :: string
  pn_targetPort :: u16
  pn_targetSockd :: fd
  pn_pingRelay :: string
  pn_outstandingPings :: "(int \<times> timespec) list"

datatype tc_module = CircuitBuild circuit_build | Logger tc_logger | Pinger tc_pinger

record tc_conn =
  cn_hostname :: string
  cn_ip :: u32
  cn_port :: u16
  cn_mode :: string
  cn_buf :: string
  cn_sendBuf :: string
  cn_reply :: "reply_line list"
  cn_readingData :: bool
  cn_initialized :: bool
  cn_module :: tc_module

record torctl =
  tct_epolld :: fd
  tct_connections :: "(fd \<times> tc_conn) list"
  tct_logged :: "(string \<times> u16 \<times> string) list"
  tct_callbacks :: "(fd \<times> u32) list"

definition TORCTL_BUF_SIZE :: nat where "TORCTL_BUF_SIZE = 16384"

type_synonym tct_ctx = "torctl \<times> world"

text \<open>A module at work: its own data, and everything else.\<close>

type_synonym 'm mod_ctx = "'m \<times> tct_ctx"

definition tct_conn_update :: "fd \<Rightarrow> (tc_conn \<Rightarrow> tc_conn) \<Rightarrow> torctl \<Rightarrow> torctl" where
  "tct_conn_update sd f tc = tc\<lparr>tct_connections := AList.map_entry sd f (tct_connections tc)\<rparr>"

section \<open>Sending commands\<close>

definition torControl_changeEpoll :: "fd \<Rightarrow> epoll_ev list \<Rightarrow> world \<Rightarrow> world" where
  "torControl_changeEpoll sockd evs w = snd (epoll_ctl CtlMod sockd evs w)"

definition TORCTL_ERR_FATAL :: int where "TORCTL_ERR_FATAL = 4"

definition tct_send_allowed :: "errno \<Rightarrow> bool" where
  "tct_send_allowed e \<longleftrightarrow> e = EWOULDBLOCK \<or> e = ENOTCONN \<or> e = EALREADY"

text \<open>\<open>TORCTL_ASSERTIO\<close>: the value it returns, if it returns.\<close>

definition torctl_assertio :: "bool \<Rightarrow> errno + nat \<Rightarrow> int option" where
  "torctl_assertio allowed bytes =
     (case bytes of
        Inl e \<Rightarrow> Some (if allowed then -1 else TORCTL_ERR_FATAL)
      | Inr n \<Rightarrow> if n = 0 then Some TORCTL_ERR_FATAL else None)"

text \<open>
  What was sent of the buffer stays in it unless all of it was sent.
\<close>

definition tct_flush :: "fd \<Rightarrow> tc_conn \<Rightarrow> tct_ctx \<Rightarrow> int \<times> tct_ctx" where
  "tct_flush sockd cn = (\<lambda>(tc, w).
     (case sys_send sockd (cn_sendBuf cn) w of
        (a, w1) \<Rightarrow>
          (case torctl_assertio (case a of Inl e \<Rightarrow> tct_send_allowed e | Inr _ \<Rightarrow> False) a of
             Some r \<Rightarrow> (r, tc, w1)
           | None \<Rightarrow>
               (let n = (case a of Inl e \<Rightarrow> 0 | Inr n \<Rightarrow> n) in
                if length (cn_sendBuf cn) \<le> n
                then (int n, tct_conn_update sockd (\<lambda>c. c\<lparr>cn_sendBuf := []\<rparr>) tc, torControl_changeEpoll sockd [EPOLLIN] w1)
                else (int n, tc, w1)))))"

definition torControl_sendCommand :: "fd \<Rightarrow> string \<Rightarrow> (int, tct_ctx) act" where
  "torControl_sendCommand sockd command = (\<lambda>(tc, w).
     (let tc1 = tct_conn_update sockd (\<lambda>c. c\<lparr>cn_sendBuf := cn_sendBuf c @ command @ crlf\<rparr>) tc in
      case map_of (tct_connections tc1) sockd of
        None \<Rightarrow> (UB, tc, w)
      | Some cn \<Rightarrow>
          (case tct_flush sockd cn (tc1, torControl_changeEpoll sockd [EPOLLOUT] w) of (n, x) \<Rightarrow> (Ret n, x))))"

definition torControl_authenticate :: "fd \<Rightarrow> string \<Rightarrow> (int, tct_ctx) act" where
  "torControl_authenticate sockd password =
     torControl_sendCommand sockd (''AUTHENTICATE '' @ [CHR 0x22] @ password @ [CHR 0x22])"

text \<open>The pairs of names and values come one after the other in the array \<open>confValues\<close>.\<close>

definition torControl_setconf :: "fd \<Rightarrow> (string \<times> string) list \<Rightarrow> (int, tct_ctx) act" where
  "torControl_setconf sockd confValues =
     torControl_sendCommand sockd (''SETCONF'' @ concat (map (\<lambda>(k, v). '' '' @ k @ ''='' @ v) confValues))"

definition torControl_setevents :: "fd \<Rightarrow> string \<Rightarrow> (int, tct_ctx) act" where
  "torControl_setevents sockd events = torControl_sendCommand sockd (''SETEVENTS EXTENDED '' @ events)"

definition torControl_buildCircuit :: "fd \<Rightarrow> string \<Rightarrow> (int, tct_ctx) act" where
  "torControl_buildCircuit sockd circuit = torControl_sendCommand sockd (''EXTENDCIRCUIT 0 '' @ circuit)"

definition torControl_closeCircuit :: "fd \<Rightarrow> int \<Rightarrow> (int, tct_ctx) act" where
  "torControl_closeCircuit sockd circID = torControl_sendCommand sockd (''CLOSECIRCUIT '' @ show_int circID)"

definition torControl_attachStream :: "fd \<Rightarrow> int \<Rightarrow> int \<Rightarrow> (int, tct_ctx) act" where
  "torControl_attachStream sockd streamID circID =
     torControl_sendCommand sockd (''ATTACHSTREAM '' @ show_int streamID @ '' '' @ show_int circID)"

definition torControl_getInfoBootstrapStatus :: "fd \<Rightarrow> (int, tct_ctx) act" where
  "torControl_getInfoBootstrapStatus sockd = torControl_sendCommand sockd ''GETINFO status/bootstrap-phase''"

text \<open>A command, issued by a module.\<close>

definition on_ctx :: "('a, tct_ctx) act \<Rightarrow> ('a, 'm mod_ctx) act" where
  "on_ctx m = (\<lambda>(d, x). case m x of (r, y) \<Rightarrow> (r, d, y))"

definition on_data :: "('m \<Rightarrow> 'm) \<Rightarrow> (unit, 'm mod_ctx) act" where
  "on_data f = act_update (\<lambda>(d, x). (f d, x))"

text \<open>An action chosen by the module's data.\<close>

definition with_data :: "('m \<Rightarrow> ('a, 'm mod_ctx) act) \<Rightarrow> ('a, 'm mod_ctx) act" where
  "with_data f = (\<lambda>s. f (fst s) s)"

end
