(* ===== verification/Torctl_Events.thy ===== *)
theory Torctl_Events
  imports Torctl_Base
begin

text \<open>
  Asynchronous events (\<open>torcontrol/torcontrol.c\<close>, lines 352 to 381 and 511 to 710): the text of
  an event line becomes the arguments of an event handler.

  \<open>g_strsplit\<close> gives an array of its tokens that ends in NULL.  Reading behind the NULL, or
  passing the NULL to a function that wants a string, is \<open>UB\<close>.  The conversions of \<open>atof\<close> and of
  \<open>g_date_time_new\<close> only reach log messages: their arguments are kept instead.
\<close>

record date_time =
  dt_year :: int
  dt_month :: int
  dt_day :: int
  dt_hour :: int
  dt_minute :: int
  dt_seconds :: string

record circ_event =
  ce_code :: int
  ce_line :: string
  ce_circID :: int
  ce_path :: "string option"
  ce_status :: circ_status
  ce_buildFlags :: u32
  ce_purpose :: circ_purpose
  ce_reason :: circ_reason
  ce_createTime :: "date_time option"

record stream_event =
  se_code :: int
  se_line :: string
  se_streamID :: int
  se_circID :: int
  se_targetIP :: u32
  se_targetPort :: u16
  se_status :: stream_status
  se_reason :: stream_reason
  se_remoteReason :: stream_reason
  se_source :: "string option"
  se_sourceIP :: u32
  se_sourcePort :: u16
  se_purpose :: stream_purpose

record orconn_event =
  oe_code :: int
  oe_line :: string
  oe_connID :: int
  oe_target :: string
  oe_status :: orconn_status
  oe_reason :: orconn_reason
  oe_numCircuits :: int

record status_event =
  te_code :: int
  te_line :: string
  te_type :: status_type
  te_severity :: status_severity
  te_action :: string
  te_arguments :: "(string \<times> string option) list"

record cell_stats_event =
  ts_code :: int
  ts_line :: string
  ts_circID :: int
  ts_nextHopCircID :: int
  ts_prevHopCircID :: int
  ts_appProcessed :: int
  ts_appTotalWaitMillis :: int
  ts_appMeanQueueLength :: string
  ts_exitProcessed :: int
  ts_exitTotalWaitMillis :: int
  ts_exitMeanQueueLength :: string

datatype tct_event =
    CircEvent circ_event
  | StreamEvent stream_event
  | ORConnEvent orconn_event
  | BWEvent int string int int
  | ExtendedBWEvent int string string int int int
  | CellStatsEvent cell_stats_event
  | LogEvent int log_severity "string option"
  | StatusEvent status_event
  | GenericEvent int string

section \<open>Reading parameters\<close>

text \<open>One pass over the remaining words of a line, \<open>for(idx = k; parts[idx]; idx++)\<close>.\<close>

fun each_param :: "(string \<Rightarrow> 'e \<Rightarrow> 'e ret) \<Rightarrow> string list \<Rightarrow> 'e \<Rightarrow> 'e ret" where
  "each_param f [] ev = Ret ev"
| "each_param f (p # ps) ev = ret_bind (f p ev) (each_param f ps)"

text \<open>The value behind \<open>=\<close>, for a function that wants a string.\<close>

fun param_value :: "string list \<Rightarrow> (string \<Rightarrow> 'e ret) \<Rightarrow> 'e ret" where
  "param_value (k # v # _) f = f v"
| "param_value _ f = UB"

definition torControl_getCreateTime :: "string \<Rightarrow> date_time ret" where
  "torControl_getCreateTime datetimestamp =
     (case g_strsplit datetimestamp ''T'' 2 of
        [] \<Rightarrow> UB
      | [date] \<Rightarrow> AssertFail
      | date # time # _ \<Rightarrow>
          (case (g_strsplit date ''-'' 3, g_strsplit time '':'' 3) of
             (y # mo # d # _, h # mi # s # _) \<Rightarrow>
               Ret \<lparr>dt_year = atoi y, dt_month = atoi mo, dt_day = atoi d, dt_hour = atoi h, dt_minute = atoi mi,
                    dt_seconds = s\<rparr>
           | _ \<Rightarrow> UB))"

definition torControl_getShortName :: "string \<Rightarrow> string option ret" where
  "torControl_getShortName longname =
     (case g_strsplit longname ''~'' 2 of
        [] \<Rightarrow> UB
      | [nm] \<Rightarrow> Ret None
      | nm # short # _ \<Rightarrow> Ret (Some short))"

definition path_add :: "string \<Rightarrow> string option \<Rightarrow> string option ret" where
  "path_add longname path =
     ret_bind (torControl_getShortName longname) (\<lambda>short.
       Ret (case short of
              None \<Rightarrow> path
            | Some s \<Rightarrow> Some (case path of None \<Rightarrow> s | Some p \<Rightarrow> p @ '','' @ s)))"

definition inet_addr :: "string \<Rightarrow> u32" where
  "inet_addr s = (case inet_aton s of None \<Rightarrow> - 1 | Some a \<Rightarrow> a)"

section \<open>The events\<close>

definition circ_param :: "string \<Rightarrow> circ_event \<Rightarrow> circ_event ret" where
  "circ_param part ev =
     (case g_strsplit part ''='' 2 of
        [] \<Rightarrow> Ret ev
      | key # rest \<Rightarrow>
          if ci_eq key ''BUILD_FLAGS''
          then param_value (key # rest) (\<lambda>v. Ret (ev\<lparr>ce_buildFlags := torControl_getCircBuildFlags v\<rparr>))
          else if ci_eq key ''PURPOSE''
          then param_value (key # rest) (\<lambda>v. Ret (ev\<lparr>ce_purpose := torControl_getCircPurpose v\<rparr>))
          else if ci_eq key ''REASON''
          then param_value (key # rest) (\<lambda>v. Ret (ev\<lparr>ce_reason := torControl_getCircReason v\<rparr>))
          else if ci_eq key ''TIME_CREATED''
          then (if rest = [] then AssertFail
                else param_value (key # rest) (\<lambda>v.
                       ret_bind (torControl_getCreateTime v) (\<lambda>t. Ret (ev\<lparr>ce_createTime := Some t\<rparr>))))
          else if rest = []
          then ret_bind (each_param path_add (g_strsplit key '','' 10) (ce_path ev)) (\<lambda>p. Ret (ev\<lparr>ce_path := p\<rparr>))
          else Ret ev)"

definition torControl_processAsyncCircReply :: "int \<Rightarrow> string \<Rightarrow> circ_event ret" where
  "torControl_processAsyncCircReply code line =
     (case g_strsplit line '' '' 0 of
        ev # circID # status # params \<Rightarrow>
          each_param circ_param params
            \<lparr>ce_code = code, ce_line = line, ce_circID = atoi circID, ce_path = None, ce_status = torControl_getCircStatus status,
             ce_buildFlags = CIRC_BUILD_FLAGS_NONE, ce_purpose = CIRC_PURPOSE_NONE, ce_reason = CIRC_REASON_NONE,
             ce_createTime = None\<rparr>
      | _ \<Rightarrow> UB)"

definition stream_param :: "string \<Rightarrow> stream_event \<Rightarrow> stream_event ret" where
  "stream_param part ev =
     (case g_strsplit part ''='' 2 of
        [] \<Rightarrow> Ret ev
      | key # rest \<Rightarrow>
          if ci_eq key ''REASON''
          then param_value (key # rest) (\<lambda>v. Ret (ev\<lparr>se_reason := torControl_getStreamReason v\<rparr>))
          else if ci_eq key ''REMOTE_REASON''
          then param_value (key # rest) (\<lambda>v. Ret (ev\<lparr>se_remoteReason := torControl_getStreamReason v\<rparr>))
          else if ci_eq key ''SOURCE''
          then Ret (ev\<lparr>se_source := (case rest of [] \<Rightarrow> None | v # _ \<Rightarrow> Some v)\<rparr>)
          else if ci_eq key ''SOURCE_ADDR''
          then param_value (key # rest) (\<lambda>v. Ret ev)
          else if ci_eq key ''PURPOSE''
          then param_value (key # rest) (\<lambda>v. Ret (ev\<lparr>se_purpose := torControl_getStreamPurpose v\<rparr>))
          else Ret ev)"

definition torControl_processAsyncStreamReply :: "int \<Rightarrow> string \<Rightarrow> stream_event ret" where
  "torControl_processAsyncStreamReply code line =
     (case g_strsplit line '' '' 0 of
        ev # streamID # status # circID # tgt # params \<Rightarrow>
          (case g_strsplit tgt '':'' 2 of
             [] \<Rightarrow> UB
           | host # port \<Rightarrow>
               each_param stream_param params
                 \<lparr>se_code = code, se_line = line, se_streamID = atoi streamID, se_circID = atoi circID,
                  se_targetIP = inet_addr host,
                  se_targetPort = (case port of [] \<Rightarrow> 0 | p # _ \<Rightarrow> of_int (atoi p)),
                  se_status = torControl_getStreamStatus status, se_reason = STREAM_REASON_NONE,
                  se_remoteReason = STREAM_REASON_NONE, se_source = None, se_sourceIP = - 1, se_sourcePort = 0,
                  se_purpose = STREAM_PURPOSE_NONE\<rparr>)
      | _ \<Rightarrow> UB)"

definition orconn_param :: "string \<Rightarrow> orconn_event \<Rightarrow> orconn_event ret" where
  "orconn_param part ev =
     (case g_strsplit part ''='' 2 of
        [] \<Rightarrow> Ret ev
      | key # rest \<Rightarrow>
          if ci_eq key ''REASON''
          then param_value (key # rest) (\<lambda>v. Ret (ev\<lparr>oe_reason := torControl_getORConnReason v\<rparr>))
          else if ci_eq key ''NCIRCS''
          then param_value (key # rest) (\<lambda>v. Ret (ev\<lparr>oe_numCircuits := atoi v\<rparr>))
          else if ci_eq key ''ID''
          then param_value (key # rest) (\<lambda>v. Ret (ev\<lparr>oe_connID := atoi v\<rparr>))
          else Ret ev)"

definition torControl_processAsyncORConnReply :: "int \<Rightarrow> string \<Rightarrow> orconn_event ret" where
  "torControl_processAsyncORConnReply code line =
     (case g_strsplit line '' '' 0 of
        ev # tgt # status # params \<Rightarrow>
          ret_bind (each_param orconn_param params
            \<lparr>oe_code = code, oe_line = line, oe_connID = 0, oe_target = tgt, oe_status = torControl_getORConnStatus status,
             oe_reason = ORCONN_REASON_NONE, oe_numCircuits = 0\<rparr>) (\<lambda>oe.
          ret_bind (torControl_getShortName tgt) (\<lambda>short.
            Ret (case short of None \<Rightarrow> oe | Some s \<Rightarrow> oe\<lparr>oe_target := s\<rparr>)))
      | _ \<Rightarrow> UB)"

definition torControl_processAsyncBWReply :: "int \<Rightarrow> string \<Rightarrow> tct_event ret" where
  "torControl_processAsyncBWReply code line =
     (case g_strsplit line '' '' 0 of
        ev # bytesRead # bytesWritten # _ \<Rightarrow> Ret (BWEvent code line (atoi bytesRead) (atoi bytesWritten))
      | _ \<Rightarrow> UB)"

definition torControl_processAsyncExtendedBWReply :: "string \<Rightarrow> int \<Rightarrow> string \<Rightarrow> tct_event ret" where
  "torControl_processAsyncExtendedBWReply type code line =
     (case g_strsplit line '' '' 0 of
        ev # ident # bytesWritten # bytesRead # _ \<Rightarrow>
          Ret (ExtendedBWEvent code line type (atoi ident) (atoi bytesRead) (atoi bytesWritten))
      | _ \<Rightarrow> UB)"

definition torControl_processAsyncCellStatsReply :: "int \<Rightarrow> string \<Rightarrow> cell_stats_event ret" where
  "torControl_processAsyncCellStatsReply code line =
     (case g_strsplit line '' '' 0 of
        ev # circID # prevHop # appP # appW # appQ # nextHop # exitP # exitW # exitQ # _ \<Rightarrow>
          Ret \<lparr>ts_code = code, ts_line = line, ts_circID = atoi circID, ts_nextHopCircID = atoi nextHop,
               ts_prevHopCircID = atoi prevHop, ts_appProcessed = atoi appP, ts_appTotalWaitMillis = atoi appW,
               ts_appMeanQueueLength = appQ, ts_exitProcessed = atoi exitP, ts_exitTotalWaitMillis = atoi exitW,
               ts_exitMeanQueueLength = exitQ\<rparr>
      | _ \<Rightarrow> UB)"

definition torControl_processAsyncLogReply :: "int \<Rightarrow> string \<Rightarrow> tct_event ret" where
  "torControl_processAsyncLogReply code line =
     (case g_strsplit line '' '' 3 of
        [sev, x] \<Rightarrow> Ret (LogEvent code (torControl_getLogSeverity sev) None)
      | sev # x # msg # _ \<Rightarrow> Ret (LogEvent code (torControl_getLogSeverity sev) (Some msg))
      | _ \<Rightarrow> UB)"

text \<open>An empty word gives the key NULL, which \<open>g_str_hash\<close> reads.\<close>

definition status_param :: "string \<Rightarrow> status_event \<Rightarrow> status_event ret" where
  "status_param part ev =
     (case g_strsplit part ''='' 2 of
        [] \<Rightarrow> UB
      | key # rest \<Rightarrow>
          Ret (ev\<lparr>te_arguments := AList.update key (case rest of [] \<Rightarrow> None | v # _ \<Rightarrow> Some v) (te_arguments ev)\<rparr>))"

definition torControl_processAsyncStatusReply :: "int \<Rightarrow> string \<Rightarrow> status_event ret" where
  "torControl_processAsyncStatusReply code line =
     (case g_strsplit line '' '' 0 of
        type # severity # action # params \<Rightarrow>
          each_param status_param params
            \<lparr>te_code = code, te_line = line, te_type = torControl_getStatusType type,
             te_severity = torControl_getStatusSeverity severity, te_action = action, te_arguments = []\<rparr>
      | _ \<Rightarrow> UB)"

end
