(* ===== verification/Torctl_Circuit_Build.thy ===== *)
theory Torctl_Circuit_Build
  imports Torctl_Events
begin

text \<open>
  The module that builds circuits and attaches streams to them
  (\<open>torcontrol/torcontrol-circuitbuild.c\<close>).
\<close>

text \<open>\<open>TORCTL_CODE_TYPE\<close>: the division of C, towards zero.\<close>

definition TORCTL_CODE_TYPE :: "int \<Rightarrow> int" where
  "TORCTL_CODE_TYPE code = (if code < 0 then - ((- code) div 100) else code div 100)"

type_synonym cb_ctx = "circuit_build mod_ctx"

definition cb_sent :: "(fd \<Rightarrow> (int, tct_ctx) act) \<Rightarrow> cb_state \<Rightarrow> bool \<Rightarrow> (bool, cb_ctx) act" where
  "cb_sent cmd nextState finished =
     with_data (\<lambda>cb. act_bind (on_ctx (cmd (cb_sockd cb))) (\<lambda>n.
       if 0 < n
       then act_then (on_data (\<lambda>cb. cb\<lparr>cb_nextState := nextState, cb_waiting := True\<rparr>)) (act_return finished)
       else act_return False))"

definition cb_confValues :: "(string \<times> string) list" where
  "cb_confValues = [(''__LeaveStreamsUnattached'', ''1''), (''ExcludeSingleHopRelays'', ''0''), (''AllowSingleHopCircuits'', ''1'')]"

definition torControlCircuitBuild_initialize :: "(bool, cb_ctx) act" where
  "torControlCircuitBuild_initialize =
     with_data (\<lambda>cb.
       if cb_waiting cb then act_return False
       else case cb_state cb of
         CIRCBUILD_AUTHENTICATE \<Rightarrow> cb_sent (\<lambda>sd. torControl_authenticate sd ''password'') CIRCBUILD_SETCONFS False
       | CIRCBUILD_SETCONFS \<Rightarrow> cb_sent (\<lambda>sd. torControl_setconf sd cb_confValues) CIRCBUILD_SETEVENTS False
       | CIRCBUILD_SETEVENTS \<Rightarrow>
           cb_sent (\<lambda>sd. torControl_setevents sd ''CIRC STREAM STATUS_CLIENT'') CIRCBUILD_CHECKSTATUS False
       | CIRCBUILD_CHECKSTATUS \<Rightarrow> cb_sent torControl_getInfoBootstrapStatus CIRCBUILD_CREATE_CIRCUIT True
       | CIRCBUILD_CREATE_CIRCUIT \<Rightarrow> act_return False
       | CIRCBUILD_GET_CIRC_ID \<Rightarrow> act_return False
       | CIRCBUILD_ATTACH_STREAMS \<Rightarrow> act_return False)"

text \<open>\<open>torControl_buildCircuit(circuitBuild->sockd, circuit->relays)\<close>; the result is not looked at.\<close>

definition cb_build :: "nat \<Rightarrow> (unit, cb_ctx) act" where
  "cb_build i =
     with_data (\<lambda>cb. act_bind (on_ctx (torControl_buildCircuit (cb_sockd cb) (ci_relays (cb_circuits cb ! i))))
       (\<lambda>_. act_return ()))"

definition cb_goto :: "cb_state \<Rightarrow> (unit, cb_ctx) act" where
  "cb_goto st = on_data (\<lambda>cb. cb\<lparr>cb_state := st\<rparr>)"

definition cb_find :: "(circuit \<Rightarrow> bool) \<Rightarrow> circuit_build \<Rightarrow> nat option" where
  "cb_find P cb = find (\<lambda>i. P (cb_circuits cb ! i)) [0..<length (cb_circuits cb)]"

definition torControlCircuitBuild_circEvent :: "circ_event \<Rightarrow> (unit, cb_ctx) act" where
  "torControlCircuitBuild_circEvent ev =
     (if ce_status ev = CIRC_STATUS_CLOSED
      then with_data (\<lambda>cb.
        case cb_find (\<lambda>c. ci_circID c = ce_circID ev) cb of
          None \<Rightarrow> act_return ()
        | Some i \<Rightarrow>
            act_then (on_data (\<lambda>cb. cb\<lparr>cb_circuitsToBuild := cb_circuitsToBuild cb @ [i]\<rparr>))
              (act_then (with_data (\<lambda>cb. if length (cb_circuitsToBuild cb) = 1 then cb_build i else act_return ()))
                 (cb_goto CIRCBUILD_GET_CIRC_ID)))
      else act_return ())"

definition ci_covers :: "int \<Rightarrow> circuit \<Rightarrow> bool" where
  "ci_covers now c \<longleftrightarrow> ci_startTime c \<le> now \<and> (now < ci_endTime c \<or> ci_endTime c = -1)"

definition torControlCircuitBuild_streamEvent :: "stream_event \<Rightarrow> (unit, cb_ctx) act" where
  "torControlCircuitBuild_streamEvent ev =
     with_data (\<lambda>cb.
       if se_status ev = STREAM_STATUS_NEW \<and> cb_bootstrapped cb
       then act_bind (on_ctx (\<lambda>(tc, w). case clock_gettime w of (now, w1) \<Rightarrow> (Ret now, tc, w1))) (\<lambda>now.
              act_bind (on_ctx (torControl_attachStream (cb_sockd cb) (se_streamID ev)
                (case cb_find (ci_covers (tv_sec now)) cb of None \<Rightarrow> 0 | Some i \<Rightarrow> ci_circID (cb_circuits cb ! i))))
              (\<lambda>_. act_return ()))
       else act_return ())"

definition torControlCircuitBuild_statusEvent :: "status_event \<Rightarrow> (unit, cb_ctx) act" where
  "torControlCircuitBuild_statusEvent ev =
     (if te_type ev = STATUS_TYPE_CLIENT \<and> ci_eq (te_action ev) ''BOOTSTRAP''
      then case map_of (te_arguments ev) ''PROGRESS'' of
             Some (Some progress) \<Rightarrow>
               if ci_eq progress ''100''
               then act_then (on_data (\<lambda>cb. cb\<lparr>cb_bootstrapped := True\<rparr>))
                      (with_data (\<lambda>cb. case cb_circuitsToBuild cb of
                         [] \<Rightarrow> act_return ()
                       | i # _ \<Rightarrow> act_then (cb_build i) (cb_goto CIRCBUILD_GET_CIRC_ID)))
               else act_return ()
           | _ \<Rightarrow> act_return ()
      else act_return ())"

text \<open>In \<open>CHECKSTATUS\<close> the head of an empty queue is NULL and is dereferenced.\<close>

definition cb_check_status :: "user_data option \<Rightarrow> (unit, cb_ctx) act" where
  "cb_check_status userData =
     (case userData of
        None \<Rightarrow> act_return ()
      | Some ud \<Rightarrow>
          if ud_first_int ud = 100
          then act_then (on_data (\<lambda>cb. cb\<lparr>cb_bootstrapped := True\<rparr>))
                 (with_data (\<lambda>cb. case cb_circuitsToBuild cb of
                    [] \<Rightarrow> act_fail UB
                  | i # _ \<Rightarrow> act_then (cb_build i) (cb_goto CIRCBUILD_GET_CIRC_ID)))
          else cb_goto CIRCBUILD_CREATE_CIRCUIT)"

text \<open>Any \<open>userData\<close> is taken for the answer to \<open>EXTENDCIRCUIT\<close>.\<close>

definition cb_get_circ_id :: "user_data option \<Rightarrow> (unit, cb_ctx) act" where
  "cb_get_circ_id userData =
     (case userData of
        None \<Rightarrow> act_return ()
      | Some ud \<Rightarrow>
          act_then (cb_goto CIRCBUILD_ATTACH_STREAMS)
            (with_data (\<lambda>cb. case cb_circuitsToBuild cb of
               [] \<Rightarrow> act_fail UB
             | i # q \<Rightarrow>
                 act_then (on_data (\<lambda>cb. cb\<lparr>cb_circuitsToBuild := q,
                     cb_circuits := (cb_circuits cb)[i := (cb_circuits cb ! i)\<lparr>ci_circID := ud_first_int ud\<rparr>]\<rparr>))
                   (case q of
                      [] \<Rightarrow> act_return ()
                    | j # _ \<Rightarrow> act_then (cb_build j) (cb_goto CIRCBUILD_GET_CIRC_ID)))))"

definition cb_success :: "user_data option \<Rightarrow> (unit, cb_ctx) act" where
  "cb_success userData =
     with_data (\<lambda>cb. case cb_state cb of
         CIRCBUILD_AUTHENTICATE \<Rightarrow> on_data (\<lambda>cb. cb\<lparr>cb_state := cb_nextState cb, cb_waiting := False\<rparr>)
       | CIRCBUILD_SETCONFS \<Rightarrow> on_data (\<lambda>cb. cb\<lparr>cb_state := cb_nextState cb, cb_waiting := False\<rparr>)
       | CIRCBUILD_SETEVENTS \<Rightarrow> on_data (\<lambda>cb. cb\<lparr>cb_state := cb_nextState cb, cb_waiting := False\<rparr>)
       | CIRCBUILD_CHECKSTATUS \<Rightarrow> cb_check_status userData
       | CIRCBUILD_GET_CIRC_ID \<Rightarrow> cb_get_circ_id userData
       | CIRCBUILD_CREATE_CIRCUIT \<Rightarrow> act_return ()
       | CIRCBUILD_ATTACH_STREAMS \<Rightarrow> act_return ())"

definition torControlCircuitBuild_responseEvent :: "reply_line list \<Rightarrow> user_data option \<Rightarrow> (unit, cb_ctx) act" where
  "torControlCircuitBuild_responseEvent reply userData =
     (case reply of
        [] \<Rightarrow> act_fail UB
      | rl # _ \<Rightarrow>
          if TORCTL_CODE_TYPE (rl_code rl) = 2
          then act_then (cb_success userData) (act_bind torControlCircuitBuild_initialize (\<lambda>_. act_return ()))
          else act_return ())"

text \<open>
  \<open>time:hop1,hop2,hop3\<close> or \<open>hop1,hop2,hop3\<close>.  Of an empty argument \<open>g_strsplit\<close> makes no parts,
  and the one behind the NULL is read.
\<close>

definition cb_circuit :: "string \<Rightarrow> circuit ret" where
  "cb_circuit arg =
     (case g_strsplit arg '':'' 2 of
        [] \<Rightarrow> UB
      | [relays] \<Rightarrow> Ret \<lparr>ci_startTime = 0, ci_endTime = -1, ci_relays = relays, ci_circID = -1\<rparr>
      | time # relays # _ \<Rightarrow>
          Ret \<lparr>ci_startTime = atoi time, ci_endTime = -1, ci_relays = relays, ci_circID = -1\<rparr>)"

fun cb_end_times :: "circuit list \<Rightarrow> circuit list" where
  "cb_end_times (c # d # cs) = c\<lparr>ci_endTime := ci_startTime d\<rparr> # cb_end_times (d # cs)"
| "cb_end_times cs = cs"

fun cb_circuits_of :: "string list \<Rightarrow> circuit list ret" where
  "cb_circuits_of [] = Ret []"
| "cb_circuits_of (a # as) = ret_bind (cb_circuit a) (\<lambda>c. ret_bind (cb_circuits_of as) (\<lambda>cs. Ret (c # cs)))"

text \<open>\<open>moduleArgs\<close> may be NULL.\<close>

definition torControlCircuitBuild_new :: "fd \<Rightarrow> string list option \<Rightarrow> circuit_build option ret" where
  "torControlCircuitBuild_new sockd moduleArgs =
     (case moduleArgs of
        None \<Rightarrow> AssertFail
      | Some [] \<Rightarrow> Ret None
      | Some args \<Rightarrow>
          ret_bind (cb_circuits_of args) (\<lambda>cs.
            Ret (Some \<lparr>cb_bootstrapped = False, cb_circuits = cb_end_times cs, cb_circuitsToBuild = [0..<length cs],
                       cb_sockd = sockd, cb_waiting = False, cb_state = CIRCBUILD_AUTHENTICATE,
                       cb_nextState = CIRCBUILD_AUTHENTICATE\<rparr>)))"

end
