(* ===== verification/Torctl_Logger.thy ===== *)
theory Torctl_Logger
  imports Torctl_Circuit_Build
begin

text \<open>
  The module that subscribes to events and logs them (\<open>torcontrol/torcontrol-logger.c\<close>).
\<close>

type_synonym lg_ctx = "tc_logger mod_ctx"

text \<open>One pass through the \<open>switch\<close>; \<open>None\<close> is \<open>goto beginmanage\<close>.\<close>

definition lg_sent :: "(fd \<Rightarrow> (int, tct_ctx) act) \<Rightarrow> tcl_state \<Rightarrow> (bool option, lg_ctx) act" where
  "lg_sent cmd nextState =
     with_data (\<lambda>lg. act_bind (on_ctx (cmd (lg_targetSockd lg))) (\<lambda>n.
       if 0 < n
       then act_then (on_data (\<lambda>lg. lg\<lparr>lg_state := TCLS_IDLE, lg_nextState := nextState\<rparr>)) (act_return (Some False))
       else act_return (Some False)))"

definition lg_pass :: "(bool option, lg_ctx) act" where
  "lg_pass =
     with_data (\<lambda>lg. case lg_state lg of
         TCLS_SEND_AUTHENTICATE \<Rightarrow> lg_sent (\<lambda>sd. torControl_authenticate sd ''password'') TCLS_RECV_AUTHENTICATE
       | TCLS_RECV_AUTHENTICATE \<Rightarrow> act_then (on_data (\<lambda>lg. lg\<lparr>lg_state := TCLS_SEND_SETEVENTS\<rparr>)) (act_return None)
       | TCLS_SEND_SETEVENTS \<Rightarrow> lg_sent (\<lambda>sd. torControl_setevents sd (lg_torctlEvents lg)) TCLS_RECV_SETEVENTS
       | TCLS_RECV_SETEVENTS \<Rightarrow>
           act_then (on_data (\<lambda>lg. lg\<lparr>lg_state := TCLS_IDLE, lg_nextState := TCLS_IDLE\<rparr>)) (act_return None)
       | TCLS_IDLE \<Rightarrow> act_return (Some (lg_nextState lg = TCLS_IDLE)))"

text \<open>The state after a jump does not jump again.\<close>

definition torcontrollogger_manageState :: "(bool, lg_ctx) act" where
  "torcontrollogger_manageState =
     act_bind lg_pass (\<lambda>r. case r of
         Some b \<Rightarrow> act_return b
       | None \<Rightarrow> act_bind lg_pass (\<lambda>r2. case r2 of Some b \<Rightarrow> act_return b | None \<Rightarrow> act_fail UB))"

lemma lg_sent_no_jump: "fst (lg_sent c n x) \<noteq> Ret None"
  by (auto simp: lg_sent_def with_data_def act_bind_def act_then_def act_return_def on_data_def act_update_def
      split: prod.splits ret.splits if_splits)

lemma lg_pass_once:
  assumes "lg_pass s = (Ret None, t)"
  shows "fst (lg_pass t) \<noteq> Ret None"
  using assms lg_sent_no_jump [of _ _ s] lg_sent_no_jump [of _ _ t]
  by (cases s; cases "lg_state (fst s)")
     (auto simp: lg_pass_def with_data_def act_then_def act_bind_def act_return_def on_data_def act_update_def
       dest: arg_cong [of _ _ fst])

definition torcontrollogger_handleResponseEvent :: "reply_line list \<Rightarrow> user_data option \<Rightarrow> (unit, lg_ctx) act" where
  "torcontrollogger_handleResponseEvent reply userData =
     (case reply of
        [] \<Rightarrow> act_fail UB
      | rl # _ \<Rightarrow>
          if TORCTL_CODE_TYPE (rl_code rl) = 2
          then act_then (on_data (\<lambda>lg. lg\<lparr>lg_state := lg_nextState lg\<rparr>))
                 (act_bind torcontrollogger_manageState (\<lambda>_. act_return ()))
          else act_return ())"

definition torcontrollogger_handleEvents :: "int \<Rightarrow> string \<Rightarrow> (unit, lg_ctx) act" where
  "torcontrollogger_handleEvents code line =
     with_data (\<lambda>lg. on_ctx (act_update (\<lambda>(tc, w).
       (tc\<lparr>tct_logged := tct_logged tc @ [(lg_targetHostname lg, lg_targetPort lg, line)]\<rparr>, w))))"

definition ascii_upper :: "char \<Rightarrow> char" where
  "ascii_upper c =
     (if 97 \<le> (of_char c :: nat) \<and> (of_char c :: nat) \<le> 122 then char_of ((of_char c :: nat) - 32) else c)"

definition torcontrollogger_new :: "string \<Rightarrow> u16 \<Rightarrow> fd \<Rightarrow> string list option \<Rightarrow> tc_logger option ret" where
  "torcontrollogger_new hostname port sockd moduleArgs =
     (case moduleArgs of
        None \<Rightarrow> UB
      | Some [] \<Rightarrow> Ret None
      | Some (ev # _) \<Rightarrow>
          Ret (Some \<lparr>lg_state = TCLS_SEND_AUTHENTICATE, lg_nextState = TCLS_IDLE, lg_targetHostname = hostname,
                     lg_targetPort = port, lg_targetSockd = sockd,
                     lg_torctlEvents = map (\<lambda>c. if c = CHR '','' then CHR '' '' else c) (map ascii_upper ev)\<rparr>))"

end
