(* ===== verification/Torctl_Pinger.thy ===== *)
theory Torctl_Pinger
  imports Torctl_Logger
begin

text \<open>
  The module that measures a relay (\<open>torcontrol/torcontrol-pinger.c\<close>): a ping is a circuit of one
  hop, built, timed and closed.
\<close>

type_synonym pn_ctx = "tc_pinger mod_ctx"

definition torcontrolpinger_doPingCallback :: "(unit, pn_ctx) act" where
  "torcontrolpinger_doPingCallback =
     with_data (\<lambda>pn. act_bind (on_ctx (torControl_buildCircuit (pn_targetSockd pn) (pn_pingRelay pn))) (\<lambda>_. act_return ()))"

definition pn_sent :: "(fd \<Rightarrow> (int, tct_ctx) act) \<Rightarrow> tcp_state \<Rightarrow> (bool option, pn_ctx) act" where
  "pn_sent cmd nextState =
     with_data (\<lambda>pn. act_bind (on_ctx (cmd (pn_targetSockd pn))) (\<lambda>n.
       if 0 < n
       then act_then (on_data (\<lambda>pn. pn\<lparr>pn_state := TCPS_IDLE, pn_nextState := nextState\<rparr>)) (act_return (Some False))
       else act_return (Some False)))"

definition pn_pass :: "(bool option, pn_ctx) act" where
  "pn_pass =
     with_data (\<lambda>pn. case pn_state pn of
         TCPS_SEND_AUTHENTICATE \<Rightarrow> pn_sent (\<lambda>sd. torControl_authenticate sd ''password'') TCPS_RECV_AUTHENTICATE
       | TCPS_RECV_AUTHENTICATE \<Rightarrow> act_then (on_data (\<lambda>pn. pn\<lparr>pn_state := TCPS_SEND_SETEVENTS\<rparr>)) (act_return None)
       | TCPS_SEND_SETEVENTS \<Rightarrow> pn_sent (\<lambda>sd. torControl_setevents sd ''CIRC'') TCPS_RECV_SETEVENTS
       | TCPS_RECV_SETEVENTS \<Rightarrow>
           act_then (on_data (\<lambda>pn. pn\<lparr>pn_state := TCPS_IDLE, pn_nextState := TCPS_IDLE\<rparr>))
             (act_then torcontrolpinger_doPingCallback (act_return None))
       | TCPS_IDLE \<Rightarrow> act_return (Some (pn_nextState pn = TCPS_IDLE)))"

text \<open>The state after a jump does not jump again.\<close>

definition torcontrolpinger_manageState :: "(bool, pn_ctx) act" where
  "torcontrolpinger_manageState =
     act_bind pn_pass (\<lambda>r. case r of
         Some b \<Rightarrow> act_return b
       | None \<Rightarrow> act_bind pn_pass (\<lambda>r2. case r2 of Some b \<Rightarrow> act_return b | None \<Rightarrow> act_fail UB))"

definition pn_now :: "(timespec, pn_ctx) act" where
  "pn_now = on_ctx (\<lambda>(tc, w). case clock_gettime w of (now, w1) \<Rightarrow> (Ret now, tc, w1))"

text \<open>\<open>parts[0]\<close> may be NULL here: \<open>g_strcmp0\<close> takes it.\<close>

definition pn_started :: "string \<Rightarrow> (unit, pn_ctx) act" where
  "pn_started body =
     (case g_strsplit body '' '' 10 of
        [] \<Rightarrow> act_return ()
      | word # rest \<Rightarrow>
          if word = ''EXTENDED''
          then act_bind pn_now (\<lambda>now. case rest of
                 [] \<Rightarrow> act_fail UB
               | circ # _ \<Rightarrow>
                   on_data (\<lambda>pn. pn\<lparr>pn_outstandingPings := AList.update (atoi circ) now (pn_outstandingPings pn)\<rparr>))
          else act_return ())"

definition torcontrolpinger_handleResponseEvent :: "reply_line list \<Rightarrow> user_data option \<Rightarrow> (unit, pn_ctx) act" where
  "torcontrolpinger_handleResponseEvent reply userData =
     (case reply of
        [] \<Rightarrow> act_fail UB
      | rl # _ \<Rightarrow>
          if TORCTL_CODE_TYPE (rl_code rl) = 2
          then act_then (pn_started (rl_body rl))
                 (act_then (on_data (\<lambda>pn. pn\<lparr>pn_state := pn_nextState pn\<rparr>))
                    (act_bind torcontrolpinger_manageState (\<lambda>_. act_return ())))
          else act_return ())"

text \<open>
  When the circuit is up, its path is printed; without one that is a NULL dereference.
  The difference to a creation time, which may be missing, is only printed.
\<close>

definition pn_ended :: "circ_status \<Rightarrow> bool" where
  "pn_ended st \<longleftrightarrow> st = CIRC_STATUS_EXTENDED \<or> st = CIRC_STATUS_FAILED \<or> st = CIRC_STATUS_CLOSED"

definition torcontrolpinger_handleCircEvent :: "circ_event \<Rightarrow> (unit, pn_ctx) act" where
  "torcontrolpinger_handleCircEvent ev =
     with_data (\<lambda>pn.
       if map_of (pn_outstandingPings pn) (ce_circID ev) = None then act_return ()
       else act_then
         (if ce_status ev = CIRC_STATUS_EXTENDED
          then act_bind pn_now (\<lambda>_. if ce_path ev = None then act_fail UB else act_return ())
          else act_return ())
         (if pn_ended (ce_status ev)
          then act_then (on_data (\<lambda>pn. pn\<lparr>pn_outstandingPings := AList.delete (ce_circID ev) (pn_outstandingPings pn)\<rparr>))
                 (act_bind (on_ctx (torControl_closeCircuit (pn_targetSockd pn) (ce_circID ev))) (\<lambda>_.
                    on_ctx (act_update (\<lambda>(tc, w).
                      (tc\<lparr>tct_callbacks := tct_callbacks tc @ [(pn_targetSockd pn, 1000)]\<rparr>, w)))))
          else act_return ()))"

definition torcontrolpinger_new :: "string \<Rightarrow> u16 \<Rightarrow> fd \<Rightarrow> string list option \<Rightarrow> tc_pinger option ret" where
  "torcontrolpinger_new hostname port sockd moduleArgs =
     (case moduleArgs of
        None \<Rightarrow> UB
      | Some [] \<Rightarrow> Ret None
      | Some (relay # _) \<Rightarrow>
          Ret (Some \<lparr>pn_state = TCPS_SEND_AUTHENTICATE, pn_nextState = TCPS_IDLE, pn_targetHostname = hostname,
                     pn_targetPort = port, pn_targetSockd = sockd, pn_pingRelay = relay, pn_outstandingPings = []\<rparr>))"

end
