(* ===== verification/Torctl.thy ===== *)
theory Torctl
  imports Torctl_Pinger
begin

text \<open>
  The controller (\<open>torcontrol/torcontrol.c\<close>, lines 383 to 502, 712 to 813 and 918 to 1114): it
  keeps a connection to each control port, cuts what arrives into reply lines, and hands replies
  and events to the connection's module.
\<close>

section \<open>Modules\<close>

datatype tct_handler =
    HCirc | HStream | HORConn | HBW | HExtendedBW | HCellStats | HLog | HStatus | HGeneric

text \<open>Which of its event handlers a module sets.\<close>

fun tct_handles :: "tc_module \<Rightarrow> tct_handler \<Rightarrow> bool" where
  "tct_handles (CircuitBuild cb) h \<longleftrightarrow> h = HCirc \<or> h = HStream \<or> h = HStatus"
| "tct_handles (Logger lg) h \<longleftrightarrow> h = HGeneric"
| "tct_handles (Pinger pn) h \<longleftrightarrow> h = HCirc"

type_synonym md_ctx = "tc_module mod_ctx"

definition on_circuit_build :: "('a, cb_ctx) act \<Rightarrow> circuit_build \<Rightarrow> ('a, md_ctx) act" where
  "on_circuit_build m cb = (\<lambda>(_, x). case m (cb, x) of (r, cb1, y) \<Rightarrow> (r, CircuitBuild cb1, y))"

definition on_logger :: "('a, lg_ctx) act \<Rightarrow> tc_logger \<Rightarrow> ('a, md_ctx) act" where
  "on_logger m lg = (\<lambda>(_, x). case m (lg, x) of (r, lg1, y) \<Rightarrow> (r, Logger lg1, y))"

definition on_pinger :: "('a, pn_ctx) act \<Rightarrow> tc_pinger \<Rightarrow> ('a, md_ctx) act" where
  "on_pinger m pn = (\<lambda>(_, x). case m (pn, x) of (r, pn1, y) \<Rightarrow> (r, Pinger pn1, y))"

definition md_initialize :: "(bool, md_ctx) act" where
  "md_initialize = with_data (\<lambda>md. case md of
       CircuitBuild cb \<Rightarrow> on_circuit_build torControlCircuitBuild_initialize cb
     | Logger lg \<Rightarrow> on_logger torcontrollogger_manageState lg
     | Pinger pn \<Rightarrow> on_pinger torcontrolpinger_manageState pn)"

definition md_response :: "reply_line list \<Rightarrow> user_data option \<Rightarrow> (unit, md_ctx) act" where
  "md_response reply ud = with_data (\<lambda>md. case md of
       CircuitBuild cb \<Rightarrow> on_circuit_build (torControlCircuitBuild_responseEvent reply ud) cb
     | Logger lg \<Rightarrow> on_logger (torcontrollogger_handleResponseEvent reply ud) lg
     | Pinger pn \<Rightarrow> on_pinger (torcontrolpinger_handleResponseEvent reply ud) pn)"

text \<open>A handler that is not set is a NULL function.\<close>

definition md_event :: "tct_event \<Rightarrow> (unit, md_ctx) act" where
  "md_event ev = with_data (\<lambda>md. case (md, ev) of
       (CircuitBuild cb, CircEvent e) \<Rightarrow> on_circuit_build (torControlCircuitBuild_circEvent e) cb
     | (CircuitBuild cb, StreamEvent e) \<Rightarrow> on_circuit_build (torControlCircuitBuild_streamEvent e) cb
     | (CircuitBuild cb, StatusEvent e) \<Rightarrow> on_circuit_build (torControlCircuitBuild_statusEvent e) cb
     | (Logger lg, GenericEvent code line) \<Rightarrow> on_logger (torcontrollogger_handleEvents code line) lg
     | (Pinger pn, CircEvent e) \<Rightarrow> on_pinger (torcontrolpinger_handleCircEvent e) pn
     | _ \<Rightarrow> act_fail UB)"

text \<open>The module of a connection at work; its data is a part of the connection.\<close>

definition on_module :: "fd \<Rightarrow> ('a, md_ctx) act \<Rightarrow> ('a, tct_ctx) act" where
  "on_module sockd m = (\<lambda>(tc, w).
     case map_of (tct_connections tc) sockd of
       None \<Rightarrow> (UB, tc, w)
     | Some cn \<Rightarrow>
         (case m (cn_module cn, tc, w) of (r, md, tc1, w1) \<Rightarrow>
            (r, tct_conn_update sockd (\<lambda>c. c\<lparr>cn_module := md\<rparr>) tc1, w1)))"

section \<open>Replies\<close>

fun phase_params :: "string list \<Rightarrow> int \<times> string option \<Rightarrow> (int \<times> string option) ret" where
  "phase_params [] ph = Ret ph"
| "phase_params (p # ps) (progress, summary) =
     (case g_strsplit p ''='' 2 of
        [] \<Rightarrow> phase_params ps (progress, summary)
      | key # rest \<Rightarrow>
          if key = ''PROGRESS''
          then (case rest of [] \<Rightarrow> UB | v # _ \<Rightarrow> phase_params ps (atoi v, summary))
          else if key = ''SUMMARY''
          then phase_params ps (progress, case rest of [] \<Rightarrow> None | v # _ \<Rightarrow> Some v)
          else phase_params ps (progress, summary))"

definition reply_user_data :: "reply_line \<Rightarrow> user_data option ret" where
  "reply_user_data rl =
     (if cs_prefix ''EXTENDED'' (rl_body rl)
      then (case g_strsplit (rl_body rl) '' '' 0 of
              _ # circID # _ \<Rightarrow> Ret (Some (ReplyExtended (atoi circID)))
            | _ \<Rightarrow> UB)
      else if cs_prefix ''status/bootstrap-phase'' (rl_body rl)
      then ret_bind (phase_params (g_strsplit (rl_body rl) '' '' 0) (0, None)) (\<lambda>(progress, summary).
             Ret (Some (BootstrapPhase progress summary)))
      else Ret None)"

definition reply_response :: "fd \<Rightarrow> reply_line list \<Rightarrow> reply_line \<Rightarrow> (unit, tct_ctx) act" where
  "reply_response sockd reply rl =
     (case reply_user_data rl of
        Ret ud \<Rightarrow> on_module sockd (md_response reply ud)
      | AssertFail \<Rightarrow> act_fail AssertFail
      | UB \<Rightarrow> act_fail UB)"

text \<open>The chain of tests for the handler of an event; the name is NULL for an empty line.\<close>

definition event_handler :: "(tct_handler \<Rightarrow> bool) \<Rightarrow> string \<Rightarrow> tct_handler option" where
  "event_handler sets event =
     (if sets HCirc \<and> ci_eq event ''CIRC'' then Some HCirc
      else if sets HStream \<and> ci_eq event ''STREAM'' then Some HStream
      else if sets HORConn \<and> ci_eq event ''ORCONN'' then Some HORConn
      else if sets HBW \<and> ci_eq event ''BW'' then Some HBW
      else if sets HExtendedBW \<and> (ci_eq event ''STREAM_BW'' \<or> ci_eq event ''ORCONN_BW''
             \<or> ci_eq event ''DIRCONN_BW'' \<or> ci_eq event ''EXITCONN_BW'') then Some HExtendedBW
      else if sets HCellStats \<and> ci_eq event ''CELL_STATS'' then Some HCellStats
      else if sets HLog \<and> (ci_eq event ''DEBUG'' \<or> ci_eq event ''INFO'' \<or> ci_eq event ''NOTICE''
             \<or> ci_eq event ''WARN'' \<or> ci_eq event ''ERR'') then Some HLog
      else if sets HStatus \<and> ci_eq event ''STATUS_CLIENT'' then Some HStatus
      else if sets HGeneric then Some HGeneric
      else None)"

definition typed_handler :: "(tct_handler \<Rightarrow> bool) \<Rightarrow> bool" where
  "typed_handler sets \<longleftrightarrow>
     sets HCirc \<or> sets HStream \<or> sets HORConn \<or> sets HBW \<or> sets HExtendedBW \<or> sets HCellStats \<or> sets HLog \<or> sets HStatus"

fun event_args :: "tct_handler \<Rightarrow> string \<Rightarrow> int \<Rightarrow> string \<Rightarrow> tct_event ret" where
  "event_args HCirc event code line = ret_bind (torControl_processAsyncCircReply code line) (\<lambda>e. Ret (CircEvent e))"
| "event_args HStream event code line = ret_bind (torControl_processAsyncStreamReply code line) (\<lambda>e. Ret (StreamEvent e))"
| "event_args HORConn event code line = ret_bind (torControl_processAsyncORConnReply code line) (\<lambda>e. Ret (ORConnEvent e))"
| "event_args HBW event code line = torControl_processAsyncBWReply code line"
| "event_args HExtendedBW event code line = torControl_processAsyncExtendedBWReply event code line"
| "event_args HCellStats event code line =
     ret_bind (torControl_processAsyncCellStatsReply code line) (\<lambda>e. Ret (CellStatsEvent e))"
| "event_args HLog event code line = torControl_processAsyncLogReply code line"
| "event_args HStatus event code line = ret_bind (torControl_processAsyncStatusReply code line) (\<lambda>e. Ret (StatusEvent e))"
| "event_args HGeneric event code line = Ret (GenericEvent code line)"

definition reply_event :: "int \<Rightarrow> string \<Rightarrow> (unit, md_ctx) act" where
  "reply_event code line =
     with_data (\<lambda>md.
       let sets = tct_handles md;
           handler = (case g_strsplit line '' '' 0 of
                        [] \<Rightarrow> if typed_handler sets then UB else Ret ([], if sets HGeneric then Some HGeneric else None)
                      | event # _ \<Rightarrow> Ret (event, event_handler sets event))
       in case handler of
            Ret (event, Some h) \<Rightarrow>
              (case event_args h event code line of
                 Ret e \<Rightarrow> md_event e | AssertFail \<Rightarrow> act_fail AssertFail | UB \<Rightarrow> act_fail UB)
          | Ret (event, None) \<Rightarrow> act_return ()
          | AssertFail \<Rightarrow> act_fail AssertFail
          | UB \<Rightarrow> act_fail UB)"

definition torControl_processReply :: "fd \<Rightarrow> reply_line list \<Rightarrow> (unit, tct_ctx) act" where
  "torControl_processReply sockd reply =
     (case reply of
        [] \<Rightarrow> act_fail UB
      | rl # _ \<Rightarrow>
          (let t = TORCTL_CODE_TYPE (rl_code rl) in
           if t = 2 \<or> t = 4 \<or> t = 5 then act_each (reply_response sockd reply) reply
           else if t = 6 then on_module sockd (reply_event (rl_code rl) (rl_body rl))
           else act_return ()))"

section \<open>Reading\<close>

definition on_conn :: "fd \<Rightarrow> (tc_conn \<Rightarrow> tc_conn) \<Rightarrow> (unit, tct_ctx) act" where
  "on_conn sockd f = act_update (\<lambda>(tc, w). (tct_conn_update sockd f tc, w))"

definition with_conn :: "fd \<Rightarrow> (tc_conn \<Rightarrow> ('a, tct_ctx) act) \<Rightarrow> ('a, tct_ctx) act" where
  "with_conn sockd f = (\<lambda>s. case map_of (tct_connections (fst s)) sockd of None \<Rightarrow> (UB, s) | Some cn \<Rightarrow> f cn s)"

text \<open>Handing on a complete reply and forgetting it.\<close>

definition reply_complete :: "fd \<Rightarrow> (unit, tct_ctx) act" where
  "reply_complete sockd =
     act_then (with_conn sockd (\<lambda>cn. torControl_processReply sockd (cn_reply cn)))
       (on_conn sockd (\<lambda>c. c\<lparr>cn_reply := []\<rparr>))"

text \<open>A line of a reply: three digits, a separator and the body, which begins at the fifth character.\<close>

definition reply_first :: "fd \<Rightarrow> string \<Rightarrow> (unit, tct_ctx) act" where
  "reply_first sockd line =
     (if length line < 4 then act_fail UB
      else act_then (on_conn sockd (\<lambda>c. c\<lparr>cn_reply := cn_reply c @
               [\<lparr>rl_code = atoi line, rl_body = drop 4 line, rl_data = []\<rparr>]\<rparr>))
             (if line ! 3 = CHR ''+'' then on_conn sockd (\<lambda>c. c\<lparr>cn_readingData := True\<rparr>)
              else if line ! 3 = CHR '' '' then reply_complete sockd
              else act_return ()))"

definition data_end :: "string \<Rightarrow> bool" where
  "data_end line \<longleftrightarrow>
     ci_eq line (''.'' @ crlf) \<or> ci_eq line (''650 OK'' @ crlf) \<or> ci_eq line (''.'' @ [LF]) \<or> ci_eq line (''650 OK'' @ [LF])"

definition reply_data :: "fd \<Rightarrow> string \<Rightarrow> (unit, tct_ctx) act" where
  "reply_data sockd line =
     with_conn sockd (\<lambda>cn.
       if cn_reply cn = [] then act_fail UB
       else if data_end line
       then act_then (on_conn sockd (\<lambda>c. c\<lparr>cn_readingData := False\<rparr>))
              (if 600 \<le> \<bar>rl_code (last (cn_reply cn))\<bar> then reply_complete sockd else act_return ())
       else on_conn sockd (\<lambda>c. c\<lparr>cn_reply := butlast (cn_reply c) @
              [(last (cn_reply c))\<lparr>rl_data := rl_data (last (cn_reply c)) @ [line]\<rparr>]\<rparr>))"

definition torctl_line :: "fd \<Rightarrow> string \<Rightarrow> (unit, tct_ctx) act" where
  "torctl_line sockd line =
     with_conn sockd (\<lambda>cn. if cn_readingData cn then reply_data sockd line else reply_first sockd line)"

text \<open>
  What \<open>recv\<close> delivered is put behind the rest of the last line, with a NUL behind it.  All
  lines but the last are complete; the last one is kept for the next time.
\<close>

definition torctl_received :: "fd \<Rightarrow> string \<Rightarrow> (unit, tct_ctx) act" where
  "torctl_received sockd bs =
     with_conn sockd (\<lambda>cn.
       if TORCTL_BUF_SIZE \<le> length (cn_buf cn) + length bs then act_fail UB
       else let lines = g_strsplit (cn_buf cn @ bs) crlf 0
            in act_then (act_each (torctl_line sockd) (butlast lines))
                 (on_conn sockd (\<lambda>c. c\<lparr>cn_buf := (if lines = [] then [] else last lines)\<rparr>)))"

section \<open>Activation\<close>

definition torctl_initialize :: "fd \<Rightarrow> (unit, tct_ctx) act" where
  "torctl_initialize sockd =
     with_conn sockd (\<lambda>cn.
       if cn_initialized cn then act_return ()
       else act_bind (on_module sockd md_initialize) (\<lambda>b. on_conn sockd (\<lambda>c. c\<lparr>cn_initialized := b\<rparr>)))"

text \<open>\<open>Some r\<close>: the function returns \<open>r\<close>, without a look at the events that are left.\<close>

definition torctl_writable :: "fd \<Rightarrow> (int option, tct_ctx) act" where
  "torctl_writable sockd =
     with_conn sockd (\<lambda>cn.
       if cn_sendBuf cn = []
       then (\<lambda>(tc, w). (Ret None, tc, torControl_changeEpoll sockd [EPOLLIN] w))
       else (\<lambda>(tc, w).
         (case sys_send sockd (cn_sendBuf cn) w of
            (a, w1) \<Rightarrow>
              (case torctl_assertio (case a of Inl e \<Rightarrow> tct_send_allowed e | Inr _ \<Rightarrow> False) a of
                 Some r \<Rightarrow> (Ret (Some r), tc, w1)
               | None \<Rightarrow>
                   if length (cn_sendBuf cn) \<le> (case a of Inl e \<Rightarrow> 0 | Inr n \<Rightarrow> n)
                   then (Ret None, tct_conn_update sockd (\<lambda>c. c\<lparr>cn_sendBuf := []\<rparr>) tc, torControl_changeEpoll sockd [EPOLLIN] w1)
                   else (Ret None, tc, w1)))))"

definition torctl_readable :: "fd \<Rightarrow> (int option, tct_ctx) act" where
  "torctl_readable sockd =
     with_conn sockd (\<lambda>cn. (\<lambda>(tc, w).
       (case sys_recv (TORCTL_BUF_SIZE - length (cn_buf cn)) w of
          (Inl e, w1) \<Rightarrow> (Ret (Some (if e = EWOULDBLOCK then -1 else TORCTL_ERR_FATAL)), tc, w1)
        | (Inr bs, w1) \<Rightarrow>
            if bs = [] then (Ret (Some TORCTL_ERR_FATAL), tc, w1)
            else act_then (torctl_received sockd bs) (act_return None) (tc, w1))))"

definition torctl_socket_event :: "fd \<Rightarrow> epoll_ev list \<Rightarrow> (int option, tct_ctx) act" where
  "torctl_socket_event sockd events = (\<lambda>s.
     (if map_of (tct_connections (fst s)) sockd = None then (Ret None, s)
      else act_then (torctl_initialize sockd)
             (act_bind (if EPOLLOUT \<in> set events then torctl_writable sockd else act_return None) (\<lambda>r.
                if r \<noteq> None then act_return r
                else if EPOLLIN \<in> set events then torctl_readable sockd else act_return None)) s))"

fun torctl_socket_events :: "(fd \<times> epoll_ev list) list \<Rightarrow> (int, tct_ctx) act" where
  "torctl_socket_events [] = act_return 0"
| "torctl_socket_events ((sockd, events) # es) =
     act_bind (torctl_socket_event sockd events) (\<lambda>r. case r of None \<Rightarrow> torctl_socket_events es | Some v \<Rightarrow> act_return v)"

text \<open>\<open>ready\<close> is what \<open>epoll_wait\<close> reports; \<open>None\<close> for \<open>-1\<close>.\<close>

definition torControl_activate :: "(fd \<times> epoll_ev list) list option \<Rightarrow> (int, tct_ctx) act" where
  "torControl_activate ready = (case ready of None \<Rightarrow> act_return (-1) | Some es \<Rightarrow> torctl_socket_events es)"

section \<open>Connections\<close>

definition torControl_resolveHostname :: "(string \<Rightarrow> u32 option) \<Rightarrow> string \<Rightarrow> u32 option" where
  "torControl_resolveHostname lookup hostname =
     (if ci_prefix ''none'' (cstr hostname) then Some (htonl (- 1))
      else if ci_prefix ''localhost'' (cstr hostname) then Some (htonl 0x7f000001)
      else lookup hostname)"

definition torControl_connect :: "u32 \<Rightarrow> u16 \<Rightarrow> world \<Rightarrow> int \<times> world" where
  "torControl_connect addr port w =
     (case sys_socket w of
        (Inl e, w1) \<Rightarrow> (-1, w1)
      | (Inr sockd, w1) \<Rightarrow>
          (case sys_connect sockd addr port w1 of
             (result, w2) \<Rightarrow>
               if result \<noteq> None \<and> result \<noteq> Some EINPROGRESS then (-1, w2)
               else (case epoll_ctl CtlAdd sockd [EPOLLIN, EPOLLOUT] w2 of
                       (ok, w3) \<Rightarrow> if ok then (sockd, w3) else (-1, w3))))"

text \<open>The module for a mode; \<open>Ret None\<close> when there is none or it refuses.\<close>

definition tct_module_new ::
    "string \<Rightarrow> string \<Rightarrow> u16 \<Rightarrow> fd \<Rightarrow> string list option \<Rightarrow> tc_module option ret" where
  "tct_module_new mode hostname port sockd moduleArgs =
     (if ci_prefix ''circuitBuild'' (cstr mode)
      then ret_bind (torControlCircuitBuild_new sockd moduleArgs) (\<lambda>m. Ret (map_option CircuitBuild m))
      else if ci_prefix ''log'' (cstr mode)
      then ret_bind (torcontrollogger_new hostname port sockd moduleArgs) (\<lambda>m. Ret (map_option Logger m))
      else if ci_prefix ''pin'' (cstr mode)
      then ret_bind (torcontrolpinger_new hostname port sockd moduleArgs) (\<lambda>m. Ret (map_option Pinger m))
      else Ret None)"

text \<open>
  A name that cannot be resolved ends in \<open>freeaddrinfo\<close> of a pointer nothing was stored in.  When
  there is no module the socket stays open and in the epoll.
\<close>

definition torControl_createConnection ::
    "(string \<Rightarrow> u32 option) \<Rightarrow> string \<Rightarrow> u16 \<Rightarrow> string \<Rightarrow> string list option \<Rightarrow> (int, tct_ctx) act" where
  "torControl_createConnection lookup hostname port mode moduleArgs = (\<lambda>(tc, w).
     (case torControl_resolveHostname lookup hostname of
        None \<Rightarrow> (UB, tc, w)
      | Some ip \<Rightarrow>
          if ip = 0 then (Ret (-1), tc, w)
          else (case torControl_connect ip (htons port) w of
                  (sockd, w1) \<Rightarrow>
                    if sockd < 0 then (Ret (-1), tc, w1)
                    else (case tct_module_new mode hostname port sockd moduleArgs of
                            AssertFail \<Rightarrow> (AssertFail, tc, w1)
                          | UB \<Rightarrow> (UB, tc, w1)
                          | Ret None \<Rightarrow> (Ret (-1), tc, torControl_changeEpoll sockd [EPOLLOUT] w1)
                          | Ret (Some md) \<Rightarrow>
                              (Ret sockd,
                               tc\<lparr>tct_connections := AList.update sockd
                                  \<lparr>cn_hostname = hostname, cn_ip = ip, cn_port = port, cn_mode = mode, cn_buf = [],
                                   cn_sendBuf = [], cn_reply = [], cn_readingData = False, cn_initialized = False,
                                   cn_module = md\<rparr> (tct_connections tc)\<rparr>,
                               torControl_changeEpoll sockd [EPOLLOUT] w1)))))"

text \<open>\<open>g_strsplit_set\<close> at any character of a set, into at most \<open>m\<close> parts.\<close>

fun split_set :: "char list \<Rightarrow> nat \<Rightarrow> string \<Rightarrow> string list" where
  "split_set ds m [] = [[]]"
| "split_set ds m (c # s) =
     (if m = 1 then [c # s]
      else if c \<in> set ds then [] # split_set ds (m - 1) s
      else case split_set ds m s of t # ts \<Rightarrow> (c # t) # ts | [] \<Rightarrow> [[c]])"

definition torctl_host_line :: "(string \<Rightarrow> u32 option) \<Rightarrow> string \<Rightarrow> (unit, tct_ctx) act" where
  "torctl_host_line lookup line =
     (if line = [] \<or> hd line = CHR ''#'' then act_return ()
      else case split_set '' :'' 4 line of
        [hostname, port, mode] \<Rightarrow>
          act_bind (torControl_createConnection lookup hostname (of_int (atoi port)) mode None) (\<lambda>_. act_return ())
      | [hostname, port, mode, args] \<Rightarrow>
          act_bind (torControl_createConnection lookup hostname (of_int (atoi port)) mode (Some (g_strsplit args '' '' 0)))
            (\<lambda>_. act_return ())
      | _ \<Rightarrow> act_fail UB)"

text \<open>
  \<open>argv\<close> are the arguments behind the mode; behind the last one is a NULL.  A file that cannot
  be read leaves \<open>contents\<close> without a value.
\<close>

definition torctl_single :: "(string \<Rightarrow> u32 option) \<Rightarrow> string list \<Rightarrow> (unit, tct_ctx) act" where
  "torctl_single lookup argv =
     (case argv of
        hostname # port # mode # args \<Rightarrow>
          act_bind (torControl_createConnection lookup hostname (of_int (atoi port)) mode
              (if args = [] then None else Some args)) (\<lambda>_. act_return ())
      | _ \<Rightarrow> act_fail UB)"

definition torctl_multi :: "(string \<Rightarrow> u32 option) \<Rightarrow> (string \<Rightarrow> string option) \<Rightarrow> string list \<Rightarrow> (unit, tct_ctx) act" where
  "torctl_multi lookup contents argv =
     (case argv of
        [] \<Rightarrow> act_fail UB
      | filename # _ \<Rightarrow>
          (case contents filename of
             None \<Rightarrow> act_fail UB
           | Some text \<Rightarrow> act_each (torctl_host_line lookup) (g_strsplit text [LF] 0)))"

definition torControl_new ::
    "(string \<Rightarrow> u32 option) \<Rightarrow> (string \<Rightarrow> string option) \<Rightarrow> string \<Rightarrow> string list \<Rightarrow> (unit, tct_ctx) act" where
  "torControl_new lookup contents mode argv = (\<lambda>(tc, w).
     (case sys_socket w of
        (Inl e, w1) \<Rightarrow> (Ret (), tc\<lparr>tct_epolld := 0\<rparr>, snd (sys_close (-1) w1))
      | (Inr epolld, w1) \<Rightarrow>
          (if mode = ''single'' then torctl_single lookup argv
           else if mode = ''multi'' then torctl_multi lookup contents argv
           else act_return ())
            (tc\<lparr>tct_epolld := epolld, tct_connections := []\<rparr>, w1)))"

text \<open>The sockets are not closed.\<close>

definition torControl_free :: "tct_ctx \<Rightarrow> tct_ctx" where
  "torControl_free = (\<lambda>(tc, w). (tc\<lparr>tct_connections := []\<rparr>, w))"

end
