(* ===== verification/Torctl_Local.thy ===== *)
theory Torctl_Local
  imports Torctl
begin

text \<open>
  What an activation for one control port can touch.  The locale \<open>act_frame\<close> is interpreted on
  the state of the controller and on the states in which the modules run.
  \<open>commutes\<close> is the other property of this kind: an action that neither reads nor writes what a
  function changes.
\<close>

section \<open>Commuting\<close>

definition commutes :: "('s \<Rightarrow> 's) \<Rightarrow> ('a, 's) act \<Rightarrow> bool" where
  "commutes g m \<longleftrightarrow> (\<forall>s. m (g s) = (case m s of (r, t) \<Rightarrow> (r, g t)))"

named_theorems commuting \<open>actions that do not use the buffer of a connection\<close>

lemma commutes_return [commuting]: "commutes g (act_return v)"
  by (simp add: commutes_def act_return_def)

lemma commutes_fail [commuting]: "commutes g (act_fail r)"
  by (simp add: commutes_def act_fail_def)

lemma commutes_bind [commuting]: "commutes g m \<Longrightarrow> (\<And>v. commutes g (f v)) \<Longrightarrow> commutes g (act_bind m f)"
  by (auto simp: commutes_def act_bind_def split: prod.splits ret.splits)

lemma commutes_then [commuting]: "commutes g m \<Longrightarrow> commutes g n \<Longrightarrow> commutes g (act_then m n)"
  unfolding act_then_def by (rule commutes_bind)

lemma commutes_each [commuting]: "(\<And>x. commutes g (f x)) \<Longrightarrow> commutes g (act_each f xs)"
  by (induction xs) (simp_all add: commutes_return commutes_then)

lemma commutes_if [commuting]: "commutes g m \<Longrightarrow> commutes g n \<Longrightarrow> commutes g (if b then m else n)"
  by simp

section \<open>One connection\<close>

fun md_sockd :: "tc_module \<Rightarrow> fd" where
  "md_sockd (CircuitBuild cb) = cb_sockd cb"
| "md_sockd (Logger lg) = lg_targetSockd lg"
| "md_sockd (Pinger pn) = pn_targetSockd pn"

definition own_ok :: "fd \<Rightarrow> tct_ctx \<Rightarrow> bool" where
  "own_ok sd s \<longleftrightarrow> (\<exists>cn. map_of (tct_connections (fst s)) sd = Some cn \<and> md_sockd (cn_module cn) = sd)"

definition only_conn :: "fd \<Rightarrow> tct_ctx \<Rightarrow> tct_ctx \<Rightarrow> bool" where
  "only_conn sd s t \<longleftrightarrow>
     (\<forall>fd. fd \<noteq> sd \<longrightarrow> map_of (tct_connections (fst t)) fd = map_of (tct_connections (fst s)) fd
                    \<and> sent_on fd (w_log (snd t)) = sent_on fd (w_log (snd s)))"

definition mod_own :: "('m \<Rightarrow> fd) \<Rightarrow> fd \<Rightarrow> 'm mod_ctx \<Rightarrow> bool" where
  "mod_own sel sd s \<longleftrightarrow> sel (fst s) = sd \<and> own_ok sd (snd s)"

definition mod_only :: "fd \<Rightarrow> 'm mod_ctx \<Rightarrow> 'm mod_ctx \<Rightarrow> bool" where
  "mod_only sd s t \<longleftrightarrow> only_conn sd (snd s) (snd t)"

interpretation tc: act_frame "own_ok sd" "only_conn sd" for sd
  by unfold_locales (auto simp: only_conn_def)

interpretation md: act_frame "mod_own sel sd" "mod_only sd" for sel sd
  by unfold_locales (auto simp: mod_only_def only_conn_def)

lemma map_of_conn_update [simp]:
  "map_of (tct_connections (tct_conn_update sd f tc)) fd =
     (if fd = sd then map_option f (map_of (tct_connections tc) sd) else map_of (tct_connections tc) fd)"
  by (simp add: tct_conn_update_def)

lemma on_ctx_stays: "stays (own_ok sd) (only_conn sd) m \<Longrightarrow> stays (mod_own sel sd) (mod_only sd) (on_ctx m)"
  by (force simp: stays_def on_ctx_def mod_own_def mod_only_def split: prod.splits)

lemma on_data_stays: "(\<And>d. sel (f d) = sel d) \<Longrightarrow> stays (mod_own sel sd) (mod_only sd) (on_data f)"
  by (auto simp: stays_def on_data_def act_update_def mod_own_def mod_only_def only_conn_def)

lemma with_data_stays:
  "(\<And>d. sel d = sd \<Longrightarrow> stays (mod_own sel sd) (mod_only sd) (f d)) \<Longrightarrow> stays (mod_own sel sd) (mod_only sd) (with_data f)"
  by (auto simp: stays_def with_data_def mod_own_def)

lemma on_conn_stays: "(\<And>c. cn_module (f c) = cn_module c) \<Longrightarrow> stays (own_ok sd) (only_conn sd) (on_conn sd f)"
  by (auto simp: stays_def on_conn_def act_update_def own_ok_def only_conn_def)

lemma with_conn_stays: "(\<And>c. stays (own_ok sd) (only_conn sd) (f c)) \<Longrightarrow> stays (own_ok sd) (only_conn sd) (with_conn sd f)"
  by (auto simp: stays_def with_conn_def only_conn_def split: option.splits)

lemma sent_on_changeEpoll [simp]: "sent_on fd (w_log (torControl_changeEpoll sd evs w)) = sent_on fd (w_log w)"
  by (simp add: torControl_changeEpoll_def)

lemma sendCommand_stays: "stays (own_ok sd) (only_conn sd) (torControl_sendCommand sd cmd)"
proof (rule staysI)
  fix s :: tct_ctx assume "own_ok sd s"
  moreover obtain tc w where s: "s = (tc, w)" by fastforce
  moreover have "sent_on fd (w_log w') = sent_on fd (w_log v)" if "sys_send sd bs v = (a, w')" "fd \<noteq> sd" for bs v a w' fd
    using that by (auto simp: sys_send_def Let_def split: list.splits send_answer.splits if_splits)
  ultimately show "own_ok sd (snd (torControl_sendCommand sd cmd s)) \<and> only_conn sd s (snd (torControl_sendCommand sd cmd s))"
    by (auto simp: torControl_sendCommand_def tct_flush_def own_ok_def only_conn_def Let_def
        split: option.splits prod.splits sum.splits)
qed

section \<open>The modules\<close>

lemmas command_defs =
  torControl_authenticate_def torControl_setconf_def torControl_setevents_def torControl_buildCircuit_def
  torControl_closeCircuit_def torControl_attachStream_def torControl_getInfoBootstrapStatus_def

lemmas handler_stays = md.closed on_data_stays with_data_stays on_ctx_stays sendCommand_stays

lemma clock_stays: "stays (own_ok sd) (only_conn sd) (\<lambda>(tc, w). case clock_gettime w of (now, w1) \<Rightarrow> (Ret now, tc, w1))"
  by (auto simp: stays_def own_ok_def only_conn_def clock_gettime_def split: prod.splits list.splits)

lemma note_stays:
  "stays (own_ok sd) (only_conn sd) (act_update (\<lambda>(tc, w). (tc\<lparr>tct_logged := f tc\<rparr>, w)))"
  "stays (own_ok sd) (only_conn sd) (act_update (\<lambda>(tc, w). (tc\<lparr>tct_callbacks := g tc\<rparr>, w)))"
  by (auto simp: stays_def act_update_def own_ok_def only_conn_def)

lemma cb_initialize_stays: "stays (mod_own cb_sockd sd) (mod_only sd) torControlCircuitBuild_initialize"
  unfolding torControlCircuitBuild_initialize_def cb_sent_def command_defs
  by (intro handler_stays | simp split: cb_state.split | intro conjI impI handler_stays)+

lemma cb_build_stays: "stays (mod_own cb_sockd sd) (mod_only sd) (cb_build i)"
  unfolding cb_build_def command_defs by (intro handler_stays | simp)+

lemma cb_goto_stays: "stays (mod_own cb_sockd sd) (mod_only sd) (cb_goto st)"
  unfolding cb_goto_def by (intro handler_stays) simp

lemmas cb_stays = cb_initialize_stays cb_build_stays cb_goto_stays handler_stays

lemma cb_circEvent_stays: "stays (mod_own cb_sockd sd) (mod_only sd) (torControlCircuitBuild_circEvent ev)"
  unfolding torControlCircuitBuild_circEvent_def
  by (intro cb_stays | simp split: option.split | intro conjI impI allI cb_stays)+

lemma cb_streamEvent_stays: "stays (mod_own cb_sockd sd) (mod_only sd) (torControlCircuitBuild_streamEvent ev)"
  unfolding torControlCircuitBuild_streamEvent_def command_defs
  by (intro cb_stays clock_stays | simp | intro conjI impI cb_stays)+

lemma cb_statusEvent_stays: "stays (mod_own cb_sockd sd) (mod_only sd) (torControlCircuitBuild_statusEvent ev)"
  unfolding torControlCircuitBuild_statusEvent_def
  by (intro cb_stays | simp split: option.split list.split | intro conjI impI allI cb_stays)+

lemma cb_responseEvent_stays: "stays (mod_own cb_sockd sd) (mod_only sd) (torControlCircuitBuild_responseEvent reply ud)"
  unfolding torControlCircuitBuild_responseEvent_def cb_success_def cb_check_status_def cb_get_circ_id_def
  by (intro cb_stays | simp split: option.split list.split cb_state.split | intro conjI impI allI cb_stays)+

lemma lg_pass_stays: "stays (mod_own lg_targetSockd sd) (mod_only sd) lg_pass"
  unfolding lg_pass_def lg_sent_def command_defs
  by (intro handler_stays | simp split: tcl_state.split | intro conjI impI handler_stays)+

lemma lg_manage_stays: "stays (mod_own lg_targetSockd sd) (mod_only sd) torcontrollogger_manageState"
  unfolding torcontrollogger_manageState_def
  by (intro handler_stays lg_pass_stays | simp split: option.split | intro conjI impI allI handler_stays lg_pass_stays)+

lemma lg_response_stays: "stays (mod_own lg_targetSockd sd) (mod_only sd) (torcontrollogger_handleResponseEvent reply ud)"
  unfolding torcontrollogger_handleResponseEvent_def
  by (intro handler_stays lg_manage_stays | simp split: list.split | intro conjI impI allI handler_stays lg_manage_stays)+

lemma lg_events_stays: "stays (mod_own lg_targetSockd sd) (mod_only sd) (torcontrollogger_handleEvents code line)"
  unfolding torcontrollogger_handleEvents_def by (intro handler_stays note_stays)

lemma pn_call_stays: "stays (mod_own pn_targetSockd sd) (mod_only sd) torcontrolpinger_doPingCallback"
  unfolding torcontrolpinger_doPingCallback_def command_defs by (intro handler_stays | simp)+

lemma pn_now_stays: "stays (mod_own pn_targetSockd sd) (mod_only sd) pn_now"
  unfolding pn_now_def by (intro handler_stays clock_stays)

lemma pn_pass_stays: "stays (mod_own pn_targetSockd sd) (mod_only sd) pn_pass"
  unfolding pn_pass_def pn_sent_def command_defs
  by (intro handler_stays pn_call_stays | simp split: tcp_state.split | intro conjI impI handler_stays pn_call_stays)+

lemma pn_manage_stays: "stays (mod_own pn_targetSockd sd) (mod_only sd) torcontrolpinger_manageState"
  unfolding torcontrolpinger_manageState_def
  by (intro handler_stays pn_pass_stays | simp split: option.split | intro conjI impI allI handler_stays pn_pass_stays)+

lemma pn_response_stays: "stays (mod_own pn_targetSockd sd) (mod_only sd) (torcontrolpinger_handleResponseEvent reply ud)"
  unfolding torcontrolpinger_handleResponseEvent_def pn_started_def
  by (intro handler_stays pn_manage_stays pn_now_stays | simp split: list.split
      | intro conjI impI allI handler_stays pn_manage_stays pn_now_stays)+

lemma pn_circEvent_stays: "stays (mod_own pn_targetSockd sd) (mod_only sd) (torcontrolpinger_handleCircEvent ev)"
  unfolding torcontrolpinger_handleCircEvent_def command_defs
  by (intro handler_stays pn_now_stays note_stays | simp | intro conjI impI allI handler_stays pn_now_stays note_stays)+

section \<open>The controller\<close>

lemma on_circuit_build_stays:
  "cb_sockd cb = sd \<Longrightarrow> stays (mod_own cb_sockd sd) (mod_only sd) m \<Longrightarrow> stays (mod_own md_sockd sd) (mod_only sd) (on_circuit_build m cb)"
  by (force simp: stays_def on_circuit_build_def mod_own_def mod_only_def split: prod.splits)

lemma on_logger_stays:
  "lg_targetSockd lg = sd \<Longrightarrow> stays (mod_own lg_targetSockd sd) (mod_only sd) m \<Longrightarrow> stays (mod_own md_sockd sd) (mod_only sd) (on_logger m lg)"
  by (force simp: stays_def on_logger_def mod_own_def mod_only_def split: prod.splits)

lemma on_pinger_stays:
  "pn_targetSockd pn = sd \<Longrightarrow> stays (mod_own pn_targetSockd sd) (mod_only sd) m \<Longrightarrow> stays (mod_own md_sockd sd) (mod_only sd) (on_pinger m pn)"
  by (force simp: stays_def on_pinger_def mod_own_def mod_only_def split: prod.splits)

lemmas module_stays =
  on_circuit_build_stays on_logger_stays on_pinger_stays md.return md.fail
  cb_initialize_stays cb_circEvent_stays cb_streamEvent_stays cb_statusEvent_stays cb_responseEvent_stays
  lg_manage_stays lg_response_stays lg_events_stays pn_manage_stays pn_response_stays pn_circEvent_stays

lemma md_initialize_stays: "stays (mod_own md_sockd sd) (mod_only sd) md_initialize"
  unfolding md_initialize_def by (intro with_data_stays) (auto simp: module_stays split: tc_module.split)

lemma md_response_stays: "stays (mod_own md_sockd sd) (mod_only sd) (md_response reply ud)"
  unfolding md_response_def by (intro with_data_stays) (auto simp: module_stays split: tc_module.split)

lemma md_event_stays: "stays (mod_own md_sockd sd) (mod_only sd) (md_event ev)"
  unfolding md_event_def by (intro with_data_stays) (auto simp: module_stays split: tc_module.split tct_event.split)

lemma reply_event_stays: "stays (mod_own md_sockd sd) (mod_only sd) (reply_event code line)"
  unfolding reply_event_def Let_def
  by (intro with_data_stays) (simp add: md_event_stays md.return md.fail split: ret.split option.split prod.split)

lemma on_module_stays:
  assumes "stays (mod_own md_sockd sd) (mod_only sd) m"
  shows "stays (own_ok sd) (only_conn sd) (on_module sd m)"
proof (rule staysI)
  fix s :: tct_ctx assume own: "own_ok sd s"
  obtain tc w where s: "s = (tc, w)" by fastforce
  show "own_ok sd (snd (on_module sd m s)) \<and> only_conn sd s (snd (on_module sd m s))"
  proof (cases "map_of (tct_connections tc) sd")
    case None
    with s own show ?thesis by (simp add: on_module_def only_conn_def)
  next
    case (Some cn)
    obtain r md tc1 w1 where m: "m (cn_module cn, tc, w) = (r, md, tc1, w1)" by (metis prod.exhaust)
    have "mod_own md_sockd sd (cn_module cn, tc, w)" using own s Some by (simp add: mod_own_def own_ok_def)
    with assms m have "mod_own md_sockd sd (md, tc1, w1)" "mod_only sd (cn_module cn, tc, w) (md, tc1, w1)"
      by (auto dest: staysD)
    with s Some m show ?thesis by (auto simp: on_module_def mod_own_def mod_only_def own_ok_def only_conn_def)
  qed
qed

lemmas conn_stays = tc.closed on_conn_stays with_conn_stays on_module_stays

lemma processReply_stays: "stays (own_ok sd) (only_conn sd) (torControl_processReply sd reply)"
  unfolding torControl_processReply_def reply_response_def Let_def
  by (auto split: list.split ret.split intro!: conn_stays md_response_stays reply_event_stays)

lemma reply_complete_stays: "stays (own_ok sd) (only_conn sd) (reply_complete sd)"
  unfolding reply_complete_def by (intro conn_stays processReply_stays) simp

lemma torctl_line_stays: "stays (own_ok sd) (only_conn sd) (torctl_line sd line)"
  unfolding torctl_line_def reply_data_def reply_first_def
  by (intro conn_stays | simp | intro conjI impI conn_stays reply_complete_stays)+

lemma torctl_received_stays: "stays (own_ok sd) (only_conn sd) (torctl_received sd bs)"
  unfolding torctl_received_def Let_def
  by (intro conn_stays | simp | intro conjI impI conn_stays torctl_line_stays)+

lemma torctl_initialize_stays: "stays (own_ok sd) (only_conn sd) (torctl_initialize sd)"
  unfolding torctl_initialize_def
  by (intro conn_stays | simp | intro conjI impI conn_stays md_initialize_stays)+

lemma sys_send_other: "sys_send sd bs w = (a, w') \<Longrightarrow> fd \<noteq> sd \<Longrightarrow> sent_on fd (w_log w') = sent_on fd (w_log w)"
  by (auto simp: sys_send_def Let_def split: list.splits send_answer.splits if_splits)

lemma torctl_writable_stays: "stays (own_ok sd) (only_conn sd) (torctl_writable sd)"
proof -
  have "stays (own_ok sd) (only_conn sd) (\<lambda>(tc, w). (v, tc, torControl_changeEpoll sd [EPOLLIN] w))" for v :: "int option ret"
    by (auto simp: stays_def own_ok_def only_conn_def)
  moreover have "stays (own_ok sd) (only_conn sd) (\<lambda>(tc, w). case sys_send sd bs w of (a, w1) \<Rightarrow>
      (case torctl_assertio (f a) a of
         Some r \<Rightarrow> (Ret (Some r), tc, w1)
       | None \<Rightarrow> if n \<le> k a then (Ret None, tct_conn_update sd (\<lambda>c. c\<lparr>cn_sendBuf := []\<rparr>) tc, torControl_changeEpoll sd [EPOLLIN] w1)
                 else (Ret None, tc, w1)))" for bs f and n :: nat and k
    by (auto simp: stays_def own_ok_def only_conn_def split: prod.splits option.splits dest: sys_send_other)
  ultimately show ?thesis
    unfolding torctl_writable_def by (intro with_conn_stays) auto
qed

lemma torctl_readable_stays: "stays (own_ok sd) (only_conn sd) (torctl_readable sd)"
  unfolding torctl_readable_def
proof (intro with_conn_stays staysI)
  fix c :: tc_conn and s :: tct_ctx assume own: "own_ok sd s"
  obtain tc w where s: "s = (tc, w)" by fastforce
  obtain a w1 where rv: "sys_recv (TORCTL_BUF_SIZE - length (cn_buf c)) w = (a, w1)" by fastforce
  have log: "w_log w1 = w_log w"
    using rv by (auto simp: sys_recv_def split: list.splits recv_answer.splits if_splits)
  have "stays (own_ok sd) (only_conn sd) (act_then (torctl_received sd bs) (act_return (None :: int option)))" for bs
    by (intro tc.closed torctl_received_stays)
  moreover have "own_ok sd (tc, w1)" using own s by (simp add: own_ok_def)
  ultimately have "own_ok sd (snd (act_then (torctl_received sd bs) (act_return (None :: int option)) (tc, w1)))"
    "only_conn sd (tc, w1) (snd (act_then (torctl_received sd bs) (act_return (None :: int option)) (tc, w1)))" for bs
    by (auto simp: stays_def)
  with own log s rv show "own_ok sd (snd ((\<lambda>(tc, w). case sys_recv (TORCTL_BUF_SIZE - length (cn_buf c)) w of
        (Inl e, w1) \<Rightarrow> (Ret (Some (if e = EWOULDBLOCK then -1 else TORCTL_ERR_FATAL)), tc, w1)
      | (Inr bs, w1) \<Rightarrow>
          if bs = [] then (Ret (Some TORCTL_ERR_FATAL), tc, w1)
          else act_then (torctl_received sd bs) (act_return None) (tc, w1)) s))
    \<and> only_conn sd s (snd ((\<lambda>(tc, w). case sys_recv (TORCTL_BUF_SIZE - length (cn_buf c)) w of
        (Inl e, w1) \<Rightarrow> (Ret (Some (if e = EWOULDBLOCK then -1 else TORCTL_ERR_FATAL)), tc, w1)
      | (Inr bs, w1) \<Rightarrow>
          if bs = [] then (Ret (Some TORCTL_ERR_FATAL), tc, w1)
          else act_then (torctl_received sd bs) (act_return None) (tc, w1)) s))"
    by (cases a) (auto simp: own_ok_def only_conn_def)
qed

lemma torctl_socket_event_stays: "stays (own_ok sd) (only_conn sd) (torctl_socket_event sd events)"
  unfolding torctl_socket_event_def
  by (intro tc.test tc.closed torctl_initialize_stays) (auto intro: tc.closed torctl_writable_stays torctl_readable_stays)

section \<open>The buffer\<close>

definition set_buf :: "fd \<Rightarrow> string \<Rightarrow> tct_ctx \<Rightarrow> tct_ctx" where
  "set_buf sd b s = (tct_conn_update sd (\<lambda>c. c\<lparr>cn_buf := b\<rparr>) (fst s), snd s)"

definition mod_set_buf :: "fd \<Rightarrow> string \<Rightarrow> 'm mod_ctx \<Rightarrow> 'm mod_ctx" where
  "mod_set_buf sd b s = (fst s, set_buf sd b (snd s))"

lemma map_entry_map_entry: "AList.map_entry k f (AList.map_entry k g al) = AList.map_entry k (f \<circ> g) al"
  by (induction al) auto

lemma map_entry_swap:
  "k \<noteq> k' \<or> (\<forall>x. f (g x) = g (f x)) \<Longrightarrow> AList.map_entry k f (AList.map_entry k' g al) = AList.map_entry k' g (AList.map_entry k f al)"
  by (induction al) auto

lemma conn_update_swap:
  "sd \<noteq> fd \<or> (\<forall>c. f (g c) = g (f c)) \<Longrightarrow> tct_conn_update sd f (tct_conn_update fd g tc) = tct_conn_update fd g (tct_conn_update sd f tc)"
  by (simp add: tct_conn_update_def map_entry_swap)

lemma commutes_on_ctx [commuting]: "commutes (set_buf sd b) m \<Longrightarrow> commutes (mod_set_buf sd b) (on_ctx m)"
  by (force simp: commutes_def on_ctx_def mod_set_buf_def split: prod.splits)

lemma commutes_on_data [commuting]: "commutes (mod_set_buf sd b) (on_data f)"
  by (simp add: commutes_def on_data_def act_update_def mod_set_buf_def split: prod.splits)

lemma commutes_with_data [commuting]: "(\<And>d. commutes (mod_set_buf sd b) (f d)) \<Longrightarrow> commutes (mod_set_buf sd b) (with_data f)"
  by (auto simp: commutes_def with_data_def mod_set_buf_def split: prod.splits)

lemma sendBuf_swap:
  "tct_conn_update fd (\<lambda>c. c\<lparr>cn_sendBuf := cn_sendBuf c @ x\<rparr>) (tct_conn_update sd (\<lambda>c. c\<lparr>cn_buf := b\<rparr>) tc)
   = tct_conn_update sd (\<lambda>c. c\<lparr>cn_buf := b\<rparr>) (tct_conn_update fd (\<lambda>c. c\<lparr>cn_sendBuf := cn_sendBuf c @ x\<rparr>) tc)"
  "tct_conn_update fd (\<lambda>c. c\<lparr>cn_sendBuf := []\<rparr>) (tct_conn_update sd (\<lambda>c. c\<lparr>cn_buf := b\<rparr>) tc)
   = tct_conn_update sd (\<lambda>c. c\<lparr>cn_buf := b\<rparr>) (tct_conn_update fd (\<lambda>c. c\<lparr>cn_sendBuf := []\<rparr>) tc)"
  by (rule conn_update_swap, simp)+

lemma commutes_sendCommand [commuting]: "commutes (set_buf sd b) (torControl_sendCommand fd cmd)"
  unfolding commutes_def
  by (auto simp: torControl_sendCommand_def tct_flush_def set_buf_def sendBuf_swap Let_def
      split: option.splits prod.splits sum.splits)

lemma commutes_clock [commuting]:
  "commutes (set_buf sd b) (\<lambda>(tc, w). case clock_gettime w of (now, w1) \<Rightarrow> (Ret now, tc, w1))"
  by (auto simp: commutes_def set_buf_def split: prod.splits)

lemma commutes_note [commuting]:
  "commutes (set_buf sd b) (act_update (\<lambda>(tc, w). (tc\<lparr>tct_logged := tct_logged tc @ x\<rparr>, w)))"
  "commutes (set_buf sd b) (act_update (\<lambda>(tc, w). (tc\<lparr>tct_callbacks := tct_callbacks tc @ y\<rparr>, w)))"
  by (auto simp: commutes_def act_update_def set_buf_def tct_conn_update_def split: prod.splits)

end
