(* ===== verification/Torctl_Stream.thy ===== *)
theory Torctl_Stream
  imports Torctl_Local
begin

text \<open>
  The reply lines of a control port do not depend on how the network cuts them.
\<close>

section \<open>Handlers do not use the buffer\<close>

lemma commutes_initialize [commuting]: "commutes (mod_set_buf sd b) torControlCircuitBuild_initialize"
  unfolding torControlCircuitBuild_initialize_def cb_sent_def command_defs
  by (intro commuting | simp split: cb_state.split | intro conjI impI commuting)+

lemma commutes_build [commuting]: "commutes (mod_set_buf sd b) (cb_build i)" "commutes (mod_set_buf sd b) (cb_goto st)"
  unfolding cb_build_def cb_goto_def command_defs by (intro commuting)+

lemma commutes_circuit_build [commuting]:
  "commutes (mod_set_buf sd b) (torControlCircuitBuild_circEvent e)"
  "commutes (mod_set_buf sd b) (torControlCircuitBuild_streamEvent e2)"
  "commutes (mod_set_buf sd b) (torControlCircuitBuild_statusEvent e3)"
  "commutes (mod_set_buf sd b) (torControlCircuitBuild_responseEvent reply ud)"
  unfolding torControlCircuitBuild_circEvent_def torControlCircuitBuild_streamEvent_def torControlCircuitBuild_statusEvent_def
    torControlCircuitBuild_responseEvent_def cb_success_def cb_check_status_def cb_get_circ_id_def command_defs
  by (intro commuting | simp split: option.split list.split cb_state.split | intro conjI impI allI commuting)+

lemma commutes_lg_pass [commuting]: "commutes (mod_set_buf sd b) lg_pass"
  unfolding lg_pass_def lg_sent_def command_defs
  by (intro commuting | simp split: tcl_state.split | intro conjI impI commuting)+

lemma commutes_lg_manage [commuting]: "commutes (mod_set_buf sd b) torcontrollogger_manageState"
  unfolding torcontrollogger_manageState_def
  by (intro commuting | simp split: option.split | intro conjI impI allI commuting)+

lemma commutes_logger [commuting]:
  "commutes (mod_set_buf sd b) (torcontrollogger_handleResponseEvent reply ud)"
  "commutes (mod_set_buf sd b) (torcontrollogger_handleEvents code line)"
  unfolding torcontrollogger_handleResponseEvent_def torcontrollogger_handleEvents_def
  by (intro commuting | simp split: list.split | intro conjI impI allI commuting)+

lemma commutes_pn_now [commuting]: "commutes (mod_set_buf sd b) pn_now"
  unfolding pn_now_def by (intro commuting)

lemma commutes_pn_call [commuting]: "commutes (mod_set_buf sd b) torcontrolpinger_doPingCallback"
  unfolding torcontrolpinger_doPingCallback_def command_defs by (intro commuting)

lemma commutes_pn_pass [commuting]: "commutes (mod_set_buf sd b) pn_pass"
  unfolding pn_pass_def pn_sent_def command_defs
  by (intro commuting | simp split: tcp_state.split | intro conjI impI commuting)+

lemma commutes_pn_manage [commuting]: "commutes (mod_set_buf sd b) torcontrolpinger_manageState"
  unfolding torcontrolpinger_manageState_def
  by (intro commuting | simp split: option.split | intro conjI impI allI commuting)+

lemma commutes_pinger [commuting]:
  "commutes (mod_set_buf sd b) (torcontrolpinger_handleResponseEvent reply ud)"
  "commutes (mod_set_buf sd b) (torcontrolpinger_handleCircEvent e)"
  unfolding torcontrolpinger_handleResponseEvent_def torcontrolpinger_handleCircEvent_def pn_started_def command_defs
  by (intro commuting | simp split: list.split | intro conjI impI allI commuting)+

lemma commutes_on_kind:
  "commutes (mod_set_buf sd b) m1 \<Longrightarrow> commutes (mod_set_buf sd b) (on_circuit_build m1 cb)"
  "commutes (mod_set_buf sd b) m2 \<Longrightarrow> commutes (mod_set_buf sd b) (on_logger m2 lg)"
  "commutes (mod_set_buf sd b) m3 \<Longrightarrow> commutes (mod_set_buf sd b) (on_pinger m3 pn)"
  by (force simp: commutes_def on_circuit_build_def on_logger_def on_pinger_def mod_set_buf_def split: prod.splits)+

lemma commutes_module [commuting]:
  "commutes (mod_set_buf sd b) md_initialize"
  "commutes (mod_set_buf sd b) (md_response reply ud)"
  "commutes (mod_set_buf sd b) (md_event ev)"
  unfolding md_initialize_def md_response_def md_event_def
  by (intro commutes_with_data;
      simp add: commutes_on_kind commutes_circuit_build commutes_logger commutes_pinger commutes_initialize commutes_lg_manage
        commutes_pn_manage commutes_fail split: tc_module.split tct_event.split)+

lemma commutes_reply_event [commuting]: "commutes (mod_set_buf sd b) (reply_event code line)"
  unfolding reply_event_def Let_def
  by (intro commutes_with_data) (simp add: commutes_module commutes_fail commutes_return split: ret.split option.split prod.split)

lemma commutes_on_module [commuting]:
  assumes "commutes (mod_set_buf sd b) m"
  shows "commutes (set_buf sd b) (on_module fd m)"
  unfolding commutes_def
proof
  fix s :: tct_ctx
  obtain tc w where s: "s = (tc, w)" by fastforce
  show "on_module fd m (set_buf sd b s) = (case on_module fd m s of (r, t) \<Rightarrow> (r, set_buf sd b t))"
  proof (cases "map_of (tct_connections tc) fd")
    case None
    with s show ?thesis by (auto simp: on_module_def set_buf_def)
  next
    case (Some cn)
    obtain r md tc1 w1 where m: "m (cn_module cn, tc, w) = (r, md, tc1, w1)" by (metis prod.exhaust)
    from assms have "m (mod_set_buf sd b (cn_module cn, tc, w)) = (r, mod_set_buf sd b (md, tc1, w1))"
      by (simp add: commutes_def m)
    then have "m (cn_module cn, tct_conn_update sd (\<lambda>c. c\<lparr>cn_buf := b\<rparr>) tc, w)
        = (r, md, tct_conn_update sd (\<lambda>c. c\<lparr>cn_buf := b\<rparr>) tc1, w1)"
      by (simp add: mod_set_buf_def set_buf_def)
    moreover have "tct_conn_update fd (\<lambda>c. c\<lparr>cn_module := md\<rparr>) (tct_conn_update sd (\<lambda>c. c\<lparr>cn_buf := b\<rparr>) tc1)
        = tct_conn_update sd (\<lambda>c. c\<lparr>cn_buf := b\<rparr>) (tct_conn_update fd (\<lambda>c. c\<lparr>cn_module := md\<rparr>) tc1)"
      by (rule conn_update_swap) simp
    ultimately show ?thesis
      using s Some m by (cases "fd = sd") (auto simp: on_module_def set_buf_def)
  qed
qed

section \<open>Lines do not use the buffer\<close>

lemma commutes_on_conn:
  assumes "\<And>c. f (c\<lparr>cn_buf := b\<rparr>) = (f c)\<lparr>cn_buf := b\<rparr>"
  shows "commutes (set_buf sd b) (on_conn fd f)"
proof -
  have "tct_conn_update fd f (tct_conn_update sd (\<lambda>c. c\<lparr>cn_buf := b\<rparr>) tc)
      = tct_conn_update sd (\<lambda>c. c\<lparr>cn_buf := b\<rparr>) (tct_conn_update fd f tc)" for tc
    by (rule conn_update_swap) (simp add: assms)
  then show ?thesis by (simp add: commutes_def on_conn_def act_update_def set_buf_def split: prod.splits)
qed

lemma commutes_with_conn:
  assumes "\<And>c. f (c\<lparr>cn_buf := b\<rparr>) = f c" "\<And>c. commutes (set_buf sd b) (f c)"
  shows "commutes (set_buf sd b) (with_conn fd f)"
  using assms
  by (auto simp: commutes_def with_conn_def set_buf_def split: option.splits prod.splits)

lemma commutes_processReply [commuting]: "commutes (set_buf sd b) (torControl_processReply fd reply)"
  unfolding torControl_processReply_def reply_response_def Let_def
  by (intro commuting | simp split: list.split ret.split | intro conjI impI allI commuting)+

lemma commutes_complete [commuting]: "commutes (set_buf sd b) (reply_complete fd)"
  unfolding reply_complete_def by (intro commuting commutes_with_conn commutes_on_conn | simp)+

lemma commutes_line: "commutes (set_buf sd b) (torctl_line fd line)"
  unfolding torctl_line_def reply_data_def reply_first_def
  by (intro commuting commutes_with_conn commutes_on_conn | simp | intro conjI impI commuting commutes_with_conn commutes_on_conn)+

section \<open>Pieces\<close>

definition conn_buf :: "fd \<Rightarrow> tct_ctx \<Rightarrow> string" where
  "conn_buf sd s = (case map_of (tct_connections (fst s)) sd of None \<Rightarrow> [] | Some cn \<Rightarrow> cn_buf cn)"

lemma conn_buf_set: "own_ok sd s \<Longrightarrow> conn_buf sd (set_buf sd b s) = b"
  by (auto simp: conn_buf_def set_buf_def own_ok_def)

lemma own_ok_set: "own_ok sd s \<Longrightarrow> own_ok sd (set_buf sd b s)"
  by (auto simp: own_ok_def set_buf_def)

lemma set_buf_set_buf: "set_buf sd b (set_buf sd c s) = set_buf sd b s"
  by (simp add: set_buf_def tct_conn_update_def map_entry_map_entry comp_def)

lemma received_lines:
  assumes "own_ok sd s" "bs \<noteq> []" "NUL \<notin> set (conn_buf sd s @ bs)" "length (conn_buf sd s) + length bs < TORCTL_BUF_SIZE"
  shows "torctl_received sd bs s =
    (let ls = split_tokens crlf 0 (conn_buf sd s @ bs) in
     case act_each (torctl_line sd) (butlast ls) s of
       (Ret _, t) \<Rightarrow> (Ret (), set_buf sd (last ls) t) | (AssertFail, t) \<Rightarrow> (AssertFail, t) | (UB, t) \<Rightarrow> (UB, t))"
proof -
  obtain cn where cn: "map_of (tct_connections (fst s)) sd = Some cn" using assms(1) by (auto simp: own_ok_def)
  then have b: "conn_buf sd s = cn_buf cn" by (simp add: conn_buf_def)
  have "g_strsplit (cn_buf cn @ bs) crlf 0 = split_tokens crlf 0 (cn_buf cn @ bs)"
    using assms(2,3) by (simp add: g_strsplit_def b cstr_id)
  with cn assms(4) show ?thesis
    by (simp add: torctl_received_def with_conn_def b Let_def split_nonempty act_then_def act_bind_def on_conn_def act_update_def
        set_buf_def split: prod.split ret.split)
qed

lemma lines_own: "own_ok sd s \<Longrightarrow> act_each (torctl_line sd) ls s = (r, t) \<Longrightarrow> own_ok sd t"
  using staysD [OF tc.each [where f = "torctl_line sd", OF torctl_line_stays]] by blast

lemma commutes_lines: "act_each (torctl_line sd) ls s = (r, t) \<Longrightarrow> act_each (torctl_line sd) ls (set_buf sd b s) = (r, set_buf sd b t)"
  using commutes_each [where f = "torctl_line sd", OF commutes_line, of sd b ls] unfolding commutes_def by (drule_tac spec [of _ s]) simp

text \<open>Two results that differ at most in what a failed run leaves in the buffer.\<close>

definition same_result :: "unit ret \<times> tct_ctx \<Rightarrow> unit ret \<times> tct_ctx \<Rightarrow> bool" where
  "same_result a b \<longleftrightarrow> fst a = fst b \<and> (fst b = Ret () \<longrightarrow> snd a = snd b)"

lemma two_pieces:
  assumes "own_ok sd s" "a \<noteq> []" "b \<noteq> []" "NUL \<notin> set (conn_buf sd s @ a @ b)"
    and "length (conn_buf sd s) + length (a @ b) < TORCTL_BUF_SIZE"
  shows "same_result (act_then (torctl_received sd a) (torctl_received sd b) s) (torctl_received sd (a @ b) s)"
proof -
  define ls where "ls = split_tokens crlf 0 (conn_buf sd s @ a)"
  define ks where "ks = split_tokens crlf 0 (last ls @ b)"
  have all: "split_tokens crlf 0 (conn_buf sd s @ a @ b) = butlast ls @ ks"
    using split_continue [of crlf "conn_buf sd s @ a" b] by (simp add: ls_def ks_def)
  have ks: "ks \<noteq> []" by (simp add: ks_def split_nonempty)
  have part: "set (last ls) \<subseteq> set (conn_buf sd s @ a)" "length (last ls) \<le> length (conn_buf sd s @ a)"
    unfolding ls_def by (rule split_last_part)+
  obtain r t where t: "act_each (torctl_line sd) (butlast ls) s = (r, t)" by (meson surj_pair)
  have one: "torctl_received sd a s = (case r of Ret _ \<Rightarrow> (Ret (), set_buf sd (last ls) t) | AssertFail \<Rightarrow> (AssertFail, t) | UB \<Rightarrow> (UB, t))"
    using received_lines [of sd s a] assms t by (simp add: ls_def [symmetric] Let_def split: ret.split)
  have own: "own_ok sd t" using lines_own [OF assms(1) t] .
  obtain q u where u: "act_each (torctl_line sd) (butlast ks) t = (q, u)" by (meson surj_pair)
  have nul: "NUL \<notin> set (last ls)" using part(1) assms(4) by auto
  have two: "torctl_received sd b (set_buf sd (last ls) t)
      = (case q of Ret _ \<Rightarrow> (Ret (), set_buf sd (last ks) u) | AssertFail \<Rightarrow> (AssertFail, set_buf sd (last ls) u) | UB \<Rightarrow> (UB, set_buf sd (last ls) u))"
    using received_lines [of sd "set_buf sd (last ls) t" b] own assms(3-5) part nul commutes_lines [OF u, of "last ls"]
    by (auto simp: own_ok_set conn_buf_set ks_def [symmetric] Let_def set_buf_set_buf split: ret.splits)
  have whole: "torctl_received sd (a @ b) s
      = (case r of Ret _ \<Rightarrow> (case q of Ret _ \<Rightarrow> (Ret (), set_buf sd (last ks) u) | AssertFail \<Rightarrow> (AssertFail, u) | UB \<Rightarrow> (UB, u))
         | AssertFail \<Rightarrow> (AssertFail, t) | UB \<Rightarrow> (UB, t))"
    using received_lines [of sd s "a @ b"] assms t u ks
    by (simp add: all Let_def butlast_append act_each_append act_then_def act_bind_def split: ret.split)
  show ?thesis
    using one two whole by (cases r; cases q) (simp_all add: same_result_def act_then_def act_bind_def)
qed

lemma pieces_result:
  assumes "own_ok sd s" "ps \<noteq> []" "[] \<notin> set ps" "NUL \<notin> set (conn_buf sd s @ concat ps)"
    and "length (conn_buf sd s) + length (concat ps) < TORCTL_BUF_SIZE"
  shows "same_result (act_each (torctl_received sd) ps s) (torctl_received sd (concat ps) s)"
  using assms
proof (induction ps rule: rev_induct)
  case (snoc p ps)
  show ?case
  proof (cases "ps = []")
    case True
    then show ?thesis by (simp add: same_result_def act_then_def act_bind_def act_return_def split: prod.split ret.split)
  next
    case False
    then have c: "concat ps \<noteq> []" using snoc.prems(3) by (cases ps) auto
    have ih: "same_result (act_each (torctl_received sd) ps s) (torctl_received sd (concat ps) s)"
      using snoc.prems False by (intro snoc.IH) auto
    have "same_result (act_then (torctl_received sd (concat ps)) (torctl_received sd p) s) (torctl_received sd (concat ps @ p) s)"
      using snoc.prems c by (intro two_pieces) auto
    moreover have "act_each (torctl_received sd) (ps @ [p]) s = act_then (act_each (torctl_received sd) ps) (torctl_received sd p) s"
      by (simp add: act_each_append act_then_def act_bind_def act_return_def split: prod.split ret.split)
    ultimately show ?thesis
      using ih by (auto simp: same_result_def act_then_def act_bind_def split: prod.splits ret.splits)
  qed
qed simp

end
