(* ===== verification/Torctl_Build_Correct.thy ===== *)
theory Torctl_Build_Correct
  imports Torctl_Local
begin

text \<open>
  The dialogue of the circuit build module with Tor, when the kernel takes what is sent: which
  commands go out, and which circuit gets which identity.
\<close>

section \<open>Commands that are sent whole\<close>

definition issue :: "fd \<Rightarrow> string \<Rightarrow> world \<Rightarrow> world" where
  "issue sd cmd w =
     torControl_changeEpoll sd [EPOLLIN]
       (emit (Sent sd (cmd @ crlf)) ((torControl_changeEpoll sd [EPOLLOUT] w)\<lparr>w_send := tl (w_send w)\<rparr>))"

definition takes :: "nat \<Rightarrow> nat \<Rightarrow> world \<Rightarrow> bool" where
  "takes n m w \<longleftrightarrow> n \<le> length (w_send w) \<and> (\<forall>a\<in>set (take n (w_send w)). \<exists>k. a = SOk k \<and> m \<le> k)"

lemma issue_send [simp]: "w_send (issue sd cmd w) = tl (w_send w)"
  by (simp add: issue_def torControl_changeEpoll_def)

lemma issue_sent [simp]: "sent_on fd (w_log (issue sd cmd w)) = sent_on fd (w_log w) @ (if fd = sd then cmd @ crlf else [])"
  by (simp add: issue_def torControl_changeEpoll_def)

lemma takes_issue: "takes (Suc n) m w \<Longrightarrow> takes n m (issue sd cmd w)"
  by (cases "w_send w") (auto simp: takes_def)

lemma map_entry_same: "map_of al k = Some v \<Longrightarrow> f v = v \<Longrightarrow> AList.map_entry k f al = al"
  by (induction al) auto

lemma conn_update_same: "map_of (tct_connections tc) sd = Some cn \<Longrightarrow> f cn = cn \<Longrightarrow> tct_conn_update sd f tc = tc"
  by (simp add: tct_conn_update_def map_entry_same)

lemma conn_update_update: "tct_conn_update sd f (tct_conn_update sd g tc) = tct_conn_update sd (\<lambda>c. f (g c)) tc"
  by (simp add: tct_conn_update_def map_entry_map_entry comp_def)

lemma send_whole:
  assumes "map_of (tct_connections tc) sd = Some cn" "cn_sendBuf cn = []" "takes (Suc n) m w" "length cmd + 2 \<le> m"
  shows "torControl_sendCommand sd cmd (tc, w) = (Ret (int (length cmd + 2)), tc, issue sd cmd w)"
proof -
  obtain k q where q: "w_send w = SOk k # q" "m \<le> k"
    using assms(3) by (cases "w_send w") (auto simp: takes_def)
  let ?w = "torControl_changeEpoll sd [EPOLLOUT] w"
  have "w_send ?w = SOk k # q" using q by (simp add: torControl_changeEpoll_def)
  then have "sys_send sd (cmd @ crlf) ?w = (Inr (length (cmd @ crlf)), emit (Sent sd (cmd @ crlf)) (?w\<lparr>w_send := q\<rparr>))"
    using assms(4) q(2) by (intro sys_send_all [where k = k]) auto
  moreover have "tct_conn_update sd (\<lambda>c. c\<lparr>cn_sendBuf := []\<rparr>) (tct_conn_update sd (\<lambda>c. c\<lparr>cn_sendBuf := cn_sendBuf c @ cmd @ crlf\<rparr>) tc) = tc"
    unfolding conn_update_update using assms(1,2) by (intro conn_update_same) auto
  ultimately show ?thesis
    using assms(1,2) q(1) by (simp add: torControl_sendCommand_def tct_flush_def torctl_assertio_def issue_def Let_def)
qed

section \<open>A connection and its module\<close>

definition with_module :: "fd \<Rightarrow> tc_conn \<Rightarrow> torctl \<Rightarrow> tc_module \<Rightarrow> torctl" where
  "with_module sd cn tc md = tct_conn_update sd (\<lambda>_. cn\<lparr>cn_module := md\<rparr>) tc"

lemma with_module_conn:
  "map_of (tct_connections tc) sd = Some c \<Longrightarrow> map_of (tct_connections (with_module sd cn tc md)) sd = Some (cn\<lparr>cn_module := md\<rparr>)"
  by (simp add: with_module_def)

lemma with_module_update:
  "tct_conn_update sd (\<lambda>c. c\<lparr>cn_module := md'\<rparr>) (with_module sd cn tc md) = with_module sd cn tc md'"
  by (simp add: with_module_def conn_update_update)

lemma on_module_runs:
  assumes "map_of (tct_connections tc) sd = Some c"
    and "m (md, with_module sd cn tc md, w) = (r, md', with_module sd cn tc md, w')"
  shows "on_module sd m (with_module sd cn tc md, w) = (r, with_module sd cn tc md', w')"
  using assms by (simp add: on_module_def with_module_conn with_module_update)

section \<open>One reply\<close>

lemmas act_defs = act_bind_def act_then_def act_return_def act_fail_def act_update_def on_ctx_def on_data_def with_data_def

text \<open>The module's actions on a context in which commands are sent whole.\<close>

lemma cb_build_whole:
  assumes "map_of (tct_connections tc) (cb_sockd cb) = Some cn" "cn_sendBuf cn = []" "takes (Suc n) m w"
    and "length (ci_relays (cb_circuits cb ! i)) + 18 \<le> m"
  shows "cb_build i (cb, tc, w) = (Ret (), cb, tc, issue (cb_sockd cb) (''EXTENDCIRCUIT 0 '' @ ci_relays (cb_circuits cb ! i)) w)"
  using assms send_whole [of tc "cb_sockd cb" cn n m w "''EXTENDCIRCUIT 0 '' @ ci_relays (cb_circuits cb ! i)"]
  by (simp add: cb_build_def torControl_buildCircuit_def act_defs)

lemma cb_sent_whole:
  assumes "cmd (cb_sockd cb) (tc, w) = (Ret n, tc, w')" "0 < n"
  shows "cb_sent cmd nx b (cb, tc, w) = (Ret b, cb\<lparr>cb_nextState := nx, cb_waiting := True\<rparr>, tc, w')"
  using assms by (simp add: cb_sent_def act_defs)

definition greeting :: "cb_state \<Rightarrow> string" where
  "greeting st = (case st of
      CIRCBUILD_AUTHENTICATE \<Rightarrow> ''AUTHENTICATE '' @ [CHR 0x22] @ ''password'' @ [CHR 0x22]
    | CIRCBUILD_SETCONFS \<Rightarrow> ''SETCONF __LeaveStreamsUnattached=1 ExcludeSingleHopRelays=0 AllowSingleHopCircuits=1''
    | CIRCBUILD_SETEVENTS \<Rightarrow> ''SETEVENTS EXTENDED CIRC STREAM STATUS_CLIENT''
    | _ \<Rightarrow> ''GETINFO status/bootstrap-phase'')"

fun next_greeting :: "cb_state \<Rightarrow> cb_state" where
  "next_greeting CIRCBUILD_AUTHENTICATE = CIRCBUILD_SETCONFS"
| "next_greeting CIRCBUILD_SETCONFS = CIRCBUILD_SETEVENTS"
| "next_greeting CIRCBUILD_SETEVENTS = CIRCBUILD_CHECKSTATUS"
| "next_greeting st = CIRCBUILD_CREATE_CIRCUIT"

lemma initialize_whole:
  assumes "map_of (tct_connections tc) (cb_sockd cb) = Some cn" "cn_sendBuf cn = []" "takes (Suc n) m w" "90 \<le> m"
    and "\<not> cb_waiting cb"
    "cb_state cb \<in> {CIRCBUILD_AUTHENTICATE, CIRCBUILD_SETCONFS, CIRCBUILD_SETEVENTS, CIRCBUILD_CHECKSTATUS}"
  shows "torControlCircuitBuild_initialize (cb, tc, w) =
    (Ret (cb_state cb = CIRCBUILD_CHECKSTATUS), cb\<lparr>cb_nextState := next_greeting (cb_state cb), cb_waiting := True\<rparr>, tc,
     issue (cb_sockd cb) (greeting (cb_state cb)) w)"
proof -
  have send: "torControl_sendCommand (cb_sockd cb) cmd (tc, w) = (Ret (int (length cmd + 2)), tc, issue (cb_sockd cb) cmd w)"
    if "length cmd \<le> 88" for cmd
    using send_whole [OF assms(1-3), of cmd] assms(4) that by simp
  have set: "torControl_setconf sd cb_confValues
      = torControl_sendCommand sd ''SETCONF __LeaveStreamsUnattached=1 ExcludeSingleHopRelays=0 AllowSingleHopCircuits=1''" for sd
    by (simp add: torControl_setconf_def cb_confValues_def)
  show ?thesis
    using assms(5,6)
    by (auto simp: torControlCircuitBuild_initialize_def with_data_def set torControl_authenticate_def torControl_setevents_def
        torControl_getInfoBootstrapStatus_def greeting_def intro!: cb_sent_whole simp: send)
qed

section \<open>What Tor says\<close>

definition tor_ok :: reply_line where
  "tor_ok = \<lparr>rl_code = 250, rl_body = ''OK'', rl_data = []\<rparr>"

definition tor_phase :: reply_line where
  "tor_phase = \<lparr>rl_code = 250, rl_body = ''status/bootstrap-phase=NOTICE BOOTSTRAP PROGRESS=100 TAG=done'', rl_data = []\<rparr>"

definition tor_extended :: "nat \<Rightarrow> reply_line" where
  "tor_extended n = \<lparr>rl_code = 250, rl_body = ''EXTENDED '' @ show_nat n, rl_data = []\<rparr>"

lemma ud_ok: "reply_user_data tor_ok = Ret None"
  by code_simp

lemma ud_phase: "reply_user_data tor_phase = Ret (Some (BootstrapPhase 100 None))"
  by code_simp

lemma ud_extended:
  assumes "n < 2 ^ 31"
  shows "reply_user_data (tor_extended n) = Ret (Some (ReplyExtended (int n)))"
proof -
  have "NUL \<notin> set (show_nat n)" "CHR '' '' \<notin> set (show_nat n)" by (rule show_nat_avoids; simp)+
  then have "g_strsplit (''EXTENDED '' @ show_nat n) '' '' 0 = [''EXTENDED'', show_nat n]"
    using split_first [of "CHR '' ''" "''EXTENDED''" 0 "[]" "show_nat n"] split_last [of "show_nat n" "'' ''" 0]
      find_cs_absent [of "CHR '' ''" "show_nat n" "'' ''"] cstr_id [of "''EXTENDED '' @ show_nat n"]
    by (simp add: g_strsplit_def)
  moreover have "atoi (show_nat n) = int n"
    using atoi_show_nat [of "[]" n] assms by (simp add: no_leading_digit_def)
  ultimately show ?thesis by (simp add: reply_user_data_def tor_extended_def)
qed

lemma code_250: "rl_code rl = 250 \<Longrightarrow> TORCTL_CODE_TYPE (rl_code rl) = 2"
  by (simp add: TORCTL_CODE_TYPE_def)

lemma type_250 [simp]: "TORCTL_CODE_TYPE 250 = 2"
  by (simp add: TORCTL_CODE_TYPE_def)

lemma codes [simp]: "rl_code tor_ok = 250" "rl_code tor_phase = 250" "rl_code (tor_extended n) = 250"
  by (simp_all add: tor_ok_def tor_phase_def tor_extended_def)

section \<open>Replies to the module\<close>

definition building :: "fd \<Rightarrow> tc_conn \<Rightarrow> torctl \<Rightarrow> circuit_build \<Rightarrow> torctl" where
  "building sd cn tc cb = with_module sd cn tc (CircuitBuild cb)"

definition ready :: "fd \<Rightarrow> tc_conn \<Rightarrow> torctl \<Rightarrow> bool" where
  "ready sd cn tc \<longleftrightarrow> cn_sendBuf cn = [] \<and> map_of (tct_connections tc) sd \<noteq> None"

lemma ready_conn: "ready sd cn tc \<Longrightarrow> \<exists>c. map_of (tct_connections (building sd cn tc cb)) sd = Some c \<and> cn_sendBuf c = []"
  by (auto simp: ready_def building_def with_module_conn)

lemma on_module_building:
  assumes "ready sd cn tc" "m (CircuitBuild cb, building sd cn tc cb, w) = (r, CircuitBuild cb', building sd cn tc cb, w')"
  shows "on_module sd m (building sd cn tc cb, w) = (r, building sd cn tc cb', w')"
  using assms on_module_runs [of tc sd _ m "CircuitBuild cb" cn w r "CircuitBuild cb'" w'] by (auto simp: ready_def building_def)

lemma response_building:
  assumes "ready sd cn tc"
    and "torControlCircuitBuild_responseEvent reply ud (cb, building sd cn tc cb, w) = (Ret (), cb', building sd cn tc cb, w')"
  shows "on_module sd (md_response reply ud) (building sd cn tc cb, w) = (Ret (), building sd cn tc cb', w')"
  using assms by (intro on_module_building) (simp_all add: md_response_def with_data_def on_circuit_build_def)

lemma reply_each:
  assumes "TORCTL_CODE_TYPE (rl_code rl) = 2"
  shows "torControl_processReply sd (rl # rls) = act_each (reply_response sd (rl # rls)) (rl # rls)"
  using assms by (simp add: torControl_processReply_def Let_def)

text \<open>The first three replies.\<close>

lemma ok_greets:
  assumes "ready sd cn tc" "cb_sockd cb = sd" "takes (Suc n) m w" "90 \<le> m"
    and "cb_state cb \<in> {CIRCBUILD_AUTHENTICATE, CIRCBUILD_SETCONFS, CIRCBUILD_SETEVENTS}"
    and "cb_nextState cb = next_greeting (cb_state cb)"
  shows "torControl_processReply sd [tor_ok] (building sd cn tc cb, w) =
    (Ret (), building sd cn tc (cb\<lparr>cb_state := cb_nextState cb, cb_nextState := next_greeting (cb_nextState cb), cb_waiting := True\<rparr>),
     issue sd (greeting (cb_nextState cb)) w)"
proof -
  define cb1 where "cb1 = cb\<lparr>cb_state := cb_nextState cb, cb_waiting := False\<rparr>"
  obtain c where c: "map_of (tct_connections (building sd cn tc cb)) sd = Some c" "cn_sendBuf c = []"
    using ready_conn [OF assms(1)] by blast
  have succ: "cb_success None (cb, x) = (Ret (), cb1, x)" for x
    using assms(5) by (auto simp: cb_success_def act_defs cb1_def)
  have "cb_state cb1 \<in> {CIRCBUILD_AUTHENTICATE, CIRCBUILD_SETCONFS, CIRCBUILD_SETEVENTS, CIRCBUILD_CHECKSTATUS}"
    "\<not> cb_waiting cb1" "cb_sockd cb1 = sd" using assms(2,5,6) by (auto simp: cb1_def)
  then have init: "\<exists>b. torControlCircuitBuild_initialize (cb1, building sd cn tc cb, w) =
      (Ret b, cb1\<lparr>cb_nextState := next_greeting (cb_state cb1), cb_waiting := True\<rparr>, building sd cn tc cb, issue sd (greeting (cb_state cb1)) w)"
    using initialize_whole [of "building sd cn tc cb" cb1 c n m w] c assms(3,4) by auto
  have "torControlCircuitBuild_responseEvent [tor_ok] None (cb, building sd cn tc cb, w) =
      (Ret (), cb1\<lparr>cb_nextState := next_greeting (cb_state cb1), cb_waiting := True\<rparr>, building sd cn tc cb, issue sd (greeting (cb_state cb1)) w)"
    using init succ by (auto simp: torControlCircuitBuild_responseEvent_def code_250 act_then_def act_bind_def act_return_def)
  from response_building [OF assms(1) this] show ?thesis
    by (simp add: reply_each code_250 reply_response_def ud_ok act_then_def act_bind_def act_return_def cb1_def)
qed

text \<open>Nothing happens while the module waits and the reply carries no data.\<close>

lemma waiting_ignores:
  assumes "cb_waiting cb" "cb_state cb = CIRCBUILD_GET_CIRC_ID \<or> cb_state cb = CIRCBUILD_ATTACH_STREAMS"
    "TORCTL_CODE_TYPE (rl_code rl) = 2"
  shows "torControlCircuitBuild_responseEvent (rl # rls) None (cb, x) = (Ret (), cb, x)"
  using assms by (auto simp: torControlCircuitBuild_responseEvent_def cb_success_def cb_get_circ_id_def
      torControlCircuitBuild_initialize_def act_defs)

text \<open>Tor has reached the network.\<close>

definition extend_cmd :: "circuit_build \<Rightarrow> nat \<Rightarrow> string" where
  "extend_cmd cb i = ''EXTENDCIRCUIT 0 '' @ ci_relays (cb_circuits cb ! i)"

lemma phase_builds:
  assumes "ready sd cn tc" "cb_sockd cb = sd" "takes (Suc n) m w" "length (ci_relays (cb_circuits cb ! i)) + 18 \<le> m"
    and "cb_state cb = CIRCBUILD_CHECKSTATUS" "cb_waiting cb" "cb_circuitsToBuild cb = i # q"
  shows "torControl_processReply sd [tor_phase, tor_ok] (building sd cn tc cb, w) =
    (Ret (), building sd cn tc (cb\<lparr>cb_bootstrapped := True, cb_state := CIRCBUILD_GET_CIRC_ID\<rparr>), issue sd (extend_cmd cb i) w)"
proof -
  let ?cb1 = "cb\<lparr>cb_bootstrapped := True\<rparr>" and ?cb2 = "cb\<lparr>cb_bootstrapped := True, cb_state := CIRCBUILD_GET_CIRC_ID\<rparr>"
  obtain c where c: "map_of (tct_connections (building sd cn tc cb)) sd = Some c" "cn_sendBuf c = []"
    using ready_conn [OF assms(1)] by blast
  have build: "cb_build i (?cb1, building sd cn tc cb, w) = (Ret (), ?cb1, building sd cn tc cb, issue sd (extend_cmd cb i) w)"
    using cb_build_whole [of "building sd cn tc cb" ?cb1 c n m w i] c assms(2-4) by (simp add: extend_cmd_def)
  have "torControlCircuitBuild_responseEvent [tor_phase, tor_ok] (Some (BootstrapPhase 100 None)) (cb, building sd cn tc cb, w) =
      (Ret (), ?cb2, building sd cn tc cb, issue sd (extend_cmd cb i) w)"
    using assms(5-7) build
    by (simp add: torControlCircuitBuild_responseEvent_def cb_success_def cb_check_status_def cb_goto_def code_250
        torControlCircuitBuild_initialize_def act_defs)
  from response_building [OF assms(1) this]
  have one: "on_module sd (md_response [tor_phase, tor_ok] (Some (BootstrapPhase 100 None))) (building sd cn tc cb, w) =
      (Ret (), building sd cn tc ?cb2, issue sd (extend_cmd cb i) w)" .
  have "torControlCircuitBuild_responseEvent [tor_phase, tor_ok] None (?cb2, x) = (Ret (), ?cb2, x)" for x
    using assms(6) by (intro waiting_ignores) (simp_all add: code_250)
  from response_building [OF assms(1) this] one show ?thesis
    by (simp add: reply_each code_250 reply_response_def ud_ok ud_phase act_then_def act_bind_def act_return_def)
qed

text \<open>A circuit is up.\<close>

definition given :: "circuit_build \<Rightarrow> nat \<Rightarrow> nat \<Rightarrow> circuit list" where
  "given cb i n = (cb_circuits cb)[i := (cb_circuits cb ! i)\<lparr>ci_circID := int n\<rparr>]"

lemma extended_last:
  assumes "ready sd cn tc" "n < 2 ^ 31" "cb_state cb = CIRCBUILD_GET_CIRC_ID" "cb_waiting cb" "cb_circuitsToBuild cb = [i]"
  shows "torControl_processReply sd [tor_extended n] (building sd cn tc cb, w) =
    (Ret (), building sd cn tc (cb\<lparr>cb_state := CIRCBUILD_ATTACH_STREAMS, cb_circuitsToBuild := [], cb_circuits := given cb i n\<rparr>), w)"
proof -
  have "torControlCircuitBuild_responseEvent [tor_extended n] (Some (ReplyExtended (int n))) (cb, x) =
      (Ret (), cb\<lparr>cb_state := CIRCBUILD_ATTACH_STREAMS, cb_circuitsToBuild := [], cb_circuits := given cb i n\<rparr>, x)" for x
    using assms(3-5)
    by (simp add: torControlCircuitBuild_responseEvent_def cb_success_def cb_get_circ_id_def cb_goto_def code_250 given_def
        torControlCircuitBuild_initialize_def act_defs)
  from response_building [OF assms(1) this] show ?thesis
    by (simp add: reply_each code_250 reply_response_def ud_extended [OF assms(2)] act_then_def act_bind_def act_return_def)
qed

lemma extended_next:
  assumes "ready sd cn tc" "cb_sockd cb = sd" "takes (Suc k) m w" "length (ci_relays (cb_circuits cb ! j)) + 18 \<le> m" "i \<noteq> j"
    and "n < 2 ^ 31" "cb_state cb = CIRCBUILD_GET_CIRC_ID" "cb_waiting cb" "cb_circuitsToBuild cb = i # j # q"
  shows "torControl_processReply sd [tor_extended n] (building sd cn tc cb, w) =
    (Ret (), building sd cn tc (cb\<lparr>cb_circuitsToBuild := j # q, cb_circuits := given cb i n\<rparr>), issue sd (extend_cmd cb j) w)"
proof -
  let ?cb1 = "cb\<lparr>cb_state := CIRCBUILD_ATTACH_STREAMS, cb_circuitsToBuild := j # q, cb_circuits := given cb i n\<rparr>"
  obtain c where c: "map_of (tct_connections (building sd cn tc cb)) sd = Some c" "cn_sendBuf c = []"
    using ready_conn [OF assms(1)] by blast
  have build: "cb_build j (?cb1, building sd cn tc cb, w) = (Ret (), ?cb1, building sd cn tc cb, issue sd (extend_cmd cb j) w)"
    using cb_build_whole [of "building sd cn tc cb" ?cb1 c k m w j] c assms(2-5) by (simp add: extend_cmd_def given_def)
  have "torControlCircuitBuild_responseEvent [tor_extended n] (Some (ReplyExtended (int n))) (cb, building sd cn tc cb, w) =
      (Ret (), cb\<lparr>cb_circuitsToBuild := j # q, cb_circuits := given cb i n\<rparr>, building sd cn tc cb, issue sd (extend_cmd cb j) w)"
    using assms(7-9) build
    by (simp add: torControlCircuitBuild_responseEvent_def cb_success_def cb_get_circ_id_def cb_goto_def code_250 given_def
        torControlCircuitBuild_initialize_def act_defs)
  from response_building [OF assms(1) this] show ?thesis
    by (simp add: reply_each code_250 reply_response_def ud_extended [OF assms(6)] act_then_def act_bind_def act_return_def)
qed

section \<open>The whole dialogue\<close>

lemma takes_le: "takes n m w \<Longrightarrow> k \<le> n \<Longrightarrow> takes k m w"
  by (auto simp: takes_def dest: set_mp [OF set_take_subset_set_take])

lemma relays_given [simp]: "ci_relays (given cb i n ! j) = ci_relays (cb_circuits cb ! j)"
proof (cases "i < length (cb_circuits cb)")
  case True
  then show ?thesis by (cases "i = j") (simp_all add: given_def)
qed (simp add: given_def list_update_beyond)

lemma length_given [simp]: "length (given cb i n) = length (cb_circuits cb)"
  by (simp add: given_def)

lemma drop_update: "i < length xs \<Longrightarrow> drop i (xs[i := x]) = x # drop (Suc i) xs"
  by (induction xs arbitrary: i) (simp_all split: nat.splits)

lemma extended_all:
  assumes "ready sd cn tc" "cb_sockd cb = sd" "\<And>j. j < length (cb_circuits cb) \<Longrightarrow> length (ci_relays (cb_circuits cb ! j)) + 18 \<le> m"
    and "takes (length ns - 1) m w" "\<forall>n\<in>set ns. n < 2 ^ 31" "ns \<noteq> []"
    and "cb_state cb = CIRCBUILD_GET_CIRC_ID" "cb_waiting cb" "cb_circuitsToBuild cb = [i..<length (cb_circuits cb)]"
    and "i + length ns = length (cb_circuits cb)"
  shows "\<exists>cb' w'. act_each (\<lambda>n. torControl_processReply sd [tor_extended n]) ns (building sd cn tc cb, w) = (Ret (), building sd cn tc cb', w')
     \<and> cb_bootstrapped cb' = cb_bootstrapped cb \<and> cb_circuitsToBuild cb' = [] \<and> length (cb_circuits cb') = length (cb_circuits cb)
     \<and> take i (cb_circuits cb') = take i (cb_circuits cb) \<and> map ci_circID (drop i (cb_circuits cb')) = map int ns
     \<and> sent_on sd (w_log w') = sent_on sd (w_log w) @ concat (map (\<lambda>j. extend_cmd cb j @ crlf) [Suc i..<length (cb_circuits cb)])"
  using assms
proof (induction ns arbitrary: i cb w)
  case (Cons n ns)
  show ?case
  proof (cases "ns = []")
    case True
    let ?cb = "cb\<lparr>cb_state := CIRCBUILD_ATTACH_STREAMS, cb_circuitsToBuild := [], cb_circuits := given cb i n\<rparr>"
    have i: "length (cb_circuits cb) = Suc i" using Cons.prems(10) True by simp
    have "torControl_processReply sd [tor_extended n] (building sd cn tc cb, w) = (Ret (), building sd cn tc ?cb, w)"
      using Cons.prems i by (intro extended_last) simp_all
    moreover have "drop i (given cb i n) = [(cb_circuits cb ! i)\<lparr>ci_circID := int n\<rparr>]" "take i (given cb i n) = take i (cb_circuits cb)"
      using i drop_update [of i "cb_circuits cb"] by (simp_all add: given_def)
    ultimately show ?thesis
      using True i by (intro exI [of _ ?cb] exI [of _ w]) (simp add: act_then_def act_bind_def act_return_def)
  next
    case False
    let ?cb = "cb\<lparr>cb_circuitsToBuild := [Suc i..<length (cb_circuits cb)], cb_circuits := given cb i n\<rparr>"
    let ?w = "issue sd (extend_cmd cb (Suc i)) w"
    have i: "Suc i < length (cb_circuits cb)" using Cons.prems(10) False by (cases ns) simp_all
    have q: "[i..<length (cb_circuits cb)] = i # Suc i # [Suc (Suc i)..<length (cb_circuits cb)]"
      "[Suc i..<length (cb_circuits cb)] = Suc i # [Suc (Suc i)..<length (cb_circuits cb)]"
      using i by (simp_all add: upt_conv_Cons)
    have t: "takes (Suc (length ns - 1)) m w" using Cons.prems(4) False by (cases ns) simp_all
    have step: "torControl_processReply sd [tor_extended n] (building sd cn tc cb, w) = (Ret (), building sd cn tc ?cb, ?w)"
      using Cons.prems i unfolding q(2)
      by (intro extended_next [OF Cons.prems(1,2) t]) (auto simp: q(1))
    obtain cb' w' where ih: "act_each (\<lambda>n. torControl_processReply sd [tor_extended n]) ns (building sd cn tc ?cb, ?w) = (Ret (), building sd cn tc cb', w')"
      "cb_bootstrapped cb' = cb_bootstrapped cb" "cb_circuitsToBuild cb' = []" "length (cb_circuits cb') = length (cb_circuits cb)"
      "take (Suc i) (cb_circuits cb') = take (Suc i) (given cb i n)" "map ci_circID (drop (Suc i) (cb_circuits cb')) = map int ns"
      "sent_on sd (w_log w') = sent_on sd (w_log ?w) @ concat (map (\<lambda>j. extend_cmd ?cb j @ crlf) [Suc (Suc i)..<length (cb_circuits cb)])"
      using Cons.IH [of ?cb ?w "Suc i"] Cons.prems False takes_issue [OF t] by auto
    have "cb_circuits cb' ! i = given cb i n ! i" using ih(5) i by (metis lessI nth_take)
    moreover have "take i (cb_circuits cb') = take i (given cb i n)" using ih(5) by (metis lessI min.strict_order_iff take_take)
    ultimately have "take i (cb_circuits cb') = take i (cb_circuits cb)" "map ci_circID (drop i (cb_circuits cb')) = map int (n # ns)"
      using ih(4,6) i by (simp_all add: given_def Cons_nth_drop_Suc [symmetric])
    moreover have "act_each (\<lambda>n. torControl_processReply sd [tor_extended n]) (n # ns) (building sd cn tc cb, w)
        = (Ret (), building sd cn tc cb', w')"
      using step ih(1) by (simp add: act_then_def act_bind_def)
    moreover have "extend_cmd ?cb j = extend_cmd cb j" for j by (simp add: extend_cmd_def)
    then have "sent_on sd (w_log w')
        = sent_on sd (w_log w) @ concat (map (\<lambda>j. extend_cmd cb j @ crlf) [Suc i..<length (cb_circuits cb)])"
      using ih(7) unfolding q(2) by simp
    ultimately show ?thesis using ih(2-4) by blast
  qed
qed simp

lemma length_end_times [simp]: "length (cb_end_times cs) = length cs"
  by (induction cs rule: cb_end_times.induct) simp_all

lemma circuits_of_length: "cb_circuits_of as = Ret cs \<Longrightarrow> length cs = length as"
  by (induction as arbitrary: cs) (auto simp: ret_bind_def split: ret.splits)

lemma circuit_build_new:
  assumes "torControlCircuitBuild_new sd (Some args) = Ret (Some cb)"
  shows "cb_sockd cb = sd" "\<not> cb_waiting cb" "cb_state cb = CIRCBUILD_AUTHENTICATE" "length (cb_circuits cb) = length args"
    "cb_circuitsToBuild cb = [0..<length args]" "args \<noteq> []"
  using assms
  by (auto simp: torControlCircuitBuild_new_def ret_bind_def split: ret.splits list.splits dest!: circuits_of_length)

definition tor_greetings :: "string list" where
  "tor_greetings =
     [''AUTHENTICATE '' @ [CHR 0x22] @ ''password'' @ [CHR 0x22],
      ''SETCONF __LeaveStreamsUnattached=1 ExcludeSingleHopRelays=0 AllowSingleHopCircuits=1'',
      ''SETEVENTS EXTENDED CIRC STREAM STATUS_CLIENT'',
      ''GETINFO status/bootstrap-phase'']"

lemma dialogue:
  assumes new: "torControlCircuitBuild_new sd (Some args) = Ret (Some cb)" and ns: "length ns = length args" "\<forall>n\<in>set ns. n < 2 ^ 31"
    and cn: "map_of (tct_connections tc) sd = Some cn" "cn_module cn = CircuitBuild cb" "cn_sendBuf cn = []" "\<not> cn_initialized cn"
    and room: "takes (4 + length args) m w" "90 \<le> m" "\<forall>c\<in>set (cb_circuits cb). length (ci_relays c) + 18 \<le> m"
  shows "\<exists>cb' w'. act_then (torctl_initialize sd) (act_each (torControl_processReply sd)
        ([[tor_ok], [tor_ok], [tor_ok], [tor_phase, tor_ok]] @ map (\<lambda>n. [tor_extended n]) ns)) (tc, w)
      = (Ret (), tct_conn_update sd (\<lambda>c. c\<lparr>cn_module := CircuitBuild cb'\<rparr>) tc, w')
     \<and> cb_bootstrapped cb' \<and> cb_circuitsToBuild cb' = [] \<and> map ci_circID (cb_circuits cb') = map int ns
     \<and> sent_on sd (w_log w') = sent_on sd (w_log w)
         @ concat (map (\<lambda>c. c @ crlf) (tor_greetings @ map (\<lambda>c. ''EXTENDCIRCUIT 0 '' @ ci_relays c) (cb_circuits cb)))"
proof -
  note nw = circuit_build_new [OF new]
  have ready: "ready sd cn tc" using cn by (simp add: ready_def)
  have tc: "building sd cn tc cb = tc"
    using cn by (simp add: building_def with_module_def conn_update_same)
  define cb0 where "cb0 = cb\<lparr>cb_nextState := CIRCBUILD_SETCONFS, cb_waiting := True\<rparr>"
  define w0 where "w0 = issue sd (greeting CIRCBUILD_AUTHENTICATE) w"
  define w1 where "w1 = issue sd (greeting CIRCBUILD_SETCONFS) w0"
  define w2 where "w2 = issue sd (greeting CIRCBUILD_SETEVENTS) w1"
  define w3 where "w3 = issue sd (greeting CIRCBUILD_CHECKSTATUS) w2"
  define w4 where "w4 = issue sd (extend_cmd cb 0) w3"
  have four: "4 + length args = Suc (Suc (Suc (Suc (length args))))" by simp
  have takes: "takes (Suc (Suc (Suc (Suc (length args))))) m w" "takes (Suc (Suc (Suc (length args)))) m w0"
    "takes (Suc (Suc (length args))) m w1" "takes (Suc (length args)) m w2" "takes (length args) m w3"
    unfolding w0_def w1_def w2_def w3_def using room(1) [unfolded four] by (simp_all add: takes_issue)
  obtain k where k: "length args = Suc k" using nw(6) by (cases args) auto
  have not_empty: "ns \<noteq> []" using ns(1) k by auto
  have takes4: "takes k m w4" using takes(5) unfolding k w4_def by (rule takes_issue)
  have "torControlCircuitBuild_initialize (cb, building sd cn tc cb, w) = (Ret False, cb0, building sd cn tc cb, w0)"
    using initialize_whole [OF _ cn(3) takes(1) room(2) nw(2), of tc] cn(1) nw(1,3) by (simp add: tc cb0_def w0_def)
  then have "on_module sd md_initialize (building sd cn tc cb, w) = (Ret False, building sd cn tc cb0, w0)"
    by (intro on_module_building [OF ready]) (simp add: md_initialize_def with_data_def on_circuit_build_def)
  moreover have "tct_conn_update sd (\<lambda>c. c\<lparr>cn_initialized := False\<rparr>) (building sd cn tc cb0) = building sd cn tc cb0"
    using cn(4) ready_conn [OF ready] cn(1)
    by (intro conn_update_same [where cn = "cn\<lparr>cn_module := CircuitBuild cb0\<rparr>"]) (simp_all add: building_def with_module_conn)
  ultimately have init: "torctl_initialize sd (tc, w) = (Ret (), building sd cn tc cb0, w0)"
    using cn by (simp add: tc torctl_initialize_def with_conn_def act_bind_def on_conn_def act_update_def)
  define cb1 where "cb1 = cb\<lparr>cb_state := CIRCBUILD_SETCONFS, cb_nextState := CIRCBUILD_SETEVENTS, cb_waiting := True\<rparr>"
  define cb2 where "cb2 = cb\<lparr>cb_state := CIRCBUILD_SETEVENTS, cb_nextState := CIRCBUILD_CHECKSTATUS, cb_waiting := True\<rparr>"
  define cb3 where "cb3 = cb\<lparr>cb_state := CIRCBUILD_CHECKSTATUS, cb_nextState := CIRCBUILD_CREATE_CIRCUIT, cb_waiting := True\<rparr>"
  define cb4 where "cb4 = cb3\<lparr>cb_bootstrapped := True, cb_state := CIRCBUILD_GET_CIRC_ID\<rparr>"
  have ok1: "torControl_processReply sd [tor_ok] (building sd cn tc cb0, w0) = (Ret (), building sd cn tc cb1, w1)"
    using ok_greets [OF ready _ takes(2) room(2), of cb0] nw by (simp add: cb0_def cb1_def w1_def)
  have ok2: "torControl_processReply sd [tor_ok] (building sd cn tc cb1, w1) = (Ret (), building sd cn tc cb2, w2)"
    using ok_greets [OF ready _ takes(3) room(2), of cb1] nw by (simp add: cb0_def cb1_def cb2_def w2_def)
  have ok3: "torControl_processReply sd [tor_ok] (building sd cn tc cb2, w2) = (Ret (), building sd cn tc cb3, w3)"
    using ok_greets [OF ready _ takes(4) room(2), of cb2] nw by (simp add: cb0_def cb2_def cb3_def w3_def)
  have ph: "torControl_processReply sd [tor_phase, tor_ok] (building sd cn tc cb3, w3) = (Ret (), building sd cn tc cb4, w4)"
    using phase_builds [OF ready _ takes(5) [unfolded k], of cb3 0 "[1..<length args]"] nw room(3) k
    by (simp add: cb3_def cb4_def w4_def upt_conv_Cons extend_cmd_def)
  obtain cb' w' where all: "act_each (\<lambda>n. torControl_processReply sd [tor_extended n]) ns (building sd cn tc cb4, w4) = (Ret (), building sd cn tc cb', w')"
    "cb_bootstrapped cb'" "cb_circuitsToBuild cb' = []" "map ci_circID (cb_circuits cb') = map int ns"
    "sent_on sd (w_log w') = sent_on sd (w_log w4) @ concat (map (\<lambda>j. extend_cmd cb4 j @ crlf) [1..<length args])"
    using extended_all [OF ready, of cb4 m ns w4 0] nw ns takes4 room(3) k not_empty by (auto simp: cb3_def cb4_def)
  have each: "act_each (torControl_processReply sd) (map (\<lambda>n. [tor_extended n]) ns) = act_each (\<lambda>n. torControl_processReply sd [tor_extended n]) ns"
    by (induction ns) simp_all
  have fin: "building sd cn tc cb' = tct_conn_update sd (\<lambda>c. c\<lparr>cn_module := CircuitBuild cb'\<rparr>) tc"
    using with_module_update [of sd "CircuitBuild cb'" cn tc "CircuitBuild cb"] tc by (simp add: building_def)
  have ext: "concat (map (\<lambda>c. c @ crlf) (map (\<lambda>c. ''EXTENDCIRCUIT 0 '' @ ci_relays c) (cb_circuits cb)))
      = concat (map (\<lambda>j. extend_cmd cb j @ crlf) [0..<length args])"
    unfolding nw(4) [symmetric] by (subst (1) map_nth [symmetric, of "cb_circuits cb"]) (simp only: map_map comp_def extend_cmd_def)
  have up: "[0..<length args] = 0 # [1..<length args]" using k by (simp add: upt_conv_Cons del: upt_Suc)
  have same: "extend_cmd cb4 j = extend_cmd cb j" for j by (simp add: cb4_def cb3_def extend_cmd_def)
  have greets: "tor_greetings = map greeting [CIRCBUILD_AUTHENTICATE, CIRCBUILD_SETCONFS, CIRCBUILD_SETEVENTS, CIRCBUILD_CHECKSTATUS]"
    by code_simp
  have "sent_on sd (w_log w') = sent_on sd (w_log w)
      @ concat (map (\<lambda>c. c @ crlf) (tor_greetings @ map (\<lambda>c. ''EXTENDCIRCUIT 0 '' @ ci_relays c) (cb_circuits cb)))"
    using all(5) unfolding map_append concat_append ext up same greets
    by (simp add: w0_def w1_def w2_def w3_def w4_def)
  moreover have "act_then (torctl_initialize sd) (act_each (torControl_processReply sd)
        ([[tor_ok], [tor_ok], [tor_ok], [tor_phase, tor_ok]] @ map (\<lambda>n. [tor_extended n]) ns)) (tc, w)
      = (Ret (), tct_conn_update sd (\<lambda>c. c\<lparr>cn_module := CircuitBuild cb'\<rparr>) tc, w')"
    unfolding fin [symmetric] using init ok1 ok2 ok3 ph all(1) by (simp add: each act_then_def act_bind_def)
  ultimately show ?thesis using all(2-4) by blast
qed

end
