(* ===== verification/Torctl_Safe.thy ===== *)
theory Torctl_Safe
  imports Torctl_Build_Correct
begin

text \<open>
  Runs that end properly: the invariant of the circuit build module, under which none of its
  handlers reaches a NULL, and the state of the whole controller over its life.
\<close>

section \<open>Runs of the modules\<close>

lemma runs_module [simp]:
  "runs (on_data f) s Q = Q () (f (fst s), snd s)"
  "runs (with_data g) s R = runs (g (fst s)) s R"
  "runs (on_ctx m) s S = runs m (snd s) (\<lambda>v x. S v (fst s, x))"
  by (simp_all add: runs_def on_data_def act_update_def with_data_def on_ctx_def split: prod.split ret.split)

lemma runs_send:
  assumes "own_ok sd x" "\<And>n y. own_ok sd y \<Longrightarrow> Q n y"
  shows "runs (torControl_sendCommand sd cmd) x Q"
proof -
  obtain r y where y: "torControl_sendCommand sd cmd x = (r, y)" by (meson surj_pair)
  have own: "own_ok sd y" using staysD [OF sendCommand_stays y assms(1)] by simp
  have "\<exists>n. r = Ret n"
    using assms(1) y by (auto simp: torControl_sendCommand_def own_ok_def Let_def split: prod.splits)
  then show ?thesis using assms(2) [OF own] y by (auto simp: runs_def)
qed

lemma runs_clock:
  assumes "own_ok sd x" "\<And>n y. own_ok sd y \<Longrightarrow> Q n y"
  shows "runs (\<lambda>(tc, w). case clock_gettime w of (now, w1) \<Rightarrow> (Ret now, tc, w1)) x Q"
  using assms by (auto simp: runs_def own_ok_def split: prod.splits)

section \<open>The circuit build module\<close>

text \<open>
  There is a circuit to build as long as the module is not attaching streams, and what is to be
  built is a circuit.
\<close>

definition cb_ok :: "circuit_build \<Rightarrow> bool" where
  "cb_ok cb \<longleftrightarrow>
     list_all (\<lambda>i. i < length (cb_circuits cb)) (cb_circuitsToBuild cb)
   \<and> (cb_state cb = CIRCBUILD_ATTACH_STREAMS \<or> cb_circuitsToBuild cb \<noteq> [])
   \<and> cb_nextState cb \<noteq> CIRCBUILD_ATTACH_STREAMS"

datatype cb_input =
    Activated | Reply "reply_line list" "user_data option" | Circ circ_event | Stream stream_event | Status status_event

fun cb_handle :: "cb_input \<Rightarrow> (unit, cb_ctx) act" where
  "cb_handle Activated = act_bind torControlCircuitBuild_initialize (\<lambda>_. act_return ())"
| "cb_handle (Reply reply ud) = torControlCircuitBuild_responseEvent reply ud"
| "cb_handle (Circ ev) = torControlCircuitBuild_circEvent ev"
| "cb_handle (Stream ev) = torControlCircuitBuild_streamEvent ev"
| "cb_handle (Status ev) = torControlCircuitBuild_statusEvent ev"

text \<open>The invariant of the module in its context: descriptor and circuits do not change.\<close>

definition cb_inv :: "fd \<Rightarrow> circuit list \<Rightarrow> cb_ctx \<Rightarrow> bool" where
  "cb_inv sd cs s \<longleftrightarrow> cb_sockd (fst s) = sd \<and> own_ok sd (snd s) \<and> cb_ok (fst s)
     \<and> map ci_relays (cb_circuits (fst s)) = map ci_relays cs"

lemma runs_build:
  assumes "cb_sockd (fst s) = sd" "own_ok sd (snd s)" "\<And>y. own_ok sd y \<Longrightarrow> Q () (fst s, y)"
  shows "runs (cb_build i) s Q"
  using assms unfolding cb_build_def torControl_buildCircuit_def by (auto intro: runs_send)

lemma runs_sent:
  assumes "cb_sockd (fst s) = sd" "own_ok sd (snd s)"
    and "\<And>b y. own_ok sd y \<Longrightarrow> Q b (fst s, y)"
    and "\<And>b y. own_ok sd y \<Longrightarrow> Q b ((fst s)\<lparr>cb_nextState := nx, cb_waiting := True\<rparr>, y)"
  shows "runs (cb_sent (\<lambda>sd. torControl_sendCommand sd cmd) nx b) s Q"
  using assms unfolding cb_sent_def by (auto intro!: runs_send)

lemma runs_initialize:
  assumes "cb_inv sd cs s"
  shows "runs torControlCircuitBuild_initialize s (\<lambda>_. cb_inv sd cs)"
  using assms unfolding torControlCircuitBuild_initialize_def command_defs
  by (cases "cb_state (fst s)") (auto simp: cb_inv_def cb_ok_def intro!: runs_sent)

lemma find_less: "cb_find P cb = Some i \<Longrightarrow> i < length (cb_circuits cb)"
  by (auto simp: cb_find_def find_Some_iff)

lemma runs_circEvent:
  assumes "cb_inv sd cs s"
  shows "runs (torControlCircuitBuild_circEvent ev) s (\<lambda>_. cb_inv sd cs)"
  using assms unfolding torControlCircuitBuild_circEvent_def cb_goto_def
  by (auto simp: cb_inv_def cb_ok_def find_less split: option.split intro!: runs_build)

lemma runs_streamEvent:
  assumes "cb_inv sd cs s"
  shows "runs (torControlCircuitBuild_streamEvent ev) s (\<lambda>_. cb_inv sd cs)"
  using assms unfolding torControlCircuitBuild_streamEvent_def torControl_attachStream_def
  by (auto simp: cb_inv_def intro!: runs_clock runs_send)

lemma runs_statusEvent:
  assumes "cb_inv sd cs s"
  shows "runs (torControlCircuitBuild_statusEvent ev) s (\<lambda>_. cb_inv sd cs)"
  using assms unfolding torControlCircuitBuild_statusEvent_def cb_goto_def
  by (auto simp: cb_inv_def cb_ok_def split: option.split list.split intro!: runs_build)

lemma relays_updated: "map ci_relays (xs[i := (xs ! i)\<lparr>ci_circID := n\<rparr>]) = map ci_relays xs"
  by (cases "i < length xs") (simp_all add: map_update list_update_beyond list_update_same_conv)

lemma runs_success:
  assumes "cb_inv sd cs s"
  shows "runs (cb_success ud) s (\<lambda>_. cb_inv sd cs)"
proof (cases "cb_state (fst s)")
  case CIRCBUILD_CHECKSTATUS
  with assms show ?thesis unfolding cb_success_def cb_check_status_def cb_goto_def
    by (auto simp: cb_inv_def cb_ok_def split: option.split list.split intro!: runs_build)
next
  case CIRCBUILD_GET_CIRC_ID
  with assms show ?thesis unfolding cb_success_def cb_get_circ_id_def cb_goto_def
    by (auto simp: cb_inv_def cb_ok_def relays_updated split: option.split list.split intro!: runs_build)
qed (use assms in \<open>auto simp: cb_success_def cb_inv_def cb_ok_def\<close>)

lemma runs_response:
  assumes "cb_inv sd cs s" "reply \<noteq> []"
  shows "runs (torControlCircuitBuild_responseEvent reply ud) s (\<lambda>_. cb_inv sd cs)"
  using assms unfolding torControlCircuitBuild_responseEvent_def
  by (cases reply) (auto intro: runs_mono [OF runs_success] runs_initialize)

lemma runs_handle:
  assumes "cb_inv sd cs s" "\<forall>ud. i \<noteq> Reply [] ud"
  shows "runs (cb_handle i) s (\<lambda>_. cb_inv sd cs)"
  using assms
  by (cases i) (auto intro: runs_initialize runs_response runs_circEvent runs_streamEvent runs_statusEvent)

lemma circuit_build_starts:
  assumes "torControlCircuitBuild_new sd (Some args) = Ret (Some cb)"
  shows "cb_sockd cb = sd \<and> cb_ok cb"
  using assms
  by (auto simp: torControlCircuitBuild_new_def cb_ok_def ret_bind_def list_all_iff split: ret.splits list.splits)

section \<open>The life of the controller\<close>

text \<open>Every entry of the table belongs to the descriptor its module talks to.\<close>

definition tct_ok :: "tct_ctx \<Rightarrow> bool" where
  "tct_ok s \<longleftrightarrow> (\<forall>fd\<in>set (map fst (tct_connections (fst s))). own_ok fd s)"

lemma tct_ok_iff:
  "tct_ok s \<longleftrightarrow> (\<forall>fd cn. map_of (tct_connections (fst s)) fd = Some cn \<longrightarrow> md_sockd (cn_module cn) = fd)"
proof
  assume ok: "tct_ok s"
  show "\<forall>fd cn. map_of (tct_connections (fst s)) fd = Some cn \<longrightarrow> md_sockd (cn_module cn) = fd"
  proof (intro allI impI)
    fix fd cn assume cn: "map_of (tct_connections (fst s)) fd = Some cn"
    then have "(fd, cn) \<in> set (tct_connections (fst s))" by (rule map_of_SomeD)
    then have "own_ok fd s" using ok by (force simp: tct_ok_def)
    with cn show "md_sockd (cn_module cn) = fd" by (simp add: own_ok_def)
  qed
next
  assume named: "\<forall>fd cn. map_of (tct_connections (fst s)) fd = Some cn \<longrightarrow> md_sockd (cn_module cn) = fd"
  have "own_ok fd s" if "fd \<in> fst ` set (tct_connections (fst s))" for fd
  proof -
    from that obtain cn where "map_of (tct_connections (fst s)) fd = Some cn" by (cases "map_of (tct_connections (fst s)) fd") (auto simp: map_of_eq_None_iff)
    with named show ?thesis by (simp add: own_ok_def)
  qed
  then show "tct_ok s" by (simp add: tct_ok_def)
qed

interpretation tn: act_frame tct_ok "\<lambda>_ _. True"
  by unfold_locales simp_all

lemma module_new_sockd: "tct_module_new mode h p sd args = Ret (Some md) \<Longrightarrow> md_sockd md = sd"
  by (cases args) (auto simp: tct_module_new_def torcontrollogger_new_def torcontrolpinger_new_def torControlCircuitBuild_new_def [of sd None]
      ret_bind_def dest: circuit_build_new(1) split: if_splits ret.splits option.splits list.splits)

lemma createConnection_stays: "stays tct_ok (\<lambda>_ _. True) (torControl_createConnection lookup h p mode args)"
proof (rule staysI, rule conjI)
  fix s :: tct_ctx assume ok: "tct_ok s"
  then show "tct_ok (snd (torControl_createConnection lookup h p mode args s))"
    by (cases s)
       (auto simp: torControl_createConnection_def tct_ok_iff update_conv' module_new_sockd split: option.splits prod.splits ret.splits)
qed simp

lemma host_line_stays: "stays tct_ok (\<lambda>_ _. True) (torctl_host_line lookup line)"
  unfolding torctl_host_line_def
  by (auto split: list.split intro!: tn.closed createConnection_stays)

lemma new_stays:
  "stays tct_ok (\<lambda>_ _. True) (torctl_single lookup argv)"
  "stays tct_ok (\<lambda>_ _. True) (torctl_multi lookup contents argv)"
  unfolding torctl_single_def torctl_multi_def
  by (auto split: list.split option.split intro!: tn.closed createConnection_stays host_line_stays)

lemma torControl_new_ok:
  assumes "torControl_new lookup contents mode argv s = (r, t)" "tct_connections (fst s) = []"
  shows "tct_ok t"
proof -
  have "tct_ok (snd (torctl_single lookup argv x))" "tct_ok (snd (torctl_multi lookup contents argv x))"
    if "tct_connections (fst x) = []" for x
  proof -
    have "tct_ok x" using that by (simp add: tct_ok_def)
    then show "tct_ok (snd (torctl_single lookup argv x))" "tct_ok (snd (torctl_multi lookup contents argv x))"
      using new_stays unfolding stays_def by blast+
  qed
  note parts = this
  obtain tc w where s: "s = (tc, w)" by fastforce
  obtain sk w1 where sk: "sys_socket w = (sk, w1)" by fastforce
  show ?thesis
  proof (cases sk)
    case (Inl e)
    with assms s sk show ?thesis by (auto simp: torControl_new_def tct_ok_def)
  next
    case (Inr epolld)
    with assms s sk show ?thesis
      using parts [of "(tc\<lparr>tct_epolld := epolld, tct_connections := []\<rparr>, w1)"]
      by (auto simp: torControl_new_def act_return_def tct_ok_def split: if_splits dest: arg_cong [of _ _ snd])
  qed
qed

lemma only_conn_ok:
  assumes "tct_ok s" "only_conn sd s t" "own_ok sd t"
  shows "tct_ok t"
proof -
  have "own_ok fd t" if "fd \<in> fst ` set (tct_connections (fst t))" for fd
  proof (cases "fd = sd")
    case False
    then have same: "map_of (tct_connections (fst t)) fd = map_of (tct_connections (fst s)) fd"
      using assms(2) by (simp add: only_conn_def)
    then have "fd \<in> fst ` set (tct_connections (fst s))" using that by (metis map_of_eq_None_iff)
    with assms(1) same show ?thesis by (auto simp: tct_ok_def own_ok_def)
  qed (use assms(3) in simp)
  then show ?thesis by (auto simp: tct_ok_def)
qed

text \<open>A batch of events touches the connections it names.\<close>

lemma socket_event_frame:
  assumes "torctl_socket_event sd events s = (r, t)" "tct_ok s"
  shows "tct_ok t \<and> only_conn sd s t"
proof (cases "map_of (tct_connections (fst s)) sd = None")
  case True
  with assms show ?thesis by (simp add: torctl_socket_event_def only_conn_def)
next
  case False
  then have "own_ok sd s" using assms(2) by (auto simp: tct_ok_def map_of_eq_None_iff)
  then have "own_ok sd t" "only_conn sd s t" using staysD [OF torctl_socket_event_stays assms(1)] by simp_all
  then show ?thesis using only_conn_ok [OF assms(2)] by blast
qed

lemma socket_events_frame:
  assumes "torctl_socket_events es s = (r, t)" "tct_ok s"
  shows "tct_ok t \<and> (\<forall>fd. fd \<notin> fst ` set es \<longrightarrow>
      map_of (tct_connections (fst t)) fd = map_of (tct_connections (fst s)) fd
    \<and> sent_on fd (w_log (snd t)) = sent_on fd (w_log (snd s)))"
  using assms
proof (induction es arbitrary: s r)
  case (Cons e es)
  obtain sd events where e: "e = (sd, events)" by fastforce
  obtain r1 u where u: "torctl_socket_event sd events s = (r1, u)" by (meson surj_pair)
  have fr: "tct_ok u" "only_conn sd s u" using socket_event_frame [OF u Cons.prems(2)] by simp_all
  have "t = u \<or> torctl_socket_events es u = (r, t)"
    using Cons.prems(1) u e by (auto simp: act_bind_def act_return_def split: ret.splits option.splits)
  then show ?case
    using fr e Cons.IH [OF _ fr(1)] by (auto simp: only_conn_def)
qed (simp add: act_return_def)

text \<open>What can happen: the plug-in starts, is woken, and a timer of a pinger fires.\<close>

definition torctl_timer :: "fd \<Rightarrow> (unit, tct_ctx) act" where
  "torctl_timer sd = on_module sd (with_data (\<lambda>md. case md of
       Pinger pn \<Rightarrow> on_pinger torcontrolpinger_doPingCallback pn | _ \<Rightarrow> act_fail UB))"

inductive torctl_reachable :: "tct_ctx \<Rightarrow> bool" where
  started: "tct_connections tc = [] \<Longrightarrow> torControl_new lookup contents mode argv (tc, w) = (Ret (), s) \<Longrightarrow> torctl_reachable s"
| woken: "torctl_reachable s \<Longrightarrow> torControl_activate batch s = (Ret r, t) \<Longrightarrow> torctl_reachable t"
| timer: "torctl_reachable s \<Longrightarrow> torctl_timer sd s = (Ret (), t) \<Longrightarrow> torctl_reachable t"

lemma timer_stays: "stays (own_ok sd) (only_conn sd) (torctl_timer sd)"
  unfolding torctl_timer_def
  by (intro on_module_stays with_data_stays) (auto simp: module_stays pn_call_stays split: tc_module.split)

lemma reachable_ok: "torctl_reachable s \<Longrightarrow> tct_ok s"
proof (induction rule: torctl_reachable.induct)
  case (started tc lookup contents mode argv w s)
  then show ?case using torControl_new_ok by fastforce
next
  case (woken s batch r t)
  then show ?case
    by (cases batch) (auto simp: torControl_activate_def act_return_def dest: socket_events_frame)
next
  case (timer s sd t)
  have "map_of (tct_connections (fst s)) sd \<noteq> None"
    using timer.hyps(2) by (cases s) (auto simp: torctl_timer_def on_module_def split: option.splits)
  then have "own_ok sd s" using timer.IH by (auto simp: tct_ok_def map_of_eq_None_iff)
  then show ?case using only_conn_ok [OF timer.IH] staysD [OF timer_stays timer.hyps(2)] by blast
qed

end
