(* ===== verification/Torctl_Words.thy ===== *)
theory Torctl_Words
  imports Torctl_Names
begin

text \<open>
  The words of the control protocol as the controller reads them: a name of a table is read back
  as the value it stands for.
\<close>

text \<open>Capitals, digits and underscores: characters on which the comparison without regard to case is equality.\<close>

definition word_char :: "char \<Rightarrow> bool" where
  "word_char c \<longleftrightarrow> c \<noteq> NUL \<and> (of_char c :: nat) < 97"

lemma ascii_lower_word:
  assumes "word_char c" "word_char d" "ascii_lower c = ascii_lower d"
  shows "c = d"
proof -
  have code: "(of_char (ascii_lower x) :: nat) = (if 65 \<le> (of_char x :: nat) \<and> (of_char x :: nat) \<le> 90 then of_char x + 32 else of_char x)" for x
    by (simp add: ascii_lower_def)
  have lower: "a = b" if "a < 97" "b < 97"
    "(if 65 \<le> a \<and> a \<le> 90 then a + 32 else a) = (if 65 \<le> b \<and> b \<le> 90 then b + 32 else b)" for a b :: nat
    using that by (auto split: if_splits)
  have "(of_char (ascii_lower c) :: nat) = of_char (ascii_lower d)" using assms(3) by (rule arg_cong)
  then have "(of_char c :: nat) = of_char d"
    using assms(1,2) unfolding code word_char_def by (rule_tac lower) blast+
  then show ?thesis by simp
qed

lemma ci_eq_words:
  assumes "list_all word_char s" "list_all word_char t"
  shows "ci_eq s t \<longleftrightarrow> s = t"
proof -
  have "cstr s = s" "cstr t = t" using assms by (auto intro!: cstr_id simp: list_all_iff word_char_def)
  moreover have "inj_on ascii_lower (set s \<union> set t)"
    by (rule inj_onI, rule ascii_lower_word) (use assms in \<open>auto simp: list_all_iff\<close>)
  ultimately show ?thesis
    using inj_on_map_eq_map [of ascii_lower s t] by (simp add: ci_eq_def)
qed

lemma first_named_words:
  assumes "\<And>a b. name_of a = name_of b \<longleftrightarrow> a = b" "\<And>a. list_all word_char (name_of a)"
  shows "first_named name_of es other (name_of e) = (if e \<in> set es then e else other)"
  using assms by (induction es) (simp_all add: ci_eq_words)

lemma table_names:
  assumes "distinct tab" "\<And>a. num a < length tab" "\<And>a. es ! num a = a"
  shows "tab ! num a = tab ! num b \<longleftrightarrow> a = b"
  using assms by (metis nth_eq_iff_index_eq)

lemma circ_status_all:
  "[CIRC_STATUS_NONE, CIRC_STATUS_LAUNCHED, CIRC_STATUS_BUILT, CIRC_STATUS_EXTENDED, CIRC_STATUS_FAILED,
     CIRC_STATUS_CLOSED, CIRC_STATUS_UNKNOWN] ! circ_status_num a = a"
  by (cases a) simp_all

lemma circ_status_num_less: "circ_status_num a < length circuitStatusStrings"
  by (cases a) (simp_all add: circuitStatusStrings_def)

lemma circ_status_inj: "torControl_getCircStatusString a = torControl_getCircStatusString b \<longleftrightarrow> a = b"
  unfolding torControl_getCircStatusString_def
  by (rule table_names [OF _ circ_status_num_less circ_status_all]) (simp add: circuitStatusStrings_def)

lemma circ_status_word: "list_all word_char (torControl_getCircStatusString a)"
  by (cases a; simp add: torControl_getCircStatusString_def circuitStatusStrings_def word_char_def)

lemma circ_status_read:
  "torControl_getCircStatus (torControl_getCircStatusString a) = (if a = CIRC_STATUS_NONE then CIRC_STATUS_UNKNOWN else a)"
  unfolding torControl_getCircStatus_def first_named_words [OF circ_status_inj circ_status_word] by (cases a) simp_all

lemma circ_purpose_all:
  "[CIRC_PURPOSE_NONE, CIRC_PURPOSE_GENERAL, CIRC_PURPOSE_HS_CLIENT_INTRO, CIRC_PURPOSE_HS_CLIENT_REND,
     CIRC_PURPOSE_HS_SERVICE_INTRO, CIRC_PURPOSE_HS_SERVICE_REND, CIRC_PURPOSE_TESTING,
     CIRC_PURPOSE_CONTROLLER, CIRC_PURPOSE_UNKNOWN] ! circ_purpose_num a = a"
  by (cases a) simp_all

lemma circ_purpose_num_less: "circ_purpose_num a < length circuitPurposeStrings"
  by (cases a) (simp_all add: circuitPurposeStrings_def)

lemma circ_purpose_inj: "torControl_getCircPurposeString a = torControl_getCircPurposeString b \<longleftrightarrow> a = b"
  unfolding torControl_getCircPurposeString_def
  by (rule table_names [OF _ circ_purpose_num_less circ_purpose_all]) (simp add: circuitPurposeStrings_def)

lemma circ_purpose_word: "list_all word_char (torControl_getCircPurposeString a)"
  by (cases a; simp add: torControl_getCircPurposeString_def circuitPurposeStrings_def word_char_def)

lemma circ_purpose_read:
  "torControl_getCircPurpose (torControl_getCircPurposeString a) = (if a = CIRC_PURPOSE_NONE then CIRC_PURPOSE_UNKNOWN else a)"
  unfolding torControl_getCircPurpose_def first_named_words [OF circ_purpose_inj circ_purpose_word] by (cases a) simp_all

lemma circ_reason_all:
  "[CIRC_REASON_NONE, CIRC_REASON_TORPROTOCOL, CIRC_REASON_INTERNAL, CIRC_REASON_REQUESTED,
     CIRC_REASON_HIBERNATING, CIRC_REASON_RESOURCELIMIT, CIRC_REASON_CONNECTFAILED, CIRC_REASON_OR_IDENTITY,
     CIRC_REASON_OR_CONN_CLOSED, CIRC_REASON_TIMEOUT, CIRC_REASON_FINISHED, CIRC_REASON_DESTROYED,
     CIRC_REASON_NOPATH, CIRC_REASON_NOSUCHSERVICE, CIRC_REASON_MEASUREMENT_EXPIRED, CIRC_REASON_UNKNOWN] !
     circ_reason_num a = a"
  by (cases a) simp_all

lemma circ_reason_num_less: "circ_reason_num a < length circuitReasonStrings"
  by (cases a) (simp_all add: circuitReasonStrings_def)

lemma circ_reason_inj: "torControl_getCircReasonString a = torControl_getCircReasonString b \<longleftrightarrow> a = b"
  unfolding torControl_getCircReasonString_def
  by (rule table_names [OF _ circ_reason_num_less circ_reason_all]) (simp add: circuitReasonStrings_def)

lemma circ_reason_word: "list_all word_char (torControl_getCircReasonString a)"
  by (cases a; simp add: torControl_getCircReasonString_def circuitReasonStrings_def word_char_def)

lemma circ_reason_read: "torControl_getCircReason (torControl_getCircReasonString a) = a"
  unfolding torControl_getCircReason_def first_named_words [OF circ_reason_inj circ_reason_word] by (cases a) simp_all

lemma stream_status_all:
  "[STREAM_STATUS_NONE, STREAM_STATUS_NEW, STREAM_STATUS_NEWRESOLVE, STREAM_STATUS_REMAP,
     STREAM_STATUS_SENTCONNECT, STREAM_STATUS_SENTRESOLVE, STREAM_STATUS_SUCCEEDED, STREAM_STATUS_FAILED,
     STREAM_STATUS_CLOSED, STREAM_STATUS_DETATCHED, STREAM_STATUS_UNKNOWN] ! stream_status_num a = a"
  by (cases a) simp_all

lemma stream_status_num_less: "stream_status_num a < length streamStatusStrings"
  by (cases a) (simp_all add: streamStatusStrings_def)

lemma stream_status_inj: "torControl_getStreamStatusString a = torControl_getStreamStatusString b \<longleftrightarrow> a = b"
  unfolding torControl_getStreamStatusString_def
  by (rule table_names [OF _ stream_status_num_less stream_status_all]) (simp add: streamStatusStrings_def)

lemma stream_status_word: "list_all word_char (torControl_getStreamStatusString a)"
  by (cases a; simp add: torControl_getStreamStatusString_def streamStatusStrings_def word_char_def)

lemma stream_status_read:
  "torControl_getStreamStatus (torControl_getStreamStatusString a) = (if a = STREAM_STATUS_NONE then STREAM_STATUS_UNKNOWN else a)"
  unfolding torControl_getStreamStatus_def first_named_words [OF stream_status_inj stream_status_word] by (cases a) simp_all

lemma stream_reason_all:
  "[STREAM_REASON_NONE, STREAM_REASON_MISC, STREAM_REASON_RESOLVEFAILED, STREAM_REASON_CONNECTREFUSED,
     STREAM_REASON_EXITPOLICY, STREAM_REASON_DESTROY, STREAM_REASON_DONE, STREAM_REASON_TIMEOUT,
     STREAM_REASON_NOROUTE, STREAM_REASON_HIBERNATING, STREAM_REASON_INTERNAL, STREAM_REASON_RESOURCELIMIT,
     STREAM_REASON_CONNRESET, STREAM_REASON_TORPROTOCOL, STREAM_REASON_NOTDIRECTORY, STREAM_REASON_END,
     STREAM_REASON_PRIVATE_ADDR, STREAM_REASON_UNKNOWN] ! stream_reason_num a = a"
  by (cases a) simp_all

lemma stream_reason_num_less: "stream_reason_num a < length streamReasonStrings"
  by (cases a) (simp_all add: streamReasonStrings_def)

lemma stream_reason_inj: "torControl_getStreamReasonString a = torControl_getStreamReasonString b \<longleftrightarrow> a = b"
  unfolding torControl_getStreamReasonString_def
  by (rule table_names [OF _ stream_reason_num_less stream_reason_all]) (simp add: streamReasonStrings_def)

lemma stream_reason_word: "list_all word_char (torControl_getStreamReasonString a)"
  by (cases a; simp add: torControl_getStreamReasonString_def streamReasonStrings_def word_char_def)

lemma stream_reason_read:
  "torControl_getStreamReason (torControl_getStreamReasonString a) = (if a = STREAM_REASON_NONE then STREAM_REASON_UNKNOWN else a)"
  unfolding torControl_getStreamReason_def first_named_words [OF stream_reason_inj stream_reason_word] by (cases a) simp_all

lemma stream_purpose_all:
  "[STREAM_PURPOSE_NONE, STREAM_PURPOSE_DIR_FETCH, STREAM_PURPOSE_UPLOAD_DESC, STREAM_PURPOSE_DNS_REQUEST,
     STREAM_PURPOSE_USER, STREAM_PURPOSE_DIRPORT_TEST, STREAM_PURPOSE_UNKNOWN] ! stream_purpose_num a = a"
  by (cases a) simp_all

lemma stream_purpose_num_less: "stream_purpose_num a < length streamPurposeStrings"
  by (cases a) (simp_all add: streamPurposeStrings_def)

lemma stream_purpose_inj: "torControl_getStreamPurposeString a = torControl_getStreamPurposeString b \<longleftrightarrow> a = b"
  unfolding torControl_getStreamPurposeString_def
  by (rule table_names [OF _ stream_purpose_num_less stream_purpose_all]) (simp add: streamPurposeStrings_def)

lemma stream_purpose_word: "list_all word_char (torControl_getStreamPurposeString a)"
  by (cases a; simp add: torControl_getStreamPurposeString_def streamPurposeStrings_def word_char_def)

lemma stream_purpose_read:
  "torControl_getStreamPurpose (torControl_getStreamPurposeString a) = (if a = STREAM_PURPOSE_NONE then STREAM_PURPOSE_UNKNOWN else a)"
  by (cases a; simp add: torControl_getStreamPurpose_def torControl_getStreamPurposeString_def streamPurposeStrings_def ci_eq_words word_char_def)

lemma orconn_status_all:
  "[ORCONN_STATUS_NONE, ORCONN_STATUS_NEW, ORCONN_STATUS_LAUNCHED, ORCONN_STATUS_CONNECTED,
     ORCONN_STATUS_FAILED, ORCONN_STATUS_CLOSED, ORCONN_STATUS_UNKNOWN] ! orconn_status_num a = a"
  by (cases a) simp_all

lemma orconn_status_num_less: "orconn_status_num a < length orconnStatusStrings"
  by (cases a) (simp_all add: orconnStatusStrings_def)

lemma orconn_status_inj: "torControl_getORConnStatusString a = torControl_getORConnStatusString b \<longleftrightarrow> a = b"
  unfolding torControl_getORConnStatusString_def
  by (rule table_names [OF _ orconn_status_num_less orconn_status_all]) (simp add: orconnStatusStrings_def)

lemma orconn_status_word: "list_all word_char (torControl_getORConnStatusString a)"
  by (cases a; simp add: torControl_getORConnStatusString_def orconnStatusStrings_def word_char_def)

lemma orconn_status_read:
  "torControl_getORConnStatus (torControl_getORConnStatusString a) = (if a = ORCONN_STATUS_NONE then ORCONN_STATUS_UNKNOWN else a)"
  unfolding torControl_getORConnStatus_def first_named_words [OF orconn_status_inj orconn_status_word] by (cases a) simp_all

lemma orconn_reason_all:
  "[ORCONN_REASON_NONE, ORCONN_REASON_MISC, ORCONN_REASON_DONE, ORCONN_REASON_CONNECTREFUSED,
     ORCONN_REASON_IDENTITY, ORCONN_REASON_CONNECTRESET, ORCONN_REASON_TIMEOUT, ORCONN_REASON_NOROUTE,
     ORCONN_REASON_IOERROR, ORCONN_REASON_RESOURCELIMIT, ORCONN_REASON_UNKNOWN] ! orconn_reason_num a = a"
  by (cases a) simp_all

lemma orconn_reason_num_less: "orconn_reason_num a < length orconnReasonStrings"
  by (cases a) (simp_all add: orconnReasonStrings_def)

lemma orconn_reason_inj: "torControl_getORConnReasonString a = torControl_getORConnReasonString b \<longleftrightarrow> a = b"
  unfolding torControl_getORConnReasonString_def
  by (rule table_names [OF _ orconn_reason_num_less orconn_reason_all]) (simp add: orconnReasonStrings_def)

lemma orconn_reason_word: "list_all word_char (torControl_getORConnReasonString a)"
  by (cases a; simp add: torControl_getORConnReasonString_def orconnReasonStrings_def word_char_def)

lemma orconn_reason_read:
  "torControl_getORConnReason (torControl_getORConnReasonString a) = (if a = ORCONN_REASON_NONE then ORCONN_REASON_UNKNOWN else a)"
  unfolding torControl_getORConnReason_def first_named_words [OF orconn_reason_inj orconn_reason_word] by (cases a) simp_all

text \<open>
  C28: every name of the tables is read back as the value it stands for, except that most of the
  functions do not know the word NONE.
\<close>

theorem words_read_back:
  "(\<forall>a. torControl_getCircStatus (torControl_getCircStatusString a) = (if a = CIRC_STATUS_NONE then CIRC_STATUS_UNKNOWN else a))
   \<and> (\<forall>a. torControl_getCircPurpose (torControl_getCircPurposeString a) = (if a = CIRC_PURPOSE_NONE then CIRC_PURPOSE_UNKNOWN else a))
   \<and> (\<forall>a. torControl_getCircReason (torControl_getCircReasonString a) = a)
   \<and> (\<forall>a. torControl_getStreamStatus (torControl_getStreamStatusString a) = (if a = STREAM_STATUS_NONE then STREAM_STATUS_UNKNOWN else a))
   \<and> (\<forall>a. torControl_getStreamReason (torControl_getStreamReasonString a) = (if a = STREAM_REASON_NONE then STREAM_REASON_UNKNOWN else a))
   \<and> (\<forall>a. torControl_getStreamPurpose (torControl_getStreamPurposeString a) = (if a = STREAM_PURPOSE_NONE then STREAM_PURPOSE_UNKNOWN else a))
   \<and> (\<forall>a. torControl_getORConnStatus (torControl_getORConnStatusString a) = (if a = ORCONN_STATUS_NONE then ORCONN_STATUS_UNKNOWN else a))
   \<and> (\<forall>a. torControl_getORConnReason (torControl_getORConnReasonString a) = (if a = ORCONN_REASON_NONE then ORCONN_REASON_UNKNOWN else a))"
  using circ_status_read circ_purpose_read circ_reason_read stream_status_read stream_reason_read stream_purpose_read orconn_status_read orconn_reason_read by blast

text \<open>
  Five words of the protocol's stream events are not the words of the table and are read as
  unknown states.
\<close>

theorem stream_words_unknown:
  "map torControl_getStreamStatus [''SUCCEEDED'', ''NEWRESOLVE'', ''SENTCONNECT'', ''SENTRESOLVE'', ''DETACHED'']
     = [STREAM_STATUS_UNKNOWN, STREAM_STATUS_UNKNOWN, STREAM_STATUS_UNKNOWN, STREAM_STATUS_UNKNOWN, STREAM_STATUS_UNKNOWN]"
  by (simp add: torControl_getStreamStatus_def torControl_getStreamStatusString_def streamStatusStrings_def
      ci_eq_words word_char_def)

end
