(* ===== verification/Torctl_Properties.thy ===== *)
theory Torctl_Properties
  imports Torctl_Stream Torctl_Safe Torctl_Words
begin

text \<open>
  The theorems about the controller of Tor processes and its modules, with the example states
  their instances use.
\<close>

section \<open>Isolation\<close>

text \<open>Two loggers, started from a file of control ports.\<close>

definition log_conn :: "string \<Rightarrow> fd \<Rightarrow> string \<Rightarrow> tc_conn" where
  "log_conn hostname sd ev =
     \<lparr>cn_hostname = hostname, cn_ip = 1, cn_port = 9051, cn_mode = ''log'', cn_buf = [], cn_sendBuf = [], cn_reply = [],
      cn_readingData = False, cn_initialized = False,
      cn_module = Logger \<lparr>lg_state = TCLS_SEND_AUTHENTICATE, lg_nextState = TCLS_IDLE, lg_targetHostname = hostname,
        lg_targetPort = 9051, lg_targetSockd = sd, lg_torctlEvents = ev\<rparr>\<rparr>"

lemma log_module: "tct_module_new ''log'' h 9051 sd (Some [''BW'']) = Ret (Some (cn_module (log_conn h sd ''BW'')))"
proof -
  have "\<not> ci_prefix ''circuitBuild'' (cstr ''log'')" "ci_prefix ''log'' (cstr ''log'')" "map ascii_upper ''BW'' = ''BW''"
    by code_simp+
  then show ?thesis
    by (simp add: tct_module_new_def torcontrollogger_new_def log_conn_def)
qed

lemma host_line:
  assumes "h \<in> {''guard'', ''exit''}"
  shows "torctl_host_line (\<lambda>_. Some 1) (h @ '':9051:log:BW'')
     = act_bind (torControl_createConnection (\<lambda>_. Some 1) h 9051 ''log'' (Some [''BW''])) (\<lambda>_. act_return ())"
proof -
  have "split_set '' :'' 4 ''guard:9051:log:BW'' = [''guard'', ''9051'', ''log'', ''BW'']"
    "split_set '' :'' 4 ''exit:9051:log:BW'' = [''exit'', ''9051'', ''log'', ''BW'']"
    "atoi ''9051'' = 9051" "g_strsplit ''BW'' '' '' 0 = [''BW'']"
    by code_simp+
  with assms show ?thesis by (auto simp: torctl_host_line_def)
qed

lemma log_created:
  assumes "hostname = ''guard'' \<or> hostname = ''exit''" "w_socket w = Inr sd # q" "w_connect w = []" "0 \<le> sd" "w_ctl w = []"
  shows "\<exists>w'. torControl_createConnection (\<lambda>_. Some 1) hostname 9051 ''log'' (Some [''BW'']) (tc, w)
     = (Ret sd, tc\<lparr>tct_connections := AList.update sd (log_conn hostname sd ''BW'') (tct_connections tc)\<rparr>, w')
   \<and> w_socket w' = q \<and> w_connect w' = [] \<and> w_ctl w' = [] \<and> w_send w' = w_send w \<and> (\<forall>fd. sent_on fd (w_log w') = sent_on fd (w_log w))"
proof -
  have "torControl_resolveHostname (\<lambda>_. Some 1) ''guard'' = Some 1" "torControl_resolveHostname (\<lambda>_. Some 1) ''exit'' = Some 1" 
    by code_simp+
  then show ?thesis using assms
    by (auto simp: torControl_createConnection_def log_module torControl_connect_def sys_socket_def sys_connect_def epoll_ctl_def
        torControl_changeEpoll_def log_conn_def Let_def)
qed

definition hosts_file :: string where
  "hosts_file = ''guard:9051:log:BW'' @ [LF] @ ''exit:9051:log:BW''"

definition two_ports :: torctl where
  "two_ports = \<lparr>tct_epolld = 10, tct_connections = [(11, log_conn ''guard'' 11 ''BW''), (12, log_conn ''exit'' 12 ''BW'')],
     tct_logged = [], tct_callbacks = []\<rparr>"

lemma two_ports_started: "\<exists>w. torctl_reachable (two_ports, w) \<and> w_send w = [SOk 100] \<and> w_ctl w = []"
proof -
  define tc where "tc = \<lparr>tct_epolld = 0, tct_connections = [], tct_logged = [], tct_callbacks = []\<rparr>"
  define w where "w = quiet_world\<lparr>w_socket := [Inr 10, Inr 11, Inr 12], w_send := [SOk 100]\<rparr>"
  define w0 where "w0 = w\<lparr>w_socket := [Inr 11, Inr 12]\<rparr>"
  define tc0 where "tc0 = tc\<lparr>tct_epolld := 10\<rparr>"
  have sock: "sys_socket w = (Inr 10, w0)" by (simp add: w_def w0_def sys_socket_def quiet_world_def)
  have w0: "w_socket w0 = [Inr 11, Inr 12]" "w_connect w0 = []" "w_ctl w0 = []" "w_send w0 = [SOk 100]"
    by (simp_all add: w0_def w_def quiet_world_def)
  obtain w1 where w1: "torControl_createConnection (\<lambda>_. Some 1) ''guard'' 9051 ''log'' (Some [''BW'']) (tc0, w0)
      = (Ret 11, tc0\<lparr>tct_connections := AList.update 11 (log_conn ''guard'' 11 ''BW'') (tct_connections tc0)\<rparr>, w1)"
    "w_socket w1 = [Inr 12]" "w_connect w1 = []" "w_ctl w1 = []" "w_send w1 = [SOk 100]"
    using log_created [of "''guard''" w0 11 "[Inr 12]" tc0] w0 by auto
  define tc1 where "tc1 = tc0\<lparr>tct_connections := AList.update 11 (log_conn ''guard'' 11 ''BW'') (tct_connections tc0)\<rparr>"
  obtain w2 where w2: "torControl_createConnection (\<lambda>_. Some 1) ''exit'' 9051 ''log'' (Some [''BW'']) (tc1, w1)
      = (Ret 12, tc1\<lparr>tct_connections := AList.update 12 (log_conn ''exit'' 12 ''BW'') (tct_connections tc1)\<rparr>, w2)"
    "w_ctl w2 = []" "w_send w2 = [SOk 100]"
    using log_created [of "''exit''" w1 12 "[]" tc1] w1 by auto
  have lines: "g_strsplit hosts_file [LF] 0 = [''guard'' @ '':9051:log:BW'', ''exit'' @ '':9051:log:BW'']" by code_simp
  have "tc1\<lparr>tct_connections := AList.update 12 (log_conn ''exit'' 12 ''BW'') (tct_connections tc1)\<rparr> = two_ports"
    by (simp add: tc1_def tc0_def tc_def two_ports_def)
  with w2(1) have second: "torctl_host_line (\<lambda>_. Some 1) (''exit'' @ '':9051:log:BW'') (tc1, w1) = (Ret (), two_ports, w2)"
    using host_line [of "''exit''"] by (simp add: act_bind_def act_return_def)
  have first: "torctl_host_line (\<lambda>_. Some 1) (''guard'' @ '':9051:log:BW'') (tc0, w0) = (Ret (), tc1, w1)"
    using w1(1) host_line [of "''guard''"] by (simp add: act_bind_def act_return_def tc1_def)
  have "torControl_new (\<lambda>_. Some 1) (\<lambda>_. Some hosts_file) ''multi'' [''hosts''] (tc, w) = (Ret (), two_ports, w2)"
    using first second sock unfolding torControl_new_def torctl_multi_def
    by (simp add: lines act_then_def act_bind_def act_return_def tc0_def tc_def del: append.simps)
  moreover have "tct_connections tc = []" by (simp add: tc_def)
  ultimately show ?thesis using torctl_reachable.started w2(2,3) by blast
qed

lemma first_wakes:
  assumes "w_send w = [SOk 100]"
  shows "\<exists>t. torControl_activate (Some [(11, [EPOLLOUT])]) (two_ports, w) = (Ret 0, t)
     \<and> sent_on 11 (w_log (snd t)) = sent_on 11 (w_log w) @ ''AUTHENTICATE '' @ [CHR 0x22] @ ''password'' @ [CHR 0x22] @ crlf"
proof -
  have conn: "map_of (tct_connections two_ports) 11 = Some (log_conn ''guard'' 11 ''BW'')" by (simp add: two_ports_def)
  have tk: "takes (Suc 0) 100 w" using assms by (simp add: takes_def)
  have "torControl_authenticate 11 ''password'' (two_ports, w)
      = (Ret 25, two_ports, issue 11 (''AUTHENTICATE '' @ [CHR 0x22] @ ''password'' @ [CHR 0x22]) w)"
    using send_whole [OF conn _ tk] by (simp add: torControl_authenticate_def log_conn_def)
  then show ?thesis
    using conn
    by (simp add: torControl_activate_def torctl_socket_event_def torctl_initialize_def with_conn_def on_module_def md_initialize_def
        with_data_def log_conn_def on_logger_def torcontrollogger_manageState_def lg_pass_def lg_sent_def on_ctx_def on_data_def
        act_then_def act_bind_def act_return_def act_update_def on_conn_def torctl_writable_def)
qed

text \<open>
  C6: over the whole life of the controller, an activation changes and sends nothing on a
  control port that it was not woken for.
\<close>

theorem control_ports_isolated:
  assumes "torctl_reachable s" "torControl_activate (Some es) s = (r, t)" "fd \<notin> fst ` set es"
  shows "map_of (tct_connections (fst t)) fd = map_of (tct_connections (fst s)) fd
     \<and> sent_on fd (w_log (snd t)) = sent_on fd (w_log (snd s))"
  using socket_events_frame [of es s r t] reachable_ok [OF assms(1)] assms(2,3)
  by (auto simp: torControl_activate_def)

theorem control_ports_isolated_witness:
  "\<exists>w t. torControl_activate (Some [(11, [EPOLLOUT])]) (two_ports, w) = (Ret 0, t)
     \<and> map_of (tct_connections (fst t)) 12 = Some (log_conn ''exit'' 12 ''BW'')
     \<and> sent_on 12 (w_log (snd t)) = sent_on 12 (w_log w) \<and> sent_on 11 (w_log (snd t)) \<noteq> sent_on 11 (w_log w)"
proof -
  obtain w where w: "torctl_reachable (two_ports, w)" "w_send w = [SOk 100]" using two_ports_started by blast
  obtain t where t: "torControl_activate (Some [(11, [EPOLLOUT])]) (two_ports, w) = (Ret 0, t)"
    "sent_on 11 (w_log (snd t)) \<noteq> sent_on 11 (w_log w)"
    using first_wakes [OF w(2)] by auto
  have "map_of (tct_connections two_ports) 12 = Some (log_conn ''exit'' 12 ''BW'')" by (simp add: two_ports_def)
  with t control_ports_isolated [OF w(1) t(1), of 12] show ?thesis by (intro exI [of _ w] exI [of _ t]) simp
qed

section \<open>The stream of replies\<close>

text \<open>
  C17: however the network cuts what a control port says, the controller handles the same lines
  in the same order and ends in the same state as if all of it had come at once.
\<close>

theorem pieces_as_one:
  assumes "own_ok sd s" "ps \<noteq> []" "[] \<notin> set ps" "NUL \<notin> set (conn_buf sd s @ concat ps)"
    and "length (conn_buf sd s) + length (concat ps) < TORCTL_BUF_SIZE"
  shows "fst (act_each (torctl_received sd) ps s) = fst (torctl_received sd (concat ps) s)
     \<and> (fst (torctl_received sd (concat ps) s) = Ret ()
          \<longrightarrow> act_each (torctl_received sd) ps s = torctl_received sd (concat ps) s)"
  using pieces_result [OF assms] by (simp add: same_result_def prod_eq_iff)

theorem pieces_as_one_witness:
  "fst (torctl_received 11 (''250 OK'' @ crlf) (two_ports, quiet_world)) = Ret ()
   \<and> act_each (torctl_received 11) [''25'', ''0 OK'' @ [CR], [LF]] (two_ports, quiet_world)
     = torctl_received 11 (''250 OK'' @ crlf) (two_ports, quiet_world)"
proof -
  have split: "g_strsplit (''250 OK'' @ crlf) crlf 0 = [''250 OK'', []]" and code: "atoi ''250 OK'' = 250" by code_simp+
  have "own_ok 11 (two_ports, quiet_world)" by (simp add: own_ok_def two_ports_def log_conn_def)
  moreover have "conn_buf 11 (two_ports, quiet_world) = []" by (simp add: conn_buf_def two_ports_def log_conn_def)
  moreover have "fst (torctl_received 11 (''250 OK'' @ crlf) (two_ports, quiet_world)) = Ret ()"
    by (simp add: torctl_received_def with_conn_def two_ports_def log_conn_def TORCTL_BUF_SIZE_def split [simplified] code
        torctl_line_def reply_first_def on_conn_def reply_complete_def torControl_processReply_def reply_response_def reply_user_data_def
        on_module_def md_response_def with_data_def on_logger_def torcontrollogger_handleResponseEvent_def
        torcontrollogger_manageState_def lg_pass_def on_data_def tct_conn_update_def
        act_then_def act_bind_def act_return_def act_update_def Let_def)
  ultimately show ?thesis
    using pieces_as_one [of 11 "(two_ports, quiet_world)" "[''25'', ''0 OK'' @ [CR], [LF]]"]
    by (simp add: TORCTL_BUF_SIZE_def)
qed

text \<open>Lines of a data reply.\<close>

lemma conn_update_cong:
  assumes "\<And>c. map_of (tct_connections tc) sd = Some c \<Longrightarrow> f c = g c"
  shows "tct_conn_update sd f tc = tct_conn_update sd g tc"
proof -
  have "AList.map_entry sd f al = AList.map_entry sd g al" if "\<And>c. map_of al sd = Some c \<Longrightarrow> f c = g c" for al
    using that by (induction al) auto
  with assms show ?thesis by (simp add: tct_conn_update_def)
qed

lemma lower_LF: "ascii_lower c = LF \<Longrightarrow> c = LF"
proof -
  assume low: "ascii_lower c = LF"
  then have "(of_char (ascii_lower c) :: nat) = 10" by simp
  then have "\<not> (65 \<le> (of_char c :: nat) \<and> (of_char c :: nat) \<le> 90)" by (auto simp: ascii_lower_def)
  with low show "c = LF" by (simp add: ascii_lower_def del: of_char_eq_iff split: if_splits)
qed

lemma ci_eq_LF:
  assumes "ci_eq s t" "LF \<in> set (cstr t)"
  shows "LF \<in> set s"
proof -
  have "LF \<in> ascii_lower ` set (cstr t)" using assms(2) by (force simp: ascii_lower_def)
  then have "LF \<in> ascii_lower ` set (cstr s)" using assms(1) by (metis ci_eq_def list.set_map)
  then obtain c where "c \<in> set (cstr s)" "ascii_lower c = LF" by force
  then have "LF \<in> set (cstr s)" using lower_LF by blast
  then show ?thesis using set_takeWhileD by (fastforce simp: cstr_def)
qed

lemma no_data_end: "LF \<notin> set line \<Longrightarrow> \<not> data_end line"
  using ci_eq_LF [of line "''.'' @ crlf"] ci_eq_LF [of line "''650 OK'' @ crlf"] ci_eq_LF [of line "''.'' @ [LF]"]
    ci_eq_LF [of line "''650 OK'' @ [LF]"]
  by (auto simp: data_end_def cstr_def)

lemma split_lines:
  "\<forall>l\<in>set ls. CR \<notin> set l \<Longrightarrow> split_tokens crlf 0 (concat (map (\<lambda>l. l @ crlf) ls)) = ls @ [[]]"
proof (induction ls)
  case (Cons l ls)
  then show ?case using split_first [of CR l 0 "[LF]" "concat (map (\<lambda>l. l @ crlf) ls)"] by simp
qed (simp add: split_last)

text \<open>What a connection has after more data lines.\<close>

definition data_added :: "reply_line list \<Rightarrow> reply_line \<Rightarrow> string list \<Rightarrow> tc_conn \<Rightarrow> tc_conn" where
  "data_added rs rl ls c = c\<lparr>cn_reply := rs @ [rl\<lparr>rl_data := rl_data rl @ ls\<rparr>]\<rparr>"

lemma data_lines:
  assumes "\<forall>l\<in>set ls. LF \<notin> set l" "map_of (tct_connections tc) sd = Some cn" "cn_readingData cn" "cn_reply cn = rs @ [rl]"
  shows "act_each (torctl_line sd) ls (tc, w) = (Ret (), tct_conn_update sd (data_added rs rl ls) tc, w)"
  using assms
proof (induction ls arbitrary: tc cn rl)
  case Nil
  then show ?case by (simp add: act_return_def data_added_def conn_update_same)
next
  case (Cons l ls)
  let ?tc = "tct_conn_update sd (data_added rs rl [l]) tc"
  have "torctl_line sd l (tc, w) = (Ret (), tct_conn_update sd (\<lambda>c. c\<lparr>cn_reply := butlast (cn_reply c) @
              [(last (cn_reply c))\<lparr>rl_data := rl_data (last (cn_reply c)) @ [l]\<rparr>]\<rparr>) tc, w)"
    using Cons.prems no_data_end
    by (simp add: torctl_line_def with_conn_def reply_data_def on_conn_def act_update_def)
  also have "tct_conn_update sd (\<lambda>c. c\<lparr>cn_reply := butlast (cn_reply c) @
              [(last (cn_reply c))\<lparr>rl_data := rl_data (last (cn_reply c)) @ [l]\<rparr>]\<rparr>) tc = ?tc"
    using Cons.prems(2,4) by (intro conn_update_cong) (auto simp: data_added_def)
  finally have line: "torctl_line sd l (tc, w) = (Ret (), ?tc, w)" .
  have "act_each (torctl_line sd) ls (?tc, w)
      = (Ret (), tct_conn_update sd (data_added rs (rl\<lparr>rl_data := rl_data rl @ [l]\<rparr>) ls) ?tc, w)"
    using Cons.prems by (intro Cons.IH [where cn = "data_added rs rl [l] cn"]) (simp_all add: data_added_def)
  also have "tct_conn_update sd (data_added rs (rl\<lparr>rl_data := rl_data rl @ [l]\<rparr>) ls) ?tc = tct_conn_update sd (data_added rs rl (l # ls)) tc"
    unfolding conn_update_update by (intro conn_update_cong) (simp add: data_added_def)
  finally show ?case using line by (simp add: act_then_def act_bind_def)
qed

text \<open>
  C37: a reply line that announces data is never ended: whatever complete lines follow, the
  final dot and further replies among them, become part of the data, and the module hears nothing.
\<close>

theorem data_reply_deafens:
  assumes "map_of (tct_connections tc) sd = Some cn" "cn_readingData cn" "cn_reply cn = rs @ [rl]" "cn_buf cn = []"
    and "ls \<noteq> []" "\<forall>l\<in>set ls. CR \<notin> set l \<and> LF \<notin> set l \<and> NUL \<notin> set l"
    and "length (concat (map (\<lambda>l. l @ crlf) ls)) < TORCTL_BUF_SIZE"
  shows "torctl_received sd (concat (map (\<lambda>l. l @ crlf) ls)) (tc, w) = (Ret (), tct_conn_update sd (data_added rs rl ls) tc, w)"
proof -
  let ?bs = "concat (map (\<lambda>l. l @ crlf) ls)"
  have "NUL \<notin> set ?bs" "?bs \<noteq> []" using assms(5,6) by (auto simp: neq_Nil_conv)
  then have split: "g_strsplit ?bs crlf 0 = ls @ [[]]"
    using assms(6) by (simp add: g_strsplit_def cstr_id split_lines)
  have lines: "act_each (torctl_line sd) ls (tc, w) = (Ret (), tct_conn_update sd (data_added rs rl ls) tc, w)"
    using assms by (intro data_lines) auto
  have "tct_conn_update sd (\<lambda>c. c\<lparr>cn_buf := []\<rparr>) (tct_conn_update sd (data_added rs rl ls) tc) = tct_conn_update sd (data_added rs rl ls) tc"
    unfolding conn_update_update using assms(1,4) by (intro conn_update_cong) (simp add: data_added_def)
  with lines split assms(1,4,7) show ?thesis
    by (simp add: torctl_received_def with_conn_def act_then_def act_bind_def on_conn_def act_update_def Let_def)
qed

theorem data_reply_deafens_witness:
  "\<exists>tc cn. map_of (tct_connections tc) 11 = Some cn \<and> cn_readingData cn
     \<and> torctl_received 11 (''a=b'' @ crlf @ ''.'' @ crlf @ ''250 OK'' @ crlf) (tc, quiet_world)
         = (Ret (), tct_conn_update 11 (data_added [] \<lparr>rl_code = 250, rl_body = ''info='', rl_data = []\<rparr> [''a=b'', ''.'', ''250 OK'']) tc, quiet_world)"
proof -
  define cn where "cn = (log_conn ''guard'' 11 ''BW'')\<lparr>cn_readingData := True, cn_reply := [\<lparr>rl_code = 250, rl_body = ''info='', rl_data = []\<rparr>]\<rparr>"
  define tc where "tc = two_ports\<lparr>tct_connections := [(11, cn)]\<rparr>"
  show ?thesis
    using data_reply_deafens [of tc 11 cn "[]" "\<lparr>rl_code = 250, rl_body = ''info='', rl_data = []\<rparr>" "[''a=b'', ''.'', ''250 OK'']" quiet_world]
    by (intro exI [of _ tc] exI [of _ cn]) (simp add: cn_def tc_def log_conn_def TORCTL_BUF_SIZE_def)
qed

end
