(* ===== verification/Torctl_Module_Properties.thy ===== *)
theory Torctl_Module_Properties
  imports Torctl_Properties
begin

text \<open>
  The theorems about the modules of the controller: building circuits, pinging a relay, and what a
  command goes through that the kernel takes in parts.
\<close>

section \<open>Building circuits\<close>

definition building_port :: "circuit_build \<Rightarrow> torctl" where
  "building_port cb = \<lparr>tct_epolld = 10,
     tct_connections = [(11, \<lparr>cn_hostname = ''client'', cn_ip = 1, cn_port = 9051, cn_mode = ''circuitBuild'', cn_buf = [], cn_sendBuf = [],
       cn_reply = [], cn_readingData = False, cn_initialized = False, cn_module = CircuitBuild cb\<rparr>)],
     tct_logged = [], tct_callbacks = []\<rparr>"

definition two_circuits :: circuit_build where
  "two_circuits = \<lparr>cb_bootstrapped = False,
     cb_circuits = [\<lparr>ci_startTime = 0, ci_endTime = 5, ci_relays = ''a,b'', ci_circID = -1\<rparr>,
                    \<lparr>ci_startTime = 5, ci_endTime = -1, ci_relays = ''c,d'', ci_circID = -1\<rparr>],
     cb_circuitsToBuild = [0, 1], cb_sockd = 11, cb_waiting = False, cb_state = CIRCBUILD_AUTHENTICATE,
     cb_nextState = CIRCBUILD_AUTHENTICATE\<rparr>"

lemma two_circuits_new: "torControlCircuitBuild_new 11 (Some [''a,b'', ''5:c,d'']) = Ret (Some two_circuits)"
proof -
  have "cb_circuits_of [''a,b'', ''5:c,d''] = Ret [\<lparr>ci_startTime = 0, ci_endTime = -1, ci_relays = ''a,b'', ci_circID = -1\<rparr>,
      \<lparr>ci_startTime = 5, ci_endTime = -1, ci_relays = ''c,d'', ci_circID = -1\<rparr>]"
    by code_simp
  then show ?thesis by (simp add: torControlCircuitBuild_new_def two_circuits_def)
qed

text \<open>
  C7: when Tor answers every command and the kernel takes it, the module authenticates, sets its
  options, subscribes, asks for the bootstrap phase, and then builds the configured circuits one
  after the other; each gets the identity Tor gave it.
\<close>

theorem circuits_built_in_order:
  assumes "torControlCircuitBuild_new sd (Some args) = Ret (Some cb)" "length ns = length args" "\<forall>n\<in>set ns. n < 2 ^ 31"
    and "map_of (tct_connections tc) sd = Some cn" "cn_module cn = CircuitBuild cb" "cn_sendBuf cn = []" "\<not> cn_initialized cn"
    and "takes (4 + length args) m w" "90 \<le> m" "\<forall>c\<in>set (cb_circuits cb). length (ci_relays c) + 18 \<le> m"
  shows "\<exists>cb' w'. act_then (torctl_initialize sd) (act_each (torControl_processReply sd)
        ([[tor_ok], [tor_ok], [tor_ok], [tor_phase, tor_ok]] @ map (\<lambda>n. [tor_extended n]) ns)) (tc, w)
      = (Ret (), tct_conn_update sd (\<lambda>c. c\<lparr>cn_module := CircuitBuild cb'\<rparr>) tc, w')
     \<and> cb_bootstrapped cb' \<and> cb_circuitsToBuild cb' = [] \<and> map ci_circID (cb_circuits cb') = map int ns
     \<and> sent_on sd (w_log w') = sent_on sd (w_log w)
         @ concat (map (\<lambda>c. c @ crlf) (tor_greetings @ map (\<lambda>c. ''EXTENDCIRCUIT 0 '' @ ci_relays c) (cb_circuits cb)))"
  using dialogue [OF assms] .

theorem circuits_built_in_order_witness:
  "\<exists>cb' w'. act_then (torctl_initialize 11) (act_each (torControl_processReply 11)
        [[tor_ok], [tor_ok], [tor_ok], [tor_phase, tor_ok], [tor_extended 7], [tor_extended 9]])
          (building_port two_circuits, quiet_world\<lparr>w_send := replicate 6 (SOk 100)\<rparr>)
      = (Ret (), tct_conn_update 11 (\<lambda>c. c\<lparr>cn_module := CircuitBuild cb'\<rparr>) (building_port two_circuits), w')
     \<and> map ci_circID (cb_circuits cb') = [7, 9]
     \<and> sent_on 11 (w_log w') = concat (map (\<lambda>c. c @ crlf) (tor_greetings @ [''EXTENDCIRCUIT 0 a,b'', ''EXTENDCIRCUIT 0 c,d'']))"
proof -
  let ?cn = "\<lparr>cn_hostname = ''client'', cn_ip = 1, cn_port = 9051, cn_mode = ''circuitBuild'', cn_buf = [], cn_sendBuf = [],
       cn_reply = [], cn_readingData = False, cn_initialized = False, cn_module = CircuitBuild two_circuits\<rparr>"
  let ?w = "quiet_world\<lparr>w_send := replicate 6 (SOk 100)\<rparr>"
  have "map_of (tct_connections (building_port two_circuits)) 11 = Some ?cn" by (simp add: building_port_def)
  moreover have "takes (4 + length [''a,b'', ''5:c,d'']) 100 ?w"
    by (simp add: takes_def quiet_world_def)
  moreover have "\<forall>c\<in>set (cb_circuits two_circuits). length (ci_relays c) + 18 \<le> 100" by (simp add: two_circuits_def)
  ultimately obtain cb' w' where
    "act_then (torctl_initialize 11) (act_each (torControl_processReply 11)
        ([[tor_ok], [tor_ok], [tor_ok], [tor_phase, tor_ok]] @ map (\<lambda>n. [tor_extended n]) [7, 9])) (building_port two_circuits, ?w)
      = (Ret (), tct_conn_update 11 (\<lambda>c. c\<lparr>cn_module := CircuitBuild cb'\<rparr>) (building_port two_circuits), w')"
    "map ci_circID (cb_circuits cb') = map int [7, 9]"
    "sent_on 11 (w_log w') = sent_on 11 (w_log ?w)
         @ concat (map (\<lambda>c. c @ crlf) (tor_greetings @ map (\<lambda>c. ''EXTENDCIRCUIT 0 '' @ ci_relays c) (cb_circuits two_circuits)))"
    using circuits_built_in_order [OF two_circuits_new, of "[7, 9]" "building_port two_circuits" ?cn 100 ?w] by auto
  moreover have "map (\<lambda>c. ''EXTENDCIRCUIT 0 '' @ ci_relays c) (cb_circuits two_circuits) = [''EXTENDCIRCUIT 0 a,b'', ''EXTENDCIRCUIT 0 c,d'']"
    by (simp add: two_circuits_def)
  ultimately show ?thesis
    by (intro exI [of _ cb'] exI [of _ w'] conjI) (simp_all only: list.map append.simps, simp_all add: quiet_world_def)
qed

text \<open>
  C11: whatever Tor says and in whatever order, replies, circuit, stream and status events lead
  the module neither to a NULL nor to a circuit that is not there; it keeps its descriptor and the
  paths of its circuits.
\<close>

theorem circuit_build_safe:
  assumes "torControlCircuitBuild_new sd (Some args) = Ret (Some cb)" "own_ok sd x" "\<forall>ud. Reply [] ud \<notin> set happenings"
  shows "\<exists>cb' y. act_each cb_handle happenings (cb, x) = (Ret (), cb', y) \<and> cb_ok cb' \<and> cb_sockd cb' = sd
     \<and> map ci_relays (cb_circuits cb') = map ci_relays (cb_circuits cb)"
proof -
  have start: "cb_inv sd (cb_circuits cb) (cb, x)"
    using circuit_build_starts [OF assms(1)] assms(2) by (simp add: cb_inv_def)
  have "runs (act_each cb_handle happenings) (cb, x) (\<lambda>_. cb_inv sd (cb_circuits cb))"
    using start assms(3) by (intro runs_each) (auto intro!: runs_handle)
  from runsD [OF this] show ?thesis by (auto simp: cb_inv_def)
qed

theorem circuit_build_safe_witness:
  "\<exists>cb' y. act_each cb_handle [Activated, Reply [tor_extended 3] (Some (ReplyExtended 3)), Reply [tor_ok] None]
      (two_circuits, building_port two_circuits, quiet_world) = (Ret (), cb', y) \<and> cb_ok cb'"
proof -
  have "own_ok 11 (building_port two_circuits, quiet_world)"
    by (simp add: own_ok_def building_port_def two_circuits_def)
  then show ?thesis
    using circuit_build_safe [OF two_circuits_new, of "(building_port two_circuits, quiet_world)"
        "[Activated, Reply [tor_extended 3] (Some (ReplyExtended 3)), Reply [tor_ok] None]"]
    by (auto simp: tor_ok_def tor_extended_def)
qed

text \<open>Tor reports the end of its start on its own.\<close>

definition tor_done :: reply_line where
  "tor_done = \<lparr>rl_code = 650, rl_body = ''STATUS_CLIENT NOTICE BOOTSTRAP PROGRESS=100 TAG=done'', rl_data = []\<rparr>"

definition done_event :: status_event where
  "done_event = \<lparr>te_code = 650, te_line = rl_body tor_done, te_type = STATUS_TYPE_CLIENT, te_severity = STATUS_SEVERITY_NOTICE,
     te_action = ''BOOTSTRAP'', te_arguments = [(''PROGRESS'', Some ''100''), (''TAG'', Some ''done'')]\<rparr>"

lemma done_reply:
  "reply_event (rl_code tor_done) (rl_body tor_done) (CircuitBuild cb, x) = md_event (StatusEvent done_event) (CircuitBuild cb, x)"
proof -
  have "hd (g_strsplit (rl_body tor_done) '' '' 0) = ''STATUS_CLIENT''" "g_strsplit (rl_body tor_done) '' '' 0 \<noteq> []"
    "torControl_processAsyncStatusReply 650 (rl_body tor_done) = Ret done_event"
    by code_simp+
  then obtain ps where "g_strsplit (rl_body tor_done) '' '' 0 = ''STATUS_CLIENT'' # ps"
    by (cases "g_strsplit (rl_body tor_done) '' '' 0") auto
  moreover have "event_handler (tct_handles (CircuitBuild cb)) ''STATUS_CLIENT'' = Some HStatus"
    by (simp add: event_handler_def ci_eq_words word_char_def)
  ultimately show ?thesis
    using \<open>torControl_processAsyncStatusReply 650 (rl_body tor_done) = Ret done_event\<close>
    by (simp add: reply_event_def with_data_def tor_done_def)
qed

lemma done_builds:
  assumes "ready sd cn tc" "cb_sockd cb = sd" "takes (Suc n) m w" "length (ci_relays (cb_circuits cb ! i)) + 18 \<le> m"
    and "cb_circuitsToBuild cb = i # q"
  shows "torControl_processReply sd [tor_done] (building sd cn tc cb, w) =
    (Ret (), building sd cn tc (cb\<lparr>cb_bootstrapped := True, cb_state := CIRCBUILD_GET_CIRC_ID\<rparr>), issue sd (extend_cmd cb i) w)"
proof -
  let ?cb = "cb\<lparr>cb_bootstrapped := True\<rparr>"
  obtain c where c: "map_of (tct_connections (building sd cn tc cb)) sd = Some c" "cn_sendBuf c = []"
    using ready_conn [OF assms(1)] by blast
  have build: "cb_build i (?cb, building sd cn tc cb, w) = (Ret (), ?cb, building sd cn tc cb, issue sd (extend_cmd cb i) w)"
    using cb_build_whole [of "building sd cn tc cb" ?cb c n m w i] c assms(2-4) by (simp add: extend_cmd_def)
  have words: "ci_eq ''BOOTSTRAP'' ''BOOTSTRAP''" "ci_eq ''100'' ''100''" by (simp_all add: ci_eq_def)
  have "torControlCircuitBuild_statusEvent done_event (cb, building sd cn tc cb, w)
      = (Ret (), cb\<lparr>cb_bootstrapped := True, cb_state := CIRCBUILD_GET_CIRC_ID\<rparr>, building sd cn tc cb, issue sd (extend_cmd cb i) w)"
    using assms(5) build words
    by (simp add: torControlCircuitBuild_statusEvent_def done_event_def cb_goto_def act_defs)
  then have "reply_event (rl_code tor_done) (rl_body tor_done) (CircuitBuild cb, building sd cn tc cb, w)
      = (Ret (), CircuitBuild (cb\<lparr>cb_bootstrapped := True, cb_state := CIRCBUILD_GET_CIRC_ID\<rparr>), building sd cn tc cb, issue sd (extend_cmd cb i) w)"
    unfolding done_reply by (simp add: md_event_def with_data_def on_circuit_build_def)
  then have "on_module sd (reply_event (rl_code tor_done) (rl_body tor_done)) (building sd cn tc cb, w)
      = (Ret (), building sd cn tc (cb\<lparr>cb_bootstrapped := True, cb_state := CIRCBUILD_GET_CIRC_ID\<rparr>), issue sd (extend_cmd cb i) w)"
    by (rule on_module_building [OF assms(1)])
  then show ?thesis
    by (simp add: torControl_processReply_def TORCTL_CODE_TYPE_def tor_done_def)
qed

text \<open>
  C38: when Tor announces on its own that it has started before it answers the question for its
  phase, the answer, 100 percent, is taken for the answer to the circuit that was requested in
  between: the circuit gets the identity 100, and the true one, which comes next, is ignored.
\<close>

theorem bootstrap_race:
  assumes "ready sd cn tc" "cb_sockd cb = sd" "takes (Suc k) m w" "length (ci_relays (cb_circuits cb ! i)) + 18 \<le> m"
    and "cb_waiting cb" "cb_circuitsToBuild cb = [i]" "n < 2 ^ 31"
  shows "act_each (torControl_processReply sd) [[tor_done], [tor_phase, tor_ok], [tor_extended n]] (building sd cn tc cb, w) =
    (Ret (), building sd cn tc (cb\<lparr>cb_bootstrapped := True, cb_state := CIRCBUILD_ATTACH_STREAMS, cb_circuitsToBuild := [],
                                  cb_circuits := given cb i 100\<rparr>), issue sd (extend_cmd cb i) w)"
proof -
  let ?w = "issue sd (extend_cmd cb i) w"
  define cb1 where "cb1 = cb\<lparr>cb_bootstrapped := True, cb_state := CIRCBUILD_GET_CIRC_ID\<rparr>"
  define cb2 where "cb2 = cb\<lparr>cb_bootstrapped := True, cb_state := CIRCBUILD_ATTACH_STREAMS, cb_circuitsToBuild := [], cb_circuits := given cb i 100\<rparr>"
  have one: "torControl_processReply sd [tor_done] (building sd cn tc cb, w) = (Ret (), building sd cn tc cb1, ?w)"
    using done_builds [OF assms(1-4)] assms(6) by (simp add: cb1_def)
  have taken: "torControlCircuitBuild_responseEvent [tor_phase, tor_ok] (Some (BootstrapPhase 100 None)) (cb1, x) = (Ret (), cb2, x)" for x
    using assms(5,6)
    by (simp add: torControlCircuitBuild_responseEvent_def cb_success_def cb_get_circ_id_def cb_goto_def given_def
        torControlCircuitBuild_initialize_def act_defs cb1_def cb2_def)
  have silent: "torControlCircuitBuild_responseEvent reply ud (cb2, x) = (Ret (), cb2, x)" if "reply \<noteq> []" for reply ud x
    using that assms(5)
    by (cases reply) (simp_all add: torControlCircuitBuild_responseEvent_def cb_success_def torControlCircuitBuild_initialize_def act_defs cb2_def)
  have quiet: "on_module sd (md_response reply ud) (building sd cn tc cb2, x) = (Ret (), building sd cn tc cb2, x)" if "reply \<noteq> []" for reply ud x
    using response_building [OF assms(1), of reply ud cb2 x cb2 x] silent [OF that] by simp
  have "torControl_processReply sd [tor_phase, tor_ok] (building sd cn tc cb1, ?w) = (Ret (), building sd cn tc cb2, ?w)"
    using response_building [OF assms(1) taken]
    by (simp add: quiet reply_each reply_response_def ud_ok ud_phase act_then_def act_bind_def act_return_def)
  moreover have "torControl_processReply sd [tor_extended n] (building sd cn tc cb2, ?w) = (Ret (), building sd cn tc cb2, ?w)"
    by (simp add: quiet reply_each reply_response_def ud_extended [OF assms(7)] act_then_def act_bind_def act_return_def)
  ultimately show ?thesis
    using one by (simp add: act_then_def act_bind_def act_return_def cb2_def)
qed

theorem bootstrap_race_witness:
  "\<exists>tc cb cn. cb_circuits cb \<noteq> [] \<and> act_each (torControl_processReply 11) [[tor_done], [tor_phase, tor_ok], [tor_extended 7]]
      (building 11 cn tc cb, quiet_world\<lparr>w_send := [SOk 100]\<rparr>)
    = (Ret (), building 11 cn tc (cb\<lparr>cb_bootstrapped := True, cb_state := CIRCBUILD_ATTACH_STREAMS, cb_circuitsToBuild := [],
                                  cb_circuits := given cb 0 100\<rparr>),
       issue 11 ''EXTENDCIRCUIT 0 a,b'' (quiet_world\<lparr>w_send := [SOk 100]\<rparr>))"
proof -
  define cb where "cb = two_circuits\<lparr>cb_waiting := True, cb_state := CIRCBUILD_CHECKSTATUS, cb_circuitsToBuild := [0]\<rparr>"
  obtain cn where cn: "map_of (tct_connections (building_port cb)) 11 = Some cn" "cn_sendBuf cn = []" by (simp add: building_port_def)
  then have "ready 11 cn (building_port cb)" by (simp add: ready_def)
  moreover have "takes (Suc 0) 100 (quiet_world\<lparr>w_send := [SOk 100]\<rparr>)" by (simp add: takes_def quiet_world_def)
  moreover have "cb_sockd cb = 11" "length (ci_relays (cb_circuits cb ! 0)) + 18 \<le> 100" "cb_waiting cb" "cb_circuitsToBuild cb = [0]"
    "extend_cmd cb 0 = ''EXTENDCIRCUIT 0 a,b''" "cb_circuits cb \<noteq> []"
    by (simp_all add: cb_def two_circuits_def extend_cmd_def)
  ultimately show ?thesis
    using bootstrap_race [of 11 cn "building_port cb" cb 0 100 "quiet_world\<lparr>w_send := [SOk 100]\<rparr>" 0 7]
    by (intro exI [of _ "building_port cb"] exI [of _ cb] exI [of _ cn]) auto
qed

section \<open>Pinging a relay\<close>

definition tor_closed :: "nat \<Rightarrow> reply_line" where
  "tor_closed n = \<lparr>rl_code = 650, rl_body = ''CIRC '' @ show_nat n @ '' CLOSED'', rl_data = []\<rparr>"

definition closed_event :: "nat \<Rightarrow> circ_event" where
  "closed_event n = \<lparr>ce_code = 650, ce_line = rl_body (tor_closed n), ce_circID = int n, ce_path = None, ce_status = CIRC_STATUS_CLOSED,
     ce_buildFlags = CIRC_BUILD_FLAGS_NONE, ce_purpose = CIRC_PURPOSE_NONE, ce_reason = CIRC_REASON_NONE, ce_createTime = None\<rparr>"

lemma number_words: "CHR '' '' \<notin> set (show_nat n)" "NUL \<notin> set (show_nat n)"
  by (rule show_nat_avoids; simp)+

lemma split_extended: "g_strsplit (''EXTENDED '' @ show_nat n) '' '' 10 = [''EXTENDED'', show_nat n]"
  using split_first [of "CHR '' ''" "''EXTENDED''" 10 "[]" "show_nat n"] split_last [of "show_nat n" "'' ''" 9]
    find_cs_absent [of "CHR '' ''" "show_nat n" "'' ''"] number_words [of n] cstr_id [of "''EXTENDED '' @ show_nat n"]
  by (simp add: g_strsplit_def)

lemma split_closed: "g_strsplit (''CIRC '' @ show_nat n @ '' CLOSED'') '' '' 0 = [''CIRC'', show_nat n, ''CLOSED'']"
  using split_first [of "CHR '' ''" "''CIRC''" 0 "[]" "show_nat n @ '' CLOSED''"]
    split_first [of "CHR '' ''" "show_nat n" 0 "[]" "''CLOSED''"] split_last [of "''CLOSED''" "'' ''" 0]
    find_cs_absent [of "CHR '' ''" "''CLOSED''" "'' ''"] number_words [of n] cstr_id [of "''CIRC '' @ show_nat n @ '' CLOSED''"]
  by (simp add: g_strsplit_def)

lemma closed_reply:
  assumes "n < 2 ^ 31"
  shows "reply_event (rl_code (tor_closed n)) (rl_body (tor_closed n)) (Pinger pn, x) = md_event (CircEvent (closed_event n)) (Pinger pn, x)"
proof -
  have "torControl_getCircStatus ''CLOSED'' = CIRC_STATUS_CLOSED"
    by (simp add: torControl_getCircStatus_def torControl_getCircStatusString_def circuitStatusStrings_def ci_eq_words word_char_def)
  moreover have "atoi (show_nat n) = int n"
    using atoi_show_nat [of "[]" n] assms by (simp add: no_leading_digit_def)
  moreover have "event_handler (tct_handles (Pinger pn)) ''CIRC'' = Some HCirc"
    by (simp add: event_handler_def ci_eq_words word_char_def)
  ultimately show ?thesis
    using split_closed [of n]
    by (simp add: reply_event_def with_data_def tor_closed_def closed_event_def torControl_processAsyncCircReply_def)
qed

lemma extended_pings:
  assumes "map_of (tct_connections tc) sd = Some c" "pn_state pn = TCPS_IDLE" "pn_nextState pn = TCPS_IDLE" "n < 2 ^ 31"
    and "clock_gettime w = (now, w1)"
  shows "torControl_processReply sd [tor_extended n] (with_module sd cn tc (Pinger pn), w) =
    (Ret (), with_module sd cn tc (Pinger (pn\<lparr>pn_outstandingPings := AList.update (int n) now (pn_outstandingPings pn)\<rparr>)), w1)"
proof -
  let ?pn = "pn\<lparr>pn_outstandingPings := AList.update (int n) now (pn_outstandingPings pn)\<rparr>"
  have number: "atoi (show_nat n) = int n"
    using atoi_show_nat [of "[]" n] assms(4) by (simp add: no_leading_digit_def)
  have started: "pn_started (rl_body (tor_extended n)) (pn, tc1, w) = (Ret (), ?pn, tc1, w1)" for tc1
    using split_extended [of n] number assms(5) by (simp add: pn_started_def tor_extended_def pn_now_def act_defs)
  have "torcontrolpinger_handleResponseEvent [tor_extended n] ud (pn, tc1, w) = (Ret (), ?pn, tc1, w1)" for ud tc1
    using assms(2,3) started
    by (simp add: torcontrolpinger_handleResponseEvent_def torcontrolpinger_manageState_def pn_pass_def act_defs)
  then have "on_module sd (md_response [tor_extended n] ud) (with_module sd cn tc (Pinger pn), w)
      = (Ret (), with_module sd cn tc (Pinger ?pn), w1)" for ud
    by (intro on_module_runs [OF assms(1)]) (simp add: md_response_def with_data_def on_pinger_def)
  then show ?thesis
    by (simp add: reply_each reply_response_def ud_extended [OF assms(4)] act_then_def act_bind_def act_return_def)
qed

lemma on_module_moves:
  assumes "map_of (tct_connections tc) sd = Some c" "m (md, with_module sd cn tc md, w) = (r, md', with_module sd cn tc' md, w')"
  shows "on_module sd m (with_module sd cn tc md, w) = (r, with_module sd cn tc' md', w')"
  using assms by (simp add: on_module_def with_module_conn with_module_update)

lemma closed_pings:
  assumes "map_of (tct_connections tc) sd = Some c" "cn_sendBuf cn = []" "pn_targetSockd pn = sd" "n < 2 ^ 31"
    and "map_of (pn_outstandingPings pn) (int n) \<noteq> None" "takes (Suc k) m w" "length (show_nat n) + 15 \<le> m"
  shows "torControl_processReply sd [tor_closed n] (with_module sd cn tc (Pinger pn), w) =
    (Ret (), with_module sd cn (tc\<lparr>tct_callbacks := tct_callbacks tc @ [(sd, 1000)]\<rparr>)
        (Pinger (pn\<lparr>pn_outstandingPings := AList.delete (int n) (pn_outstandingPings pn)\<rparr>)),
     issue sd (''CLOSECIRCUIT '' @ show_nat n) w)"
proof -
  let ?pn = "pn\<lparr>pn_outstandingPings := AList.delete (int n) (pn_outstandingPings pn)\<rparr>"
  let ?tc = "with_module sd cn tc (Pinger pn)" and ?tc' = "with_module sd cn (tc\<lparr>tct_callbacks := tct_callbacks tc @ [(sd, 1000)]\<rparr>) (Pinger pn)"
  have "torControl_closeCircuit sd (int n) (?tc, w) = (Ret (int (length (show_nat n) + 15)), ?tc, issue sd (''CLOSECIRCUIT '' @ show_nat n) w)"
    using send_whole [OF with_module_conn [OF assms(1), of cn "Pinger pn"] _ assms(6), where cmd = "''CLOSECIRCUIT '' @ show_nat n"] assms(2,7)
    by (simp add: torControl_closeCircuit_def show_int_def)
  moreover have "?tc\<lparr>tct_callbacks := tct_callbacks ?tc @ [(sd, 1000)]\<rparr> = ?tc'"
    by (simp add: with_module_def tct_conn_update_def)
  ultimately have "torcontrolpinger_handleCircEvent (closed_event n) (pn, ?tc, w) = (Ret (), ?pn, ?tc', issue sd (''CLOSECIRCUIT '' @ show_nat n) w)"
    using assms(3,5)
    by (auto simp: torcontrolpinger_handleCircEvent_def closed_event_def pn_ended_def act_defs)
  then have "reply_event (rl_code (tor_closed n)) (rl_body (tor_closed n)) (Pinger pn, ?tc, w)
      = (Ret (), Pinger ?pn, ?tc', issue sd (''CLOSECIRCUIT '' @ show_nat n) w)"
    unfolding closed_reply [OF assms(4)] by (simp add: md_event_def with_data_def on_pinger_def)
  then have "on_module sd (reply_event (rl_code (tor_closed n)) (rl_body (tor_closed n))) (?tc, w)
      = (Ret (), with_module sd cn (tc\<lparr>tct_callbacks := tct_callbacks tc @ [(sd, 1000)]\<rparr>) (Pinger ?pn), issue sd (''CLOSECIRCUIT '' @ show_nat n) w)"
    by (intro on_module_moves [OF assms(1)])
  then show ?thesis by (simp add: torControl_processReply_def TORCTL_CODE_TYPE_def tor_closed_def)
qed

text \<open>
  C29: a ping is counted from the answer to its circuit to the end of the circuit; then it is
  forgotten, the circuit is closed, and the next ping is due in a second.
\<close>

theorem ping_cycle:
  assumes "map_of (tct_connections tc) sd = Some c" "cn_sendBuf cn = []" "pn_targetSockd pn = sd"
    and "pn_state pn = TCPS_IDLE" "pn_nextState pn = TCPS_IDLE" "n < 2 ^ 31" "int n \<notin> fst ` set (pn_outstandingPings pn)"
    and "takes (Suc k) m w" "length (show_nat n) + 15 \<le> m"
  shows "act_each (torControl_processReply sd) [[tor_extended n], [tor_closed n]] (with_module sd cn tc (Pinger pn), w) =
    (Ret (), with_module sd cn (tc\<lparr>tct_callbacks := tct_callbacks tc @ [(sd, 1000)]\<rparr>) (Pinger pn),
     issue sd (''CLOSECIRCUIT '' @ show_nat n) (snd (clock_gettime w)))"
proof -
  obtain now w1 where clock: "clock_gettime w = (now, w1)" by fastforce
  let ?pings = "pn_outstandingPings pn"
  let ?pn = "pn\<lparr>pn_outstandingPings := AList.update (int n) now ?pings\<rparr>"
  have "takes (Suc k) m w1"
    using assms(8) clock by (auto simp: takes_def clock_gettime_def split: list.splits)
  then have "torControl_processReply sd [tor_closed n] (with_module sd cn tc (Pinger ?pn), w1) =
    (Ret (), with_module sd cn (tc\<lparr>tct_callbacks := tct_callbacks tc @ [(sd, 1000)]\<rparr>)
        (Pinger (?pn\<lparr>pn_outstandingPings := AList.delete (int n) (pn_outstandingPings ?pn)\<rparr>)),
     issue sd (''CLOSECIRCUIT '' @ show_nat n) w1)"
    using assms by (intro closed_pings) (simp_all add: update_conv')
  moreover have "AList.delete (int n) (AList.update (int n) now ?pings) = ?pings"
    using assms(7) by (simp add: delete_update_same)
  ultimately show ?thesis
    using extended_pings [OF assms(1,4-6) clock, of cn] clock by (simp add: act_then_def act_bind_def act_return_def)
qed

theorem ping_cycle_witness:
  "\<exists>tc cn pn. act_each (torControl_processReply 11) [[tor_extended 7], [tor_closed 7]]
      (with_module 11 cn tc (Pinger pn), quiet_world\<lparr>w_send := [SOk 100]\<rparr>) =
    (Ret (), with_module 11 cn (tc\<lparr>tct_callbacks := [(11, 1000)]\<rparr>) (Pinger pn),
     issue 11 ''CLOSECIRCUIT 7'' (quiet_world\<lparr>w_send := [SOk 100]\<rparr>))"
proof -
  define pn where "pn = \<lparr>pn_state = TCPS_IDLE, pn_nextState = TCPS_IDLE, pn_targetHostname = ''client'', pn_targetPort = 9051,
     pn_targetSockd = 11, pn_pingRelay = ''hop'', pn_outstandingPings = []\<rparr>"
  let ?tc = "building_port two_circuits" and ?w = "quiet_world\<lparr>w_send := [SOk 100]\<rparr>"
  obtain cn where cn: "map_of (tct_connections ?tc) 11 = Some cn" "cn_sendBuf cn = []" by (simp add: building_port_def)
  have "show_nat 7 = ''7''" by code_simp
  moreover have "takes (Suc 0) 100 ?w" by (simp add: takes_def quiet_world_def)
  moreover have "snd (clock_gettime ?w) = ?w" by (simp add: clock_gettime_def quiet_world_def)
  moreover have "tct_callbacks ?tc = []" by (simp add: building_port_def)
  ultimately show ?thesis
    using ping_cycle [of ?tc 11 cn cn pn 7 0 100 ?w] cn
    by (intro exI [of _ ?tc] exI [of _ cn] exI [of _ pn]) (simp add: pn_def)
qed

section \<open>Sending in parts\<close>

text \<open>
  A command of which the kernel takes only a part is sent from its beginning the next time
  the socket is writable: the part arrives twice.
\<close>

theorem partial_send_repeats:
  assumes "map_of (tct_connections tc) sd = Some cn" "cn_sendBuf cn = b" "w_send w = [SOk k, SOk (length b)]" "0 < k" "k < length b"
  shows "\<exists>t. act_then (torctl_writable sd) (torctl_writable sd) (tc, w) = (Ret None, t)
     \<and> sent_on sd (w_log (snd t)) = sent_on sd (w_log w) @ take k b @ b"
proof -
  define w1 where "w1 = emit (Sent sd (take k b)) (w\<lparr>w_send := [SOk (length b)]\<rparr>)"
  have part: "sys_send sd b w = (Inr k, w1)" using assms(3-5) by (simp add: sys_send_def w1_def)
  have "torctl_writable sd (tc, w) = (Ret None, tc, w1)"
    using assms part by (auto simp: torctl_writable_def with_conn_def torctl_assertio_def)
  moreover have "sys_send sd b w1 = (Inr (length b), emit (Sent sd b) (w1\<lparr>w_send := []\<rparr>))"
    using assms(5) by (intro sys_send_all [where k = "length b"]) (auto simp: w1_def)
  then have "torctl_writable sd (tc, w1) = (Ret None, tct_conn_update sd (\<lambda>c. c\<lparr>cn_sendBuf := []\<rparr>) tc,
      torControl_changeEpoll sd [EPOLLIN] (emit (Sent sd b) (w1\<lparr>w_send := []\<rparr>)))"
    using assms by (auto simp: torctl_writable_def with_conn_def torctl_assertio_def)
  ultimately show ?thesis by (simp add: act_then_def act_bind_def w1_def)
qed

theorem partial_send_repeats_witness:
  "\<exists>tc t. act_then (torctl_writable 11) (torctl_writable 11) (tc, quiet_world\<lparr>w_send := [SOk 3, SOk 15]\<rparr>) = (Ret None, t)
     \<and> sent_on 11 (w_log (snd t)) = ''CLO'' @ ''CLOSECIRCUIT 7'' @ [LF]"
proof -
  define tc where "tc = building_port two_circuits"
  obtain cn where cn: "map_of (tct_connections tc) 11 = Some cn" by (simp add: tc_def building_port_def)
  define tc1 where "tc1 = tct_conn_update 11 (\<lambda>c. c\<lparr>cn_sendBuf := ''CLOSECIRCUIT 7'' @ [LF]\<rparr>) tc"
  have "map_of (tct_connections tc1) 11 = Some (cn\<lparr>cn_sendBuf := ''CLOSECIRCUIT 7'' @ [LF]\<rparr>)" using cn by (simp add: tc1_def)
  then show ?thesis
    using partial_send_repeats [of tc1 11 _ "''CLOSECIRCUIT 7'' @ [LF]" "quiet_world\<lparr>w_send := [SOk 3, SOk 15]\<rparr>" 3]
    by (intro exI [of _ tc1]) (simp add: quiet_world_def)
qed

end
