(* ===== verification/Echo.thy ===== *)
theory Echo
  imports Kernel Action
begin

text \<open>
  The echo plug-in (\<open>echo/echo-tcp.c\<close>, \<open>echo/echo-udp.c\<close>, \<open>echo/echo-pipe.c\<close>, \<open>echo/echo-main.c\<close>).
  The two files for TCP and UDP repeat each other but for the calls that move data, so the
  functions of both are instances of one definition with these calls as arguments.

  The receive buffers are the lists of the bytes below \<open>recv_offset\<close> and \<open>read_offset\<close>.  What
  the client concludes is only logged; it is kept in \<open>ec_verdict\<close>.  The datagrams a UDP server
  sends are kept with their destination in \<open>es_replies\<close>.  The sender of a datagram is part of
  the event that announces it.  At most ten events come out of one \<open>epoll_wait\<close>; no theorem
  needs the bound.
\<close>

section \<open>Data\<close>

definition BUFFERSIZE :: nat where "BUFFERSIZE = 20000"
definition ECHO_SERVER_PORT :: u16 where "ECHO_SERVER_PORT = 9999"

type_synonym peer = "u32 \<times> u16"

record echo_client =
  ec_serverIP :: u32
  ec_epolld :: fd
  ec_socketd :: fd
  ec_sendBuffer :: string
  ec_recvBuffer :: string
  ec_sent_msg :: bool
  ec_amount_sent :: int
  ec_is_done :: bool
  ec_verdict :: "bool option"

record echo_server =
  es_epolld :: fd
  es_listend :: fd
  es_socketd :: fd
  es_address :: peer
  es_echoBuffer :: string
  es_write_offset :: nat
  es_replies :: "(peer \<times> string) list"

text \<open>\<open>EchoTCP\<close> and \<open>EchoUDP\<close>\<close>

record echo_ends =
  ep_client :: "echo_client option"
  ep_server :: "echo_server option"

definition zeros :: "nat \<Rightarrow> string" where "zeros n = replicate n NUL"

definition echo_client_of :: "u32 \<Rightarrow> fd \<Rightarrow> fd \<Rightarrow> echo_client" where
  "echo_client_of ip socketd epolld =
     \<lparr>ec_serverIP = ip, ec_epolld = epolld, ec_socketd = socketd, ec_sendBuffer = zeros BUFFERSIZE, ec_recvBuffer = [],
      ec_sent_msg = False, ec_amount_sent = 0, ec_is_done = False, ec_verdict = None\<rparr>"

definition echo_server_of :: "fd \<Rightarrow> fd \<Rightarrow> fd \<Rightarrow> echo_server" where
  "echo_server_of listend socketd epolld =
     \<lparr>es_epolld = epolld, es_listend = listend, es_socketd = socketd, es_address = (0, 0), es_echoBuffer = [],
      es_write_offset = 0, es_replies = []\<rparr>"

section \<open>Construction\<close>

text \<open>\<open>epoll_create\<close> and the first \<open>epoll_ctl\<close>; on failure the descriptors are closed.\<close>

definition echo_watch :: "fd \<Rightarrow> epoll_ev list \<Rightarrow> world \<Rightarrow> fd option \<times> world" where
  "echo_watch socketd evs w =
     (case sys_socket w of
        (Inl e, w1) \<Rightarrow> (None, snd (sys_close socketd w1))
      | (Inr epolld, w1) \<Rightarrow>
          (case epoll_ctl CtlAdd socketd evs w1 of
             (ok, w2) \<Rightarrow> if ok then (Some epolld, w2) else (None, snd (sys_close socketd (snd (sys_close epolld w2))))))"

definition echo_client_watch :: "u32 \<Rightarrow> fd \<Rightarrow> world \<Rightarrow> echo_client option \<times> world" where
  "echo_client_watch ip socketd w =
     (case echo_watch socketd [EPOLLIN, EPOLLOUT] w of (e, w1) \<Rightarrow> (map_option (echo_client_of ip socketd) e, w1))"

definition echotcp_newClient :: "u32 \<Rightarrow> world \<Rightarrow> echo_client option \<times> world" where
  "echotcp_newClient serverIPAddress w =
     (case sys_socket w of
        (Inl e, w1) \<Rightarrow> (None, w1)
      | (Inr socketd, w1) \<Rightarrow>
          (case sys_connect socketd serverIPAddress (htons ECHO_SERVER_PORT) w1 of
             (result, w2) \<Rightarrow>
               if result \<noteq> None \<and> result \<noteq> Some EINPROGRESS then (None, w2)
               else echo_client_watch serverIPAddress socketd w2))"

definition echoudp_newClient :: "u32 \<Rightarrow> world \<Rightarrow> echo_client option \<times> world" where
  "echoudp_newClient serverIPAddress w =
     (case sys_socket w of
        (Inl e, w1) \<Rightarrow> (None, w1)
      | (Inr socketd, w1) \<Rightarrow> echo_client_watch serverIPAddress socketd w1)"

definition echo_server_watch :: "fd \<Rightarrow> world \<Rightarrow> echo_server option \<times> world" where
  "echo_server_watch socketd w =
     (case echo_watch socketd [EPOLLIN] w of (e, w1) \<Rightarrow> (map_option (echo_server_of socketd 0) e, w1))"

definition echotcp_newServer :: "u32 \<Rightarrow> world \<Rightarrow> echo_server option \<times> world" where
  "echotcp_newServer bindIPAddress w =
     (case sys_socket w of
        (Inl e, w1) \<Rightarrow> (None, w1)
      | (Inr socketd, w1) \<Rightarrow>
          (case sys_bind socketd w1 of
             (False, w2) \<Rightarrow> (None, w2)
           | (True, w2) \<Rightarrow>
               (case sys_listen socketd bindIPAddress (htons ECHO_SERVER_PORT) w2 of
                  (False, w3) \<Rightarrow> (None, w3)
                | (True, w3) \<Rightarrow> echo_server_watch socketd w3)))"

definition echoudp_newServer :: "u32 \<Rightarrow> world \<Rightarrow> echo_server option \<times> world" where
  "echoudp_newServer bindIPAddress w =
     (case sys_socket w of
        (Inl e, w1) \<Rightarrow> (None, w1)
      | (Inr socketd, w1) \<Rightarrow>
          (case sys_bind socketd w1 of
             (False, w2) \<Rightarrow> (None, w2)
           | (True, w2) \<Rightarrow> echo_server_watch socketd w2))"

text \<open>A call that makes two descriptors.\<close>

definition sys_two :: "world \<Rightarrow> (fd \<times> fd) option \<times> world" where
  "sys_two w =
     (case sys_socket w of
        (Inl e, w1) \<Rightarrow> (None, w1)
      | (Inr a, w1) \<Rightarrow> (case sys_socket w1 of (Inl e, w2) \<Rightarrow> (None, w2) | (Inr b, w2) \<Rightarrow> (Some (a, b), w2)))"

definition fd_of :: "errno + fd \<Rightarrow> fd" where
  "fd_of a = (case a of Inl e \<Rightarrow> -1 | Inr d \<Rightarrow> d)"

definition close_all :: "fd list \<Rightarrow> world \<Rightarrow> world" where
  "close_all fds w = foldl (\<lambda>w d. snd (sys_close d w)) w fds"

text \<open>When one epoll cannot be made the sockets stay open.\<close>

definition echotcp_newPair :: "echo_ends \<Rightarrow> world \<Rightarrow> echo_ends \<times> world" where
  "echotcp_newPair ep w =
     (case sys_two w of
        (None, w1) \<Rightarrow> (ep, w1)
      | (Some (client_socketd, server_socketd), w1) \<Rightarrow>
          (case sys_socket w1 of (a, w2) \<Rightarrow> case sys_socket w2 of (b, w3) \<Rightarrow>
             let client_epolld = fd_of a; server_epolld = fd_of b in
             if client_epolld = -1 \<or> server_epolld = -1 then (ep, close_all [client_epolld, server_epolld] w3)
             else
               (case epoll_ctl CtlAdd client_socketd [EPOLLIN, EPOLLOUT] w3 of (ok, w4) \<Rightarrow>
                case epoll_ctl CtlAdd server_socketd [EPOLLIN] w4 of (ok2, w5) \<Rightarrow>
                  if ok \<and> ok2
                  then (ep\<lparr>ep_client := Some (echo_client_of 0 client_socketd client_epolld),
                           ep_server := Some (echo_server_of 0 server_socketd server_epolld)\<rparr>, w5)
                  else (ep, close_all [client_epolld, client_socketd, server_epolld, server_socketd] w5))))"

definition no_ends :: echo_ends where "no_ends = \<lparr>ep_client = None, ep_server = None\<rparr>"

text \<open>
  The modes that TCP and UDP share.  A name that cannot be resolved ends in \<open>freeaddrinfo\<close> of a
  pointer nothing was stored in.
\<close>

definition echo_client_mode ::
    "(u32 \<Rightarrow> world \<Rightarrow> echo_client option \<times> world) \<Rightarrow> (string \<Rightarrow> u32 option) \<Rightarrow> string list \<Rightarrow> world \<Rightarrow> echo_ends option ret \<times> world" where
  "echo_client_mode newClient lookup args w =
     (case args of
        [] \<Rightarrow> (Ret None, w)
      | serverHostName # _ \<Rightarrow>
          (case lookup serverHostName of
             None \<Rightarrow> (UB, w)
           | Some ip \<Rightarrow> (case newClient ip w of (c, w1) \<Rightarrow> (Ret (Some (no_ends\<lparr>ep_client := c\<rparr>)), w1))))"

definition echo_server_mode ::
    "(u32 \<Rightarrow> world \<Rightarrow> echo_server option \<times> world) \<Rightarrow> (string \<Rightarrow> u32 option) \<Rightarrow> string option \<Rightarrow> world \<Rightarrow> echo_ends option ret \<times> world" where
  "echo_server_mode newServer lookup hostname w =
     (case hostname of
        None \<Rightarrow> (Ret None, w)
      | Some myHostName \<Rightarrow>
          (case lookup myHostName of
             None \<Rightarrow> (UB, w)
           | Some ip \<Rightarrow> (case newServer ip w of (s, w1) \<Rightarrow> (Ret (Some (no_ends\<lparr>ep_server := s\<rparr>)), w1))))"

definition echo_loopback ::
    "(u32 \<Rightarrow> world \<Rightarrow> echo_client option \<times> world) \<Rightarrow> (u32 \<Rightarrow> world \<Rightarrow> echo_server option \<times> world) \<Rightarrow> world \<Rightarrow> echo_ends option ret \<times> world" where
  "echo_loopback newClient newServer w =
     (case newServer (htonl 0x7f000001) w of (s, w1) \<Rightarrow> case newClient (htonl 0x7f000001) w1 of (c, w2) \<Rightarrow>
        (Ret (Some \<lparr>ep_client = c, ep_server = s\<rparr>), w2))"

definition echotcp_new ::
    "(string \<Rightarrow> u32 option) \<Rightarrow> string option \<Rightarrow> string list \<Rightarrow> world \<Rightarrow> echo_ends option ret \<times> world" where
  "echotcp_new lookup hostname argv w =
     (case argv of
        [] \<Rightarrow> (Ret None, w)
      | mode # args \<Rightarrow>
          if ci_prefix ''client'' (cstr mode) then echo_client_mode echotcp_newClient lookup args w
          else if ci_prefix ''server'' (cstr mode) then echo_server_mode echotcp_newServer lookup hostname w
          else if ci_prefix ''loopback'' (cstr mode) then echo_loopback echotcp_newClient echotcp_newServer w
          else if ci_prefix ''socketpair'' (cstr mode) then (case echotcp_newPair no_ends w of (ep, w1) \<Rightarrow> (Ret (Some ep), w1))
          else (Ret None, w))"

definition echoudp_new ::
    "(string \<Rightarrow> u32 option) \<Rightarrow> string option \<Rightarrow> string list \<Rightarrow> world \<Rightarrow> echo_ends option ret \<times> world" where
  "echoudp_new lookup hostname argv w =
     (case argv of
        [] \<Rightarrow> (Ret None, w)
      | mode # args \<Rightarrow>
          if ci_prefix ''client'' (cstr mode) then echo_client_mode echoudp_newClient lookup args w
          else if ci_prefix ''server'' (cstr mode) then echo_server_mode echoudp_newServer lookup hostname w
          else if ci_prefix ''loopback'' (cstr mode) then echo_loopback echoudp_newClient echoudp_newServer w
          else (Ret None, w))"

definition echotcp_free :: "echo_ends \<Rightarrow> world \<Rightarrow> world" where
  "echotcp_free ep w =
     (let w1 = (case ep_client ep of None \<Rightarrow> w | Some ec \<Rightarrow> snd (sys_close (ec_epolld ec) w))
      in (case ep_server ep of None \<Rightarrow> w1 | Some es \<Rightarrow> snd (sys_close (es_epolld es) w1)))"

definition echoudp_free :: "echo_ends \<Rightarrow> world \<Rightarrow> world" where
  "echoudp_free ep w =
     (let w1 = (case ep_client ep of None \<Rightarrow> w | Some ec \<Rightarrow> snd (epoll_ctl CtlDel (ec_socketd ec) [] w))
      in (case ep_server ep of None \<Rightarrow> w1 | Some es \<Rightarrow> snd (epoll_ctl CtlDel (es_listend es) [] w1)))"

section \<open>Moving data\<close>

text \<open>
  A datagram is received once; what there is no room for is lost.  It is sent whole or not at
  all.
\<close>

definition sys_recvfrom :: "nat \<Rightarrow> world \<Rightarrow> (errno + string) \<times> world" where
  "sys_recvfrom n w =
     (case w_recv w of
        [] \<Rightarrow> (Inl EWOULDBLOCK, w)
      | RErr e # q \<Rightarrow> (Inl e, w\<lparr>w_recv := q\<rparr>)
      | RData bs # q \<Rightarrow> (Inr (take n bs), w\<lparr>w_recv := q\<rparr>))"

definition sys_sendto :: "fd \<Rightarrow> string \<Rightarrow> world \<Rightarrow> (errno + nat) \<times> world" where
  "sys_sendto sd bs w =
     (case w_send w of
        [] \<Rightarrow> (Inl EWOULDBLOCK, w)
      | SErr e # q \<Rightarrow> (Inl e, w\<lparr>w_send := q\<rparr>)
      | SOk k # q \<Rightarrow> (Inr (length bs), emit (Sent sd bs) (w\<lparr>w_send := q\<rparr>)))"

type_synonym echo_recv = "nat \<Rightarrow> world \<Rightarrow> (errno + string) \<times> world"
type_synonym echo_send = "fd \<Rightarrow> string \<Rightarrow> world \<Rightarrow> (errno + nat) \<times> world"

section \<open>The client\<close>

type_synonym ec_ctx = "echo_client \<times> world"

text \<open>The loop of \<open>recv\<close>: until it has everything, or there is nothing more.\<close>

function ec_read_loop :: "echo_recv \<Rightarrow> ec_ctx \<Rightarrow> ec_ctx" where
  "ec_read_loop get (ec, w) =
     (let space = ec_amount_sent ec - int (length (ec_recvBuffer ec)) in
      if space \<le> 0 then (ec, w)
      else case get (nat space) w of
             (Inl e, w1) \<Rightarrow> (ec, w1)
           | (Inr bs, w1) \<Rightarrow>
               if bs = [] then (ec, w1) else ec_read_loop get (ec\<lparr>ec_recvBuffer := ec_recvBuffer ec @ bs\<rparr>, w1))"
  by auto
termination
  by (relation "measure (\<lambda>(get, ec, w). nat (ec_amount_sent ec - int (length (ec_recvBuffer ec))))") auto

declare ec_read_loop.simps [simp del]

text \<open>\<open>memcmp\<close> of a negative number of bytes reads behind both buffers.\<close>

definition echo_clientReadable :: "echo_recv \<Rightarrow> fd \<Rightarrow> (unit, ec_ctx) act" where
  "echo_clientReadable get socketd = (\<lambda>(ec, w).
     if ec_is_done ec then (Ret (), ec, w)
     else (case ec_read_loop get (ec, w) of
       (ec1, w1) \<Rightarrow>
         if ec_amount_sent ec1 \<le> int (length (ec_recvBuffer ec1))
         then if ec_amount_sent ec1 < 0 then (UB, ec1\<lparr>ec_is_done := True\<rparr>, w1)
              else (let n = nat (ec_amount_sent ec1) in
                    (Ret (), ec1\<lparr>ec_is_done := True, ec_verdict := Some (take n (ec_sendBuffer ec1) = take n (ec_recvBuffer ec1))\<rparr>,
                     snd (sys_close socketd (snd (epoll_ctl CtlDel socketd [] w1)))))
         else (Ret (), ec1, w1)))"

text \<open>\<open>size\<close> random letters.\<close>

fun echo_fillCharBuffer :: "nat \<Rightarrow> world \<Rightarrow> string \<times> world" where
  "echo_fillCharBuffer 0 w = ([], w)"
| "echo_fillCharBuffer (Suc n) w =
     (case sys_rand w of (r, w1) \<Rightarrow> case echo_fillCharBuffer n w1 of (cs, w2) \<Rightarrow> (char_of (97 + r mod 26) # cs, w2))"

text \<open>The last byte of the buffer is left as it is.  The failure of \<open>send\<close> is added to the amount sent as \<open>-1\<close>.\<close>

definition echo_clientWritable :: "echo_send \<Rightarrow> fd \<Rightarrow> (unit, ec_ctx) act" where
  "echo_clientWritable put socketd = (\<lambda>(ec, w).
     if ec_sent_msg ec then (Ret (), ec, w)
     else (case echo_fillCharBuffer (BUFFERSIZE - 1) w of
       (cs, w1) \<Rightarrow>
         let buf = cs @ drop (BUFFERSIZE - 1) (ec_sendBuffer ec) in
         (case put socketd (drop (nat (ec_amount_sent ec)) buf) w1 of
            (a, w2) \<Rightarrow>
              let b = (case a of Inl e \<Rightarrow> -1 | Inr n \<Rightarrow> int n) in
              (Ret (), ec\<lparr>ec_sendBuffer := buf, ec_amount_sent := ec_amount_sent ec + b, ec_sent_msg := True\<rparr>,
               snd (epoll_ctl CtlMod socketd [EPOLLIN] w2)))))"

section \<open>The server\<close>

type_synonym es_ctx = "echo_server \<times> world"

text \<open>What has been read and not yet written.\<close>

definition es_pending :: "echo_server \<Rightarrow> string" where
  "es_pending es = drop (es_write_offset es) (es_echoBuffer es)"

definition echo_serverRead :: "echo_recv \<Rightarrow> peer \<Rightarrow> fd \<Rightarrow> (unit, es_ctx) act" where
  "echo_serverRead get sender socketd = (\<lambda>(es, w).
     let read_size = BUFFERSIZE - length (es_echoBuffer es) in
     if read_size = 0 then (Ret (), es, w)
     else (case get read_size w of
             (Inl e, w1) \<Rightarrow> (Ret (), es, w1)
           | (Inr bs, w1) \<Rightarrow>
               if bs = [] then (Ret (), es\<lparr>es_address := sender\<rparr>, snd (sys_close socketd (snd (sys_close (es_listend es) w1))))
               else (Ret (), es\<lparr>es_address := sender, es_echoBuffer := es_echoBuffer es @ bs\<rparr>,
                     snd (epoll_ctl CtlMod socketd [EPOLLIN, EPOLLOUT] w1))))"

definition echotcp_serverReadable :: "fd \<Rightarrow> (unit, es_ctx) act" where
  "echotcp_serverReadable socketd = (\<lambda>(es, w).
     if socketd = es_listend es
     then (case sys_accept w of
             (Inl e, w1) \<Rightarrow> (Ret (), es, w1)
           | (Inr (acceptedDescriptor, _), w1) \<Rightarrow> (Ret (), es, snd (epoll_ctl CtlAdd acceptedDescriptor [EPOLLIN] w1)))
     else echo_serverRead sys_recv (es_address es) socketd (es, w))"

definition echoudp_serverReadable :: "peer \<Rightarrow> fd \<Rightarrow> (unit, es_ctx) act" where
  "echoudp_serverReadable sender socketd = echo_serverRead sys_recvfrom sender socketd"

definition echo_serverWritable :: "echo_send \<Rightarrow> fd \<Rightarrow> (unit, es_ctx) act" where
  "echo_serverWritable put socketd = (\<lambda>(es, w).
     let written = (if es_pending es = [] then (es, w)
           else (case put socketd (es_pending es) w of
                   (Inl e, w1) \<Rightarrow> (es, w1)
                 | (Inr n, w1) \<Rightarrow>
                     if n = 0 then (es, snd (epoll_ctl CtlDel socketd [] w1))
                     else (es\<lparr>es_write_offset := es_write_offset es + n,
                              es_replies := es_replies es @ [(es_address es, take n (es_pending es))]\<rparr>, w1)))
     in (case written of (es1, w1) \<Rightarrow>
           (Ret (), es1, if es_pending es1 = [] then snd (epoll_ctl CtlMod socketd [EPOLLIN] w1) else w1)))"

section \<open>Activation\<close>

text \<open>An event: the descriptor, what it is ready for, and the sender of a waiting datagram.\<close>

type_synonym echo_event = "fd \<times> epoll_ev list \<times> peer"

definition echo_client_event :: "echo_recv \<Rightarrow> echo_send \<Rightarrow> echo_event \<Rightarrow> (unit, ec_ctx) act" where
  "echo_client_event get put = (\<lambda>(socketd, events, sender).
     act_then (if EPOLLIN \<in> set events then echo_clientReadable get socketd else act_return ())
       (\<lambda>(ec, w). (if \<not> ec_is_done ec \<and> EPOLLOUT \<in> set events then echo_clientWritable put socketd else act_return ()) (ec, w)))"

definition echo_server_event ::
    "(peer \<Rightarrow> fd \<Rightarrow> (unit, es_ctx) act) \<Rightarrow> echo_send \<Rightarrow> echo_event \<Rightarrow> (unit, es_ctx) act" where
  "echo_server_event readable put = (\<lambda>(socketd, events, sender).
     act_then (if EPOLLIN \<in> set events then readable sender socketd else act_return ())
       (if EPOLLOUT \<in> set events then echo_serverWritable put socketd else act_return ()))"

definition es_reset :: "echo_server \<Rightarrow> echo_server" where
  "es_reset es = (if length (es_echoBuffer es) = es_write_offset es then es\<lparr>es_echoBuffer := [], es_write_offset := 0\<rparr> else es)"

text \<open>A failed \<open>epoll_wait\<close> reports no events.\<close>

definition echo_client_ready :: "echo_recv \<Rightarrow> echo_send \<Rightarrow> echo_event list \<Rightarrow> (unit, ec_ctx) act" where
  "echo_client_ready get put events = act_each (echo_client_event get put) events"

definition echo_server_ready ::
    "(peer \<Rightarrow> fd \<Rightarrow> (unit, es_ctx) act) \<Rightarrow> echo_send \<Rightarrow> echo_event list \<Rightarrow> (unit, es_ctx) act" where
  "echo_server_ready readable put events =
     act_then (act_each (echo_server_event readable put) events) (act_update (\<lambda>(es, w). (es_reset es, w)))"

text \<open>First the client's events, then the server's.\<close>

definition echo_ready ::
    "(echo_event list \<Rightarrow> (unit, ec_ctx) act) \<Rightarrow> (echo_event list \<Rightarrow> (unit, es_ctx) act) \<Rightarrow>
     echo_event list \<Rightarrow> echo_event list \<Rightarrow> (unit, echo_ends \<times> world) act" where
  "echo_ready client server cevents sevents =
     act_then
       (\<lambda>(ep, w). case ep_client ep of
          None \<Rightarrow> (Ret (), ep, w)
        | Some ec \<Rightarrow> (case client cevents (ec, w) of (r, ec1, w1) \<Rightarrow> (r, ep\<lparr>ep_client := Some ec1\<rparr>, w1)))
       (\<lambda>(ep, w). case ep_server ep of
          None \<Rightarrow> (Ret (), ep, w)
        | Some es \<Rightarrow> (case server sevents (es, w) of (r, es1, w1) \<Rightarrow> (r, ep\<lparr>ep_server := Some es1\<rparr>, w1)))"

definition echotcp_clientReadable :: "fd \<Rightarrow> (unit, ec_ctx) act" where
  "echotcp_clientReadable = echo_clientReadable sys_recv"

definition echotcp_clientWritable :: "fd \<Rightarrow> (unit, ec_ctx) act" where
  "echotcp_clientWritable = echo_clientWritable sys_send"

definition echotcp_serverWritable :: "fd \<Rightarrow> (unit, es_ctx) act" where
  "echotcp_serverWritable = echo_serverWritable sys_send"

definition echotcp_ready :: "echo_event list \<Rightarrow> echo_event list \<Rightarrow> (unit, echo_ends \<times> world) act" where
  "echotcp_ready = echo_ready (echo_client_ready sys_recv sys_send) (echo_server_ready (\<lambda>_. echotcp_serverReadable) sys_send)"

definition echoudp_clientReadable :: "fd \<Rightarrow> (unit, ec_ctx) act" where
  "echoudp_clientReadable = echo_clientReadable sys_recvfrom"

definition echoudp_clientWritable :: "fd \<Rightarrow> (unit, ec_ctx) act" where
  "echoudp_clientWritable = echo_clientWritable sys_sendto"

definition echoudp_serverWritable :: "fd \<Rightarrow> (unit, es_ctx) act" where
  "echoudp_serverWritable = echo_serverWritable sys_sendto"

definition echoudp_ready :: "echo_event list \<Rightarrow> echo_event list \<Rightarrow> (unit, echo_ends \<times> world) act" where
  "echoudp_ready = echo_ready (echo_client_ready sys_recvfrom sys_sendto) (echo_server_ready echoudp_serverReadable sys_sendto)"

section \<open>The pipe\<close>

record echo_pipe =
  pp_writefd :: fd
  pp_inputBuffer :: string
  pp_didWrite :: bool
  pp_readfd :: fd
  pp_outputBuffer :: string
  pp_didRead :: bool
  pp_epolld :: fd
  pp_verdict :: "bool option"

definition echopipe_new :: "world \<Rightarrow> echo_pipe option \<times> world" where
  "echopipe_new w =
     (case sys_two w of
        (None, w1) \<Rightarrow> (None, w1)
      | (Some (readfd, writefd), w1) \<Rightarrow>
          (case sys_socket w1 of
             (Inl e, w2) \<Rightarrow> (None, close_all [readfd, writefd] w2)
           | (Inr epolld, w2) \<Rightarrow>
               (case epoll_ctl CtlAdd readfd [EPOLLIN] w2 of (okr, w3) \<Rightarrow>
                case epoll_ctl CtlAdd writefd [EPOLLOUT] w3 of (okw, w4) \<Rightarrow>
                  if okr \<and> okw
                  then (Some \<lparr>pp_writefd = writefd, pp_inputBuffer = zeros BUFFERSIZE, pp_didWrite = False, pp_readfd = readfd,
                              pp_outputBuffer = zeros BUFFERSIZE, pp_didRead = False, pp_epolld = epolld, pp_verdict = None\<rparr>, w4)
                  else (None, close_all [epolld, readfd, writefd] w4))))"

definition echopipe_free :: "echo_pipe \<Rightarrow> world \<Rightarrow> world" where
  "echopipe_free pp w = snd (sys_close (pp_epolld pp) w)"

type_synonym pp_ctx = "echo_pipe \<times> world"

text \<open>What is read goes to the front of a buffer of zeros.\<close>

definition echopipe_read :: "fd \<Rightarrow> (unit, pp_ctx) act" where
  "echopipe_read socketd = (\<lambda>(pp, w).
     if pp_didRead pp then (Ret (), pp, w)
     else (case sys_recv BUFFERSIZE w of (a, w1) \<Rightarrow>
       let bs = (case a of Inl e \<Rightarrow> [] | Inr bs \<Rightarrow> bs);
           out = bs @ drop (length bs) (pp_outputBuffer pp)
       in (Ret (), pp\<lparr>pp_outputBuffer := out, pp_verdict := Some (pp_inputBuffer pp = out), pp_didRead := True\<rparr>,
           snd (sys_close socketd (snd (epoll_ctl CtlDel socketd [] w1))))))"

definition echopipe_write :: "fd \<Rightarrow> (unit, pp_ctx) act" where
  "echopipe_write socketd = (\<lambda>(pp, w).
     if pp_didWrite pp then (Ret (), pp, w)
     else (case echo_fillCharBuffer BUFFERSIZE w of (cs, w1) \<Rightarrow>
           case sys_send socketd cs w1 of (a, w2) \<Rightarrow>
             (Ret (), pp\<lparr>pp_inputBuffer := cs, pp_didWrite := True\<rparr>,
              snd (sys_close socketd (snd (epoll_ctl CtlDel socketd [] w2))))))"

definition echopipe_event :: "fd \<times> epoll_ev list \<Rightarrow> (unit, pp_ctx) act" where
  "echopipe_event = (\<lambda>(socketd, events).
     act_then (if EPOLLIN \<in> set events then echopipe_read socketd else act_return ())
       (if EPOLLOUT \<in> set events then echopipe_write socketd else act_return ()))"

definition echopipe_ready :: "(fd \<times> epoll_ev list) list \<Rightarrow> (unit, pp_ctx) act" where
  "echopipe_ready events = (\<lambda>(pp, w).
     if pp_didRead pp \<and> pp_didWrite pp then (Ret (), pp, w) else act_each echopipe_event events (pp, w))"

section \<open>The program\<close>

datatype echo_app = EchoTCP echo_ends | EchoUDP echo_ends | EchoPipe echo_pipe | NoEcho

type_synonym echo_ctx = "echo_app \<times> world"

text \<open>
  \<open>argv\<close> without the name of the program.  When no application could be made the program says
  how it is used and goes on.
\<close>

definition echo_app_new :: "(string \<Rightarrow> u32 option) \<Rightarrow> string option \<Rightarrow> string list \<Rightarrow> world \<Rightarrow> echo_app ret \<times> world" where
  "echo_app_new lookup hostname argv w =
     (case argv of
        [] \<Rightarrow> (Ret NoEcho, w)
      | protocol # args \<Rightarrow>
          if ci_prefix ''tcp'' (cstr protocol)
          then (case echotcp_new lookup hostname args w of
                  (Ret e, w1) \<Rightarrow> (Ret (case e of None \<Rightarrow> NoEcho | Some ep \<Rightarrow> EchoTCP ep), w1)
                | (AssertFail, w1) \<Rightarrow> (AssertFail, w1) | (UB, w1) \<Rightarrow> (UB, w1))
          else if ci_prefix ''udp'' (cstr protocol)
          then (case echoudp_new lookup hostname args w of
                  (Ret e, w1) \<Rightarrow> (Ret (case e of None \<Rightarrow> NoEcho | Some ep \<Rightarrow> EchoUDP ep), w1)
                | (AssertFail, w1) \<Rightarrow> (AssertFail, w1) | (UB, w1) \<Rightarrow> (UB, w1))
          else if ci_prefix ''pipe'' (cstr protocol)
          then (case echopipe_new w of (p, w1) \<Rightarrow> (Ret (case p of None \<Rightarrow> NoEcho | Some pp \<Rightarrow> EchoPipe pp), w1))
          else (Ret NoEcho, w))"

fun echo_app_ends :: "echo_app \<Rightarrow> echo_ends" where
  "echo_app_ends (EchoTCP ep) = ep"
| "echo_app_ends (EchoUDP ep) = ep"
| "echo_app_ends _ = no_ends"

text \<open>The descriptors that the program waits for.\<close>

definition echo_app_epolls :: "echo_app \<Rightarrow> fd list" where
  "echo_app_epolls app =
     (case ep_server (echo_app_ends app) of None \<Rightarrow> [] | Some es \<Rightarrow> [es_epolld es])
   @ (case ep_client (echo_app_ends app) of None \<Rightarrow> [] | Some ec \<Rightarrow> [ec_epolld ec])
   @ (case app of EchoPipe pp \<Rightarrow> [pp_epolld pp] | _ \<Rightarrow> [])"

fun echo_watch_all :: "fd list \<Rightarrow> world \<Rightarrow> bool \<times> world" where
  "echo_watch_all [] w = (True, w)"
| "echo_watch_all (d # ds) w = (case epoll_ctl CtlAdd d [EPOLLIN] w of (ok, w1) \<Rightarrow> if ok then echo_watch_all ds w1 else (False, w1))"

text \<open>\<open>None\<close>: the program returns \<open>-1\<close> before its loop.\<close>

definition echo_start :: "(string \<Rightarrow> u32 option) \<Rightarrow> string option \<Rightarrow> string list \<Rightarrow> world \<Rightarrow> echo_app option ret \<times> world" where
  "echo_start lookup hostname argv w =
     (if argv = [] then (Ret None, w)
      else case echo_app_new lookup hostname argv w of
        (Ret app, w1) \<Rightarrow>
          (case sys_socket w1 of
             (Inl e, w2) \<Rightarrow> (Ret None, w2)
           | (Inr epolld, w2) \<Rightarrow>
               (case echo_watch_all (echo_app_epolls app) w2 of (ok, w3) \<Rightarrow> (Ret (if ok then Some app else None), w3)))
      | (AssertFail, w1) \<Rightarrow> (AssertFail, w1)
      | (UB, w1) \<Rightarrow> (UB, w1))"

text \<open>What one look at the inner epolls reports, once for each event of the outer one.\<close>

type_synonym echo_batch = "echo_event list \<times> echo_event list"

definition echo_app_ready :: "echo_batch \<Rightarrow> (unit, echo_ctx) act" where
  "echo_app_ready = (\<lambda>(cevents, sevents) (app, w).
     case app of
       EchoTCP ep \<Rightarrow> (case echotcp_ready cevents sevents (ep, w) of (r, ep1, w1) \<Rightarrow> (r, EchoTCP ep1, w1))
     | EchoUDP ep \<Rightarrow> (case echoudp_ready cevents sevents (ep, w) of (r, ep1, w1) \<Rightarrow> (r, EchoUDP ep1, w1))
     | EchoPipe pp \<Rightarrow> (case echopipe_ready (map (\<lambda>(d, evs, _). (d, evs)) cevents) (pp, w) of (r, pp1, w1) \<Rightarrow> (r, EchoPipe pp1, w1))
     | NoEcho \<Rightarrow> (Ret (), app, w))"

text \<open>The end of a pass: \<open>True\<close> leaves the loop.\<close>

definition echo_finish :: "(bool, echo_ctx) act" where
  "echo_finish = (\<lambda>(app, w).
     case (app, ep_client (echo_app_ends app)) of
       (EchoPipe pp, _) \<Rightarrow>
         if pp_didRead pp then (Ret True, app, close_all [pp_readfd pp, pp_writefd pp, pp_epolld pp] w) else (Ret False, app, w)
     | (_, None) \<Rightarrow> (Ret False, app, w)
     | (_, Some ec) \<Rightarrow>
         if ec_is_done ec
         then (let w1 = snd (sys_close (ec_socketd ec) w) in
               (Ret True, app, case app of EchoTCP ep \<Rightarrow> echotcp_free ep w1 | EchoUDP ep \<Rightarrow> echoudp_free ep w1 | _ \<Rightarrow> w1))
         else (Ret False, app, w))"

definition echo_pass :: "echo_batch list \<Rightarrow> (bool, echo_ctx) act" where
  "echo_pass batches = act_then (act_each echo_app_ready batches) echo_finish"

text \<open>The loop, over what \<open>epoll_wait\<close> reports each time; it ends only when the application is done.\<close>

fun echo_main :: "echo_batch list list \<Rightarrow> (bool, echo_ctx) act" where
  "echo_main [] = act_return False"
| "echo_main (bs # bss) = act_bind (echo_pass bs) (\<lambda>fin. if fin then act_return True else echo_main bss)"

end
