(* ===== verification/Echo_Properties.thy ===== *)
theory Echo_Properties
  imports Echo
begin

text \<open>
  The theorems about the echo plug-in: the server copies, the client gets back what it sent, and
  what goes wrong when there is more than one client or the network fails.
\<close>

section \<open>The server copies\<close>

definition es_ok :: "echo_server \<Rightarrow> bool" where
  "es_ok es \<longleftrightarrow> es_write_offset es \<le> length (es_echoBuffer es) \<and> length (es_echoBuffer es) \<le> BUFFERSIZE"

text \<open>Everything the server has sent, holds, or has yet to receive.\<close>

definition echo_flow :: "es_ctx \<Rightarrow> string" where
  "echo_flow s = all_sent (w_log (snd s)) @ es_pending (fst s) @ arriving (snd s)"

definition es_inv :: "string \<Rightarrow> es_ctx \<Rightarrow> bool" where
  "es_inv flow s \<longleftrightarrow> es_ok (fst s) \<and> echo_flow s = flow"

lemma all_sent_quiet [simp]:
  "all_sent (w_log (snd (epoll_ctl op sd evs w))) = all_sent (w_log w)"
  "all_sent (w_log (snd (sys_close sd w))) = all_sent (w_log w)"
  by (auto simp: epoll_ctl_def sys_close_def Let_def split: list.split prod.split)

lemma sys_recv_room: "sys_recv n w = (Inr bs, w') \<Longrightarrow> length bs \<le> n"
  by (auto simp: sys_recv_def split: list.splits recv_answer.splits if_splits)

lemma sys_recv_log: "sys_recv n w = (a, w') \<Longrightarrow> w_log w' = w_log w"
  by (auto simp: sys_recv_def split: list.splits recv_answer.splits if_splits)

lemma sys_send_effect:
  "sys_send sd bs w = (Inr n, w') \<Longrightarrow> n \<le> length bs \<and> all_sent (w_log w') = all_sent (w_log w) @ take n bs \<and> arriving w' = arriving w"
  "sys_send sd bs w = (Inl e, w') \<Longrightarrow> all_sent (w_log w') = all_sent (w_log w) \<and> arriving w' = arriving w"
  by (auto simp: sys_send_def Let_def arriving_def split: list.splits send_answer.splits if_splits)

lemma pending_append: "es_ok es \<Longrightarrow> es_pending (es\<lparr>es_address := p, es_echoBuffer := es_echoBuffer es @ bs\<rparr>) = es_pending es @ bs"
  by (simp add: es_pending_def es_ok_def)

lemma pending_written:
  "es_pending (es\<lparr>es_write_offset := es_write_offset es + n, es_replies := x\<rparr>) = drop n (es_pending es)"
  by (simp add: es_pending_def add.commute)

lemma accept_effect:
  "sys_accept w = (a, w') \<Longrightarrow> w_log w' = w_log w \<and> arriving w' = arriving w"
  by (auto simp: sys_accept_def arriving_def split: list.splits)

lemma readable_copies:
  assumes "es_inv flow s"
  shows "runs (echotcp_serverReadable sd) s (\<lambda>_. es_inv flow)"
proof -
  obtain es w where s: "s = (es, w)" by fastforce
  have ok: "es_ok es" "echo_flow (es, w) = flow" using assms s by (simp_all add: es_inv_def)
  show ?thesis
  proof (cases "sd = es_listend es")
    case True
    then show ?thesis
      using s ok by (auto simp: runs_def echotcp_serverReadable_def es_inv_def echo_flow_def dest: accept_effect split: prod.splits sum.splits)
  next
    case False
    obtain a w1 where rv: "sys_recv (BUFFERSIZE - length (es_echoBuffer es)) w = (a, w1)" by fastforce
    have log: "w_log w1 = w_log w" using sys_recv_log [OF rv] .
    show ?thesis
    proof (cases a)
      case (Inl e)
      with rv sys_recv_arriving(2) have "arriving w1 = arriving w" by blast
      with Inl False s ok rv log show ?thesis
        by (auto simp: runs_def echotcp_serverReadable_def echo_serverRead_def Let_def es_inv_def echo_flow_def)
    next
      case (Inr bs)
      then have "arriving w = bs @ arriving w1" "length bs \<le> BUFFERSIZE - length (es_echoBuffer es)"
        using rv sys_recv_arriving(1) sys_recv_room by blast+
      with Inr False s ok rv log show ?thesis
        by (auto simp: runs_def echotcp_serverReadable_def echo_serverRead_def Let_def es_inv_def echo_flow_def es_ok_def es_pending_def)
    qed
  qed
qed

lemma writable_copies:
  assumes "es_inv flow s"
  shows "runs (echo_serverWritable sys_send sd) s (\<lambda>_. es_inv flow)"
proof -
  obtain es w where s: "s = (es, w)" by fastforce
  have ok: "es_ok es" "echo_flow (es, w) = flow" using assms s by (simp_all add: es_inv_def)
  show ?thesis
  proof (cases "es_pending es = []")
    case True
    then show ?thesis
      using s ok by (auto simp: runs_def echo_serverWritable_def es_inv_def echo_flow_def)
  next
    case False
    obtain a w1 where sn: "sys_send sd (es_pending es) w = (a, w1)" by fastforce
    show ?thesis
    proof (cases a)
      case (Inl e)
      with sn sys_send_effect(2) have "all_sent (w_log w1) = all_sent (w_log w)" "arriving w1 = arriving w" by blast+
      with Inl False s ok sn show ?thesis
        by (auto simp: runs_def echo_serverWritable_def es_inv_def echo_flow_def)
    next
      case (Inr n)
      with sn sys_send_effect(1) have n: "n \<le> length (es_pending es)" "all_sent (w_log w1) = all_sent (w_log w) @ take n (es_pending es)"
        "arriving w1 = arriving w" by blast+
      then have "es_write_offset es + n \<le> length (es_echoBuffer es)" using ok(1) by (auto simp: es_pending_def es_ok_def)
      with Inr False s ok sn n show ?thesis
        by (auto simp: runs_def echo_serverWritable_def es_inv_def echo_flow_def es_ok_def pending_written)
    qed
  qed
qed

lemma event_copies:
  assumes "es_inv flow s"
  shows "runs (echo_server_event (\<lambda>_. echotcp_serverReadable) sys_send ev) s (\<lambda>_. es_inv flow)"
  using assms
  by (cases ev) (auto simp: echo_server_event_def intro!: runs_mono [OF readable_copies] writable_copies)

lemma batch_copies:
  assumes "es_inv flow s"
  shows "runs (echo_server_ready (\<lambda>_. echotcp_serverReadable) sys_send evs) s (\<lambda>_. es_inv flow)"
proof -
  have "runs (act_each (echo_server_event (\<lambda>_. echotcp_serverReadable) sys_send) evs) s (\<lambda>_. es_inv flow)"
    using assms by (intro runs_each event_copies)
  moreover have "es_inv flow (es_reset (fst t), snd t)" if "es_inv flow t" for t
    using that by (auto simp: es_inv_def es_reset_def es_ok_def echo_flow_def es_pending_def)
  ultimately show ?thesis
    by (auto simp: echo_server_ready_def case_prod_beta intro: runs_mono)
qed

lemma server_flow:
  assumes "es_ok es"
  shows "\<exists>es' w'. act_each (echo_server_ready (\<lambda>_. echotcp_serverReadable) sys_send) batches (es, w) = (Ret (), es', w')
     \<and> es_ok es' \<and> echo_flow (es', w') = echo_flow (es, w)"
proof -
  have "runs (act_each (echo_server_ready (\<lambda>_. echotcp_serverReadable) sys_send) batches) (es, w) (\<lambda>_. es_inv (echo_flow (es, w)))"
    using assms by (intro runs_each batch_copies) (simp_all add: es_inv_def)
  from runsD [OF this] show ?thesis by (auto simp: es_inv_def)
qed

text \<open>
  C21: the server is a bounded copying buffer.  In any order of readable and writable sockets,
  whatever the kernel takes and delivers, it never overruns its buffer, and what it has sent, then
  what it holds, then what it has not read yet is always the same text: nothing is lost, doubled or
  reordered.
\<close>

theorem echo_server_copies:
  assumes "es_ok es"
  shows "\<exists>es' w'. act_each (echo_server_ready (\<lambda>_. echotcp_serverReadable) sys_send) batches (es, w) = (Ret (), es', w')
     \<and> es_ok es'
     \<and> all_sent (w_log w') @ es_pending es' @ arriving w' = all_sent (w_log w) @ es_pending es @ arriving w"
  using server_flow [OF assms] by (simp add: echo_flow_def)

definition fresh_server :: echo_server where "fresh_server = echo_server_of 5 0 6"

theorem echo_server_copies_witness:
  "\<exists>es' w'. act_each (echo_server_ready (\<lambda>_. echotcp_serverReadable) sys_send)
        [[(7, [EPOLLIN], (0, 0))], [(7, [EPOLLIN, EPOLLOUT], (0, 0))]]
        (fresh_server, quiet_world\<lparr>w_recv := [RData ''ab'', RData ''c''], w_send := [SOk 2]\<rparr>) = (Ret (), es', w')
     \<and> all_sent (w_log w') @ es_pending es' @ arriving w' = ''abc''"
  using echo_server_copies [of fresh_server "[[(7, [EPOLLIN], (0, 0))], [(7, [EPOLLIN, EPOLLOUT], (0, 0))]]"
      "quiet_world\<lparr>w_recv := [RData ''ab'', RData ''c''], w_send := [SOk 2]\<rparr>"]
  by (auto simp: fresh_server_def echo_server_of_def es_ok_def es_pending_def arriving_def quiet_world_def)

section \<open>The client gets back what it sent\<close>

lemma fill_letters: "echo_fillCharBuffer n w = (cs, w') \<Longrightarrow> length cs = n \<and> w_send w' = w_send w \<and> w_recv w' = w_recv w \<and> w_log w' = w_log w"
proof (induction n arbitrary: cs w w')
  case (Suc n)
  obtain r w1 where r: "sys_rand w = (r, w1)" by fastforce
  obtain ds w2 where ds: "echo_fillCharBuffer n w1 = (ds, w2)" by fastforce
  have "w_send w1 = w_send w" "w_recv w1 = w_recv w" "w_log w1 = w_log w"
    using r by (auto simp: sys_rand_def split: list.splits)
  with Suc.IH [OF ds] Suc.prems r ds show ?case by auto
qed simp

lemma read_all:
  assumes "w_recv w = map RData cs" "[] \<notin> set cs" "ec_amount_sent ec = int (length (ec_recvBuffer ec) + length (concat cs))"
  shows "ec_read_loop sys_recv (ec, w) = (ec\<lparr>ec_recvBuffer := ec_recvBuffer ec @ concat cs\<rparr>, w\<lparr>w_recv := []\<rparr>)"
  using assms
proof (induction cs arbitrary: ec w)
  case Nil
  then show ?case by (subst ec_read_loop.simps) simp
next
  case (Cons c cs)
  let ?n = "nat (ec_amount_sent ec - int (length (ec_recvBuffer ec)))"
  have n: "?n = length c + length (concat cs)" "c \<noteq> []" using Cons.prems by auto
  then have rv: "sys_recv ?n w = (Inr c, w\<lparr>w_recv := map RData cs\<rparr>)"
    using Cons.prems(1) by (auto simp: sys_recv_def)
  have "0 < int (length c)" using n(2) by simp
  then have "\<not> ec_amount_sent ec - int (length (ec_recvBuffer ec)) \<le> 0" using Cons.prems(3) unfolding concat.simps length_append by linarith
  then show ?case
    using rv n Cons.IH [of "w\<lparr>w_recv := map RData cs\<rparr>" "ec\<lparr>ec_recvBuffer := ec_recvBuffer ec @ c\<rparr>"] Cons.prems
    by (subst ec_read_loop.simps) (simp add: Let_def)
qed

text \<open>A client that has not sent anything.\<close>

definition ec_fresh :: "echo_client \<Rightarrow> bool" where
  "ec_fresh ec \<longleftrightarrow> length (ec_sendBuffer ec) = BUFFERSIZE \<and> ec_recvBuffer ec = [] \<and> \<not> ec_sent_msg ec \<and> ec_amount_sent ec = 0 \<and> \<not> ec_is_done ec"

lemma epoll_quiet [simp]: "w_recv (snd (epoll_ctl op sd evs w)) = w_recv w"
  by (auto simp: epoll_ctl_def Let_def split: list.split prod.split)

lemma client_sends:
  assumes "ec_fresh ec" "w_send w = SOk k # q" "0 < k"
  shows "\<exists>ec1 w1. echotcp_clientWritable sd (ec, w) = (Ret (), ec1, w1)
     \<and> sent_on sd (w_log w1) = sent_on sd (w_log w) @ take k (ec_sendBuffer ec1)
     \<and> length (ec_sendBuffer ec1) = BUFFERSIZE \<and> ec_amount_sent ec1 = int (min k BUFFERSIZE) \<and> ec_recvBuffer ec1 = [] \<and> \<not> ec_is_done ec1
     \<and> w_recv w1 = w_recv w"
proof -
  obtain cs w0 where cs: "echo_fillCharBuffer (BUFFERSIZE - 1) w = (cs, w0)" by fastforce
  note fl = fill_letters [OF cs]
  let ?buf = "cs @ drop (BUFFERSIZE - 1) (ec_sendBuffer ec)"
  have len: "length ?buf = BUFFERSIZE" using fl assms(1) by (simp add: ec_fresh_def BUFFERSIZE_def)
  then have "sys_send sd ?buf w0 = (Inr (min k BUFFERSIZE), emit (Sent sd (take k ?buf)) (w0\<lparr>w_send := q\<rparr>))"
    using fl assms(2,3) by (auto simp: sys_send_def Let_def BUFFERSIZE_def min_def)
  with cs fl len assms(1) show ?thesis
    by (auto simp: echotcp_clientWritable_def echo_clientWritable_def Let_def ec_fresh_def)
qed

lemma client_reads:
  assumes "w_recv w = map RData cs" "[] \<notin> set cs" "ec_recvBuffer ec = []" "ec_amount_sent ec = int (length (concat cs))" "\<not> ec_is_done ec"
  shows "\<exists>w1. echotcp_clientReadable sd (ec, w)
      = (Ret (), ec\<lparr>ec_recvBuffer := concat cs, ec_is_done := True,
                     ec_verdict := Some (take (length (concat cs)) (ec_sendBuffer ec) = concat cs)\<rparr>, w1)
     \<and> closed_fds (w_log w1) = closed_fds (w_log w) @ [sd]"
  using read_all [OF assms(1,2), of ec] assms(3-5)
  by (auto simp: echotcp_clientReadable_def echo_clientReadable_def Let_def sys_close_def epoll_ctl_def split: list.split prod.split)

lemma server_passes:
  assumes "m \<noteq> []" "length m \<le> k" "length m \<le> BUFFERSIZE"
  shows "\<exists>es' w'. act_each (echo_server_ready (\<lambda>_. echotcp_serverReadable) sys_send) [[(7, [EPOLLIN], p)], [(7, [EPOLLOUT], p)]]
      (fresh_server, quiet_world\<lparr>w_recv := [RData m], w_send := [SOk k]\<rparr>) = (Ret (), es', w')
    \<and> es_pending es' = [] \<and> arriving w' = [] \<and> all_sent (w_log w') = m"
proof -
  have rv: "sys_recv BUFFERSIZE (quiet_world\<lparr>w_recv := [RData m], w_send := [SOk k]\<rparr>) = (Inr m, quiet_world\<lparr>w_recv := [], w_send := [SOk k]\<rparr>)"
    using assms(3) by (simp add: sys_recv_def quiet_world_def BUFFERSIZE_def)
  define w1 where "w1 = snd (epoll_ctl CtlMod 7 [EPOLLIN, EPOLLOUT] (quiet_world\<lparr>w_recv := [], w_send := [SOk k]\<rparr>))"
  have w1: "w_send w1 = [SOk k]" "w_recv w1 = []" "all_sent (w_log w1) = []" by (simp_all add: w1_def quiet_world_def)
  then have "sys_send 7 m w1 = (Inr (length m), emit (Sent 7 m) (w1\<lparr>w_send := []\<rparr>))"
    using assms(1,2) by (intro sys_send_all)
  with rv assms(1) w1 show ?thesis
    by (simp add: echo_server_ready_def echo_server_event_def echotcp_serverReadable_def echo_serverRead_def echo_serverWritable_def
        act_then_def act_bind_def act_return_def act_update_def fresh_server_def echo_server_of_def es_reset_def es_pending_def
        BUFFERSIZE_def w1_def [symmetric] arriving_def)
qed

text \<open>
  C20: end to end.  The client sends a message of which the kernel takes some part; the server
  gets it in any pieces and is woken in any order until it has passed everything on; what it has
  sent reaches the client in any pieces.  Then the client is done, finds the echo consistent, and
  closes its socket.
\<close>

theorem echo_comes_back:
  assumes client: "ec_fresh ec" "w_send wc = SOk k # q" "0 < k" "echotcp_clientWritable sd (ec, wc) = (r, ec1, wc1)"
    and up: "sent_on sd (w_log wc1) = sent_on sd (w_log wc) @ concat ps" "w_recv ws = map RData ps" "es_ok es" "es_pending es = []"
    and server: "act_each (echo_server_ready (\<lambda>_. echotcp_serverReadable) sys_send) batches (es, ws) = (r', es', ws')"
      "es_pending es' = []" "arriving ws' = []"
    and down: "all_sent (w_log ws') = all_sent (w_log ws) @ concat cs" "[] \<notin> set cs" "w_recv wc2 = map RData cs"
  shows "\<exists>ec2 wc3. echotcp_clientReadable sd (ec1, wc2) = (Ret (), ec2, wc3)
     \<and> ec_is_done ec2 \<and> ec_verdict ec2 = Some True \<and> closed_fds (w_log wc3) = closed_fds (w_log wc2) @ [sd]"
proof -
  have ec1: "sent_on sd (w_log wc1) = sent_on sd (w_log wc) @ take k (ec_sendBuffer ec1)" "length (ec_sendBuffer ec1) = BUFFERSIZE"
    "ec_amount_sent ec1 = int (min k BUFFERSIZE)" "ec_recvBuffer ec1 = []" "\<not> ec_is_done ec1"
    using client_sends [OF client(1-3), of sd] client(4) by auto
  have msg: "concat ps = take k (ec_sendBuffer ec1)" using ec1(1) up(1) by simp
  have "all_sent (w_log ws') @ es_pending es' @ arriving ws' = all_sent (w_log ws) @ es_pending es @ arriving ws"
    using server_flow [OF up(3), of batches ws] server(1) by (auto simp: echo_flow_def)
  moreover have "arriving ws = concat ps" using up(2) by (simp add: arriving_def comp_def)
  ultimately have "all_sent (w_log ws') = all_sent (w_log ws) @ concat ps"
    using server(2,3) up(4) by simp
  then have cs: "concat cs = take k (ec_sendBuffer ec1)" using down(1) msg by simp
  then have len: "length (concat cs) = min k BUFFERSIZE" using ec1(2) by simp
  then have "take (length (concat cs)) (ec_sendBuffer ec1) = concat cs"
    unfolding cs using ec1(2) by (simp add: min_def)
  then show ?thesis
    using client_reads [OF down(3,2) ec1(4), of sd] ec1(3,5) len by auto
qed

theorem echo_comes_back_witness:
  "\<exists>ec1 wc1 ec2 wc3. echotcp_clientWritable 5 (echo_client_of 1 5 6, quiet_world\<lparr>w_send := [SOk 3]\<rparr>) = (Ret (), ec1, wc1)
     \<and> echotcp_clientReadable 5 (ec1, quiet_world\<lparr>w_recv := [RData (take 3 (ec_sendBuffer ec1))]\<rparr>) = (Ret (), ec2, wc3)
     \<and> ec_verdict ec2 = Some True"
proof -
  let ?wc = "quiet_world\<lparr>w_send := [SOk 3]\<rparr>" and ?ec = "echo_client_of 1 5 6"
  have fresh: "ec_fresh ?ec" by (simp add: ec_fresh_def echo_client_of_def zeros_def)
  obtain ec1 wc1 where c: "echotcp_clientWritable 5 (?ec, ?wc) = (Ret (), ec1, wc1)"
    "sent_on 5 (w_log wc1) = sent_on 5 (w_log ?wc) @ take 3 (ec_sendBuffer ec1)" "length (ec_sendBuffer ec1) = BUFFERSIZE"
    using client_sends [OF fresh, of ?wc 3 "[]" 5] by auto
  define m where "m = take 3 (ec_sendBuffer ec1)"
  have m: "length m = 3" using c(3) by (simp add: m_def BUFFERSIZE_def)
  then have ne: "m \<noteq> []" by auto
  obtain es' ws' where s: "act_each (echo_server_ready (\<lambda>_. echotcp_serverReadable) sys_send) [[(7, [EPOLLIN], (0, 0))], [(7, [EPOLLOUT], (0, 0))]]
      (fresh_server, quiet_world\<lparr>w_recv := [RData m], w_send := [SOk 3]\<rparr>) = (Ret (), es', ws')"
    "es_pending es' = []" "arriving ws' = []" "all_sent (w_log ws') = m"
    using server_passes [of m 3 "(0, 0)"] m ne by (auto simp: BUFFERSIZE_def)
  have "\<exists>ec2 wc3. echotcp_clientReadable 5 (ec1, quiet_world\<lparr>w_recv := [RData m]\<rparr>) = (Ret (), ec2, wc3)
     \<and> ec_is_done ec2 \<and> ec_verdict ec2 = Some True \<and> closed_fds (w_log wc3) = closed_fds (w_log (quiet_world\<lparr>w_recv := [RData m]\<rparr>)) @ [5]"
    by (rule echo_comes_back [OF fresh _ _ c(1) _ _ _ _ s(1-3), where ps = "[m]" and cs = "[m]" and k = 3 and q = "[]"])
       (use c(2) s(4) ne in \<open>simp_all add: m_def fresh_server_def echo_server_of_def es_ok_def es_pending_def quiet_world_def\<close>)
  then show ?thesis using c(1) by (auto simp: m_def)
qed

section \<open>What goes wrong\<close>

text \<open>
  When the first \<open>send\<close> fails its \<open>-1\<close> is added to the number of bytes sent, and the next
  time the socket is readable that number of bytes is compared.
\<close>

theorem echo_send_failure_overruns:
  assumes "ec_fresh ec" "w_send w = SErr e # q" "w_recv w = [RData bs]"
  shows "\<exists>s. act_then (echotcp_clientWritable sd) (echotcp_clientReadable sd) (ec, w) = (UB, s)"
proof -
  obtain cs w0 where cs: "echo_fillCharBuffer (BUFFERSIZE - 1) w = (cs, w0)" by fastforce
  note fl = fill_letters [OF cs]
  then have "sys_send sd (cs @ drop (BUFFERSIZE - 1) (ec_sendBuffer ec)) w0 = (Inl e, w0\<lparr>w_send := q\<rparr>)"
    using assms(2) by (simp add: sys_send_def)
  with cs assms(1) show ?thesis
    by (auto simp: act_then_def act_bind_def echotcp_clientWritable_def echo_clientWritable_def echotcp_clientReadable_def
        echo_clientReadable_def Let_def ec_fresh_def ec_read_loop.simps)
qed

theorem echo_send_failure_overruns_witness:
  "\<exists>s. act_then (echotcp_clientWritable 5) (echotcp_clientReadable 5)
     (echo_client_of 1 5 6, quiet_world\<lparr>w_send := [SErr EOTHER], w_recv := [RData ''x'']\<rparr>) = (UB, s)"
  by (rule echo_send_failure_overruns [where e = EOTHER and q = "[]" and bs = "''x''"])
     (simp_all add: ec_fresh_def echo_client_of_def zeros_def quiet_world_def)

text \<open>
  The server has one buffer for all clients: what one client sends goes to whichever client
  is writable next.
\<close>

theorem echo_crosstalk:
  assumes "es_echoBuffer es = []" "es_write_offset es = 0" "a \<noteq> es_listend es" "w_recv w = [RData bs]" "bs \<noteq> []" "length bs \<le> BUFFERSIZE"
    and "w_send w = [SOk k]" "length bs \<le> k"
  shows "\<exists>es' w'. echo_server_ready (\<lambda>_. echotcp_serverReadable) sys_send [(a, [EPOLLIN], pa), (b, [EPOLLOUT], pb)] (es, w) = (Ret (), es', w')
     \<and> sent_on b (w_log w') = sent_on b (w_log w) @ bs"
proof -
  define w1 where "w1 = snd (epoll_ctl CtlMod a [EPOLLIN, EPOLLOUT] (w\<lparr>w_recv := []\<rparr>))"
  define es1 where "es1 = es\<lparr>es_address := es_address es, es_echoBuffer := bs\<rparr>"
  have rv: "sys_recv BUFFERSIZE w = (Inr bs, w\<lparr>w_recv := []\<rparr>)"
    using assms(4,6) by (simp add: sys_recv_def BUFFERSIZE_def)
  have one: "echo_server_event (\<lambda>_. echotcp_serverReadable) sys_send (a, [EPOLLIN], pa) (es, w) = (Ret (), es1, w1)"
    using rv assms(1,3,5)
    by (simp add: echo_server_event_def echotcp_serverReadable_def echo_serverRead_def act_then_def act_bind_def act_return_def w1_def es1_def
        BUFFERSIZE_def)
  have "w_send w1 = [SOk k]" using assms(7) by (simp add: w1_def)
  then have sn: "sys_send b bs w1 = (Inr (length bs), emit (Sent b bs) (w1\<lparr>w_send := []\<rparr>))"
    using assms(5,8) by (intro sys_send_all)
  have "es_pending es1 = bs" using assms(2) by (simp add: es1_def es_pending_def)
  then have "\<exists>es2 w2. echo_server_event (\<lambda>_. echotcp_serverReadable) sys_send (b, [EPOLLOUT], pb) (es1, w1) = (Ret (), es2, w2)
      \<and> sent_on b (w_log w2) = sent_on b (w_log w1) @ bs"
    using sn assms(5)
    by (auto simp: echo_server_event_def echo_serverWritable_def act_then_def act_bind_def act_return_def pending_written)
  moreover have "sent_on b (w_log w1) = sent_on b (w_log w)" by (simp add: w1_def)
  ultimately show ?thesis
    using one by (auto simp: echo_server_ready_def act_then_def act_bind_def act_return_def act_update_def)
qed

theorem echo_crosstalk_witness:
  "\<exists>es' w'. echo_server_ready (\<lambda>_. echotcp_serverReadable) sys_send [(7, [EPOLLIN], (0, 0)), (8, [EPOLLOUT], (0, 0))]
      (fresh_server, quiet_world\<lparr>w_recv := [RData ''secret''], w_send := [SOk 100]\<rparr>) = (Ret (), es', w')
     \<and> sent_on 8 (w_log w') = ''secret''"
  using echo_crosstalk [of fresh_server 7 "quiet_world\<lparr>w_recv := [RData ''secret''], w_send := [SOk 100]\<rparr>" "''secret''" 100 "(0, 0)" 8 "(0, 0)"]
  by (simp add: fresh_server_def echo_server_of_def quiet_world_def BUFFERSIZE_def)

text \<open>
  Datagrams that arrive before the socket is writable are joined, and all of them are
  answered to the sender of the last one.
\<close>

theorem echo_udp_answers_last:
  assumes "es_echoBuffer es = []" "es_write_offset es = 0" "w_recv w = [RData a, RData b]" "a \<noteq> []" "b \<noteq> []" "length (a @ b) < BUFFERSIZE"
    and "w_send w = SOk k # q"
  shows "\<exists>es' w'. echo_server_ready echoudp_serverReadable sys_sendto [(sd, [EPOLLIN], pa), (sd, [EPOLLIN, EPOLLOUT], pb)] (es, w) = (Ret (), es', w')
     \<and> es_replies es' = es_replies es @ [(pb, a @ b)]"
proof -
  define w1 where "w1 = snd (epoll_ctl CtlMod sd [EPOLLIN, EPOLLOUT] (w\<lparr>w_recv := [RData b]\<rparr>))"
  define es1 where "es1 = es\<lparr>es_address := pa, es_echoBuffer := a\<rparr>"
  define w2 where "w2 = snd (epoll_ctl CtlMod sd [EPOLLIN, EPOLLOUT] (w1\<lparr>w_recv := []\<rparr>))"
  define es2 where "es2 = es\<lparr>es_address := pb, es_echoBuffer := a @ b\<rparr>"
  have one: "echo_server_event echoudp_serverReadable sys_sendto (sd, [EPOLLIN], pa) (es, w) = (Ret (), es1, w1)"
    using assms
    by (simp add: echo_server_event_def echoudp_serverReadable_def echo_serverRead_def act_then_def act_bind_def act_return_def
        w1_def es1_def sys_recvfrom_def)
  have "w_recv w1 = [RData b]" "w_send w1 = SOk k # q" using assms(7) by (simp_all add: w1_def)
  then have read: "echoudp_serverReadable pb sd (es1, w1) = (Ret (), es2, w2)" and send: "w_send w2 = SOk k # q"
    using assms by (simp_all add: echoudp_serverReadable_def echo_serverRead_def Let_def es1_def es2_def w2_def sys_recvfrom_def)
  have "es_pending es2 = a @ b" using assms(2) by (simp add: es2_def es_pending_def)
  then have "\<exists>es3 w3. echo_serverWritable sys_sendto sd (es2, w2) = (Ret (), es3, w3) \<and> es_replies es3 = es_replies es @ [(pb, a @ b)]"
    using send assms(4) by (auto simp: echo_serverWritable_def sys_sendto_def es2_def)
  then show ?thesis
    using one read
    by (auto simp: echo_server_ready_def echo_server_event_def act_then_def act_bind_def act_return_def act_update_def es_reset_def)
qed

theorem echo_udp_answers_last_witness:
  "\<exists>es' w'. echo_server_ready echoudp_serverReadable sys_sendto [(5, [EPOLLIN], (1, 1)), (5, [EPOLLIN, EPOLLOUT], (2, 2))]
      (fresh_server, quiet_world\<lparr>w_recv := [RData ''a'', RData ''b''], w_send := [SOk 2]\<rparr>) = (Ret (), es', w')
     \<and> es_replies es' = [((2, 2), ''ab'')]"
  using echo_udp_answers_last [of fresh_server "quiet_world\<lparr>w_recv := [RData ''a'', RData ''b''], w_send := [SOk 2]\<rparr>" "''a''" "''b''" 2 "[]" 5 "(1, 1)" "(2, 2)"]
  by (simp add: fresh_server_def echo_server_of_def quiet_world_def BUFFERSIZE_def)

text \<open>
  The client closes its socket when it is done, and the program closes the same descriptor
  again before it leaves its loop.
\<close>

theorem echo_closes_twice:
  assumes "w_recv w = map RData cs" "[] \<notin> set cs" "ec_recvBuffer ec = []" "ec_amount_sent ec = int (length (concat cs))" "\<not> ec_is_done ec"
    and "ep_client ep = Some ec" "ep_server ep = None"
  shows "\<exists>app w'. echo_main [[([(ec_socketd ec, [EPOLLIN], p)], [])]] (EchoTCP ep, w) = (Ret True, app, w')
     \<and> closed_fds (w_log w') = closed_fds (w_log w) @ [ec_socketd ec, ec_socketd ec, ec_epolld ec]"
proof -
  obtain ec1 w1 where fin: "echotcp_clientReadable (ec_socketd ec) (ec, w) = (Ret (), ec1, w1)" "ec_is_done ec1"
    "ec_socketd ec1 = ec_socketd ec" "ec_epolld ec1 = ec_epolld ec"
    "closed_fds (w_log w1) = closed_fds (w_log w) @ [ec_socketd ec]"
    using client_reads [OF assms(1-5), of "ec_socketd ec"] by auto
  have close: "closed_fds (w_log (snd (sys_close d v))) = closed_fds (w_log v) @ [d]" for d v
    by (auto simp: sys_close_def Let_def split: list.split prod.split)
  have "echo_client_ready sys_recv sys_send [(ec_socketd ec, [EPOLLIN], p)] (ec, w) = (Ret (), ec1, w1)"
    using fin(1,2) by (simp add: echo_client_ready_def echo_client_event_def echotcp_clientReadable_def act_then_def act_bind_def act_return_def)
  then have "echo_app_ready ([(ec_socketd ec, [EPOLLIN], p)], []) (EchoTCP ep, w) = (Ret (), EchoTCP (ep\<lparr>ep_client := Some ec1\<rparr>), w1)"
    using assms(6,7) by (simp add: echo_app_ready_def echotcp_ready_def echo_ready_def act_then_def act_bind_def)
  then show ?thesis
    using fin assms(7)
    by (simp add: echo_pass_def act_then_def act_bind_def act_return_def echo_finish_def echotcp_free_def close)
qed

theorem echo_closes_twice_witness:
  "\<exists>app w'. echo_main [[([(5, [EPOLLIN], (0, 0))], [])]]
      (EchoTCP \<lparr>ep_client = Some ((echo_client_of 1 5 6)\<lparr>ec_sendBuffer := ''hi'', ec_sent_msg := True, ec_amount_sent := 2\<rparr>), ep_server = None\<rparr>,
       quiet_world\<lparr>w_recv := [RData ''hi'']\<rparr>) = (Ret True, app, w')
     \<and> closed_fds (w_log w') = [5, 5, 6]"
proof -
  let ?ec = "(echo_client_of 1 5 6)\<lparr>ec_sendBuffer := ''hi'', ec_sent_msg := True, ec_amount_sent := 2\<rparr>"
  show ?thesis
    using echo_closes_twice [of "quiet_world\<lparr>w_recv := [RData ''hi'']\<rparr>" "[''hi'']" ?ec "\<lparr>ep_client = Some ?ec, ep_server = None\<rparr>" "(0, 0)"]
    by (simp add: echo_client_of_def quiet_world_def)
qed

end
