(* ===== verification/Pcap_Replay.thy ===== *)
theory Pcap_Replay
  imports Kernel Action
begin

text \<open>
  The replayer of packet captures (\<open>pcap_replay/pcap_replay.c\<close>, \<open>pcap_replay.h\<close> and
  \<open>pcap_replay-main.c\<close>).

  libpcap is not part of the repository.  What \<open>pcap_open_offline\<close> finds under a path is the
  parameter \<open>captures\<close>: the packets that \<open>pcap_next_ex\<close> hands out until it fails for the first
  time.  An open handle is a number; \<open>pr_open\<close> maps it to the answers of \<open>pcap_next_ex\<close> so far, the last
  one first (\<open>None\<close> when there was no packet), and the packets to come.  \<open>pcap_next_ex\<close> points into a
  buffer of the handle whose contents are only promised until the next call, so \<open>payload\<close> is a handle
  and an offset, and what a read at an offset finds after these answers is the parameter \<open>buffer\<close>: \<open>None\<close>
  when the memory is not there any more, for instance because libpcap has allocated a larger buffer.

  \<open>recv\<close> on a connection is the parameter \<open>get\<close>, so that a connection that the peer has closed, on which
  \<open>recv\<close> returns 0 for ever, is one of its values; \<open>sys_recv\<close> is another.

  What is passed to \<open>send\<close> and to \<open>nanosleep\<close> is kept in \<open>pr_trace\<close>.
\<close>

section \<open>Captured packets\<close>

record timeval =
  tm_sec :: int
  tm_usec :: int

text \<open>The time of \<open>struct pcap_pkthdr\<close> and the captured bytes.\<close>

record captured =
  cp_ts :: timeval
  cp_data :: string

text \<open>\<open>Custom_Packet_t\<close>; \<open>payload_room\<close> is what the capture holds from the payload on.\<close>

record packet =
  timestamp :: timeval
  payload_handle :: nat
  payload_offset :: nat
  payload_room :: nat
  payload_size :: int

definition SIZE_ETHERNET :: nat where "SIZE_ETHERNET = 14"

text \<open>An integer of \<open>n\<close> bytes in the memory of a little-endian machine, and one in network order.\<close>

definition host_at :: "nat \<Rightarrow> nat \<Rightarrow> string \<Rightarrow> nat" where
  "host_at i n b = le_value (take n (drop i b))"

definition net_at :: "nat \<Rightarrow> nat \<Rightarrow> string \<Rightarrow> nat" where
  "net_at i n b = le_value (rev (take n (drop i b)))"

text \<open>\<open>ether_type\<close>, \<open>IP_HL\<close>, \<open>ip_p\<close>, \<open>ip_len\<close>, \<open>ip_src\<close>, \<open>ip_dst\<close>, and \<open>TH_OFF\<close> behind an IP header of \<open>hl\<close> bytes\<close>

definition ether_type :: "string \<Rightarrow> nat" where "ether_type b = host_at 12 2 b"
definition IP_HL :: "string \<Rightarrow> nat" where "IP_HL b = host_at SIZE_ETHERNET 1 b mod 16"
definition ip_len :: "string \<Rightarrow> nat" where "ip_len b = net_at (SIZE_ETHERNET + 2) 2 b"
definition ip_p :: "string \<Rightarrow> nat" where "ip_p b = host_at (SIZE_ETHERNET + 9) 1 b"
definition ip_src :: "string \<Rightarrow> u32" where "ip_src b = of_nat (host_at (SIZE_ETHERNET + 12) 4 b)"
definition ip_dst :: "string \<Rightarrow> u32" where "ip_dst b = of_nat (host_at (SIZE_ETHERNET + 16) 4 b)"
definition TH_OFF :: "nat \<Rightarrow> string \<Rightarrow> nat" where "TH_OFF hl b = host_at (SIZE_ETHERNET + hl + 12) 1 b div 16"

text \<open>
  What the body of the loop in \<open>get_next_packet\<close> makes of the bytes of a packet: offset and
  size of the payload, when the packet is TCP over IPv4 from one address to another.  The ports are
  not looked at.  A header that is not in the capture is read all the same.
\<close>

definition sniff :: "u32 \<Rightarrow> u32 \<Rightarrow> string \<Rightarrow> (nat \<times> int) option ret" where
  "sniff from dest b =
     (if length b < SIZE_ETHERNET then UB
      else if ether_type b \<noteq> 8 then Ret None
      else if length b < SIZE_ETHERNET + 10 then UB
      else let hl = IP_HL b * 4 in
        if ip_p b \<noteq> 6 then Ret None
        else if length b \<le> SIZE_ETHERNET + hl + 12 then UB
        else let tl = TH_OFF hl b * 4 in
          if length b < SIZE_ETHERNET + 16 then UB
          else if ip_src b \<noteq> from then Ret None
          else if length b < SIZE_ETHERNET + 20 then UB
          else if ip_dst b \<noteq> dest then Ret None
          else Ret (Some (SIZE_ETHERNET + hl + tl, int (ip_len b) - int (hl + tl))))"

type_synonym pcap_t = "captured option list \<times> captured list"

text \<open>The loop over \<open>pcap_next_ex\<close>.\<close>

fun next_match :: "u32 \<Rightarrow> u32 \<Rightarrow> nat \<Rightarrow> captured option list \<Rightarrow> captured list \<Rightarrow> (packet option \<times> pcap_t) ret" where
  "next_match from dest h past [] = Ret (None, None # past, [])"
| "next_match from dest h past (c # cs) =
     ret_bind (sniff from dest (cp_data c)) (\<lambda>m.
       case m of
         None \<Rightarrow> next_match from dest h (Some c # past) cs
       | Some (off, len) \<Rightarrow>
           Ret (Some \<lparr>timestamp = cp_ts c, payload_handle = h, payload_offset = off,
                      payload_room = length (cp_data c) - off, payload_size = len\<rparr>, Some c # past, cs))"

text \<open>The time from \<open>y\<close> to \<open>x\<close>; the quotients are truncated.\<close>

definition timeval_subtract :: "timeval \<Rightarrow> timeval \<Rightarrow> timespec \<times> bool" where
  "timeval_subtract y0 x =
     (let y1 = (if tm_usec x < tm_usec y0
                then (let nsec = (tm_usec y0 - tm_usec x) div 1000000 + 1
                      in y0\<lparr>tm_usec := tm_usec y0 - 1000000 * nsec, tm_sec := tm_sec y0 + nsec\<rparr>)
                else y0);
          y = (if tm_usec x - tm_usec y1 > 1000000
               then (let nsec = (tm_usec x - tm_usec y1) div 1000000
                     in y1\<lparr>tm_usec := tm_usec y1 + 1000000 * nsec, tm_sec := tm_sec y1 - nsec\<rparr>)
               else y1)
      in (\<lparr>tv_sec = tm_sec x - tm_sec y, tv_nsec = (tm_usec x - tm_usec y) * 1000\<rparr>, tm_sec x < tm_sec y))"

section \<open>The state\<close>

datatype replay_call = CallSend fd string | CallSleep timespec

record pcap_replay =
  pr_ed :: fd
  pr_timeout :: u64
  pr_isClient :: bool
  pr_isTorClient :: bool
  pr_isAllowedToSend :: bool
  pr_isFirstPacketReceived :: bool
  pr_isRestarting :: bool
  pr_isDone :: bool
  pr_nmb_conn :: int
  pr_pcapStructQueue :: "nat list"
  pr_pcapFilePathQueue :: "string list"
  pr_pcap :: "nat option"
  pr_nextPacket :: "packet option"
  pr_proxyIP :: u32
  pr_proxyPort :: u16
  pr_serverHostName :: string
  pr_serverPortInt :: int
  pr_serverIP :: u32
  pr_serverPort :: u16
  pr_client_IP_in_pcap :: u32
  pr_client_port_in_pcap :: u16
  pr_server_IP_in_pcap :: u32
  pr_server_port_in_pcap :: u16
  pr_client_sd :: fd
  pr_server_sd :: fd
  pr_open :: "(nat \<times> pcap_t) list"
  pr_opened :: nat
  pr_trace :: "replay_call list"

type_synonym pr_ctx = "pcap_replay \<times> world"

text \<open>What \<open>g_new0\<close> makes.\<close>

definition pr_zero :: pcap_replay where
  "pr_zero = \<lparr>pr_ed = 0, pr_timeout = 0, pr_isClient = False, pr_isTorClient = False, pr_isAllowedToSend = False,
     pr_isFirstPacketReceived = False, pr_isRestarting = False, pr_isDone = False, pr_nmb_conn = 0,
     pr_pcapStructQueue = [], pr_pcapFilePathQueue = [], pr_pcap = None, pr_nextPacket = None, pr_proxyIP = 0, pr_proxyPort = 0,
     pr_serverHostName = [], pr_serverPortInt = 0, pr_serverIP = 0, pr_serverPort = 0, pr_client_IP_in_pcap = 0,
     pr_client_port_in_pcap = 0, pr_server_IP_in_pcap = 0, pr_server_port_in_pcap = 0, pr_client_sd = 0, pr_server_sd = 0,
     pr_open = [], pr_opened = 0, pr_trace = []\<rparr>"

type_synonym disk = "string \<Rightarrow> captured list option"
type_synonym pcap_buffer = "captured option list \<Rightarrow> nat \<Rightarrow> char option"

section \<open>Reading captures\<close>

text \<open>\<open>pcap_open_offline\<close> of a capture\<close>

definition pr_open_file :: "captured list \<Rightarrow> pcap_replay \<Rightarrow> nat \<times> pcap_replay" where
  "pr_open_file cs pr = (pr_opened pr, pr\<lparr>pr_open := AList.update (pr_opened pr) ([], cs) (pr_open pr), pr_opened := pr_opened pr + 1\<rparr>)"

definition pr_from :: "pcap_replay \<Rightarrow> u32" where
  "pr_from pr = (if pr_isClient pr then pr_client_IP_in_pcap pr else pr_server_IP_in_pcap pr)"

definition pr_dest :: "pcap_replay \<Rightarrow> u32" where
  "pr_dest pr = (if pr_isClient pr then pr_server_IP_in_pcap pr else pr_client_IP_in_pcap pr)"

text \<open>A handle that is \<open>NULL\<close> or closed must not be read.\<close>

definition get_next_packet :: "(bool, pr_ctx) act" where
  "get_next_packet = (\<lambda>(pr, w).
     case pr_pcap pr of
       None \<Rightarrow> (UB, pr, w)
     | Some h \<Rightarrow>
         (case map_of (pr_open pr) h of
            None \<Rightarrow> (UB, pr, w)
          | Some (past, cs) \<Rightarrow>
              (case next_match (pr_from pr) (pr_dest pr) h past cs of
                 Ret (m, rest) \<Rightarrow>
                   (let pr1 = pr\<lparr>pr_open := AList.update h rest (pr_open pr)\<rparr> in
                    case m of
                      None \<Rightarrow> (Ret False, pr1, w)
                    | Some p \<Rightarrow> (Ret True, pr1\<lparr>pr_nextPacket := Some p\<rparr>, w))
               | AssertFail \<Rightarrow> (AssertFail, pr, w)
               | UB \<Rightarrow> (UB, pr, w))))"

text \<open>
  \<open>memcpy\<close> of the payload and \<open>send\<close>.  Undefined: an array of negative size, a payload that reaches
  behind the captured bytes, memory that libpcap has given up, and the buffer of a handle that was closed.
\<close>

definition send_packet :: "pcap_buffer \<Rightarrow> packet \<Rightarrow> fd \<Rightarrow> (errno + nat, pr_ctx) act" where
  "send_packet buffer cp sd = (\<lambda>(pr, w).
     case map_of (pr_open pr) (payload_handle cp) of
       None \<Rightarrow> (UB, pr, w)
     | Some (past, _) \<Rightarrow>
         if payload_size cp < 0 \<or> payload_size cp > int (payload_room cp) then (UB, pr, w)
         else (case those (map (buffer past) [payload_offset cp ..< payload_offset cp + nat (payload_size cp)]) of
                 None \<Rightarrow> (UB, pr, w)
               | Some message \<Rightarrow>
                   (case sys_send sd message w of
                      (r, w1) \<Rightarrow> (Ret r, pr\<lparr>pr_trace := pr_trace pr @ [CallSend sd message]\<rparr>, w1))))"

text \<open>
  The head of both queues moves to their tail, the file opened afresh.  The first pop and the
  \<open>peek\<close> of an empty queue yield \<open>NULL\<close>.
\<close>

definition change_pcap_file_to_send :: "disk \<Rightarrow> (bool, pr_ctx) act" where
  "change_pcap_file_to_send captures = (\<lambda>(pr, w).
     case pr_pcapStructQueue pr of
       [] \<Rightarrow> (UB, pr, w)
     | h # hs \<Rightarrow>
         if map_of (pr_open pr) h = None then (UB, pr, w)
         else let pr1 = pr\<lparr>pr_pcapStructQueue := hs, pr_open := AList.delete h (pr_open pr)\<rparr> in
           (case pr_pcapFilePathQueue pr1 of
              [] \<Rightarrow> (UB, pr1, w)
            | path # paths \<Rightarrow>
                (case captures path of
                   None \<Rightarrow> (Ret False, pr1, w)
                 | Some cs \<Rightarrow>
                     (case pr_open_file cs pr1 of
                        (g, pr2) \<Rightarrow>
                          (Ret True,
                           pr2\<lparr>pr_pcapFilePathQueue := paths @ [path], pr_pcapStructQueue := hs @ [g],
                               pr_pcap := Some (hd (hs @ [g]))\<rparr>, w)))))"

definition pr_do :: "(pcap_replay \<Rightarrow> pcap_replay) \<Rightarrow> (unit, pr_ctx) act" where
  "pr_do f = act_update (\<lambda>(pr, w). (f pr, w))"

definition pr_kernel :: "(world \<Rightarrow> world) \<Rightarrow> (unit, pr_ctx) act" where
  "pr_kernel f = act_update (\<lambda>(pr, w). (pr, f w))"

definition pr_nanosleep :: "timespec \<Rightarrow> (unit, pr_ctx) act" where
  "pr_nanosleep t = pr_do (\<lambda>pr. pr\<lparr>pr_trace := pr_trace pr @ [CallSleep t]\<rparr>)"

definition restart_server :: "disk \<Rightarrow> (bool, pr_ctx) act" where
  "restart_server captures =
     act_bind (change_pcap_file_to_send captures) (\<lambda>ok.
       if \<not> ok then act_return False
       else act_bind get_next_packet (\<lambda>found.
         if \<not> found then act_return False
         else act_then (pr_nanosleep \<lparr>tv_sec = 50, tv_nsec = 0\<rparr>)
             (act_then (pr_do (\<lambda>pr. pr\<lparr>pr_isAllowedToSend := False, pr_isFirstPacketReceived := False\<rparr>)) (act_return True))))"

definition restart_client :: "disk \<Rightarrow> (bool, pr_ctx) act" where
  "restart_client captures =
     act_bind (change_pcap_file_to_send captures) (\<lambda>ok.
       if \<not> ok then act_return False
       else act_bind get_next_packet (\<lambda>found.
         if \<not> found then act_return False
         else act_then (pr_nanosleep \<lparr>tv_sec = 60, tv_nsec = 0\<rparr>) (act_return True)))"

definition deinstanciate :: "fd \<Rightarrow> (unit, pr_ctx) act" where
  "deinstanciate sd =
     act_then (pr_kernel (\<lambda>w. snd (sys_close sd (snd (epoll_ctl CtlDel sd [] w)))))
       (pr_do (\<lambda>pr. pr\<lparr>pr_client_sd := 0, pr_isDone := True\<rparr>))"

section \<open>Events\<close>

definition MTU :: nat where "MTU = 2000"

type_synonym pr_recv = "nat \<Rightarrow> world \<Rightarrow> (errno + string) \<times> world"

definition pr_receive :: "pr_recv \<Rightarrow> (errno + string, pr_ctx) act" where
  "pr_receive get = (\<lambda>(pr, w). case get MTU w of (r, w1) \<Rightarrow> (Ret r, pr, w1))"

definition pr_restart_or_quit :: "(bool, pr_ctx) act \<Rightarrow> fd \<Rightarrow> (unit, pr_ctx) act" where
  "pr_restart_or_quit restart sd = act_bind restart (\<lambda>ok. if ok then act_return () else deinstanciate sd)"

text \<open>The last packet of a file: it is sent and freed, and the next file begins.\<close>

definition pr_last_packet :: "pcap_buffer \<Rightarrow> (bool, pr_ctx) act \<Rightarrow> packet \<Rightarrow> fd \<Rightarrow> (unit, pr_ctx) act" where
  "pr_last_packet buffer restart cp sd =
     act_bind (send_packet buffer cp sd) (\<lambda>_.
       act_then (pr_do (\<lambda>pr. pr\<lparr>pr_nextPacket := None\<rparr>)) (pr_restart_or_quit restart sd))"

text \<open>The time from a packet to the next one.\<close>

definition pr_wait :: "packet \<Rightarrow> (timespec, pr_ctx) act" where
  "pr_wait cp = (\<lambda>(pr, w).
     case pr_nextPacket pr of
       None \<Rightarrow> (UB, pr, w)
     | Some n \<Rightarrow> (Ret (fst (timeval_subtract (timestamp cp) (timestamp n))), pr, w))"

text \<open>The sleep and the test of the timeout at the end; \<open>gint64\<close> and \<open>guint64\<close> are compared unsigned.\<close>

definition pr_sleep_or_quit :: "timespec \<Rightarrow> fd \<Rightarrow> (unit, pr_ctx) act" where
  "pr_sleep_or_quit timeToWait sd =
     act_then (pr_nanosleep timeToWait) (\<lambda>(pr, w).
       case clock_gettime w of
         (t, w1) \<Rightarrow> if pr_timeout pr \<le> word_of_int (tv_sec t) then deinstanciate sd (pr, w1) else (Ret (), pr, w1))"

text \<open>
  The frame of both handlers: the packet to send is what was fetched before, the next one is
  fetched, \<open>io\<close> does what the events ask for and says whether to go on.
\<close>

definition pr_activate ::
    "pcap_buffer \<Rightarrow> (bool, pr_ctx) act \<Rightarrow> (packet \<Rightarrow> (bool, pr_ctx) act) \<Rightarrow> fd \<Rightarrow> (unit, pr_ctx) act" where
  "pr_activate buffer restart io sd = (\<lambda>(pr, w).
     case pr_nextPacket pr of
       None \<Rightarrow> (UB, pr, w)
     | Some cp \<Rightarrow>
         act_bind get_next_packet (\<lambda>found.
           if \<not> found then pr_last_packet buffer restart cp sd
           else act_bind (pr_wait cp) (\<lambda>timeToWait.
             act_bind (io cp) (\<lambda>go_on. if go_on then pr_sleep_or_quit timeToWait sd else act_return ()))) (pr, w))"

text \<open>An empty message is the end of the connection; \<open>seen\<close> is what is done with any other answer.\<close>

definition pr_take ::
    "pr_recv \<Rightarrow> (bool, pr_ctx) act \<Rightarrow> (unit, pr_ctx) act \<Rightarrow> fd \<Rightarrow> (bool, pr_ctx) act" where
  "pr_take get restart seen sd =
     act_bind (pr_receive get) (\<lambda>r.
       if r = Inr [] then act_then (pr_restart_or_quit restart sd) (act_return False)
       else act_then seen (act_return True))"

definition pr_epoll :: "epoll_op \<Rightarrow> fd \<Rightarrow> epoll_ev list \<Rightarrow> (unit, pr_ctx) act" where
  "pr_epoll op sd evs = pr_kernel (\<lambda>w. snd (epoll_ctl op sd evs w))"

definition pr_client_io ::
    "pcap_buffer \<Rightarrow> disk \<Rightarrow> pr_recv \<Rightarrow> fd \<Rightarrow> epoll_ev list \<Rightarrow> packet \<Rightarrow> (bool, pr_ctx) act" where
  "pr_client_io buffer captures get sd events cp =
     (if EPOLLIN \<in> set events \<and> EPOLLOUT \<in> set events
      then act_bind (send_packet buffer cp sd) (\<lambda>_. pr_take get (restart_client captures) (act_return ()) sd)
      else if EPOLLOUT \<in> set events
      then act_bind (send_packet buffer cp sd) (\<lambda>_. act_then (pr_epoll CtlMod sd [EPOLLIN, EPOLLOUT]) (act_return True))
      else if EPOLLIN \<in> set events then pr_take get (restart_client captures) (act_return ()) sd
      else act_return True)"

definition pcap_activateClient :: "pcap_buffer \<Rightarrow> disk \<Rightarrow> pr_recv \<Rightarrow> fd \<Rightarrow> epoll_ev list \<Rightarrow> (unit, pr_ctx) act" where
  "pcap_activateClient buffer captures get sd events = (\<lambda>(pr, w).
     if pr_client_sd pr \<noteq> sd then (AssertFail, pr, w)
     else pr_activate buffer (restart_client captures) (pr_client_io buffer captures get sd events) sd (pr, w))"

text \<open>
  What the server does for a packet.  A connection that cannot be accepted is registered as
  descriptor \<open>-1\<close>.
\<close>

definition pr_accept :: "(bool, pr_ctx) act" where
  "pr_accept = (\<lambda>(pr, w).
     case sys_accept w of
       (a, w1) \<Rightarrow>
         let newClientSD = (case a of Inl e \<Rightarrow> -1 | Inr (d, _) \<Rightarrow> d) in
         (Ret True, pr, snd (epoll_ctl CtlAdd newClientSD [EPOLLIN, EPOLLOUT] w1)))"

definition pr_first_received :: "(unit, pr_ctx) act" where
  "pr_first_received = pr_do (\<lambda>pr. pr\<lparr>pr_isFirstPacketReceived := True\<rparr>)"

definition pr_server_io ::
    "pcap_buffer \<Rightarrow> disk \<Rightarrow> pr_recv \<Rightarrow> fd \<Rightarrow> epoll_ev list \<Rightarrow> packet \<Rightarrow> (bool, pr_ctx) act" where
  "pr_server_io buffer captures get sd events cp = (\<lambda>(pr, w).
     if sd = pr_server_sd pr
     then (if EPOLLIN \<in> set events then pr_accept (pr, w) else (AssertFail, pr, w))
     else if EPOLLIN \<in> set events \<and> EPOLLOUT \<in> set events
     then act_bind (send_packet buffer cp sd) (\<lambda>_.
            act_bind (pr_receive get) (\<lambda>r.
              act_then pr_first_received
                (if r = Inr [] then act_then (pr_restart_or_quit (restart_server captures) sd) (act_return False)
                 else act_return True))) (pr, w)
     else if EPOLLIN \<in> set events
     then pr_take get (restart_server captures)
            (act_then pr_first_received (pr_epoll CtlMod sd [EPOLLIN, EPOLLOUT])) sd (pr, w)
     else if EPOLLOUT \<in> set events
     then act_bind (send_packet buffer cp sd) (\<lambda>_. act_return True) (pr, w)
     else (Ret True, pr, w))"

text \<open>The loop that empties the socket after a change of file: it goes on while \<open>recv\<close> does not fail.\<close>

definition pr_drain_step :: "pr_recv \<Rightarrow> world \<Rightarrow> (unit, world) outcome" where
  "pr_drain_step get w = (case get MTU w of (Inr _, w1) \<Rightarrow> Again w1 | (Inl _, w1) \<Rightarrow> Exit () w1)"

definition pcap_activateServer ::
    "pcap_buffer \<Rightarrow> disk \<Rightarrow> pr_recv \<Rightarrow> fd \<Rightarrow> epoll_ev list \<Rightarrow> pr_ctx \<Rightarrow> (unit ret \<times> pr_ctx) option" where
  "pcap_activateServer buffer captures get sd events = (\<lambda>(pr, w).
     if EPOLLIN \<in> set events \<and> \<not> pr_isAllowedToSend pr
     then map_option (\<lambda>(_, w1). (Ret (), pr\<lparr>pr_isAllowedToSend := True\<rparr>, w1)) (drive (pr_drain_step get) w)
     else if EPOLLIN \<notin> set events \<and> \<not> pr_isFirstPacketReceived pr
     then Some (pr_nanosleep \<lparr>tv_sec = 0, tv_nsec = 500000000\<rparr> (pr, w))
     else Some (pr_activate buffer (restart_server captures) (pr_server_io buffer captures get sd events) sd (pr, w)))"

text \<open>\<open>pcap_replay_ready\<close>; the events are those of \<open>epoll_wait\<close>, none when it fails.\<close>

fun pcap_replay_ready ::
    "pcap_buffer \<Rightarrow> disk \<Rightarrow> pr_recv \<Rightarrow> (fd \<times> epoll_ev list) list \<Rightarrow> pr_ctx \<Rightarrow> (unit ret \<times> pr_ctx) option" where
  "pcap_replay_ready buffer captures get [] s = Some (Ret (), s)"
| "pcap_replay_ready buffer captures get ((d, e) # evs) s =
     (case (if d = pr_client_sd (fst s) then Some (pcap_activateClient buffer captures get d e s)
            else pcap_activateServer buffer captures get d e s) of
        None \<Rightarrow> None
      | Some (Ret _, t) \<Rightarrow> pcap_replay_ready buffer captures get evs t
      | Some (r, t) \<Rightarrow> Some (r, t))"

section \<open>Start\<close>

text \<open>\<open>epoll_create\<close>, unless the instance restarts\<close>

definition pr_start_epoll :: "(bool, pr_ctx) act" where
  "pr_start_epoll = (\<lambda>(pr, w).
     if pr_isRestarting pr then (Ret True, pr, w)
     else (case sys_socket w of
             (Inl e, w1) \<Rightarrow> (Ret False, pr\<lparr>pr_ed := -1\<rparr>, snd (sys_close (-1) w1))
           | (Inr d, w1) \<Rightarrow> (Ret True, pr\<lparr>pr_ed := d\<rparr>, w1)))"

definition pr_client_socket :: "(bool, pr_ctx) act" where
  "pr_client_socket = (\<lambda>(pr, w).
     case sys_socket w of
       (Inl e, w1) \<Rightarrow> (Ret False, pr\<lparr>pr_client_sd := -1\<rparr>, w1)
     | (Inr d, w1) \<Rightarrow> (Ret (d \<noteq> -1), pr\<lparr>pr_client_sd := d\<rparr>, w1))"

text \<open>Go on only after success.\<close>

definition pr_and :: "(bool, pr_ctx) act \<Rightarrow> (bool, pr_ctx) act \<Rightarrow> (bool, pr_ctx) act" where
  "pr_and m n = act_bind m (\<lambda>ok. if ok then n else act_return False)"

definition pr_connect :: "u32 \<Rightarrow> u16 \<Rightarrow> (bool, pr_ctx) act" where
  "pr_connect addr port = (\<lambda>(pr, w).
     case sys_connect (pr_client_sd pr) addr port w of
       (r, w1) \<Rightarrow> (Ret (r = None \<or> r = Some EINPROGRESS), pr, w1))"

definition pr_resolve :: "(string \<Rightarrow> u32 option) \<Rightarrow> (bool, pr_ctx) act" where
  "pr_resolve lookup = (\<lambda>(pr, w).
     if ci_prefix ''localhost'' (pr_serverHostName pr) then (Ret True, pr\<lparr>pr_serverIP := htonl 0x7f000001\<rparr>, w)
     else (case lookup (pr_serverHostName pr) of
             None \<Rightarrow> (Ret False, pr, w)
           | Some ip \<Rightarrow> (Ret True, pr\<lparr>pr_serverIP := ip\<rparr>, w)))"

text \<open>The port of the next connection.\<close>

definition pr_next_port :: "pcap_replay \<Rightarrow> u16" where
  "pr_next_port pr = htons (word_of_int (pr_serverPortInt pr + pr_nmb_conn pr))"

definition pr_count_connection :: "pcap_replay \<Rightarrow> pcap_replay" where
  "pr_count_connection pr = pr\<lparr>pr_serverPort := pr_next_port pr, pr_nmb_conn := pr_nmb_conn pr + 1\<rparr>"

definition pcap_client_epoll :: "epoll_op \<Rightarrow> epoll_ev list \<Rightarrow> (bool, pr_ctx) act" where
  "pcap_client_epoll op evs = (\<lambda>(pr, w). (Ret True, pr, snd (epoll_ctl op (pr_client_sd pr) evs w)))"

definition pcap_server_epoll :: "epoll_op \<Rightarrow> epoll_ev list \<Rightarrow> (bool, pr_ctx) act" where
  "pcap_server_epoll op evs = (\<lambda>(pr, w). (Ret True, pr, snd (epoll_ctl op (pr_server_sd pr) evs w)))"

definition pcap_StartClient :: "(string \<Rightarrow> u32 option) \<Rightarrow> (bool, pr_ctx) act" where
  "pcap_StartClient lookup =
     pr_and pr_start_epoll (pr_and pr_client_socket (pr_and (pr_resolve lookup)
       (act_then (pr_do pr_count_connection)
         (\<lambda>(pr, w). pr_and (pr_connect (pr_serverIP pr) (pr_serverPort pr)) (pcap_client_epoll CtlAdd [EPOLLOUT]) (pr, w)))))"

definition send_to_proxy :: "string \<Rightarrow> (errno + nat, pr_ctx) act" where
  "send_to_proxy bs = (\<lambda>(pr, w). case sys_send (pr_client_sd pr) bs w of (r, w1) \<Rightarrow> (Ret r, pr, w1))"

definition recv_from_proxy :: "nat \<Rightarrow> (errno + string, pr_ctx) act" where
  "recv_from_proxy n = (\<lambda>(pr, w). case sys_recv n w of (r, w1) \<Rightarrow> (Ret r, pr, w1))"

text \<open>The command of step 3: connect to an IPv4 address\<close>

definition socks_connect :: "u32 \<Rightarrow> u16 \<Rightarrow> string" where
  "socks_connect ip port =
     [char_of (5::nat), char_of (1::nat), char_of (0::nat), char_of (1::nat)] @ le_bytes 4 (unat ip) @ le_bytes 2 (unat port)"

definition socks_accepts :: "string \<Rightarrow> bool" where
  "socks_accepts b \<longleftrightarrow> take 2 b = [char_of (5::nat), char_of (0::nat)]"

text \<open>Steps 3 and 4.  A name that cannot be resolved ends in \<open>freeaddrinfo\<close> of a pointer nothing was stored in.\<close>

definition pr_proxy_request :: "(string \<Rightarrow> u32 option) \<Rightarrow> (bool, pr_ctx) act" where
  "pr_proxy_request lookup = (\<lambda>(pr, w).
     case lookup (pr_serverHostName pr) of
       None \<Rightarrow> (UB, pr, w)
     | Some ip \<Rightarrow>
         act_bind (send_to_proxy (socks_connect ip (pr_next_port pr))) (\<lambda>r3.
           if r3 \<noteq> Inr 10 then act_fail AssertFail
           else act_bind (recv_from_proxy 256) (\<lambda>r4.
             case r4 of
               Inl _ \<Rightarrow> act_fail AssertFail
             | Inr b \<Rightarrow> if length b < 4 then act_fail AssertFail else act_return (socks_accepts b)))
         (pr\<lparr>pr_serverIP := ip, pr_nmb_conn := pr_nmb_conn pr + 1\<rparr>, w))"

definition initiate_conn_to_proxy :: "(string \<Rightarrow> u32 option) \<Rightarrow> (bool, pr_ctx) act" where
  "initiate_conn_to_proxy lookup =
     act_bind (send_to_proxy [char_of (5::nat), char_of (1::nat), char_of (0::nat)]) (\<lambda>r1.
       if r1 \<noteq> Inr 3 then act_fail AssertFail
       else act_bind (recv_from_proxy 2) (\<lambda>r2.
         case r2 of
           Inl _ \<Rightarrow> act_fail AssertFail
         | Inr b \<Rightarrow>
             if length b \<noteq> 2 then act_fail AssertFail
             else if \<not> socks_accepts b then act_return False
             else pr_proxy_request lookup))"

text \<open>What the proxy answers is not looked at.\<close>

definition pcap_StartClientTor :: "(string \<Rightarrow> u32 option) \<Rightarrow> (bool, pr_ctx) act" where
  "pcap_StartClientTor lookup =
     pr_and pr_start_epoll (pr_and pr_client_socket
       (\<lambda>(pr, w).
          if pr_server_sd pr = -1 then (Ret False, pr, w)
          else pr_and (pr_connect (pr_proxyIP pr) (pr_proxyPort pr))
                 (act_bind (initiate_conn_to_proxy lookup) (\<lambda>_. pcap_client_epoll CtlAdd [EPOLLOUT])) (pr, w)))"

definition pr_server_socket :: "(bool, pr_ctx) act" where
  "pr_server_socket = (\<lambda>(pr, w).
     case sys_socket w of
       (Inl e, w1) \<Rightarrow> (Ret False, pr\<lparr>pr_server_sd := -1\<rparr>, w1)
     | (Inr d, w1) \<Rightarrow> (Ret (d \<noteq> -1), pr\<lparr>pr_server_sd := d\<rparr>, w1))"

definition pcap_StartServer :: "(bool, pr_ctx) act" where
  "pcap_StartServer =
     pr_and pr_start_epoll (pr_and pr_server_socket
       (act_then (pr_do pr_count_connection)
         (\<lambda>(pr, w).
            case sys_bind (pr_server_sd pr) w of
              (False, w1) \<Rightarrow> (Ret False, pr, w1)
            | (True, w1) \<Rightarrow>
                (case sys_listen (pr_server_sd pr) 0 (pr_serverPort pr) w1 of
                   (False, w2) \<Rightarrow> (Ret False, pr, w2)
                 | (True, w2) \<Rightarrow> pcap_server_epoll CtlAdd [EPOLLIN] (pr, w2)))))"

section \<open>Construction\<close>

definition close_unless_zero :: "fd \<Rightarrow> world \<Rightarrow> world" where
  "close_unless_zero d w = (if d = 0 then w else snd (sys_close d w))"

definition pcap_replay_free :: "pr_ctx \<Rightarrow> world" where
  "pcap_replay_free = (\<lambda>(pr, w).
     close_unless_zero (pr_server_sd pr) (close_unless_zero (pr_client_sd pr) (close_unless_zero (pr_ed pr) w)))"

fun pr_open_all :: "disk \<Rightarrow> string list \<Rightarrow> pcap_replay \<Rightarrow> pcap_replay option" where
  "pr_open_all captures [] pr = Some pr"
| "pr_open_all captures (path # paths) pr =
     (case captures path of
        None \<Rightarrow> None
      | Some cs \<Rightarrow>
          (case pr_open_file cs pr of
             (g, pr1) \<Rightarrow>
               pr_open_all captures paths
                 (pr1\<lparr>pr_pcapFilePathQueue := pr_pcapFilePathQueue pr1 @ [path],
                      pr_pcapStructQueue := pr_pcapStructQueue pr1 @ [g]\<rparr>)))"

text \<open>The three kinds of node; \<open>None\<close> is an unknown one.\<close>

definition pr_start_node :: "(string \<Rightarrow> u32 option) \<Rightarrow> string \<Rightarrow> pr_ctx \<Rightarrow> bool ret \<times> pr_ctx" where
  "pr_start_node lookup nodeType = (\<lambda>(pr, w).
     if nodeType = ''client'' then pcap_StartClient lookup (pr\<lparr>pr_isClient := True, pr_isTorClient := False\<rparr>, w)
     else if nodeType = ''client-tor'' then pcap_StartClientTor lookup (pr\<lparr>pr_isClient := True, pr_isTorClient := True\<rparr>, w)
     else if nodeType = ''server'' then pcap_StartServer (pr\<lparr>pr_isClient := False\<rparr>, w)
     else (Ret False, pr, w))"

text \<open>
  From the opening of the files on.  Without a matching packet in the first file the instance is
  freed, and then the pointer to the log function is read from it.
\<close>

definition pr_new_files ::
    "disk \<Rightarrow> (string \<Rightarrow> u32 option) \<Rightarrow> string \<Rightarrow> string list \<Rightarrow> pr_ctx \<Rightarrow> pcap_replay option ret \<times> world" where
  "pr_new_files captures lookup nodeType paths = (\<lambda>(pr, w).
     case pr_open_all captures paths pr of
       None \<Rightarrow> (Ret None, w)
     | Some pr1 \<Rightarrow>
         let pr2 = pr1\<lparr>pr_pcap := (case pr_pcapStructQueue pr1 of [] \<Rightarrow> None | h # _ \<Rightarrow> Some h)\<rparr> in
         (case pr_start_node lookup nodeType (pr2, w) of
            (Ret False, s) \<Rightarrow> (Ret None, pcap_replay_free s)
          | (Ret True, s) \<Rightarrow>
              (case get_next_packet s of
                 (Ret True, pr3, w3) \<Rightarrow> (Ret (Some pr3), w3)
               | (Ret False, t) \<Rightarrow> (UB, pcap_replay_free t)
               | (AssertFail, t) \<Rightarrow> (AssertFail, snd t)
               | (UB, t) \<Rightarrow> (UB, snd t))
          | (AssertFail, s) \<Rightarrow> (AssertFail, snd s)
          | (UB, s) \<Rightarrow> (UB, snd s)))"

text \<open>
  The arguments without the name of the program.  A missing one is read from behind the array.
\<close>

definition pr_new_addresses ::
    "disk \<Rightarrow> (string \<Rightarrow> u32 option) \<Rightarrow> string \<Rightarrow> string list \<Rightarrow> pr_ctx \<Rightarrow> pcap_replay option ret \<times> world" where
  "pr_new_addresses captures lookup nodeType args = (\<lambda>(pr, w).
     case args of
       host # port # clientIP # args1 \<Rightarrow>
         let pr1 = pr\<lparr>pr_serverHostName := cstr host, pr_serverPort := htons (word_of_int (atoi port)), pr_serverPortInt := atoi port,
                      pr_nmb_conn := 0, pr_isAllowedToSend := True, pr_isFirstPacketReceived := True, pr_isRestarting := False\<rparr> in
         (case inet_aton clientIP of
            None \<Rightarrow> (Ret None, pcap_replay_free (pr1, w))
          | Some cip \<Rightarrow>
              (case args1 of
                 clientPort # serverIP # args2 \<Rightarrow>
                   (case inet_aton serverIP of
                      None \<Rightarrow> (Ret None, pcap_replay_free (pr1, w))
                    | Some sip \<Rightarrow>
                        (case args2 of
                           serverPort # timeout # paths \<Rightarrow>
                             (case clock_gettime w of
                                (t, w1) \<Rightarrow>
                                  pr_new_files captures lookup nodeType paths
                                    (pr1\<lparr>pr_client_IP_in_pcap := cip, pr_client_port_in_pcap := word_of_int (atoi clientPort),
                                         pr_server_IP_in_pcap := sip, pr_server_port_in_pcap := word_of_int (atoi serverPort),
                                         pr_timeout := word_of_int (atoi timeout + tv_sec t)\<rparr>, w1))
                         | _ \<Rightarrow> (UB, w)))
               | _ \<Rightarrow> (UB, w)))
     | _ \<Rightarrow> (UB, w))"

definition pcap_replay_new ::
    "disk \<Rightarrow> (string \<Rightarrow> u32 option) \<Rightarrow> string list \<Rightarrow> world \<Rightarrow> pcap_replay option ret \<times> world" where
  "pcap_replay_new captures lookup args w =
     (case args of
        [] \<Rightarrow> (UB, w)
      | nodeType # args1 \<Rightarrow>
          if cstr nodeType = ''client-tor''
          then (case args1 of
                  [] \<Rightarrow> (UB, w)
                | port # args2 \<Rightarrow>
                    pr_new_addresses captures lookup (cstr nodeType) args2
                      (pr_zero\<lparr>pr_proxyPort := htons (word_of_int (atoi port)), pr_proxyIP := htonl 0x7f000001\<rparr>, w))
          else pr_new_addresses captures lookup (cstr nodeType) args1 (pr_zero, w))"

section \<open>The program\<close>

text \<open>
  The loop of \<open>main\<close>: for each return of \<open>epoll_wait\<close> the events of the instance, \<open>None\<close> when
  it fails.  The result is the exit code, \<open>None\<close> while the loop waits.
\<close>

fun pcap_main_loop ::
    "pcap_buffer \<Rightarrow> disk \<Rightarrow> pr_recv \<Rightarrow> fd \<Rightarrow> (fd \<times> epoll_ev list) list option list \<Rightarrow> pr_ctx \<Rightarrow> (int option ret \<times> pr_ctx) option" where
  "pcap_main_loop buffer captures get mainepolld [] s = Some (Ret None, s)"
| "pcap_main_loop buffer captures get mainepolld (None # waits) s = Some (Ret (Some (-1)), s)"
| "pcap_main_loop buffer captures get mainepolld (Some evs # waits) s =
     (case pcap_replay_ready buffer captures get evs s of
        None \<Rightarrow> None
      | Some (AssertFail, t) \<Rightarrow> Some (AssertFail, t)
      | Some (UB, t) \<Rightarrow> Some (UB, t)
      | Some (Ret _, pr, w) \<Rightarrow>
          if pr_isDone pr
          then Some (Ret (Some 0), pr, close_unless_zero mainepolld
                 (if pr_ed pr = 0 then w else snd (epoll_ctl CtlDel (pr_ed pr) [EPOLLIN, EPOLLOUT] w)))
          else pcap_main_loop buffer captures get mainepolld waits (pr, w))"

definition pcap_main ::
    "pcap_buffer \<Rightarrow> disk \<Rightarrow> pr_recv \<Rightarrow> (string \<Rightarrow> u32 option) \<Rightarrow> string list \<Rightarrow> (fd \<times> epoll_ev list) list option list \<Rightarrow> world
      \<Rightarrow> (int option ret \<times> world) option" where
  "pcap_main buffer captures get lookup args waits w =
     (case pcap_replay_new captures lookup args w of
        (AssertFail, w1) \<Rightarrow> Some (AssertFail, w1)
      | (UB, w1) \<Rightarrow> Some (UB, w1)
      | (Ret None, w1) \<Rightarrow> Some (Ret (Some (-1)), w1)
      | (Ret (Some pr), w1) \<Rightarrow>
          (case sys_socket w1 of
             (Inl e, w2) \<Rightarrow> Some (Ret (Some (-1)), snd (sys_close (-1) w2))
           | (Inr mainepolld, w2) \<Rightarrow>
               if pr_ed pr = 0 then Some (Ret (Some (-1)), snd (sys_close mainepolld w2))
               else map_option (\<lambda>(r, _, w3). (r, w3))
                      (pcap_main_loop buffer captures get mainepolld waits
                         (pr, snd (epoll_ctl CtlAdd (pr_ed pr) [EPOLLIN, EPOLLOUT] w2)))))"

end
