(* ===== verification/Pcap_Replay_Correct.thy ===== *)
theory Pcap_Replay_Correct
  imports Pcap_Replay "HOL-Library.Sublist"
begin

text \<open>
  What the functions of the replayer guarantee: the distance of two times, the packets found in
  a capture, and the invariant \<open>pr_inv\<close>.  It ties the queue of handles to the queue of paths: the current
  handle belongs to the path at the head, the others have not been read, and the packet to send
  points into the current handle.
\<close>

section \<open>Times\<close>

definition tm_us :: "timeval \<Rightarrow> int" where "tm_us t = tm_sec t * 1000000 + tm_usec t"

definition tm_normal :: "timeval \<Rightarrow> bool" where "tm_normal t \<longleftrightarrow> 0 \<le> tm_usec t \<and> tm_usec t < 1000000"

lemma subtract_exact:
  "timeval_subtract y x = (r, neg) \<Longrightarrow> TIME_TO_NS r = (tm_us x - tm_us y) * 1000"
  by (auto simp: timeval_subtract_def TIME_TO_NS_def tm_us_def Let_def split: if_splits)

lemma subtract_normal:
  assumes "tm_normal x" "tm_normal y"
  shows "timeval_subtract y x =
    (if tm_usec y \<le> tm_usec x then (\<lparr>tv_sec = tm_sec x - tm_sec y, tv_nsec = (tm_usec x - tm_usec y) * 1000\<rparr>, tm_sec x < tm_sec y)
     else (\<lparr>tv_sec = tm_sec x - tm_sec y - 1, tv_nsec = (tm_usec x - tm_usec y + 1000000) * 1000\<rparr>, tm_sec x \<le> tm_sec y))"
proof -
  have "(tm_usec y - tm_usec x) div 1000000 = 0" if "\<not> tm_usec y \<le> tm_usec x"
    using assms that by (auto simp: tm_normal_def)
  with assms show ?thesis by (auto simp: timeval_subtract_def tm_normal_def Let_def)
qed

section \<open>Packets of a capture\<close>

text \<open>The headers are inside the captured bytes, and so is the payload of a packet that matches.\<close>

definition good_frame :: "u32 \<Rightarrow> u32 \<Rightarrow> captured \<Rightarrow> bool" where
  "good_frame from dest c \<longleftrightarrow>
     (case sniff from dest (cp_data c) of
        Ret None \<Rightarrow> True
      | Ret (Some (off, len)) \<Rightarrow> 0 \<le> len \<and> int off + len \<le> int (length (cp_data c))
      | _ \<Rightarrow> False)"

text \<open>
  Where the bytes of a packet are read: what libpcap has answered by then, and the offset and size of the payload.  A
  packet is sent when the next one that matches, or the end of the file, has been found.
\<close>

type_synonym slot = "captured option list \<times> nat \<times> nat"

fun until_next :: "u32 \<Rightarrow> u32 \<Rightarrow> captured option list \<Rightarrow> captured list \<Rightarrow> captured option list" where
  "until_next from dest past [] = None # past"
| "until_next from dest past (c # cs) =
     (case sniff from dest (cp_data c) of
        Ret (Some _) \<Rightarrow> Some c # past
      | _ \<Rightarrow> until_next from dest (Some c # past) cs)"

text \<open>Time and slot of the packets that match.\<close>

fun matching :: "u32 \<Rightarrow> u32 \<Rightarrow> captured option list \<Rightarrow> captured list \<Rightarrow> (timeval \<times> slot) list" where
  "matching from dest past [] = []"
| "matching from dest past (c # cs) =
     (case sniff from dest (cp_data c) of
        Ret (Some (off, len)) \<Rightarrow> (cp_ts c, until_next from dest (Some c # past) cs, off, nat len) # matching from dest (Some c # past) cs
      | _ \<Rightarrow> matching from dest (Some c # past) cs)"

text \<open>The packets of a file, in the order of the capture.\<close>

definition packets_of :: "disk \<Rightarrow> u32 \<Rightarrow> u32 \<Rightarrow> string \<Rightarrow> (timeval \<times> slot) list" where
  "packets_of captures from dest path = (case captures path of None \<Rightarrow> [] | Some cs \<Rightarrow> matching from dest [] cs)"

definition pk_slot :: "captured option list \<Rightarrow> packet \<Rightarrow> slot" where
  "pk_slot past p = (past, payload_offset p, nat (payload_size p))"

definition pk_brief :: "u32 \<Rightarrow> u32 \<Rightarrow> captured option list \<Rightarrow> captured list \<Rightarrow> packet \<Rightarrow> timeval \<times> slot" where
  "pk_brief from dest past cs p = (timestamp p, pk_slot (until_next from dest past cs) p)"

definition pk_good :: "packet \<Rightarrow> bool" where
  "pk_good p \<longleftrightarrow> 0 \<le> payload_size p \<and> payload_size p \<le> int (payload_room p)"

text \<open>The packets among the answers.\<close>

definition handed :: "captured option list \<Rightarrow> captured list" where
  "handed past = map the (filter (\<lambda>a. a \<noteq> None) past)"

lemma handed_simps [simp]: "handed [] = []" "handed (None # past) = handed past" "handed (Some c # past) = c # handed past"
  by (simp_all add: handed_def)

lemma next_match_spec:
  assumes "\<forall>c\<in>set cs. good_frame from dest c"
  shows "\<exists>m past' cs'. next_match from dest h past cs = Ret (m, past', cs') \<and> rev (handed past') @ cs' = rev (handed past) @ cs
    \<and> past' = until_next from dest past cs
    \<and> (case m of
         None \<Rightarrow> matching from dest past cs = [] \<and> cs' = []
       | Some p \<Rightarrow> matching from dest past cs = pk_brief from dest past' cs' p # matching from dest past' cs'
           \<and> payload_handle p = h \<and> pk_good p)"
  using assms
proof (induction cs arbitrary: past)
  case (Cons c cs)
  from Cons.prems have c: "good_frame from dest c" and cs: "\<forall>c\<in>set cs. good_frame from dest c" by auto
  from c consider "sniff from dest (cp_data c) = Ret None"
    | off len where "sniff from dest (cp_data c) = Ret (Some (off, len))" "0 \<le> len" "int off + len \<le> int (length (cp_data c))"
    by (auto simp: good_frame_def split: ret.splits option.splits)
  then show ?case
  proof cases
    case 1
    with Cons.IH [OF cs, of "Some c # past"] show ?thesis by (auto split: option.splits)
  next
    case 2
    then show ?thesis by (auto simp: pk_brief_def pk_slot_def pk_good_def)
  qed
qed simp

text \<open>What a read of a slot finds, if the memory is still there.\<close>

fun slot_readable :: "pcap_buffer \<Rightarrow> slot \<Rightarrow> bool" where
  "slot_readable buffer (past, off, len) = list_all (\<lambda>i. buffer past i \<noteq> None) [off ..< off + len]"

fun slot_bytes :: "pcap_buffer \<Rightarrow> slot \<Rightarrow> string" where
  "slot_bytes buffer (past, off, len) = map (\<lambda>i. the (buffer past i)) [off ..< off + len]"

lemma those_total: "list_all (\<lambda>i. f i \<noteq> None) is \<Longrightarrow> those (map f is) = Some (map (\<lambda>i. the (f i)) is)"
  by (induction "is") auto

section \<open>The invariant\<close>

definition pr_files :: "disk \<Rightarrow> string \<Rightarrow> string list \<Rightarrow> captured option list \<Rightarrow> captured list \<Rightarrow> pcap_replay \<Rightarrow> bool" where
  "pr_files captures path paths past cs pr \<longleftrightarrow>
     (\<exists>h hs. pr_pcapStructQueue pr = h # hs \<and> pr_pcapFilePathQueue pr = path # paths \<and> pr_pcap pr = Some h
        \<and> distinct (h # hs) \<and> (\<forall>x\<in>set (h # hs). x < pr_opened pr)
        \<and> map_of (pr_open pr) h = Some (past, cs) \<and> captures path = Some (rev (handed past) @ cs)
        \<and> list_all2 (\<lambda>x q. \<exists>c0. map_of (pr_open pr) x = Some ([], c0) \<and> captures q = Some c0) hs paths)
     \<and> suffix (matching (pr_from pr) (pr_dest pr) past cs) (packets_of captures (pr_from pr) (pr_dest pr) path)"

definition pr_held :: "packet \<Rightarrow> pcap_replay \<Rightarrow> bool" where
  "pr_held p pr \<longleftrightarrow> pr_pcap pr = Some (payload_handle p) \<and> pk_good p"

definition pr_at :: "disk \<Rightarrow> string \<Rightarrow> string list \<Rightarrow> captured option list \<Rightarrow> captured list \<Rightarrow> packet \<Rightarrow> pcap_replay \<Rightarrow> bool" where
  "pr_at captures path paths past cs p pr \<longleftrightarrow> pr_files captures path paths past cs pr \<and> pr_nextPacket pr = Some p \<and> pr_held p pr
     \<and> pk_brief (pr_from pr) (pr_dest pr) past cs p \<in> set (packets_of captures (pr_from pr) (pr_dest pr) path)"

text \<open>All captures of the queue are good for the addresses of the instance.\<close>

definition pr_frames :: "disk \<Rightarrow> pcap_replay \<Rightarrow> bool" where
  "pr_frames captures pr \<longleftrightarrow>
     (\<forall>q\<in>set (pr_pcapFilePathQueue pr). \<forall>cs. captures q = Some cs \<longrightarrow> (\<forall>c\<in>set cs. good_frame (pr_from pr) (pr_dest pr) c))"

text \<open>The bytes of all their packets can be read when they are sent.\<close>

definition pr_readable :: "pcap_buffer \<Rightarrow> disk \<Rightarrow> pcap_replay \<Rightarrow> bool" where
  "pr_readable buffer captures pr \<longleftrightarrow>
     (\<forall>q\<in>set (pr_pcapFilePathQueue pr). \<forall>(t, s)\<in>set (packets_of captures (pr_from pr) (pr_dest pr) q). slot_readable buffer s)"

definition pr_sound :: "pcap_buffer \<Rightarrow> disk \<Rightarrow> pcap_replay \<Rightarrow> bool" where
  "pr_sound buffer captures pr \<longleftrightarrow> pr_frames captures pr \<and> pr_readable buffer captures pr"

definition pr_inv :: "pcap_buffer \<Rightarrow> disk \<Rightarrow> pcap_replay \<Rightarrow> bool" where
  "pr_inv buffer captures pr \<longleftrightarrow> pr_sound buffer captures pr \<and> (\<exists>path paths past cs p. pr_at captures path paths past cs p pr)"

text \<open>The packet can be sent in the present state of its handle.\<close>

definition pr_sendable :: "pcap_buffer \<Rightarrow> packet \<Rightarrow> pcap_replay \<Rightarrow> bool" where
  "pr_sendable buffer p pr \<longleftrightarrow>
     pk_good p \<and> (\<exists>past cs. map_of (pr_open pr) (payload_handle p) = Some (past, cs) \<and> slot_readable buffer (pk_slot past p))"

text \<open>What no operation on files changes.\<close>

definition pr_fixed :: "pcap_replay \<Rightarrow> pcap_replay \<Rightarrow> bool" where
  "pr_fixed pr pr' \<longleftrightarrow> pr_from pr' = pr_from pr \<and> pr_dest pr' = pr_dest pr \<and> pr_client_sd pr' = pr_client_sd pr
     \<and> pr_server_sd pr' = pr_server_sd pr \<and> pr_timeout pr' = pr_timeout pr \<and> pr_isDone pr' = pr_isDone pr"

lemma pr_files_sound:
  "pr_files captures path paths past cs pr \<Longrightarrow> pr_frames captures pr \<Longrightarrow> \<forall>c\<in>set cs. good_frame (pr_from pr) (pr_dest pr) c"
  by (auto simp: pr_files_def pr_frames_def)

lemma list_all2_open_update:
  "h \<notin> set hs \<Longrightarrow> list_all2 (\<lambda>x q. \<exists>c0. map_of (pr_open pr) x = Some ([], c0) \<and> captures q = Some c0) hs paths
    \<Longrightarrow> list_all2 (\<lambda>x q. \<exists>c0. map_of (AList.update h v (pr_open pr)) x = Some ([], c0) \<and> captures q = Some c0) hs paths"
  by (erule list.rel_mono_strong) auto

lemma next_runs:
  assumes "pr_files captures path paths past cs pr" "pr_sound buffer captures pr"
    and "past' = until_next (pr_from pr) (pr_dest pr) past cs"
  shows "runs get_next_packet (pr, w) (\<lambda>found (pr', w'). w' = w \<and> pr_fixed pr pr' \<and> pr_trace pr' = pr_trace pr
     \<and> pr_sound buffer captures pr' \<and> (\<forall>p. pr_held p pr \<longrightarrow> pr_held p pr')
     \<and> (if found then \<exists>p cs'. pr_at captures path paths past' cs' p pr'
                \<and> matching (pr_from pr) (pr_dest pr) past cs
                    = pk_brief (pr_from pr) (pr_dest pr) past' cs' p # matching (pr_from pr) (pr_dest pr) past' cs'
        else matching (pr_from pr) (pr_dest pr) past cs = [] \<and> pr_files captures path paths past' [] pr'))"
proof -
  let ?from = "pr_from pr" and ?dest = "pr_dest pr"
  obtain h hs where q: "pr_pcapStructQueue pr = h # hs" "pr_pcapFilePathQueue pr = path # paths" "pr_pcap pr = Some h"
      "distinct (h # hs)" "\<forall>x\<in>set (h # hs). x < pr_opened pr"
      "map_of (pr_open pr) h = Some (past, cs)" "captures path = Some (rev (handed past) @ cs)"
      "list_all2 (\<lambda>x q. \<exists>c0. map_of (pr_open pr) x = Some ([], c0) \<and> captures q = Some c0) hs paths"
      "suffix (matching ?from ?dest past cs) (packets_of captures ?from ?dest path)"
    using assms(1) by (auto simp: pr_files_def)
  have frames: "pr_frames captures pr" using assms(2) by (simp add: pr_sound_def)
  obtain m cs' where m: "next_match ?from ?dest h past cs = Ret (m, past', cs')" "rev (handed past') @ cs' = rev (handed past) @ cs"
      "case m of None \<Rightarrow> matching ?from ?dest past cs = [] \<and> cs' = []
       | Some p \<Rightarrow> matching ?from ?dest past cs = pk_brief ?from ?dest past' cs' p # matching ?from ?dest past' cs'
           \<and> payload_handle p = h \<and> pk_good p"
    using next_match_spec [OF pr_files_sound [OF assms(1) frames], of h past] assms(3) by blast
  have suf: "suffix (matching ?from ?dest past' cs') (packets_of captures ?from ?dest path)"
    using m(3) q(9) by (auto split: option.splits dest: suffix_ConsD)
  define pr1 where "pr1 = pr\<lparr>pr_open := AList.update h (past', cs') (pr_open pr)\<rparr>"
  have ad: "pr_from (pr1\<lparr>pr_nextPacket := n\<rparr>) = ?from" "pr_dest (pr1\<lparr>pr_nextPacket := n\<rparr>) = ?dest" "pr_from pr1 = ?from" "pr_dest pr1 = ?dest" for n
    by (simp_all add: pr1_def pr_from_def pr_dest_def)
  have f: "pr_files captures path paths past' cs' pr1"
    using q m(2) suf list_all2_open_update [of h hs pr captures paths] unfolding pr_files_def ad by (auto simp: pr1_def)
  then have f2: "pr_files captures path paths past' cs' (pr1\<lparr>pr_nextPacket := n\<rparr>)" for n
    unfolding pr_files_def ad by simp
  have s: "pr_sound buffer captures (pr1\<lparr>pr_nextPacket := n\<rparr>)" "pr_sound buffer captures pr1" for n
    using assms(2) unfolding pr_sound_def pr_frames_def pr_readable_def ad by (simp_all add: pr1_def)
  have fx: "pr_fixed pr (pr1\<lparr>pr_nextPacket := n\<rparr>)" "pr_fixed pr pr1" "pr_trace pr1 = pr_trace pr" "pr_pcap pr1 = pr_pcap pr" for n
    unfolding pr_fixed_def ad by (simp_all add: pr1_def)
  have at: "pr_at captures path paths past' cs' p (pr1\<lparr>pr_nextPacket := Some p\<rparr>)" if "m = Some p" for p
    unfolding pr_at_def ad pr_held_def using m(3) q(3,9) f2 [of "Some p"] fx(4) that by (auto dest!: set_mono_suffix)
  have nx: "get_next_packet (pr, w) = (case m of None \<Rightarrow> (Ret False, pr1, w) | Some p \<Rightarrow> (Ret True, pr1\<lparr>pr_nextPacket := Some p\<rparr>, w))"
    using q(3,6) m(1) by (simp add: get_next_packet_def Let_def pr1_def split: option.split)
  have held: "pr_held p pr1" "pr_held p (pr1\<lparr>pr_nextPacket := n\<rparr>)" if "pr_held p pr" for p n
    using that fx(4) by (simp_all add: pr_held_def)
  show ?thesis
  proof (cases m)
    case None
    with nx m(3) f s(2) fx(2,3) held(1) show ?thesis by (simp add: runs_def)
  next
    case (Some p)
    with nx m(3) at [OF Some] s(1) fx(1,3) held(2) show ?thesis by (auto simp: runs_def)
  qed
qed

section \<open>Sending, changing the file, restarting\<close>

text \<open>What sending leaves alone.\<close>

lemma sys_send_rest: "sys_send sd bs w = (r, w') \<Longrightarrow> w_recv w' = w_recv w \<and> w_clock w' = w_clock w"
  by (auto simp: sys_send_def Let_def split: list.splits send_answer.splits if_splits)

lemma send_runs:
  assumes "pk_good p" "map_of (pr_open pr) (payload_handle p) = Some (past, cs)" "slot_readable buffer (pk_slot past p)"
  shows "runs (send_packet buffer p sd) (pr, w) (\<lambda>_ (pr', w').
     pr' = pr\<lparr>pr_trace := pr_trace pr @ [CallSend sd (slot_bytes buffer (pk_slot past p))]\<rparr> \<and> w_recv w' = w_recv w \<and> w_clock w' = w_clock w)"
proof -
  let ?m = "slot_bytes buffer (pk_slot past p)"
  have "those (map (buffer past) [payload_offset p ..< payload_offset p + nat (payload_size p)]) = Some ?m"
    using assms(3) those_total [of "buffer past"] by (simp add: pk_slot_def)
  moreover obtain r w1 where "sys_send sd ?m w = (r, w1)" by fastforce
  ultimately show ?thesis
    using assms(1,2) sys_send_rest by (auto simp: runs_def send_packet_def pk_good_def)
qed

text \<open>The packet to send can be sent once the next one has been looked for.\<close>

lemma next_sendable:
  assumes "pr_at captures path paths past cs p pr" "pr_sound buffer captures pr"
    and "pr_files captures path paths (until_next (pr_from pr) (pr_dest pr) past cs) cs' pr'" "pr_held p pr'"
  shows "pr_sendable buffer p pr'"
proof -
  have "path \<in> set (pr_pcapFilePathQueue pr)" using assms(1) by (auto simp: pr_at_def pr_files_def)
  then have "slot_readable buffer (pk_slot (until_next (pr_from pr) (pr_dest pr) past cs) p)"
    using assms(1,2) by (fastforce simp: pr_at_def pr_sound_def pr_readable_def pk_brief_def)
  with assms(3,4) show ?thesis by (auto simp: pr_sendable_def pr_files_def pr_held_def)
qed

lemma list_all2_open_delete:
  "h \<notin> set hs \<Longrightarrow> list_all2 (\<lambda>x q. \<exists>c0. map_of (pr_open pr) x = Some ([], c0) \<and> captures q = Some c0) hs paths
    \<Longrightarrow> g \<notin> set hs
    \<Longrightarrow> list_all2 (\<lambda>x q. \<exists>c0. map_of (AList.update g v (AList.delete h (pr_open pr))) x = Some ([], c0) \<and> captures q = Some c0) hs paths"
  by (erule list.rel_mono_strong) auto

text \<open>The same file can be opened again, so the change of file succeeds; the queue of paths is rotated.\<close>

lemma change_runs:
  assumes "pr_files captures path paths past cs pr" "pr_sound buffer captures pr"
  shows "runs (change_pcap_file_to_send captures) (pr, w) (\<lambda>ok (pr', w'). ok \<and> w' = w \<and> pr_fixed pr pr' \<and> pr_trace pr' = pr_trace pr
     \<and> pr_sound buffer captures pr'
     \<and> (\<exists>path' paths' cs'. rotate1 (path # paths) = path' # paths' \<and> captures path' = Some cs' \<and> pr_files captures path' paths' [] cs' pr'))"
proof -
  obtain h hs where q: "pr_pcapStructQueue pr = h # hs" "pr_pcapFilePathQueue pr = path # paths" "pr_pcap pr = Some h"
      "distinct (h # hs)" "\<forall>x\<in>set (h # hs). x < pr_opened pr"
      "map_of (pr_open pr) h = Some (past, cs)" "captures path = Some (rev (handed past) @ cs)"
      "list_all2 (\<lambda>x q. \<exists>c0. map_of (pr_open pr) x = Some ([], c0) \<and> captures q = Some c0) hs paths"
    using assms(1) by (auto simp: pr_files_def)
  define g where "g = pr_opened pr"
  define al where "al = AList.update g ([], rev (handed past) @ cs) (AList.delete h (pr_open pr))"
  define pr' where "pr' = pr\<lparr>pr_pcapStructQueue := hs @ [g], pr_open := al, pr_opened := g + 1,
      pr_pcapFilePathQueue := paths @ [path], pr_pcap := Some (hd (hs @ [g]))\<rparr>"
  have g: "g \<notin> set hs" "\<forall>x\<in>set hs. x < g + 1" using q(5) by (auto simp: g_def)
  have all: "list_all2 (\<lambda>x q. \<exists>c0. map_of al x = Some ([], c0) \<and> captures q = Some c0) (hs @ [g]) (paths @ [path])"
    using list_all2_open_delete [OF _ q(8) g(1), of h] q(4,7) by (auto simp: al_def intro!: list_all2_appendI)
  obtain g1 gs path' paths' where hd: "hs @ [g] = g1 # gs" "paths @ [path] = path' # paths'" by (cases hs; cases paths) auto
  then obtain c1 where "map_of al g1 = Some ([], c1)" "captures path' = Some c1"
      "list_all2 (\<lambda>x q. \<exists>c0. map_of al x = Some ([], c0) \<and> captures q = Some c0) gs paths'"
    using all by auto
  moreover have "distinct (hs @ [g])" "\<forall>x\<in>set (hs @ [g]). x < g + 1" using q(4) g by auto
  then have "distinct (g1 # gs)" "\<forall>x\<in>set (g1 # gs). x < g + 1" unfolding hd(1) by simp_all
  ultimately have "captures path' = Some c1 \<and> pr_files captures path' paths' [] c1 pr'"
    using hd by (auto simp: pr_files_def pr'_def packets_of_def)
  moreover have "change_pcap_file_to_send captures (pr, w) = (Ret True, pr', w)"
    using q by (simp add: change_pcap_file_to_send_def pr_open_file_def Let_def pr'_def al_def g_def)
  moreover have "pr_fixed pr pr'" "pr_trace pr' = pr_trace pr" by (simp_all add: pr'_def pr_fixed_def pr_from_def pr_dest_def)
  moreover have "pr_sound buffer captures pr'"
    using assms(2) q(2) by (auto simp: pr_sound_def pr_frames_def pr_readable_def pr'_def pr_from_def pr_dest_def)
  ultimately show ?thesis using hd(2) by (auto simp: runs_def)
qed


text \<open>The state after a change of file in which the packet to send has been found.\<close>

definition pr_next_file :: "disk \<Rightarrow> string list \<Rightarrow> pcap_replay \<Rightarrow> pcap_replay \<Rightarrow> bool" where
  "pr_next_file captures queue pr pr' \<longleftrightarrow>
     (\<exists>path' paths' past' cs' p. rotate1 queue = path' # paths' \<and> pr_at captures path' paths' past' cs' p pr'
        \<and> packets_of captures (pr_from pr) (pr_dest pr) path'
            = pk_brief (pr_from pr) (pr_dest pr) past' cs' p # matching (pr_from pr) (pr_dest pr) past' cs')"

text \<open>The next file has no packet that matches.\<close>

definition pr_barren :: "disk \<Rightarrow> string list \<Rightarrow> pcap_replay \<Rightarrow> bool" where
  "pr_barren captures queue pr \<longleftrightarrow> packets_of captures (pr_from pr) (pr_dest pr) (hd (rotate1 queue)) = []"

lemma pr_fixed_trans: "pr_fixed a b \<Longrightarrow> pr_fixed b c \<Longrightarrow> pr_fixed a c"
  by (simp add: pr_fixed_def)

lemma reopen_runs:
  assumes "pr_files captures path paths past cs pr" "pr_sound buffer captures pr"
    and found: "\<And>pr'. pr_fixed pr pr' \<Longrightarrow> pr_sound buffer captures pr' \<Longrightarrow> pr_trace pr' = pr_trace pr
        \<Longrightarrow> pr_next_file captures (path # paths) pr pr' \<Longrightarrow> runs fin (pr', w) Q"
    and lost: "\<And>pr'. pr_fixed pr pr' \<Longrightarrow> pr_trace pr' = pr_trace pr \<Longrightarrow> pr_barren captures (path # paths) pr \<Longrightarrow> Q False (pr', w)"
  shows "runs (act_bind (change_pcap_file_to_send captures)
     (\<lambda>ok. if \<not> ok then act_return False else act_bind get_next_packet (\<lambda>found. if \<not> found then act_return False else fin))) (pr, w) Q"
proof -
  obtain pr1 path1 paths1 cs1 where 1: "change_pcap_file_to_send captures (pr, w) = (Ret True, pr1, w)"
    "pr_fixed pr pr1" "pr_trace pr1 = pr_trace pr" "pr_sound buffer captures pr1" "rotate1 (path # paths) = path1 # paths1"
    "captures path1 = Some cs1" "pr_files captures path1 paths1 [] cs1 pr1"
    using runsD [OF change_runs [OF assms(1,2), of w]] by auto
  have ad: "pr_from pr1 = pr_from pr" "pr_dest pr1 = pr_dest pr" using 1(2) by (simp_all add: pr_fixed_def)
  have pk: "packets_of captures (pr_from pr) (pr_dest pr) path1 = matching (pr_from pr) (pr_dest pr) [] cs1"
    using 1(6) by (simp add: packets_of_def)
  define past2 where "past2 = until_next (pr_from pr) (pr_dest pr) [] cs1"
  obtain ok pr2 where 2: "get_next_packet (pr1, w) = (Ret ok, pr2, w)" "pr_fixed pr1 pr2" "pr_sound buffer captures pr2" "pr_trace pr2 = pr_trace pr1"
    "if ok then \<exists>p cs'. pr_at captures path1 paths1 past2 cs' p pr2
        \<and> matching (pr_from pr) (pr_dest pr) [] cs1 = pk_brief (pr_from pr) (pr_dest pr) past2 cs' p # matching (pr_from pr) (pr_dest pr) past2 cs'
     else matching (pr_from pr) (pr_dest pr) [] cs1 = []"
    using runsD [OF next_runs [OF 1(7,4), of past2 w]] unfolding ad past2_def [symmetric] by (auto split: if_splits) blast
  have fx: "pr_fixed pr pr2" "pr_trace pr2 = pr_trace pr" using 1 2 by (auto intro: pr_fixed_trans)
  show ?thesis
  proof (cases ok)
    case True
    with 1 2 pk have "pr_next_file captures (path # paths) pr pr2" unfolding pr_next_file_def by auto
    with found [OF fx(1) 2(3) fx(2)] 1 2 True show ?thesis by (simp add: runs_def act_bind_def)
  next
    case False
    with 1(5) 2 pk have "pr_barren captures (path # paths) pr" unfolding pr_barren_def by auto
    with lost [OF fx] 1 2 False show ?thesis by (simp add: runs_def act_bind_def act_return_def)
  qed
qed

definition pr_restarts :: "pcap_buffer \<Rightarrow> (bool, pr_ctx) act \<Rightarrow> disk \<Rightarrow> timespec \<Rightarrow> bool" where
  "pr_restarts buffer restart captures t \<longleftrightarrow>
     (\<forall>pr w path paths past cs. pr_files captures path paths past cs pr \<longrightarrow> pr_sound buffer captures pr \<longrightarrow>
        runs restart (pr, w) (\<lambda>ok (pr', w'). w' = w \<and> pr_fixed pr pr'
          \<and> (if ok then pr_sound buffer captures pr' \<and> pr_next_file captures (path # paths) pr pr' \<and> pr_trace pr' = pr_trace pr @ [CallSleep t]
             else pr_barren captures (path # paths) pr \<and> pr_trace pr' = pr_trace pr)))"

lemma pr_addresses_flags [simp]:
  "pr_from (pr\<lparr>pr_trace := t\<rparr>) = pr_from pr" "pr_dest (pr\<lparr>pr_trace := t\<rparr>) = pr_dest pr"
  "pr_from (pr\<lparr>pr_isAllowedToSend := a\<rparr>) = pr_from pr" "pr_dest (pr\<lparr>pr_isAllowedToSend := a\<rparr>) = pr_dest pr"
  "pr_from (pr\<lparr>pr_isFirstPacketReceived := f\<rparr>) = pr_from pr" "pr_dest (pr\<lparr>pr_isFirstPacketReceived := f\<rparr>) = pr_dest pr"
  "pr_from (pr\<lparr>pr_nextPacket := n\<rparr>) = pr_from pr" "pr_dest (pr\<lparr>pr_nextPacket := n\<rparr>) = pr_dest pr"
  by (simp_all add: pr_from_def pr_dest_def)

lemma pr_flags [simp]:
  "pr_files captures path paths past cs (pr\<lparr>pr_trace := t\<rparr>) = pr_files captures path paths past cs pr"
  "pr_files captures path paths past cs (pr\<lparr>pr_isAllowedToSend := a\<rparr>) = pr_files captures path paths past cs pr"
  "pr_files captures path paths past cs (pr\<lparr>pr_isFirstPacketReceived := f\<rparr>) = pr_files captures path paths past cs pr"
  "pr_files captures path paths past cs (pr\<lparr>pr_nextPacket := n\<rparr>) = pr_files captures path paths past cs pr"
  "pr_held p (pr\<lparr>pr_trace := t\<rparr>) = pr_held p pr"
  "pr_held p (pr\<lparr>pr_isAllowedToSend := a\<rparr>) = pr_held p pr"
  "pr_held p (pr\<lparr>pr_isFirstPacketReceived := f\<rparr>) = pr_held p pr"
  "pr_held p (pr\<lparr>pr_nextPacket := n\<rparr>) = pr_held p pr"
  "pr_sound buffer captures (pr\<lparr>pr_trace := t\<rparr>) = pr_sound buffer captures pr"
  "pr_sound buffer captures (pr\<lparr>pr_isAllowedToSend := a\<rparr>) = pr_sound buffer captures pr"
  "pr_sound buffer captures (pr\<lparr>pr_isFirstPacketReceived := f\<rparr>) = pr_sound buffer captures pr"
  "pr_sound buffer captures (pr\<lparr>pr_nextPacket := n\<rparr>) = pr_sound buffer captures pr"
  "pr_fixed pr (pr'\<lparr>pr_trace := t\<rparr>) = pr_fixed pr pr'"
  "pr_fixed pr (pr'\<lparr>pr_isAllowedToSend := a\<rparr>) = pr_fixed pr pr'"
  "pr_fixed pr (pr'\<lparr>pr_isFirstPacketReceived := f\<rparr>) = pr_fixed pr pr'"
  "pr_fixed pr (pr'\<lparr>pr_nextPacket := n\<rparr>) = pr_fixed pr pr'"
  by (simp_all add: pr_files_def pr_held_def pr_sound_def pr_frames_def pr_readable_def pr_fixed_def pr_from_def pr_dest_def)

lemma pr_next_file_flags [simp]:
  "pr_next_file captures q pr (pr'\<lparr>pr_trace := t\<rparr>) = pr_next_file captures q pr pr'"
  "pr_next_file captures q pr (pr'\<lparr>pr_isAllowedToSend := a\<rparr>) = pr_next_file captures q pr pr'"
  "pr_next_file captures q pr (pr'\<lparr>pr_isFirstPacketReceived := f\<rparr>) = pr_next_file captures q pr pr'"
  by (simp_all add: pr_next_file_def pr_at_def)

lemma restart_client_runs: "pr_restarts buffer (restart_client captures) captures \<lparr>tv_sec = 60, tv_nsec = 0\<rparr>"
  unfolding pr_restarts_def restart_client_def
  by (intro allI impI, erule (1) reopen_runs) (simp_all add: pr_nanosleep_def pr_do_def)

lemma restart_server_runs: "pr_restarts buffer (restart_server captures) captures \<lparr>tv_sec = 50, tv_nsec = 0\<rparr>"
  unfolding pr_restarts_def restart_server_def
  by (intro allI impI, erule (1) reopen_runs) (simp_all add: pr_nanosleep_def pr_do_def)


section \<open>An activation keeps the invariant, or is the last\<close>

definition pr_safe :: "pcap_buffer \<Rightarrow> disk \<Rightarrow> pr_ctx \<Rightarrow> bool" where
  "pr_safe buffer captures s \<longleftrightarrow> pr_isDone (fst s) \<or> pr_inv buffer captures (fst s)"

lemma pr_safe_flags [simp]:
  "pr_safe buffer captures (pr\<lparr>pr_trace := t\<rparr>, w) = pr_safe buffer captures (pr, w)"
  "pr_safe buffer captures (pr\<lparr>pr_isFirstPacketReceived := f\<rparr>, w) = pr_safe buffer captures (pr, w)"
  "pr_safe buffer captures (pr\<lparr>pr_isAllowedToSend := f\<rparr>, w) = pr_safe buffer captures (pr, w)"
  by (simp_all add: pr_safe_def pr_inv_def pr_at_def)

lemma pr_safe_world: "pr_safe buffer captures (pr, w) \<Longrightarrow> pr_safe buffer captures (pr, w')"
  by (simp add: pr_safe_def)

lemma quit_safe [simp]: "runs (deinstanciate sd) s (\<lambda>_. pr_safe buffer captures)"
  by (cases s) (simp add: deinstanciate_def pr_kernel_def pr_do_def pr_safe_def)

lemma restart_or_quit_safe:
  assumes "pr_restarts buffer restart captures t" "pr_files captures path paths past cs pr" "pr_sound buffer captures pr"
  shows "runs (pr_restart_or_quit restart sd) (pr, w) (\<lambda>_. pr_safe buffer captures)"
proof -
  obtain ok pr' where r: "restart (pr, w) = (Ret ok, pr', w)" "ok \<Longrightarrow> pr_sound buffer captures pr' \<and> pr_next_file captures (path # paths) pr pr'"
    using runsD [OF assms(1) [unfolded pr_restarts_def, rule_format, OF assms(2,3), of w]] by auto
  have "pr_safe buffer captures (pr', w)" if ok using r(2) [OF that] by (auto simp: pr_safe_def pr_inv_def pr_next_file_def)
  with r(1) quit_safe [of sd "(pr', w)" buffer captures] show ?thesis
    by (cases ok) (simp_all add: pr_restart_or_quit_def runs_def act_bind_def act_return_def)
qed

lemma clock_pair: "\<exists>t w1. clock_gettime w = (t, w1)" by (meson surj_pair)

lemma sleep_or_quit_safe:
  assumes "pr_safe buffer captures (pr, w)"
  shows "runs (pr_sleep_or_quit d sd) (pr, w) (\<lambda>_. pr_safe buffer captures)"
proof -
  obtain t w1 where t: "clock_gettime w = (t, w1)" using clock_pair by blast
  let ?pr = "pr\<lparr>pr_trace := pr_trace pr @ [CallSleep d]\<rparr>"
  have "runs (deinstanciate sd) (?pr, w1) (\<lambda>_. pr_safe buffer captures)" by simp
  with assms t show ?thesis
    by (auto simp: pr_sleep_or_quit_def pr_nanosleep_def pr_do_def act_then_def act_bind_def act_update_def runs_def
        dest: pr_safe_world)
qed

text \<open>What an activation does between fetching the next packet and the sleep.\<close>

definition io_safe :: "pcap_buffer \<Rightarrow> disk \<Rightarrow> fd \<Rightarrow> (packet \<Rightarrow> (bool, pr_ctx) act) \<Rightarrow> bool" where
  "io_safe buffer captures listend io \<longleftrightarrow>
     (\<forall>cp pr w. pr_sendable buffer cp pr \<longrightarrow> pr_inv buffer captures pr \<longrightarrow> pr_server_sd pr = listend \<longrightarrow> runs (io cp) (pr, w) (\<lambda>_. pr_safe buffer captures))"

lemma activate_safe:
  assumes "pr_restarts buffer restart captures t" "io_safe buffer captures (pr_server_sd pr) io" "pr_inv buffer captures pr"
  shows "runs (pr_activate buffer restart io sd) (pr, w) (\<lambda>_. pr_safe buffer captures)"
proof -
  obtain path paths past cs p where at: "pr_at captures path paths past cs p pr" "pr_sound buffer captures pr"
    using assms(3) by (auto simp: pr_inv_def)
  then have at': "pr_files captures path paths past cs pr" "pr_nextPacket pr = Some p" "pr_held p pr" by (simp_all add: pr_at_def)
  define past' where "past' = until_next (pr_from pr) (pr_dest pr) past cs"
  obtain found pr1 where n: "get_next_packet (pr, w) = (Ret found, pr1, w)" "pr_sound buffer captures pr1" "pr_held p pr1"
      "pr_server_sd pr1 = pr_server_sd pr"
      "found \<Longrightarrow> \<exists>p' cs'. pr_at captures path paths past' cs' p' pr1" "\<not> found \<Longrightarrow> pr_files captures path paths past' [] pr1"
    using runsD [OF next_runs [OF at'(1) at(2) past'_def, of w]] at'(3) by (auto simp: pr_fixed_def split: if_splits)
  have "\<exists>cs'. pr_files captures path paths past' cs' pr1" using n(5,6) by (cases found) (auto simp: pr_at_def)
  then have send: "pr_sendable buffer p pr1" using next_sendable [OF at _ n(3)] unfolding past'_def by blast
  show ?thesis
  proof (cases found)
    case True
    then obtain p' cs' where p': "pr_at captures path paths past' cs' p' pr1" using n(5) by blast
    then have "pr_inv buffer captures pr1" unfolding pr_inv_def using n(2) by blast
    then have "runs (io p) (pr1, w) (\<lambda>_. pr_safe buffer captures)" using assms(2) send n(4) by (simp add: io_safe_def)
    then have "runs (act_bind (io p) (\<lambda>go_on. if go_on then pr_sleep_or_quit d sd else act_return ())) (pr1, w) (\<lambda>_. pr_safe buffer captures)" for d
      unfolding runs_basic
      by (rule runs_mono) (auto intro: sleep_or_quit_safe [unfolded case_prod_unfold] simp: split_paired_all)
    with at'(2) n(1) p' True show ?thesis
      by (auto simp: pr_activate_def runs_def act_bind_def pr_wait_def pr_at_def)
  next
    case False
    obtain r pr2 w2 where s: "send_packet buffer p sd (pr1, w) = (Ret r, pr2, w2)"
      "pr_files captures path paths past' [] pr2" "pr_sound buffer captures pr2"
      using send n(2) n(6) [OF False] runsD [OF send_runs [of p pr1 _ _ buffer sd w]] by (fastforce simp: pr_sendable_def)
    then have "runs (pr_restart_or_quit restart sd) (pr2\<lparr>pr_nextPacket := None\<rparr>, w2) (\<lambda>_. pr_safe buffer captures)"
      by (intro restart_or_quit_safe [OF assms(1)]) auto
    with at'(2) n(1) s(1) False show ?thesis
      by (simp add: pr_activate_def runs_def act_bind_def pr_last_packet_def act_then_def pr_do_def act_update_def)
  qed
qed

section \<open>Both handlers\<close>

lemma send_inv:
  assumes "pr_sendable buffer cp pr" "pr_inv buffer captures pr"
  shows "runs (send_packet buffer cp sd) (pr, w) (\<lambda>_ s. pr_inv buffer captures (fst s))"
proof -
  obtain past cs where "pk_good cp" "map_of (pr_open pr) (payload_handle cp) = Some (past, cs)" "slot_readable buffer (pk_slot past cp)"
    using assms(1) by (auto simp: pr_sendable_def)
  then show ?thesis using assms(2) by (rule_tac runs_mono [OF send_runs]) (auto simp: pr_inv_def pr_at_def, blast)
qed

lemma restart_inv:
  "pr_restarts buffer restart captures t \<Longrightarrow> pr_inv buffer captures (fst s) \<Longrightarrow> runs (pr_restart_or_quit restart sd) s (\<lambda>_. pr_safe buffer captures)"
  by (cases s) (auto simp: pr_inv_def pr_at_def intro: restart_or_quit_safe)

lemma receive_inv: "pr_inv buffer captures (fst s) \<Longrightarrow> runs (pr_receive get) s (\<lambda>_ s. pr_inv buffer captures (fst s))"
  by (cases s) (simp add: runs_def pr_receive_def split: prod.split)

lemma inv_safe: "pr_inv buffer captures (fst s) \<Longrightarrow> pr_safe buffer captures s"
  by (simp add: pr_safe_def)

lemma epoll_inv: "pr_inv buffer captures (fst s) \<Longrightarrow> runs (pr_epoll op sd evs) s (\<lambda>_ s. pr_inv buffer captures (fst s))"
  by (cases s) (simp add: pr_epoll_def pr_kernel_def)

lemma first_received_inv: "pr_inv buffer captures (fst s) \<Longrightarrow> runs pr_first_received s (\<lambda>_ s. pr_inv buffer captures (fst s))"
  by (cases s) (simp add: pr_first_received_def pr_do_def pr_inv_def pr_at_def)

lemma take_safe:
  assumes "pr_restarts buffer restart captures t" "\<And>s. pr_inv buffer captures (fst s) \<Longrightarrow> runs seen s (\<lambda>_ s. pr_inv buffer captures (fst s))"
    "pr_inv buffer captures (fst s)"
  shows "runs (pr_take get restart seen sd) s (\<lambda>_. pr_safe buffer captures)"
  unfolding pr_take_def runs_basic
  using assms by (auto intro!: runs_mono [OF receive_inv] runs_mono [OF restart_inv] runs_mono [OF assms(2)] inv_safe)

lemma client_io_safe: "io_safe buffer captures listend (pr_client_io buffer captures get sd evs)"
  unfolding io_safe_def
  by (auto simp: pr_client_io_def intro!: runs_mono [OF send_inv] runs_mono [OF epoll_inv] inv_safe
      take_safe [OF restart_client_runs])

lemma accept_inv: "pr_inv buffer captures (fst s) \<Longrightarrow> runs pr_accept s (\<lambda>_ s. pr_inv buffer captures (fst s))"
  by (cases s) (simp add: runs_def pr_accept_def Let_def split: prod.split)

lemma server_io_safe:
  assumes "sd = listend \<longrightarrow> EPOLLIN \<in> set evs"
  shows "io_safe buffer captures listend (pr_server_io buffer captures get sd evs)"
  unfolding io_safe_def
proof (intro allI impI)
  fix cp pr w assume cp: "pr_sendable buffer cp pr" "pr_inv buffer captures pr" "pr_server_sd pr = listend"
  let ?rest = "\<lambda>r. act_then pr_first_received
      (if r = Inr [] then act_then (pr_restart_or_quit (restart_server captures) sd) (act_return False) else act_return True)"
  have 1: "runs (act_bind (pr_receive get) ?rest) s (\<lambda>_. pr_safe buffer captures)" if "pr_inv buffer captures (fst s)" for s
    unfolding runs_basic
    using that by (auto intro!: runs_mono [OF receive_inv] runs_mono [OF first_received_inv]
        runs_mono [OF restart_inv [OF restart_server_runs]] inv_safe)
  have "runs (pr_take get (restart_server captures) (act_then pr_first_received (pr_epoll CtlMod sd [EPOLLIN, EPOLLOUT])) sd) (pr, w)
      (\<lambda>_. pr_safe buffer captures)"
    using cp by (intro take_safe [OF restart_server_runs]) (auto intro!: runs_mono [OF first_received_inv] epoll_inv)
  moreover have "runs pr_accept (pr, w) (\<lambda>_. pr_safe buffer captures)"
    using cp by (auto intro!: runs_mono [OF accept_inv] inv_safe)
  moreover have "runs (act_bind (send_packet buffer cp sd) (\<lambda>_. act_bind (pr_receive get) ?rest)) (pr, w) (\<lambda>_. pr_safe buffer captures)"
    by (simp only: runs_basic(4) [of "send_packet buffer cp sd"]) (rule runs_mono [OF send_inv [OF cp(1,2)]], rule 1)
  moreover have "runs (act_bind (send_packet buffer cp sd) (\<lambda>_. act_return True)) (pr, w) (\<lambda>_. pr_safe buffer captures)"
    using cp by (auto intro!: runs_mono [OF send_inv] inv_safe)
  moreover have "pr_safe buffer captures (pr, w)" using cp by (simp add: inv_safe)
  ultimately show "runs (pr_server_io buffer captures get sd evs cp) (pr, w) (\<lambda>_. pr_safe buffer captures)"
    using assms cp(3) by (auto simp: pr_server_io_def runs_def)
qed

lemma client_safe:
  "pr_inv buffer captures pr \<Longrightarrow> pr_client_sd pr = sd \<Longrightarrow> runs (pcap_activateClient buffer captures get sd evs) (pr, w) (\<lambda>_. pr_safe buffer captures)"
  using activate_safe [OF restart_client_runs client_io_safe, of buffer captures pr]
  by (simp add: pcap_activateClient_def runs_def)

text \<open>\<open>recv\<close> fails after finitely many messages; so it does on a connection that stays open.\<close>

definition recv_ends :: "pr_recv \<Rightarrow> bool" where
  "recv_ends get \<longleftrightarrow> (\<forall>w. drive (pr_drain_step get) w \<noteq> None)"

lemma recv_shrinks: "sys_recv MTU w = (Inr bs, w') \<Longrightarrow> sum_list (map recv_size (w_recv w')) < sum_list (map recv_size (w_recv w))"
  by (auto simp: sys_recv_def MTU_def split: list.splits recv_answer.splits if_splits)

interpretation drain: handler_loop "pr_drain_step sys_recv" "\<lambda>_. True" "\<lambda>w. sum_list (map recv_size (w_recv w))" "\<lambda>_ _. True"
  by unfold_locales (auto simp: pr_drain_step_def recv_shrinks split: prod.splits sum.splits)

lemma sys_recv_ends: "recv_ends sys_recv"
  using drain.returns by (simp add: recv_ends_def)

lemma server_safe:
  assumes "pr_inv buffer captures pr" "sd = pr_server_sd pr \<longrightarrow> EPOLLIN \<in> set evs" "recv_ends get"
  shows "\<exists>s. pcap_activateServer buffer captures get sd evs (pr, w) = Some (Ret (), s) \<and> pr_safe buffer captures s"
proof -
  obtain r w1 where d: "drive (pr_drain_step get) w = Some (r, w1)" using assms(3) by (auto simp: recv_ends_def)
  have "io_safe buffer captures (pr_server_sd pr) (pr_server_io buffer captures get sd evs)" by (rule server_io_safe [OF assms(2)])
  from activate_safe [OF restart_server_runs this assms(1), of sd w]
  have "\<exists>s. pr_activate buffer (restart_server captures) (pr_server_io buffer captures get sd evs) sd (pr, w) = (Ret (), s) \<and> pr_safe buffer captures s"
    by (auto dest!: runsD)
  with assms(1) d inv_safe [of buffer captures "(pr, w)"] show ?thesis
    by (auto simp: pcap_activateServer_def pr_nanosleep_def pr_do_def act_update_def dest: pr_safe_world)
qed

end
