(* ===== verification/Pcap_Replay_Schedule.thy ===== *)
theory Pcap_Replay_Schedule
  imports Pcap_Replay_Correct
begin

text \<open>
  What a client replays.  \<open>schedule\<close> is the abstract behaviour: for each packet that matches, the bytes that libpcap's
  buffer holds in its slot are sent, each message followed by the time to the next packet, and the last by a minute.
  The client follows it file by file, round and round.
\<close>

section \<open>The specification\<close>

definition time_to :: "timeval \<Rightarrow> timeval \<Rightarrow> timespec" where
  "time_to y x = fst (timeval_subtract y x)"

definition a_minute :: timespec where "a_minute = \<lparr>tv_sec = 60, tv_nsec = 0\<rparr>"

fun schedule :: "pcap_buffer \<Rightarrow> fd \<Rightarrow> (timeval \<times> slot) list \<Rightarrow> replay_call list" where
  "schedule buffer sd [] = []"
| "schedule buffer sd [(t, s)] = [CallSend sd (slot_bytes buffer s), CallSleep a_minute]"
| "schedule buffer sd ((t, s) # (t', s') # ms) =
     CallSend sd (slot_bytes buffer s) # CallSleep (time_to t t') # schedule buffer sd ((t', s') # ms)"

section \<open>A client at work\<close>

text \<open>The peer has not closed the connection, and the time limit is not reached.\<close>

definition pr_calm :: "u64 \<Rightarrow> world \<Rightarrow> bool" where
  "pr_calm limit w \<longleftrightarrow> RData [] \<notin> set (w_recv w) \<and> 0 < limit \<and> (\<forall>t\<in>set (w_clock w). word_of_int (tv_sec t) < limit)"

text \<open>
  \<open>p\<close> is to be sent next; \<open>past\<close> is what libpcap has answered for the file at the head of the queue, and \<open>cs\<close> what is
  left of it.
\<close>

definition pr_sending ::
    "pcap_buffer \<Rightarrow> disk \<Rightarrow> fd \<Rightarrow> u32 \<Rightarrow> u32 \<Rightarrow> string list \<Rightarrow> captured option list \<Rightarrow> captured list \<Rightarrow> packet \<Rightarrow> pr_ctx
      \<Rightarrow> bool" where
  "pr_sending buffer captures sd from dest queue past cs p s \<longleftrightarrow>
     (case s of (pr, w) \<Rightarrow>
        (\<exists>path paths. queue = path # paths \<and> pr_at captures path paths past cs p pr) \<and> pr_sound buffer captures pr
        \<and> pr_client_sd pr = sd \<and> pr_from pr = from \<and> pr_dest pr = dest \<and> pr_calm (pr_timeout pr) w)"

lemma calm_clock:
  assumes "pr_calm limit w" "clock_gettime w = (t, w1)"
  shows "pr_calm limit w1 \<and> word_of_int (tv_sec t) < limit"
  using assms by (cases "w_clock w" rule: remdups_adj.cases) (auto simp: clock_gettime_def pr_calm_def)

lemma calm_recv:
  assumes "pr_calm limit w" "sys_recv MTU w = (r, w1)"
  shows "pr_calm limit w1 \<and> r \<noteq> Inr []"
proof (cases "w_recv w")
  case Nil
  with assms show ?thesis by (auto simp: sys_recv_def)
next
  case (Cons a q)
  with assms show ?thesis
    by (cases a) (auto simp: sys_recv_def pr_calm_def MTU_def split: if_splits)
qed

lemma calm_same: "pr_calm limit w \<Longrightarrow> w_recv w' = w_recv w \<Longrightarrow> w_clock w' = w_clock w \<Longrightarrow> pr_calm limit w'"
  by (simp add: pr_calm_def)

lemma calm_epoll: "pr_calm limit w \<Longrightarrow> pr_calm limit (snd (epoll_ctl op sd evs w))"
  by (auto simp: pr_calm_def epoll_ctl_def Let_def split: list.split)

text \<open>A client that may write sends the packet, whatever else it may do.\<close>

lemma client_io_sends:
  assumes "pk_good cp" "map_of (pr_open pr) (payload_handle cp) = Some (past, cs)" "slot_readable buffer (pk_slot past cp)"
    "EPOLLOUT \<in> set evs" "pr_calm limit w"
  shows "\<exists>w'. pr_client_io buffer captures sys_recv sd evs cp (pr, w)
       = (Ret True, pr\<lparr>pr_trace := pr_trace pr @ [CallSend sd (slot_bytes buffer (pk_slot past cp))]\<rparr>, w')
     \<and> pr_calm limit w'"
proof -
  let ?m = "slot_bytes buffer (pk_slot past cp)"
  obtain r w1 where s: "send_packet buffer cp sd (pr, w) = (Ret r, pr\<lparr>pr_trace := pr_trace pr @ [CallSend sd ?m]\<rparr>, w1)"
      "w_recv w1 = w_recv w" "w_clock w1 = w_clock w"
    using runsD [OF send_runs [OF assms(1-3), of sd w]] by auto
  have c: "pr_calm limit w1" using calm_same [OF assms(5) s(2,3)] .
  obtain a w2 where rv: "sys_recv MTU w1 = (a, w2)" by (meson surj_pair)
  show ?thesis
    using assms(4) s(1) calm_epoll [OF c] calm_recv [OF c rv] rv
    by (auto simp: pr_client_io_def act_bind_def pr_take_def pr_receive_def act_then_def act_return_def pr_epoll_def pr_kernel_def
        act_update_def)
qed

lemma quiet_end:
  assumes "pr_calm (pr_timeout pr) w"
  shows "\<exists>w'. pr_sleep_or_quit d sd (pr, w) = (Ret (), pr\<lparr>pr_trace := pr_trace pr @ [CallSleep d]\<rparr>, w') \<and> pr_calm (pr_timeout pr) w'"
proof -
  obtain t w1 where t: "clock_gettime w = (t, w1)" using clock_pair by blast
  with calm_clock [OF assms t] show ?thesis
    by (auto simp: pr_sleep_or_quit_def pr_nanosleep_def pr_do_def act_then_def act_bind_def act_update_def)
qed

text \<open>The packet can be sent from the state that \<open>io\<close> finds.\<close>

lemma sending_at:
  assumes "pr_sending buffer captures sd from dest queue past cs p (pr, w)"
  obtains path paths where "queue = path # paths" "pr_at captures path paths past cs p pr" "pr_files captures path paths past cs pr"
    "pr_nextPacket pr = Some p" "pr_held p pr" "pr_sound buffer captures pr" "pr_client_sd pr = sd" "pr_from pr = from" "pr_dest pr = dest"
    "pr_calm (pr_timeout pr) w"
  using assms by (auto simp: pr_sending_def pr_at_def)

text \<open>
  An activation in the middle of a file: whatever \<open>io\<close> makes of the packet, the next one takes its
  place.
\<close>

lemma activate_inside:
  assumes "pr_sending buffer captures c from dest queue past cs p (pr, w)" "matching from dest past cs = m # ms"
    and past': "past' = until_next from dest past cs"
    and io: "\<And>pr1 cs'. pk_good p \<Longrightarrow> map_of (pr_open pr1) (payload_handle p) = Some (past', cs')
      \<Longrightarrow> slot_readable buffer (pk_slot past' p) \<Longrightarrow> pr_server_sd pr1 = pr_server_sd pr
      \<Longrightarrow> \<exists>w1. io p (pr1, w) = (Ret True, pr1\<lparr>pr_trace := pr_trace pr1 @ calls\<rparr>, w1) \<and> pr_calm (pr_timeout pr) w1"
  shows "\<exists>s' p' cs'. pr_activate buffer restart io sd (pr, w) = (Ret (), s')
     \<and> pr_sending buffer captures c from dest queue past' cs' p' s' \<and> pk_brief from dest past' cs' p' = m \<and> matching from dest past' cs' = ms
     \<and> pr_trace (fst s') = pr_trace pr @ calls @ [CallSleep (time_to (timestamp p) (fst m))]"
proof -
  let ?t = "time_to (timestamp p) (fst m)"
  obtain path paths where s: "queue = path # paths" "pr_at captures path paths past cs p pr" "pr_files captures path paths past cs pr"
      "pr_nextPacket pr = Some p" "pr_held p pr" "pr_sound buffer captures pr" "pr_client_sd pr = c" "pr_from pr = from" "pr_dest pr = dest"
      "pr_calm (pr_timeout pr) w"
    using assms(1) by (rule sending_at)
  obtain pr1 p' cs' where n: "get_next_packet (pr, w) = (Ret True, pr1, w)" "pr_fixed pr pr1" "pr_trace pr1 = pr_trace pr"
      "pr_sound buffer captures pr1" "pr_held p pr1" "pr_at captures path paths past' cs' p' pr1" "pk_brief from dest past' cs' p' = m"
      "matching from dest past' cs' = ms"
    using runsD [OF next_runs [OF s(3,6) refl, of w]] s(5,8,9) assms(2) past' by (auto split: if_splits)
  have fx: "pr_client_sd pr1 = c" "pr_from pr1 = from" "pr_dest pr1 = dest" "pr_timeout pr1 = pr_timeout pr" "pr_server_sd pr1 = pr_server_sd pr"
    using n(2) s by (simp_all add: pr_fixed_def)
  have f: "pr_files captures path paths past' cs' pr1" using n(6) by (simp add: pr_at_def)
  have "pr_sendable buffer p pr1" using next_sendable [OF s(2,6) _ n(5)] f s(8,9) past' by blast
  moreover have "map_of (pr_open pr1) (payload_handle p) = Some (past', cs')" using f n(5) by (auto simp: pr_files_def pr_held_def)
  ultimately obtain w1 where c: "io p (pr1, w) = (Ret True, pr1\<lparr>pr_trace := pr_trace pr1 @ calls\<rparr>, w1)" "pr_calm (pr_timeout pr) w1"
    using io [of pr1 cs'] fx(5) by (auto simp: pr_sendable_def)
  let ?pr2 = "pr1\<lparr>pr_trace := pr_trace pr1 @ calls\<rparr>"
  let ?pr3 = "?pr2\<lparr>pr_trace := pr_trace ?pr2 @ [CallSleep ?t]\<rparr>"
  obtain w2 where sl: "pr_sleep_or_quit ?t sd (?pr2, w1) = (Ret (), ?pr3, w2)" "pr_calm (pr_timeout pr) w2"
    using quiet_end [of ?pr2 w1 ?t sd] c(2) fx(4) by auto
  have "pr_wait p (pr1, w) = (Ret ?t, pr1, w)"
    using n(6,7) by (auto simp: pr_wait_def pr_at_def time_to_def pk_brief_def)
  then have "pr_activate buffer restart io sd (pr, w) = (Ret (), ?pr3, w2)"
    using s(4) n(1) c(1) sl(1) by (simp add: pr_activate_def act_bind_def)
  moreover have "pr_sending buffer captures c from dest queue past' cs' p' (?pr3, w2)"
    using s(1) n(4,6) fx sl(2) by (auto simp: pr_sending_def pr_at_def)
  ultimately show ?thesis using n(3,7,8) by auto
qed

text \<open>The slot of a packet to send, once the next one has been read.\<close>

definition slot_of :: "u32 \<Rightarrow> u32 \<Rightarrow> captured option list \<Rightarrow> captured list \<Rightarrow> packet \<Rightarrow> slot" where
  "slot_of from dest past cs p = snd (pk_brief from dest past cs p)"

lemma step_inside:
  assumes "pr_sending buffer captures sd from dest queue past cs p s" "matching from dest past cs = m # ms" "EPOLLOUT \<in> set evs"
  shows "\<exists>s' p' past' cs'. pcap_activateClient buffer captures sys_recv sd evs s = (Ret (), s')
     \<and> pr_sending buffer captures sd from dest queue past' cs' p' s' \<and> pk_brief from dest past' cs' p' = m \<and> matching from dest past' cs' = ms
     \<and> pr_trace (fst s') = pr_trace (fst s)
         @ [CallSend sd (slot_bytes buffer (slot_of from dest past cs p)), CallSleep (time_to (timestamp p) (fst m))]"
proof -
  obtain pr w where s: "s = (pr, w)" "pr_sending buffer captures sd from dest queue past cs p (pr, w)" "pr_client_sd pr = sd"
      "pr_calm (pr_timeout pr) w"
    using assms(1) by (cases s) (auto simp: pr_sending_def)
  define past' where "past' = until_next from dest past cs"
  have "\<exists>w1. pr_client_io buffer captures sys_recv sd evs p (pr1, w)
        = (Ret True, pr1\<lparr>pr_trace := pr_trace pr1 @ [CallSend sd (slot_bytes buffer (pk_slot past' p))]\<rparr>, w1) \<and> pr_calm (pr_timeout pr) w1"
    if "pk_good p" "map_of (pr_open pr1) (payload_handle p) = Some (past', cs')" "slot_readable buffer (pk_slot past' p)" for pr1 cs'
    by (rule client_io_sends [OF that assms(3) s(4)])
  from activate_inside [where io = "pr_client_io buffer captures sys_recv sd evs" and restart = "restart_client captures" and sd = sd,
      OF s(2) assms(2) past'_def this] s(1,3)
  show ?thesis by (fastforce simp: pcap_activateClient_def slot_of_def pk_brief_def past'_def)
qed

text \<open>At the beginning of the file at the head of the queue.\<close>

definition pr_begins :: "pcap_buffer \<Rightarrow> disk \<Rightarrow> fd \<Rightarrow> u32 \<Rightarrow> u32 \<Rightarrow> string list \<Rightarrow> pr_ctx \<Rightarrow> bool" where
  "pr_begins buffer captures sd from dest queue s \<longleftrightarrow>
     (\<exists>past cs p. pr_sending buffer captures sd from dest queue past cs p s
        \<and> packets_of captures from dest (hd queue) = pk_brief from dest past cs p # matching from dest past cs)"

text \<open>The last packet of a file; the next one has a packet to send.\<close>

lemma step_last:
  assumes "pr_sending buffer captures sd from dest queue past cs p s" "matching from dest past cs = []"
    and fertile: "packets_of captures from dest (hd (rotate1 queue)) \<noteq> []"
  shows "\<exists>s'. pcap_activateClient buffer captures sys_recv sd evs s = (Ret (), s') \<and> pr_begins buffer captures sd from dest (rotate1 queue) s'
     \<and> pr_trace (fst s') = pr_trace (fst s) @ [CallSend sd (slot_bytes buffer (slot_of from dest past cs p)), CallSleep a_minute]"
proof -
  obtain pr w where sw: "s = (pr, w)" "pr_sending buffer captures sd from dest queue past cs p (pr, w)" using assms(1) by (cases s) auto
  obtain path paths where s: "queue = path # paths" "pr_at captures path paths past cs p pr" "pr_files captures path paths past cs pr"
      "pr_nextPacket pr = Some p" "pr_held p pr" "pr_sound buffer captures pr" "pr_client_sd pr = sd" "pr_from pr = from" "pr_dest pr = dest"
      "pr_calm (pr_timeout pr) w"
    using sw(2) by (rule sending_at)
  define past' where "past' = until_next from dest past cs"
  obtain pr1 where n: "get_next_packet (pr, w) = (Ret False, pr1, w)" "pr_fixed pr pr1" "pr_trace pr1 = pr_trace pr"
      "pr_sound buffer captures pr1" "pr_held p pr1" "pr_files captures path paths past' [] pr1"
    using runsD [OF next_runs [OF s(3,6) refl, of w]] s(5,8,9) assms(2) by (auto simp: past'_def split: if_splits)
  have "pr_sendable buffer p pr1" using next_sendable [OF s(2,6) _ n(5)] n(6) s(8,9) past'_def by blast
  moreover have op: "map_of (pr_open pr1) (payload_handle p) = Some (past', [])" using n(5,6) by (auto simp: pr_files_def pr_held_def)
  ultimately have ok: "pk_good p" "slot_readable buffer (pk_slot past' p)" by (auto simp: pr_sendable_def)
  define m where "m = slot_bytes buffer (pk_slot past' p)"
  obtain r w1 where sn: "send_packet buffer p sd (pr1, w) = (Ret r, pr1\<lparr>pr_trace := pr_trace pr1 @ [CallSend sd m]\<rparr>, w1)"
      "w_recv w1 = w_recv w" "w_clock w1 = w_clock w"
    using runsD [OF send_runs [OF ok(1) op ok(2), of sd w]] by (auto simp: m_def)
  define pr2 where "pr2 = pr1\<lparr>pr_trace := pr_trace pr1 @ [CallSend sd m], pr_nextPacket := None\<rparr>"
  have pr2: "pr_files captures path paths past' [] pr2" "pr_sound buffer captures pr2" "pr_fixed pr pr2" "pr_trace pr2 = pr_trace pr @ [CallSend sd m]"
    using n by (auto simp: pr2_def)
  have ad: "pr_from pr2 = from" "pr_dest pr2 = dest" using pr2(3) s(8,9) by (simp_all add: pr_fixed_def)
  have fert: "\<not> pr_barren captures (path # paths) pr2"
    using fertile s(1) ad by (auto simp: pr_barren_def)
  obtain pr3 where r: "restart_client captures (pr2, w1) = (Ret True, pr3, w1)" "pr_fixed pr2 pr3" "pr_sound buffer captures pr3"
      "pr_next_file captures (path # paths) pr2 pr3" "pr_trace pr3 = pr_trace pr2 @ [CallSleep a_minute]"
    using runsD [OF restart_client_runs [unfolded pr_restarts_def, rule_format, OF pr2(1,2), of w1]] fert
    by (auto simp: a_minute_def split: if_splits)
  have fx: "pr_fixed pr pr3" using pr2(3) r(2) by (rule pr_fixed_trans)
  have "pcap_activateClient buffer captures sys_recv sd evs s = (Ret (), pr3, w1)"
    using sw(1) s(4,7) n(1) sn(1) r(1)
    by (simp add: pcap_activateClient_def pr_activate_def act_bind_def pr_last_packet_def act_then_def pr_do_def act_update_def
        pr_restart_or_quit_def act_return_def pr2_def)
  moreover have "pr_begins buffer captures sd from dest (rotate1 queue) (pr3, w1)"
    using r(3,4) s(1,7-9) fx ad calm_same [OF s(10) sn(2,3)]
    by (fastforce simp: pr_begins_def pr_next_file_def pr_sending_def pr_fixed_def)
  ultimately show ?thesis using sw(1) r(5) pr2(4) by (auto simp: slot_of_def pk_brief_def m_def past'_def)
qed

text \<open>The rest of a file, one activation for each packet.\<close>

lemma file_replayed:
  assumes "pr_sending buffer captures sd from dest queue past cs p s" "length evss = Suc (length (matching from dest past cs))"
    "\<forall>evs\<in>set evss. EPOLLOUT \<in> set evs" "packets_of captures from dest (hd (rotate1 queue)) \<noteq> []"
  shows "\<exists>s'. act_each (\<lambda>evs. pcap_activateClient buffer captures sys_recv sd evs) evss s = (Ret (), s')
     \<and> pr_begins buffer captures sd from dest (rotate1 queue) s'
     \<and> pr_trace (fst s') = pr_trace (fst s) @ schedule buffer sd (pk_brief from dest past cs p # matching from dest past cs)"
  using assms
proof (induction evss arbitrary: past cs p s)
  case (Cons evs evss)
  show ?case
  proof (cases "matching from dest past cs")
    case Nil
    with Cons.prems have "evss = []" by simp
    with step_last [OF Cons.prems(1) Nil Cons.prems(4), of evs] Nil show ?thesis
      by (auto simp: act_then_def act_bind_def act_return_def pk_brief_def slot_of_def)
  next
    case (Cons m ms)
    obtain s1 p1 past1 cs1 where 1: "pcap_activateClient buffer captures sys_recv sd evs s = (Ret (), s1)"
        "pr_sending buffer captures sd from dest queue past1 cs1 p1 s1" "pk_brief from dest past1 cs1 p1 = m" "matching from dest past1 cs1 = ms"
        "pr_trace (fst s1) = pr_trace (fst s)
           @ [CallSend sd (slot_bytes buffer (slot_of from dest past cs p)), CallSleep (time_to (timestamp p) (fst m))]"
      using step_inside [OF Cons.prems(1) Cons, of evs] Cons.prems(3) by auto
    moreover obtain s2 where "act_each (\<lambda>evs. pcap_activateClient buffer captures sys_recv sd evs) evss s1 = (Ret (), s2)"
        "pr_begins buffer captures sd from dest (rotate1 queue) s2"
        "pr_trace (fst s2) = pr_trace (fst s1) @ schedule buffer sd (pk_brief from dest past1 cs1 p1 # matching from dest past1 cs1)"
      using Cons.IH [OF 1(2)] Cons.prems(2-4) Cons 1(4) by auto
    ultimately show ?thesis
      using Cons by (cases m) (auto simp: act_then_def act_bind_def slot_of_def pk_brief_def)
  qed
qed simp

lemma file_round:
  assumes "pr_begins buffer captures sd from dest (path # paths) s" "length evss = length (packets_of captures from dest path)"
    "\<forall>evs\<in>set evss. EPOLLOUT \<in> set evs" "packets_of captures from dest (hd (paths @ [path])) \<noteq> []"
  shows "\<exists>s'. act_each (\<lambda>evs. pcap_activateClient buffer captures sys_recv sd evs) evss s = (Ret (), s')
     \<and> pr_begins buffer captures sd from dest (paths @ [path]) s'
     \<and> pr_trace (fst s') = pr_trace (fst s) @ schedule buffer sd (packets_of captures from dest path)"
proof -
  obtain past cs p where "pr_sending buffer captures sd from dest (path # paths) past cs p s"
      "packets_of captures from dest path = pk_brief from dest past cs p # matching from dest past cs"
    using assms(1) by (auto simp: pr_begins_def)
  with file_replayed [of buffer captures sd "from" dest "path # paths" past cs p s evss] assms(2-4) show ?thesis by simp
qed

lemma rounds:
  assumes "pr_begins buffer captures sd from dest (xs @ ys) s" "length evss = length (concat (map (packets_of captures from dest) xs))"
    "\<forall>evs\<in>set evss. EPOLLOUT \<in> set evs" "\<forall>path\<in>set (xs @ ys). packets_of captures from dest path \<noteq> []"
  shows "\<exists>s'. act_each (\<lambda>evs. pcap_activateClient buffer captures sys_recv sd evs) evss s = (Ret (), s')
     \<and> pr_begins buffer captures sd from dest (ys @ xs) s'
     \<and> pr_trace (fst s') = pr_trace (fst s) @ concat (map (\<lambda>path. schedule buffer sd (packets_of captures from dest path)) xs)"
  using assms
proof (induction xs arbitrary: ys evss s)
  case Nil
  then show ?case by (simp add: act_return_def)
next
  case (Cons x xs)
  let ?n = "length (packets_of captures from dest x)"
  have parts: "evss = take ?n evss @ drop ?n evss" "length (take ?n evss) = ?n" using Cons.prems(2) by simp_all
  have out: "\<forall>evs\<in>set (take ?n evss). EPOLLOUT \<in> set evs" "\<forall>evs\<in>set (drop ?n evss). EPOLLOUT \<in> set evs"
    using Cons.prems(3) by (auto dest: in_set_takeD in_set_dropD)
  have "packets_of captures from dest (hd ((xs @ ys) @ [x])) \<noteq> []" using Cons.prems(4) by (cases "xs @ ys") auto
  with Cons.prems(1) parts(2) out(1)
  obtain s1 where 1: "act_each (\<lambda>evs. pcap_activateClient buffer captures sys_recv sd evs) (take ?n evss) s = (Ret (), s1)"
      "pr_begins buffer captures sd from dest (xs @ ys @ [x]) s1"
      "pr_trace (fst s1) = pr_trace (fst s) @ schedule buffer sd (packets_of captures from dest x)"
    using file_round [of buffer captures sd "from" dest x "xs @ ys" s "take ?n evss"] by auto
  obtain s2 where 2: "act_each (\<lambda>evs. pcap_activateClient buffer captures sys_recv sd evs) (drop ?n evss) s1 = (Ret (), s2)"
      "pr_begins buffer captures sd from dest ((ys @ [x]) @ xs) s2"
      "pr_trace (fst s2) = pr_trace (fst s1) @ concat (map (\<lambda>path. schedule buffer sd (packets_of captures from dest path)) xs)"
    using Cons.IH [OF 1(2) _ out(2)] Cons.prems(2,4) by auto
  have "act_each (\<lambda>evs. pcap_activateClient buffer captures sys_recv sd evs) (take ?n evss @ drop ?n evss) s = (Ret (), s2)"
    using 1(1) 2(1) by (simp only: act_each_append) (simp add: act_then_def act_bind_def)
  with 1 2 parts(1) show ?case by simp
qed

end
