(* ===== verification/Pcap_Replay_Setup.thy ===== *)
theory Pcap_Replay_Setup
  imports Pcap_Replay_Schedule
begin

text \<open>
  The construction of an instance establishes the invariant: the functions that open sockets are in
  the frame \<open>pr_kept\<close>, those that handle events in the frame \<open>same_listend\<close>.
\<close>

section \<open>Frames\<close>

definition pr_kept :: "pr_ctx \<Rightarrow> pr_ctx \<Rightarrow> bool" where
  "pr_kept s t \<longleftrightarrow> pr_pcapStructQueue (fst t) = pr_pcapStructQueue (fst s) \<and> pr_pcapFilePathQueue (fst t) = pr_pcapFilePathQueue (fst s)
     \<and> pr_pcap (fst t) = pr_pcap (fst s) \<and> pr_open (fst t) = pr_open (fst s) \<and> pr_opened (fst t) = pr_opened (fst s)
     \<and> pr_trace (fst t) = pr_trace (fst s) \<and> pr_timeout (fst t) = pr_timeout (fst s) \<and> pr_isDone (fst t) = pr_isDone (fst s)"

abbreviation always :: "pr_ctx \<Rightarrow> bool" where "always \<equiv> \<lambda>_. True"

interpretation kept: act_frame always pr_kept
  by unfold_locales (auto simp: pr_kept_def)

lemma kept_basic:
  "stays always pr_kept pr_start_epoll" "stays always pr_kept pr_client_socket" "stays always pr_kept pr_server_socket"
  "stays always pr_kept (pr_connect a p)" "stays always pr_kept (pr_resolve lookup)" "stays always pr_kept (pr_do pr_count_connection)"
  "stays always pr_kept (pcap_client_epoll op evs)" "stays always pr_kept (pcap_server_epoll op evs)"
  "stays always pr_kept (send_to_proxy bs)" "stays always pr_kept (recv_from_proxy n)"
  by (auto intro!: staysI simp: pr_kept_def pr_start_epoll_def pr_client_socket_def pr_server_socket_def pr_connect_def pr_resolve_def
      pr_do_def act_update_def pr_count_connection_def pcap_client_epoll_def pcap_server_epoll_def send_to_proxy_def recv_from_proxy_def
      split: prod.split sum.split option.split)

lemma kept_and: "stays always pr_kept m \<Longrightarrow> stays always pr_kept n \<Longrightarrow> stays always pr_kept (pr_and m n)"
  unfolding pr_and_def by (intro kept.bind) (simp_all add: kept.return split: if_split)

lemma kept_if: "stays always pr_kept m \<Longrightarrow> stays always pr_kept n \<Longrightarrow> stays always pr_kept (if b then m else n)"
  by simp

text \<open>A function that first reads the state.\<close>

lemma kept_reads: "(\<And>pr. stays always pr_kept (m pr)) \<Longrightarrow> stays always pr_kept (\<lambda>(pr, w). m pr (pr, w))"
  by (auto simp: stays_def)

lemma kept_from: "stays always pr_kept m \<Longrightarrow> pr_kept s t \<Longrightarrow> pr_kept s (snd (m t))"
  by (cases t) (auto simp: stays_def intro: kept.R_trans)

lemma kept_proxy_request: "stays always pr_kept (pr_proxy_request lookup)"
proof (rule staysI)
  fix s :: pr_ctx
  obtain pr w where s: "s = (pr, w)" by fastforce
  have m: "stays always pr_kept (act_bind (send_to_proxy bs) (\<lambda>r3. if r3 \<noteq> Inr 10 then act_fail AssertFail
      else act_bind (recv_from_proxy 256) (\<lambda>r4. case r4 of Inl _ \<Rightarrow> act_fail AssertFail
        | Inr b \<Rightarrow> if length b < 4 then act_fail AssertFail else act_return (socks_accepts b))))" for bs
    by (intro kept.bind kept_basic kept_if kept.fail) (auto simp: kept.closed split: sum.split)
  show "True \<and> pr_kept s (snd (pr_proxy_request lookup s))"
    using kept_from [OF m, of s "(pr\<lparr>pr_serverIP := ip, pr_nmb_conn := n\<rparr>, w)" for ip n] s
    by (auto simp: pr_proxy_request_def pr_kept_def split: option.split)
qed

lemma kept_initiate: "stays always pr_kept (initiate_conn_to_proxy lookup)"
  unfolding initiate_conn_to_proxy_def
  by (intro kept.bind kept_basic kept_if kept.fail) (auto simp: kept.closed kept_proxy_request split: sum.split)

lemma kept_start_client: "stays always pr_kept (pcap_StartClient lookup)"
  unfolding pcap_StartClient_def by (intro kept_and kept.seq kept_basic kept_reads)

lemma kept_start_tor: "stays always pr_kept (pcap_StartClientTor lookup)"
proof -
  have "stays always pr_kept (pr_and (pr_connect a p) (act_bind (initiate_conn_to_proxy lookup) (\<lambda>_. pcap_client_epoll CtlAdd [EPOLLOUT])))" for a p
    by (intro kept_and kept.bind kept_basic kept_initiate)
  then show ?thesis
    unfolding pcap_StartClientTor_def
    by (intro kept_and kept_basic) (auto simp: stays_def kept.R_refl)
qed

lemma kept_start_server: "stays always pr_kept pcap_StartServer"
proof -
  have "stays always pr_kept (\<lambda>(pr, w). case sys_bind (pr_server_sd pr) w of (False, w1) \<Rightarrow> (Ret False, pr, w1)
      | (True, w1) \<Rightarrow> (case sys_listen (pr_server_sd pr) 0 (pr_serverPort pr) w1 of (False, w2) \<Rightarrow> (Ret False, pr, w2)
           | (True, w2) \<Rightarrow> pcap_server_epoll CtlAdd [EPOLLIN] (pr, w2)))"
    by (auto simp: stays_def pr_kept_def pcap_server_epoll_def split: prod.split bool.split)
  then show ?thesis
    unfolding pcap_StartServer_def by (intro kept_and kept.seq kept_basic)
qed

lemma start_node_kept:
  "pr_start_node lookup nodeType (pr, w) = (r, pr', w') \<Longrightarrow> pr_kept (pr, w) (pr', w')"
proof -
  have "pr_kept (pr, w) (snd (pr_start_node lookup nodeType (pr, w)))"
    using kept_from [OF kept_start_client, of "(pr, w)" "(pr\<lparr>pr_isClient := True, pr_isTorClient := False\<rparr>, w)" lookup]
      kept_from [OF kept_start_tor, of "(pr, w)" "(pr\<lparr>pr_isClient := True, pr_isTorClient := True\<rparr>, w)" lookup]
      kept_from [OF kept_start_server, of "(pr, w)" "(pr\<lparr>pr_isClient := False\<rparr>, w)"]
    by (auto simp: pr_start_node_def pr_kept_def)
  then show "pr_start_node lookup nodeType (pr, w) = (r, pr', w') \<Longrightarrow> pr_kept (pr, w) (pr', w')" by simp
qed

section \<open>The files are open, in order\<close>

definition pr_aligned :: "disk \<Rightarrow> pcap_replay \<Rightarrow> bool" where
  "pr_aligned captures pr \<longleftrightarrow>
     list_all2 (\<lambda>x q. \<exists>c0. map_of (pr_open pr) x = Some ([], c0) \<and> captures q = Some c0) (pr_pcapStructQueue pr) (pr_pcapFilePathQueue pr)
     \<and> distinct (pr_pcapStructQueue pr) \<and> (\<forall>x\<in>set (pr_pcapStructQueue pr). x < pr_opened pr)"

lemma open_all_aligned:
  "pr_open_all captures paths pr = Some pr' \<Longrightarrow> pr_aligned captures pr
    \<Longrightarrow> pr_aligned captures pr' \<and> pr_pcapFilePathQueue pr' = pr_pcapFilePathQueue pr @ paths \<and> pr_trace pr' = pr_trace pr
        \<and> pr_isDone pr' = pr_isDone pr"
proof (induction captures paths pr rule: pr_open_all.induct)
  case (2 captures path paths pr)
  then obtain cs where cs: "captures path = Some cs" by (auto split: option.splits)
  let ?g = "pr_opened pr"
  let ?pr = "pr\<lparr>pr_open := AList.update ?g ([], cs) (pr_open pr), pr_opened := ?g + 1,
      pr_pcapFilePathQueue := pr_pcapFilePathQueue pr @ [path], pr_pcapStructQueue := pr_pcapStructQueue pr @ [?g]\<rparr>"
  have g: "?g \<notin> set (pr_pcapStructQueue pr)" using 2(3) by (auto simp: pr_aligned_def)
  then have "list_all2 (\<lambda>x q. \<exists>c0. map_of (AList.update ?g ([], cs) (pr_open pr)) x = Some ([], c0) \<and> captures q = Some c0)
      (pr_pcapStructQueue pr) (pr_pcapFilePathQueue pr)"
    using 2(3) by (intro list_all2_open_update) (simp_all add: pr_aligned_def)
  then have "pr_aligned captures ?pr"
    using 2(3) g cs by (auto simp: pr_aligned_def intro: list_all2_appendI)
  with 2 cs show ?case by (simp add: pr_open_file_def)
qed simp

lemma aligned_files:
  assumes "pr_aligned captures pr" "pr_pcap pr = (case pr_pcapStructQueue pr of [] \<Rightarrow> None | h # _ \<Rightarrow> Some h)" "pr_pcap pr \<noteq> None"
  shows "\<exists>path paths cs. pr_pcapFilePathQueue pr = path # paths \<and> captures path = Some cs \<and> pr_files captures path paths [] cs pr"
  using assms by (cases "pr_pcapStructQueue pr") (auto simp: pr_aligned_def pr_files_def packets_of_def list_all2_Cons1)

text \<open>What is returned by \<open>pcap_replay_new\<close>; a memory that is never given up makes \<open>pr_sound\<close> of \<open>pr_frames\<close>.\<close>

definition pr_started :: "disk \<Rightarrow> string list \<Rightarrow> pcap_replay \<Rightarrow> bool" where
  "pr_started captures queue pr \<longleftrightarrow> pr_trace pr = [] \<and> \<not> pr_isDone pr \<and> pr_pcapFilePathQueue pr = queue
     \<and> (pr_frames captures pr \<longrightarrow>
        (\<exists>path paths past cs p. queue = path # paths \<and> pr_at captures path paths past cs p pr
           \<and> packets_of captures (pr_from pr) (pr_dest pr) path
               = pk_brief (pr_from pr) (pr_dest pr) past cs p # matching (pr_from pr) (pr_dest pr) past cs))"

lemma next_fixed: "get_next_packet (pr, w) = (r, pr', w') \<Longrightarrow> w' = w \<and> pr_fixed pr pr' \<and> pr_trace pr' = pr_trace pr
    \<and> pr_pcapFilePathQueue pr' = pr_pcapFilePathQueue pr"
  by (auto simp: get_next_packet_def pr_fixed_def pr_from_def pr_dest_def Let_def split: option.splits prod.splits ret.splits)

lemma new_files_started:
  assumes "pr_new_files captures lookup nodeType paths (pr, w) = (Ret (Some pr'), w')" "pr_aligned captures pr" "pr_pcapFilePathQueue pr = []"
    "pr_trace pr = []" "\<not> pr_isDone pr"
  shows "pr_started captures paths pr'"
proof -
  obtain pr1 where o: "pr_open_all captures paths pr = Some pr1"
    using assms(1) by (auto simp: pr_new_files_def split: option.splits)
  define pr2 where "pr2 = pr1\<lparr>pr_pcap := (case pr_pcapStructQueue pr1 of [] \<Rightarrow> None | h # _ \<Rightarrow> Some h)\<rparr>"
  have pr2: "pr_aligned captures pr2" "pr_pcap pr2 = (case pr_pcapStructQueue pr2 of [] \<Rightarrow> None | h # _ \<Rightarrow> Some h)"
      "pr_pcapFilePathQueue pr2 = paths" "pr_trace pr2 = []" "\<not> pr_isDone pr2"
    using open_all_aligned [OF o assms(2)] assms(3-5) by (auto simp: pr2_def pr_aligned_def)
  obtain pr3 w3 where s: "pr_start_node lookup nodeType (pr2, w) = (Ret True, pr3, w3)" "get_next_packet (pr3, w3) = (Ret True, pr', w')"
    using assms(1) o by (auto simp: pr_new_files_def Let_def pr2_def [symmetric] split: prod.splits ret.splits bool.splits)
  note k = start_node_kept [OF s(1), unfolded pr_kept_def, simplified]
  note nf = next_fixed [OF s(2)]
  have fx: "pr_from pr' = pr_from pr3" "pr_dest pr' = pr_dest pr3" using nf by (simp_all add: pr_fixed_def)
  have base: "pr_trace pr' = []" "\<not> pr_isDone pr'" "pr_pcapFilePathQueue pr' = paths"
    using k nf pr2 by (simp_all add: pr_fixed_def)
  have "\<exists>path ps past cs p. paths = path # ps \<and> pr_at captures path ps past cs p pr'
      \<and> packets_of captures (pr_from pr') (pr_dest pr') path
          = pk_brief (pr_from pr') (pr_dest pr') past cs p # matching (pr_from pr') (pr_dest pr') past cs" if frames: "pr_frames captures pr'"
  proof -
    have al: "pr_aligned captures pr3" "pr_pcap pr3 = (case pr_pcapStructQueue pr3 of [] \<Rightarrow> None | h # _ \<Rightarrow> Some h)" "pr_pcapFilePathQueue pr3 = paths"
      using k pr2 by (simp_all add: pr_aligned_def)
    have "pr_pcap pr3 \<noteq> None" using s(2) by (auto simp: get_next_packet_def split: option.splits)
    with aligned_files [OF al(1,2)] al(3) obtain path ps cs where f: "paths = path # ps" "captures path = Some cs" "pr_files captures path ps [] cs pr3"
      by auto
    have "pr_sound (\<lambda>_ _. Some NUL) captures pr3" using frames fx nf by (auto simp: pr_sound_def pr_frames_def pr_readable_def list_all_iff)
    with runsD [OF next_runs [OF f(3) _ refl, of _ w3]] s(2) f fx show ?thesis by (fastforce simp: packets_of_def split: if_splits)
  qed
  with base show ?thesis by (simp add: pr_started_def)
qed

lemma new_addresses_started:
  assumes "pr_new_addresses captures lookup nodeType (host # port # clientIP # clientPort # serverIP # serverPort # timeout # paths) (pr0, w)
      = (Ret (Some pr), w')"
    "pr_pcapStructQueue pr0 = []" "pr_pcapFilePathQueue pr0 = []" "pr_trace pr0 = []" "\<not> pr_isDone pr0"
  shows "pr_started captures paths pr"
proof -
  obtain pr1 w1 where "pr_new_files captures lookup nodeType paths (pr1, w1) = (Ret (Some pr), w')"
      "pr_pcapStructQueue pr1 = []" "pr_pcapFilePathQueue pr1 = []" "pr_trace pr1 = []" "\<not> pr_isDone pr1"
    using assms by (auto simp: pr_new_addresses_def Let_def split: option.splits prod.splits)
  then show ?thesis by (intro new_files_started) (auto simp: pr_aligned_def)
qed

text \<open>A client without Tor, or a server; and a client with Tor.\<close>

lemma new_started:
  assumes "pcap_replay_new captures lookup (nodeType # host # port # clientIP # clientPort # serverIP # serverPort # timeout # paths) w
      = (Ret (Some pr), w')" "cstr nodeType \<noteq> ''client-tor''"
  shows "pr_started captures paths pr"
  using assms by (intro new_addresses_started) (auto simp: pcap_replay_new_def pr_zero_def)

lemma new_tor_started:
  assumes "pcap_replay_new captures lookup (nodeType # proxy # host # port # clientIP # clientPort # serverIP # serverPort # timeout # paths) w
      = (Ret (Some pr), w')" "cstr nodeType = ''client-tor''"
  shows "pr_started captures paths pr"
  using assms by (intro new_addresses_started) (auto simp: pcap_replay_new_def pr_zero_def)

section \<open>The listening socket\<close>

definition same_listend :: "pr_ctx \<Rightarrow> pr_ctx \<Rightarrow> bool" where
  "same_listend s t \<longleftrightarrow> pr_server_sd (fst t) = pr_server_sd (fst s)"

interpretation listend: act_frame always same_listend
  by unfold_locales (auto simp: same_listend_def)

lemma listend_basic:
  "stays always same_listend get_next_packet" "stays always same_listend (send_packet buffer cp sd)"
  "stays always same_listend (change_pcap_file_to_send captures)" "stays always same_listend (pr_nanosleep t)"
  "stays always same_listend (deinstanciate sd)" "stays always same_listend (pr_receive get)" "stays always same_listend (pr_wait cp)"
  "stays always same_listend (pr_epoll op sd evs)" "stays always same_listend pr_first_received" "stays always same_listend pr_accept"
  "stays always same_listend (pr_do (\<lambda>pr. pr\<lparr>pr_isAllowedToSend := a, pr_isFirstPacketReceived := b\<rparr>))"
  "stays always same_listend (pr_do (\<lambda>pr. pr\<lparr>pr_nextPacket := n\<rparr>))"
  by (auto intro!: staysI simp: same_listend_def get_next_packet_def send_packet_def change_pcap_file_to_send_def pr_nanosleep_def pr_do_def
      act_update_def deinstanciate_def pr_kernel_def act_then_def act_bind_def pr_receive_def pr_wait_def pr_epoll_def pr_first_received_def
      pr_accept_def pr_open_file_def Let_def split: prod.split sum.split option.split list.split ret.split)

lemma listend_restart:
  "stays always same_listend (restart_client captures)" "stays always same_listend (restart_server captures)"
  unfolding restart_client_def restart_server_def
  by (intro listend.bind listend_basic, auto intro!: listend.closed listend_basic)+

lemma listend_quit:
  "stays always same_listend restart \<Longrightarrow> stays always same_listend (pr_restart_or_quit restart sd)"
  unfolding pr_restart_or_quit_def by (intro listend.bind) (auto intro!: listend.closed listend_basic)

lemma listend_take:
  "stays always same_listend restart \<Longrightarrow> stays always same_listend seen \<Longrightarrow> stays always same_listend (pr_take get restart seen sd)"
  unfolding pr_take_def by (intro listend.bind listend_basic) (auto intro!: listend.closed listend_quit)

lemma listend_sleep: "stays always same_listend (pr_sleep_or_quit d sd)"
proof -
  have "stays always same_listend (\<lambda>(pr, w). case clock_gettime w of
      (t, w1) \<Rightarrow> if pr_timeout pr \<le> word_of_int (tv_sec t) then deinstanciate sd (pr, w1) else (Ret (), pr, w1))"
    using listend_basic(5) [of sd] by (auto simp: stays_def same_listend_def split: prod.split)
  then show ?thesis unfolding pr_sleep_or_quit_def by (intro listend.seq listend_basic)
qed

lemma listend_activate:
  assumes "stays always same_listend restart" "\<And>cp. stays always same_listend (io cp)"
  shows "stays always same_listend (pr_activate buffer restart io sd)"
proof -
  have "stays always same_listend (act_bind get_next_packet (\<lambda>found. if \<not> found then pr_last_packet buffer restart cp sd
      else act_bind (pr_wait cp) (\<lambda>d. act_bind (io cp) (\<lambda>go_on. if go_on then pr_sleep_or_quit d sd else act_return ()))))" for cp
    unfolding pr_last_packet_def
    by (intro listend.bind listend_basic)
      (auto intro!: listend.closed listend_basic listend_sleep listend_quit assms)
  then show ?thesis by (auto simp: stays_def pr_activate_def same_listend_def split: option.split)
qed

lemma listend_client_io: "stays always same_listend (pr_client_io buffer captures get sd evs cp)"
  unfolding pr_client_io_def by (auto intro!: listend.closed listend_basic listend_take listend_restart)

lemma listend_server_io: "stays always same_listend (pr_server_io buffer captures get sd evs cp)"
proof -
  have "stays always same_listend (act_bind (send_packet buffer cp sd) (\<lambda>_. act_bind (pr_receive get) (\<lambda>r. act_then pr_first_received
      (if r = Inr [] then act_then (pr_restart_or_quit (restart_server captures) sd) (act_return False) else act_return True))))"
    "stays always same_listend (act_bind (send_packet buffer cp sd) (\<lambda>_. act_return True))"
    "stays always same_listend (pr_take get (restart_server captures) (act_then pr_first_received (pr_epoll CtlMod sd [EPOLLIN, EPOLLOUT])) sd)"
    "stays always same_listend pr_accept"
    by (auto intro!: listend.closed listend_basic listend_quit listend_restart listend_take)
  then show ?thesis by (auto simp: stays_def pr_server_io_def same_listend_def)
qed

lemma listend_client: "stays always same_listend (pcap_activateClient buffer captures get sd evs)"
proof -
  have "stays always same_listend (pr_activate buffer (restart_client captures) (pr_client_io buffer captures get sd evs) sd)"
    by (intro listend_activate listend_restart listend_client_io)
  then show ?thesis by (auto simp: stays_def pcap_activateClient_def same_listend_def)
qed

lemma listend_server:
  assumes "pcap_activateServer buffer captures get sd evs s = Some (r, t)"
  shows "same_listend s t"
proof -
  have "stays always same_listend (pr_activate buffer (restart_server captures) (pr_server_io buffer captures get sd evs) sd)"
    by (intro listend_activate listend_restart listend_server_io)
  moreover have "stays always same_listend (pr_nanosleep \<lparr>tv_sec = 0, tv_nsec = 500000000\<rparr>)" by (rule listend_basic)
  moreover have "same_listend (pr, w) (pr\<lparr>pr_isAllowedToSend := True\<rparr>, w1)" for pr w w1 by (simp add: same_listend_def)
  ultimately show ?thesis
    using assms by (cases s) (auto simp: pcap_activateServer_def dest: staysD split: if_splits)
qed

end
