(* ===== verification/Pcap_Replay_Properties.thy ===== *)
theory Pcap_Replay_Properties
  imports Pcap_Replay_Setup
begin

text \<open>
  The theorems about the replayer of captures: which bytes of a capture are the payload, what is sent when, that the
  program does not crash on good captures, and where the replay differs from the capture.
\<close>

section \<open>Packets\<close>

text \<open>
  A TCP segment over IPv4 over Ethernet as it is laid out on the wire: \<open>mac\<close> are the two Ethernet addresses, \<open>tos\<close>, \<open>mid\<close>,
  \<open>csum\<close>, \<open>ports\<close> and \<open>win\<close> the header fields that the program does not look at.
\<close>

definition total_length :: "string \<Rightarrow> string \<Rightarrow> string \<Rightarrow> nat" where
  "total_length ipopt tcpopt payload = 40 + length ipopt + length tcpopt + length payload"

definition ip_header :: "string \<Rightarrow> string \<Rightarrow> string \<Rightarrow> nat \<Rightarrow> u32 \<Rightarrow> u32 \<Rightarrow> string \<Rightarrow> string" where
  "ip_header tos mid csum tlen src dst ipopt =
     char_of (64 + (5 + length ipopt div 4)) # tos @ char_of (tlen div 256) # char_of (tlen mod 256) # mid @ char_of (6 :: nat) # csum
       @ le_bytes 4 (unat src) @ le_bytes 4 (unat dst) @ ipopt"

definition tcp_header :: "string \<Rightarrow> string \<Rightarrow> string \<Rightarrow> string" where
  "tcp_header ports win tcpopt = ports @ char_of (16 * (5 + length tcpopt div 4)) # win @ tcpopt"

definition fields_ok :: "string \<Rightarrow> string \<Rightarrow> string \<Rightarrow> string \<Rightarrow> string \<Rightarrow> string \<Rightarrow> bool" where
  "fields_ok mac tos mid csum ports win \<longleftrightarrow>
     length mac = 12 \<and> length tos = 1 \<and> length mid = 5 \<and> length csum = 2 \<and> length ports = 12 \<and> length win = 7"

definition options_ok :: "string \<Rightarrow> bool" where
  "options_ok opt \<longleftrightarrow> length opt mod 4 = 0 \<and> length opt \<le> 40"

definition tcp_frame ::
    "string \<Rightarrow> string \<Rightarrow> string \<Rightarrow> string \<Rightarrow> string \<Rightarrow> string \<Rightarrow> u32 \<Rightarrow> u32 \<Rightarrow> string \<Rightarrow> string \<Rightarrow> string \<Rightarrow> string \<Rightarrow> string" where
  "tcp_frame mac tos mid csum ports win src dst ipopt tcpopt payload padding =
     mac @ char_of (8 :: nat) # char_of (0 :: nat) # ip_header tos mid csum (total_length ipopt tcpopt payload) src dst ipopt
       @ tcp_header ports win tcpopt @ payload @ padding"

lemma u32_back: "(of_nat (le_value (le_bytes 4 (unat x))) :: u32) = x"
proof -
  have "unat x < 256 ^ 4" using unsigned_less [of x] by simp
  then show ?thesis by (simp add: le_value_bytes)
qed

lemma option_words:
  assumes "options_ok opt"
  shows "(69 + length opt div 4) mod 16 * 4 = 20 + length opt" "16 * (5 + length opt div 4) mod 256 div 16 * 4 = 20 + length opt"
    "69 + length opt div 4 < 256"
proof -
  obtain m where m: "length opt = 4 * m" "m \<le> 10" using assms by (auto simp: options_ok_def elim!: dvdE)
  then have "(69 + m) mod 16 = 5 + m" "16 * (5 + m) mod 256 = 16 * (5 + m)" by (presburger, simp)
  with m show "(69 + length opt div 4) mod 16 * 4 = 20 + length opt" "16 * (5 + length opt div 4) mod 256 div 16 * 4 = 20 + length opt"
    "69 + length opt div 4 < 256" by simp_all
qed

lemma byte_behind: "length pre = i \<Longrightarrow> host_at i 1 (pre @ char_of (v :: nat) # rest) = v mod 256"
  by (auto simp: host_at_def)

lemma sniff_frame:
  assumes "fields_ok mac tos mid csum ports win" "options_ok ipopt" "options_ok tcpopt" "total_length ipopt tcpopt payload < 2 ^ 16"
  shows "sniff from dest (tcp_frame mac tos mid csum ports win src dst ipopt tcpopt payload padding)
    = Ret (if src = from \<and> dst = dest then Some (54 + length ipopt + length tcpopt, int (length payload)) else None)"
proof -
  let ?b = "tcp_frame mac tos mid csum ports win src dst ipopt tcpopt payload padding"
  let ?pre = "mac @ char_of (8 :: nat) # char_of (0 :: nat) # ip_header tos mid csum (total_length ipopt tcpopt payload) src dst ipopt @ ports"
  note len = assms(1) [unfolded fields_ok_def]
  note layout = tcp_frame_def ip_header_def tcp_header_def host_at_def net_at_def SIZE_ETHERNET_def
  have long: "54 + length ipopt + length tcpopt \<le> length ?b" using len by (simp add: layout)
  have et: "ether_type ?b = 8" using len by (simp add: ether_type_def layout)
  have hl: "IP_HL ?b * 4 = 20 + length ipopt"
    using len option_words [OF assms(2)] by (simp add: IP_HL_def layout)
  have pr: "ip_p ?b = 6" using len by (simp add: ip_p_def layout)
  have ln: "ip_len ?b = total_length ipopt tcpopt payload"
    using len assms(4) by (simp add: ip_len_def layout)
  have ad: "ip_src ?b = src" "ip_dst ?b = dst" using len u32_back by (simp_all add: ip_src_def ip_dst_def layout)
  have tl: "TH_OFF (20 + length ipopt) ?b * 4 = 20 + length tcpopt"
    using byte_behind [of ?pre "14 + (20 + length ipopt) + 12" "16 * (5 + length tcpopt div 4)" "win @ tcpopt @ payload @ padding"] len
      option_words [OF assms(3)]
    by (simp add: TH_OFF_def SIZE_ETHERNET_def tcp_frame_def ip_header_def tcp_header_def)
  have "sniff from dest b = Ret (if src = from \<and> dst = dest then Some (54 + length ipopt + length tcpopt, int (length payload)) else None)"
    if "54 + length ipopt + length tcpopt \<le> length b" "ether_type b = 8" "IP_HL b * 4 = 20 + length ipopt" "ip_p b = 6"
      "ip_len b = total_length ipopt tcpopt payload" "ip_src b = src" "ip_dst b = dst" "TH_OFF (20 + length ipopt) b * 4 = 20 + length tcpopt"
    for b using that by (auto simp: sniff_def Let_def SIZE_ETHERNET_def total_length_def)
  from this [OF long et hl pr ln ad tl] show ?thesis .
qed

lemma payload_behind:
  assumes "fields_ok mac tos mid csum ports win"
  shows "take (length payload) (drop (54 + length ipopt + length tcpopt)
     (tcp_frame mac tos mid csum ports win src dst ipopt tcpopt payload padding)) = payload"
proof -
  let ?pre = "mac @ char_of (8 :: nat) # char_of (0 :: nat) # ip_header tos mid csum (total_length ipopt tcpopt payload) src dst ipopt
      @ tcp_header ports win tcpopt"
  have "length ?pre = 54 + length ipopt + length tcpopt" using assms by (simp add: fields_ok_def ip_header_def tcp_header_def)
  then have "drop (54 + length ipopt + length tcpopt) (?pre @ payload @ padding) = payload @ padding" by (metis append_eq_conv_conj)
  then show ?thesis by (simp add: tcp_frame_def)
qed

text \<open>
  C32: the payload of a packet is found.  From the frame of any TCP segment over IPv4 (with
  options, and with padding behind it) the offset and the size that \<open>get_next_packet\<close> takes down are
  those of the payload, exactly when the addresses are the two it looks for.
\<close>

theorem payload_found:
  assumes "fields_ok mac tos mid csum ports win" "options_ok ipopt" "options_ok tcpopt" "total_length ipopt tcpopt payload < 2 ^ 16"
    and "frame = tcp_frame mac tos mid csum ports win src dst ipopt tcpopt payload padding"
  shows "if src = wanted_src \<and> dst = wanted_dst
     then \<exists>off. sniff wanted_src wanted_dst frame = Ret (Some (off, int (length payload))) \<and> take (length payload) (drop off frame) = payload
     else sniff wanted_src wanted_dst frame = Ret None"
  using sniff_frame [OF assms(1-4)] payload_behind [OF assms(1)] assms(5) by simp

text \<open>A small frame between two addresses that are \<open>0.0.0.0\<close>.\<close>

definition zeroes :: "nat \<Rightarrow> string" where "zeroes n = replicate n NUL"

definition demo_frame :: "string \<Rightarrow> string" where
  "demo_frame payload = tcp_frame (zeroes 12) (zeroes 1) (zeroes 5) (zeroes 2) (zeroes 12) (zeroes 7) 0 0 [] [] payload []"

lemma demo_fields: "fields_ok (zeroes 12) (zeroes 1) (zeroes 5) (zeroes 2) (zeroes 12) (zeroes 7)" "options_ok []"
  by (simp_all add: fields_ok_def options_ok_def zeroes_def)

theorem payload_found_witness:
  "\<exists>off. sniff 0 0 (demo_frame ''abc'') = Ret (Some (off, 3)) \<and> take 3 (drop off (demo_frame ''abc'')) = ''abc''"
  using payload_found [OF demo_fields(1) demo_fields(2) demo_fields(2) _ demo_frame_def, of "''abc''" 0 0]
  by (simp add: total_length_def numeral_3_eq_3)

lemma demo_sniff: "length payload < 1000 \<Longrightarrow> sniff 0 0 (demo_frame payload) = Ret (Some (54, int (length payload)))"
  using sniff_frame [OF demo_fields(1) demo_fields(2) demo_fields(2), of payload 0 0 0 0 "[]"] by (simp add: demo_frame_def total_length_def)

section \<open>Time\<close>

text \<open>
  C33: for times as libpcap delivers them the wait is the difference of the two times exactly, in a form that \<open>nanosleep\<close>
  accepts unless it is negative, and the result tells whether it is.
\<close>

theorem wait_is_exact:
  assumes "tm_normal y" "tm_normal x" "timeval_subtract y x = (r, negative)"
  shows "TIME_TO_NS r = (tm_us x - tm_us y) * 1000 \<and> 0 \<le> tv_nsec r \<and> tv_nsec r < NSEC \<and> (negative \<longleftrightarrow> tm_us x < tm_us y)"
proof -
  have "0 \<le> tv_nsec r \<and> tv_nsec r < NSEC \<and> (negative \<longleftrightarrow> tm_us x < tm_us y)"
    using assms(3) subtract_normal [OF assms(2,1)] assms(1,2) by (auto simp: tm_normal_def tm_us_def NSEC_def split: if_splits)
  with subtract_exact [OF assms(3)] show ?thesis by blast
qed

theorem wait_is_exact_witness:
  "let r = fst (timeval_subtract \<lparr>tm_sec = 1, tm_usec = 900000\<rparr> \<lparr>tm_sec = 3, tm_usec = 100000\<rparr>)
   in TIME_TO_NS r = 1200000000 \<and> tv_nsec r < NSEC"
  using wait_is_exact [of "\<lparr>tm_sec = 1, tm_usec = 900000\<rparr>" "\<lparr>tm_sec = 3, tm_usec = 100000\<rparr>"
      "fst (timeval_subtract \<lparr>tm_sec = 1, tm_usec = 900000\<rparr> \<lparr>tm_sec = 3, tm_usec = 100000\<rparr>)"
      "snd (timeval_subtract \<lparr>tm_sec = 1, tm_usec = 900000\<rparr> \<lparr>tm_sec = 3, tm_usec = 100000\<rparr>)"]
  by (simp add: tm_normal_def tm_us_def Let_def)

section \<open>A client replays its files round and round\<close>

lemma begin_client:
  assumes "pr_started captures paths pr" "pr_sound buffer captures pr" "pr_calm (pr_timeout pr) w"
  shows "pr_begins buffer captures (pr_client_sd pr) (pr_from pr) (pr_dest pr) paths (pr, w) \<and> pr_trace pr = []"
  using assms by (fastforce simp: pr_started_def pr_begins_def pr_sending_def pr_sound_def)

lemma many_rounds:
  assumes "pr_begins buffer captures sd from dest paths s" "length evss = k * length (concat (map (packets_of captures from dest) paths))"
    "\<forall>evs\<in>set evss. EPOLLOUT \<in> set evs" "\<forall>path\<in>set paths. packets_of captures from dest path \<noteq> []"
  shows "\<exists>s'. act_each (\<lambda>evs. pcap_activateClient buffer captures sys_recv sd evs) evss s = (Ret (), s')
     \<and> pr_trace (fst s') = pr_trace (fst s)
         @ concat (replicate k (concat (map (\<lambda>path. schedule buffer sd (packets_of captures from dest path)) paths)))"
  using assms
proof (induction k arbitrary: evss s)
  case 0
  then show ?case by (simp add: act_return_def)
next
  case (Suc k)
  let ?n = "length (concat (map (packets_of captures from dest) paths))"
  have parts: "evss = take ?n evss @ drop ?n evss" "length (take ?n evss) = ?n" "length (drop ?n evss) = k * ?n"
    using Suc.prems(2) by simp_all
  have out: "\<forall>evs\<in>set (take ?n evss). EPOLLOUT \<in> set evs" "\<forall>evs\<in>set (drop ?n evss). EPOLLOUT \<in> set evs"
    using Suc.prems(3) by (auto dest: in_set_takeD in_set_dropD)
  obtain s1 where 1: "act_each (\<lambda>evs. pcap_activateClient buffer captures sys_recv sd evs) (take ?n evss) s = (Ret (), s1)"
      "pr_begins buffer captures sd from dest paths s1"
      "pr_trace (fst s1) = pr_trace (fst s) @ concat (map (\<lambda>path. schedule buffer sd (packets_of captures from dest path)) paths)"
    using rounds [of buffer captures sd "from" dest paths "[]" s "take ?n evss"] Suc.prems(1,4) parts(2) out(1) by auto
  obtain s2 where 2: "act_each (\<lambda>evs. pcap_activateClient buffer captures sys_recv sd evs) (drop ?n evss) s1 = (Ret (), s2)"
      "pr_trace (fst s2) = pr_trace (fst s1)
         @ concat (replicate k (concat (map (\<lambda>path. schedule buffer sd (packets_of captures from dest path)) paths)))"
    using Suc.IH [OF 1(2) parts(3) out(2) Suc.prems(4)] by blast
  have "act_each (\<lambda>evs. pcap_activateClient buffer captures sys_recv sd evs) (take ?n evss @ drop ?n evss) s = (Ret (), s2)"
    using 1(1) 2(1) by (simp only: act_each_append) (simp add: act_then_def act_bind_def)
  with parts(1) 1(3) 2(2) show ?case by simp
qed

text \<open>
  C30: the calls of a client, byte for byte.  The captures hold the headers and payloads they announce, and libpcap still has a
  payload when it is copied (\<open>pr_sound\<close>).  Then a client that was constructed from arguments with the files \<open>paths\<close>, that may
  write whenever it is woken, whose connection stays open and whose time limit is not reached calls \<open>send\<close> and
  \<open>nanosleep\<close> exactly as \<open>schedule\<close> says: for the first file, the second, and so on to the last, then for the first again,
  \<open>k\<close> rounds for as many activations as \<open>k\<close> rounds have packets.  One activation makes one \<open>send\<close>, for the
  packets that match in the order of the capture; its size is that of the packet's payload, and the wait is the time to the next
  packet.  Its bytes are those that libpcap's buffer holds at the place of the payload \<^emph>\<open>after\<close> the next packet (or the end of
  the file) has been read, so they are the payload only if libpcap keeps the packet until then, which it does not
  promise; C39 and the last lines of the witness show other bytes.
\<close>

theorem client_replays_rounds:
  assumes "pcap_replay_new captures lookup (''client'' # host # port # clientIP # clientPort # serverIP # serverPort # timeout # paths) w
      = (Ret (Some pr), w')"
    and "pr_sound buffer captures pr" "\<forall>path\<in>set paths. packets_of captures (pr_from pr) (pr_dest pr) path \<noteq> []"
    and "pr_calm (pr_timeout pr) w'" "\<forall>evs\<in>set evss. EPOLLOUT \<in> set evs"
    and "length evss = k * length (concat (map (packets_of captures (pr_from pr) (pr_dest pr)) paths))"
  shows "\<exists>s'. act_each (\<lambda>evs. pcap_activateClient buffer captures sys_recv (pr_client_sd pr) evs) evss (pr, w') = (Ret (), s')
     \<and> pr_trace (fst s') = concat (replicate k
         (concat (map (\<lambda>path. schedule buffer (pr_client_sd pr) (packets_of captures (pr_from pr) (pr_dest pr) path)) paths)))"
proof -
  have "pr_started captures paths pr" by (rule new_started [OF assms(1)]) simp
  from begin_client [OF this assms(2,4)] many_rounds [OF _ assms(6,5,3), of buffer "pr_client_sd pr" "(pr, w')"]
  show ?thesis by simp
qed


text \<open>A libpcap that reads every packet into the same buffer and never gives it up.\<close>

definition one_buffer :: pcap_buffer where
  "one_buffer past i = Some (case handed past of [] \<Rightarrow> NUL | c # _ \<Rightarrow> if i < length (cp_data c) then cp_data c ! i else NUL)"

lemma one_buffer_readable: "slot_readable one_buffer s"
  by (cases s) (simp add: one_buffer_def list_all_iff)

text \<open>A capture of two packets.\<close>

definition demo_disk :: disk where
  "demo_disk = [''a.pcap'' \<mapsto>
     [\<lparr>cp_ts = \<lparr>tm_sec = 1, tm_usec = 500000\<rparr>, cp_data = demo_frame ''A''\<rparr>,
      \<lparr>cp_ts = \<lparr>tm_sec = 2, tm_usec = 250000\<rparr>, cp_data = demo_frame ''B''\<rparr>]]"

definition demo_args :: "string list" where
  "demo_args = [''localhost'', ''80'', ''0'', ''5555'', ''0'', ''80'', ''500'', ''a.pcap'']"

lemma demo_atoi: "atoi ''500'' = 500" by code_simp

lemma demo_aton: "inet_aton ''0'' = Some 0"
proof -
  have "addr_parts (split_tokens ''.'' 0 (takeWhile (\<lambda>c. \<not> isspace c) (cstr ''0''))) = Some [0]" by code_simp
  then show ?thesis by (simp add: inet_aton_def addr_value_def htonl_def)
qed

definition demo_state :: pcap_replay where
  "demo_state = pr_zero\<lparr>pr_serverHostName := ''localhost'', pr_serverPort := htons (word_of_int (atoi ''80'')), pr_serverPortInt := atoi ''80'',
     pr_isAllowedToSend := True, pr_isFirstPacketReceived := True, pr_client_port_in_pcap := word_of_int (atoi ''5555''),
     pr_server_port_in_pcap := word_of_int (atoi ''80''), pr_timeout := 500\<rparr>"

definition demo_world :: world where "demo_world = quiet_world\<lparr>w_socket := [Inr 3, Inr 4]\<rparr>"

lemma demo_clock: "clock_gettime demo_world = (\<lparr>tv_sec = 0, tv_nsec = 0\<rparr>, demo_world)"
  by (simp add: clock_gettime_def demo_world_def quiet_world_def)

lemma demo_arguments:
  "pcap_replay_new captures lookup (''client'' # demo_args) demo_world = pr_new_files captures lookup ''client'' [''a.pcap''] (demo_state, demo_world)"
  by (simp add: pcap_replay_new_def demo_args_def pr_new_addresses_def demo_atoi demo_aton demo_clock demo_state_def pr_zero_def)


lemma demo_replayer:
  "\<exists>pr w'. pr_new_files demo_disk lookup ''client'' [''a.pcap''] (demo_state, demo_world) = (Ret (Some pr), w')
     \<and> pr_client_sd pr = 4 \<and> pr_from pr = 0 \<and> pr_dest pr = 0 \<and> pr_timeout pr = 500 \<and> pr_pcapFilePathQueue pr = [''a.pcap'']
     \<and> pr_server_sd pr = 0 \<and> w_recv w' = [] \<and> w_clock w' = []"
proof -
  obtain cs where cs: "demo_disk ''a.pcap'' = Some (\<lparr>cp_ts = \<lparr>tm_sec = 1, tm_usec = 500000\<rparr>, cp_data = demo_frame ''A''\<rparr> # cs)"
    by (simp add: demo_disk_def)
  define pr1 where "pr1 = demo_state\<lparr>pr_open := [(0, [], \<lparr>cp_ts = \<lparr>tm_sec = 1, tm_usec = 500000\<rparr>, cp_data = demo_frame ''A''\<rparr> # cs)],
      pr_opened := 1, pr_pcapFilePathQueue := [''a.pcap''], pr_pcapStructQueue := [0], pr_pcap := Some 0\<rparr>"
  have "ci_prefix ''localhost'' ''localhost''" by code_simp
  then obtain pr2 w2 where 2: "pr_start_node lookup ''client'' (pr1, demo_world) = (Ret True, pr2, w2)"
      "pr_client_sd pr2 = 4" "pr_isClient pr2" "pr_timeout pr2 = 500" "pr_server_sd pr2 = 0" "w_recv w2 = []" "w_clock w2 = []"
      "pr_client_IP_in_pcap pr2 = 0" "pr_server_IP_in_pcap pr2 = 0"
    by (simp add: pr_start_node_def pcap_StartClient_def pr_and_def act_bind_def act_then_def
      pr_start_epoll_def sys_socket_def pr_client_socket_def pr_resolve_def pr_do_def act_update_def pr_count_connection_def pr_connect_def
      sys_connect_def emit_def pcap_client_epoll_def epoll_ctl_def act_return_def pr1_def demo_state_def pr_zero_def demo_world_def quiet_world_def)
  have "pr_new_files demo_disk lookup ''client'' [''a.pcap''] (demo_state, demo_world)
      = (case get_next_packet (pr2, w2) of (Ret True, pr3, w3) \<Rightarrow> (Ret (Some pr3), w3) | (Ret False, t) \<Rightarrow> (UB, pcap_replay_free t)
          | (AssertFail, t) \<Rightarrow> (AssertFail, snd t) | (UB, t) \<Rightarrow> (UB, snd t))"
    using 2(1) cs by (simp add: pr_new_files_def pr_open_file_def pr1_def demo_state_def pr_zero_def)
  moreover have "pr_pcap pr2 = Some 0" "pr_open pr2 = pr_open pr1" "pr_pcapFilePathQueue pr2 = [''a.pcap'']"
    using start_node_kept [OF 2(1)] by (simp_all add: pr_kept_def pr1_def)
  ultimately show ?thesis
    using 2(2-) by (simp add: get_next_packet_def pr1_def demo_sniff pr_from_def pr_dest_def Let_def)
qed

definition packet_A :: captured where
  "packet_A = \<lparr>cp_ts = \<lparr>tm_sec = 1, tm_usec = 500000\<rparr>, cp_data = demo_frame ''A''\<rparr>"

definition packet_B :: captured where
  "packet_B = \<lparr>cp_ts = \<lparr>tm_sec = 2, tm_usec = 250000\<rparr>, cp_data = demo_frame ''B''\<rparr>"

lemma demo_matching:
  "packets_of demo_disk 0 0 ''a.pcap'' =
     [(\<lparr>tm_sec = 1, tm_usec = 500000\<rparr>, [Some packet_B, Some packet_A], 54, 1),
      (\<lparr>tm_sec = 2, tm_usec = 250000\<rparr>, [None, Some packet_B, Some packet_A], 54, 1)]"
  by (simp add: packets_of_def demo_disk_def demo_sniff packet_A_def packet_B_def)

lemma demo_payload: "drop 54 (demo_frame payload) = payload" "length (demo_frame payload) = 54 + length payload"
proof -
  have l: "length (demo_frame payload) = 54 + length payload"
    by (simp add: demo_frame_def tcp_frame_def ip_header_def tcp_header_def zeroes_def)
  then show "length (demo_frame payload) = 54 + length payload" .
  have "take (length payload) (drop 54 (demo_frame payload)) = payload"
    using payload_behind [OF demo_fields(1), of payload "[]" "[]" 0 0 "[]"] by (simp add: demo_frame_def)
  with l show "drop 54 (demo_frame payload) = payload" by simp
qed

lemma demo_byte: "demo_frame [c] ! 54 = c"
proof -
  have "drop 54 (demo_frame [c]) ! 0 = demo_frame [c] ! 54" by (subst nth_drop) (simp_all add: demo_payload)
  then show ?thesis by (simp add: demo_payload)
qed

lemma demo_sound:
  "pr_from pr = 0 \<Longrightarrow> pr_dest pr = 0 \<Longrightarrow> pr_pcapFilePathQueue pr = [''a.pcap''] \<Longrightarrow> pr_sound one_buffer demo_disk pr"
  by (auto simp: pr_sound_def pr_frames_def pr_readable_def one_buffer_readable demo_disk_def good_frame_def demo_sniff demo_payload)

theorem client_replays_rounds_witness:
  "\<exists>pr w' s'. pcap_replay_new demo_disk (\<lambda>_. None) (''client'' # demo_args) demo_world = (Ret (Some pr), w')
     \<and> act_each (\<lambda>evs. pcap_activateClient one_buffer demo_disk sys_recv 4 evs) (replicate 4 [EPOLLOUT]) (pr, w') = (Ret (), s')
     \<and> pr_trace (fst s') = [CallSend 4 ''B'', CallSleep \<lparr>tv_sec = 0, tv_nsec = 750000000\<rparr>, CallSend 4 ''B'', CallSleep a_minute,
                            CallSend 4 ''B'', CallSleep \<lparr>tv_sec = 0, tv_nsec = 750000000\<rparr>, CallSend 4 ''B'', CallSleep a_minute]"
proof -
  obtain pr w' where n: "pcap_replay_new demo_disk (\<lambda>_. None) (''client'' # demo_args) demo_world = (Ret (Some pr), w')"
      "pr_client_sd pr = 4" "pr_from pr = 0" "pr_dest pr = 0" "pr_timeout pr = 500" "pr_pcapFilePathQueue pr = [''a.pcap'']"
      "w_recv w' = []" "w_clock w' = []"
    using demo_replayer [of "\<lambda>_. None"] by (auto simp: demo_arguments)
  have "pr_calm (pr_timeout pr) w'" using n by (simp add: pr_calm_def)
  from client_replays_rounds [OF n(1) [unfolded demo_args_def] demo_sound [OF n(3,4,6)] _ this, of "replicate 4 [EPOLLOUT]" 2]
  show ?thesis
    using n(1-4)
    by (simp add: demo_matching time_to_def timeval_subtract_def numeral_2_eq_2 one_buffer_def packet_B_def demo_payload demo_byte)
qed

section \<open>The program does not crash\<close>





section \<open>What is replayed, and what is not\<close>

lemma those_map_Some: "those (map Some xs) = Some xs"
  by (induction xs) auto

text \<open>
  C39: the bytes of another packet are sent.  When libpcap keeps the packet it returned last in one buffer, what the client
  sends for a packet is cut out of the \<^emph>\<open>next\<close> matching packet, at the place where the payload
  of the first one was: the next packet is read before the payload is copied.
\<close>

theorem other_packets_bytes_sent:
  assumes "\<And>c past i. i < length (cp_data c) \<Longrightarrow> buffer (Some c # past) i = Some (cp_data c ! i)"
    and "pr_nextPacket pr = Some p" "pk_good p" "pr_pcap pr = Some (payload_handle p)" "pr_client_sd pr = sd"
    and "map_of (pr_open pr) (payload_handle p) = Some (past, c # cs)" "sniff (pr_from pr) (pr_dest pr) (cp_data c) = Ret (Some (off, len))"
    and "payload_offset p + nat (payload_size p) \<le> length (cp_data c)"
    and "pr_timeout pr > 0" "w_clock w = []"
  shows "\<exists>s'. pcap_activateClient buffer captures get sd [EPOLLOUT] (pr, w) = (Ret (), s')
     \<and> pr_trace (fst s') = pr_trace pr
         @ [CallSend sd (take (nat (payload_size p)) (drop (payload_offset p) (cp_data c))), CallSleep (time_to (timestamp p) (cp_ts c))]"
proof -
  let ?o = "payload_offset p" and ?n = "nat (payload_size p)"
  have "map (buffer (Some c # past)) [?o ..< ?o + ?n] = map Some (take ?n (drop ?o (cp_data c)))"
    using assms(1,8) by (intro nth_equalityI) (auto simp: min_def simp flip: take_map drop_map)
  then have m: "those (map (buffer (Some c # past)) [?o ..< ?o + ?n]) = Some (take ?n (drop ?o (cp_data c)))" by (simp add: those_map_Some)
  obtain r w1 where sn: "sys_send sd (take ?n (drop ?o (cp_data c))) w = (r, w1)" by (meson surj_pair)
  then have w1: "w_clock w1 = []" using sys_send_rest assms(10) by fastforce
  obtain b w2 where ep: "epoll_ctl CtlMod sd [EPOLLIN, EPOLLOUT] w1 = (b, w2)" by (meson surj_pair)
  with w1 have "w_clock w2 = []" by (auto simp: epoll_ctl_def Let_def split: list.splits)
  then have ck: "clock_gettime w2 = (\<lparr>tv_sec = 0, tv_nsec = 0\<rparr>, w2)" by (simp add: clock_gettime_def)
  define p' where "p' = \<lparr>timestamp = cp_ts c, payload_handle = payload_handle p, payload_offset = off,
      payload_room = length (cp_data c) - off, payload_size = len\<rparr>"
  define pr1 where "pr1 = pr\<lparr>pr_open := AList.update (payload_handle p) (Some c # past, cs) (pr_open pr), pr_nextPacket := Some p'\<rparr>"
  have nx: "get_next_packet (pr, w) = (Ret True, pr1, w)"
    using assms(4,6,7) by (simp add: get_next_packet_def pr1_def p'_def Let_def)
  have wt: "pr_wait p (pr1, w) = (Ret (time_to (timestamp p) (cp_ts c)), pr1, w)"
    by (simp add: pr_wait_def pr1_def p'_def time_to_def)
  have se: "send_packet buffer p sd (pr1, w)
      = (Ret r, pr1\<lparr>pr_trace := pr_trace pr @ [CallSend sd (take ?n (drop ?o (cp_data c)))]\<rparr>, w1)"
    using assms(3) sn m by (simp add: send_packet_def pr1_def pk_good_def Let_def)
  have "\<not> pr_timeout pr \<le> 0" using assms(9) by simp
  then have "pr_activate buffer (restart_client captures) (pr_client_io buffer captures get sd [EPOLLOUT]) sd (pr, w)
      = (Ret (), pr1\<lparr>pr_trace := pr_trace pr @ [CallSend sd (take ?n (drop ?o (cp_data c))), CallSleep (time_to (timestamp p) (cp_ts c))]\<rparr>, w2)"
    using assms(2) nx wt se ep ck
    by (simp add: pr_activate_def act_bind_def pr_client_io_def act_then_def pr_epoll_def pr_kernel_def act_update_def act_return_def
        pr_sleep_or_quit_def pr_nanosleep_def pr_do_def pr1_def)
  then show ?thesis using assms(5) by (simp add: pcap_activateClient_def)
qed

text \<open>The packet \<open>A\<close> is to be sent, \<open>B\<close> follows.\<close>

definition before_B :: pcap_replay where
  "before_B = pr_zero\<lparr>pr_client_sd := 4, pr_isClient := True, pr_timeout := 500, pr_pcap := Some 0,
     pr_nextPacket := Some \<lparr>timestamp = \<lparr>tm_sec = 1, tm_usec = 0\<rparr>, payload_handle = 0, payload_offset = 54, payload_room = 1, payload_size = 1\<rparr>,
     pr_open := [(0, [Some \<lparr>cp_ts = \<lparr>tm_sec = 1, tm_usec = 0\<rparr>, cp_data = demo_frame ''A''\<rparr>],
                     [\<lparr>cp_ts = \<lparr>tm_sec = 2, tm_usec = 0\<rparr>, cp_data = demo_frame ''B''\<rparr>])]\<rparr>"

theorem other_packets_bytes_sent_witness:
  "\<exists>s'. pcap_activateClient one_buffer demo_disk sys_recv 4 [EPOLLOUT] (before_B, quiet_world) = (Ret (), s')
     \<and> pr_trace (fst s') = [CallSend 4 ''B'', CallSleep \<lparr>tv_sec = 1, tv_nsec = 0\<rparr>]"
  using other_packets_bytes_sent [where buffer = one_buffer and pr = before_B and captures = demo_disk and get = sys_recv and sd = 4 and off = 54 and len = 1
      and w = quiet_world and past = "[Some \<lparr>cp_ts = \<lparr>tm_sec = 1, tm_usec = 0\<rparr>, cp_data = demo_frame ''A''\<rparr>]"
      and c = "\<lparr>cp_ts = \<lparr>tm_sec = 2, tm_usec = 0\<rparr>, cp_data = demo_frame ''B''\<rparr>" and cs = "[]"]
  by (simp add: one_buffer_def before_B_def pr_zero_def pk_good_def pr_from_def pr_dest_def demo_sniff demo_payload quiet_world_def
      time_to_def timeval_subtract_def)

text \<open>
  A packet is lost when the socket can only be read.  The next packet takes the place of the one to send also when the
  client is woken for reading only; nothing is sent for it, then or later.
\<close>

theorem reading_drops_packet:
  assumes "pr_sending buffer captures sd from dest queue past cs p s" "matching from dest past cs = m # ms" "EPOLLOUT \<notin> set evs"
  shows "\<exists>s' p' past' cs'. pcap_activateClient buffer captures sys_recv sd evs s = (Ret (), s')
     \<and> pr_sending buffer captures sd from dest queue past' cs' p' s' \<and> pk_brief from dest past' cs' p' = m \<and> matching from dest past' cs' = ms
     \<and> pr_trace (fst s') = pr_trace (fst s) @ [CallSleep (time_to (timestamp p) (fst m))]"
proof -
  obtain pr w where s: "s = (pr, w)" "pr_sending buffer captures sd from dest queue past cs p (pr, w)" "pr_client_sd pr = sd"
      "pr_calm (pr_timeout pr) w"
    using assms(1) by (cases s) (auto simp: pr_sending_def)
  obtain a w2 where rv: "sys_recv MTU w = (a, w2)" by (meson surj_pair)
  have "\<exists>w1. pr_client_io buffer captures sys_recv sd evs p (pr1, w) = (Ret True, pr1\<lparr>pr_trace := pr_trace pr1 @ []\<rparr>, w1)
      \<and> pr_calm (pr_timeout pr) w1" for pr1
    using assms(3) rv calm_recv [OF s(4) rv] s(4)
    by (auto simp: pr_client_io_def act_bind_def pr_take_def pr_receive_def act_return_def act_then_def)
  from activate_inside [where io = "pr_client_io buffer captures sys_recv sd evs" and restart = "restart_client captures" and sd = sd,
      OF s(2) assms(2) refl this] s(1,3)
  show ?thesis by (fastforce simp: pcap_activateClient_def)
qed

theorem reading_drops_packet_witness:
  "\<exists>pr w' s'. pcap_replay_new demo_disk (\<lambda>_. None) (''client'' # demo_args) demo_world = (Ret (Some pr), w')
     \<and> pcap_activateClient one_buffer demo_disk sys_recv 4 [EPOLLIN] (pr, w') = (Ret (), s')
     \<and> pr_trace (fst s') = [CallSleep \<lparr>tv_sec = 0, tv_nsec = 750000000\<rparr>]"
proof -
  obtain pr w' where n: "pcap_replay_new demo_disk (\<lambda>_. None) (''client'' # demo_args) demo_world = (Ret (Some pr), w')"
      "pr_client_sd pr = 4" "pr_from pr = 0" "pr_dest pr = 0" "pr_timeout pr = 500" "pr_pcapFilePathQueue pr = [''a.pcap'']"
      "w_recv w' = []" "w_clock w' = []"
    using demo_replayer [of "\<lambda>_. None"] by (auto simp: demo_arguments)
  have c: "pr_calm (pr_timeout pr) w'" using n by (simp add: pr_calm_def)
  have st: "pr_started demo_disk [''a.pcap''] pr" using new_started [OF n(1) [unfolded demo_args_def]] by simp
  have b: "pr_begins one_buffer demo_disk 4 0 0 [''a.pcap''] (pr, w')" "pr_trace pr = []"
    using begin_client [OF st demo_sound [OF n(3,4,6)] c] n(2-4) by simp_all
  obtain past cs p where p: "pr_sending one_buffer demo_disk 4 0 0 [''a.pcap''] past cs p (pr, w')" "timestamp p = \<lparr>tm_sec = 1, tm_usec = 500000\<rparr>"
      "matching 0 0 past cs = [(\<lparr>tm_sec = 2, tm_usec = 250000\<rparr>, [None, Some packet_B, Some packet_A], 54, 1)]"
    using b(1) by (auto simp: pr_begins_def demo_matching pk_brief_def)
  from reading_drops_packet [OF p(1,3), of "[EPOLLIN]"] n(1) b(2) p(2) show ?thesis
    by (auto simp: time_to_def timeval_subtract_def)
qed

lemma drive_some_exits: "drive step s = Some y \<Longrightarrow> \<not> (\<forall>s. \<exists>s'. step s = Again s')"
  by (rule drive.raw_induct [where P = "\<lambda>step s y. \<not> (\<forall>s. \<exists>s'. step s = Again s')"])
    (auto split: outcome.splits, metis outcome.distinct(1))

lemma drive_again_only: "(\<And>s. \<exists>s'. step s = Again s') \<Longrightarrow> drive step s = None"
  using drive_some_exits by fastforce

text \<open>
  C40: a closed peer hangs the server.  After a change of file the server first empties its socket, with a loop that
  ends only when \<open>recv\<close> fails.  On a connection that the peer has closed \<open>recv\<close> returns 0 each time, and the
  handler never returns.
\<close>

theorem closed_peer_hangs_server:
  assumes "\<And>n w. fst (get n w) = Inr []" "\<not> pr_isAllowedToSend pr" "EPOLLIN \<in> set evs"
  shows "pcap_activateServer buffer captures get sd evs (pr, w) = None"
proof -
  have "\<exists>w'. pr_drain_step get w = Again w'" for w
    using assms(1) [of MTU w] by (cases "get MTU w") (simp add: pr_drain_step_def)
  then have "drive (pr_drain_step get) w = None" by (rule drive_again_only)
  with assms(2,3) show ?thesis by (simp add: pcap_activateServer_def)
qed

theorem closed_peer_hangs_server_witness:
  "pcap_activateServer one_buffer demo_disk (\<lambda>n w. (Inr [], w)) 7 [EPOLLIN] (pr_zero, quiet_world) = None"
  by (rule closed_peer_hangs_server) (simp_all add: pr_zero_def)

section \<open>The proxy\<close>

text \<open>
  The handshake with the Tor proxy.  With a proxy that agrees to SOCKS 5 without authentication and answers the command, the
  client sends the greeting and the command to connect to the server's address and port, and is then
  registered for writing and started, whether the answer grants the request or refuses it.
\<close>

theorem proxy_answer_ignored:
  assumes "w_socket w = [Inr e, Inr d]" "w_connect w = [None]" "w_recv w = [RData [char_of (5::nat), char_of (0::nat)], RData answer]"
    and "w_send w = [SOk 3, SOk 10]" "4 \<le> length answer" "length answer \<le> 256" "d \<noteq> -1"
    and "lookup (pr_serverHostName pr) = Some ip" "\<not> pr_isRestarting pr" "pr_server_sd pr \<noteq> -1" "w_log w = []"
  shows "\<exists>w'. pcap_StartClientTor lookup (pr, w)
       = (Ret True, pr\<lparr>pr_ed := e, pr_client_sd := d, pr_serverIP := ip, pr_nmb_conn := pr_nmb_conn pr + 1\<rparr>, w')
     \<and> w_log w' = [Connecting d (pr_proxyIP pr) (pr_proxyPort pr), Sent d [char_of (5::nat), char_of (1::nat), char_of (0::nat)],
         Sent d (socks_connect ip (pr_next_port pr)), Epoll CtlAdd d [EPOLLOUT]]"
proof -
  have len: "length (socks_connect ip port) = 10" for port by (simp add: socks_connect_def)
  have acc: "socks_accepts [char_of (5::nat), char_of (0::nat)]" by (simp add: socks_accepts_def)
  have ne: "answer \<noteq> []" using assms(5) by auto
  show ?thesis
    using assms len ne acc
    by (simp add: pcap_StartClientTor_def pr_and_def act_bind_def pr_start_epoll_def pr_client_socket_def sys_socket_def pr_connect_def
        sys_connect_def Let_def initiate_conn_to_proxy_def send_to_proxy_def recv_from_proxy_def sys_send_def sys_recv_def act_fail_def
        act_return_def pr_proxy_request_def pcap_client_epoll_def pr_next_port_def emit_def epoll_ctl_def split: list.split)
qed

theorem proxy_answer_ignored_witness:
  "\<exists>pr' w'. pcap_StartClientTor (\<lambda>_. Some 0) (pr_zero, quiet_world\<lparr>w_socket := [Inr 3, Inr 4], w_connect := [None],
         w_recv := [RData [char_of (5::nat), char_of (0::nat)], RData (replicate 10 (char_of (1::nat)))], w_send := [SOk 3, SOk 10]\<rparr>)
       = (Ret True, pr', w') \<and> last (w_log w') = Epoll CtlAdd 4 [EPOLLOUT]"
  using proxy_answer_ignored [of "quiet_world\<lparr>w_socket := [Inr 3, Inr 4], w_connect := [None],
         w_recv := [RData [char_of (5::nat), char_of (0::nat)], RData (replicate 10 (char_of (1::nat)))], w_send := [SOk 3, SOk 10]\<rparr>"
      3 4 "replicate 10 (char_of (1::nat))" "\<lambda>_. Some 0" pr_zero 0]
  by (auto simp: quiet_world_def pr_zero_def)

section \<open>Construction without a packet\<close>

text \<open>
  A node whose first file holds no packet between the two addresses reads the freed instance, to log that there is
  none.
\<close>

theorem no_match_uses_freed:
  assumes "pr_open_all captures paths pr = Some pr1" "pr_pcapStructQueue pr1 = h # hs"
    and "pr_start_node lookup nodeType (pr1\<lparr>pr_pcap := Some h\<rparr>, w) = (Ret True, pr2, w2)"
    and "map_of (pr_open pr1) h = Some ([], cs)" "\<forall>c\<in>set cs. good_frame (pr_from pr2) (pr_dest pr2) c" "matching (pr_from pr2) (pr_dest pr2) [] cs = []"
  shows "fst (pr_new_files captures lookup nodeType paths (pr, w)) = UB"
proof -
  have k: "pr_pcap pr2 = Some h" "pr_open pr2 = pr_open pr1" using start_node_kept [OF assms(3)] by (simp_all add: pr_kept_def)
  obtain rest where "next_match (pr_from pr2) (pr_dest pr2) h [] cs = Ret (None, rest)"
    using next_match_spec [OF assms(5), of h "[]"] assms(6) by (auto split: option.splits)
  then show ?thesis
    using assms(1-4) k by (simp add: pr_new_files_def get_next_packet_def Let_def)
qed

end
