(* ===== verification/Spec2Isabelle.thy ===== *)
theory Spec2Isabelle
  imports Fileserver_Properties Filegetter_Properties File_Transfer Service_Getter_Properties Cdf
    Torrent_Authority_Properties Torrent_Server_Properties Torrent_Client_Properties
    Torrent_Client_Fetch Torrent_Protocol Torrent_Node_Properties Ping_Properties
    Torctl_Module_Properties Echo_Properties Pcap_Replay_Properties
begin

text \<open>
  A verification development for the Shadow plug-ins.

  \<^bold>\<open>The program.\<close>  Shadow is a network simulator; a plug-in is a C program that it starts,
  wakes when a descriptor is ready, and stops.  Every plug-in has the same shape: a handler is
  called with a descriptor, runs a state machine over non-blocking sockets until it would
  block, and returns a code.  This repository holds plug-ins for file transfer
  (\<open>src/filetransfer/\<close>), a torrent-like exchange of blocks (\<open>src/torrent/\<close>), a latency
  probe (\<open>src/ping/\<close>), a controller of Tor processes (\<open>src/torcontrol/\<close>), an echo service
  (\<open>src/echo/\<close>), a replayer of network captures (\<open>src/pcap_replay/\<close>) and others.

  \<^bold>\<open>The common ground.\<close>
  \<^item> \<open>Prelude\<close>: how a C function ends (\<open>ret\<close>: a value, a failed assertion, undefined
    behaviour), handlers as a step function iterated by \<open>drive\<close>, and the locales
    \<open>handler_loop\<close> and \<open>handler_relation\<close>, the contract of such a handler.  \<open>drive\<close> is a
    \<open>partial_function\<close>: a handler that never returns is \<open>None\<close>, so that termination is a
    theorem for each handler and no fuel is needed.
  \<^item> \<open>CString\<close>, \<open>CNumber\<close>: the functions of the C library and of GLib on strings and numbers.
  \<^item> \<open>Action\<close>: actions on a state that may end badly, with their combinators; the locale
    \<open>act_frame\<close> for what an action leaves alone, and \<open>runs\<close> for what it achieves.
  \<^item> \<open>Kernel\<close>: sockets, epoll, files, clock and random numbers.  What the program cannot
    predict it takes from queues in the record \<open>world\<close>; what it does to its environment is
    appended to a log.  A theorem for all worlds is one for all behaviours of the kernel.  An
    empty queue answers that the call would block.  The end of a stream is the empty message,
    given once for each entry of the queue; where it matters that the kernel repeats it, in the
    replayer of captures, \<open>recv\<close> is a parameter, which may answer 0 for ever.

  A buffer with its write offset is the list of the bytes below that offset.  Objects that are
  reached from several places, or freed while others still point to them, live in a list or a
  partial map that serves as heap.  A local array that is not initialised is a parameter
  \<open>stack\<close>.  The lookup of host names, the name of the host and what \<open>epoll_wait\<close> reports are
  parameters too.

  \<^bold>\<open>File transfer.\<close>  \<open>Fileserver\<close> is \<open>fileserver.c\<close>: \<open>fs_step\<close> is one pass through the
  \<open>switch\<close> of \<open>fileserver_activate\<close>.  \<open>Fileserver_Http\<close> relates its reading of a request to the
  text of one, \<open>Fileserver_Correct\<close> holds the invariant and the measure of the handler,
  \<open>Fileserver_Service\<close> the contract of a request from the first byte to the last of the reply,
  and \<open>Fileserver_Properties\<close> the theorems: every activation returns, a request in any pieces
  is served once, bytes are conserved, connections do not disturb each other.
  \<open>Filegetter\<close> is \<open>filegetter.c\<close>, with \<open>Filegetter_Http\<close>, \<open>Filegetter_Correct\<close>,
  \<open>Filegetter_Socks\<close> and \<open>Filegetter_Properties\<close> built the same way.  \<open>File_Transfer\<close> joins the
  two: what the client asks for is what it gets.  \<open>Cdf\<close> is \<open>cdf.c\<close>, with doubles as rationals,
  which is faithful since the code only compares them.  \<open>Service_Getter\<close> and
  \<open>Service_Getter_Properties\<close> are \<open>service-filegetter.c\<close>: lists of downloads, think times,
  expiration, restart after a failure.

  \<^bold>\<open>Torrent.\<close>  \<open>Torrent_Authority\<close>, \<open>Torrent_Server\<close>, \<open>Torrent_Client\<close>, \<open>Torrent_Service\<close> and
  \<open>Torrent_Node\<close> are \<open>torrent-authority.c\<close>, \<open>torrent-server.c\<close>, \<open>torrent-client.c\<close>,
  \<open>torrent-service.c\<close> and \<open>torrent.c\<close>; \<open>Torrent_Base\<close> holds what they share.  The theories
  whose names end in \<open>_Correct\<close>, \<open>_Properties\<close> and \<open>_Fetch\<close> hold the invariants and the
  theorems; \<open>Torrent_Client_Faults\<close> lists the ways in which the client's handler does not
  return, from which \<open>Torrent_Node_Properties\<close> derives when a run of the whole node returns;
  \<open>Torrent_Protocol\<close> relates what one part prints to what another reads.

  \<^bold>\<open>Ping.\<close>  \<open>Ping_Client\<close>, \<open>Ping_Server\<close> and \<open>Ping\<close> are \<open>ping-client.c\<close>, \<open>ping-server.c\<close>, and
  \<open>ping-service.c\<close> with \<open>ping.c\<close>; \<open>Ping_Wire\<close> is the round trip of a ping, \<open>Ping_Properties\<close>
  the rest.

  \<^bold>\<open>Tor control.\<close>  The code is in \<open>Torctl_Names\<close> (the words of the control protocol),
  \<open>Torctl_Base\<close> (connections and commands), \<open>Torctl_Events\<close> (the text of an event becomes the
  arguments of a handler), \<open>Torctl\<close> (reply lines, the module interface, activation), all of
  \<open>torcontrol.c\<close>, and \<open>Torctl_Circuit_Build\<close>, \<open>Torctl_Logger\<close>, \<open>Torctl_Pinger\<close>, the three
  modules.  \<open>Torctl_Words\<close> reads the words back, \<open>Torctl_Local\<close> confines an activation to its
  connection, \<open>Torctl_Stream\<close> shows that lines do not depend on how they arrive, \<open>Torctl_Safe\<close>
  and \<open>Torctl_Build_Correct\<close> hold the invariant of the circuit builder and its dialogue with Tor,
  \<open>Torctl_Properties\<close> and \<open>Torctl_Module_Properties\<close> the theorems.

  \<^bold>\<open>Echo.\<close>  \<open>Echo\<close> is \<open>echo-tcp.c\<close>, \<open>echo-udp.c\<close>, \<open>echo-pipe.c\<close> and \<open>echo-main.c\<close>;
  \<open>Echo_Properties\<close> shows that the server copies and that the client gets back what it sent.

  \<^bold>\<open>Replay of captures.\<close>  \<open>Pcap_Replay\<close> is \<open>pcap_replay.c\<close> and the \<open>main\<close> of
  \<open>pcap_replay-main.c\<close>.  libpcap is not part of the program: the captures on disk are the parameter
  \<open>captures\<close>, and what can be read through a pointer that libpcap has handed out is the parameter
  \<open>buffer\<close>, which depends on all its answers so far and may say that the memory was given up.
  \<open>Pcap_Replay_Correct\<close> holds the invariant of handles, paths and packet to send,
  \<open>Pcap_Replay_Schedule\<close> the abstract schedule and that a client follows it,
  \<open>Pcap_Replay_Setup\<close> that construction establishes the invariant, and
  \<open>Pcap_Replay_Properties\<close> the theorems.

  \<^bold>\<open>Not modelled.\<close>  The programs and the registration of the plug-ins with Shadow of file transfer,
  torrent, ping and Tor control (\<open>*-main.c\<close>, \<open>*-plugin.c\<close>, \<open>filetransfer.c\<close>) only pass arguments
  on.  \<open>src/hello/\<close> and \<open>src/tor-echo/\<close> are small examples, \<open>src/browser/\<close> drives the HTTP client
  over the resources of a page that libraries parse, \<open>src/web/\<close> is C++ on top of libevent and
  spdylay, and \<open>src/python/\<close> embeds an interpreter.  Log messages are left out, also the
  effect of one at level ERROR in the replayer, where the log function aborts the process (it is
  used when a socket, a name or a connection fails during construction); \<open>ferror\<close> after a
  complete \<open>fwrite\<close> in the HTTP client; the freeing of memory whose pointers are not used
  again; the setting of \<open>errno\<close> strings.
\<close>

end
